(* ===== verification/Prelude.thy ===== *)
theory Prelude
  imports Complex_Main "HOL-Library.AList" "HOL-Library.Char_ord" "HOL-Library.List_Lexorder"
    "HOL-Library.Multiset" "HOL-Library.Word"
begin

text \<open>
  Shared vocabulary of the development: the errors of \<open>internal/domain/errors.go\<close>, Go maps as
  association lists, Go's comparator sorts, the few functions of Go's \<open>strings\<close> and \<open>fmt\<close>
  packages the control plane uses, and the generic lemmas the component theories share.

  A Go map is an association list; a well-formed one has distinct keys. The order of the list is
  the order in which a \<open>range\<close> loop visits the entries. Go leaves that order open, so a theorem
  that holds for every list holds for every iteration order. A nil map and an empty map read the
  same and are both \<open>[]\<close>.
\<close>

named_theorems gomap_simps \<open>lookups in updated association lists\<close>
named_theorems claim_intros \<open>introduction rules for the per-job claim order\<close>

section \<open>Errors\<close>

datatype go_error =
    ErrForbidden | ErrNotFound | ErrConflict | ErrUnauthorized | ErrInvalidInput
  | ErrStaleInventory | ErrInsufficientGPU | ErrJobNotStoppable
  | ErrOther string | ValidationError "(string \<times> string) list"

section \<open>Go maps\<close>

type_synonym ('k, 'v) gomap = "('k \<times> 'v) list"
type_synonym labels = "(string, string) gomap"

abbreviation gokeys :: "('k, 'v) gomap \<Rightarrow> 'k list" where
  "gokeys m \<equiv> map fst m"

abbreviation wf_map :: "('k, 'v) gomap \<Rightarrow> bool" where
  "wf_map m \<equiv> distinct (gokeys m)"

abbreviation put :: "'k \<Rightarrow> 'v \<Rightarrow> ('k, 'v) gomap \<Rightarrow> ('k, 'v) gomap" where
  "put k v m \<equiv> AList.update k v m"

text \<open>Reading a missing key of a \<open>map[string]string\<close> gives the empty string.\<close>

definition label_get :: "labels \<Rightarrow> string \<Rightarrow> string" where
  "label_get m k = (case map_of m k of None \<Rightarrow> '''' | Some v \<Rightarrow> v)"

lemma map_of_put [simp, gomap_simps]:
  "map_of (put k v m) k' = (if k' = k then Some v else map_of m k')"
  by (simp add: update_conv')

lemma wf_put [simp]: "wf_map m \<Longrightarrow> wf_map (put k v m)"
  by (rule distinct_update)

lemma length_put: "length (put k v m) \<le> Suc (length m)"
  by (induction m) auto

lemma wf_mem_iff: "wf_map m \<Longrightarrow> (k, v) \<in> set m \<longleftrightarrow> map_of m k = Some v"
  by (simp add: map_of_eq_Some_iff)

lemma set_putD: "(k', v') \<in> set (put k v m) \<Longrightarrow> (k' = k \<and> v' = v) \<or> (k', v') \<in> set m"
  by (induction m) (auto split: if_splits)

lemma put_mem: "(k, v) \<in> set (put k v m)"
  by (induction m) auto

lemma gokeys_put: "set (gokeys (put k v m)) = insert k (set (gokeys m))"
  by (simp add: dom_update)

lemma gokeys_put_mem [simp]: "k \<in> set (gokeys m) \<Longrightarrow> gokeys (put k v m) = gokeys m"
  by (induction m) auto

lemma map_of_gokeys: "map_of m k = Some v \<Longrightarrow> k \<in> set (gokeys m)"
  by (induction m) (auto split: if_splits)

lemma gokeys_map_of: "k \<in> set (gokeys m) \<Longrightarrow> \<exists>v. map_of m k = Some v"
  by (induction m) auto

text \<open>Mapping a function over the values of a map.\<close>

definition map_vals :: "('k \<Rightarrow> 'v \<Rightarrow> 'w) \<Rightarrow> ('k, 'v) gomap \<Rightarrow> ('k, 'w) gomap" where
  "map_vals f m = map (\<lambda>(k, v). (k, f k v)) m"

lemma map_of_map_vals [simp]: "map_of (map_vals f m) k = map_option (f k) (map_of m k)"
  by (induction m) (auto simp: map_vals_def)

lemma gokeys_map_vals [simp]: "gokeys (map_vals f m) = gokeys m"
  by (simp add: map_vals_def comp_def case_prod_beta)

section \<open>Search loops\<close>

text \<open>A loop that returns at the first hit is \<open>List.find\<close>.\<close>

lemma find_SomeD: "List.find P xs = Some x \<Longrightarrow> x \<in> set xs \<and> P x"
  by (auto simp: find_Some_iff)

section \<open>Comparator sorts\<close>

text \<open>
  \<open>sort.Slice\<close> and \<open>sort.SliceStable\<close> take a "less" comparator. The model sorts by stable
  insertion. \<open>sort.Slice\<close> is not stable; where the comparator separates all elements of the
  slice, \<open>sort_by_unique\<close> below shows that every correct sort returns the same list.
\<close>

fun insert_by :: "('a \<Rightarrow> 'a \<Rightarrow> bool) \<Rightarrow> 'a \<Rightarrow> 'a list \<Rightarrow> 'a list" where
  "insert_by lt x [] = [x]"
| "insert_by lt x (y # ys) =
     (if lt y x then y # insert_by lt x ys else x # y # ys)"

definition sort_by :: "('a \<Rightarrow> 'a \<Rightarrow> bool) \<Rightarrow> 'a list \<Rightarrow> 'a list" where
  "sort_by lt xs = foldr (insert_by lt) xs []"

lemma mset_insert_by [simp]: "mset (insert_by lt x ys) = add_mset x (mset ys)"
  by (induction ys) auto

lemma mset_sort_by [simp]: "mset (sort_by lt xs) = mset xs"
  by (induction xs) (auto simp: sort_by_def)

lemma set_sort_by [simp]: "set (sort_by lt xs) = set xs"
  by (metis mset_sort_by set_mset_mset)

lemma length_sort_by [simp]: "length (sort_by lt xs) = length xs"
  by (metis mset_sort_by size_mset)

lemma distinct_sort_by [simp]: "distinct (sort_by lt xs) = distinct xs"
  by (metis mset_sort_by mset_eq_imp_distinct_iff)

lemma distinct_map_sort_by [simp]: "distinct (map f (sort_by lt xs)) = distinct (map f xs)"
  by (metis mset_map mset_sort_by mset_eq_imp_distinct_iff)

lemma sort_by_Nil [simp]: "sort_by lt [] = []"
  by (simp add: sort_by_def)

lemma sort_by_empty_iff [simp]: "sort_by lt xs = [] \<longleftrightarrow> xs = []"
  by (metis length_0_conv length_sort_by)

lemma insert_by_cong:
  "(\<And>y. y \<in> set ys \<Longrightarrow> lt y x = lt' y x) \<Longrightarrow> insert_by lt x ys = insert_by lt' x ys"
  by (induction ys) auto

lemma sort_by_cong:
  "(\<And>x y. x \<in> set xs \<Longrightarrow> y \<in> set xs \<Longrightarrow> lt x y = lt' x y) \<Longrightarrow> sort_by lt xs = sort_by lt' xs"
proof (induction xs)
  case Nil
  then show ?case by simp
next
  case (Cons x xs)
  then have "sort_by lt xs = sort_by lt' xs" by simp
  moreover have "insert_by lt x (sort_by lt' xs) = insert_by lt' x (sort_by lt' xs)"
    using Cons.prems by (intro insert_by_cong) simp
  ultimately show ?case by (simp add: sort_by_def)
qed

text \<open>What Go asks of a comparator: a strict weak ordering.\<close>

locale strict_weak_order =
  fixes lt :: "'a \<Rightarrow> 'a \<Rightarrow> bool"
  assumes asym: "lt a b \<Longrightarrow> \<not> lt b a"
    and neg_trans: "\<not> lt a b \<Longrightarrow> \<not> lt b c \<Longrightarrow> \<not> lt a c"
begin

lemma sorted_insert_by:
  "sorted_wrt (\<lambda>a b. \<not> lt b a) ys \<Longrightarrow> sorted_wrt (\<lambda>a b. \<not> lt b a) (insert_by lt x ys)"
proof (induction ys)
  case Nil
  then show ?case by simp
next
  case (Cons y ys)
  have set: "set (insert_by lt x ys) = insert x (set ys)"
    by (metis mset_insert_by set_mset_add_mset_insert set_mset_mset)
  show ?case
  proof (cases "lt y x")
    case True
    with Cons set asym show ?thesis by auto
  next
    case False
    with Cons.prems neg_trans show ?thesis by fastforce
  qed
qed

lemma sorted_sort_by: "sorted_wrt (\<lambda>a b. \<not> lt b a) (sort_by lt xs)"
  by (induction xs) (auto simp: sort_by_def intro: sorted_insert_by)

lemma sort_by_hd_least: "sort_by lt xs = y # ys \<Longrightarrow> x \<in> set xs \<Longrightarrow> \<not> lt x y"
  using sorted_sort_by [of xs] set_sort_by [of lt xs] asym by fastforce

end

text \<open>A comparator that separates elements with different keys.\<close>

locale keyed_order = strict_weak_order +
  fixes key :: "'a \<Rightarrow> 'k"
  assumes separates: "\<not> lt a b \<Longrightarrow> \<not> lt b a \<Longrightarrow> key a = key b"
begin

lemma sorted_unique:
  "sorted_wrt (\<lambda>a b. \<not> lt b a) xs \<Longrightarrow> sorted_wrt (\<lambda>a b. \<not> lt b a) ys
   \<Longrightarrow> mset xs = mset ys \<Longrightarrow> distinct (map key xs) \<Longrightarrow> xs = ys"
proof (induction xs arbitrary: ys)
  case Nil
  then show ?case by simp
next
  case (Cons x xs)
  from Cons.prems(3) obtain y ys' where ys: "ys = y # ys'"
    by (cases ys) auto
  have inset: "x \<in> set ys" "y \<in> set (x # xs)"
    using Cons.prems(3) ys by (metis list.set_intros(1) set_mset_mset)+
  have "x = y"
  proof (rule ccontr)
    assume neq: "x \<noteq> y"
    with inset ys have "y \<in> set xs" "x \<in> set ys'" by auto
    with Cons.prems(1,2) ys have "\<not> lt y x" "\<not> lt x y" by auto
    then have "key x = key y" by (intro separates)
    with Cons.prems(4) \<open>y \<in> set xs\<close> show False by (metis distinct.simps(2) imageI list.map(2) list.set_map)
  qed
  with Cons ys show ?case by auto
qed

lemma sort_by_unique:
  assumes "mset ys = mset xs" and "sorted_wrt (\<lambda>a b. \<not> lt b a) ys" and "distinct (map key xs)"
  shows "ys = sort_by lt xs"
  using sorted_unique [OF sorted_sort_by [of xs] assms(2)] assms by simp

lemma sort_by_perm:
  assumes "mset ys = mset xs" and "distinct (map key xs)"
  shows "sort_by lt ys = sort_by lt xs"
  using sort_by_unique [OF _ sorted_sort_by [of ys] assms(2)] assms(1) by simp

end

section \<open>Strings\<close>

text \<open>
  Go strings are byte sequences; so are HOL strings (\<open>char\<close> is a byte). \<open>strings.TrimSpace\<close> and
  \<open>strings.EqualFold\<close> are given for ASCII white space and ASCII letters.
\<close>

definition is_space :: "char \<Rightarrow> bool" where
  "is_space c \<longleftrightarrow> c \<in> set [CHR 0x09, CHR 0x0A, CHR 0x0B, CHR 0x0C, CHR 0x0D, CHR 0x20]"

definition TrimSpace :: "string \<Rightarrow> string" where
  "TrimSpace s = rev (dropWhile is_space (rev (dropWhile is_space s)))"

definition fold_char :: "char \<Rightarrow> nat" where
  "fold_char c = (let n = of_char c :: nat in if 65 \<le> n \<and> n \<le> 90 then n + 32 else n)"

definition EqualFold :: "string \<Rightarrow> string \<Rightarrow> bool" where
  "EqualFold a b \<longleftrightarrow> map fold_char a = map fold_char b"

lemma EqualFold_refl [simp]: "EqualFold s s"
  by (simp add: EqualFold_def)

text \<open>\<open>strings.ToUpper\<close> and \<open>ToLower\<close> act on ASCII letters.\<close>

definition upper_char :: "char \<Rightarrow> char" where
  "upper_char c = (let n = of_char c :: nat in if 97 \<le> n \<and> n \<le> 122 then char_of (n - 32) else c)"

definition ToUpper :: "string \<Rightarrow> string" where
  "ToUpper s = map upper_char s"

definition HasPrefix :: "string \<Rightarrow> string \<Rightarrow> bool" where
  "HasPrefix s p \<longleftrightarrow> take (length p) s = p"

definition TrimPrefix :: "string \<Rightarrow> string \<Rightarrow> string" where
  "TrimPrefix s p = (if HasPrefix s p then drop (length p) s else s)"

definition lower_char :: "char \<Rightarrow> char" where
  "lower_char c = (let n = of_char c :: nat in if 65 \<le> n \<and> n \<le> 90 then char_of (n + 32) else c)"

definition ToLower :: "string \<Rightarrow> string" where
  "ToLower s = map lower_char s"

text \<open>\<open>strings.Split(s, sep)\<close> for a separator of one byte.\<close>

fun Split :: "char \<Rightarrow> string \<Rightarrow> string list" where
  "Split sep [] = [[]]"
| "Split sep (c # s) =
     (if c = sep then [] # Split sep s
      else case Split sep s of [] \<Rightarrow> [[c]] | p # ps \<Rightarrow> (c # p) # ps)"

text \<open>\<open>strings.Fields\<close>\<close>

fun Fields_from :: "string \<Rightarrow> string \<Rightarrow> string list" where
  "Fields_from acc [] = (if acc = [] then [] else [rev acc])"
| "Fields_from acc (c # s) =
     (if is_space c then (if acc = [] then Fields_from [] s else rev acc # Fields_from [] s)
      else Fields_from (c # acc) s)"

text \<open>Decimal printing, \<open>%d\<close>.\<close>

function show_digits :: "int \<Rightarrow> string" where
  "show_digits n = (if n < 10 then [char_of (48 + n)]
                    else show_digits (n div 10) @ [char_of (48 + n mod 10)])"
  by auto
termination by (relation "measure nat") auto

declare show_digits.simps [simp del]

definition show_nat :: "nat \<Rightarrow> string" where
  "show_nat n = show_digits (int n)"

definition show_int :: "int \<Rightarrow> string" where
  "show_int i = (if i < 0 then ''-'' @ show_digits (- i) else show_digits i)"

section \<open>Calls that can fail\<close>

text \<open>A function that returns a value or an error and has an effect on a state.\<close>

definition yield :: "'a \<Rightarrow> 's \<Rightarrow> ('e + 'a) \<times> 's" where
  "yield v st = (Inr v, st)"

definition raise :: "'e \<Rightarrow> 's \<Rightarrow> ('e + 'a) \<times> 's" where
  "raise e st = (Inl e, st)"

text \<open>\<open>v, err := m; if err != nil { return h(err) }; f(v)\<close>\<close>

definition and_then ::
  "('s \<Rightarrow> ('e + 'a) \<times> 's) \<Rightarrow> ('a \<Rightarrow> 's \<Rightarrow> ('e + 'b) \<times> 's) \<Rightarrow> 's \<Rightarrow> ('e + 'b) \<times> 's" where
  "and_then m f st = (case m st of (Inl e, st') \<Rightarrow> (Inl e, st') | (Inr v, st') \<Rightarrow> f v st')"

definition or_else ::
  "('s \<Rightarrow> ('e + 'a) \<times> 's) \<Rightarrow> ('e \<Rightarrow> 's \<Rightarrow> ('e + 'a) \<times> 's) \<Rightarrow> 's \<Rightarrow> ('e + 'a) \<times> 's" where
  "or_else m h st = (case m st of (Inl e, st') \<Rightarrow> h e st' | (Inr v, st') \<Rightarrow> (Inr v, st'))"

lemma and_then_simps:
  "m st = (Inr v, st1) \<Longrightarrow> and_then m f st = f v st1"
  "m st = (Inl e, st1) \<Longrightarrow> and_then m f st = (Inl e, st1)"
  by (simp_all add: and_then_def)

lemma and_then_Inr:
  "and_then m f st = (Inr w, st') \<longleftrightarrow> (\<exists>v st1. m st = (Inr v, st1) \<and> f v st1 = (Inr w, st'))"
  by (auto simp: and_then_def split: prod.splits sum.splits)

end
