(* ===== verification/Platform.thy ===== *)
theory Platform
  imports Prelude
begin

text \<open>
  \<open>internal/platform/capabilities.go\<close>: the capabilities an agent observed on its host, and
  \<open>Normalize\<close>, which derives execution readiness and the operating mode from the observations
  and never from an advertised flag.
\<close>

datatype OperatingMode = Full | GPUObserveOnly | DockerObserveOnly | Degraded | ModeUnset

record Capabilities =
  cap_AgentOperational :: bool
  cap_OperatingMode :: OperatingMode
  cap_OS :: string
  cap_Architecture :: string
  cap_KernelVersion :: string
  cap_CgroupMode :: string
  cap_MachineIDAvailable :: bool
  cap_DockerAvailable :: bool
  cap_DockerVersion :: string
  cap_DockerAPIVersion :: string
  cap_DockerOS :: string
  cap_GPUInventoryAvailable :: bool
  cap_NVMLAvailable :: bool
  cap_GPUCount :: int
  cap_NVIDIADriverVersion :: string
  cap_CUDADriverVersion :: string
  cap_NVIDIAContainerSupport :: bool
  cap_ManagedExecutionReady :: bool
  cap_Reasons :: "string list"

text \<open>Go's zero value of the struct.\<close>

definition zero_capabilities :: Capabilities where
  "zero_capabilities = \<lparr>cap_AgentOperational = False, cap_OperatingMode = ModeUnset, cap_OS = '''',
     cap_Architecture = '''', cap_KernelVersion = '''', cap_CgroupMode = '''',
     cap_MachineIDAvailable = False, cap_DockerAvailable = False, cap_DockerVersion = '''',
     cap_DockerAPIVersion = '''', cap_DockerOS = '''', cap_GPUInventoryAvailable = False,
     cap_NVMLAvailable = False, cap_GPUCount = 0, cap_NVIDIADriverVersion = '''',
     cap_CUDADriverVersion = '''', cap_NVIDIAContainerSupport = False,
     cap_ManagedExecutionReady = False, cap_Reasons = []\<rparr>"

definition cap_reasons_of :: "Capabilities \<Rightarrow> string list" where
  "cap_reasons_of c =
     (if \<not> cap_AgentOperational c then [''IDENTITY_UNAVAILABLE''] else []) @
     (if cap_OS c \<noteq> ''linux'' \<or> cap_Architecture c \<noteq> ''amd64'' then [''PLATFORM_UNSUPPORTED''] else []) @
     (if \<not> cap_DockerAvailable c then [''DOCKER_UNAVAILABLE''] else []) @
     (if \<not> cap_NVMLAvailable c \<or> \<not> cap_GPUInventoryAvailable c then [''NVML_UNAVAILABLE''] else []) @
     (if cap_GPUInventoryAvailable c \<and> cap_GPUCount c = 0 then [''GPU_UNAVAILABLE''] else []) @
     (if \<not> cap_NVIDIAContainerSupport c then [''NVIDIA_CONTAINER_UNAVAILABLE''] else []) @
     (if cap_DockerAvailable c \<and> (cap_DockerOS c \<noteq> ''linux'' \<or> cap_DockerAPIVersion c = '''')
      then [''DOCKER_EXECUTION_UNSUPPORTED''] else [])"

definition Normalize :: "Capabilities \<Rightarrow> Capabilities" where
  "Normalize c0 =
     (let rs = cap_reasons_of c0;
          c = c0\<lparr>cap_Reasons := rs, cap_ManagedExecutionReady := (length rs = 0)\<rparr>
      in c\<lparr>cap_OperatingMode :=
             (if cap_ManagedExecutionReady c then Full
              else if cap_GPUInventoryAvailable c \<and> \<not> cap_DockerAvailable c then GPUObserveOnly
              else if cap_DockerAvailable c \<and> \<not> cap_GPUInventoryAvailable c then DockerObserveOnly
              else Degraded)\<rparr>)"

lemma Normalize_frame [simp]:
  "cap_GPUInventoryAvailable (Normalize c) = cap_GPUInventoryAvailable c"
  "cap_DockerAvailable (Normalize c) = cap_DockerAvailable c"
  "cap_NVMLAvailable (Normalize c) = cap_NVMLAvailable c"
  "cap_GPUCount (Normalize c) = cap_GPUCount c"
  "cap_AgentOperational (Normalize c) = cap_AgentOperational c"
  by (simp_all add: Normalize_def Let_def)

lemma Normalize_reasons [simp]: "cap_Reasons (Normalize c) = cap_reasons_of c"
  by (simp add: Normalize_def Let_def)

lemma cap_reasons_of_normalized [simp]: "cap_reasons_of (Normalize c) = cap_reasons_of c"
  by (simp add: Normalize_def Let_def cap_reasons_of_def)

lemma Normalize_ready_iff_reasons:
  "cap_ManagedExecutionReady (Normalize c) \<longleftrightarrow> cap_reasons_of c = []"
  by (simp add: Normalize_def Let_def)

text \<open>
  Execution readiness after \<open>Normalize\<close> is exactly the conjunction of the seven observed
  preconditions, whatever readiness flag, mode or reasons the report advertised.
\<close>

lemma Normalize_ready_iff:
  "cap_ManagedExecutionReady (Normalize c) \<longleftrightarrow>
     cap_AgentOperational c \<and> cap_OS c = ''linux'' \<and> cap_Architecture c = ''amd64'' \<and>
     cap_DockerAvailable c \<and> cap_DockerOS c = ''linux'' \<and> cap_DockerAPIVersion c \<noteq> '''' \<and>
     cap_NVMLAvailable c \<and> cap_GPUInventoryAvailable c \<and> cap_GPUCount c \<noteq> 0 \<and>
     cap_NVIDIAContainerSupport c"
  by (auto simp: Normalize_ready_iff_reasons cap_reasons_of_def)

text \<open>
  \<open>Normalize\<close> is idempotent, and the operating mode it derives is \<open>Full\<close> exactly when managed
  execution is ready.
\<close>

lemma Normalize_idem: "Normalize (Normalize c) = Normalize c \<and>
    (cap_OperatingMode (Normalize c) = Full \<longleftrightarrow> cap_ManagedExecutionReady (Normalize c))"
  by (auto simp: Normalize_def Let_def cap_reasons_of_def)

end
