(* ===== verification/GoTime.thy ===== *)
theory GoTime
  imports Prelude
begin

text \<open>
  The parts of Go's package \<open>time\<close> the control plane uses. An instant is the number of
  nanoseconds since Go's zero time (1 January of year 1, UTC), so \<open>IsZero\<close> is \<open>t = 0\<close>; a
  duration is a number of nanoseconds. \<open>Sub\<close> saturates at the bounds of \<open>int64\<close>, as Go's does.
  \<open>parse_RFC3339\<close> follows \<open>time.Parse(time.RFC3339, s)\<close> step by step.
\<close>

type_synonym gotime = int
type_synonym duration = int

abbreviation max_int64 :: int where "max_int64 \<equiv> 9223372036854775807"
abbreviation min_int64 :: int where "min_int64 \<equiv> - 9223372036854775808"

abbreviation Second :: duration where "Second \<equiv> 1000000000"
abbreviation Minute :: duration where "Minute \<equiv> 60000000000"
abbreviation Hour :: duration where "Hour \<equiv> 3600000000000"

definition IsZero :: "gotime \<Rightarrow> bool" where
  "IsZero t \<longleftrightarrow> t = 0"

definition Sub :: "gotime \<Rightarrow> gotime \<Rightarrow> duration" where
  "Sub a b = max min_int64 (min max_int64 (a - b))"

lemma Sub_exact: "min_int64 \<le> a - b \<Longrightarrow> a - b \<le> max_int64 \<Longrightarrow> Sub a b = a - b"
  by (simp add: Sub_def)

section \<open>Civil dates\<close>

definition leap :: "int \<Rightarrow> bool" where
  "leap y \<longleftrightarrow> y mod 4 = 0 \<and> (y mod 100 \<noteq> 0 \<or> y mod 400 = 0)"

definition days_in :: "int \<Rightarrow> int \<Rightarrow> int" where
  "days_in m y = (if m = 2 then (if leap y then 29 else 28)
                  else if m \<in> {4, 6, 9, 11} then 30 else 31)"

fun days_before_month :: "nat \<Rightarrow> int \<Rightarrow> int" where
  "days_before_month 0 y = 0"
| "days_before_month (Suc m) y = (if m = 0 then 0 else days_before_month m y + days_in (int m) y)"

definition days_before_year :: "int \<Rightarrow> int" where
  "days_before_year y = 365 * (y - 1) + (y - 1) div 4 - (y - 1) div 100 + (y - 1) div 400"

definition Date :: "int \<Rightarrow> int \<Rightarrow> int \<Rightarrow> int \<Rightarrow> int \<Rightarrow> int \<Rightarrow> int \<Rightarrow> gotime" where
  "Date y mo d h mi s ns =
     (((days_before_year y + days_before_month (nat mo) y + (d - 1)) * 24 + h) * 60 + mi) * Minute
     + s * Second + ns"

section \<open>Parsing RFC 3339\<close>

definition is_digit :: "char \<Rightarrow> bool" where
  "is_digit c \<longleftrightarrow> (let n = of_char c :: nat in 48 \<le> n \<and> n \<le> 57)"

definition digit_val :: "char \<Rightarrow> int" where
  "digit_val c = int (of_char c) - 48"

definition digits_val :: "string \<Rightarrow> int" where
  "digits_val ds = fold (\<lambda>c n. 10 * n + digit_val c) ds 0"

text \<open>Two digits; one digit is accepted where the layout element is not zero-padded.\<close>

fun getnum :: "bool \<Rightarrow> string \<Rightarrow> (int \<times> string) option" where
  "getnum fixed [] = None"
| "getnum fixed [a] = (if is_digit a \<and> \<not> fixed then Some (digit_val a, []) else None)"
| "getnum fixed (a # b # r) =
     (if \<not> is_digit a then None
      else if \<not> is_digit b then (if fixed then None else Some (digit_val a, b # r))
      else Some (digit_val a * 10 + digit_val b, r))"

definition expect :: "char \<Rightarrow> string \<Rightarrow> string option" where
  "expect c s = (case s of [] \<Rightarrow> None | x # r \<Rightarrow> if x = c then Some r else None)"

definition getyear :: "string \<Rightarrow> (int \<times> string) option" where
  "getyear s = (if length s < 4 \<or> \<not> list_all is_digit (take 4 s) then None
                else Some (digits_val (take 4 s), drop 4 s))"

text \<open>A fractional second: at most nine digits count, the rest is skipped.\<close>

definition getfrac :: "string \<Rightarrow> int \<times> string" where
  "getfrac s =
     (case s of c # d # r \<Rightarrow>
        if c \<in> {CHR ''.'', CHR '',''} \<and> is_digit d
        then (let ds = takeWhile is_digit (d # r); used = take 9 ds
              in (digits_val used * 10 ^ (9 - length used), dropWhile is_digit (d # r)))
        else (0, s)
      | _ \<Rightarrow> (0, s))"

definition getzone :: "string \<Rightarrow> (int \<times> string) option" where
  "getzone s =
     (case s of [] \<Rightarrow> None
      | CHR ''Z'' # r \<Rightarrow> Some (0, r)
      | sg # r \<Rightarrow>
          if length s < 6 \<or> s ! 3 \<noteq> CHR '':'' then None
          else (case (getnum True (take 2 r), getnum True (take 2 (drop 3 r))) of
                  (Some (hr, _), Some (mm, _)) \<Rightarrow>
                    if 24 < hr \<or> 60 < mm then None
                    else if sg = CHR ''+'' then Some ((hr * 60 + mm) * 60, drop 5 r)
                    else if sg = CHR ''-'' then Some (- ((hr * 60 + mm) * 60), drop 5 r)
                    else None
                | _ \<Rightarrow> None))"

definition parse_RFC3339 :: "string \<Rightarrow> gotime option" where
  "parse_RFC3339 s0 =
     Option.bind (getyear s0) (\<lambda>(y, s1).
     Option.bind (Option.bind (expect CHR ''-'' s1) (getnum True)) (\<lambda>(mo, s2).
     if mo < 1 \<or> 12 < mo then None else
     Option.bind (Option.bind (expect CHR ''-'' s2) (getnum True)) (\<lambda>(d, s3).
     Option.bind (Option.bind (expect CHR ''T'' s3) (getnum False)) (\<lambda>(h, s4).
     if 24 \<le> h then None else
     Option.bind (Option.bind (expect CHR '':'' s4) (getnum True)) (\<lambda>(mi, s5).
     if 60 \<le> mi then None else
     Option.bind (Option.bind (expect CHR '':'' s5) (getnum True)) (\<lambda>(sec, s6).
     if 60 \<le> sec then None else
     (case getfrac s6 of (ns, s7) \<Rightarrow>
     Option.bind (getzone s7) (\<lambda>(off, s8).
     if s8 \<noteq> [] then None
     else if d < 1 \<or> days_in mo y < d then None
     else Some (Date y mo d h mi sec ns - off * Second)))))))))"

lemma parse_example_utc:
  "parse_RFC3339 ''1970-01-01T00:00:00Z'' = Some (62135596800 * Second)"
  by code_simp

lemma parse_example_zone:
  "parse_RFC3339 ''2024-02-29T07:30:15.5+07:00''
     = Some (Date 2024 2 29 0 30 15 500000000)"
  by code_simp

lemma parse_example_bad: "parse_RFC3339 ''2023-02-29T00:00:00Z'' = None"
  by code_simp

section \<open>Decimal numbers\<close>

text \<open>\<open>strconv.Atoi\<close>: an optional sign and decimal digits, within \<open>int64\<close>.\<close>

definition Atoi :: "string \<Rightarrow> int option" where
  "Atoi s =
     (let neg = (take 1 s = ''-''); ds = (if take 1 s = ''-'' \<or> take 1 s = ''+'' then drop 1 s else s);
          n = (if neg then - digits_val ds else digits_val ds)
      in if ds = [] \<or> \<not> list_all is_digit ds \<or> n < min_int64 \<or> max_int64 < n then None else Some n)"

end
