(* ===== verification/Domain_Model.thy ===== *)
theory Domain_Model
  imports Platform GoTime
begin

text \<open>
  The data model of \<open>internal/domain\<close>: servers, GPUs, containers, jobs, assignments, commands,
  training state, organisations, and the small predicates of the package. Closed status types are
  datatypes with the source's constructor names; typed strings whose values come from requests or
  configuration (workload type, necessity, importance, strategy, backend) stay strings with named
  constants. A pointer field that may be nil is an \<open>option\<close>. Field names are the Go names behind a
  prefix for the struct. Where a closed type has a Go zero value \<open>""\<close> that stored data may carry,
  it has a constructor of its own (\<open>...Unset\<close>).
\<close>

section \<open>Statuses\<close>

datatype ServerStatus = ServerOnline | ServerOffline | ServerDraining

datatype GPUState =
  GPUFree | GPUReserved | GPUAllocated | GPUOccupiedLegacy | GPUOccupiedUnknown | GPUUnhealthy

datatype ContainerOrigin = ContainerManaged | ContainerLegacy | ContainerUnknown

datatype JobStatus =
    JobQueued | JobAssigned | JobStarting | JobRunning | JobStopping
  | JobStopped | JobSucceeded | JobFailed | JobCancelled

datatype CommandType = CommandStartContainer | CommandStopContainer

datatype CommandStatus = CommandPending | CommandDelivered | CommandSucceeded | CommandFailed

type_synonym SchedulingStrategy = string

abbreviation StrategyFirstFit :: SchedulingStrategy where "StrategyFirstFit \<equiv> ''first-fit''"
abbreviation StrategyBestFit :: SchedulingStrategy where "StrategyBestFit \<equiv> ''best-fit''"
abbreviation StrategyBinPack :: SchedulingStrategy where "StrategyBinPack \<equiv> ''bin-pack''"
abbreviation StrategyFragmentation :: SchedulingStrategy where
  "StrategyFragmentation \<equiv> ''fragmentation-aware''"

definition ValidStrategy :: "SchedulingStrategy \<Rightarrow> bool" where
  "ValidStrategy s \<longleftrightarrow> s = StrategyFirstFit \<or> s = StrategyBestFit \<or> s = StrategyBinPack \<or>
     s = StrategyFragmentation"

type_synonym ExecutionBackend = string

abbreviation BackendDocker :: ExecutionBackend where "BackendDocker \<equiv> ''DOCKER''"

section \<open>Hosts, GPUs, containers\<close>

record HostInfo =
  host_Hostname :: string
  host_OS :: string
  host_Architecture :: string
  host_CPUCount :: int
  host_MemoryTotalMiB :: int

record GPU =
  gpu_UUID :: string
  gpu_Index :: int
  gpu_Model :: string
  gpu_MemoryTotalMiB :: int
  gpu_MemoryUsedMiB :: int
  gpu_UtilizationPct :: rat
  gpu_TemperatureC :: rat
  gpu_Healthy :: bool
  gpu_State :: GPUState
  gpu_AssignedJobID :: string
  gpu_ObservedConsumers :: "string list"
  gpu_StateReason :: string

definition AvailableMemoryMiB :: "GPU \<Rightarrow> int" where
  "AvailableMemoryMiB g = (let remaining = gpu_MemoryTotalMiB g - gpu_MemoryUsedMiB g
                           in if remaining < 0 then 0 else remaining)"

definition gpu_Schedulable :: "GPU \<Rightarrow> bool" where
  "gpu_Schedulable g \<longleftrightarrow> gpu_Healthy g \<and> gpu_State g = GPUFree \<and> gpu_AssignedJobID g = ''''"

record Container =
  ctr_ID :: string
  ctr_Name :: string
  ctr_Image :: string
  ctr_State :: string
  ctr_Origin :: ContainerOrigin
  ctr_JobID :: string
  ctr_GPUUUIDs :: "string list"
  ctr_Labels :: labels
  ctr_StartedAt :: "gotime option"
  ctr_FinishedAt :: "gotime option"
  ctr_ExitCode :: "int option"

record GPUProcess =
  proc_PID :: int
  proc_GPUUUID :: string
  proc_UsedMemoryMiB :: int
  proc_ContainerID :: string
  proc_ProcessName :: string

record Server =
  srv_Capabilities :: "Capabilities option"
  srv_OrganizationID :: string
  srv_SchedulingReady :: bool
  srv_SchedulingReason :: string
  srv_Host :: HostInfo
  srv_ID :: string
  srv_MachineID :: string
  srv_Name :: string
  srv_Address :: string
  srv_AgentVersion :: string
  srv_Labels :: labels
  srv_Status :: ServerStatus
  srv_Drained :: bool
  srv_LastHeartbeatAt :: gotime
  srv_LastInventoryAt :: gotime
  srv_InventoryReceivedAt :: gotime
  srv_DockerVersion :: string
  srv_InventoryVersion :: "64 word"
  srv_GPUs :: "GPU list"
  srv_Containers :: "Container list"
  srv_TokenHash :: string

definition srv_Schedulable :: "Server \<Rightarrow> gotime \<Rightarrow> duration \<Rightarrow> bool" where
  "srv_Schedulable s now offlineAfter \<longleftrightarrow>
     (case srv_Capabilities s of None \<Rightarrow> False | Some c \<Rightarrow> cap_ManagedExecutionReady c) \<and>
     srv_Status s = ServerOnline \<and> \<not> srv_Drained s \<and> \<not> IsZero (srv_InventoryReceivedAt s) \<and>
     Sub now (srv_LastHeartbeatAt s) \<le> offlineAfter \<and>
     Sub now (srv_InventoryReceivedAt s) \<le> offlineAfter"

section \<open>Training state\<close>

datatype CheckpointStatus =
    CheckpointUnset | CheckpointNone | CheckpointRequested | CheckpointSaving
  | CheckpointAvailable | CheckpointFailed

datatype ArtifactStatus = ArtifactUnset | ArtifactNone | ArtifactSaving | ArtifactReady | ArtifactFailed

datatype TerminationReason =
    TerminationUnset | TerminationCompleted | TerminationTimeLimit | TerminationUserCancelled
  | TerminationExecutionError | TerminationSystemError

record TrainingState =
  tr_CheckpointStatus :: CheckpointStatus
  tr_LatestCheckpointURI :: string
  tr_CheckpointCreatedAt :: gotime
  tr_CheckpointStep :: int
  tr_CheckpointWarningAt :: gotime
  tr_ArtifactStatus :: ArtifactStatus
  tr_FinalArtifactURI :: string
  tr_ArtifactCreatedAt :: gotime
  tr_ResumeCheckpointURI :: string
  tr_ResumeFromJobID :: string
  tr_Revision :: "64 word"
  tr_UploadID :: string
  tr_UploadKind :: string
  tr_UploadStartedAt :: gotime

section \<open>Intent, policy, resources\<close>

type_synonym WorkloadType = string
type_synonym NecessityLevel = string
type_synonym SystemImportance = string

abbreviation WorkloadTraining :: WorkloadType where "WorkloadTraining \<equiv> ''TRAINING''"
abbreviation WorkloadInference :: WorkloadType where "WorkloadInference \<equiv> ''INFERENCE''"

abbreviation Necessity1 :: NecessityLevel where "Necessity1 \<equiv> ''NECESSITY_1''"
abbreviation Necessity2 :: NecessityLevel where "Necessity2 \<equiv> ''NECESSITY_2''"
abbreviation Necessity3 :: NecessityLevel where "Necessity3 \<equiv> ''NECESSITY_3''"
abbreviation Necessity4 :: NecessityLevel where "Necessity4 \<equiv> ''NECESSITY_4''"

abbreviation ImportanceCritical :: SystemImportance where "ImportanceCritical \<equiv> ''CRITICAL_SPECIAL''"
abbreviation ImportanceVeryImportant :: SystemImportance where
  "ImportanceVeryImportant \<equiv> ''VERY_IMPORTANT''"
abbreviation ImportanceImportant :: SystemImportance where "ImportanceImportant \<equiv> ''IMPORTANT''"
abbreviation ImportanceNormal :: SystemImportance where "ImportanceNormal \<equiv> ''NORMAL''"

record AllocationIntent =
  in_WorkloadType :: WorkloadType
  in_NecessityLevel :: NecessityLevel
  in_NecessityReason :: string
  in_NecessityExplanation :: string
  in_SystemImportance :: SystemImportance
  in_NeededAt :: string
  in_TTLSeconds :: int

datatype PolicyStatus = PolicyAutoEligible | PolicyCompetitive | PolicyUnset

record PolicyDecision =
  pol_Status :: PolicyStatus
  pol_Reason :: string
  pol_InSizingPlan :: bool
  pol_WithinQuota :: bool
  pol_QuotaUsage :: int
  pol_Source :: string
  pol_EvaluatedAt :: gotime
  pol_AuxiliaryScore :: rat

record AllocationResources =
  ar_GPUCount :: int
  ar_MinVRAMMiB :: int
  ar_PerformanceProfile :: string
  ar_FP8Required :: "bool option"
  ar_CPUMilli :: int
  ar_MemoryMiB :: int
  ar_AllowSharedGPU :: bool

record ResourceRequest =
  rq_PerformanceProfile :: string
  rq_FP8Required :: bool
  rq_ResolvedModels :: "string list"
  rq_GPUCount :: int
  rq_GPUModel :: string
  rq_MinVRAMMiB :: int
  rq_CPUMilli :: int
  rq_MemoryMiB :: int
  rq_AllowSharedGPU :: bool

definition AllocationResources_Domain :: "AllocationResources \<Rightarrow> ResourceRequest" where
  "AllocationResources_Domain r =
     \<lparr>rq_PerformanceProfile = ar_PerformanceProfile r,
      rq_FP8Required = (case ar_FP8Required r of None \<Rightarrow> False | Some b \<Rightarrow> b),
      rq_ResolvedModels = [], rq_GPUCount = ar_GPUCount r, rq_GPUModel = '''',
      rq_MinVRAMMiB = ar_MinVRAMMiB r, rq_CPUMilli = ar_CPUMilli r, rq_MemoryMiB = ar_MemoryMiB r,
      rq_AllowSharedGPU = False\<rparr>"

definition CapabilityMatches :: "ResourceRequest \<Rightarrow> GPU \<Rightarrow> bool" where
  "CapabilityMatches r g =
     (if rq_PerformanceProfile r = ''AUTO'' \<and> \<not> rq_FP8Required r then True
      else if rq_PerformanceProfile r \<noteq> '''' \<or> rq_FP8Required r
      then list_ex (\<lambda>model. EqualFold (TrimSpace (gpu_Model g)) model) (rq_ResolvedModels r)
      else rq_GPUModel r = '''' \<or> EqualFold (gpu_Model g) (rq_GPUModel r))"

definition Matches :: "ResourceRequest \<Rightarrow> GPU \<Rightarrow> bool" where
  "Matches r g \<longleftrightarrow> gpu_Schedulable g \<and> CapabilityMatches r g \<and> rq_MinVRAMMiB r \<le> AvailableMemoryMiB g"

section \<open>Jobs, assignments, commands\<close>

record Assignment =
  asg_StartAt :: gotime
  asg_EndAt :: gotime
  asg_ServerID :: string
  asg_GPUUUIDs :: "string list"
  asg_CommandID :: string
  asg_AssignedAt :: gotime
  asg_ReservationState :: string
  asg_ReleasedAt :: "gotime option"
  asg_Strategy :: SchedulingStrategy
  asg_Score :: rat
  asg_Reason :: string

record JobEvent =
  ev_JobID :: string
  ev_Status :: JobStatus
  ev_Reason :: string
  ev_At :: gotime

record Job =
  job_Training :: TrainingState
  job_TrainingToken :: string
  job_TerminationReason :: TerminationReason
  job_OrganizationID :: string
  job_Intent :: AllocationIntent
  job_Policy :: PolicyDecision
  job_ID :: string
  job_Name :: string
  job_Image :: string
  job_Backend :: ExecutionBackend
  job_Command :: "string list"
  job_Environment :: labels
  job_Resources :: ResourceRequest
  job_Priority :: int
  job_ServerSelector :: labels
  job_Strategy :: SchedulingStrategy
  job_Status :: JobStatus
  job_StatusReason :: string
  job_Assignment :: "Assignment option"
  job_CreatedAt :: gotime
  job_UpdatedAt :: gotime
  job_LastObservedAt :: "gotime option"
  job_ContainerID :: string
  job_Events :: "JobEvent list"

fun Terminal :: "JobStatus \<Rightarrow> bool" where
  "Terminal s = (s = JobStopped \<or> s = JobSucceeded \<or> s = JobFailed \<or> s = JobCancelled)"

definition Resumable :: "Job \<Rightarrow> bool" where
  "Resumable j \<longleftrightarrow> in_WorkloadType (job_Intent j) = WorkloadTraining \<and> job_Status j = JobStopped \<and>
     job_TerminationReason j = TerminationTimeLimit \<and>
     tr_CheckpointStatus (job_Training j) = CheckpointAvailable \<and>
     tr_LatestCheckpointURI (job_Training j) \<noteq> ''''"

text \<open>
  The JSON payload of a command is kept as the value it encodes (\<open>agentprotocol/v1\<close>):
  a start payload, a stop payload, or bytes that do not decode.
\<close>

record StartContainerPayload =
  stp_JobID :: string
  stp_Name :: string
  stp_Image :: string
  stp_Command :: "string list"
  stp_Environment :: labels
  stp_GPUUUIDs :: "string list"
  stp_CPUMilli :: int
  stp_MemoryMiB :: int
  stp_Labels :: labels

record StopContainerPayload =
  spp_JobID :: string
  spp_ContainerID :: string
  spp_GraceSeconds :: int

datatype Payload =
    StartPayload StartContainerPayload
  | StopPayload StopContainerPayload
  | MalformedPayload

text \<open>\<open>json.Unmarshal(command.Payload, &payload)\<close> into \<open>struct{ JobID string }\<close>.\<close>

fun payload_JobID :: "Payload \<Rightarrow> string option" where
  "payload_JobID (StartPayload p) = Some (stp_JobID p)"
| "payload_JobID (StopPayload p) = Some (spp_JobID p)"
| "payload_JobID MalformedPayload = None"

record Command =
  cmd_ID :: string
  cmd_AgentID :: string
  cmd_Type :: CommandType
  cmd_Status :: CommandStatus
  cmd_Payload :: Payload
  cmd_Attempts :: int
  cmd_CreatedAt :: gotime
  cmd_DeliveredAt :: "gotime option"
  cmd_LeaseUntil :: "gotime option"
  cmd_CompletedAt :: "gotime option"
  cmd_Error :: string

record Placement =
  plc_Policy :: PolicyDecision
  plc_ServerID :: string
  plc_GPUUUIDs :: "string list"
  plc_Strategy :: SchedulingStrategy
  plc_Score :: rat
  plc_Reason :: string

record ReservationPlan =
  rp_JobID :: string
  rp_Placement :: "Placement option"
  rp_Policy :: PolicyDecision
  rp_Reason :: string

record InventoryReport =
  rep_Capabilities :: "Capabilities option"
  rep_Host :: HostInfo
  rep_Sequence :: "64 word"
  rep_ObservedAt :: gotime
  rep_GPUs :: "GPU list"
  rep_Containers :: "Container list"
  rep_Processes :: "GPUProcess list"
  rep_ReceivedAt :: gotime
  rep_DockerVersion :: string

record CommandAckRequest =
  ack_Succeeded :: bool
  ack_Message :: string
  ack_ContainerID :: string

section \<open>Time windows\<close>

record TimeWindow =
  win_StartAt :: gotime
  win_EndAt :: gotime

definition win_Valid :: "TimeWindow \<Rightarrow> bool" where
  "win_Valid w \<longleftrightarrow> \<not> IsZero (win_StartAt w) \<and> win_StartAt w < win_EndAt w"

definition win_Contains :: "TimeWindow \<Rightarrow> gotime \<Rightarrow> bool" where
  "win_Contains w t \<longleftrightarrow> win_Valid w \<and> \<not> t < win_StartAt w \<and> t < win_EndAt w"

definition win_Overlaps :: "TimeWindow \<Rightarrow> TimeWindow \<Rightarrow> bool" where
  "win_Overlaps w other \<longleftrightarrow> win_StartAt w < win_EndAt other \<and> win_StartAt other < win_EndAt w"

abbreviation zero_window :: TimeWindow where
  "zero_window \<equiv> \<lparr>win_StartAt = 0, win_EndAt = 0\<rparr>"

text \<open>\<open>int64((1<<63-1)/time.Second)\<close> is the largest number of whole seconds in a duration.\<close>

abbreviation max_seconds :: int where "max_seconds \<equiv> 9223372036"

definition RequestedWindow :: "Job \<Rightarrow> TimeWindow" where
  "RequestedWindow j =
     (case parse_RFC3339 (in_NeededAt (job_Intent j)) of
        None \<Rightarrow> zero_window
      | Some start \<Rightarrow>
          if in_TTLSeconds (job_Intent j) \<le> 0 \<or> in_TTLSeconds (job_Intent j) > max_seconds
          then zero_window
          else \<lparr>win_StartAt = start, win_EndAt = start + in_TTLSeconds (job_Intent j) * Second\<rparr>)"

definition asg_Window :: "Assignment \<Rightarrow> TimeWindow" where
  "asg_Window a = \<lparr>win_StartAt = asg_StartAt a, win_EndAt = asg_EndAt a\<rparr>"

definition Replannable :: "Job \<Rightarrow> gotime \<Rightarrow> bool" where
  "Replannable j now \<longleftrightarrow> job_Status j = JobQueued \<or>
     (job_Status j = JobAssigned \<and>
      (case job_Assignment j of None \<Rightarrow> False
       | Some a \<Rightarrow> asg_ReservationState a = ''PLANNED'' \<and> asg_CommandID a = '''' \<and> now < asg_StartAt a))"

section \<open>Organisations and access\<close>

datatype Role = RoleAdmin | RoleOrganizationUser

record Organization =
  org_ID :: string
  org_Code :: string
  org_Name :: string
  org_Enabled :: bool
  org_CreatedAt :: gotime
  org_UpdatedAt :: gotime

record User =
  usr_ID :: string
  usr_Username :: string
  usr_PasswordHash :: string
  usr_Role :: Role
  usr_OrganizationID :: string
  usr_Enabled :: bool

record Principal =
  prn_User :: User
  prn_Organization :: Organization
  prn_ScopeOrganizationID :: string

text \<open>A request context is the principal it carries, if any.\<close>

type_synonym reqctx = "Principal option"

definition SameOrganization :: "string \<Rightarrow> string \<Rightarrow> bool" where
  "SameOrganization jobOrg serverOrg \<longleftrightarrow> jobOrg \<noteq> '''' \<and> jobOrg = serverOrg"

definition CanAccess :: "reqctx \<Rightarrow> string \<Rightarrow> bool" where
  "CanAccess ctx organizationID =
     (case ctx of None \<Rightarrow> True
      | Some p \<Rightarrow>
          if usr_Role (prn_User p) = RoleAdmin
          then prn_ScopeOrganizationID p = '''' \<or> prn_ScopeOrganizationID p = organizationID
          else SameOrganization (usr_OrganizationID (prn_User p)) organizationID)"

record Enrollment =
  enr_ID :: string
  enr_OrganizationID :: string
  enr_ServerID :: string
  enr_DisplayName :: string
  enr_Labels :: labels
  enr_TokenHash :: string
  enr_ExpiresAt :: gotime
  enr_MachineID :: string
  enr_Revoked :: bool

record ServerOwnership =
  own_ServerID :: string
  own_MachineID :: string
  own_OrganizationID :: string
  own_DisplayName :: string
  own_Labels :: labels

end
