(* ===== verification/Accounting.thy ===== *)
theory Accounting
  imports Domain_Model
begin

text \<open>
  \<open>internal/store/memory/accounting.go\<close>: \<open>normalizeGPUState\<close> recomputes the state of every GPU of a
  server from what was observed (containers, processes, health) and from the reservations of live
  jobs. Local Go maps that are only read by key, with the zero value for a missing key, are total
  functions here.
\<close>

definition containsUUID :: "string list \<Rightarrow> string \<Rightarrow> bool" where
  "containsUUID values want = list_ex (\<lambda>v. v = want) values"

lemma containsUUID_iff [simp]: "containsUUID values want \<longleftrightarrow> want \<in> set values"
  by (auto simp: containsUUID_def list_ex_iff)

definition containerConsumesGPU :: "string \<Rightarrow> bool" where
  "containerConsumesGPU st \<longleftrightarrow> st = ''running'' \<or> st = ''paused'' \<or> st = ''restarting''"

section \<open>Reservations of live jobs\<close>

text \<open>A live job with a reservation that is no longer merely planned holds its GPUs.\<close>

definition holds_on :: "string \<Rightarrow> Job \<Rightarrow> bool" where
  "holds_on sid j \<longleftrightarrow> (case job_Assignment j of None \<Rightarrow> False
     | Some a \<Rightarrow> asg_ServerID a = sid \<and> \<not> Terminal (job_Status j) \<and> asg_ReservationState a \<noteq> ''PLANNED'')"

definition held_uuids :: "Job \<Rightarrow> string list" where
  "held_uuids j = (case job_Assignment j of None \<Rightarrow> [] | Some a \<Rightarrow> asg_GPUUUIDs a)"

definition reserve_job :: "string \<Rightarrow> (string \<Rightarrow> string) \<Rightarrow> string \<times> Job \<Rightarrow> string \<Rightarrow> string" where
  "reserve_job sid r e =
     (if holds_on sid (snd e) then foldl (\<lambda>r u. r(u := job_ID (snd e))) r (held_uuids (snd e)) else r)"

definition reserved_map :: "string \<Rightarrow> (string, Job) gomap \<Rightarrow> string \<Rightarrow> string" where
  "reserved_map sid jobs = foldl (reserve_job sid) (\<lambda>_. '''') jobs"

section \<open>Observed consumers\<close>

record Consumers =
  con_legacy :: "string \<Rightarrow> string list"
  con_unknown :: "string \<Rightarrow> string list"
  con_managed :: "string \<Rightarrow> string"
  con_knownContainers :: "string \<Rightarrow> string list"

definition no_consumers :: Consumers where
  "no_consumers = \<lparr>con_legacy = (\<lambda>_. []), con_unknown = (\<lambda>_. []), con_managed = (\<lambda>_. ''''),
     con_knownContainers = (\<lambda>_. [])\<rparr>"

text \<open>The job a managed container may use this GPU for: it was dispatched to this server with it.\<close>

definition managing_job :: "string \<Rightarrow> (string, Job) gomap \<Rightarrow> Container \<Rightarrow> string \<Rightarrow> Job option" where
  "managing_job sid jobs c uuid =
     (case map_of jobs (ctr_JobID c) of None \<Rightarrow> None
      | Some job \<Rightarrow>
          (case job_Assignment job of None \<Rightarrow> None
           | Some a \<Rightarrow> if ctr_Origin c = ContainerManaged \<and> asg_CommandID a \<noteq> '''' \<and> asg_ServerID a = sid \<and>
                         containsUUID (asg_GPUUUIDs a) uuid
                      then Some job else None))"

definition observe_uuid ::
  "string \<Rightarrow> (string, Job) gomap \<Rightarrow> Container \<Rightarrow> Consumers \<Rightarrow> string \<Rightarrow> Consumers" where
  "observe_uuid sid jobs c cs uuid =
     (case managing_job sid jobs c uuid of
        None \<Rightarrow> cs\<lparr>con_legacy := (con_legacy cs)(uuid := con_legacy cs uuid @ [ctr_ID c])\<rparr>
      | Some job \<Rightarrow>
          (let other = con_managed cs uuid;
               cs = (if other \<noteq> '''' \<and> other \<noteq> job_ID job
                     then cs\<lparr>con_unknown := (con_unknown cs)
                               (uuid := con_unknown cs uuid @ [''multiple managed consumers''])\<rparr>
                     else cs)
           in cs\<lparr>con_managed := (con_managed cs)(uuid := job_ID job)\<rparr>))"

definition observe_container ::
  "string \<Rightarrow> (string, Job) gomap \<Rightarrow> Consumers \<Rightarrow> Container \<Rightarrow> Consumers" where
  "observe_container sid jobs cs c =
     (if \<not> containerConsumesGPU (ctr_State c) then cs
      else foldl (observe_uuid sid jobs c)
             (cs\<lparr>con_knownContainers := (con_knownContainers cs)(ctr_ID c := ctr_GPUUUIDs c)\<rparr>)
             (ctr_GPUUUIDs c))"

definition observe_process :: "Consumers \<Rightarrow> GPUProcess \<Rightarrow> Consumers" where
  "observe_process cs p =
     (if \<not> containsUUID (con_knownContainers cs (proc_ContainerID p)) (proc_GPUUUID p)
      then cs\<lparr>con_unknown := (con_unknown cs)
                (proc_GPUUUID p := con_unknown cs (proc_GPUUUID p) @ [''pid:'' @ show_int (proc_PID p)])\<rparr>
      else cs)"

definition observe ::
  "string \<Rightarrow> Container list \<Rightarrow> GPUProcess list \<Rightarrow> (string, Job) gomap \<Rightarrow> Consumers" where
  "observe sid containers processes jobs =
     foldl observe_process (foldl (observe_container sid jobs) no_consumers containers) processes"

section \<open>Classification\<close>

definition classify_gpu :: "Consumers \<Rightarrow> (string \<Rightarrow> string) \<Rightarrow> GPU \<Rightarrow> GPU" where
  "classify_gpu cs reserved g0 =
     (let observedUnknown = (gpu_State g0 = GPUOccupiedUnknown);
          u = gpu_UUID g0;
          g = g0\<lparr>gpu_AssignedJobID := '''', gpu_StateReason := '''', gpu_ObservedConsumers := []\<rparr>
      in if \<not> gpu_Healthy g
         then g\<lparr>gpu_State := GPUUnhealthy,
                gpu_StateReason := ''NVML device unhealthy or required telemetry unavailable''\<rparr>
         else if con_legacy cs u \<noteq> []
         then g\<lparr>gpu_State := GPUOccupiedLegacy, gpu_StateReason := ''external container has GPU access'',
                gpu_ObservedConsumers := con_legacy cs u\<rparr>
         else if con_unknown cs u \<noteq> []
         then g\<lparr>gpu_State := GPUOccupiedUnknown, gpu_StateReason := ''unattributed GPU process'',
                gpu_ObservedConsumers := con_unknown cs u\<rparr>
         else if con_managed cs u \<noteq> ''''
         then g\<lparr>gpu_State := GPUAllocated, gpu_AssignedJobID := con_managed cs u,
                gpu_StateReason := ''managed container observed active''\<rparr>
         else if observedUnknown
         then g\<lparr>gpu_State := GPUOccupiedUnknown, gpu_StateReason := ''GPU usage has no confirmed owner''\<rparr>
         else if reserved u \<noteq> ''''
         then g\<lparr>gpu_State := GPUReserved, gpu_AssignedJobID := reserved u,
                gpu_StateReason := ''atomic reservation awaiting actual state''\<rparr>
         else g\<lparr>gpu_State := GPUFree, gpu_StateReason := ''healthy GPU without consumers or reservation''\<rparr>)"

definition normalizeGPUState ::
  "string \<Rightarrow> GPU list \<Rightarrow> Container list \<Rightarrow> GPUProcess list \<Rightarrow> (string, Job) gomap \<Rightarrow> GPU list" where
  "normalizeGPUState sid gpus containers processes jobs =
     map (classify_gpu (observe sid containers processes jobs) (reserved_map sid jobs)) gpus"

section \<open>Frame\<close>

lemma classify_frame [simp]:
  "gpu_UUID (classify_gpu cs r g) = gpu_UUID g"
  "gpu_Index (classify_gpu cs r g) = gpu_Index g"
  "gpu_Model (classify_gpu cs r g) = gpu_Model g"
  "gpu_Healthy (classify_gpu cs r g) = gpu_Healthy g"
  "gpu_MemoryTotalMiB (classify_gpu cs r g) = gpu_MemoryTotalMiB g"
  "gpu_MemoryUsedMiB (classify_gpu cs r g) = gpu_MemoryUsedMiB g"
  by (simp_all add: classify_gpu_def Let_def)

lemma normalize_uuids [simp]:
  "map gpu_UUID (normalizeGPUState sid gpus cs ps jobs) = map gpu_UUID gpus"
  by (simp add: normalizeGPUState_def)

lemma classify_free_iff:
  "gpu_State (classify_gpu cs r g) = GPUFree \<longleftrightarrow>
     gpu_Healthy g \<and> con_legacy cs (gpu_UUID g) = [] \<and> con_unknown cs (gpu_UUID g) = [] \<and>
     con_managed cs (gpu_UUID g) = '''' \<and> gpu_State g \<noteq> GPUOccupiedUnknown \<and> r (gpu_UUID g) = ''''"
  by (simp add: classify_gpu_def Let_def)

section \<open>The reservation map\<close>

lemma foldl_upd_app: "foldl (\<lambda>r u. r(u := x)) r us v = (if v \<in> set us then x else r v)"
  by (induction us arbitrary: r) auto

lemma reserve_job_app:
  "reserve_job sid r e u = (if holds_on sid (snd e) \<and> u \<in> set (held_uuids (snd e)) then job_ID (snd e) else r u)"
  by (simp add: reserve_job_def foldl_upd_app)

lemma foldl_reserve_unique:
  "(\<And>k j. (k, j) \<in> set jobs \<Longrightarrow> holds_on sid j \<Longrightarrow> u \<in> set (held_uuids j) \<Longrightarrow> job_ID j = x) \<Longrightarrow>
   foldl (reserve_job sid) r jobs u =
     (if \<exists>(k, j) \<in> set jobs. holds_on sid j \<and> u \<in> set (held_uuids j) then x else r u)"
proof (induction jobs arbitrary: r)
  case Nil
  then show ?case by simp
next
  case (Cons e jobs)
  have "foldl (reserve_job sid) (reserve_job sid r e) jobs u =
      (if \<exists>(k, j) \<in> set jobs. holds_on sid j \<and> u \<in> set (held_uuids j) then x else reserve_job sid r e u)"
    using Cons.prems by (intro Cons.IH) auto
  moreover have "reserve_job sid r e u = (if holds_on sid (snd e) \<and> u \<in> set (held_uuids (snd e)) then x else r u)"
    using Cons.prems [of "fst e" "snd e"] by (subst reserve_job_app) simp
  ultimately show ?case by (cases e) auto
qed

lemma foldl_reserve_nonempty:
  "(\<And>k j. (k, j) \<in> set jobs \<Longrightarrow> job_ID j \<noteq> '''') \<Longrightarrow>
   (\<exists>(k, j) \<in> set jobs. holds_on sid j \<and> u \<in> set (held_uuids j)) \<or> r u \<noteq> '''' \<Longrightarrow>
   foldl (reserve_job sid) r jobs u \<noteq> ''''"
proof (induction jobs arbitrary: r)
  case Nil
  then show ?case by simp
next
  case (Cons e jobs)
  have "job_ID (snd e) \<noteq> ''''" using Cons.prems(1) [of "fst e" "snd e"] by simp
  with Cons.prems(2)
  have "(\<exists>(k, j) \<in> set jobs. holds_on sid j \<and> u \<in> set (held_uuids j)) \<or> reserve_job sid r e u \<noteq> ''''"
    by (cases e) (auto simp: reserve_job_app)
  then have "foldl (reserve_job sid) (reserve_job sid r e) jobs u \<noteq> ''''"
    using Cons.prems(1) by (intro Cons.IH) auto
  then show ?case by simp
qed

lemma reserved_map_nonempty:
  assumes "(k, j) \<in> set jobs" and "holds_on sid j" and "u \<in> set (held_uuids j)"
    and "\<And>k j. (k, j) \<in> set jobs \<Longrightarrow> job_ID j \<noteq> ''''"
  shows "reserved_map sid jobs u \<noteq> ''''"
  unfolding reserved_map_def using assms by (intro foldl_reserve_nonempty) auto

text \<open>
  The double-booking guard of the accounting: after normalisation no GPU that a live,
  dispatched job holds on the server can be scheduled again, whatever the agent reported for it.
\<close>

lemma normalize_held_not_schedulable:
  assumes "(k, j) \<in> set jobs" and "holds_on sid j"
    and "\<forall>(k, j) \<in> set jobs. job_ID j \<noteq> ''''"
    and "g \<in> set (normalizeGPUState sid gpus cs ps jobs)" and "gpu_UUID g \<in> set (held_uuids j)"
  shows "\<not> gpu_Schedulable g"
proof -
  obtain g0 where g0: "g = classify_gpu (observe sid cs ps jobs) (reserved_map sid jobs) g0"
    using assms(4) by (auto simp: normalizeGPUState_def)
  have "reserved_map sid jobs (gpu_UUID g0) \<noteq> ''''"
    using assms(1-3,5) g0 by (intro reserved_map_nonempty) auto
  then show ?thesis by (simp add: g0 gpu_Schedulable_def classify_free_iff)
qed

section \<open>External consumers\<close>

lemma observe_uuid_mono:
  "con_legacy cs v \<noteq> [] \<Longrightarrow> con_legacy (observe_uuid sid jobs c cs u) v \<noteq> []"
  by (auto simp: observe_uuid_def Let_def split: option.splits)

lemma foldl_observe_uuid_mono:
  "con_legacy cs v \<noteq> [] \<Longrightarrow> con_legacy (foldl (observe_uuid sid jobs c) cs us) v \<noteq> []"
  by (induction us arbitrary: cs) (auto simp: observe_uuid_mono)

lemma observe_container_mono:
  "con_legacy cs v \<noteq> [] \<Longrightarrow> con_legacy (observe_container sid jobs cs c) v \<noteq> []"
  by (auto simp: observe_container_def foldl_observe_uuid_mono)

lemma foldl_observe_container_mono:
  "con_legacy cs v \<noteq> [] \<Longrightarrow> con_legacy (foldl (observe_container sid jobs) cs ctrs) v \<noteq> []"
  by (induction ctrs arbitrary: cs) (auto simp: observe_container_mono)

lemma foldl_observe_uuid_hit:
  "v \<in> set us \<Longrightarrow> managing_job sid jobs c v = None \<Longrightarrow>
   con_legacy (foldl (observe_uuid sid jobs c) cs us) v \<noteq> []"
proof (induction us arbitrary: cs)
  case Nil
  then show ?case by simp
next
  case (Cons u us)
  show ?case
  proof (cases "u = v")
    case True
    with Cons.prems(2) have "con_legacy (observe_uuid sid jobs c cs u) v \<noteq> []"
      by (simp add: observe_uuid_def)
    then show ?thesis by (simp add: foldl_observe_uuid_mono)
  next
    case False
    with Cons show ?thesis by simp
  qed
qed

lemma observe_process_legacy [simp]: "con_legacy (observe_process cs p) = con_legacy cs"
  by (simp add: observe_process_def)

lemma foldl_observe_process_legacy [simp]: "con_legacy (foldl observe_process cs ps) = con_legacy cs"
  by (induction ps arbitrary: cs) auto

lemma observe_external:
  assumes "c \<in> set ctrs" and "containerConsumesGPU (ctr_State c)" and "u \<in> set (ctr_GPUUUIDs c)"
    and "managing_job sid jobs c u = None"
  shows "con_legacy (observe sid ctrs ps jobs) u \<noteq> []"
proof -
  obtain xs ys where split: "ctrs = xs @ c # ys" using split_list [OF assms(1)] by blast
  show ?thesis
    unfolding observe_def split foldl_append foldl_Cons foldl_observe_process_legacy
    by (intro foldl_observe_container_mono)
      (simp add: observe_container_def assms(2) foldl_observe_uuid_hit [OF assms(3,4)])
qed

text \<open>
  C32. External workloads are never touched: a GPU that any active container uses without being the
  dispatched container of a job assigned that GPU on this server ends as unhealthy or as occupied by
  an external workload, so it is neither free nor attributed to a job.
\<close>

theorem normalize_external_protected:
  assumes "c \<in> set ctrs" and "containerConsumesGPU (ctr_State c)"
    and "managing_job sid jobs c (gpu_UUID g) = None"
    and "gpu_UUID g \<in> set (ctr_GPUUUIDs c)" and "g \<in> set (normalizeGPUState sid gpus ctrs ps jobs)"
  shows "(gpu_State g = GPUUnhealthy \<or> gpu_State g = GPUOccupiedLegacy) \<and> gpu_AssignedJobID g = ''''"
proof -
  obtain g0 where g0: "g = classify_gpu (observe sid ctrs ps jobs) (reserved_map sid jobs) g0"
    using assms(5) by (auto simp: normalizeGPUState_def)
  then have "con_legacy (observe sid ctrs ps jobs) (gpu_UUID g0) \<noteq> []"
    using observe_external [OF assms(1,2)] assms(3,4) by simp
  then show ?thesis by (simp add: g0 classify_gpu_def Let_def)
qed

section \<open>Iteration order\<close>

lemma managing_job_cong: "map_of jobs = map_of jobs' \<Longrightarrow> managing_job sid jobs = managing_job sid jobs'"
  by (simp add: managing_job_def fun_eq_iff)

lemma observe_cong:
  assumes "map_of jobs = map_of jobs'"
  shows "observe sid ctrs ps jobs = observe sid ctrs ps jobs'"
proof -
  have "observe_uuid sid jobs = observe_uuid sid jobs'"
    by (intro ext) (simp add: observe_uuid_def managing_job_cong [OF assms])
  then have "observe_container sid jobs = observe_container sid jobs'"
    by (intro ext) (simp add: observe_container_def)
  then show ?thesis by (simp add: observe_def)
qed

text \<open>
  The order in which Go ranges over the jobs map does not matter: when no two jobs hold the same
  GPU of the server, normalisation gives the same GPUs for every listing of the same map.
\<close>

lemma normalize_order_independent:
  assumes "wf_map jobs" and "wf_map jobs'" and "map_of jobs = map_of jobs'"
    and "\<forall>(k, j) \<in> set jobs. \<forall>(k', j') \<in> set jobs. holds_on sid j \<and> holds_on sid j' \<and>
      set (held_uuids j) \<inter> set (held_uuids j') \<noteq> {} \<longrightarrow> job_ID j = job_ID j'"
  shows "normalizeGPUState sid gpus ctrs ps jobs = normalizeGPUState sid gpus ctrs ps jobs'"
proof -
  have same: "set jobs = set jobs'"
    using assms(1-3) by (intro set_eqI) (metis surj_pair wf_mem_iff)
  have "reserved_map sid jobs u = reserved_map sid jobs' u" for u
  proof -
    obtain x where x: "\<And>k j. (k, j) \<in> set jobs \<Longrightarrow> holds_on sid j \<Longrightarrow> u \<in> set (held_uuids j) \<Longrightarrow> job_ID j = x"
    proof (cases "\<exists>(k, j) \<in> set jobs. holds_on sid j \<and> u \<in> set (held_uuids j)")
      case True
      then obtain k j where "(k, j) \<in> set jobs" "holds_on sid j" "u \<in> set (held_uuids j)" by blast
      with assms(4) that [of "job_ID j"] show ?thesis by fast
    next
      case False
      with that show ?thesis by blast
    qed
    then show ?thesis
      unfolding reserved_map_def
      using foldl_reserve_unique [of jobs sid u x] foldl_reserve_unique [of jobs' sid u x] same by simp
  qed
  then have "reserved_map sid jobs = reserved_map sid jobs'" by blast
  then show ?thesis using observe_cong [OF assms(3)] by (simp add: normalizeGPUState_def)
qed

end
