(* ===== verification/Calendar.thy ===== *)
theory Calendar
  imports Domain_Model
begin

text \<open>
  \<open>domain.CalendarServers\<close> (\<open>internal/domain/reservation.go\<close>): the projection of the physical
  inventory onto the time window a job asks for. A managed allocation that ends before the window
  frees its GPU in the projection; every live booking that overlaps the window reserves it again;
  external and unknown occupancy keep blocking.
\<close>

section \<open>The projection\<close>

text \<open>The owner of an allocated GPU releases it in time for \<open>window\<close>.\<close>

definition ends_before :: "TimeWindow \<Rightarrow> string \<Rightarrow> GPU \<Rightarrow> Job \<Rightarrow> bool" where
  "ends_before window sid g owner \<longleftrightarrow>
     job_ID owner = gpu_AssignedJobID g \<and> \<not> Terminal (job_Status owner) \<and>
     (case job_Assignment owner of None \<Rightarrow> False
      | Some a \<Rightarrow> asg_ServerID a = sid \<and> win_Valid (asg_Window a) \<and>
          \<not> win_StartAt window < asg_EndAt a \<and> List.member (asg_GPUUUIDs a) (gpu_UUID g))"

definition free_after_end :: "TimeWindow \<Rightarrow> gotime \<Rightarrow> string \<Rightarrow> Job list \<Rightarrow> GPU \<Rightarrow> GPU" where
  "free_after_end window now sid bookings g =
     (if now < win_StartAt window \<and> (gpu_State g = GPUAllocated \<or> gpu_State g = GPUReserved) \<and>
         list_ex (ends_before window sid g) bookings
      then g\<lparr>gpu_State := GPUFree, gpu_AssignedJobID := '''', gpu_MemoryUsedMiB := 0\<rparr> else g)"

text \<open>A booking of another live job that may need GPU \<open>uuid\<close> of server \<open>sid\<close> during \<open>window\<close>.\<close>

definition blocks :: "string \<Rightarrow> TimeWindow \<Rightarrow> string \<Rightarrow> string \<Rightarrow> Job \<Rightarrow> bool" where
  "blocks jid window sid uuid booked \<longleftrightarrow>
     job_ID booked \<noteq> jid \<and> \<not> Terminal (job_Status booked) \<and>
     (case job_Assignment booked of None \<Rightarrow> False
      | Some a \<Rightarrow> asg_ReleasedAt a = None \<and> asg_ServerID a = sid \<and>
          List.member (asg_GPUUUIDs a) uuid \<and>
          (\<not> win_Valid (asg_Window a) \<or> win_Overlaps window (asg_Window a)))"

fun mark_booked :: "string \<Rightarrow> TimeWindow \<Rightarrow> string \<Rightarrow> Job list \<Rightarrow> GPU \<Rightarrow> GPU" where
  "mark_booked jid window sid [] g = g"
| "mark_booked jid window sid (b # bs) g =
     mark_booked jid window sid bs
       (if blocks jid window sid (gpu_UUID g) b \<and> gpu_Schedulable g
        then g\<lparr>gpu_State := GPUReserved, gpu_AssignedJobID := job_ID b\<rparr> else g)"

definition calendar_gpu :: "Job \<Rightarrow> gotime \<Rightarrow> string \<Rightarrow> Job list \<Rightarrow> GPU \<Rightarrow> GPU" where
  "calendar_gpu job now sid bookings g =
     (if \<not> gpu_Healthy g \<or> \<not> CapabilityMatches (job_Resources job) g \<or>
         gpu_MemoryTotalMiB g < rq_MinVRAMMiB (job_Resources job)
      then g
      else mark_booked (job_ID job) (RequestedWindow job) sid bookings
             (free_after_end (RequestedWindow job) now sid bookings g))"

definition calendar_server :: "Job \<Rightarrow> gotime \<Rightarrow> Job list \<Rightarrow> Server \<Rightarrow> Server" where
  "calendar_server job now bookings s =
     s\<lparr>srv_GPUs := map (calendar_gpu job now (srv_ID s) bookings) (srv_GPUs s)\<rparr>"

definition CalendarServers ::
  "Job \<Rightarrow> Server list \<Rightarrow> Job list \<Rightarrow> gotime \<Rightarrow> duration \<Rightarrow> Server list" where
  "CalendarServers job servers bookings now offlineAfter =
     (if \<not> win_Valid (RequestedWindow job) then []
      else map (calendar_server job now bookings)
             (filter (\<lambda>s. SameOrganization (job_OrganizationID job) (srv_OrganizationID s) \<and>
                          srv_Schedulable s now offlineAfter) servers))"

section \<open>Frame facts\<close>

lemma free_after_end_frame [simp]:
  "gpu_UUID (free_after_end w now sid bs g) = gpu_UUID g"
  "gpu_Healthy (free_after_end w now sid bs g) = gpu_Healthy g"
  "gpu_Model (free_after_end w now sid bs g) = gpu_Model g"
  "gpu_MemoryTotalMiB (free_after_end w now sid bs g) = gpu_MemoryTotalMiB g"
  by (simp_all add: free_after_end_def)

lemma mark_booked_frame [simp]:
  "gpu_UUID (mark_booked jid w sid bs g) = gpu_UUID g"
  "gpu_Healthy (mark_booked jid w sid bs g) = gpu_Healthy g"
  "gpu_Model (mark_booked jid w sid bs g) = gpu_Model g"
  "gpu_MemoryTotalMiB (mark_booked jid w sid bs g) = gpu_MemoryTotalMiB g"
  "gpu_MemoryUsedMiB (mark_booked jid w sid bs g) = gpu_MemoryUsedMiB g"
  by (induction bs arbitrary: g) auto

lemma calendar_gpu_frame [simp]:
  "gpu_UUID (calendar_gpu job now sid bs g) = gpu_UUID g"
  "gpu_Healthy (calendar_gpu job now sid bs g) = gpu_Healthy g"
  "gpu_Model (calendar_gpu job now sid bs g) = gpu_Model g"
  "gpu_MemoryTotalMiB (calendar_gpu job now sid bs g) = gpu_MemoryTotalMiB g"
  by (simp_all add: calendar_gpu_def)

lemma calendar_server_frame [simp]:
  "srv_ID (calendar_server job now bs s) = srv_ID s"
  "srv_OrganizationID (calendar_server job now bs s) = srv_OrganizationID s"
  "srv_Labels (calendar_server job now bs s) = srv_Labels s"
  "srv_Schedulable (calendar_server job now bs s) t d = srv_Schedulable s t d"
  "map gpu_UUID (srv_GPUs (calendar_server job now bs s)) = map gpu_UUID (srv_GPUs s)"
  by (simp_all add: calendar_server_def srv_Schedulable_def)

lemma calendar_serversE:
  assumes "s' \<in> set (CalendarServers job servers bs now off)"
  obtains s where "s \<in> set servers" "s' = calendar_server job now bs s"
    "SameOrganization (job_OrganizationID job) (srv_OrganizationID s)" "srv_Schedulable s now off"
    "win_Valid (RequestedWindow job)"
  using assms by (auto simp: CalendarServers_def split: if_splits)

lemma calendar_servers_valid:
  "win_Valid (RequestedWindow job) \<Longrightarrow> s \<in> set servers \<Longrightarrow>
   SameOrganization (job_OrganizationID job) (srv_OrganizationID s) \<Longrightarrow> srv_Schedulable s now off \<Longrightarrow>
   calendar_server job now bs s \<in> set (CalendarServers job servers bs now off)"
  by (auto simp: CalendarServers_def)

section \<open>Blocking\<close>

lemma mark_booked_stays_busy:
  "\<not> gpu_Schedulable g \<Longrightarrow> mark_booked jid w sid bs g = g"
  by (induction bs arbitrary: g) auto

lemma mark_booked_busy:
  "b \<in> set bs \<Longrightarrow> blocks jid w sid (gpu_UUID g) b \<Longrightarrow> \<not> gpu_Schedulable (mark_booked jid w sid bs g)"
proof (induction bs arbitrary: g)
  case Nil
  then show ?case by simp
next
  case (Cons c bs)
  show ?case
  proof (cases "b = c")
    case True
    with Cons.prems mark_booked_stays_busy show ?thesis
      by (auto simp: gpu_Schedulable_def)
  next
    case False
    with Cons.prems have b: "b \<in> set bs" by simp
    show ?thesis using Cons.IH [OF b] Cons.prems(2) by simp
  qed
qed

text \<open>Inventory that passed the report validation: total memory positive, used memory not negative.\<close>

definition wf_gpu :: "GPU \<Rightarrow> bool" where
  "wf_gpu g \<longleftrightarrow> gpu_UUID g \<noteq> '''' \<and> 0 < gpu_MemoryTotalMiB g \<and> 0 \<le> gpu_MemoryUsedMiB g"

lemma Available_le_Total: "wf_gpu g \<Longrightarrow> AvailableMemoryMiB g \<le> gpu_MemoryTotalMiB g"
  by (simp add: wf_gpu_def AvailableMemoryMiB_def Let_def)

lemma calendar_gpu_blocked:
  assumes "wf_gpu g" and "b \<in> set bs"
    and "blocks (job_ID job) (RequestedWindow job) sid (gpu_UUID g) b"
  shows "\<not> Matches (job_Resources job) (calendar_gpu job now sid bs g)"
proof (cases "\<not> gpu_Healthy g \<or> \<not> CapabilityMatches (job_Resources job) g \<or>
    gpu_MemoryTotalMiB g < rq_MinVRAMMiB (job_Resources job)")
  case True
  with Available_le_Total [OF assms(1)] show ?thesis
    by (auto simp: calendar_gpu_def Matches_def gpu_Schedulable_def)
next
  case False
  then have eq: "calendar_gpu job now sid bs g =
      mark_booked (job_ID job) (RequestedWindow job) sid bs
        (free_after_end (RequestedWindow job) now sid bs g)"
    unfolding calendar_gpu_def by (simp only: if_False)
  have "\<not> gpu_Schedulable (calendar_gpu job now sid bs g)"
    unfolding eq using mark_booked_busy [OF assms(2)] assms(3) by simp
  then show ?thesis by (simp add: Matches_def)
qed

text \<open>
  A GPU of the calendar projection that still matches the job's request is blocked by no
  booking: no other live, unreleased booking of that GPU has an overlapping (or unknown) window.
\<close>

lemma calendar_match_unbooked:
  assumes "s' \<in> set (CalendarServers job servers bs now off)" and "g' \<in> set (srv_GPUs s')"
    and "Matches (job_Resources job) g'"
    and "\<forall>s \<in> set servers. \<forall>g \<in> set (srv_GPUs s). wf_gpu g"
    and "b \<in> set bs"
  shows "\<not> blocks (job_ID job) (RequestedWindow job) (srv_ID s') (gpu_UUID g') b"
proof -
  obtain s where s: "s \<in> set servers" "s' = calendar_server job now bs s"
    using assms(1) by (rule calendar_serversE)
  then obtain g where g: "g \<in> set (srv_GPUs s)" "g' = calendar_gpu job now (srv_ID s) bs g"
    using assms(2) by (auto simp: calendar_server_def)
  with s assms(4) have "wf_gpu g" by blast
  from calendar_gpu_blocked [OF this assms(5)] assms(3) g s show ?thesis by auto
qed

text \<open>
  External and unknown occupancy and bad health stay blocking whatever the window: the
  projection never turns such a GPU into a schedulable one, and it never invents, drops or reorders
  GPUs.
\<close>

lemma calendar_external_blocking:
  assumes "gpu_State g \<in> {GPUOccupiedLegacy, GPUOccupiedUnknown, GPUUnhealthy} \<or> \<not> gpu_Healthy g"
  shows "\<not> gpu_Schedulable (calendar_gpu job now sid bs g) \<and>
    map gpu_UUID (srv_GPUs (calendar_server job now bs s)) = map gpu_UUID (srv_GPUs s)"
  using assms
  by (auto simp: calendar_gpu_def free_after_end_def gpu_Schedulable_def mark_booked_stays_busy)

section \<open>What the projection depends on\<close>

text \<open>The parts of a booking the calendar reads.\<close>

definition booking_view ::
  "Job \<Rightarrow> string \<times> bool \<times> (string \<times> string list \<times> gotime \<times> gotime \<times> gotime option) option" where
  "booking_view b = (job_ID b, Terminal (job_Status b),
     map_option (\<lambda>a. (asg_ServerID a, asg_GPUUUIDs a, asg_StartAt a, asg_EndAt a, asg_ReleasedAt a))
       (job_Assignment b))"

lemma blocks_cong: "booking_view b = booking_view b' \<Longrightarrow> blocks jid w sid u b = blocks jid w sid u b'"
  by (auto simp: booking_view_def blocks_def asg_Window_def split: option.splits)

lemma ends_before_cong: "booking_view b = booking_view b' \<Longrightarrow> ends_before w sid g b = ends_before w sid g b'"
  by (auto simp: booking_view_def ends_before_def asg_Window_def split: option.splits)

lemma mark_booked_cong:
  "map booking_view bs = map booking_view bs' \<Longrightarrow>
   mark_booked jid w sid bs g = mark_booked jid w sid bs' g"
proof (induction bs arbitrary: bs' g)
  case Nil
  then show ?case by simp
next
  case (Cons b bs)
  then obtain c cs where bs': "bs' = c # cs" "booking_view b = booking_view c"
    "map booking_view bs = map booking_view cs" by auto
  then have "job_ID b = job_ID c" by (simp add: booking_view_def)
  with bs' Cons.IH [OF bs'(3)] blocks_cong [OF bs'(2)] show ?case by simp
qed

lemma list_ex_ends_before_cong:
  "map booking_view bs = map booking_view bs' \<Longrightarrow>
   list_ex (ends_before w sid g) bs = list_ex (ends_before w sid g) bs'"
proof (induction bs arbitrary: bs')
  case Nil
  then show ?case by simp
next
  case (Cons b bs)
  then obtain c cs where bs': "bs' = c # cs" "booking_view b = booking_view c"
    "map booking_view bs = map booking_view cs" by auto
  with Cons.IH [OF bs'(3)] ends_before_cong [OF bs'(2)] show ?case by simp
qed

lemma CalendarServers_cong:
  assumes "map booking_view bs = map booking_view bs'"
    and "job_ID j = job_ID j'" "job_Intent j = job_Intent j'" "job_Resources j = job_Resources j'"
      "job_OrganizationID j = job_OrganizationID j'"
  shows "CalendarServers j servers bs now off = CalendarServers j' servers bs' now off"
proof -
  have w: "RequestedWindow j = RequestedWindow j'"
    unfolding RequestedWindow_def assms(3) ..
  have "calendar_gpu j now sid bs g = calendar_gpu j' now sid bs' g" for sid g
    using assms(2,4) w mark_booked_cong [OF assms(1)] list_ex_ends_before_cong [OF assms(1)]
    by (simp add: calendar_gpu_def free_after_end_def)
  then have "calendar_server j now bs = calendar_server j' now bs'"
    by (simp add: calendar_server_def fun_eq_iff)
  then show ?thesis using assms w by (simp add: CalendarServers_def)
qed

end
