(* ===== verification/Messages.thy ===== *)
theory Messages
  imports Prelude
begin

text \<open>
  The user-visible message texts the modelled code stores in jobs and decisions. They are
  Vietnamese, so each constant spells out the UTF-8 bytes of the Go literal: ASCII runs as string
  literals, the other bytes as characters by number. Statuses, plans and events carry these texts,
  and \<open>transitionLocked\<close> compares them, so they are kept exactly.
\<close>

definition msg_run_time_reached :: string where
  "msg_run_time_reached =
    [CHR 0xC4, CHR 0x90, CHR 0xE1, CHR 0xBA, CHR 0xBF] @ ''n th''
     @ [CHR 0xE1, CHR 0xBB, CHR 0x9D] @ ''i gian ch'' @ [CHR 0xE1, CHR 0xBA, CHR 0xA1]
     @ ''y; ch'' @ [CHR 0xE1, CHR 0xBB, CHR 0x9D] @ '' Agent x'' @ [CHR 0xC3, CHR 0xA1]
     @ ''c nh'' @ [CHR 0xE1, CHR 0xBA, CHR 0xAD] @ ''n container''"

definition msg_cancelled_schedule :: string where
  "msg_cancelled_schedule =
    [CHR 0xC4, CHR 0x90, CHR 0xC3, CHR 0xA3] @ '' h'' @ [CHR 0xE1, CHR 0xBB, CHR 0xA7] @ ''y l''
     @ [CHR 0xE1, CHR 0xBB, CHR 0x8B] @ ''ch tr''
     @ [CHR 0xC6, CHR 0xB0, CHR 0xE1, CHR 0xBB, CHR 0x9B] @ ''c khi th''
     @ [CHR 0xE1, CHR 0xBB, CHR 0xB1] @ ''c thi''"

definition msg_waiting_window :: string where
  "msg_waiting_window =
    ''Kh'' @ [CHR 0xC3, CHR 0xB4] @ ''ng '' @ [CHR 0xC4, CHR 0x91, CHR 0xE1, CHR 0xBB, CHR 0xA7]
     @ '' GPU an to'' @ [CHR 0xC3, CHR 0xA0] @ ''n trong kho''
     @ [CHR 0xE1, CHR 0xBA, CHR 0xA3] @ ''ng th'' @ [CHR 0xE1, CHR 0xBB, CHR 0x9D]
     @ ''i gian y'' @ [CHR 0xC3, CHR 0xAA] @ ''u c'' @ [CHR 0xE1, CHR 0xBA, CHR 0xA7]
     @ ''u''"

definition msg_window_missing :: string where
  "msg_window_missing =
    ''Y'' @ [CHR 0xC3, CHR 0xAA] @ ''u c'' @ [CHR 0xE1, CHR 0xBA, CHR 0xA7] @ ''u c''
     @ [CHR 0xC5, CHR 0xA9] @ '' thi'' @ [CHR 0xE1, CHR 0xBA, CHR 0xBF] @ ''u kho''
     @ [CHR 0xE1, CHR 0xBA, CHR 0xA3] @ ''ng th'' @ [CHR 0xE1, CHR 0xBB, CHR 0x9D]
     @ ''i gian h'' @ [CHR 0xE1, CHR 0xBB, CHR 0xA3] @ ''p l''
     @ [CHR 0xE1, CHR 0xBB, CHR 0x87] @ ''; c'' @ [CHR 0xE1, CHR 0xBA, CHR 0xA7] @ ''n t''
     @ [CHR 0xE1, CHR 0xBA, CHR 0xA1] @ ''o workload m'' @ [CHR 0xE1, CHR 0xBB, CHR 0x9B]
     @ ''i''"

definition msg_window_ended :: string where
  "msg_window_ended =
    ''Kho'' @ [CHR 0xE1, CHR 0xBA, CHR 0xA3] @ ''ng th'' @ [CHR 0xE1, CHR 0xBB, CHR 0x9D]
     @ ''i gian y'' @ [CHR 0xC3, CHR 0xAA] @ ''u c'' @ [CHR 0xE1, CHR 0xBA, CHR 0xA7]
     @ ''u '' @ [CHR 0xC4, CHR 0x91, CHR 0xC3, CHR 0xA3] @ '' k''
     @ [CHR 0xE1, CHR 0xBA, CHR 0xBF] @ ''t th'' @ [CHR 0xC3, CHR 0xBA] @ ''c''"

definition msg_org_not_allowed :: string where
  "msg_org_not_allowed =
    [CHR 0xC4, CHR 0x90, CHR 0xC6, CHR 0xA1] @ ''n v'' @ [CHR 0xE1, CHR 0xBB, CHR 0x8B]
     @ '' kh'' @ [CHR 0xC3, CHR 0xB4] @ ''ng ''
     @ [CHR 0xC4, CHR 0x91, CHR 0xC6, CHR 0xB0, CHR 0xE1, CHR 0xBB, CHR 0xA3] @ ''c ph''
     @ [CHR 0xC3, CHR 0xA9] @ ''p c'' @ [CHR 0xE1, CHR 0xBA, CHR 0xA5] @ ''p ph''
     @ [CHR 0xC3, CHR 0xA1] @ ''t''"

definition msg_reserved_by_plan :: string where
  "msg_reserved_by_plan =
    [CHR 0xC4, CHR 0x90, CHR 0xC3, CHR 0xA3] @ '' gi'' @ [CHR 0xE1, CHR 0xBB, CHR 0xAF] @ '' t''
     @ [CHR 0xC3, CHR 0xA0] @ ''i nguy'' @ [CHR 0xC3, CHR 0xAA] @ ''n theo l''
     @ [CHR 0xE1, CHR 0xBB, CHR 0x8B] @ ''ch; ch'' @ [CHR 0xE1, CHR 0xBB, CHR 0x9D] @ '' ''
     @ [CHR 0xC4, CHR 0x91, CHR 0xE1, CHR 0xBA, CHR 0xBF] @ ''n th''
     @ [CHR 0xE1, CHR 0xBB, CHR 0x9D] @ ''i gian ch'' @ [CHR 0xE1, CHR 0xBA, CHR 0xA1]
     @ ''y''"

definition msg_window_expired_unallocated :: string where
  "msg_window_expired_unallocated =
    ''Kho'' @ [CHR 0xE1, CHR 0xBA, CHR 0xA3] @ ''ng th'' @ [CHR 0xE1, CHR 0xBB, CHR 0x9D]
     @ ''i gian y'' @ [CHR 0xC3, CHR 0xAA] @ ''u c'' @ [CHR 0xE1, CHR 0xBA, CHR 0xA7]
     @ ''u '' @ [CHR 0xC4, CHR 0x91, CHR 0xC3, CHR 0xA3] @ '' k''
     @ [CHR 0xE1, CHR 0xBA, CHR 0xBF] @ ''t th'' @ [CHR 0xC3, CHR 0xBA] @ ''c m''
     @ [CHR 0xC3, CHR 0xA0] @ '' ch'' @ [CHR 0xC6, CHR 0xB0] @ ''a ''
     @ [CHR 0xC4, CHR 0x91, CHR 0xC6, CHR 0xB0, CHR 0xE1, CHR 0xBB, CHR 0xA3] @ ''c c''
     @ [CHR 0xE1, CHR 0xBA, CHR 0xA5] @ ''p GPU''"

definition msg_wait_for_safe_gpu :: string where
  "msg_wait_for_safe_gpu =
    ''Ch'' @ [CHR 0xE1, CHR 0xBB, CHR 0x9D] @ '' server/GPU an to'' @ [CHR 0xC3, CHR 0xA0]
     @ ''n v'' @ [CHR 0xC3, CHR 0xA0] @ '' inventory m'' @ [CHR 0xE1, CHR 0xBB, CHR 0x9B]
     @ ''i tr'' @ [CHR 0xC6, CHR 0xB0, CHR 0xE1, CHR 0xBB, CHR 0x9B] @ ''c khi ch''
     @ [CHR 0xE1, CHR 0xBA, CHR 0xA1] @ ''y''"

definition msg_policy_competitive :: string where
  "msg_policy_competitive =
    ''Ngo'' @ [CHR 0xC3, CHR 0xA0] @ ''i quy ho'' @ [CHR 0xE1, CHR 0xBA, CHR 0xA1] @ ''ch ho''
     @ [CHR 0xE1, CHR 0xBA, CHR 0xB7] @ ''c v''
     @ [CHR 0xC6, CHR 0xB0, CHR 0xE1, CHR 0xBB, CHR 0xA3] @ ''t h''
     @ [CHR 0xE1, CHR 0xBA, CHR 0xA1] @ ''n m'' @ [CHR 0xE1, CHR 0xBB, CHR 0xA9] @ ''c; x''
     @ [CHR 0xE1, CHR 0xBB, CHR 0xAD] @ '' l'' @ [CHR 0xC3, CHR 0xBD] @ '' theo th''
     @ [CHR 0xE1, CHR 0xBB, CHR 0xA9] @ '' t'' @ [CHR 0xE1, CHR 0xBB, CHR 0xB1] @ '' ''
     @ [CHR 0xC6, CHR 0xB0] @ ''u ti'' @ [CHR 0xC3, CHR 0xAA] @ ''n khi c''
     @ [CHR 0xC3, CHR 0xB3] @ '' t'' @ [CHR 0xC3, CHR 0xA0] @ ''i nguy''
     @ [CHR 0xC3, CHR 0xAA] @ ''n.''"

definition msg_policy_auto :: string where
  "msg_policy_auto =
    ''Trong quy ho'' @ [CHR 0xE1, CHR 0xBA, CHR 0xA1] @ ''ch v'' @ [CHR 0xC3, CHR 0xA0] @ '' h''
     @ [CHR 0xE1, CHR 0xBA, CHR 0xA1] @ ''n m'' @ [CHR 0xE1, CHR 0xBB, CHR 0xA9] @ ''c; ''
     @ [CHR 0xC4, CHR 0x91, CHR 0xE1, CHR 0xBB, CHR 0xA7] @ '' '' @ [CHR 0xC4, CHR 0x91]
     @ ''i'' @ [CHR 0xE1, CHR 0xBB, CHR 0x81] @ ''u ki'' @ [CHR 0xE1, CHR 0xBB, CHR 0x87]
     @ ''n t'' @ [CHR 0xE1, CHR 0xBB, CHR 0xB1] @ '' ''
     @ [CHR 0xC4, CHR 0x91, CHR 0xE1, CHR 0xBB, CHR 0x99] @ ''ng x''
     @ [CHR 0xE1, CHR 0xBA, CHR 0xBF] @ ''p l'' @ [CHR 0xE1, CHR 0xBB, CHR 0x8B] @ ''ch.''"

definition msg_bad_workload_type :: string where
  "msg_bad_workload_type =
    ''Ch'' @ [CHR 0xE1, CHR 0xBB, CHR 0x8D] @ ''n Training ho'' @ [CHR 0xE1, CHR 0xBA, CHR 0xB7]
     @ ''c Inference''"

definition msg_bad_necessity_level :: string where
  "msg_bad_necessity_level =
    ''Ch'' @ [CHR 0xE1, CHR 0xBB, CHR 0x8D] @ ''n C'' @ [CHR 0xE1, CHR 0xBA, CHR 0xA7]
     @ ''n thi'' @ [CHR 0xE1, CHR 0xBA, CHR 0xBF] @ ''t 1 ''
     @ [CHR 0xC4, CHR 0x91, CHR 0xE1, CHR 0xBA, CHR 0xBF] @ ''n 4''"

definition msg_bad_importance :: string where
  "msg_bad_importance =
    ''Ch'' @ [CHR 0xE1, CHR 0xBB, CHR 0x8D] @ ''n m'' @ [CHR 0xE1, CHR 0xBB, CHR 0xA9] @ ''c ''
     @ [CHR 0xC4, CHR 0x91, CHR 0xE1, CHR 0xBB, CHR 0x99] @ '' quan tr''
     @ [CHR 0xE1, CHR 0xBB, CHR 0x8D] @ ''ng h'' @ [CHR 0xE1, CHR 0xBB, CHR 0x87] @ '' th''
     @ [CHR 0xE1, CHR 0xBB, CHR 0x91] @ ''ng''"

definition msg_need_explanation :: string where
  "msg_need_explanation =
    ''Nh'' @ [CHR 0xE1, CHR 0xBA, CHR 0xAD] @ ''p gi'' @ [CHR 0xE1, CHR 0xBA, CHR 0xA3]
     @ ''i tr'' @ [CHR 0xC3, CHR 0xAC] @ ''nh cho l'' @ [CHR 0xC3, CHR 0xBD] @ '' do kh''
     @ [CHR 0xC3, CHR 0xA1] @ ''c''"

definition msg_bad_reason :: string where
  "msg_bad_reason =
    ''Ch'' @ [CHR 0xE1, CHR 0xBB, CHR 0x8D] @ ''n l'' @ [CHR 0xC3, CHR 0xBD] @ '' do ph''
     @ [CHR 0xC3, CHR 0xB9] @ '' h'' @ [CHR 0xE1, CHR 0xBB, CHR 0xA3] @ ''p lo''
     @ [CHR 0xE1, CHR 0xBA, CHR 0xA1] @ ''i workload v'' @ [CHR 0xC3, CHR 0xA0] @ '' t''
     @ [CHR 0xC3, CHR 0xAD] @ ''nh c'' @ [CHR 0xE1, CHR 0xBA, CHR 0xA7] @ ''n thi''
     @ [CHR 0xE1, CHR 0xBA, CHR 0xBF] @ ''t''"

definition msg_long_explanation :: string where
  "msg_long_explanation =
    ''Gi'' @ [CHR 0xE1, CHR 0xBA, CHR 0xA3] @ ''i tr'' @ [CHR 0xC3, CHR 0xAC] @ ''nh t''
     @ [CHR 0xE1, CHR 0xBB, CHR 0x91] @ ''i '' @ [CHR 0xC4, CHR 0x91] @ ''a 4096 byte''"

definition msg_can_hold_prefix :: string where
  "msg_can_hold_prefix =
    ''C'' @ [CHR 0xC3, CHR 0xB3] @ '' th'' @ [CHR 0xE1, CHR 0xBB, CHR 0x83] @ '' gi''
     @ [CHR 0xE1, CHR 0xBB, CHR 0xAF] @ '' ''"

definition msg_can_hold_suffix :: string where
  "msg_can_hold_suffix =
    '' GPU trong kho'' @ [CHR 0xE1, CHR 0xBA, CHR 0xA3] @ ''ng th''
     @ [CHR 0xE1, CHR 0xBB, CHR 0x9D] @ ''i gian y'' @ [CHR 0xC3, CHR 0xAA] @ ''u c''
     @ [CHR 0xE1, CHR 0xBA, CHR 0xA7] @ ''u; ch'' @ [CHR 0xE1, CHR 0xBB, CHR 0x89] @ '' ch''
     @ [CHR 0xE1, CHR 0xBA, CHR 0xA1] @ ''y khi ''
     @ [CHR 0xC4, CHR 0x91, CHR 0xE1, CHR 0xBA, CHR 0xBF] @ ''n gi''
     @ [CHR 0xE1, CHR 0xBB, CHR 0x9D] @ '' v'' @ [CHR 0xC3, CHR 0xA0] @ '' ki''
     @ [CHR 0xE1, CHR 0xBB, CHR 0x83] @ ''m tra l'' @ [CHR 0xE1, CHR 0xBA, CHR 0xA1]
     @ ''i t'' @ [CHR 0xC3, CHR 0xA0] @ ''i nguy'' @ [CHR 0xC3, CHR 0xAA] @ ''n.''"

definition msg_no_ownership :: string where
  "msg_no_ownership =
    ''server ch'' @ [CHR 0xC6, CHR 0xB0] @ ''a c'' @ [CHR 0xC3, CHR 0xB3]
     @ '' organization ownership''"

definition msg_org_inactive :: string where
  "msg_org_inactive =
    ''organization kh'' @ [CHR 0xC3, CHR 0xB4] @ ''ng ho'' @ [CHR 0xE1, CHR 0xBA, CHR 0xA1]
     @ ''t '' @ [CHR 0xC4, CHR 0x91, CHR 0xE1, CHR 0xBB, CHR 0x99] @ ''ng ho''
     @ [CHR 0xE1, CHR 0xBA, CHR 0xB7] @ ''c ch'' @ [CHR 0xC6, CHR 0xB0] @ ''a c''
     @ [CHR 0xC3, CHR 0xB3] @ '' metadata''"

definition msg_bad_name :: string where
  "msg_bad_name =
    ''T'' @ [CHR 0xC3, CHR 0xAA] @ ''n c'' @ [CHR 0xE1, CHR 0xBA, CHR 0xA7] @ ''n t''
     @ [CHR 0xE1, CHR 0xBB, CHR 0xAB] @ '' 3 ''
     @ [CHR 0xC4, CHR 0x91, CHR 0xE1, CHR 0xBA, CHR 0xBF] @ ''n 128 byte''"

definition msg_bad_image :: string where
  "msg_bad_image =
    ''Docker image reference kh'' @ [CHR 0xC3, CHR 0xB4] @ ''ng h''
     @ [CHR 0xE1, CHR 0xBB, CHR 0xA3] @ ''p l'' @ [CHR 0xE1, CHR 0xBB, CHR 0x87]"

definition msg_bad_backend :: string where
  "msg_bad_backend =
    ''Ch'' @ [CHR 0xE1, CHR 0xBB, CHR 0x89] @ '' h'' @ [CHR 0xE1, CHR 0xBB, CHR 0x97] @ '' tr''
     @ [CHR 0xE1, CHR 0xBB, CHR 0xA3] @ '' Docker''"

definition msg_shared_gpu :: string where
  "msg_shared_gpu =
    ''Ch'' @ [CHR 0xE1, CHR 0xBB, CHR 0x89] @ '' c'' @ [CHR 0xE1, CHR 0xBA, CHR 0xA5] @ ''p ph''
     @ [CHR 0xC3, CHR 0xA1] @ ''t nguy'' @ [CHR 0xC3, CHR 0xAA] @ ''n GPU v''
     @ [CHR 0xE1, CHR 0xBA, CHR 0xAD] @ ''t l'' @ [CHR 0xC3, CHR 0xBD]"

definition msg_gpu_count :: string where
  "msg_gpu_count =
    ''S'' @ [CHR 0xE1, CHR 0xBB, CHR 0x91] @ '' GPU ph'' @ [CHR 0xE1, CHR 0xBA, CHR 0xA3]
     @ ''i l'' @ [CHR 0xC3, CHR 0xA0] @ '' s'' @ [CHR 0xE1, CHR 0xBB, CHR 0x91] @ '' nguy''
     @ [CHR 0xC3, CHR 0xAA] @ ''n t'' @ [CHR 0xE1, CHR 0xBB, CHR 0xAB] @ '' 1 ''
     @ [CHR 0xC4, CHR 0x91, CHR 0xE1, CHR 0xBA, CHR 0xBF] @ ''n ''"

definition msg_bad_vram :: string where
  "msg_bad_vram =
    ''VRAM m'' @ [CHR 0xE1, CHR 0xBB, CHR 0x97] @ ''i GPU ph'' @ [CHR 0xE1, CHR 0xBA, CHR 0xA3]
     @ ''i l'' @ [CHR 0xE1, CHR 0xBB, CHR 0x9B] @ ''n h'' @ [CHR 0xC6, CHR 0xA1]
     @ ''n 0 MiB''"

definition msg_bad_cpu :: string where
  "msg_bad_cpu =
    ''Gi'' @ [CHR 0xE1, CHR 0xBB, CHR 0x9B] @ ''i h'' @ [CHR 0xE1, CHR 0xBA, CHR 0xA1]
     @ ''n CPU kh'' @ [CHR 0xC3, CHR 0xB4] @ ''ng h'' @ [CHR 0xE1, CHR 0xBB, CHR 0xA3]
     @ ''p l'' @ [CHR 0xE1, CHR 0xBB, CHR 0x87]"

definition msg_bad_memory :: string where
  "msg_bad_memory =
    ''Gi'' @ [CHR 0xE1, CHR 0xBB, CHR 0x9B] @ ''i h'' @ [CHR 0xE1, CHR 0xBA, CHR 0xA1]
     @ ''n RAM kh'' @ [CHR 0xC3, CHR 0xB4] @ ''ng h'' @ [CHR 0xE1, CHR 0xBB, CHR 0xA3]
     @ ''p l'' @ [CHR 0xE1, CHR 0xBB, CHR 0x87]"

definition msg_need_fp8 :: string where
  "msg_need_fp8 =
    ''Ch'' @ [CHR 0xE1, CHR 0xBB, CHR 0x8D] @ ''n c'' @ [CHR 0xC3, CHR 0xB3] @ '' ho''
     @ [CHR 0xE1, CHR 0xBA, CHR 0xB7] @ ''c kh'' @ [CHR 0xC3, CHR 0xB4] @ ''ng y''
     @ [CHR 0xC3, CHR 0xAA] @ ''u c'' @ [CHR 0xE1, CHR 0xBA, CHR 0xA7] @ ''u FP8''"

definition msg_bad_profile :: string where
  "msg_bad_profile =
    ''Ch'' @ [CHR 0xE1, CHR 0xBB, CHR 0x8D] @ ''n profile hi'' @ [CHR 0xE1, CHR 0xBB, CHR 0x87]
     @ ''u n'' @ [CHR 0xC4, CHR 0x83] @ ''ng ''
     @ [CHR 0xC4, CHR 0x91, CHR 0xC6, CHR 0xB0, CHR 0xE1, CHR 0xBB, CHR 0xA3] @ ''c h''
     @ [CHR 0xE1, CHR 0xBB, CHR 0x97] @ '' tr'' @ [CHR 0xE1, CHR 0xBB, CHR 0xA3]"

definition msg_bad_needed_at :: string where
  "msg_bad_needed_at =
    ''Th'' @ [CHR 0xE1, CHR 0xBB, CHR 0x9D] @ ''i '' @ [CHR 0xC4, CHR 0x91] @ ''i''
     @ [CHR 0xE1, CHR 0xBB, CHR 0x83] @ ''m c'' @ [CHR 0xE1, CHR 0xBA, CHR 0xA7] @ ''n ph''
     @ [CHR 0xE1, CHR 0xBA, CHR 0xA3] @ ''i l'' @ [CHR 0xC3, CHR 0xA0] @ '' RFC3339 c''
     @ [CHR 0xC3, CHR 0xB3] @ '' m'' @ [CHR 0xC3, CHR 0xBA] @ ''i gi''
     @ [CHR 0xE1, CHR 0xBB, CHR 0x9D]"

definition msg_ttl_prefix :: string where
  "msg_ttl_prefix =
    ''Th'' @ [CHR 0xE1, CHR 0xBB, CHR 0x9D] @ ''i l''
     @ [CHR 0xC6, CHR 0xB0, CHR 0xE1, CHR 0xBB, CHR 0xA3] @ ''ng ph''
     @ [CHR 0xE1, CHR 0xBA, CHR 0xA3] @ ''i t'' @ [CHR 0xE1, CHR 0xBB, CHR 0xAB] @ '' 1 ''
     @ [CHR 0xC4, CHR 0x91, CHR 0xE1, CHR 0xBA, CHR 0xBF] @ ''n ''"

definition msg_ttl_suffix :: string where
  "msg_ttl_suffix =
    '' gi'' @ [CHR 0xC3, CHR 0xA2] @ ''y''"

definition msg_too_many_env :: string where
  "msg_too_many_env =
    ''T'' @ [CHR 0xE1, CHR 0xBB, CHR 0x91] @ ''i '' @ [CHR 0xC4, CHR 0x91] @ ''a 128 bi''
     @ [CHR 0xE1, CHR 0xBA, CHR 0xBF] @ ''n m'' @ [CHR 0xC3, CHR 0xB4] @ ''i tr''
     @ [CHR 0xC6, CHR 0xB0, CHR 0xE1, CHR 0xBB, CHR 0x9D] @ ''ng''"

definition msg_too_many_args :: string where
  "msg_too_many_args =
    ''T'' @ [CHR 0xE1, CHR 0xBB, CHR 0x91] @ ''i '' @ [CHR 0xC4, CHR 0x91] @ ''a 256 ''
     @ [CHR 0xC4, CHR 0x91, CHR 0xE1, CHR 0xBB, CHR 0x91] @ ''i s''
     @ [CHR 0xE1, CHR 0xBB, CHR 0x91]"

definition msg_bad_env :: string where
  "msg_bad_env =
    ''Bi'' @ [CHR 0xE1, CHR 0xBA, CHR 0xBF] @ ''n m'' @ [CHR 0xC3, CHR 0xB4] @ ''i tr''
     @ [CHR 0xC6, CHR 0xB0, CHR 0xE1, CHR 0xBB, CHR 0x9D] @ ''ng kh'' @ [CHR 0xC3, CHR 0xB4]
     @ ''ng h'' @ [CHR 0xE1, CHR 0xBB, CHR 0xA3] @ ''p l'' @ [CHR 0xE1, CHR 0xBB, CHR 0x87]
     @ ''; GPU visibility do Agent qu'' @ [CHR 0xE1, CHR 0xBA, CHR 0xA3] @ ''n l''
     @ [CHR 0xC3, CHR 0xBD]"

definition msg_bad_arg :: string where
  "msg_bad_arg =
    [CHR 0xC4, CHR 0x90, CHR 0xE1, CHR 0xBB, CHR 0x91] @ ''i s''
     @ [CHR 0xE1, CHR 0xBB, CHR 0x91] @ '' kh'' @ [CHR 0xC3, CHR 0xB4] @ ''ng h''
     @ [CHR 0xE1, CHR 0xBB, CHR 0xA3] @ ''p l'' @ [CHR 0xE1, CHR 0xBB, CHR 0x87] @ '' ho''
     @ [CHR 0xE1, CHR 0xBA, CHR 0xB7] @ ''c qu'' @ [CHR 0xC3, CHR 0xA1] @ '' d''
     @ [CHR 0xC3, CHR 0xA0] @ ''i''"

definition msg_needed_in_past :: string where
  "msg_needed_in_past =
    ''Th'' @ [CHR 0xE1, CHR 0xBB, CHR 0x9D] @ ''i '' @ [CHR 0xC4, CHR 0x91] @ ''i''
     @ [CHR 0xE1, CHR 0xBB, CHR 0x83] @ ''m b'' @ [CHR 0xE1, CHR 0xBA, CHR 0xAF] @ ''t ''
     @ [CHR 0xC4, CHR 0x91, CHR 0xE1, CHR 0xBA, CHR 0xA7] @ ''u kh'' @ [CHR 0xC3, CHR 0xB4]
     @ ''ng '' @ [CHR 0xC4, CHR 0x91, CHR 0xC6, CHR 0xB0, CHR 0xE1, CHR 0xBB, CHR 0xA3]
     @ ''c '' @ [CHR 0xE1, CHR 0xBB, CHR 0x9F] @ '' qu'' @ [CHR 0xC3, CHR 0xA1] @ '' kh''
     @ [CHR 0xE1, CHR 0xBB, CHR 0xA9] @ '' qu'' @ [CHR 0xC3, CHR 0xA1] @ '' 60 gi''
     @ [CHR 0xC3, CHR 0xA2] @ ''y''"

definition msg_window_over :: string where
  "msg_window_over =
    ''Kho'' @ [CHR 0xE1, CHR 0xBA, CHR 0xA3] @ ''ng th'' @ [CHR 0xE1, CHR 0xBB, CHR 0x9D]
     @ ''i gian s'' @ [CHR 0xE1, CHR 0xBB, CHR 0xAD] @ '' d''
     @ [CHR 0xE1, CHR 0xBB, CHR 0xA5] @ ''ng ph'' @ [CHR 0xE1, CHR 0xBA, CHR 0xA3] @ ''i h''
     @ [CHR 0xE1, CHR 0xBB, CHR 0xA3] @ ''p l'' @ [CHR 0xE1, CHR 0xBB, CHR 0x87] @ '' v''
     @ [CHR 0xC3, CHR 0xA0] @ '' ch'' @ [CHR 0xC6, CHR 0xB0] @ ''a k''
     @ [CHR 0xE1, CHR 0xBA, CHR 0xBF] @ ''t th'' @ [CHR 0xC3, CHR 0xBA] @ ''c''"

definition msg_outside_plan :: string where
  "msg_outside_plan =
    ''Ngo'' @ [CHR 0xC3, CHR 0xA0] @ ''i Quy ho'' @ [CHR 0xE1, CHR 0xBA, CHR 0xA1] @ ''ch ''
     @ [CHR 0xC4, CHR 0x91, CHR 0xE1, CHR 0xBB, CHR 0x8B] @ ''nh c''
     @ [CHR 0xE1, CHR 0xBB, CHR 0xA1]"

definition msg_over_quota :: string where
  "msg_over_quota =
    ''V'' @ [CHR 0xC6, CHR 0xB0, CHR 0xE1, CHR 0xBB, CHR 0xA3] @ ''t h''
     @ [CHR 0xE1, CHR 0xBA, CHR 0xA1] @ ''n m'' @ [CHR 0xE1, CHR 0xBB, CHR 0xA9] @ ''c hi''
     @ [CHR 0xE1, CHR 0xBB, CHR 0x87] @ ''n t'' @ [CHR 0xE1, CHR 0xBA, CHR 0xA1] @ ''i''"

definition msg_inside_plan :: string where
  "msg_inside_plan =
    ''Trong Quy ho'' @ [CHR 0xE1, CHR 0xBA, CHR 0xA1] @ ''ch ''
     @ [CHR 0xC4, CHR 0x91, CHR 0xE1, CHR 0xBB, CHR 0x8B] @ ''nh c''
     @ [CHR 0xE1, CHR 0xBB, CHR 0xA1]"

definition msg_inside_quota :: string where
  "msg_inside_quota =
    ''Trong h'' @ [CHR 0xE1, CHR 0xBA, CHR 0xA1] @ ''n m'' @ [CHR 0xE1, CHR 0xBB, CHR 0xA9]
     @ ''c hi'' @ [CHR 0xE1, CHR 0xBB, CHR 0x87] @ ''n t'' @ [CHR 0xE1, CHR 0xBA, CHR 0xA1]
     @ ''i''"

definition msg_custom_reason :: string where
  "msg_custom_reason =
    ''L'' @ [CHR 0xC3, CHR 0xBD] @ '' do kh'' @ [CHR 0xC3, CHR 0xA1] @ ''c (c''
     @ [CHR 0xE1, CHR 0xBA, CHR 0xA7] @ ''n gi'' @ [CHR 0xE1, CHR 0xBA, CHR 0xA3] @ ''i tr''
     @ [CHR 0xC3, CHR 0xAC] @ ''nh)''"

definition msg_output_not_saved :: string where
  "msg_output_not_saved =
    ''kh'' @ [CHR 0xC3, CHR 0xB4] @ ''ng l'' @ [CHR 0xC6, CHR 0xB0] @ ''u ''
     @ [CHR 0xC4, CHR 0x91, CHR 0xC6, CHR 0xB0, CHR 0xE1, CHR 0xBB, CHR 0xA3] @ ''c t''
     @ [CHR 0xE1, CHR 0xBB, CHR 0x87] @ ''p ''
     @ [CHR 0xC4, CHR 0x91, CHR 0xE1, CHR 0xBA, CHR 0xA7] @ ''u ra''"

definition msg_invalid_request :: string where
  "msg_invalid_request =
    ''D'' @ [CHR 0xE1, CHR 0xBB, CHR 0xAF] @ '' li'' @ [CHR 0xE1, CHR 0xBB, CHR 0x87] @ ''u y''
     @ [CHR 0xC3, CHR 0xAA] @ ''u c'' @ [CHR 0xE1, CHR 0xBA, CHR 0xA7] @ ''u ch''
     @ [CHR 0xC6, CHR 0xB0] @ ''a h'' @ [CHR 0xE1, CHR 0xBB, CHR 0xA3] @ ''p l''
     @ [CHR 0xE1, CHR 0xBB, CHR 0x87]"

definition msg_bad_body :: string where
  "msg_bad_body =
    ''Sai ki'' @ [CHR 0xE1, CHR 0xBB, CHR 0x83] @ ''u d'' @ [CHR 0xE1, CHR 0xBB, CHR 0xAF]
     @ '' li'' @ [CHR 0xE1, CHR 0xBB, CHR 0x87] @ ''u, thi''
     @ [CHR 0xE1, CHR 0xBA, CHR 0xBF] @ ''u gi'' @ [CHR 0xC3, CHR 0xA1] @ '' tr''
     @ [CHR 0xE1, CHR 0xBB, CHR 0x8B] @ '' ho'' @ [CHR 0xE1, CHR 0xBA, CHR 0xB7] @ ''c c''
     @ [CHR 0xC3, CHR 0xB3] @ '' field kh'' @ [CHR 0xC3, CHR 0xB4] @ ''ng ''
     @ [CHR 0xC4, CHR 0x91, CHR 0xC6, CHR 0xB0, CHR 0xE1, CHR 0xBB, CHR 0xA3] @ ''c h''
     @ [CHR 0xE1, CHR 0xBB, CHR 0x97] @ '' tr'' @ [CHR 0xE1, CHR 0xBB, CHR 0xA3]"

definition msg_reserved_notice :: string where
  "msg_reserved_notice =
    [CHR 0xC4, CHR 0x90, CHR 0xC3, CHR 0xA3] @ '' ch'' @ [CHR 0xE1, CHR 0xBB, CHR 0x8D]
     @ ''n server trong '' @ [CHR 0xC4, CHR 0x91, CHR 0xC6, CHR 0xA1] @ ''n v''
     @ [CHR 0xE1, CHR 0xBB, CHR 0x8B] @ '' v'' @ [CHR 0xC3, CHR 0xA0] @ '' reserve GPU; ch''
     @ [CHR 0xE1, CHR 0xBB, CHR 0x9D] @ '' Agent x'' @ [CHR 0xC3, CHR 0xA1] @ ''c nh''
     @ [CHR 0xE1, CHR 0xBA, CHR 0xAD] @ ''n runtime.''"

definition msg_login_later :: string where
  "msg_login_later =
    ''Vui l'' @ [CHR 0xC3, CHR 0xB2] @ ''ng th'' @ [CHR 0xE1, CHR 0xBB, CHR 0xAD] @ '' l''
     @ [CHR 0xE1, CHR 0xBA, CHR 0xA1] @ ''i sau m'' @ [CHR 0xE1, CHR 0xBB, CHR 0x99]
     @ ''t ph'' @ [CHR 0xC3, CHR 0xBA] @ ''t''"

definition msg_login_busy :: string where
  "msg_login_busy =
    ''C'' @ [CHR 0xC3, CHR 0xB3] @ '' nhi'' @ [CHR 0xE1, CHR 0xBB, CHR 0x81] @ ''u y''
     @ [CHR 0xC3, CHR 0xAA] @ ''u c'' @ [CHR 0xE1, CHR 0xBA, CHR 0xA7] @ ''u ''
     @ [CHR 0xC4, CHR 0x91, CHR 0xC4, CHR 0x83] @ ''ng nh'' @ [CHR 0xE1, CHR 0xBA, CHR 0xAD]
     @ ''p, vui l'' @ [CHR 0xC3, CHR 0xB2] @ ''ng th'' @ [CHR 0xE1, CHR 0xBB, CHR 0xAD]
     @ '' l'' @ [CHR 0xE1, CHR 0xBA, CHR 0xA1] @ ''i''"

definition msg_output_size :: string where
  "msg_output_size =
    ''T'' @ [CHR 0xE1, CHR 0xBB, CHR 0x87] @ ''p ph'' @ [CHR 0xE1, CHR 0xBA, CHR 0xA3] @ ''i c''
     @ [CHR 0xC3, CHR 0xB3] @ '' Content-Length h'' @ [CHR 0xE1, CHR 0xBB, CHR 0xA3]
     @ ''p l'' @ [CHR 0xE1, CHR 0xBB, CHR 0x87] @ '' v'' @ [CHR 0xC3, CHR 0xA0] @ '' n''
     @ [CHR 0xE1, CHR 0xBA, CHR 0xB1] @ ''m trong gi'' @ [CHR 0xE1, CHR 0xBB, CHR 0x9B]
     @ ''i h'' @ [CHR 0xE1, CHR 0xBA, CHR 0xA1] @ ''n dung l''
     @ [CHR 0xC6, CHR 0xB0, CHR 0xE1, CHR 0xBB, CHR 0xA3] @ ''ng''"

end
