(* ===== verification/Memory_Store.thy ===== *)
theory Memory_Store
  imports Accounting Calendar Messages
begin

text \<open>
  \<open>internal/store/memory\<close>: the in-memory repository. Each exported method runs under the store's
  mutex, so it is one atomic step: a function from the store and its arguments to a result (an error
  or a value) and the new store. The clone functions copy Go values so that callers cannot mutate
  stored data; HOL values are immutable, so they are the identity here. \<open>job.Assignment\<close> is a shared
  pointer in the code, but every method that writes through it stores the job before it returns, and
  no method returns an error after such a write, so the sharing is not observable.
\<close>

record Store =
  st_servers :: "(string, Server) gomap"
  st_machines :: "(string, string) gomap"
  st_jobs :: "(string, Job) gomap"
  st_commands :: "(string, Command) gomap"
  st_offlineAfter :: duration

definition New_Store :: "duration \<Rightarrow> Store" where
  "New_Store timeout = \<lparr>st_servers = [], st_machines = [], st_jobs = [], st_commands = [],
     st_offlineAfter = timeout\<rparr>"

type_synonym 'a outcome = "(go_error + 'a) \<times> Store"

abbreviation put_job :: "Job \<Rightarrow> Store \<Rightarrow> Store" where
  "put_job j s \<equiv> s\<lparr>st_jobs := put (job_ID j) j (st_jobs s)\<rparr>"

abbreviation put_server :: "string \<Rightarrow> Server \<Rightarrow> Store \<Rightarrow> Store" where
  "put_server k v s \<equiv> s\<lparr>st_servers := put k v (st_servers s)\<rparr>"

abbreviation put_command :: "Command \<Rightarrow> Store \<Rightarrow> Store" where
  "put_command c s \<equiv> s\<lparr>st_commands := put (cmd_ID c) c (st_commands s)\<rparr>"

section \<open>Servers\<close>

definition zero_host :: HostInfo where
  "zero_host = \<lparr>host_Hostname = '''', host_OS = '''', host_Architecture = '''', host_CPUCount = 0,
     host_MemoryTotalMiB = 0\<rparr>"

text \<open>Reading a missing key of the servers map gives the zero server.\<close>

definition zero_server :: Server where
  "zero_server = \<lparr>srv_Capabilities = None, srv_OrganizationID = '''', srv_SchedulingReady = False,
     srv_SchedulingReason = '''', srv_Host = zero_host, srv_ID = '''', srv_MachineID = '''',
     srv_Name = '''', srv_Address = '''', srv_AgentVersion = '''', srv_Labels = [],
     srv_Status = ServerOffline, srv_Drained = False, srv_LastHeartbeatAt = 0,
     srv_LastInventoryAt = 0, srv_InventoryReceivedAt = 0, srv_DockerVersion = '''',
     srv_InventoryVersion = 0, srv_GPUs = [], srv_Containers = [], srv_TokenHash = ''''\<rparr>"

definition get_or_zero :: "(string, Server) gomap \<Rightarrow> string \<Rightarrow> Server" where
  "get_or_zero m k = (case map_of m k of None \<Rightarrow> zero_server | Some v \<Rightarrow> v)"

definition UpsertServer :: "Server \<Rightarrow> Store \<Rightarrow> Server outcome" where
  "UpsertServer incoming s =
     (case map_of (st_machines s) (srv_MachineID incoming) of
        Some sid \<Rightarrow>
          (let existing = get_or_zero (st_servers s) sid in
           if srv_OrganizationID existing \<noteq> srv_OrganizationID incoming \<or>
              (srv_OrganizationID incoming \<noteq> '''' \<and> srv_ID incoming \<noteq> srv_ID existing)
           then (Inl ErrConflict, s)
           else
             let updated = existing\<lparr>srv_Name := srv_Name incoming, srv_Address := srv_Address incoming,
                   srv_AgentVersion := srv_AgentVersion incoming,
                   srv_Capabilities := srv_Capabilities incoming, srv_Labels := srv_Labels incoming,
                   srv_Status := (if srv_Drained existing then ServerDraining else ServerOnline),
                   srv_InventoryReceivedAt := 0, srv_InventoryVersion := 0,
                   srv_LastHeartbeatAt := srv_LastHeartbeatAt incoming,
                   srv_TokenHash := srv_TokenHash incoming\<rparr>
             in (Inr updated, put_server sid updated s))
      | None \<Rightarrow>
          (Inr incoming,
           put_server (srv_ID incoming) incoming
             (s\<lparr>st_machines := put (srv_MachineID incoming) (srv_ID incoming) (st_machines s)\<rparr>)))"

text \<open>\<open>sha256\<close> is the digest function of \<open>crypto/sha256\<close>.\<close>

definition AuthenticateAgent ::
  "(string \<Rightarrow> string) \<Rightarrow> string \<Rightarrow> string \<Rightarrow> Store \<Rightarrow> unit outcome" where
  "AuthenticateAgent sha256 agentID token s =
     (case map_of (st_servers s) agentID of
        None \<Rightarrow> (Inl ErrUnauthorized, s)
      | Some server \<Rightarrow>
          if srv_TokenHash server \<noteq> sha256 token then (Inl ErrUnauthorized, s) else (Inr (), s))"

definition Heartbeat :: "string \<Rightarrow> gotime \<Rightarrow> Store \<Rightarrow> Server outcome" where
  "Heartbeat agentID now s =
     (case map_of (st_servers s) agentID of
        None \<Rightarrow> (Inl ErrNotFound, s)
      | Some server \<Rightarrow>
          (let server = (if srv_Status server = ServerOffline \<or>
                            st_offlineAfter s < Sub now (srv_LastHeartbeatAt server)
                         then server\<lparr>srv_InventoryReceivedAt := 0\<rparr> else server);
               server = server\<lparr>srv_LastHeartbeatAt := now,
                 srv_Status := (if srv_Drained server then ServerDraining else ServerOnline)\<rparr>
           in (Inr server, put_server agentID server s)))"

definition SetServerDrained :: "string \<Rightarrow> bool \<Rightarrow> Store \<Rightarrow> Server outcome" where
  "SetServerDrained serverID drained s =
     (case map_of (st_servers s) serverID of
        None \<Rightarrow> (Inl ErrNotFound, s)
      | Some server \<Rightarrow>
          (let server = server\<lparr>srv_Drained := drained,
                 srv_Status := (if srv_Status server = ServerOffline then ServerOffline
                                else if drained then ServerDraining else ServerOnline)\<rparr>
           in (Inr server, put_server serverID server s)))"

definition is_stale :: "gotime \<Rightarrow> Server \<Rightarrow> bool" where
  "is_stale staleBefore server \<longleftrightarrow>
     srv_LastHeartbeatAt server < staleBefore \<and> srv_Status server \<noteq> ServerOffline"

definition MarkStaleServers :: "gotime \<Rightarrow> Store \<Rightarrow> int outcome" where
  "MarkStaleServers staleBefore s =
     (Inr (int (length (filter (\<lambda>(k, server). is_stale staleBefore server) (st_servers s)))),
      s\<lparr>st_servers := map_vals (\<lambda>k server. if is_stale staleBefore server
                                  then server\<lparr>srv_Status := ServerOffline\<rparr> else server) (st_servers s)\<rparr>)"

definition GetServer :: "string \<Rightarrow> Store \<Rightarrow> Server outcome" where
  "GetServer sid s = (case map_of (st_servers s) sid of None \<Rightarrow> Inl ErrNotFound | Some v \<Rightarrow> Inr v, s)"

definition ListServers :: "Store \<Rightarrow> Server list outcome" where
  "ListServers s = (Inr (sort_by (\<lambda>a b. srv_Name a < srv_Name b) (map snd (st_servers s))), s)"

section \<open>Job lifecycle\<close>

definition transitionLocked :: "Job \<Rightarrow> JobStatus \<Rightarrow> string \<Rightarrow> gotime \<Rightarrow> Job" where
  "transitionLocked job status reason now =
     (if Terminal (job_Status job) \<or> (job_Status job = status \<and> job_StatusReason job = reason) then job
      else
        let tr = (if status = JobSucceeded then TerminationCompleted
                  else if status = JobFailed \<and> job_TerminationReason job = TerminationUnset
                  then TerminationSystemError
                  else if status = JobCancelled \<and> job_TerminationReason job = TerminationUnset
                  then TerminationUserCancelled
                  else job_TerminationReason job)
        in job\<lparr>job_TerminationReason := tr, job_Status := status, job_StatusReason := reason,
               job_UpdatedAt := now,
               job_Events := job_Events job @
                 [\<lparr>ev_JobID = job_ID job, ev_Status = status, ev_Reason = reason, ev_At = now\<rparr>]\<rparr>)"

text \<open>\<open>releaseLocked\<close> also writes the released job back through its pointer: it returns that job.\<close>

definition released :: "Job \<Rightarrow> gotime \<Rightarrow> Job" where
  "released job now =
     (case job_Assignment job of None \<Rightarrow> job
      | Some a \<Rightarrow> job\<lparr>job_Assignment :=
          Some (a\<lparr>asg_ReservationState := ''RELEASED'', asg_ReleasedAt := Some now\<rparr>)\<rparr>)"

definition releaseLocked :: "Job \<Rightarrow> gotime \<Rightarrow> Store \<Rightarrow> Job \<times> Store" where
  "releaseLocked job now s =
     (case job_Assignment job of None \<Rightarrow> (job, s)
      | Some a \<Rightarrow>
          (let job' = released job now; s1 = put_job job' s in
           case map_of (st_servers s1) (asg_ServerID a) of
             None \<Rightarrow> (job', s1)
           | Some server \<Rightarrow>
               (let server' = server\<lparr>srv_GPUs := normalizeGPUState (srv_ID server) (srv_GPUs server)
                      (srv_Containers server) [] (st_jobs s1)\<rparr>
                in (job', put_server (srv_ID server') server' s1))))"

definition CreateJob :: "Job \<Rightarrow> Store \<Rightarrow> unit outcome" where
  "CreateJob job s =
     (case map_of (st_jobs s) (job_ID job) of
        Some _ \<Rightarrow> (Inl ErrConflict, s)
      | None \<Rightarrow> (Inr (), put_job job s))"

definition GetJob :: "string \<Rightarrow> Store \<Rightarrow> Job outcome" where
  "GetJob jid s = (case map_of (st_jobs s) jid of None \<Rightarrow> Inl ErrNotFound | Some j \<Rightarrow> Inr j, s)"

definition ListJobs :: "Store \<Rightarrow> Job list outcome" where
  "ListJobs s = (Inr (sort_by (\<lambda>a b. job_CreatedAt b < job_CreatedAt a) (map snd (st_jobs s))), s)"

definition queued_less :: "Job \<Rightarrow> Job \<Rightarrow> bool" where
  "queued_less a b = (if job_CreatedAt a \<noteq> job_CreatedAt b then job_CreatedAt a < job_CreatedAt b
                      else job_ID a < job_ID b)"

definition ListQueuedJobs :: "Store \<Rightarrow> Job list outcome" where
  "ListQueuedJobs s =
     (Inr (sort_by queued_less (filter (\<lambda>j. job_Status j = JobQueued) (map snd (st_jobs s)))), s)"

definition SetJobStatus ::
  "string \<Rightarrow> JobStatus \<Rightarrow> string \<Rightarrow> gotime \<Rightarrow> Store \<Rightarrow> Job outcome" where
  "SetJobStatus jid status reason now s =
     (case map_of (st_jobs s) jid of
        None \<Rightarrow> (Inl ErrNotFound, s)
      | Some job \<Rightarrow>
          if Terminal (job_Status job) \<or> (status = JobQueued \<and> job_Status job \<noteq> JobQueued)
          then (Inr job, s)
          else if status = JobFailed \<and> job_Status job \<noteq> JobQueued then (Inr job, s)
          else if status = JobAssigned \<and>
                  (job_Status job \<noteq> JobAssigned \<or>
                   (case job_Assignment job of None \<Rightarrow> True | Some a \<Rightarrow> asg_CommandID a \<noteq> ''''))
          then (Inr job, s)
          else
            (let job1 = transitionLocked job status reason now;
                 (job2, s2) = (if Terminal status then releaseLocked job1 now s else (job1, s))
             in (Inr job2, s2\<lparr>st_jobs := put jid job2 (st_jobs s2)\<rparr>)))"

section \<open>Assignment\<close>

definition selector_matches :: "labels \<Rightarrow> labels \<Rightarrow> bool" where
  "selector_matches selector ls \<longleftrightarrow> list_all (\<lambda>(k, v). label_get ls k = v) selector"

definition valid_uuids :: "string list \<Rightarrow> bool" where
  "valid_uuids us \<longleftrightarrow> '''' \<notin> set us \<and> distinct us"

text \<open>The wanted GPUs of a server: how many there are, and whether all of them match.\<close>

definition found_count :: "string list \<Rightarrow> GPU list \<Rightarrow> nat" where
  "found_count us gpus = length (filter (\<lambda>g. List.member us (gpu_UUID g)) gpus)"

definition all_match :: "ResourceRequest \<Rightarrow> string list \<Rightarrow> GPU list \<Rightarrow> bool" where
  "all_match r us gpus \<longleftrightarrow> list_all (\<lambda>g. List.member us (gpu_UUID g) \<longrightarrow> Matches r g) gpus"

definition reserve_gpu :: "string \<Rightarrow> string list \<Rightarrow> GPU \<Rightarrow> GPU" where
  "reserve_gpu jid us g =
     (if List.member us (gpu_UUID g) then g\<lparr>gpu_State := GPUReserved, gpu_AssignedJobID := jid\<rparr> else g)"

definition is_planned :: "Job \<Rightarrow> bool" where
  "is_planned job \<longleftrightarrow> (case job_Assignment job of None \<Rightarrow> False
     | Some a \<Rightarrow> asg_ReservationState a = ''PLANNED'')"

text \<open>The first guard: a planned job starts inside its window as planned; a job without a plan must
  be an untimed queued one.\<close>

definition commit_guard :: "Job \<Rightarrow> Placement \<Rightarrow> Command \<Rightarrow> gotime \<Rightarrow> bool" where
  "commit_guard job p command now \<longleftrightarrow>
     (case job_Assignment job of
        Some a \<Rightarrow>
          if asg_ReservationState a = ''PLANNED''
          then job_Status job = JobAssigned \<and> asg_CommandID a = '''' \<and> win_Contains (asg_Window a) now \<and>
               asg_ServerID a = plc_ServerID p \<and> asg_GPUUUIDs a = plc_GPUUUIDs p \<and>
               cmd_Type command = CommandStartContainer
          else job_Status job = JobQueued \<and> in_NeededAt (job_Intent job) = '''' \<and>
               in_TTLSeconds (job_Intent job) = 0
      | None \<Rightarrow> job_Status job = JobQueued \<and> in_NeededAt (job_Intent job) = '''' \<and>
               in_TTLSeconds (job_Intent job) = 0)"

definition committed_job :: "Job \<Rightarrow> Placement \<Rightarrow> Command \<Rightarrow> gotime \<Rightarrow> Job" where
  "committed_job job p command now =
     (let j = (case job_Assignment job of
                 Some a \<Rightarrow>
                   if asg_ReservationState a = ''PLANNED''
                   then transitionLocked
                          (job\<lparr>job_Assignment := Some (a\<lparr>asg_CommandID := cmd_ID command,
                             asg_ReservationState := ''RESERVED''\<rparr>)\<rparr>)
                          JobStarting msg_run_time_reached now
                   else (transitionLocked job JobAssigned (plc_Reason p) now)\<lparr>job_Assignment :=
                          Some \<lparr>asg_StartAt = 0, asg_EndAt = 0, asg_ServerID = plc_ServerID p,
                            asg_GPUUUIDs = plc_GPUUUIDs p, asg_CommandID = cmd_ID command,
                            asg_AssignedAt = now, asg_ReservationState = ''RESERVED'',
                            asg_ReleasedAt = None, asg_Strategy = plc_Strategy p,
                            asg_Score = plc_Score p, asg_Reason = plc_Reason p\<rparr>\<rparr>
               | None \<Rightarrow> (transitionLocked job JobAssigned (plc_Reason p) now)\<lparr>job_Assignment :=
                          Some \<lparr>asg_StartAt = 0, asg_EndAt = 0, asg_ServerID = plc_ServerID p,
                            asg_GPUUUIDs = plc_GPUUUIDs p, asg_CommandID = cmd_ID command,
                            asg_AssignedAt = now, asg_ReservationState = ''RESERVED'',
                            asg_ReleasedAt = None, asg_Strategy = plc_Strategy p,
                            asg_Score = plc_Score p, asg_Reason = plc_Reason p\<rparr>\<rparr>)
      in j\<lparr>job_Policy := plc_Policy p, job_UpdatedAt := now\<rparr>)"

definition CommitAssignment ::
  "string \<Rightarrow> Placement \<Rightarrow> Command \<Rightarrow> gotime \<Rightarrow> Store \<Rightarrow> Job outcome" where
  "CommitAssignment jobID p command now s =
     (case map_of (st_jobs s) jobID of
        None \<Rightarrow> (Inl ErrNotFound, s)
      | Some job \<Rightarrow>
          if \<not> commit_guard job p command now then (Inl ErrConflict, s)
          else case map_of (st_servers s) (plc_ServerID p) of
            None \<Rightarrow> (Inl ErrNotFound, s)
          | Some server \<Rightarrow>
              if \<not> SameOrganization (job_OrganizationID job) (srv_OrganizationID server)
              then (Inl ErrConflict, s)
              else if \<not> srv_Schedulable server now (st_offlineAfter s) \<or>
                      rq_GPUCount (job_Resources job) \<le> 0 \<or>
                      int (length (plc_GPUUUIDs p)) \<noteq> rq_GPUCount (job_Resources job) \<or>
                      cmd_AgentID command \<noteq> srv_ID server
              then (Inl ErrConflict, s)
              else if map_of (st_commands s) (cmd_ID command) \<noteq> None then (Inl ErrConflict, s)
              else if \<not> valid_uuids (plc_GPUUUIDs p) then (Inl ErrConflict, s)
              else if \<not> all_match (job_Resources job) (plc_GPUUUIDs p) (srv_GPUs server)
              then (Inl ErrConflict, s)
              else if found_count (plc_GPUUUIDs p) (srv_GPUs server) \<noteq> length (plc_GPUUUIDs p)
              then (Inl ErrConflict, s)
              else if \<not> selector_matches (job_ServerSelector job) (srv_Labels server)
              then (Inl ErrConflict, s)
              else
                (let server' = server\<lparr>srv_GPUs := map (reserve_gpu jobID (plc_GPUUUIDs p)) (srv_GPUs server)\<rparr>;
                     job' = committed_job job p command now
                 in (Inr job', put_command command (put_job job' (put_server (srv_ID server') server' s)))))"

section \<open>Commands\<close>

definition EnqueueCommand :: "Command \<Rightarrow> Store \<Rightarrow> unit outcome" where
  "EnqueueCommand command s =
     (if map_of (st_commands s) (cmd_ID command) \<noteq> None then (Inl ErrConflict, s)
      else if map_of (st_servers s) (cmd_AgentID command) = None then (Inl ErrNotFound, s)
      else (Inr (), put_command command s))"

definition gpu_ready_for :: "string \<Rightarrow> GPU \<Rightarrow> bool" where
  "gpu_ready_for jid g \<longleftrightarrow> gpu_Healthy g \<and> gpu_AssignedJobID g = jid \<and>
     (gpu_State g = GPUReserved \<or> gpu_State g = GPUAllocated)"

definition startDeliverableLocked :: "Store \<Rightarrow> Command \<Rightarrow> gotime \<Rightarrow> bool" where
  "startDeliverableLocked s command now =
     (let server = get_or_zero (st_servers s) (cmd_AgentID command) in
      if \<not> srv_Schedulable server now (st_offlineAfter s) then False
      else case payload_JobID (cmd_Payload command) of
        None \<Rightarrow> False
      | Some jid \<Rightarrow>
          (case map_of (st_jobs s) jid of
             None \<Rightarrow> False
           | Some job \<Rightarrow>
               (case job_Assignment job of
                  None \<Rightarrow> False
                | Some a \<Rightarrow>
                    if Terminal (job_Status job) \<or> asg_CommandID a \<noteq> cmd_ID command \<or>
                       \<not> SameOrganization (job_OrganizationID job) (srv_OrganizationID server)
                    then False
                    else if win_Valid (asg_Window a) \<and> \<not> win_Contains (asg_Window a) now then False
                    else list_all (\<lambda>g. containsUUID (asg_GPUUUIDs a) (gpu_UUID g) \<longrightarrow>
                                       gpu_ready_for (job_ID job) g) (srv_GPUs server) \<and>
                         found_count (asg_GPUUUIDs a) (srv_GPUs server) = length (asg_GPUUUIDs a))))"

text \<open>A STOP waits while its START may still be delivered.\<close>

definition stop_must_wait :: "Store \<Rightarrow> Command \<Rightarrow> gotime \<Rightarrow> bool" where
  "stop_must_wait s command now =
     (let jid = (case payload_JobID (cmd_Payload command) of None \<Rightarrow> '''' | Some i \<Rightarrow> i) in
      case Option.bind (map_of (st_jobs s) jid) job_Assignment of
        None \<Rightarrow> False
      | Some a \<Rightarrow>
          (let window = asg_Window a; expired = (win_Valid window \<and> \<not> now < win_EndAt window) in
           case map_of (st_commands s) (asg_CommandID a) of
             None \<Rightarrow> False
           | Some start \<Rightarrow> cmd_Status start = CommandPending \<or>
                            (cmd_Status start = CommandDelivered \<and> \<not> expired)))"

definition lease_eligible :: "Store \<Rightarrow> string \<Rightarrow> gotime \<Rightarrow> Command \<Rightarrow> bool" where
  "lease_eligible s agentID now command \<longleftrightarrow>
     cmd_AgentID command = agentID \<and>
     \<not> (cmd_Type command = CommandStartContainer \<and> \<not> startDeliverableLocked s command now) \<and>
     \<not> (cmd_Type command = CommandStopContainer \<and> stop_must_wait s command now) \<and>
     (cmd_Status command = CommandPending \<or>
      (cmd_Status command = CommandDelivered \<and>
       (case cmd_LeaseUntil command of None \<Rightarrow> False | Some t \<Rightarrow> t < now)))"

definition command_less :: "Command \<Rightarrow> Command \<Rightarrow> bool" where
  "command_less a b = (if cmd_CreatedAt a = cmd_CreatedAt b then cmd_ID a < cmd_ID b
                       else cmd_CreatedAt a < cmd_CreatedAt b)"

definition leased :: "gotime \<Rightarrow> duration \<Rightarrow> Command \<Rightarrow> Command" where
  "leased now lease command =
     command\<lparr>cmd_Status := CommandDelivered, cmd_Attempts := cmd_Attempts command + 1,
       cmd_DeliveredAt := Some now, cmd_LeaseUntil := Some (now + lease)\<rparr>"

definition LeaseCommands ::
  "string \<Rightarrow> gotime \<Rightarrow> duration \<Rightarrow> int \<Rightarrow> Store \<Rightarrow> Command list outcome" where
  "LeaseCommands agentID now lease limit s =
     (if map_of (st_servers s) agentID = None then (Inl ErrNotFound, s)
      else
        (let limit = (if limit \<le> 0 then 10 else limit);
             eligible = sort_by command_less (filter (lease_eligible s agentID now) (map snd (st_commands s)));
             granted = map (leased now lease) (take (nat limit) eligible)
         in (Inr granted, foldl (\<lambda>s c. put_command c s) s granted)))"

text \<open>The first ACK of a command moves its job, in the same step.\<close>

definition applyAckLocked :: "Command \<Rightarrow> CommandAckRequest \<Rightarrow> gotime \<Rightarrow> Store \<Rightarrow> Store" where
  "applyAckLocked command ack now s =
     (case Option.bind (payload_JobID (cmd_Payload command)) (map_of (st_jobs s)) of
        None \<Rightarrow> s
      | Some job \<Rightarrow>
          (case job_Assignment job of
             None \<Rightarrow> s
           | Some a \<Rightarrow>
               if Terminal (job_Status job) \<or> asg_ServerID a \<noteq> cmd_AgentID command then s
               else case cmd_Type command of
                 CommandStartContainer \<Rightarrow>
                   if ack_Succeeded ack
                   then (let job = job\<lparr>job_ContainerID := ack_ContainerID ack\<rparr>;
                             job = (if job_Status job = JobAssigned
                                    then transitionLocked job JobStarting
                                           ''start acknowledged; awaiting observed container'' now
                                    else job)
                         in put_job job s)
                   else if job_Status job = JobAssigned \<or> job_Status job = JobStarting \<or>
                           job_Status job = JobStopping
                   then (case releaseLocked (transitionLocked
                                (job\<lparr>job_TerminationReason := TerminationExecutionError\<rparr>) JobFailed
                                ''agent could not launch managed container'' now) now s of
                           (job', s') \<Rightarrow> put_job job' s')
                   else put_job job s
               | CommandStopContainer \<Rightarrow>
                   put_job (if \<not> ack_Succeeded ack \<and> job_Status job = JobStopping
                            then transitionLocked job JobRunning
                                   ''agent could not stop managed container'' now
                            else job) s))"

definition acked :: "Command \<Rightarrow> CommandAckRequest \<Rightarrow> gotime \<Rightarrow> Command" where
  "acked command ack now =
     (let c = command\<lparr>cmd_CompletedAt := Some now, cmd_LeaseUntil := None\<rparr>
      in if ack_Succeeded ack then c\<lparr>cmd_Status := CommandSucceeded\<rparr>
         else c\<lparr>cmd_Status := CommandFailed, cmd_Error := ack_Message ack\<rparr>)"

definition AckCommand ::
  "string \<Rightarrow> string \<Rightarrow> CommandAckRequest \<Rightarrow> gotime \<Rightarrow> Store \<Rightarrow> Command outcome" where
  "AckCommand agentID commandID ack now s =
     (case map_of (st_commands s) commandID of
        None \<Rightarrow> (Inl ErrNotFound, s)
      | Some command \<Rightarrow>
          if cmd_AgentID command \<noteq> agentID then (Inl ErrNotFound, s)
          else if cmd_Status command = CommandSucceeded \<or> cmd_Status command = CommandFailed
          then (Inr command, s)
          else let c = acked command ack now in (Inr c, applyAckLocked c ack now (put_command c s)))"

section \<open>Stopping a job\<close>

definition stop_reason :: "Job \<Rightarrow> gotime \<Rightarrow> TerminationReason" where
  "stop_reason job now =
     (if job_TerminationReason job = TerminationUnset
      then (if win_Valid (RequestedWindow job) \<and> \<not> now < win_EndAt (RequestedWindow job)
            then TerminationTimeLimit else TerminationUserCancelled)
      else job_TerminationReason job)"

definition is_pending :: "Command option \<Rightarrow> bool" where
  "is_pending c \<longleftrightarrow> (case c of None \<Rightarrow> False | Some c \<Rightarrow> cmd_Status c = CommandPending)"

definition RequestStop :: "string \<Rightarrow> Command \<Rightarrow> gotime \<Rightarrow> Store \<Rightarrow> Job outcome" where
  "RequestStop jobID command now s =
     (case map_of (st_jobs s) jobID of
        None \<Rightarrow> (Inl ErrNotFound, s)
      | Some job0 \<Rightarrow>
          if Terminal (job_Status job0) \<or> job_Status job0 = JobStopping then (Inr job0, s)
          else
            (let job = job0\<lparr>job_TerminationReason := stop_reason job0 now\<rparr> in
             if job_Status job = JobQueued
             then (let job' = transitionLocked job JobCancelled ''cancelled before placement'' now
                   in (Inr job', put_job job' s))
             else case job_Assignment job of
               None \<Rightarrow> (Inl ErrJobNotStoppable, s)
             | Some a \<Rightarrow>
                 (let start = map_of (st_commands s) (asg_CommandID a) in
                  if asg_CommandID a = ''''
                  then (case releaseLocked (transitionLocked job JobCancelled msg_cancelled_schedule now) now s of
                          (job', s') \<Rightarrow> (Inr job', put_job job' s'))
                  else if is_pending start
                  then (let start' = (the start)\<lparr>cmd_Status := CommandFailed,
                              cmd_Error := ''cancelled before dispatch'', cmd_CompletedAt := Some now\<rparr>
                        in case releaseLocked (transitionLocked job JobCancelled
                                  ''cancelled before command delivery'' now) now (put_command start' s) of
                             (job', s') \<Rightarrow> (Inr job', put_job job' s'))
                  else if map_of (st_commands s) (cmd_ID command) \<noteq> None then (Inl ErrConflict, s)
                  else (let job' = transitionLocked job JobStopping
                                     ''stop requested; awaiting agent and observed state'' now
                        in (Inr job', put_job job'
                              (put_command (command\<lparr>cmd_AgentID := asg_ServerID a\<rparr>) s))))))"

section \<open>Inventory\<close>

text \<open>An acknowledged STOP of the job that completed before the observation.\<close>

definition confirms_stop :: "Job \<Rightarrow> gotime \<Rightarrow> Command \<Rightarrow> bool" where
  "confirms_stop job observedAt c \<longleftrightarrow>
     (case job_Assignment job of None \<Rightarrow> False
      | Some a \<Rightarrow> cmd_AgentID c = asg_ServerID a \<and> cmd_Type c = CommandStopContainer \<and>
          cmd_Status c = CommandSucceeded \<and>
          (case cmd_CompletedAt c of None \<Rightarrow> False | Some t \<Rightarrow> \<not> observedAt < t) \<and>
          payload_JobID (cmd_Payload c) = Some (job_ID job))"

definition stopConfirmedLocked :: "Store \<Rightarrow> Job \<Rightarrow> gotime \<Rightarrow> bool" where
  "stopConfirmedLocked s job observedAt \<longleftrightarrow> job_Status job = JobStopping \<and>
     list_ex (\<lambda>(k, c). confirms_stop job observedAt c) (st_commands s)"

text \<open>The container that stands for a job: an active one is preferred, else the first.\<close>

definition add_by_job :: "(string, Container) gomap \<Rightarrow> Container \<Rightarrow> (string, Container) gomap" where
  "add_by_job m c =
     (if ctr_Origin c = ContainerManaged \<and> ctr_JobID c \<noteq> ''''
      then (case map_of m (ctr_JobID c) of
              None \<Rightarrow> put (ctr_JobID c) c m
            | Some previous \<Rightarrow>
                if \<not> containerConsumesGPU (ctr_State previous) \<and> containerConsumesGPU (ctr_State c)
                then put (ctr_JobID c) c m else m)
      else m)"

definition by_job :: "Container list \<Rightarrow> (string, Container) gomap" where
  "by_job cs = foldl add_by_job [] cs"

definition exit_status :: "Job \<Rightarrow> Container \<Rightarrow> JobStatus \<times> string" where
  "exit_status job observed =
     (if job_Status job = JobStopping \<or> job_TerminationReason job = TerminationTimeLimit
      then (JobStopped, ''managed container observed stopped'')
      else case ctr_ExitCode observed of
        None \<Rightarrow> (JobFailed, ''managed container terminated without a successful exit'')
      | Some code \<Rightarrow>
          if code = 0 then (JobSucceeded, ''managed container exited successfully'')
          else (JobFailed, ''managed container exited with code '' @ show_int code))"

definition start_completed_before :: "Store \<Rightarrow> string \<Rightarrow> gotime \<Rightarrow> bool" where
  "start_completed_before s cid observedAt \<longleftrightarrow>
     (case map_of (st_commands s) cid of None \<Rightarrow> False
      | Some start \<Rightarrow> cmd_Status start = CommandSucceeded \<and>
          (case cmd_CompletedAt start of None \<Rightarrow> False | Some t \<Rightarrow> \<not> observedAt < t))"

definition finish_job :: "string \<Rightarrow> Job \<Rightarrow> gotime \<Rightarrow> Store \<Rightarrow> Store" where
  "finish_job key job now s =
     (case releaseLocked job now s of (job', s') \<Rightarrow> s'\<lparr>st_jobs := put key job' (st_jobs s')\<rparr>)"

definition reconcile_present ::
  "InventoryReport \<Rightarrow> string \<Rightarrow> Job \<Rightarrow> Assignment \<Rightarrow> Container \<Rightarrow> Store \<Rightarrow> Store" where
  "reconcile_present report key job0 a observed s =
     (let job = job0\<lparr>job_ContainerID := ctr_ID observed, job_LastObservedAt := Some (rep_ObservedAt report)\<rparr> in
      if containerConsumesGPU (ctr_State observed)
      then (let job = job\<lparr>job_Assignment := Some (a\<lparr>asg_ReservationState := ''ALLOCATED''\<rparr>)\<rparr>;
                job = (if job_Status job = JobAssigned \<or> job_Status job = JobStarting
                       then transitionLocked job JobRunning ''managed container observed active''
                              (rep_ReceivedAt report)
                       else job)
            in s\<lparr>st_jobs := put key job (st_jobs s)\<rparr>)
      else if ctr_State observed = ''exited'' \<or> ctr_State observed = ''dead''
      then (let (status, reason) = exit_status job observed;
                job = (if status = JobFailed then job\<lparr>job_TerminationReason := TerminationExecutionError\<rparr>
                       else job)
            in finish_job key (transitionLocked job status reason (rep_ReceivedAt report))
                 (rep_ReceivedAt report) s)
      else s\<lparr>st_jobs := put key job (st_jobs s)\<rparr>)"

definition reconcile_absent ::
  "InventoryReport \<Rightarrow> string \<Rightarrow> Job \<Rightarrow> Assignment \<Rightarrow> Store \<Rightarrow> Store" where
  "reconcile_absent report key job a s =
     (if (job_Status job = JobRunning \<or> job_Status job = JobStopping \<or> job_Status job = JobStarting) \<and>
         (start_completed_before s (asg_CommandID a) (rep_ObservedAt report) \<or>
          stopConfirmedLocked s job (rep_ObservedAt report))
      then (let (status, reason) =
                  (if job_Status job = JobStopping
                   then (JobStopped, ''managed container is absent after stop request'')
                   else (JobFailed, ''managed container missing from complete agent inventory''))
            in finish_job key (transitionLocked job status reason (rep_ReceivedAt report))
                 (rep_ReceivedAt report) s)
      else s\<lparr>st_jobs := put key job (st_jobs s)\<rparr>)"

definition reconcile_one ::
  "string \<Rightarrow> InventoryReport \<Rightarrow> (string, Container) gomap \<Rightarrow> Store \<Rightarrow> string \<Rightarrow> Store" where
  "reconcile_one serverID report byJob s key =
     (case map_of (st_jobs s) key of None \<Rightarrow> s
      | Some job \<Rightarrow>
          (case job_Assignment job of None \<Rightarrow> s
           | Some a \<Rightarrow>
               if asg_ServerID a \<noteq> serverID \<or> Terminal (job_Status job) then s
               else if asg_CommandID a = '''' then s
               else case map_of byJob key of
                      Some observed \<Rightarrow> reconcile_present report key job a observed s
                    | None \<Rightarrow> reconcile_absent report key job a s))"

definition reconcileObservedLocked :: "string \<Rightarrow> InventoryReport \<Rightarrow> Store \<Rightarrow> Store" where
  "reconcileObservedLocked serverID report s =
     foldl (reconcile_one serverID report (by_job (rep_Containers report))) s (gokeys (st_jobs s))"

definition uuid_clash :: "string \<Rightarrow> InventoryReport \<Rightarrow> Store \<Rightarrow> bool" where
  "uuid_clash agentID report s =
     list_ex (\<lambda>(otherID, other). otherID \<noteq> agentID \<and>
       list_ex (\<lambda>g. list_ex (\<lambda>known. gpu_UUID g = gpu_UUID known) (srv_GPUs other)) (rep_GPUs report))
       (st_servers s)"

definition ReplaceInventory :: "string \<Rightarrow> InventoryReport \<Rightarrow> Store \<Rightarrow> Server outcome" where
  "ReplaceInventory agentID report0 s =
     (case map_of (st_servers s) agentID of
        None \<Rightarrow> (Inl ErrNotFound, s)
      | Some server0 \<Rightarrow>
          if rep_Sequence report0 \<le> srv_InventoryVersion server0 then (Inl ErrStaleInventory, s)
          else if uuid_clash agentID report0 s then (Inl ErrConflict, s)
          else
            (let report = (if IsZero (rep_ReceivedAt report0)
                           then report0\<lparr>rep_ReceivedAt := rep_ObservedAt report0\<rparr> else report0);
                 (gpuValid, dockerValid, caps) =
                   (case rep_Capabilities report of
                      None \<Rightarrow> (True, True, srv_Capabilities server0)
                    | Some c \<Rightarrow> (cap_GPUInventoryAvailable c, cap_DockerAvailable c, Some (Normalize c)));
                 server1 = server0\<lparr>srv_InventoryVersion := rep_Sequence report,
                   srv_LastInventoryAt := rep_ObservedAt report,
                   srv_LastHeartbeatAt := rep_ReceivedAt report, srv_Capabilities := caps,
                   srv_InventoryReceivedAt := (if gpuValid \<and> dockerValid then rep_ReceivedAt report else 0),
                   srv_Host := rep_Host report\<rparr>;
                 server2 = (if dockerValid
                            then server1\<lparr>srv_DockerVersion := rep_DockerVersion report,
                                         srv_Containers := rep_Containers report\<rparr>
                            else server1);
                 s1 = (if gpuValid \<and> dockerValid then reconcileObservedLocked agentID report s else s);
                 server3 = (if gpuValid
                            then server2\<lparr>srv_GPUs := normalizeGPUState agentID (rep_GPUs report)
                                   (srv_Containers server2) (rep_Processes report) (st_jobs s1)\<rparr>
                            else server2);
                 server4 = server3\<lparr>srv_Status :=
                              (if srv_Drained server3 then ServerDraining else ServerOnline)\<rparr>
             in (Inr server4, put_server agentID server4 s1)))"

section \<open>Training metadata\<close>

definition UpdateTraining ::
  "string \<Rightarrow> 64 word \<Rightarrow> TrainingState \<Rightarrow> gotime \<Rightarrow> Store \<Rightarrow> Job outcome" where
  "UpdateTraining jid expected next0 now s =
     (case map_of (st_jobs s) jid of
        None \<Rightarrow> (Inl ErrNotFound, s)
      | Some job \<Rightarrow>
          if in_WorkloadType (job_Intent job) \<noteq> WorkloadTraining \<or> tr_Revision (job_Training job) \<noteq> expected
          then (Inl ErrConflict, s)
          else if tr_CheckpointStatus next0 = CheckpointRequested \<and>
                  tr_CheckpointStatus (job_Training job) \<noteq> CheckpointRequested \<and>
                  job_Status job \<noteq> JobRunning
          then (Inl ErrConflict, s)
          else
            (let tr = next0\<lparr>tr_ResumeCheckpointURI := tr_ResumeCheckpointURI (job_Training job),
                   tr_ResumeFromJobID := tr_ResumeFromJobID (job_Training job),
                   tr_CheckpointWarningAt := tr_CheckpointWarningAt (job_Training job),
                   tr_Revision := expected + 1\<rparr>;
                 job' = job\<lparr>job_Training := tr, job_UpdatedAt := now\<rparr>
             in (Inr job', s\<lparr>st_jobs := put jid job' (st_jobs s)\<rparr>)))"

section \<open>Planning transactions\<close>

type_synonym ReservationPlanner = "Job list \<Rightarrow> Server list \<Rightarrow> go_error + ReservationPlan list"

definition placementMatches :: "Job \<Rightarrow> Server \<Rightarrow> Placement \<Rightarrow> bool" where
  "placementMatches job server p =
     (if \<not> SameOrganization (job_OrganizationID job) (srv_OrganizationID server) \<or>
         rq_GPUCount (job_Resources job) \<le> 0 \<or>
         int (length (plc_GPUUUIDs p)) \<noteq> rq_GPUCount (job_Resources job)
      then False
      else if \<not> valid_uuids (plc_GPUUUIDs p) then False
      else if \<not> all_match (job_Resources job) (plc_GPUUUIDs p) (srv_GPUs server) then False
      else if \<not> selector_matches (job_ServerSelector job) (srv_Labels server) then False
      else found_count (plc_GPUUUIDs p) (srv_GPUs server) = length (plc_GPUUUIDs p))"

text \<open>The first loop: every plan is for a different job that may be replanned.\<close>

fun replan_claim ::
  "gotime \<Rightarrow> Store \<Rightarrow> ReservationPlan list \<Rightarrow> (string, Job) gomap \<Rightarrow> go_error + (string, Job) gomap" where
  "replan_claim now s [] changed = Inr changed"
| "replan_claim now s (e # es) changed =
     (case map_of (st_jobs s) (rp_JobID e) of
        None \<Rightarrow> Inl ErrConflict
      | Some job \<Rightarrow>
          if \<not> Replannable job now then Inl ErrConflict
          else if map_of changed (job_ID job) \<noteq> None then Inl ErrConflict
          else replan_claim now s es (put (job_ID job) (job\<lparr>job_Assignment := None\<rparr>) changed))"

definition planned_assignment :: "Job \<Rightarrow> Placement \<Rightarrow> string \<Rightarrow> gotime \<Rightarrow> Assignment" where
  "planned_assignment job p reason now =
     \<lparr>asg_StartAt = win_StartAt (RequestedWindow job), asg_EndAt = win_EndAt (RequestedWindow job),
      asg_ServerID = plc_ServerID p, asg_GPUUUIDs = plc_GPUUUIDs p, asg_CommandID = '''',
      asg_AssignedAt = now, asg_ReservationState = ''PLANNED'', asg_ReleasedAt = None,
      asg_Strategy = plc_Strategy p, asg_Score = plc_Score p, asg_Reason = reason\<rparr>"

definition same_placement :: "Assignment option \<Rightarrow> Placement \<Rightarrow> bool" where
  "same_placement old p \<longleftrightarrow> (case old of None \<Rightarrow> False
     | Some a \<Rightarrow> asg_ServerID a = plc_ServerID p \<and> asg_GPUUUIDs a = plc_GPUUUIDs p)"

definition placement_valid ::
  "Job \<Rightarrow> Server list \<Rightarrow> Job list \<Rightarrow> gotime \<Rightarrow> duration \<Rightarrow> Placement \<Rightarrow> bool" where
  "placement_valid job servers bookings now offlineAfter p =
     list_ex (\<lambda>server. srv_ID server = plc_ServerID p \<and> srv_Schedulable server now offlineAfter \<and>
                       placementMatches job server p)
       (CalendarServers job servers bookings now offlineAfter)"

text \<open>The second loop: each placement is checked against the calendar of all bookings so far.\<close>

fun replan_apply ::
  "gotime \<Rightarrow> Store \<Rightarrow> Server list \<Rightarrow> ReservationPlan list \<Rightarrow> (string, Job) gomap \<Rightarrow> Job list \<Rightarrow> int
     \<Rightarrow> go_error + (string, Job) gomap \<times> int" where
  "replan_apply now s servers [] changed bookings moved = Inr (changed, moved)"
| "replan_apply now s servers (e # es) changed bookings moved =
     (case map_of changed (rp_JobID e) of
        None \<Rightarrow> Inl (ErrOther ''unreachable: every plan was claimed'')
      | Some job0 \<Rightarrow>
          (let job = job0\<lparr>job_Policy := rp_Policy e\<rparr> in
           case rp_Placement e of
             None \<Rightarrow>
               (let job' = transitionLocked job JobQueued (rp_Reason e) now
                in replan_apply now s servers es (put (job_ID job') job' changed) bookings moved)
           | Some p \<Rightarrow>
               if \<not> win_Valid (RequestedWindow job) \<or> \<not> now < win_EndAt (RequestedWindow job)
               then Inl ErrConflict
               else if \<not> placement_valid job servers bookings now (st_offlineAfter s) p
               then Inl ErrConflict
               else
                 (let old = Option.bind (map_of (st_jobs s) (job_ID job)) job_Assignment;
                      a = planned_assignment job p (rp_Reason e) now;
                      a = (if same_placement old p then a\<lparr>asg_AssignedAt := asg_AssignedAt (the old)\<rparr> else a);
                      moved = (if same_placement old p then moved else moved + 1);
                      job' = transitionLocked (job\<lparr>job_Assignment := Some a\<rparr>) JobAssigned (rp_Reason e) now
                  in replan_apply now s servers es (put (job_ID job') job' changed) (bookings @ [job']) moved)))"

definition put_all :: "(string, Job) gomap \<Rightarrow> (string, Job) gomap \<Rightarrow> (string, Job) gomap" where
  "put_all changed jobs = foldl (\<lambda>m (k, j). put k j m) jobs changed"

definition jobs_by_id :: "Store \<Rightarrow> Job list" where
  "jobs_by_id s = sort_by (\<lambda>a b. job_ID a < job_ID b) (map snd (st_jobs s))"

definition servers_by_id :: "Store \<Rightarrow> Server list" where
  "servers_by_id s = sort_by (\<lambda>a b. srv_ID a < srv_ID b) (map snd (st_servers s))"

definition ReplanReservations :: "gotime \<Rightarrow> ReservationPlanner \<Rightarrow> Store \<Rightarrow> int outcome" where
  "ReplanReservations now plan s =
     (case plan (jobs_by_id s) (servers_by_id s) of
        Inl e \<Rightarrow> (Inl e, s)
      | Inr plans \<Rightarrow>
          (case replan_claim now s plans [] of
             Inl e \<Rightarrow> (Inl e, s)
           | Inr changed \<Rightarrow>
               (let bookings = filter (\<lambda>j. map_of changed (job_ID j) = None) (jobs_by_id s) in
                case replan_apply now s (servers_by_id s) plans changed bookings 0 of
                  Inl e \<Rightarrow> (Inl e, s)
                | Inr (changed', moved) \<Rightarrow>
                    (Inr moved, s\<lparr>st_jobs := put_all changed' (st_jobs s)\<rparr>))))"

section \<open>Snapshots\<close>

record Snapshot =
  snap_Version :: int
  snap_Servers :: "(string, Server) gomap"
  snap_Machines :: "(string, string) gomap"
  snap_Jobs :: "(string, Job) gomap"
  snap_Commands :: "(string, Command) gomap"

definition Export :: "Store \<Rightarrow> Snapshot" where
  "Export s = \<lparr>snap_Version = 1, snap_Servers = st_servers s, snap_Machines = st_machines s,
     snap_Jobs = st_jobs s, snap_Commands = st_commands s\<rparr>"

definition Restore :: "Snapshot \<Rightarrow> Store \<Rightarrow> Store" where
  "Restore snapshot s = s\<lparr>st_servers := snap_Servers snapshot, st_machines := snap_Machines snapshot,
     st_jobs := snap_Jobs snapshot, st_commands := snap_Commands snapshot\<rparr>"

lemma Restore_Export: "st_offlineAfter s' = st_offlineAfter s \<Longrightarrow> Restore (Export s) s' = s"
  by (simp add: Restore_def Export_def)

end
