(* ===== verification/Store_Invariants.thy ===== *)
theory Store_Invariants
  imports Memory_Store
begin

text \<open>
  The invariant of the in-memory repository: well-formed maps, GPU UUIDs that belong to one server,
  live jobs that exclude each other on every GPU they hold or have booked, and GPU states that keep
  every held GPU out of the scheduler's reach.
\<close>

section \<open>What a job claims\<close>

text \<open>The part of an assignment that claims GPUs: where, which, when, and whether only planned.\<close>

definition asg_view ::
  "Job \<Rightarrow> (string \<times> string list \<times> gotime \<times> gotime \<times> gotime option \<times> bool) option" where
  "asg_view j = map_option (\<lambda>a. (asg_ServerID a, asg_GPUUUIDs a, asg_StartAt a, asg_EndAt a,
     asg_ReleasedAt a, asg_ReservationState a = ''PLANNED'')) (job_Assignment j)"

definition job_server :: "Job \<Rightarrow> string" where
  "job_server j = (case job_Assignment j of None \<Rightarrow> '''' | Some a \<Rightarrow> asg_ServerID a)"

definition booked_window :: "Job \<Rightarrow> TimeWindow" where
  "booked_window j = (case job_Assignment j of None \<Rightarrow> zero_window | Some a \<Rightarrow> asg_Window a)"

text \<open>A live job with a booking for a known window.\<close>

definition booking :: "Job \<Rightarrow> bool" where
  "booking j \<longleftrightarrow> \<not> Terminal (job_Status j) \<and> win_Valid (booked_window j) \<and>
     (case job_Assignment j of None \<Rightarrow> False | Some a \<Rightarrow> asg_ReleasedAt a = None)"

definition shares :: "Job \<Rightarrow> Job \<Rightarrow> bool" where
  "shares j j' \<longleftrightarrow> job_server j = job_server j' \<and>
     list_ex (\<lambda>u. List.member (held_uuids j') u) (held_uuids j)"

text \<open>
  Two jobs that name the same GPU do not both hold it, and their booked windows do not overlap.
\<close>

definition holding :: "Job \<Rightarrow> bool" where
  "holding j \<longleftrightarrow> holds_on (job_server j) j"

definition compatible :: "Job \<Rightarrow> Job \<Rightarrow> bool" where
  "compatible j j' \<longleftrightarrow> \<not> (shares j j' \<and>
     (holding j \<and> holding j' \<or>
      booking j \<and> booking j' \<and> win_Overlaps (booked_window j) (booked_window j')))"

lemma shares_iff:
  "shares j j' \<longleftrightarrow> job_server j = job_server j' \<and> set (held_uuids j) \<inter> set (held_uuids j') \<noteq> {}"
  by (auto simp: shares_def list_ex_iff)

lemma compatible_sym: "compatible j j' \<Longrightarrow> compatible j' j"
  by (auto simp: compatible_def shares_iff win_Overlaps_def)

lemma holds_on_iff: "holds_on sid j \<longleftrightarrow> holding j \<and> job_server j = sid"
  by (auto simp: holding_def holds_on_def job_server_def split: option.splits)

section \<open>The claim order\<close>

definition wf_asg :: "Job \<Rightarrow> bool" where
  "wf_asg j \<longleftrightarrow> (case job_Assignment j of None \<Rightarrow> True
     | Some a \<Rightarrow> asg_CommandID a = '''' \<or> asg_ReservationState a \<noteq> ''PLANNED'')"

definition claim_le :: "Job \<Rightarrow> Job \<Rightarrow> bool" where
  "claim_le j' j \<longleftrightarrow> job_ID j' = job_ID j \<and> (wf_asg j \<longrightarrow> wf_asg j') \<and>
     (Terminal (job_Status j') \<or> \<not> Terminal (job_Status j) \<and> asg_view j' = asg_view j)"

lemma claim_leI:
  assumes "job_ID j' = job_ID j" and "job_Assignment j' = job_Assignment j"
    and "\<not> Terminal (job_Status j') \<Longrightarrow> \<not> Terminal (job_Status j)"
  shows "claim_le j' j"
  using assms by (auto simp: claim_le_def asg_view_def wf_asg_def simp del: Terminal.simps)

lemma claim_le_refl [simp]: "claim_le j j"
  by (rule claim_leI) auto

lemma Terminal_not_holding:
  assumes "Terminal (job_Status j)" shows "\<not> holding j" "\<not> booking j"
  using assms by (simp_all add: holding_def holds_on_def booking_def split: option.splits)

lemma asg_view_same:
  assumes "asg_view j' = asg_view j"
  shows "job_server j' = job_server j" "held_uuids j' = held_uuids j" "booked_window j' = booked_window j"
    "Terminal (job_Status j') = Terminal (job_Status j) \<Longrightarrow> holding j' = holding j"
    "Terminal (job_Status j') = Terminal (job_Status j) \<Longrightarrow> booking j' = booking j"
  using assms
  by (auto simp: asg_view_def job_server_def held_uuids_def booked_window_def holding_def holds_on_def
      booking_def asg_Window_def map_option_case simp del: Terminal.simps split: option.splits)

lemma claim_le_dest:
  assumes "claim_le j' j"
  shows "holding j' \<Longrightarrow> holding j \<and> job_server j' = job_server j \<and> held_uuids j' = held_uuids j"
    "booking j' \<Longrightarrow> booking j \<and> job_server j' = job_server j \<and> held_uuids j' = held_uuids j \<and>
       booked_window j' = booked_window j"
proof -
  have *: "Terminal (job_Status j') = Terminal (job_Status j) \<and> asg_view j' = asg_view j"
    if "\<not> Terminal (job_Status j')"
    using assms that by (simp add: claim_le_def del: Terminal.simps)
  show "holding j' \<Longrightarrow> holding j \<and> job_server j' = job_server j \<and> held_uuids j' = held_uuids j"
    using * Terminal_not_holding(1) [of j'] asg_view_same [of j' j] by blast
  show "booking j' \<Longrightarrow> booking j \<and> job_server j' = job_server j \<and> held_uuids j' = held_uuids j \<and>
       booked_window j' = booked_window j"
    using * Terminal_not_holding(2) [of j'] asg_view_same [of j' j] by metis
qed

lemma claim_le_holds_on:
  "claim_le j' j \<Longrightarrow> holds_on sid j' \<Longrightarrow> holds_on sid j \<and> held_uuids j' = held_uuids j"
  using claim_le_dest(1) by (auto simp: holds_on_iff)

lemma claim_le_compatible: "claim_le j' j \<Longrightarrow> compatible j x \<Longrightarrow> compatible j' x"
  using claim_le_dest [of j' j] by (auto simp: compatible_def shares_iff)

section \<open>The invariant\<close>

definition wf_server :: "string \<Rightarrow> Server \<Rightarrow> bool" where
  "wf_server k v \<longleftrightarrow> srv_ID v = k \<and> distinct (map gpu_UUID (srv_GPUs v)) \<and> list_all wf_gpu (srv_GPUs v)"

definition wf_job :: "string \<Rightarrow> Job \<Rightarrow> bool" where
  "wf_job k j \<longleftrightarrow> job_ID j = k \<and> k \<noteq> '''' \<and> wf_asg j"

definition wf_store :: "Store \<Rightarrow> bool" where
  "wf_store s \<longleftrightarrow> wf_map (st_servers s) \<and> wf_map (st_jobs s) \<and> wf_map (st_commands s) \<and>
     list_all (\<lambda>(k, v). wf_server k v) (st_servers s) \<and> list_all (\<lambda>(k, j). wf_job k j) (st_jobs s) \<and>
     list_all (\<lambda>(k, c). cmd_ID c = k) (st_commands s) \<and>
     list_all (\<lambda>(m, sid). List.member (gokeys (st_servers s)) sid) (st_machines s)"

definition uuids_of :: "Server \<Rightarrow> string set" where
  "uuids_of v = set (map gpu_UUID (srv_GPUs v))"

definition uuids_unique :: "(string, Server) gomap \<Rightarrow> bool" where
  "uuids_unique servers \<longleftrightarrow> (\<forall>(k, v) \<in> set servers. \<forall>(k', v') \<in> set servers.
     k \<noteq> k' \<longrightarrow> uuids_of v \<inter> uuids_of v' = {})"

definition jobs_compatible :: "(string, Job) gomap \<Rightarrow> bool" where
  "jobs_compatible jobs \<longleftrightarrow> (\<forall>(k, j) \<in> set jobs. \<forall>(k', j') \<in> set jobs. k \<noteq> k' \<longrightarrow> compatible j j')"

definition guarded :: "string \<Rightarrow> GPU list \<Rightarrow> Job \<Rightarrow> bool" where
  "guarded sid gpus j \<longleftrightarrow> (holds_on sid j \<longrightarrow>
     list_all (\<lambda>g. List.member (held_uuids j) (gpu_UUID g) \<longrightarrow> \<not> gpu_Schedulable g) gpus)"

definition all_guarded :: "(string, Server) gomap \<Rightarrow> (string, Job) gomap \<Rightarrow> bool" where
  "all_guarded servers jobs \<longleftrightarrow>
     (\<forall>(sid, v) \<in> set servers. \<forall>(k, j) \<in> set jobs. guarded sid (srv_GPUs v) j)"

definition inv :: "Store \<Rightarrow> bool" where
  "inv s \<longleftrightarrow> wf_store s \<and> uuids_unique (st_servers s) \<and> jobs_compatible (st_jobs s) \<and>
     all_guarded (st_servers s) (st_jobs s)"

lemma inv_New_Store: "inv (New_Store d)"
  by (simp add: inv_def New_Store_def wf_store_def uuids_unique_def jobs_compatible_def all_guarded_def)

lemma wf_storeD:
  assumes "wf_store s"
  shows "map_of (st_servers s) k = Some v \<Longrightarrow> wf_server k v"
    "map_of (st_jobs s) k = Some j \<Longrightarrow> wf_job k j"
    "map_of (st_commands s) k = Some c \<Longrightarrow> cmd_ID c = k"
    "map_of (st_machines s) m = Some sid \<Longrightarrow> map_of (st_servers s) sid \<noteq> None"
  using assms map_of_SomeD [of "st_servers s" k v] map_of_SomeD [of "st_jobs s" k j]
    map_of_SomeD [of "st_commands s" k c] map_of_SomeD [of "st_machines s" m sid]
  by (auto simp: wf_store_def list_all_iff map_of_eq_None_iff)

lemma inv_wf [dest]: "inv s \<Longrightarrow> wf_store s"
  by (simp add: inv_def)

lemmas inv_lookup = wf_storeD [OF inv_wf]

lemma list_all_put:
  "list_all P m \<Longrightarrow> P (k, v) \<Longrightarrow> list_all P (put k v m)"
  by (auto simp: list_all_iff dest!: set_putD)

section \<open>Replacing one entry\<close>

lemma set_put_wf: "wf_map m \<Longrightarrow> (k', v') \<in> set (put k v m) \<longleftrightarrow> (if k' = k then v' = v else (k', v') \<in> set m)"
  unfolding wf_mem_iff [OF wf_put] wf_mem_iff map_of_put by auto

lemma jobs_compatible_put:
  assumes "jobs_compatible jobs" "wf_map jobs"
    and "\<And>k' j'. map_of jobs k' = Some j' \<Longrightarrow> k' \<noteq> k \<Longrightarrow> compatible j j'"
  shows "jobs_compatible (put k j jobs)"
  unfolding jobs_compatible_def
proof (clarify)
  fix a ja b jb
  assume in1: "(a, ja) \<in> set (put k j jobs)" and in2: "(b, jb) \<in> set (put k j jobs)" and ne: "a \<noteq> b"
  note * = in1 in2 set_put_wf [OF assms(2)] wf_mem_iff [OF assms(2)]
  show "compatible ja jb"
  proof (cases "a = k")
    case True
    with * ne assms(3) [of b jb] show ?thesis by simp
  next
    case False
    show ?thesis
    proof (cases "b = k")
      case True
      with * False assms(3) [of a ja] compatible_sym show ?thesis by simp
    next
      case b: False
      with * False have "(a, ja) \<in> set jobs" "(b, jb) \<in> set jobs" by simp_all
      with assms(1) ne show ?thesis unfolding jobs_compatible_def by fast
    qed
  qed
qed

lemma all_guarded_put_job:
  assumes "all_guarded servers jobs" and "\<And>sid v. (sid, v) \<in> set servers \<Longrightarrow> guarded sid (srv_GPUs v) j"
  shows "all_guarded servers (put k j jobs)"
  using assms by (fastforce simp: all_guarded_def dest!: set_putD)

lemma guarded_claim_le: "claim_le j' j \<Longrightarrow> guarded sid gpus j \<Longrightarrow> guarded sid gpus j'"
  using claim_le_holds_on by (fastforce simp: guarded_def)

text \<open>Replacing a job by one that claims no more keeps the invariant.\<close>

lemma inv_set_job:
  assumes "inv s" and "map_of (st_jobs s) k = Some j0" and "claim_le j j0"
  shows "inv (s\<lparr>st_jobs := put k j (st_jobs s)\<rparr>)"
proof -
  have mem: "(k, j0) \<in> set (st_jobs s)" by (rule map_of_SomeD [OF assms(2)])
  have wf: "wf_map (st_jobs s)" using assms(1) by (simp add: inv_def wf_store_def)
  have "wf_job k j"
    using inv_lookup(2) [OF assms(1,2)] assms(3) by (auto simp: wf_job_def claim_le_def)
  moreover have "jobs_compatible (put k j (st_jobs s))"
  proof (rule jobs_compatible_put [OF _ wf])
    fix k' j' assume "map_of (st_jobs s) k' = Some j'" "k' \<noteq> k"
    then have "compatible j0 j'"
      using mem assms(1) by (auto simp: inv_def jobs_compatible_def dest!: map_of_SomeD)
    with assms(3) show "compatible j j'" by (rule claim_le_compatible)
  qed (use assms(1) in \<open>simp add: inv_def\<close>)
  moreover have "all_guarded (st_servers s) (put k j (st_jobs s))"
  proof (rule all_guarded_put_job)
    fix sid v assume "(sid, v) \<in> set (st_servers s)"
    then have "guarded sid (srv_GPUs v) j0"
      using mem assms(1) by (auto simp: inv_def all_guarded_def)
    with assms(3) show "guarded sid (srv_GPUs v) j" by (rule guarded_claim_le)
  qed (use assms(1) in \<open>simp add: inv_def\<close>)
  ultimately show ?thesis
    using assms(1) by (auto simp: inv_def wf_store_def intro!: list_all_put)
qed

text \<open>Adding or replacing a server.\<close>

lemma inv_put_server:
  assumes "inv s" and "wf_server k v"
    and "\<And>k' v'. map_of (st_servers s) k' = Some v' \<Longrightarrow> k' \<noteq> k \<Longrightarrow> uuids_of v \<inter> uuids_of v' = {}"
    and "\<And>k' j. map_of (st_jobs s) k' = Some j \<Longrightarrow> guarded k (srv_GPUs v) j"
  shows "inv (put_server k v s)"
proof -
  have wf: "wf_map (st_servers s)" "wf_map (st_jobs s)" using assms(1) by (simp_all add: inv_def wf_store_def)
  have old: "uuids_unique (st_servers s)" "all_guarded (st_servers s) (st_jobs s)"
    using assms(1) by (simp_all add: inv_def)
  have "uuids_unique (put k v (st_servers s))"
    unfolding uuids_unique_def
  proof (clarify)
    fix a va b vb
    assume in1: "(a, va) \<in> set (put k v (st_servers s))" and in2: "(b, vb) \<in> set (put k v (st_servers s))"
      and ne: "a \<noteq> b"
    note * = in1 in2 set_put_wf [OF wf(1)] wf_mem_iff [OF wf(1)]
    consider "a = k" "b \<noteq> k" | "a \<noteq> k" "b = k" | "a \<noteq> k" "b \<noteq> k" using ne by blast
    then show "uuids_of va \<inter> uuids_of vb = {}"
    proof cases
      case 1 with * assms(3) [of b vb] show ?thesis by simp
    next
      case 2 with * assms(3) [of a va] show ?thesis by (simp add: Int_commute)
    next
      case 3
      with * have "(a, va) \<in> set (st_servers s)" "(b, vb) \<in> set (st_servers s)" by simp_all
      with old(1) ne show ?thesis unfolding uuids_unique_def by fast
    qed
  qed
  moreover have "all_guarded (put k v (st_servers s)) (st_jobs s)"
    unfolding all_guarded_def
  proof (clarify)
    fix sid w k' j
    assume in1: "(sid, w) \<in> set (put k v (st_servers s))" and in2: "(k', j) \<in> set (st_jobs s)"
    show "guarded sid (srv_GPUs w) j"
    proof (cases "sid = k \<and> w = v")
      case True
      with assms(4) in2 wf_mem_iff [OF wf(2)] show ?thesis by blast
    next
      case False
      with set_putD [OF in1] have "(sid, w) \<in> set (st_servers s)" by blast
      with old(2) in2 show ?thesis unfolding all_guarded_def by blast
    qed
  qed
  moreover have "list_all (\<lambda>(m, sid). List.member (gokeys (put k v (st_servers s))) sid) (st_machines s)"
    using assms(1) gokeys_put [of k v "st_servers s"] by (auto simp: inv_def wf_store_def list_all_iff)
  ultimately show ?thesis
    using assms(1,2) by (auto simp: inv_def wf_store_def intro!: list_all_put)
qed

text \<open>A server that keeps its identity and its GPUs.\<close>

lemma inv_touch_server:
  assumes "inv s" and "map_of (st_servers s) k = Some v0" and "srv_ID v = srv_ID v0"
    and "srv_GPUs v = srv_GPUs v0"
  shows "inv (put_server k v s)"
proof (rule inv_put_server [OF assms(1)])
  show "wf_server k v" using inv_lookup(1) [OF assms(1,2)] assms(3,4) by (simp add: wf_server_def)
  show "uuids_of v \<inter> uuids_of v' = {}" if "map_of (st_servers s) k' = Some v'" "k' \<noteq> k" for k' v'
    using assms(1,4) map_of_SomeD [OF assms(2)] map_of_SomeD [OF that(1)] that(2)
    by (fastforce simp: inv_def uuids_unique_def uuids_of_def)
  show "guarded k (srv_GPUs v) j" if "map_of (st_jobs s) k' = Some j" for k' j
    using assms(1,4) map_of_SomeD [OF assms(2)] map_of_SomeD [OF that]
    by (auto simp: inv_def all_guarded_def)
qed

text \<open>A server whose GPUs were just normalised against the jobs of the store.\<close>

lemma guarded_normalize:
  assumes "inv s" and "map_of (st_jobs s) k = Some j"
  shows "guarded sid (normalizeGPUState sid gpus cs ps (st_jobs s)) j"
  unfolding guarded_def list_all_iff
proof (intro impI ballI)
  fix g assume "holds_on sid j" "g \<in> set (normalizeGPUState sid gpus cs ps (st_jobs s))"
    and u: "List.member (held_uuids j) (gpu_UUID g)"
  then obtain g0 where h: "holds_on sid j" and
    g0: "g = classify_gpu (observe sid cs ps (st_jobs s)) (reserved_map sid (st_jobs s)) g0"
    by (auto simp: normalizeGPUState_def)
  have "reserved_map sid (st_jobs s) (gpu_UUID g0) \<noteq> ''''"
  proof (rule reserved_map_nonempty [OF map_of_SomeD [OF assms(2)] h])
    show "gpu_UUID g0 \<in> set (held_uuids j)" using u g0 by simp
    show "job_ID j' \<noteq> ''''" if "(k', j') \<in> set (st_jobs s)" for k' j'
      using assms(1) that by (auto simp: inv_def wf_store_def wf_job_def list_all_iff)
  qed
  then show "\<not> gpu_Schedulable g" by (simp add: g0 gpu_Schedulable_def classify_free_iff)
qed

lemma wf_gpu_classify [simp]: "wf_gpu (classify_gpu c r g) = wf_gpu g"
  by (simp add: wf_gpu_def)

lemma list_all_wf_normalize [simp]:
  "list_all wf_gpu (normalizeGPUState sid gpus cs ps jobs) = list_all wf_gpu gpus"
  by (simp add: normalizeGPUState_def list_all_iff)

lemma inv_normalized_server:
  assumes "inv s" and "srv_ID v = k" and "srv_GPUs v = normalizeGPUState k gpus cs ps (st_jobs s)"
    and "distinct (map gpu_UUID gpus)" and "list_all wf_gpu gpus"
    and "\<And>k' v'. map_of (st_servers s) k' = Some v' \<Longrightarrow> k' \<noteq> k \<Longrightarrow>
       set (map gpu_UUID gpus) \<inter> uuids_of v' = {}"
  shows "inv (put_server k v s)"
proof (rule inv_put_server [OF assms(1)])
  show "wf_server k v" by (simp add: wf_server_def assms(2-5))
  show "guarded k (srv_GPUs v) j" if "map_of (st_jobs s) k' = Some j" for k' j
    unfolding assms(3) by (rule guarded_normalize [OF assms(1) that])
  show "uuids_of v \<inter> uuids_of v' = {}" if "map_of (st_servers s) k' = Some v'" "k' \<noteq> k" for k' v'
    using assms(6) [OF that] unfolding uuids_of_def [of v] assms(3) normalize_uuids .
qed

end
