(* ===== verification/Job_History.thy ===== *)
theory Job_History
  imports Memory_Store "HOL-Library.Sublist"
begin

text \<open>
  How a job may evolve: its identity and request never change, its event log only grows, its status
  is what the log last recorded, and a terminal job keeps its status, assignment and log for good.
\<close>

section \<open>The evolution order on jobs\<close>

text \<open>The fields fixed when the job is created.\<close>

definition same_request :: "Job \<Rightarrow> Job \<Rightarrow> bool" where
  "same_request j j' \<longleftrightarrow> job_ID j' = job_ID j \<and> job_OrganizationID j' = job_OrganizationID j \<and>
     job_Name j' = job_Name j \<and> job_Image j' = job_Image j \<and> job_Command j' = job_Command j \<and>
     job_Environment j' = job_Environment j \<and> job_Resources j' = job_Resources j \<and>
     job_Intent j' = job_Intent j \<and> job_ServerSelector j' = job_ServerSelector j \<and>
     job_CreatedAt j' = job_CreatedAt j"

definition last_status :: "JobStatus \<Rightarrow> JobEvent list \<Rightarrow> JobStatus" where
  "last_status st es = (if es = [] then st else ev_Status (last es))"

text \<open>The events added by a step: none after a terminal status.\<close>

definition new_events :: "Job \<Rightarrow> Job \<Rightarrow> JobEvent list" where
  "new_events j j' = drop (length (job_Events j)) (job_Events j')"

definition evolves :: "Job \<Rightarrow> Job \<Rightarrow> bool" where
  "evolves j j' \<longleftrightarrow> same_request j j' \<and> prefix (job_Events j) (job_Events j') \<and>
     job_Status j' = last_status (job_Status j) (new_events j j') \<and>
     list_all (\<lambda>e. \<not> Terminal (ev_Status e)) (butlast (new_events j j')) \<and>
     (Terminal (job_Status j) \<longrightarrow> new_events j j' = [] \<and> job_Assignment j' = job_Assignment j \<and>
        job_TerminationReason j' = job_TerminationReason j)"

lemma evolves_refl [simp]: "evolves j j"
  by (simp add: evolves_def same_request_def new_events_def last_status_def)

lemma evolves_silent:
  assumes "same_request j j'" and "job_Events j' = job_Events j" and "job_Status j' = job_Status j"
    and "Terminal (job_Status j) \<Longrightarrow> job_Assignment j' = job_Assignment j \<and>
      job_TerminationReason j' = job_TerminationReason j"
  shows "evolves j j'"
  using assms by (simp add: evolves_def new_events_def last_status_def del: Terminal.simps)

lemma last_status_append: "last_status st (es @ es') = last_status (last_status st es) es'"
  by (simp add: last_status_def)

lemma evolves_trans:
  assumes "evolves a b" and "evolves b c"
  shows "evolves a c"
proof -
  obtain es es' where es: "job_Events b = job_Events a @ es" "job_Events c = job_Events b @ es'"
    using assms by (auto simp: evolves_def prefix_def)
  then have n: "new_events a b = es" "new_events b c = es'" "new_events a c = es @ es'"
    by (simp_all add: new_events_def)
  have t: "Terminal (job_Status a) \<Longrightarrow> es = [] \<and> job_Status b = job_Status a"
    using assms(1) n by (simp add: evolves_def last_status_def del: Terminal.simps)
  have mid: "es' \<noteq> [] \<Longrightarrow> es \<noteq> [] \<Longrightarrow> \<not> Terminal (ev_Status (last es))"
    using assms n by (auto simp: evolves_def last_status_def simp del: Terminal.simps)
  have "list_all (\<lambda>e. \<not> Terminal (ev_Status e)) (butlast (es @ es'))"
  proof (cases "es' = [] \<or> es = []")
    case True
    with assms n show ?thesis by (auto simp: evolves_def simp del: Terminal.simps)
  next
    case False
    then have "butlast (es @ es') = butlast es @ [last es] @ butlast es'"
      by (simp add: butlast_append flip: append_assoc)
    with False mid assms n show ?thesis by (simp add: evolves_def del: Terminal.simps)
  qed
  moreover have "same_request a c" using assms by (simp add: evolves_def same_request_def)
  moreover have "job_Status c = last_status (job_Status a) (new_events a c)"
    using assms unfolding n last_status_append by (simp add: evolves_def n)
  moreover have "Terminal (job_Status a) \<longrightarrow> new_events a c = [] \<and>
      job_Assignment c = job_Assignment a \<and> job_TerminationReason c = job_TerminationReason a"
    using assms t n by (auto simp: evolves_def simp del: Terminal.simps)
  ultimately show ?thesis using es n by (simp add: evolves_def)
qed

section \<open>Evolution of the jobs map\<close>

text \<open>No step drops a job; every job evolves.\<close>

definition history :: "(string, Job) gomap \<Rightarrow> (string, Job) gomap \<Rightarrow> bool" where
  "history jobs jobs' \<longleftrightarrow> list_all (\<lambda>k. case map_of jobs' k of None \<Rightarrow> False
     | Some j' \<Rightarrow> evolves (the (map_of jobs k)) j') (gokeys jobs)"

lemma history_iff:
  "history jobs jobs' \<longleftrightarrow>
     (\<forall>k j. map_of jobs k = Some j \<longrightarrow> (\<exists>j'. map_of jobs' k = Some j' \<and> evolves j j'))"
proof -
  have "history jobs jobs' \<longleftrightarrow> (\<forall>k \<in> dom (map_of jobs). \<exists>j'. map_of jobs' k = Some j' \<and>
      evolves (the (map_of jobs k)) j')"
    unfolding history_def list_all_iff dom_map_of_conv_image_fst set_map
    by (auto split: option.split_asm)
  then show ?thesis by fastforce
qed

lemma history_refl [simp]: "history jobs jobs"
  by (simp add: history_iff)

lemma history_trans: "history a b \<Longrightarrow> history b c \<Longrightarrow> history a c"
  unfolding history_iff by (meson evolves_trans)

lemma history_put: "(\<And>j0. map_of jobs k = Some j0 \<Longrightarrow> evolves j0 j) \<Longrightarrow> history jobs (put k j jobs)"
  by (auto simp: history_iff)

section \<open>Transitions\<close>

lemma transition_simps [simp]:
  "job_ID (transitionLocked j st r t) = job_ID j"
  "job_Assignment (transitionLocked j st r t) = job_Assignment j"
  "job_Status (transitionLocked j st r t) = (if Terminal (job_Status j) then job_Status j else st)"
  "job_Resources (transitionLocked j st r t) = job_Resources j"
  "job_OrganizationID (transitionLocked j st r t) = job_OrganizationID j"
  "job_Intent (transitionLocked j st r t) = job_Intent j"
  "job_ServerSelector (transitionLocked j st r t) = job_ServerSelector j"
  by (simp_all add: transitionLocked_def Let_def)

lemma transition_evolves:
  assumes "evolves j0 j" shows "evolves j0 (transitionLocked j st r t)"
proof -
  have "evolves j (transitionLocked j st r t)"
    by (auto simp: evolves_def same_request_def new_events_def last_status_def transitionLocked_def Let_def)
  with assms show ?thesis by (rule evolves_trans)
qed

end
