(* ===== verification/Repository_Contract.thy ===== *)
theory Repository_Contract
  imports Store_Invariants Job_History
begin

text \<open>
  The contract of a repository operation (\<open>internal/ports/repository.go\<close>) and the proof that every
  method of the memory store meets it, except \<open>CommitAssignment\<close> and \<open>ReplanReservations\<close>, which
  have theories of their own.
\<close>

section \<open>The contract\<close>

text \<open>
  An operation that reports an error changes nothing; one that runs in a good store leaves a good
  store; and it never rewrites the history of a job.
\<close>

locale repository_operation =
  fixes run :: "Store \<Rightarrow> (go_error + 'a) \<times> Store" and pre :: "Store \<Rightarrow> bool"
  assumes atomic: "run s = (Inl e, s') \<Longrightarrow> s' = s"
    and keeps: "inv s \<Longrightarrow> pre s \<Longrightarrow> inv (snd (run s))"
    and grows: "inv s \<Longrightarrow> pre s \<Longrightarrow> history (st_jobs s) (st_jobs (snd (run s)))"
    and timeout_kept: "inv s \<Longrightarrow> pre s \<Longrightarrow> st_offlineAfter (snd (run s)) = st_offlineAfter s"
begin

text \<open>A repeated call keeps the contract.\<close>

lemma keeps_twice: "inv s \<Longrightarrow> pre s \<Longrightarrow> pre (snd (run s)) \<Longrightarrow> inv (snd (run (snd (run s))))"
  by (intro keeps)

lemma failed_keeps: "run s = (Inl e, s') \<Longrightarrow> inv s \<Longrightarrow> inv s'"
  by (auto dest: atomic)

end

text \<open>An operation on servers or commands that leaves all jobs alone.\<close>

locale jobless_operation =
  fixes run :: "Store \<Rightarrow> (go_error + 'a) \<times> Store" and pre :: "Store \<Rightarrow> bool"
  assumes atomic: "run s = (Inl e, s') \<Longrightarrow> s' = s"
    and keeps: "inv s \<Longrightarrow> pre s \<Longrightarrow> inv (snd (run s))"
    and jobs_kept: "st_jobs (snd (run s)) = st_jobs s"
    and timeout_kept: "st_offlineAfter (snd (run s)) = st_offlineAfter s"

sublocale jobless_operation \<subseteq> operation: repository_operation run pre
  using atomic keeps jobs_kept timeout_kept by unfold_locales auto

section \<open>Servers\<close>

lemma inv_put_command:
  assumes "inv s" shows "inv (put_command c s)"
  using assms by (auto simp: inv_def wf_store_def intro!: list_all_put)

lemma put_server_sel [simp]:
  "st_jobs (put_server k v s) = st_jobs s" "st_offlineAfter (put_server k v s) = st_offlineAfter s"
  by simp_all

text \<open>A registration brings a server without inventory.\<close>

definition fresh_server :: "Server \<Rightarrow> Store \<Rightarrow> bool" where
  "fresh_server v s \<longleftrightarrow> srv_GPUs v = []"

lemma inv_new_server:
  assumes "inv s" and "srv_GPUs v = []"
  shows "inv (put_server (srv_ID v) v (s\<lparr>st_machines := put m (srv_ID v) (st_machines s)\<rparr>))"
proof -
  have "inv (put_server (srv_ID v) v s)"
    using assms by (intro inv_put_server) (auto simp: wf_server_def uuids_of_def guarded_def)
  then show ?thesis
    using gokeys_put [of "srv_ID v" v "st_servers s"] by (auto simp: inv_def wf_store_def intro!: list_all_put)
qed

interpretation upsert: jobless_operation "UpsertServer v" "fresh_server v" for v
proof unfold_locales
  fix s :: Store
  assume s: "inv s" "fresh_server v s"
  show "inv (snd (UpsertServer v s))"
  proof (cases "map_of (st_machines s) (srv_MachineID v)")
    case None
    with s inv_new_server [OF s(1), of v "srv_MachineID v"] show ?thesis
      by (simp add: UpsertServer_def fresh_server_def)
  next
    case (Some sid)
    then obtain old where old: "map_of (st_servers s) sid = Some old"
      using inv_lookup(4) [OF s(1)] by blast
    with Some s(1) show ?thesis
      by (simp add: UpsertServer_def Let_def get_or_zero_def inv_touch_server)
  qed
qed (auto simp: UpsertServer_def Let_def split: option.splits if_splits)

interpretation heartbeat: jobless_operation "Heartbeat agentID now" "\<lambda>_. True" for agentID now
proof unfold_locales
  fix s :: Store
  assume "inv s"
  then show "inv (snd (Heartbeat agentID now s))"
    by (auto simp: Heartbeat_def Let_def split: option.split intro!: inv_touch_server)
qed (auto simp: Heartbeat_def Let_def split: option.splits)

interpretation drain: jobless_operation "SetServerDrained sid drained" "\<lambda>_. True" for sid drained
proof unfold_locales
  fix s :: Store
  assume "inv s"
  then show "inv (snd (SetServerDrained sid drained s))"
    by (auto simp: SetServerDrained_def Let_def split: option.split intro!: inv_touch_server)
qed (auto simp: SetServerDrained_def Let_def split: option.splits)

text \<open>Updating all servers at once, keeping identities and GPUs.\<close>

lemma inv_map_servers:
  assumes "inv s" and "\<And>k v. srv_ID (f k v) = srv_ID v" and "\<And>k v. srv_GPUs (f k v) = srv_GPUs v"
  shows "inv (s\<lparr>st_servers := map_vals f (st_servers s)\<rparr>)"
proof -
  have mem: "(k, v) \<in> set (map_vals f m) \<longleftrightarrow> (\<exists>v0. (k, v0) \<in> set m \<and> v = f k v0)" for k v m
    by (auto simp: map_vals_def)
  have "list_all (\<lambda>(k, v). wf_server k v) (map_vals f (st_servers s))"
    using assms by (fastforce simp: inv_def wf_store_def list_all_iff mem wf_server_def)
  moreover have "uuids_unique (map_vals f (st_servers s))"
    using assms unfolding inv_def uuids_unique_def uuids_of_def mem
    by (clarsimp simp: mem) fast
  moreover have "all_guarded (map_vals f (st_servers s)) (st_jobs s)"
    using assms unfolding inv_def all_guarded_def by (clarsimp simp: mem) fast
  ultimately show ?thesis
    using assms(1) by (simp add: inv_def wf_store_def)
qed

interpretation stale: jobless_operation "MarkStaleServers t" "\<lambda>_. True" for t
  by unfold_locales (auto simp: MarkStaleServers_def intro!: inv_map_servers)

section \<open>Commands\<close>

interpretation enqueue: jobless_operation "EnqueueCommand c" "\<lambda>_. True" for c
  by unfold_locales (auto simp: EnqueueCommand_def intro!: inv_put_command split: if_splits)

lemma foldl_put_command:
  "st_jobs (foldl (\<lambda>s c. put_command c s) s cs) = st_jobs s \<and>
   st_servers (foldl (\<lambda>s c. put_command c s) s cs) = st_servers s \<and>
   st_offlineAfter (foldl (\<lambda>s c. put_command c s) s cs) = st_offlineAfter s \<and>
   (inv s \<longrightarrow> inv (foldl (\<lambda>s c. put_command c s) s cs))"
proof (induction cs arbitrary: s)
  case Nil
  then show ?case by simp
next
  case (Cons c cs)
  show ?case using Cons.IH [of "put_command c s"] inv_put_command [of s c] by simp
qed

interpretation lease: jobless_operation "LeaseCommands agentID now d limit" "\<lambda>_. True"
  for agentID now d limit
  by unfold_locales (auto simp: LeaseCommands_def Let_def foldl_put_command split: if_splits)

section \<open>Jobs\<close>

text \<open>A submitted job is new: it has an id and no assignment yet.\<close>

definition submitted :: "Job \<Rightarrow> Store \<Rightarrow> bool" where
  "submitted j s \<longleftrightarrow> job_ID j \<noteq> '''' \<and> job_Assignment j = None"

lemma unassigned_claims_nothing:
  assumes "job_Assignment j = None"
  shows "\<not> holds_on sid j" "\<not> holding j" "\<not> booking j" "compatible j x" "compatible x j" "wf_asg j"
  using assms by (simp_all add: holds_on_def holding_def booking_def compatible_def wf_asg_def)

lemma inv_new_job:
  assumes "inv s" and "submitted j s"
  shows "inv (put_job j s)"
proof -
  have wf: "wf_map (st_jobs s)" using assms(1) by (simp add: inv_def wf_store_def)
  have n: "job_Assignment j = None" using assms(2) by (simp add: submitted_def)
  have "jobs_compatible (put (job_ID j) j (st_jobs s))"
    using assms(1) unassigned_claims_nothing(4) [OF n] by (intro jobs_compatible_put [OF _ wf]) (simp add: inv_def)
  moreover have "all_guarded (st_servers s) (put (job_ID j) j (st_jobs s))"
    using assms(1) unassigned_claims_nothing(1) [OF n]
    by (intro all_guarded_put_job) (simp_all add: inv_def guarded_def)
  moreover have "wf_job (job_ID j) j"
    using assms(2) unassigned_claims_nothing(6) [OF n] by (simp add: wf_job_def submitted_def)
  ultimately show ?thesis
    using assms(1) by (auto simp: inv_def wf_store_def intro!: list_all_put)
qed

interpretation create: repository_operation "CreateJob j" "submitted j" for j
proof unfold_locales
  fix s :: Store
  assume "inv s" "submitted j s"
  then show "inv (snd (CreateJob j s))" by (simp add: CreateJob_def inv_new_job split: option.split)
qed (auto simp: CreateJob_def intro!: history_put split: option.splits)

subsection \<open>Building evolutions and claims\<close>

lemma evolves_update:
  assumes "evolves j0 j" and "\<not> Terminal (job_Status j0)"
  shows "evolves j0 (j\<lparr>job_Assignment := a\<rparr>)" "evolves j0 (j\<lparr>job_TerminationReason := tr\<rparr>)"
    "evolves j0 (j\<lparr>job_Policy := p\<rparr>)" "evolves j0 (j\<lparr>job_UpdatedAt := t\<rparr>)"
    "evolves j0 (j\<lparr>job_ContainerID := c\<rparr>)" "evolves j0 (j\<lparr>job_LastObservedAt := ob\<rparr>)"
  using assms by (simp_all add: evolves_def same_request_def new_events_def del: Terminal.simps)

lemma released_simps [simp]:
  "job_ID (released j t) = job_ID j" "job_Status (released j t) = job_Status j"
  "wf_asg (released j t) \<longleftrightarrow> True"
  by (simp_all add: released_def wf_asg_def split: option.split)

lemma released_evolves: "evolves j0 j \<Longrightarrow> \<not> Terminal (job_Status j0) \<Longrightarrow> evolves j0 (released j t)"
  by (auto simp: released_def intro: evolves_update simp del: Terminal.simps split: option.split)

lemma released_claim_le: "Terminal (job_Status j) \<Longrightarrow> job_ID j = job_ID j0 \<Longrightarrow> claim_le (released j t) j0"
  by (simp add: claim_le_def del: Terminal.simps)

lemma fst_releaseLocked [simp]: "fst (releaseLocked j t s) = released j t"
  by (simp add: releaseLocked_def released_def Let_def split: option.split)

lemma finish_job_alt:
  "(case releaseLocked j t s of (j', s') \<Rightarrow> (Inr j', put_job j' s')) =
     (Inr (released j t), finish_job (job_ID j) j t s)"
  "(case releaseLocked j t s of (j', s') \<Rightarrow> put_job j' s') = finish_job (job_ID j) j t s"
  using fst_releaseLocked [of j t s]
  by (cases "releaseLocked j t s"; force simp: finish_job_def simp del: fst_releaseLocked)+

section \<open>Releasing a finished job\<close>

text \<open>What releasing a job does to the rest of the store.\<close>

definition same_uuids :: "Store \<Rightarrow> Store \<Rightarrow> bool" where
  "same_uuids s s' \<longleftrightarrow> list_all (\<lambda>(k, v). case map_of (st_servers s) k of None \<Rightarrow> False
     | Some v0 \<Rightarrow> map gpu_UUID (srv_GPUs v) = map gpu_UUID (srv_GPUs v0)) (st_servers s')"

lemma same_uuids_refl: "wf_store s \<Longrightarrow> same_uuids s s"
  by (auto simp: same_uuids_def list_all_iff wf_store_def)

lemma same_uuids_iff:
  "same_uuids s s' \<longleftrightarrow> (\<forall>k v. (k, v) \<in> set (st_servers s') \<longrightarrow>
     (\<exists>v0. map_of (st_servers s) k = Some v0 \<and> map gpu_UUID (srv_GPUs v) = map gpu_UUID (srv_GPUs v0)))"
proof -
  have "(case x of None \<Rightarrow> False | Some v0 \<Rightarrow> P v0) \<longleftrightarrow> (\<exists>v0. x = Some v0 \<and> P v0)" for x :: "Server option" and P
    by (cases x) auto
  then show ?thesis unfolding same_uuids_def list_all_iff by auto
qed

lemma same_uuidsD:
  "same_uuids s s' \<Longrightarrow> map_of (st_servers s') k = Some v \<Longrightarrow>
   \<exists>v0. map_of (st_servers s) k = Some v0 \<and> uuids_of v = uuids_of v0"
  unfolding same_uuids_iff uuids_of_def by (drule map_of_SomeD) metis

lemma same_uuids_trans: "same_uuids a b \<Longrightarrow> same_uuids b c \<Longrightarrow> same_uuids a c"
  unfolding same_uuids_iff by (metis map_of_SomeD)

lemma release_step:
  assumes s: "inv s" and j0: "map_of (st_jobs s) (job_ID j) = Some j0" and T: "Terminal (job_Status j)"
  shows "inv (snd (releaseLocked j t s)) \<and> same_uuids s (snd (releaseLocked j t s)) \<and>
    (\<exists>j1. map_of (st_jobs (snd (releaseLocked j t s))) (job_ID j) = Some j1) \<and>
    (\<forall>k. k \<noteq> job_ID j \<longrightarrow> map_of (st_jobs (snd (releaseLocked j t s))) k = map_of (st_jobs s) k) \<and>
    st_offlineAfter (snd (releaseLocked j t s)) = st_offlineAfter s \<and>
    st_commands (snd (releaseLocked j t s)) = st_commands s"
proof (cases "job_Assignment j")
  case None
  with s j0 same_uuids_refl show ?thesis by (auto simp: releaseLocked_def)
next
  case (Some a)
  define s1 where "s1 = s\<lparr>st_jobs := put (job_ID j) (released j t) (st_jobs s)\<rparr>"
  have "job_ID j = job_ID j0" using inv_lookup(2) [OF s j0] by (simp add: wf_job_def)
  then have s1: "inv s1" unfolding s1_def using s j0 T
    by (intro inv_set_job released_claim_le)
  show ?thesis
  proof (cases "map_of (st_servers s1) (asg_ServerID a)")
    case None
    with Some s s1 same_uuids_refl [OF inv_wf [OF s]] show ?thesis
      by (auto simp: releaseLocked_def Let_def s1_def same_uuids_def)
  next
    case v: (Some v)
    define v' where "v' = v\<lparr>srv_GPUs := normalizeGPUState (srv_ID v) (srv_GPUs v) (srv_Containers v) [] (st_jobs s1)\<rparr>"
    have wv: "wf_server (asg_ServerID a) v" using inv_lookup(1) [OF s1 v] .
    have r: "snd (releaseLocked j t s) = put_server (srv_ID v) v' s1"
      using Some v by (simp add: releaseLocked_def Let_def s1_def v'_def)
    have "inv (put_server (srv_ID v) v' s1)"
    proof (rule inv_normalized_server [OF s1])
      show "srv_GPUs v' = normalizeGPUState (srv_ID v) (srv_GPUs v) (srv_Containers v) [] (st_jobs s1)"
        by (simp add: v'_def)
      show "set (map gpu_UUID (srv_GPUs v)) \<inter> uuids_of w = {}"
        if "map_of (st_servers s1) k = Some w" "k \<noteq> srv_ID v" for k w
        using s1 map_of_SomeD [OF v] map_of_SomeD [OF that(1)] that(2) wv
        by (fastforce simp: inv_def uuids_unique_def uuids_of_def wf_server_def)
    qed (use wv in \<open>simp_all add: v'_def wf_server_def\<close>)
    moreover have "same_uuids s (put_server (srv_ID v) v' s1)"
      using v wv same_uuids_refl [OF inv_wf [OF s]]
      by (auto simp: s1_def v'_def same_uuids_def wf_server_def intro!: list_all_put)
    ultimately show ?thesis unfolding r by (simp add: s1_def)
  qed
qed

lemma finish_step:
  assumes s: "inv s" and j0: "map_of (st_jobs s) (job_ID j) = Some j0" and T: "Terminal (job_Status j)"
    and ev: "evolves j0 j" and live: "\<not> Terminal (job_Status j0)"
  shows "inv (finish_job (job_ID j) j t s)" "same_uuids s (finish_job (job_ID j) j t s)"
    "history (st_jobs s) (st_jobs (finish_job (job_ID j) j t s))"
    "st_offlineAfter (finish_job (job_ID j) j t s) = st_offlineAfter s"
    "st_commands (finish_job (job_ID j) j t s) = st_commands s"
    "map_of (st_jobs (finish_job (job_ID j) j t s)) k =
       (if k = job_ID j then Some (released j t) else map_of (st_jobs s) k)"
proof -
  define s' where "s' = snd (releaseLocked j t s)"
  have r: "releaseLocked j t s = (released j t, s')"
    unfolding s'_def by (metis fst_releaseLocked prod.collapse)
  note step = release_step [OF s j0 T, of t, folded s'_def]
  then obtain j1 where j1: "map_of (st_jobs s') (job_ID j) = Some j1" by blast
  have f: "finish_job (job_ID j) j t s = s'\<lparr>st_jobs := put (job_ID j) (released j t) (st_jobs s')\<rparr>"
    by (simp add: finish_job_def r)
  have "job_ID j = job_ID j1" using inv_lookup(2) [OF _ j1] step by (simp add: wf_job_def)
  then show "inv (finish_job (job_ID j) j t s)"
    unfolding f using step T j1 by (intro inv_set_job released_claim_le) auto
  show "same_uuids s (finish_job (job_ID j) j t s)" using step by (simp add: f same_uuids_def)
  show lookup: "map_of (st_jobs (finish_job (job_ID j) j t s)) k =
       (if k = job_ID j then Some (released j t) else map_of (st_jobs s) k)" for k
    using step by (simp add: f)
  show "history (st_jobs s) (st_jobs (finish_job (job_ID j) j t s))"
    unfolding history_iff lookup using j0 released_evolves [OF ev live] by auto
  show "st_offlineAfter (finish_job (job_ID j) j t s) = st_offlineAfter s"
    "st_commands (finish_job (job_ID j) j t s) = st_commands s"
    using step by (simp_all add: f)
qed

end
