(* ===== verification/Lifecycle_Contract.thy ===== *)
theory Lifecycle_Contract
  imports Repository_Contract
begin

text \<open>
  The contract for the operations that move jobs: status changes, stop requests, acknowledgements,
  training metadata and inventory reports.
\<close>

section \<open>Moving one job\<close>

text \<open>A step that replaces one job by an evolution that claims no more.\<close>

lemma move_step:
  assumes "inv s" and "map_of (st_jobs s) k = Some j0" and "evolves j0 j" and "claim_le j j0"
  shows "inv (s\<lparr>st_jobs := put k j (st_jobs s)\<rparr>)" "history (st_jobs s) (put k j (st_jobs s))"
  using assms by (auto intro: inv_set_job history_put)

lemma transition_claim_le:
  assumes "job_ID j = job_ID j0" and "job_Assignment j = job_Assignment j0"
    and "\<not> Terminal (job_Status j0)"
  shows "claim_le (transitionLocked j st r t) j0"
  using assms by (intro claim_leI) simp_all

lemma inv_job_ID: "inv s \<Longrightarrow> map_of (st_jobs s) k = Some j \<Longrightarrow> job_ID j = k"
  by (drule (1) inv_lookup(2)) (simp add: wf_job_def)

section \<open>SetJobStatus\<close>

lemma SetJobStatus_cases:
  assumes "inv s"
  shows "snd (SetJobStatus jid st r t s) = s \<or>
    (\<exists>j0. map_of (st_jobs s) jid = Some j0 \<and> \<not> Terminal (job_Status j0) \<and>
       snd (SetJobStatus jid st r t s) =
         (let j = transitionLocked j0 st r t in
          if Terminal st then finish_job jid j t s else s\<lparr>st_jobs := put jid j (st_jobs s)\<rparr>))"
proof (cases "map_of (st_jobs s) jid")
  case None
  then show ?thesis by (simp add: SetJobStatus_def)
next
  case (Some j0)
  then show ?thesis
    by (auto simp: SetJobStatus_def Let_def finish_job_def split: prod.split simp del: Terminal.simps)
qed

interpretation set_status: repository_operation "SetJobStatus jid st r t" "\<lambda>_. True" for jid st r t
proof unfold_locales
  fix s :: Store
  assume s: "inv s"
  consider "snd (SetJobStatus jid st r t s) = s"
    | j0 where "map_of (st_jobs s) jid = Some j0" "\<not> Terminal (job_Status j0)" "Terminal st"
        "snd (SetJobStatus jid st r t s) = finish_job jid (transitionLocked j0 st r t) t s"
    | j0 where "map_of (st_jobs s) jid = Some j0" "\<not> Terminal (job_Status j0)" "\<not> Terminal st"
        "snd (SetJobStatus jid st r t s) = s\<lparr>st_jobs := put jid (transitionLocked j0 st r t) (st_jobs s)\<rparr>"
    using SetJobStatus_cases [OF s, of jid st r t]
    by (cases "Terminal st") (auto simp: Let_def simp del: Terminal.simps)
  then have "inv (snd (SetJobStatus jid st r t s)) \<and>
    history (st_jobs s) (st_jobs (snd (SetJobStatus jid st r t s)))"
  proof cases
    case 1
    with s show ?thesis by simp
  next
    case (2 j0)
    then have id: "job_ID (transitionLocked j0 st r t) = jid" using inv_job_ID [OF s] by simp
    have "Terminal (job_Status (transitionLocked j0 st r t))" using 2 by (simp del: Terminal.simps)
    from finish_step(1,3) [OF s _ this _ 2(2), unfolded id, OF 2(1)] transition_evolves [of j0 j0] 2(4)
    show ?thesis by simp
  next
    case (3 j0)
    with move_step [OF s 3(1), of "transitionLocked j0 st r t"] transition_evolves [of j0 j0]
      transition_claim_le [of j0 j0]
    show ?thesis by simp
  qed
  then show "inv (snd (SetJobStatus jid st r t s))"
    "history (st_jobs s) (st_jobs (snd (SetJobStatus jid st r t s)))" by simp_all
qed (auto simp: SetJobStatus_def releaseLocked_def Let_def split: option.splits if_splits prod.splits)

section \<open>RequestStop\<close>

text \<open>The three ways a stop request ends a job at once, and the way it asks the agent.\<close>

lemma RequestStop_cases:
  assumes s: "inv s"
  obtains (unchanged) "snd (RequestStop jid c t s) = s"
  | (queued) j0 where "map_of (st_jobs s) jid = Some j0" "job_Status j0 = JobQueued"
      "snd (RequestStop jid c t s) = put_job (transitionLocked (j0\<lparr>job_TerminationReason := stop_reason j0 t\<rparr>)
         JobCancelled ''cancelled before placement'' t) s"
  | (cancelled) j0 r c' where "map_of (st_jobs s) jid = Some j0" "\<not> Terminal (job_Status j0)"
      "snd (RequestStop jid c t s) = finish_job jid
         (transitionLocked (j0\<lparr>job_TerminationReason := stop_reason j0 t\<rparr>) JobCancelled r t) t s \<or>
       snd (RequestStop jid c t s) = finish_job jid
         (transitionLocked (j0\<lparr>job_TerminationReason := stop_reason j0 t\<rparr>) JobCancelled r t) t
         (put_command c' s)"
  | (stopping) j0 c' where "map_of (st_jobs s) jid = Some j0" "\<not> Terminal (job_Status j0)"
      "snd (RequestStop jid c t s) = put_job (transitionLocked (j0\<lparr>job_TerminationReason := stop_reason j0 t\<rparr>)
         JobStopping ''stop requested; awaiting agent and observed state'' t) (put_command c' s)"
proof (cases "map_of (st_jobs s) jid")
  case None
  with unchanged show ?thesis by (simp add: RequestStop_def)
next
  case (Some j0)
  have id: "job_ID j0 = jid" by (rule inv_job_ID [OF s Some])
  note unf = RequestStop_def Let_def finish_job_alt Some id
  show ?thesis
  proof (cases "Terminal (job_Status j0) \<or> job_Status j0 = JobStopping")
    case True
    with unchanged show ?thesis by (simp add: unf del: Terminal.simps)
  next
    case live: False
    show ?thesis
    proof (cases "job_Status j0 = JobQueued")
      case True
      with live queued [OF Some] show ?thesis by (simp add: unf del: Terminal.simps)
    next
      case nq: False
      show ?thesis
      proof (cases "job_Assignment j0")
        case None
        with live nq unchanged show ?thesis by (simp add: unf del: Terminal.simps)
      next
        case (Some a)
        have live': "\<not> Terminal (job_Status j0)" "job_Status j0 \<noteq> JobStopping" using live by blast+
        note unf2 = unf Some live' nq
        note job = \<open>map_of (st_jobs s) jid = Some j0\<close>
        consider "asg_CommandID a = ''''"
          | "asg_CommandID a \<noteq> ''''" "is_pending (map_of (st_commands s) (asg_CommandID a))"
          | "asg_CommandID a \<noteq> ''''" "\<not> is_pending (map_of (st_commands s) (asg_CommandID a))" by blast
        then show ?thesis
        proof cases
          case 1
          have "snd (RequestStop jid c t s) = finish_job jid
             (transitionLocked (j0\<lparr>job_TerminationReason := stop_reason j0 t\<rparr>) JobCancelled msg_cancelled_schedule t) t s"
            by (simp add: unf2 1 del: Terminal.simps)
          with cancelled [OF job live'(1)] show ?thesis by blast
        next
          case 2
          have "\<exists>c'. snd (RequestStop jid c t s) = finish_job jid
             (transitionLocked (j0\<lparr>job_TerminationReason := stop_reason j0 t\<rparr>) JobCancelled
                ''cancelled before command delivery'' t) t (put_command c' s)"
            by (rule exI [of _ "(the (map_of (st_commands s) (asg_CommandID a)))
                \<lparr>cmd_Status := CommandFailed, cmd_Error := ''cancelled before dispatch'',
                  cmd_CompletedAt := Some t\<rparr>"]) (simp add: unf2 2 del: Terminal.simps)
          with cancelled [OF job live'(1)] show ?thesis by blast
        next
          case 3
          show ?thesis
          proof (cases "map_of (st_commands s) (cmd_ID c)")
            case None
            have "\<exists>c'. snd (RequestStop jid c t s) =
               put_job (transitionLocked (j0\<lparr>job_TerminationReason := stop_reason j0 t\<rparr>)
                 JobStopping ''stop requested; awaiting agent and observed state'' t) (put_command c' s)"
              by (rule exI [of _ "c\<lparr>cmd_AgentID := asg_ServerID a\<rparr>"]) (simp add: unf2 3 None del: Terminal.simps)
            with stopping [OF job live'(1)] show ?thesis by blast
          next
            case (Some c0)
            with unchanged 3 show ?thesis by (simp add: unf2 del: Terminal.simps)
          qed
        qed
      qed
    qed
  qed
qed

lemma stop_moves:
  assumes "\<not> Terminal (job_Status j0)"
  shows "evolves j0 (transitionLocked (j0\<lparr>job_TerminationReason := tr\<rparr>) st r t)"
    "claim_le (transitionLocked (j0\<lparr>job_TerminationReason := tr\<rparr>) st r t) j0"
  using assms by (auto intro!: transition_evolves evolves_update transition_claim_le simp del: Terminal.simps)

interpretation request_stop: repository_operation "RequestStop jid c t" "\<lambda>_. True" for jid c t
proof unfold_locales
  fix s :: Store
  assume s: "inv s"
  have "inv (snd (RequestStop jid c t s)) \<and> history (st_jobs s) (st_jobs (snd (RequestStop jid c t s)))"
    using s
  proof (cases rule: RequestStop_cases [where jid = jid and c = c and t = t])
    case unchanged
    with s show ?thesis by simp
  next
    case (queued j0)
    then have live: "\<not> Terminal (job_Status j0)" by simp
    from queued move_step [OF s queued(1) stop_moves [OF live]] inv_job_ID [OF s queued(1)]
    show ?thesis by simp
  next
    case (cancelled j0 r c')
    let ?j = "transitionLocked (j0\<lparr>job_TerminationReason := stop_reason j0 t\<rparr>) JobCancelled r t"
    have id: "job_ID ?j = jid" and T: "Terminal (job_Status ?j)"
      using inv_job_ID [OF s cancelled(1)] by auto
    note fin = finish_step(1,3) [OF _ _ T stop_moves(1) [OF cancelled(2)] cancelled(2), unfolded id]
    from cancelled(3) show ?thesis
    proof
      assume "snd (RequestStop jid c t s) = finish_job jid ?j t s"
      with fin [OF s cancelled(1)] show ?thesis by simp
    next
      assume "snd (RequestStop jid c t s) = finish_job jid ?j t (put_command c' s)"
      with fin [of "put_command c' s"] inv_put_command [OF s] cancelled(1) show ?thesis by simp
    qed
  next
    case (stopping j0 c')
    from stopping move_step [OF inv_put_command [OF s] _ stop_moves [OF stopping(2)]]
      inv_job_ID [OF s stopping(1)]
    show ?thesis by simp
  qed
  then show "inv (snd (RequestStop jid c t s))"
    "history (st_jobs s) (st_jobs (snd (RequestStop jid c t s)))" by simp_all
qed (auto simp: RequestStop_def finish_job_def releaseLocked_def Let_def
      split: option.splits if_splits prod.splits)

section \<open>AckCommand\<close>

text \<open>What every internal step of a compound operation keeps.\<close>

definition step_ok :: "Store \<Rightarrow> Store \<Rightarrow> bool" where
  "step_ok s s' \<longleftrightarrow> inv s' \<and> same_uuids s s' \<and> history (st_jobs s) (st_jobs s') \<and>
     st_offlineAfter s' = st_offlineAfter s"

lemma step_ok_refl: "inv s \<Longrightarrow> step_ok s s"
  by (auto simp: step_ok_def intro: same_uuids_refl)

lemma step_ok_trans: "step_ok a b \<Longrightarrow> step_ok b c \<Longrightarrow> step_ok a c"
  unfolding step_ok_def by (metis same_uuids_trans history_trans)

lemma step_ok_move:
  assumes "inv s" and "map_of (st_jobs s) k = Some j0" and "evolves j0 j" and "claim_le j j0"
  shows "step_ok s (s\<lparr>st_jobs := put k j (st_jobs s)\<rparr>)"
  using move_step [OF assms] same_uuids_refl [OF inv_wf [OF assms(1)]]
  by (simp add: step_ok_def same_uuids_def)

lemma step_ok_finish:
  assumes "inv s" and "map_of (st_jobs s) k = Some j0" and "job_ID j = k" and "Terminal (job_Status j)"
    and "evolves j0 j" and "\<not> Terminal (job_Status j0)"
  shows "step_ok s (finish_job k j t s)"
  using finish_step(1-4) [of s j j0] assms by (simp add: step_ok_def)

lemma evolves_live_update:
  assumes "\<not> Terminal (job_Status j)"
  shows "evolves j (j\<lparr>job_ContainerID := c\<rparr>)" "evolves j (j\<lparr>job_TerminationReason := tr\<rparr>)"
  using evolves_update [of j j] assms by simp_all

lemma applyAck_step:
  assumes s: "inv s"
  shows "step_ok s (applyAckLocked c ack t s)"
proof (cases "Option.bind (payload_JobID (cmd_Payload c)) (map_of (st_jobs s))")
  case None
  with s show ?thesis by (simp add: applyAckLocked_def step_ok_refl)
next
  case (Some job)
  then obtain k where k: "map_of (st_jobs s) k = Some job" by (auto simp: bind_eq_Some_conv)
  have id: "job_ID job = k" by (rule inv_job_ID [OF s k])
  note unf = applyAckLocked_def Some Let_def id finish_job_alt
  show ?thesis
  proof (cases "job_Assignment job")
    case None
    with s show ?thesis by (simp add: unf step_ok_refl)
  next
    case a: (Some a)
    show ?thesis
    proof (cases "Terminal (job_Status job) \<or> asg_ServerID a \<noteq> cmd_AgentID c")
      case True
      with s a show ?thesis by (simp add: unf step_ok_refl del: Terminal.simps)
    next
      case False
      then have live: "\<not> Terminal (job_Status job)" and srv: "asg_ServerID a = cmd_AgentID c" by blast+
      note unf = unf a live srv
      note same = step_ok_move [OF s k evolves_refl claim_le_refl]
      show ?thesis
      proof (cases "cmd_Type c")
        case CommandStopContainer
        have "step_ok s (s\<lparr>st_jobs := put k (transitionLocked job JobRunning r t) (st_jobs s)\<rparr>)" for r
          using live by (intro step_ok_move [OF s k] transition_evolves transition_claim_le) auto
        with CommandStopContainer same show ?thesis by (simp add: unf del: Terminal.simps)
      next
        case CommandStartContainer
        let ?j = "job\<lparr>job_ContainerID := ack_ContainerID ack\<rparr>"
        let ?f = "transitionLocked (job\<lparr>job_TerminationReason := TerminationExecutionError\<rparr>) JobFailed
                    ''agent could not launch managed container'' t"
        have 1: "step_ok s (s\<lparr>st_jobs := put k ?j (st_jobs s)\<rparr>)"
          using live by (intro step_ok_move [OF s k] evolves_live_update claim_leI) auto
        have 2: "step_ok s (s\<lparr>st_jobs := put k (transitionLocked ?j JobStarting r t) (st_jobs s)\<rparr>)" for r
          using live by (intro step_ok_move [OF s k] transition_evolves evolves_live_update transition_claim_le) auto
        have 3: "step_ok s (finish_job k ?f t s)"
          using live id by (intro step_ok_finish [OF s k] transition_evolves evolves_live_update) auto
        from CommandStartContainer same 1 2 3 id show ?thesis
          by (simp add: unf del: Terminal.simps)
      qed
    qed
  qed
qed

interpretation ack: repository_operation "AckCommand agentID cid a t" "\<lambda>_. True" for agentID cid a t
proof unfold_locales
  fix s :: Store
  assume s: "inv s"
  show "inv (snd (AckCommand agentID cid a t s))"
    using s applyAck_step [OF inv_put_command [OF s]]
    by (auto simp: AckCommand_def Let_def step_ok_def split: option.split)
  show "history (st_jobs s) (st_jobs (snd (AckCommand agentID cid a t s)))"
    using applyAck_step [OF inv_put_command [OF s]]
    by (auto simp: AckCommand_def Let_def step_ok_def split: option.split)
next
  show "st_offlineAfter (snd (AckCommand agentID cid a t s)) = st_offlineAfter s" for s
    by (auto simp: AckCommand_def applyAckLocked_def releaseLocked_def Let_def
        split: option.split prod.split CommandType.split)
qed (auto simp: AckCommand_def Let_def split: option.splits if_splits)

section \<open>UpdateTraining\<close>

interpretation training: repository_operation "UpdateTraining jid rev st t" "\<lambda>_. True" for jid rev st t
proof unfold_locales
  fix s :: Store
  assume s: "inv s"
  have "step_ok s (snd (UpdateTraining jid rev st t s))"
  proof (cases "map_of (st_jobs s) jid")
    case None
    with s show ?thesis by (simp add: UpdateTraining_def step_ok_refl)
  next
    case (Some job)
    have "step_ok s (s\<lparr>st_jobs := put jid (job\<lparr>job_Training := x, job_UpdatedAt := t\<rparr>) (st_jobs s)\<rparr>)" for x
      by (intro step_ok_move [OF s Some] evolves_silent claim_leI) (auto simp: same_request_def)
    with Some s show ?thesis by (simp add: UpdateTraining_def step_ok_refl Let_def)
  qed
  then show "inv (snd (UpdateTraining jid rev st t s))"
    "history (st_jobs s) (st_jobs (snd (UpdateTraining jid rev st t s)))" by (simp_all add: step_ok_def)
qed (auto simp: UpdateTraining_def Let_def split: option.splits if_splits)

section \<open>ReplaceInventory\<close>

text \<open>A report that passed the protocol validation: every GPU has its own UUID and sane memory.\<close>

definition report_ok :: "InventoryReport \<Rightarrow> Store \<Rightarrow> bool" where
  "report_ok r s \<longleftrightarrow> distinct (map gpu_UUID (rep_GPUs r)) \<and> list_all wf_gpu (rep_GPUs r)"

lemma observed_claim_le:
  assumes "wf_asg job" and "job_Assignment job = Some a" and "asg_CommandID a \<noteq> ''''"
    and "\<not> Terminal (job_Status job)" and "job_ID j = job_ID job" and "\<not> Terminal (job_Status j)"
    and "job_Assignment j = Some (a\<lparr>asg_ReservationState := ''ALLOCATED''\<rparr>)"
  shows "claim_le j job"
  using assms by (simp add: claim_le_def asg_view_def wf_asg_def del: Terminal.simps)

lemma reconcile_present_step:
  assumes s: "inv s" and k: "map_of (st_jobs s) k = Some job" and a: "job_Assignment job = Some a"
    and c: "asg_CommandID a \<noteq> ''''" and live: "\<not> Terminal (job_Status job)"
  shows "step_ok s (reconcile_present report k job a observed s)"
proof -
  let ?o = "job\<lparr>job_ContainerID := ctr_ID observed, job_LastObservedAt := Some (rep_ObservedAt report)\<rparr>"
  let ?al = "?o\<lparr>job_Assignment := Some (a\<lparr>asg_ReservationState := ''ALLOCATED''\<rparr>)\<rparr>"
  have wf: "wf_asg job" and id: "job_ID job = k" using inv_lookup(2) [OF s k] by (simp_all add: wf_job_def)
  have ev: "evolves job ?o" "evolves job ?al"
    using evolves_update [of job job] evolves_update(6) [of job "job\<lparr>job_ContainerID := ctr_ID observed\<rparr>"]
      evolves_update(1) [of job ?o] live by simp_all
  have active: "step_ok s (s\<lparr>st_jobs := put k ?al (st_jobs s)\<rparr>)"
    "step_ok s (s\<lparr>st_jobs := put k (transitionLocked ?al JobRunning r t) (st_jobs s)\<rparr>)" for r t
    using live by (intro step_ok_move [OF s k] ev transition_evolves
        observed_claim_le [OF wf a c live]; simp)+
  have plain: "step_ok s (s\<lparr>st_jobs := put k ?o (st_jobs s)\<rparr>)"
    using live by (intro step_ok_move [OF s k] ev claim_leI) simp_all
  have fin: "step_ok s (finish_job k (transitionLocked j st r t) t s)"
    if "j = ?o \<or> j = ?o\<lparr>job_TerminationReason := TerminationExecutionError\<rparr>" "Terminal st" for j st r t
    using that live id ev(1) evolves_update(2) [OF ev(1) live]
    by (intro step_ok_finish [OF s k] transition_evolves) auto
  have T: "Terminal (fst (exit_status ?o observed))"
    by (auto simp: exit_status_def split: option.split)
  show ?thesis
  proof (cases "exit_status ?o observed")
    case (Pair st r)
    with T have "Terminal st" by simp
    with fin Pair active plain show ?thesis
      by (simp add: reconcile_present_def Let_def del: Terminal.simps)
  qed
qed

lemma reconcile_absent_step:
  assumes s: "inv s" and k: "map_of (st_jobs s) k = Some job" and live: "\<not> Terminal (job_Status job)"
  shows "step_ok s (reconcile_absent report k job a s)"
proof -
  have id: "job_ID job = k" by (rule inv_job_ID [OF s k])
  have "step_ok s (finish_job k (transitionLocked job st r t) t s)" if "Terminal st" for st r t
    using that live id by (intro step_ok_finish [OF s k] transition_evolves) auto
  with step_ok_move [OF s k evolves_refl claim_le_refl] show ?thesis
    by (simp add: reconcile_absent_def)
qed

lemma reconcile_one_step:
  assumes "inv s" shows "step_ok s (reconcile_one sid report byJob s k)"
  using assms reconcile_present_step reconcile_absent_step
  by (auto simp: reconcile_one_def step_ok_refl simp del: Terminal.simps split: option.split)

lemma reconcile_step:
  assumes "inv s" shows "step_ok s (reconcileObservedLocked sid report s)"
proof -
  have "step_ok s (foldl (reconcile_one sid report byJob) s ks)" for byJob ks
    using assms
  proof (induction ks arbitrary: s)
    case Nil
    then show ?case by (simp add: step_ok_refl)
  next
    case (Cons k ks)
    have 1: "step_ok s (reconcile_one sid report byJob s k)" by (rule reconcile_one_step [OF Cons.prems])
    then have "inv (reconcile_one sid report byJob s k)" by (simp add: step_ok_def)
    from step_ok_trans [OF 1 Cons.IH [OF this]] show ?case by simp
  qed
  then show ?thesis by (simp add: reconcileObservedLocked_def)
qed

text \<open>The store and the server just before the report's server is written back.\<close>

definition reconciled_store :: "string \<Rightarrow> InventoryReport \<Rightarrow> Store \<Rightarrow> Store" where
  "reconciled_store agentID report s =
     (case rep_Capabilities report of
        None \<Rightarrow> reconcileObservedLocked agentID report s
      | Some c \<Rightarrow> if cap_GPUInventoryAvailable c \<and> cap_DockerAvailable c
                   then reconcileObservedLocked agentID report s else s)"

definition stamped :: "InventoryReport \<Rightarrow> InventoryReport" where
  "stamped report = (if IsZero (rep_ReceivedAt report)
     then report\<lparr>rep_ReceivedAt := rep_ObservedAt report\<rparr> else report)"

lemma stamped_simps [simp]:
  "rep_GPUs (stamped r) = rep_GPUs r" "rep_Sequence (stamped r) = rep_Sequence r"
  "rep_Capabilities (stamped r) = rep_Capabilities r" "rep_Processes (stamped r) = rep_Processes r" "rep_Containers (stamped r) = rep_Containers r"
  by (simp_all add: stamped_def)

text \<open>An accepted report replaces the server in the reconciled store; an invalid GPU inventory keeps
  the GPUs, and then no job was reconciled.\<close>

lemma ReplaceInventory_accepted:
  assumes "map_of (st_servers s) agentID = Some v0" and "srv_InventoryVersion v0 < rep_Sequence r"
    and "\<not> uuid_clash agentID r s"
  obtains v cs where
    "ReplaceInventory agentID r s = (Inr v, put_server agentID v (reconciled_store agentID (stamped r) s))"
    "srv_ID v = srv_ID v0" "srv_InventoryVersion v = rep_Sequence r"
    "srv_GPUs v = srv_GPUs v0 \<and> reconciled_store agentID (stamped r) s = s \<or>
     srv_GPUs v = normalizeGPUState agentID (rep_GPUs r) cs (rep_Processes r)
       (st_jobs (reconciled_store agentID (stamped r) s))"
proof -
  have stale: "\<not> rep_Sequence r \<le> srv_InventoryVersion v0" using assms(2) by simp
  show ?thesis
  proof (cases "rep_Capabilities r")
    case None
    show ?thesis
      by (rule that [of _ "rep_Containers r"], simp add: ReplaceInventory_def assms stale None Let_def reconciled_store_def
          flip: stamped_def) (simp_all add: reconciled_store_def None)
  next
    case (Some c)
    consider "cap_GPUInventoryAvailable c" "cap_DockerAvailable c"
      | "cap_GPUInventoryAvailable c" "\<not> cap_DockerAvailable c" | "\<not> cap_GPUInventoryAvailable c" by blast
    then show ?thesis
    proof cases
      case 1
      show ?thesis
        by (rule that [of _ "rep_Containers r"], simp add: ReplaceInventory_def assms stale Some Let_def reconciled_store_def 1
            flip: stamped_def) (simp_all add: reconciled_store_def Some 1)
    next
      case 2
      show ?thesis
        by (rule that [of _ "srv_Containers v0"], simp add: ReplaceInventory_def assms stale Some Let_def reconciled_store_def 2
            flip: stamped_def) (simp_all add: reconciled_store_def Some 2)
    next
      case 3
      show ?thesis
        by (rule that [of _ "[]"], simp add: ReplaceInventory_def assms stale Some Let_def reconciled_store_def 3
            flip: stamped_def) (simp_all add: reconciled_store_def Some 3)
    qed
  qed
qed

lemma reconciled_step: "inv s \<Longrightarrow> step_ok s (reconciled_store agentID r s)"
  by (auto simp: reconciled_store_def reconcile_step step_ok_refl split: option.split)

lemma uuid_clash_disjoint:
  assumes "\<not> uuid_clash agentID r s" and "map_of (st_servers s) k = Some v" and "k \<noteq> agentID"
  shows "set (map gpu_UUID (rep_GPUs r)) \<inter> uuids_of v = {}"
  using assms(1,3) map_of_SomeD [OF assms(2)]
  by (fastforce simp: uuid_clash_def uuids_of_def list_ex_iff)

interpretation inventory: repository_operation "ReplaceInventory agentID r" "report_ok r" for agentID r
proof unfold_locales
  fix s :: Store
  assume s: "inv s" and r: "report_ok r s"
  have "inv (snd (ReplaceInventory agentID r s)) \<and>
    history (st_jobs s) (st_jobs (snd (ReplaceInventory agentID r s))) \<and>
    st_offlineAfter (snd (ReplaceInventory agentID r s)) = st_offlineAfter s"
  proof (cases "map_of (st_servers s) agentID")
    case None
    with s show ?thesis by (simp add: ReplaceInventory_def)
  next
    case (Some v0)
    note id = inv_lookup(1) [OF s Some, unfolded wf_server_def]
    show ?thesis
    proof (cases "rep_Sequence r \<le> srv_InventoryVersion v0 \<or> uuid_clash agentID r s")
      case True
      with Some have "snd (ReplaceInventory agentID r s) = s"
        by (cases "rep_Sequence r \<le> srv_InventoryVersion v0") (simp_all add: ReplaceInventory_def)
      with s show ?thesis by simp
    next
      case False
      let ?s1 = "reconciled_store agentID (stamped r) s"
      have s1: "step_ok s ?s1" by (rule reconciled_step [OF s])
      from False have "srv_InventoryVersion v0 < rep_Sequence r" and "\<not> uuid_clash agentID r s" by auto
      from ReplaceInventory_accepted [OF Some this] obtain v cs where
        run: "ReplaceInventory agentID r s = (Inr v, put_server agentID v ?s1)" and v: "srv_ID v = srv_ID v0"
        and gpus: "srv_GPUs v = srv_GPUs v0 \<and> ?s1 = s \<or>
          srv_GPUs v = normalizeGPUState agentID (rep_GPUs r) cs (rep_Processes r) (st_jobs ?s1)"
        by metis
      from gpus have "inv (put_server agentID v ?s1)"
      proof
        assume "srv_GPUs v = srv_GPUs v0 \<and> ?s1 = s"
        with inv_touch_server [OF s Some v] show ?thesis by simp
      next
        assume norm: "srv_GPUs v = normalizeGPUState agentID (rep_GPUs r) cs (rep_Processes r) (st_jobs ?s1)"
        show ?thesis
        proof (rule inv_normalized_server [OF _ _ norm])
          show "set (map gpu_UUID (rep_GPUs r)) \<inter> uuids_of w = {}"
            if w: "map_of (st_servers ?s1) k = Some w" and "k \<noteq> agentID" for k w
          proof -
            from same_uuidsD [OF _ w, of s] s1 obtain w0 where
              "map_of (st_servers s) k = Some w0" "uuids_of w = uuids_of w0" by (auto simp: step_ok_def)
            with uuid_clash_disjoint [OF \<open>\<not> uuid_clash agentID r s\<close> _ that(2)] show ?thesis by metis
          qed
        qed (use s1 r v id in \<open>simp_all add: step_ok_def report_ok_def\<close>)
      qed
      with run s1 show ?thesis by (simp add: step_ok_def)
    qed
  qed
  then show "inv (snd (ReplaceInventory agentID r s))"
    "history (st_jobs s) (st_jobs (snd (ReplaceInventory agentID r s)))"
    "st_offlineAfter (snd (ReplaceInventory agentID r s)) = st_offlineAfter s" by simp_all
qed (auto simp: ReplaceInventory_def Let_def split: option.splits if_splits prod.splits)

end
