(* ===== verification/Assignment_Contract.thy ===== *)
theory Assignment_Contract
  imports Lifecycle_Contract
begin

text \<open>
  The two operations that give GPUs to jobs: \<open>CommitAssignment\<close> (dispatch now) and
  \<open>ReplanReservations\<close> (book for later). Both revalidate the placement against the store before they
  write; the lemmas show that this is enough to keep the invariant.
\<close>

section \<open>Counting the wanted GPUs\<close>

lemma found_all:
  assumes "distinct us" and "distinct (map gpu_UUID gpus)" and "found_count us gpus = length us"
    and "u \<in> set us"
  shows "\<exists>g \<in> set gpus. gpu_UUID g = u"
proof -
  let ?f = "filter (\<lambda>g. List.member us (gpu_UUID g)) gpus"
  have "distinct (map gpu_UUID ?f)" using assms(2) by (simp add: distinct_map_filter)
  then have "card (set (map gpu_UUID ?f)) = length us"
    using assms(3) by (metis distinct_card found_count_def length_map)
  moreover have "set (map gpu_UUID ?f) \<subseteq> set us" by auto
  moreover have "card (set us) = length us" by (rule distinct_card [OF assms(1)])
  ultimately have "set (map gpu_UUID ?f) = set us" by (intro card_subset_eq) auto
  with assms(4) have "u \<in> set (map gpu_UUID ?f)" by simp
  then show ?thesis by auto
qed

lemma wanted_match:
  assumes "valid_uuids us" and "distinct (map gpu_UUID gpus)" and "found_count us gpus = length us"
    and "all_match r us gpus" and "u \<in> set us"
  obtains g where "g \<in> set gpus" "gpu_UUID g = u" "Matches r g"
  using found_all [of us gpus u] assms by (auto simp: valid_uuids_def all_match_def list_all_iff)

section \<open>CommitAssignment\<close>

text \<open>What the checks of a successful commit establish.\<close>

definition commit_checks :: "Job \<Rightarrow> Server \<Rightarrow> Placement \<Rightarrow> Command \<Rightarrow> gotime \<Rightarrow> Store \<Rightarrow> bool" where
  "commit_checks job server p command now s \<longleftrightarrow>
     commit_guard job p command now \<and>
     SameOrganization (job_OrganizationID job) (srv_OrganizationID server) \<and>
     srv_Schedulable server now (st_offlineAfter s) \<and> 0 < rq_GPUCount (job_Resources job) \<and>
     int (length (plc_GPUUUIDs p)) = rq_GPUCount (job_Resources job) \<and>
     cmd_AgentID command = srv_ID server \<and> map_of (st_commands s) (cmd_ID command) = None \<and>
     valid_uuids (plc_GPUUUIDs p) \<and> all_match (job_Resources job) (plc_GPUUUIDs p) (srv_GPUs server) \<and>
     found_count (plc_GPUUUIDs p) (srv_GPUs server) = length (plc_GPUUUIDs p) \<and>
     selector_matches (job_ServerSelector job) (srv_Labels server)"

definition reserved_server :: "string \<Rightarrow> Placement \<Rightarrow> Server \<Rightarrow> Server" where
  "reserved_server jid p v = v\<lparr>srv_GPUs := map (reserve_gpu jid (plc_GPUUUIDs p)) (srv_GPUs v)\<rparr>"

lemma commit_checks_iff:
  assumes "map_of (st_jobs s) jid = Some job" and "map_of (st_servers s) (plc_ServerID p) = Some server"
  shows "CommitAssignment jid p c now s =
    (if commit_checks job server p c now s
     then (Inr (committed_job job p c now),
           put_command c (put_job (committed_job job p c now)
             (put_server (srv_ID server) (reserved_server jid p server) s)))
     else (Inl ErrConflict, s))"
proof -
  note unf = CommitAssignment_def assms commit_checks_def reserved_server_def
  show ?thesis
  proof (cases "commit_checks job server p c now s")
    case True
    then show ?thesis by (simp add: unf Let_def)
  next
    case False
    then show ?thesis unfolding commit_checks_def CommitAssignment_def by (auto simp: assms)
  qed
qed

lemma CommitAssignment_cases:
  obtains (refused) e where "CommitAssignment jid p c now s = (Inl e, s)"
  | (committed) job server where "map_of (st_jobs s) jid = Some job"
      "map_of (st_servers s) (plc_ServerID p) = Some server" "commit_checks job server p c now s"
      "CommitAssignment jid p c now s = (Inr (committed_job job p c now),
         put_command c (put_job (committed_job job p c now)
           (put_server (srv_ID server) (reserved_server jid p server) s)))"
proof (cases "map_of (st_jobs s) jid")
  case None
  with refused show ?thesis by (simp add: CommitAssignment_def)
next
  case job: (Some job)
  show ?thesis
  proof (cases "map_of (st_servers s) (plc_ServerID p)")
    case None
    have "\<exists>e. CommitAssignment jid p c now s = (Inl e, s)"
      by (cases "commit_guard job p c now") (simp_all add: CommitAssignment_def job None)
    with refused show ?thesis by blast
  next
    case (Some server)
    from commit_checks_iff [OF job this, of c now] refused committed [OF job this] show ?thesis
      by (cases "commit_checks job server p c now s") simp_all
  qed
qed

lemma reserve_gpu_simps [simp]:
  "gpu_UUID (reserve_gpu jid us g) = gpu_UUID g" "wf_gpu (reserve_gpu jid us g) = wf_gpu g"
  "gpu_Schedulable (reserve_gpu jid us g) \<longleftrightarrow> gpu_UUID g \<notin> set us \<and> gpu_Schedulable g"
  by (auto simp: reserve_gpu_def wf_gpu_def gpu_Schedulable_def)

lemma reserved_server_simps [simp]:
  "srv_ID (reserved_server jid p v) = srv_ID v"
  "map gpu_UUID (srv_GPUs (reserved_server jid p v)) = map gpu_UUID (srv_GPUs v)"
  by (simp_all add: reserved_server_def)

lemma guarded_reserved: "guarded k (srv_GPUs v) j \<Longrightarrow> guarded k (srv_GPUs (reserved_server jid p v)) j"
  by (auto simp: guarded_def list_all_iff reserved_server_def)

lemma inv_reserved_server:
  assumes s: "inv s" and v: "map_of (st_servers s) k = Some v"
  shows "inv (put_server k (reserved_server jid p v) s)"
proof (rule inv_put_server [OF s])
  have w: "wf_server k v" by (rule inv_lookup(1) [OF s v])
  then show "wf_server k (reserved_server jid p v)"
    unfolding wf_server_def reserved_server_simps by (simp add: reserved_server_def list_all_iff)
  show "uuids_of (reserved_server jid p v) \<inter> uuids_of v' = {}"
    if "map_of (st_servers s) k' = Some v'" "k' \<noteq> k" for k' v'
    unfolding uuids_of_def reserved_server_simps
    using s map_of_SomeD [OF v] map_of_SomeD [OF that(1)] that(2)
    by (fastforce simp: inv_def uuids_unique_def uuids_of_def)
  show "guarded k (srv_GPUs (reserved_server jid p v)) j" if "map_of (st_jobs s) k' = Some j" for k' j
    using s map_of_SomeD [OF v] map_of_SomeD [OF that]
    by (intro guarded_reserved) (auto simp: inv_def all_guarded_def)
qed

text \<open>The committed job: it holds exactly the placed GPUs, for the window it had booked.\<close>

lemma commit_guard_live: "commit_guard job p c now \<Longrightarrow> \<not> Terminal (job_Status job)"
  by (auto simp: commit_guard_def split: option.splits if_splits)

lemma committed_job_facts:
  assumes "commit_guard job p c now"
  shows "job_ID (committed_job job p c now) = job_ID job"
    "job_server (committed_job job p c now) = plc_ServerID p"
    "held_uuids (committed_job job p c now) = plc_GPUUUIDs p"
    "wf_asg (committed_job job p c now)"
    "booking (committed_job job p c now) \<Longrightarrow> booking job \<and> job_server job = plc_ServerID p \<and>
       held_uuids job = plc_GPUUUIDs p \<and> booked_window (committed_job job p c now) = booked_window job"
    "\<not> Terminal (job_Status (committed_job job p c now))"
  using assms
  by (auto simp: commit_guard_def committed_job_def Let_def job_server_def held_uuids_def wf_asg_def
      booking_def booked_window_def asg_Window_def win_Valid_def IsZero_def split: option.splits if_splits)

lemma committed_evolves:
  assumes "commit_guard job p c now"
  shows "evolves job (committed_job job p c now)"
proof -
  have live: "\<not> Terminal (job_Status job)" by (rule commit_guard_live [OF assms])
  note up = evolves_update [OF _ live]
  show ?thesis
    unfolding committed_job_def Let_def
    by (auto intro!: up(3,4) up(1) transition_evolves evolves_refl split: option.split)
qed

lemma commit_compatible:
  assumes s: "inv s" and job: "map_of (st_jobs s) jid = Some job"
    and v: "map_of (st_servers s) (plc_ServerID p) = Some server"
    and ok: "commit_checks job server p c now s"
    and other: "map_of (st_jobs s) k = Some j" "k \<noteq> jid"
  shows "compatible (committed_job job p c now) j"
proof -
  have g: "commit_guard job p c now" using ok by (simp add: commit_checks_def)
  note facts = committed_job_facts [OF g]
  have "\<not> holding j" if sh: "shares (committed_job job p c now) j"
  proof
    assume h: "holding j"
    from sh obtain u where u: "job_server j = plc_ServerID p" "u \<in> set (plc_GPUUUIDs p)" "u \<in> set (held_uuids j)"
      by (auto simp: shares_iff facts)
    have w: "wf_server (plc_ServerID p) server" by (rule inv_lookup(1) [OF s v])
    obtain gp where gp: "gp \<in> set (srv_GPUs server)" "gpu_UUID gp = u" "Matches (job_Resources job) gp"
      using ok w u(2) by (auto simp: commit_checks_def wf_server_def elim: wanted_match)
    have "guarded (plc_ServerID p) (srv_GPUs server) j"
      using s map_of_SomeD [OF v] map_of_SomeD [OF other(1)] by (auto simp: inv_def all_guarded_def)
    with h u gp show False by (auto simp: guarded_def holds_on_iff list_all_iff Matches_def)
  qed
  moreover have "compatible job j"
    using s map_of_SomeD [OF job] map_of_SomeD [OF other(1)] other(2)
    by (fastforce simp: inv_def jobs_compatible_def)
  ultimately show ?thesis
    using facts(5) by (auto simp: compatible_def shares_iff facts(2,3))
qed

lemma commit_inv:
  assumes s: "inv s" and job: "map_of (st_jobs s) jid = Some job"
    and v: "map_of (st_servers s) (plc_ServerID p) = Some server"
    and ok: "commit_checks job server p c now s"
  shows "inv (put_job (committed_job job p c now)
    (put_server (srv_ID server) (reserved_server jid p server) s))"
proof -
  let ?j = "committed_job job p c now"
  let ?s1 = "put_server (plc_ServerID p) (reserved_server jid p server) s"
  have g: "commit_guard job p c now" using ok by (simp add: commit_checks_def)
  note facts = committed_job_facts [OF g]
  have id: "job_ID ?j = jid" using inv_job_ID [OF s job] facts(1) by simp
  have sid: "srv_ID server = plc_ServerID p" using inv_lookup(1) [OF s v] by (simp add: wf_server_def)
  have s1: "inv ?s1" by (rule inv_reserved_server [OF s v])
  have wf: "wf_map (st_jobs s)" using s by (simp add: inv_def wf_store_def)
  have "jobs_compatible (put jid ?j (st_jobs s))"
    using s commit_compatible [OF s job v ok] by (intro jobs_compatible_put [OF _ wf]) (simp_all add: inv_def)
  moreover have "all_guarded (st_servers ?s1) (put jid ?j (st_jobs s))"
  proof (rule all_guarded_put_job)
    show "all_guarded (st_servers ?s1) (st_jobs s)" using s1 by (simp add: inv_def)
    fix sid' v' assume "(sid', v') \<in> set (st_servers ?s1)"
    moreover have "wf_map (st_servers ?s1)" using s1 by (simp only: inv_def wf_store_def)
    ultimately have "map_of (st_servers ?s1) sid' = Some v'" by (simp only: wf_mem_iff)
    then show "guarded sid' (srv_GPUs v') ?j"
      by (auto simp: guarded_def holds_on_iff facts reserved_server_def list_all_iff split: if_splits)
  qed
  moreover have "wf_job jid ?j"
    using inv_lookup(2) [OF s job] facts(4) id by (simp add: wf_job_def)
  ultimately show ?thesis
    using s1 unfolding inv_def wf_store_def id sid by (auto intro!: list_all_put)
qed

interpretation commit: repository_operation "CommitAssignment jid p c now" "\<lambda>_. True" for jid p c now
proof unfold_locales
  fix s :: Store
  assume s: "inv s"
  have "inv (snd (CommitAssignment jid p c now s)) \<and>
    history (st_jobs s) (st_jobs (snd (CommitAssignment jid p c now s))) \<and>
    st_offlineAfter (snd (CommitAssignment jid p c now s)) = st_offlineAfter s"
  proof (cases rule: CommitAssignment_cases [of jid p c now s])
    case (refused e)
    with s show ?thesis by simp
  next
    case (committed job server)
    then have g: "commit_guard job p c now" by (simp add: commit_checks_def)
    have "history (st_jobs s) (put (job_ID (committed_job job p c now)) (committed_job job p c now) (st_jobs s))"
      using committed_evolves [OF g] committed_job_facts(1) [OF g] inv_job_ID [OF s committed(1)] committed(1)
      by (intro history_put) simp
    with committed(4) inv_put_command [OF commit_inv [OF s committed(1-3)], of c] show ?thesis by simp
  qed
  then show "inv (snd (CommitAssignment jid p c now s))"
    "history (st_jobs s) (st_jobs (snd (CommitAssignment jid p c now s)))"
    "st_offlineAfter (snd (CommitAssignment jid p c now s)) = st_offlineAfter s" by simp_all
next
  show "s' = s" if "CommitAssignment jid p c now s = (Inl e, s')" for s s' e
    using that by (cases rule: CommitAssignment_cases [of jid p c now s]) auto
qed

section \<open>ReplanReservations\<close>

text \<open>A placement that the calendar accepts is free of every booking it was checked against.\<close>

lemma placement_unblocked:
  assumes ok: "placement_valid job servers bs now off p"
    and wf: "\<forall>v \<in> set servers. wf_server (srv_ID v) v" and b: "b \<in> set bs" and u: "u \<in> set (plc_GPUUUIDs p)"
  shows "\<not> blocks (job_ID job) (RequestedWindow job) (plc_ServerID p) u b"
proof -
  obtain v' where v': "v' \<in> set (CalendarServers job servers bs now off)" "srv_ID v' = plc_ServerID p"
    "placementMatches job v' p"
    using ok by (auto simp: placement_valid_def list_ex_iff)
  from v'(1) obtain v where v: "v \<in> set servers" "v' = calendar_server job now bs v"
    by (rule calendar_serversE)
  with wf have w: "wf_server (srv_ID v) v" by blast
  then have "distinct (map gpu_UUID (srv_GPUs v'))" by (simp add: v(2) wf_server_def)
  then obtain g' where g': "g' \<in> set (srv_GPUs v')" "gpu_UUID g' = u" "Matches (job_Resources job) g'"
    using v'(3) u by (auto simp: placementMatches_def elim: wanted_match split: if_splits)
  then obtain g where g: "g \<in> set (srv_GPUs v)" "g' = calendar_gpu job now (srv_ID v) bs g"
    by (auto simp: v(2) calendar_server_def)
  have "wf_gpu g" using w g(1) by (auto simp: wf_server_def list_all_iff)
  from calendar_gpu_blocked [OF this b, of job "srv_ID v" now] g' g v'(2) v(2) show ?thesis by auto
qed

lemma booking_blocks:
  assumes "booking b" and "job_server b = sid" and "u \<in> set (held_uuids b)" and "job_ID b \<noteq> jid"
    and "win_Overlaps w (booked_window b)"
  shows "blocks jid w sid u b"
  using assms by (auto simp: booking_def blocks_def job_server_def held_uuids_def booked_window_def split: option.splits)

text \<open>A plan that was just accepted: it holds nothing yet, and books the requested window.\<close>

definition just_planned :: "Job \<Rightarrow> Placement \<Rightarrow> bool" where
  "just_planned j p \<longleftrightarrow> \<not> holding j \<and> wf_asg j \<and> job_server j = plc_ServerID p \<and>
     held_uuids j = plc_GPUUUIDs p \<and> booked_window j = RequestedWindow j"

lemma planned_compatible:
  assumes "just_planned j p" and "RequestedWindow j = RequestedWindow job" and "job_ID j = job_ID job"
    and "placement_valid job servers bs now off p" and "\<forall>v \<in> set servers. wf_server (srv_ID v) v"
    and "b \<in> set bs" and "job_ID b \<noteq> job_ID job"
  shows "compatible j b"
proof -
  have "\<not> win_Overlaps (booked_window j) (booked_window b)" if sh: "shares j b" and bk: "booking b"
  proof
    assume ov: "win_Overlaps (booked_window j) (booked_window b)"
    from sh obtain u where u: "u \<in> set (held_uuids j)" "u \<in> set (held_uuids b)" by (auto simp: shares_iff)
    have "blocks (job_ID job) (RequestedWindow job) (plc_ServerID p) u b"
      using assms(1,2) sh u ov by (intro booking_blocks bk assms(7)) (auto simp: just_planned_def shares_iff)
    with placement_unblocked [OF assms(4-6)] assms(1) u show False by (auto simp: just_planned_def)
  qed
  with assms(1) show ?thesis by (auto simp: compatible_def just_planned_def)
qed

subsection \<open>The loop invariant\<close>

definition replan_entry :: "Store \<Rightarrow> Job list \<Rightarrow> string \<Rightarrow> Job \<Rightarrow> bool" where
  "replan_entry s bookings k j \<longleftrightarrow> job_ID j = k \<and> \<not> holding j \<and> wf_asg j \<and>
     (job_Assignment j = None \<or> j \<in> set bookings) \<and>
     (case map_of (st_jobs s) k of None \<Rightarrow> False
      | Some j0 \<Rightarrow> \<not> Terminal (job_Status j0) \<and> evolves j0 j)"

definition pairwise_compatible :: "Job list \<Rightarrow> bool" where
  "pairwise_compatible bs \<longleftrightarrow> (\<forall>b \<in> set bs. \<forall>b' \<in> set bs. job_ID b \<noteq> job_ID b' \<longrightarrow> compatible b b')"

definition replan_inv :: "Store \<Rightarrow> (string, Job) gomap \<Rightarrow> Job list \<Rightarrow> bool" where
  "replan_inv s changed bookings \<longleftrightarrow> wf_map changed \<and> pairwise_compatible bookings \<and>
     list_all (\<lambda>(k, j). replan_entry s bookings k j) changed"

lemma replan_inv_entry: "replan_inv s ch bs \<Longrightarrow> map_of ch k = Some j \<Longrightarrow> replan_entry s bs k j"
  by (drule map_of_SomeD) (auto simp: replan_inv_def list_all_iff)

lemma Replannable_live: "Replannable j t \<Longrightarrow> \<not> Terminal (job_Status j)"
  by (auto simp: Replannable_def)

text \<open>Plans not yet applied are for distinct jobs without an assignment.\<close>

definition unapplied :: "ReservationPlan list \<Rightarrow> (string, Job) gomap \<Rightarrow> bool" where
  "unapplied es ch \<longleftrightarrow> distinct (map rp_JobID es) \<and>
     list_all (\<lambda>e. case map_of ch (rp_JobID e) of None \<Rightarrow> True | Some j \<Rightarrow> job_Assignment j = None) es"

lemma replan_claim_inv:
  assumes "inv s" and "replan_claim now s es ch = Inr ch'"
    and "wf_map ch" and "list_all (\<lambda>(k, j). replan_entry s [] k j \<and> job_Assignment j = None) ch"
  shows "wf_map ch' \<and> list_all (\<lambda>(k, j). replan_entry s [] k j \<and> job_Assignment j = None) ch' \<and>
    distinct (map rp_JobID es) \<and> (\<forall>e \<in> set es. rp_JobID e \<notin> set (gokeys ch)) \<and>
    set (gokeys ch') = set (gokeys ch) \<union> rp_JobID ` set es"
  using assms(2-4)
proof (induction es arbitrary: ch)
  case Nil
  then show ?case by simp
next
  case (Cons e es)
  from Cons.prems(1) obtain job where job: "map_of (st_jobs s) (rp_JobID e) = Some job" "Replannable job now"
    and new: "map_of ch (job_ID job) = None"
    and rest: "replan_claim now s es (put (job_ID job) (job\<lparr>job_Assignment := None\<rparr>) ch) = Inr ch'"
    by (auto split: option.splits if_splits)
  have id: "job_ID job = rp_JobID e" by (rule inv_job_ID [OF assms(1) job(1)])
  have "replan_entry s [] (job_ID job) (job\<lparr>job_Assignment := None\<rparr>)"
    using id job(1) Replannable_live [OF job(2)]
      evolves_update(1) [OF evolves_refl Replannable_live [OF job(2)]]
    by (simp add: replan_entry_def unassigned_claims_nothing del: Terminal.simps)
  with Cons.prems(2,3) have "list_all (\<lambda>(k, j). replan_entry s [] k j \<and> job_Assignment j = None)
      (put (job_ID job) (job\<lparr>job_Assignment := None\<rparr>) ch)" by (simp add: list_all_put)
  from Cons.IH [OF rest wf_put [OF Cons.prems(2)] this] new id show ?case
    unfolding gokeys_put by (auto simp: map_of_eq_None_iff)
qed

lemma replan_inv_put:
  assumes "replan_inv s ch bs" and "replan_entry s bs' k j" and "set bs \<subseteq> set bs'"
    and "pairwise_compatible bs'"
  shows "replan_inv s (put k j ch) bs'"
proof -
  have "list_all (\<lambda>(k, j). replan_entry s bs' k j) ch"
    using assms(1,3) by (auto simp: replan_inv_def list_all_iff replan_entry_def)
  with assms show ?thesis by (simp add: replan_inv_def list_all_put)
qed

text \<open>The job written for an accepted placement.\<close>

definition planned_job :: "Job \<Rightarrow> Assignment \<Rightarrow> string \<Rightarrow> gotime \<Rightarrow> Job" where
  "planned_job job a r now = transitionLocked (job\<lparr>job_Assignment := Some a\<rparr>) JobAssigned r now"

lemma RequestedWindow_cong: "job_Intent j = job_Intent j' \<Longrightarrow> RequestedWindow j = RequestedWindow j'"
  by (simp only: RequestedWindow_def)

lemma planned_job_facts:
  assumes "asg_ReservationState a = ''PLANNED''" "asg_CommandID a = ''''" "asg_ServerID a = plc_ServerID p"
    "asg_GPUUUIDs a = plc_GPUUUIDs p" "asg_Window a = RequestedWindow job"
  shows "just_planned (planned_job job a r now) p" "job_ID (planned_job job a r now) = job_ID job"
    "RequestedWindow (planned_job job a r now) = RequestedWindow job"
proof -
  show "RequestedWindow (planned_job job a r now) = RequestedWindow job"
    by (rule RequestedWindow_cong) (simp add: planned_job_def)
  with assms show "just_planned (planned_job job a r now) p" "job_ID (planned_job job a r now) = job_ID job"
    by (simp_all add: just_planned_def planned_job_def holding_def holds_on_def wf_asg_def job_server_def
        held_uuids_def booked_window_def)
qed

lemma unapplied_Cons:
  assumes "unapplied (e # es) ch"
  shows "map_of ch (rp_JobID e) = Some j \<Longrightarrow> job_Assignment j = None"
    "unapplied es (put (rp_JobID e) j' ch)"
  using assms by (auto simp: unapplied_def list_all_iff) (metis image_eqI)

lemma replan_step_queued:
  assumes "replan_entry s bs k job0" and "job_Assignment job0 = None"
  shows "replan_entry s bs k (transitionLocked (job0\<lparr>job_Policy := pol\<rparr>) JobQueued r now)"
proof -
  obtain j0 where j0: "map_of (st_jobs s) k = Some j0" "\<not> Terminal (job_Status j0)" "evolves j0 job0"
    using assms(1) by (auto simp: replan_entry_def simp del: Terminal.simps split: option.splits)
  let ?j = "transitionLocked (job0\<lparr>job_Policy := pol\<rparr>) JobQueued r now"
  have "job_Assignment ?j = None" using assms(2) by simp
  with assms(1) j0 transition_evolves [OF evolves_update(3) [OF j0(3,2)]] show ?thesis
    by (simp add: replan_entry_def unassigned_claims_nothing del: Terminal.simps)
qed

lemma replan_step_placed:
  assumes entry: "replan_entry s bs k job0" and pc: "pairwise_compatible bs"
    and ok: "placement_valid (job0\<lparr>job_Policy := pol\<rparr>) servers bs now off p"
    and srv: "\<forall>v \<in> set servers. wf_server (srv_ID v) v"
    and a: "asg_ReservationState a = ''PLANNED''" "asg_CommandID a = ''''" "asg_ServerID a = plc_ServerID p"
      "asg_GPUUUIDs a = plc_GPUUUIDs p" "asg_Window a = RequestedWindow (job0\<lparr>job_Policy := pol\<rparr>)"
  shows "replan_entry s (bs @ [planned_job (job0\<lparr>job_Policy := pol\<rparr>) a r now]) k
      (planned_job (job0\<lparr>job_Policy := pol\<rparr>) a r now)"
    "pairwise_compatible (bs @ [planned_job (job0\<lparr>job_Policy := pol\<rparr>) a r now])"
proof -
  let ?job = "job0\<lparr>job_Policy := pol\<rparr>" and ?j = "planned_job (job0\<lparr>job_Policy := pol\<rparr>) a r now"
  obtain j0 where j0: "map_of (st_jobs s) k = Some j0" "\<not> Terminal (job_Status j0)" "evolves j0 job0"
    using entry by (auto simp: replan_entry_def simp del: Terminal.simps split: option.splits)
  note facts = planned_job_facts [of a p ?job r now, OF a]
  have "evolves j0 ?j" unfolding planned_job_def
    by (intro transition_evolves evolves_update(1) evolves_update(3) j0)
  with entry facts j0 show "replan_entry s (bs @ [?j]) k ?j"
    by (simp add: replan_entry_def just_planned_def del: Terminal.simps)
  have "compatible ?j b" if "b \<in> set bs" "job_ID b \<noteq> job_ID ?job" for b
    by (rule planned_compatible [OF facts(1,3,2) ok srv that])
  with pc facts(2) compatible_sym show "pairwise_compatible (bs @ [?j])"
    by (auto simp: pairwise_compatible_def)
qed

lemma replan_apply_inv:
  assumes s: "inv s" and srv: "\<forall>v \<in> set servers. wf_server (srv_ID v) v"
  shows "replan_apply now s servers es ch bs n = Inr (ch', n') \<Longrightarrow> replan_inv s ch bs \<Longrightarrow> unapplied es ch \<Longrightarrow>
    \<exists>bs'. replan_inv s ch' bs' \<and> set bs \<subseteq> set bs' \<and> set (gokeys ch') = set (gokeys ch)"
proof (induction es arbitrary: ch bs n)
  case Nil
  then show ?case by auto
next
  case (Cons e es)
  let ?k = "rp_JobID e"
  from Cons.prems(1) obtain job0 where job0: "map_of ch ?k = Some job0"
    by (auto split: option.splits)
  let ?job = "job0\<lparr>job_Policy := rp_Policy e\<rparr>"
  have entry: "replan_entry s bs ?k job0" by (rule replan_inv_entry [OF Cons.prems(2) job0])
  have id: "job_ID job0 = ?k" using entry by (simp add: replan_entry_def)
  have keys: "set (gokeys (put ?k j ch)) = set (gokeys ch)" for j
    using map_of_gokeys [OF job0] by (simp add: gokeys_put insert_absorb del: set_map)
  have pc: "pairwise_compatible bs" using Cons.prems(2) by (simp add: replan_inv_def)
  show ?case
  proof (cases "rp_Placement e")
    case None
    let ?j = "transitionLocked ?job JobQueued (rp_Reason e) now"
    have rest: "replan_apply now s servers es (put ?k ?j ch) bs n = Inr (ch', n')"
      using Cons.prems(1) by (simp add: job0 None Let_def id)
    note entry' = replan_step_queued [OF entry unapplied_Cons(1) [OF Cons.prems(3) job0]]
    from Cons.IH [OF rest replan_inv_put [OF Cons.prems(2) entry' subset_refl pc] unapplied_Cons(2) [OF Cons.prems(3)]]
    show ?thesis unfolding keys .
  next
    case (Some p)
    define a where "a = (let a = planned_assignment ?job p (rp_Reason e) now;
        old = Option.bind (map_of (st_jobs s) ?k) job_Assignment
      in if same_placement old p then a\<lparr>asg_AssignedAt := asg_AssignedAt (the old)\<rparr> else a)"
    let ?j = "planned_job ?job a (rp_Reason e) now"
    have ok: "placement_valid ?job servers bs now (st_offlineAfter s) p" and
      rest: "\<exists>n. replan_apply now s servers es (put ?k ?j ch) (bs @ [?j]) n = Inr (ch', n')"
      using Cons.prems(1) by (auto simp: job0 Some Let_def id a_def planned_job_def split: if_splits)
    have a: "asg_ReservationState a = ''PLANNED''" "asg_CommandID a = ''''" "asg_ServerID a = plc_ServerID p"
      "asg_GPUUUIDs a = plc_GPUUUIDs p" "asg_Window a = RequestedWindow ?job"
      by (simp_all add: a_def Let_def planned_assignment_def asg_Window_def)
    note step = replan_step_placed [OF entry pc ok srv a]
    have "replan_inv s (put ?k ?j ch) (bs @ [?j])"
      by (rule replan_inv_put [OF Cons.prems(2) step(1) _ step(2)]) auto
    with rest Cons.IH [OF _ _ unapplied_Cons(2) [OF Cons.prems(3)]] obtain bs' where
      "replan_inv s ch' bs'" "set (bs @ [?j]) \<subseteq> set bs'" "set (gokeys ch') = set (gokeys (put ?k ?j ch))"
      by blast
    then show ?thesis unfolding keys by auto
  qed
qed

subsection \<open>Writing the plan back\<close>

lemma map_of_put_all:
  "wf_map ch \<Longrightarrow> map_of (put_all ch jobs) k = (case map_of ch k of None \<Rightarrow> map_of jobs k | Some j \<Rightarrow> Some j)"
proof (induction ch arbitrary: jobs)
  case Nil
  then show ?case by (simp add: put_all_def)
next
  case (Cons e ch)
  obtain k' j' where e: "e = (k', j')" by (cases e)
  have "map_of ch k' = None" using Cons.prems by (simp add: e map_of_eq_None_iff)
  moreover have "put_all (e # ch) jobs = put_all ch (put k' j' jobs)" by (simp add: put_all_def e)
  ultimately show ?case using Cons by (simp add: e split: option.split)
qed

lemma wf_put_all: "wf_map jobs \<Longrightarrow> wf_map (put_all ch jobs)"
  by (induction ch arbitrary: jobs) (auto simp: put_all_def)

lemma initial_bookings:
  assumes s: "inv s" and ch: "wf_map ch" "list_all (\<lambda>(k, j). replan_entry s [] k j \<and> job_Assignment j = None) ch"
  shows "replan_inv s ch (filter P (jobs_by_id s))"
proof -
  have "list_all (\<lambda>(k, j). replan_entry s (filter P (jobs_by_id s)) k j) ch"
    using ch(2) by (auto simp: list_all_iff replan_entry_def)
  moreover have "pairwise_compatible (filter P (jobs_by_id s))"
    unfolding pairwise_compatible_def
  proof (intro ballI impI)
    fix b b' assume "b \<in> set (filter P (jobs_by_id s))" "b' \<in> set (filter P (jobs_by_id s))"
      and ne: "job_ID b \<noteq> job_ID b'"
    then obtain k k' where kk: "(k, b) \<in> set (st_jobs s)" "(k', b') \<in> set (st_jobs s)"
      by (auto simp: jobs_by_id_def)
    with s have "job_ID b = k" "job_ID b' = k'"
      by (auto simp: inv_def wf_store_def list_all_iff wf_job_def)
    with kk ne s show "compatible b b'" by (fastforce simp: inv_def jobs_compatible_def)
  qed
  ultimately show ?thesis using ch(1) by (simp add: replan_inv_def)
qed

text \<open>A plan whose entries satisfy the loop invariant may be written back.\<close>

lemma replan_writeback:
  assumes s: "inv s" and ch: "replan_inv s ch bs"
    and rest: "\<And>k j. map_of (st_jobs s) k = Some j \<Longrightarrow> map_of ch k = None \<Longrightarrow> j \<in> set bs"
  shows "inv (s\<lparr>st_jobs := put_all ch (st_jobs s)\<rparr>)" "history (st_jobs s) (put_all ch (st_jobs s))"
proof -
  let ?jobs = "put_all ch (st_jobs s)"
  have wf: "wf_map ch" "wf_map ?jobs" "wf_map (st_jobs s)"
    using ch s by (auto simp: replan_inv_def inv_def wf_store_def wf_put_all)
  note look = map_of_put_all [OF wf(1)]
  have entry: "replan_entry s bs k j" if "map_of ch k = Some j" for k j
    by (rule replan_inv_entry [OF ch that])
  have cases: "map_of (st_jobs s) k = Some j \<and> j \<in> set bs \<or> replan_entry s bs k j" if "(k, j) \<in> set ?jobs" for k j
    using that entry rest wf_mem_iff [OF wf(2)] by (auto simp: look split: option.splits)
  then have id: "job_ID j = k" and wfj: "wf_job k j" and claim: "job_Assignment j = None \<or> j \<in> set bs"
    if "(k, j) \<in> set ?jobs" for k j
    using that inv_lookup(2) [OF s]
    by (fastforce simp: replan_entry_def wf_job_def split: option.splits)+
  have "jobs_compatible ?jobs"
    unfolding jobs_compatible_def
  proof (clarify)
    fix k j k' j' assume kj: "(k, j) \<in> set ?jobs" "(k', j') \<in> set ?jobs" "k \<noteq> k'"
    with id have "job_ID j \<noteq> job_ID j'" by simp
    with claim [OF kj(1)] claim [OF kj(2)] ch unassigned_claims_nothing(4,5) show "compatible j j'"
      by (auto simp: replan_inv_def pairwise_compatible_def)
  qed
  moreover have "all_guarded (st_servers s) ?jobs"
    unfolding all_guarded_def
  proof (clarify)
    fix sid v k j assume in1: "(sid, v) \<in> set (st_servers s)" and in2: "(k, j) \<in> set ?jobs"
    from cases [OF in2] show "guarded sid (srv_GPUs v) j"
    proof
      assume "map_of (st_jobs s) k = Some j \<and> j \<in> set bs"
      with s in1 show ?thesis by (auto simp: inv_def all_guarded_def dest!: map_of_SomeD)
    next
      assume "replan_entry s bs k j"
      then show ?thesis by (simp add: replan_entry_def guarded_def holds_on_iff)
    qed
  qed
  ultimately show "inv (s\<lparr>st_jobs := put_all ch (st_jobs s)\<rparr>)"
    using s wf wfj by (auto simp: inv_def wf_store_def list_all_iff)
  show "history (st_jobs s) ?jobs"
    unfolding history_iff look using entry
    by (fastforce simp: replan_entry_def simp del: Terminal.simps split: option.splits)
qed

lemma ReplanReservations_accepted:
  assumes "ReplanReservations now plan s = (Inr n, s')"
  obtains plans ch ch' where "plan (jobs_by_id s) (servers_by_id s) = Inr plans"
    "replan_claim now s plans [] = Inr ch"
    "replan_apply now s (servers_by_id s) plans ch
       (filter (\<lambda>j. map_of ch (job_ID j) = None) (jobs_by_id s)) 0 = Inr (ch', n)"
    "s' = s\<lparr>st_jobs := put_all ch' (st_jobs s)\<rparr>"
  using assms by (auto simp: ReplanReservations_def Let_def split: sum.splits prod.splits)

text \<open>The facts of an accepted plan the properties rest on.\<close>

lemma replan_accepted:
  assumes s: "inv s" and run: "ReplanReservations now plan s = (Inr n, s')"
  obtains plans ch ch' bs where "plan (jobs_by_id s) (servers_by_id s) = Inr plans"
    "replan_claim now s plans [] = Inr ch"
    "replan_apply now s (servers_by_id s) plans ch
       (filter (\<lambda>j. map_of ch (job_ID j) = None) (jobs_by_id s)) 0 = Inr (ch', n)"
    "s' = s\<lparr>st_jobs := put_all ch' (st_jobs s)\<rparr>" "replan_inv s ch' bs" "unapplied plans ch"
    "set (gokeys ch') = set (gokeys ch)" "set (gokeys ch) = rp_JobID ` set plans"
    "\<forall>k j. map_of (st_jobs s) k = Some j \<longrightarrow> map_of ch' k = None \<longrightarrow> j \<in> set bs"
proof -
  from run obtain plans ch ch' where pl: "plan (jobs_by_id s) (servers_by_id s) = Inr plans"
    and cl: "replan_claim now s plans [] = Inr ch"
    and ap: "replan_apply now s (servers_by_id s) plans ch
       (filter (\<lambda>j. map_of ch (job_ID j) = None) (jobs_by_id s)) 0 = Inr (ch', n)"
    and s': "s' = s\<lparr>st_jobs := put_all ch' (st_jobs s)\<rparr>"
    by (rule ReplanReservations_accepted)
  let ?bs = "filter (\<lambda>j. map_of ch (job_ID j) = None) (jobs_by_id s)"
  from replan_claim_inv [OF s cl] have c: "wf_map ch"
    "list_all (\<lambda>(k, j). replan_entry s [] k j \<and> job_Assignment j = None) ch" "distinct (map rp_JobID plans)"
    and claimed: "set (gokeys ch) = rp_JobID ` set plans"
    by simp_all
  have un: "unapplied plans ch"
    using c by (auto simp: unapplied_def list_all_iff split: option.split dest!: map_of_SomeD)
  have "\<forall>v \<in> set (servers_by_id s). wf_server (srv_ID v) v"
    using s by (auto simp: servers_by_id_def inv_def wf_store_def list_all_iff wf_server_def)
  then obtain bs' where bs': "replan_inv s ch' bs'" "set ?bs \<subseteq> set bs'"
    "set (gokeys ch') = set (gokeys ch)"
    using replan_apply_inv [OF s _ ap initial_bookings [OF s c(1,2)] un] by blast
  have rest: "j \<in> set bs'" if kj: "map_of (st_jobs s) k = Some j" "map_of ch' k = None" for k j
  proof -
    have "map_of ch k = None" using kj(2) bs'(3) by (simp add: map_of_eq_None_iff)
    moreover have "j \<in> set (jobs_by_id s)"
      using map_of_SomeD [OF kj(1)] by (force simp: jobs_by_id_def)
    ultimately show ?thesis using bs'(2) inv_job_ID [OF s kj(1)] by auto
  qed
  show ?thesis by (rule that [OF pl cl ap s' bs'(1) un bs'(3) claimed]) (use rest in blast)
qed

lemma replan_contract:
  assumes s: "inv s" and run: "ReplanReservations now plan s = (Inr n, s')"
  shows "inv s'" "history (st_jobs s) (st_jobs s')" "st_offlineAfter s' = st_offlineAfter s"
proof -
  obtain ch' bs where s': "s' = s\<lparr>st_jobs := put_all ch' (st_jobs s)\<rparr>" and ri: "replan_inv s ch' bs"
    and rest: "\<forall>k j. map_of (st_jobs s) k = Some j \<longrightarrow> map_of ch' k = None \<longrightarrow> j \<in> set bs"
    using replan_accepted [OF s run] by metis
  from replan_writeback [OF s ri] rest
  show "inv s'" "history (st_jobs s) (st_jobs s')" "st_offlineAfter s' = st_offlineAfter s"
    by (simp_all add: s')
qed

interpretation replan: repository_operation "ReplanReservations now plan" "\<lambda>_. True" for now plan
proof unfold_locales
  fix s :: Store
  assume s: "inv s"
  have "inv (snd (ReplanReservations now plan s)) \<and>
    history (st_jobs s) (st_jobs (snd (ReplanReservations now plan s))) \<and>
    st_offlineAfter (snd (ReplanReservations now plan s)) = st_offlineAfter s"
  proof (cases "ReplanReservations now plan s")
    case (Pair r s')
    show ?thesis
    proof (cases r)
      case (Inl e)
      with Pair have "s' = s" by (auto simp: ReplanReservations_def Let_def split: sum.splits prod.splits)
      with Pair s show ?thesis by simp
    next
      case (Inr n)
      with replan_contract [OF s] Pair show ?thesis by simp
    qed
  qed
  then show "inv (snd (ReplanReservations now plan s))"
    "history (st_jobs s) (st_jobs (snd (ReplanReservations now plan s)))"
    "st_offlineAfter (snd (ReplanReservations now plan s)) = st_offlineAfter s" by simp_all
qed (auto simp: ReplanReservations_def Let_def split: sum.splits prod.splits)

end
