(* ===== verification/Durable_Store.thy ===== *)
theory Durable_Store
  imports Assignment_Contract
begin

text \<open>
  \<open>internal/store/durable\<close>: every mutation of the memory store runs inside \<open>transact\<close>, which saves a
  snapshot and rolls the core back when the operation or the save fails; \<open>Open\<close> rebuilds the core
  from the saved snapshot after a restart. The calls of \<open>ports.Repository\<close> are a datatype, so that a
  run of the control plane is a sequence of steps, crashes included.

  Writing the snapshot file is I/O: whether it succeeds is the parameter \<open>save\<close> (the error, if any).
  The code writes a temporary file and renames it, so a failed save leaves the old file in place.
\<close>

section \<open>Repository calls\<close>

datatype repo_call =
    CallUpsertServer Server
  | CallHeartbeat string gotime
  | CallReplaceInventory string InventoryReport
  | CallSetServerDrained string bool
  | CallMarkStaleServers gotime
  | CallCreateJob Job
  | CallSetJobStatus string JobStatus string gotime
  | CallCommitAssignment string Placement Command gotime
  | CallReplanReservations gotime ReservationPlanner
  | CallEnqueueCommand Command
  | CallRequestStop string Command gotime
  | CallLeaseCommands string gotime duration int
  | CallAckCommand string string CommandAckRequest gotime
  | CallUpdateTraining string "64 word" TrainingState gotime

definition discard :: "'a outcome \<Rightarrow> unit outcome" where
  "discard r = (case fst r of Inl e \<Rightarrow> Inl e | Inr _ \<Rightarrow> Inr (), snd r)"

fun exec :: "repo_call \<Rightarrow> Store \<Rightarrow> unit outcome" where
  "exec (CallUpsertServer v) s = discard (UpsertServer v s)"
| "exec (CallHeartbeat a t) s = discard (Heartbeat a t s)"
| "exec (CallReplaceInventory a r) s = discard (ReplaceInventory a r s)"
| "exec (CallSetServerDrained a b) s = discard (SetServerDrained a b s)"
| "exec (CallMarkStaleServers t) s = discard (MarkStaleServers t s)"
| "exec (CallCreateJob j) s = CreateJob j s"
| "exec (CallSetJobStatus j st r t) s = discard (SetJobStatus j st r t s)"
| "exec (CallCommitAssignment j p c t) s = discard (CommitAssignment j p c t s)"
| "exec (CallReplanReservations t plan) s = discard (ReplanReservations t plan s)"
| "exec (CallEnqueueCommand c) s = EnqueueCommand c s"
| "exec (CallRequestStop j c t) s = discard (RequestStop j c t s)"
| "exec (CallLeaseCommands a t d n) s = discard (LeaseCommands a t d n s)"
| "exec (CallAckCommand a c r t) s = discard (AckCommand a c r t s)"
| "exec (CallUpdateTraining j n st t) s = discard (UpdateTraining j n st t s)"

text \<open>The read-only methods, which the durable store runs without saving.\<close>

datatype repo_query =
    QueryAuthenticateAgent "string \<Rightarrow> string" string string
  | QueryGetServer string
  | QueryListServers
  | QueryGetJob string
  | QueryListJobs
  | QueryListQueuedJobs

datatype query_result = NoResult | OneServer Server | Servers "Server list" | OneJob Job | Jobs "Job list"

definition answer :: "('a \<Rightarrow> query_result) \<Rightarrow> 'a outcome \<Rightarrow> query_result outcome" where
  "answer f r = (case fst r of Inl e \<Rightarrow> Inl e | Inr v \<Rightarrow> Inr (f v), snd r)"

fun query :: "repo_query \<Rightarrow> Store \<Rightarrow> query_result outcome" where
  "query (QueryAuthenticateAgent sha256 a t) s = answer (\<lambda>_. NoResult) (AuthenticateAgent sha256 a t s)"
| "query (QueryGetServer i) s = answer OneServer (GetServer i s)"
| "query QueryListServers s = answer Servers (ListServers s)"
| "query (QueryGetJob i) s = answer OneJob (GetJob i s)"
| "query QueryListJobs s = answer Jobs (ListJobs s)"
| "query QueryListQueuedJobs s = answer Jobs (ListQueuedJobs s)"

lemma query_pure: "snd (query q s) = s"
  by (cases q) (simp_all add: answer_def AuthenticateAgent_def GetServer_def ListServers_def GetJob_def
      ListJobs_def ListQueuedJobs_def split: option.split)

text \<open>What the application layer guarantees of the values it passes.\<close>

fun call_ok :: "repo_call \<Rightarrow> Store \<Rightarrow> bool" where
  "call_ok (CallUpsertServer v) s = fresh_server v s"
| "call_ok (CallReplaceInventory a r) s = report_ok r s"
| "call_ok (CallCreateJob j) s = submitted j s"
| "call_ok _ s = True"

lemma discard_simps [simp]: "snd (discard r) = snd r" "discard r = (Inl e, s') \<longleftrightarrow> r = (Inl e, s')"
  by (cases r; auto simp: discard_def split: sum.splits)+

interpretation repository: repository_operation "exec c" "call_ok c" for c
proof unfold_locales
  fix s s' :: Store and e
  assume "exec c s = (Inl e, s')"
  then show "s' = s"
    by (cases c)
      (auto dest: upsert.atomic heartbeat.atomic inventory.atomic drain.atomic stale.atomic create.atomic
        set_status.atomic commit.atomic replan.atomic enqueue.atomic request_stop.atomic lease.atomic
        ack.atomic training.atomic)
next
  fix s :: Store
  assume s: "inv s" and ok: "call_ok c s"
  then show "inv (snd (exec c s))"
    by (cases c)
      (auto intro: upsert.keeps heartbeat.keeps inventory.keeps drain.keeps stale.keeps create.keeps
        set_status.keeps commit.keeps replan.keeps enqueue.keeps request_stop.keeps lease.keeps
        ack.keeps training.keeps)
  from s ok show "history (st_jobs s) (st_jobs (snd (exec c s)))"
    by (cases c)
      (auto simp: upsert.jobs_kept heartbeat.jobs_kept drain.jobs_kept stale.jobs_kept enqueue.jobs_kept
        lease.jobs_kept intro: inventory.grows create.grows set_status.grows commit.grows replan.grows
        request_stop.grows ack.grows training.grows)
  from s ok show "st_offlineAfter (snd (exec c s)) = st_offlineAfter s"
    by (cases c)
      (auto simp: upsert.timeout_kept heartbeat.timeout_kept drain.timeout_kept stale.timeout_kept
        enqueue.timeout_kept lease.timeout_kept intro: inventory.timeout_kept create.timeout_kept
        set_status.timeout_kept commit.timeout_kept replan.timeout_kept request_stop.timeout_kept
        ack.timeout_kept training.timeout_kept)
qed

section \<open>Transactions\<close>

text \<open>The state file: absent, empty, not decodable, or a snapshot.\<close>

datatype StateFile = NoFile | EmptyFile | CorruptFile | SavedFile Snapshot

record Durable =
  dur_core :: Store
  dur_file :: StateFile

text \<open>
  The file holds the gob encoding of the snapshot. Gob flattens pointers and omits zero values, so a
  pointer to a zero value is decoded as nil. In a container this is an exit code of 0 (and a zero
  time); the other pointers of the snapshot are clock readings of the control plane, never zero.
\<close>

definition gob_ptr :: "'a \<Rightarrow> 'a option \<Rightarrow> 'a option" where
  "gob_ptr zero p = (if p = Some zero then None else p)"

definition gob_container :: "Container \<Rightarrow> Container" where
  "gob_container c = c\<lparr>ctr_StartedAt := gob_ptr 0 (ctr_StartedAt c),
     ctr_FinishedAt := gob_ptr 0 (ctr_FinishedAt c), ctr_ExitCode := gob_ptr 0 (ctr_ExitCode c)\<rparr>"

definition gob_server :: "Server \<Rightarrow> Server" where
  "gob_server v = v\<lparr>srv_Containers := map gob_container (srv_Containers v)\<rparr>"

definition saved :: "Snapshot \<Rightarrow> Snapshot" where
  "saved snapshot = snapshot\<lparr>snap_Servers := map_vals (\<lambda>k. gob_server) (snap_Servers snapshot)\<rparr>"

definition transact ::
  "(Snapshot \<Rightarrow> go_error option) \<Rightarrow> (Store \<Rightarrow> 'a outcome) \<Rightarrow> Durable \<Rightarrow> (go_error + 'a) \<times> Durable" where
  "transact save fn d =
     (let before = Export (dur_core d); (r, core) = fn (dur_core d) in
      case r of
        Inl e \<Rightarrow> (Inl e, d\<lparr>dur_core := Restore before core\<rparr>)
      | Inr v \<Rightarrow>
          (case save (Export core) of
             Some e \<Rightarrow> (Inl (ErrOther ''commit control-plane snapshot''), d\<lparr>dur_core := Restore before core\<rparr>)
           | None \<Rightarrow> (Inr v, d\<lparr>dur_core := core, dur_file := SavedFile (saved (Export core))\<rparr>)))"

definition read_core :: "(Store \<Rightarrow> 'a outcome) \<Rightarrow> Durable \<Rightarrow> go_error + 'a" where
  "read_core fn d = fst (fn (dur_core d))"

text \<open>After a restart every server needs a new inventory before it gets a placement.\<close>

definition forget_liveness :: "Server \<Rightarrow> Server" where
  "forget_liveness v = v\<lparr>srv_Status := ServerOffline, srv_InventoryReceivedAt := 0\<rparr>"

definition Open :: "StateFile \<Rightarrow> duration \<Rightarrow> go_error + Durable" where
  "Open file offlineAfter =
     (case file of
        NoFile \<Rightarrow> Inr \<lparr>dur_core = New_Store offlineAfter, dur_file = NoFile\<rparr>
      | EmptyFile \<Rightarrow> Inl (ErrOther ''empty state snapshot'')
      | CorruptFile \<Rightarrow> Inl (ErrOther ''invalid state snapshot'')
      | SavedFile snapshot \<Rightarrow>
          if snap_Version snapshot \<noteq> 1
          then Inl (ErrOther ''unsupported or incomplete state snapshot'')
          else Inr \<lparr>dur_core = Restore (snapshot\<lparr>snap_Servers :=
                       map_vals (\<lambda>id server. forget_liveness server) (snap_Servers snapshot)\<rparr>)
                       (New_Store offlineAfter),
                     dur_file = SavedFile snapshot\<rparr>)"

section \<open>Runs of the control plane\<close>

text \<open>One step: a repository call whose save may fail, or a crash and restart from the file.\<close>

inductive durable_step :: "duration \<Rightarrow> Durable \<Rightarrow> Durable \<Rightarrow> bool" for off :: duration where
  call: "call_ok c (dur_core d) \<Longrightarrow> durable_step off d (snd (transact save (exec c) d))"
| restart: "Open (dur_file d) off = Inr d' \<Longrightarrow> durable_step off d d'"

inductive reachable :: "duration \<Rightarrow> Durable \<Rightarrow> bool" for off :: duration where
  boot: "Open NoFile off = Inr d \<Longrightarrow> reachable off d"
| step: "reachable off d \<Longrightarrow> durable_step off d d' \<Longrightarrow> reachable off d'"

inductive_cases durable_stepE: "durable_step off d d'"

section \<open>The invariant of a run\<close>

text \<open>
  The saved snapshot has the jobs, commands and machines of the core, and restoring it gives a good
  store; the servers of the core may have lost their liveness since (after a restart).
\<close>

definition reopened :: "Server \<Rightarrow> Server" where
  "reopened v = forget_liveness (gob_server v)"

definition file_matches :: "StateFile \<Rightarrow> Store \<Rightarrow> bool" where
  "file_matches file s \<longleftrightarrow>
     (case file of
        NoFile \<Rightarrow> st_jobs s = [] \<and> st_commands s = [] \<and> st_machines s = [] \<and> st_servers s = []
      | EmptyFile \<Rightarrow> False
      | CorruptFile \<Rightarrow> False
      | SavedFile snap \<Rightarrow> snap_Version snap = 1 \<and> snap_Jobs snap = st_jobs s \<and>
          snap_Commands snap = st_commands s \<and> snap_Machines snap = st_machines s \<and>
          map_vals (\<lambda>k. forget_liveness) (snap_Servers snap) = map_vals (\<lambda>k. reopened) (st_servers s))"

definition dinv :: "duration \<Rightarrow> Durable \<Rightarrow> bool" where
  "dinv off d \<longleftrightarrow> inv (dur_core d) \<and> st_offlineAfter (dur_core d) = off \<and> file_matches (dur_file d) (dur_core d)"

text \<open>A transaction either commits the new core and its snapshot or leaves both as they were.\<close>

lemma transact_cases:
  assumes "st_offlineAfter (snd (fn (dur_core d))) = st_offlineAfter (dur_core d)"
  obtains (rolled_back) e where "transact save fn d = (Inl e, d)"
  | (committed) v core where "fn (dur_core d) = (Inr v, core)" "save (Export core) = None"
      "transact save fn d = (Inr v, d\<lparr>dur_core := core, dur_file := SavedFile (saved (Export core))\<rparr>)"
proof (cases "fn (dur_core d)")
  case (Pair r core)
  with assms have undo: "Restore (Export (dur_core d)) core = dur_core d"
    by (intro Restore_Export) simp
  have same: "d\<lparr>dur_core := dur_core d\<rparr> = d" by simp
  show ?thesis
  proof (cases r)
    case (Inl e)
    with Pair undo same rolled_back show ?thesis by (simp add: transact_def)
  next
    case (Inr v)
    show ?thesis
    proof (cases "save (Export core)")
      case None
      with Pair Inr committed show ?thesis by (simp add: transact_def)
    next
      case (Some e)
      with Pair Inr undo same rolled_back show ?thesis by (simp add: transact_def)
    qed
  qed
qed

lemma map_vals_reopened:
  "map_vals (\<lambda>k. forget_liveness) (map_vals (\<lambda>k. gob_server) m) = map_vals (\<lambda>k. reopened) m"
  by (simp add: map_vals_def comp_def case_prod_beta reopened_def)

lemma dinv_call:
  assumes d: "dinv off d" and ok: "call_ok c (dur_core d)"
  shows "dinv off (snd (transact save (exec c) d))"
proof -
  have s: "inv (dur_core d)" using d by (simp add: dinv_def)
  show ?thesis
    using repository.timeout_kept [OF s ok]
  proof (cases rule: transact_cases [where fn = "exec c" and d = d and save = save])
    case (rolled_back e)
    with d show ?thesis by simp
  next
    case (committed v core)
    with d repository.keeps [OF s ok] repository.timeout_kept [OF s ok] show ?thesis
      by (simp add: dinv_def file_matches_def Export_def saved_def map_vals_reopened)
  qed
qed

lemma gob_container_twice: "gob_container (gob_container c) = gob_container c"
  by (simp add: gob_container_def gob_ptr_def)

lemma reopened_twice: "reopened (reopened v) = reopened v"
  by (simp add: reopened_def forget_liveness_def gob_server_def comp_def gob_container_twice)

lemma map_vals_reopened_twice:
  "map_vals (\<lambda>k. reopened) (map_vals (\<lambda>k. reopened) m) = map_vals (\<lambda>k. reopened) m"
  by (simp add: map_vals_def comp_def case_prod_beta reopened_twice)

text \<open>What a restart gives back.\<close>

lemma reopen:
  assumes "dinv off d" and "Open (dur_file d) off = Inr d'"
  shows "dur_core d' = (dur_core d)\<lparr>st_servers := map_vals (\<lambda>k. reopened) (st_servers (dur_core d))\<rparr>"
    "dur_file d' = dur_file d"
  using assms
  by (auto simp: dinv_def file_matches_def Open_def Restore_def New_Store_def map_vals_def
      split: StateFile.splits if_splits)

lemma dinv_restart:
  assumes "dinv off d" and "Open (dur_file d) off = Inr d'"
  shows "dinv off d'"
proof -
  let ?s = "dur_core d"
  have "inv (?s\<lparr>st_servers := map_vals (\<lambda>k. reopened) (st_servers ?s)\<rparr>)"
    using assms(1) by (intro inv_map_servers) (simp_all add: dinv_def reopened_def forget_liveness_def gob_server_def)
  with assms(1) show ?thesis
    unfolding dinv_def reopen [OF assms]
    by (auto simp: file_matches_def map_vals_reopened_twice map_vals_def [of _ "[]"] split: StateFile.splits)
qed

lemma dinv_step: "durable_step off d d' \<Longrightarrow> dinv off d \<Longrightarrow> dinv off d'"
  by (erule durable_stepE) (auto intro: dinv_call dinv_restart)

lemma reachable_dinv: "reachable off d \<Longrightarrow> dinv off d"
proof (induction rule: reachable.induct)
  case (boot d)
  then show ?case
    using inv_New_Store by (auto simp: Open_def dinv_def file_matches_def New_Store_def)
qed (rule dinv_step)

lemma reachable_inv: "reachable off d \<Longrightarrow> inv (dur_core d)"
  by (drule reachable_dinv) (simp add: dinv_def)

text \<open>Every step evolves the jobs; so does every sequence of steps.\<close>

lemma step_history:
  assumes "durable_step off d d'" and "dinv off d"
  shows "history (st_jobs (dur_core d)) (st_jobs (dur_core d'))"
  using assms(1)
proof (cases rule: durable_step.cases)
  case (call c save)
  have s: "inv (dur_core d)" using assms(2) by (simp add: dinv_def)
  show ?thesis
    using repository.timeout_kept [OF s call(2)]
  proof (cases rule: transact_cases [where fn = "exec c" and d = d and save = save])
    case (rolled_back e)
    with call show ?thesis by simp
  next
    case (committed v core)
    with call repository.grows [OF s call(2)] show ?thesis by simp
  qed
next
  case restart
  with reopen [OF assms(2)] show ?thesis by simp
qed

lemma steps_history:
  assumes "(durable_step off)\<^sup>*\<^sup>* d d'" and "reachable off d"
  shows "reachable off d' \<and> history (st_jobs (dur_core d)) (st_jobs (dur_core d'))"
  using assms
proof (induction rule: rtranclp_induct)
  case base
  then show ?case by simp
next
  case (step y z)
  then have "reachable off y" "history (st_jobs (dur_core d)) (st_jobs (dur_core y))" by simp_all
  with step_history [OF step(2) reachable_dinv] reachable.step [OF _ step(2)] show ?case
    by (blast intro: history_trans)
qed

end
