(* ===== verification/Store_Safety.thy ===== *)
theory Store_Safety
  imports Durable_Store
begin

text \<open>
  The safety of every run of the repository, over calls in any order, failed saves and restarts:
  no GPU is given to two jobs, bookings never overlap, history is append-only, failures leave no
  trace, and a restart loses nothing and places nothing before fresh inventory.
\<close>

section \<open>Exclusive GPUs\<close>

lemma reachable_compatible:
  assumes "reachable off d" and "map_of (st_jobs (dur_core d)) k = Some j"
    and "map_of (st_jobs (dur_core d)) k' = Some j'" and "k \<noteq> k'"
  shows "compatible j j'"
  using reachable_inv [OF assms(1)] map_of_SomeD [OF assms(2)] map_of_SomeD [OF assms(3)] assms(4)
  by (fastforce simp: inv_def jobs_compatible_def)

text \<open>
  C1. No double allocation: in every reachable state, two different jobs that hold reservations on
  the same server hold disjoint sets of GPUs.
\<close>

theorem no_double_allocation:
  assumes "reachable off d" and "map_of (st_jobs (dur_core d)) k = Some j"
    and "map_of (st_jobs (dur_core d)) k' = Some j'" and "k \<noteq> k'"
    and "holds_on sid j" and "holds_on sid j'"
  shows "set (held_uuids j) \<inter> set (held_uuids j') = {}"
  using reachable_compatible [OF assms(1-4)] assms(5,6)
  by (auto simp: compatible_def shares_iff holds_on_iff)

text \<open>
  C16. Bookings never overlap: in every reachable state, if two different live jobs have unreleased
  assignments on the same server that name a common GPU, then one of them at most is dispatched, the
  other only planned; and where both are for a known time window, the windows are disjoint. A job
  without a window may hold a GPU that is planned for a later one: then it is the first part that keeps
  them apart.
\<close>

theorem bookings_never_overlap:
  assumes "reachable off d" and "map_of (st_jobs (dur_core d)) k = Some j"
    and "map_of (st_jobs (dur_core d)) k' = Some j'" and "k \<noteq> k'"
    and "job_Assignment j = Some a" and "job_Assignment j' = Some b"
    and "\<not> Terminal (job_Status j)" and "\<not> Terminal (job_Status j')"
    and "asg_ReleasedAt a = None" and "asg_ReleasedAt b = None"
    and "asg_ServerID a = asg_ServerID b" and "u \<in> set (asg_GPUUUIDs a)" and "u \<in> set (asg_GPUUUIDs b)"
  shows "(asg_ReservationState a = ''PLANNED'' \<or> asg_ReservationState b = ''PLANNED'') \<and>
    (win_Valid (asg_Window a) \<longrightarrow> win_Valid (asg_Window b) \<longrightarrow>
       win_EndAt (asg_Window a) \<le> win_StartAt (asg_Window b) \<or> win_EndAt (asg_Window b) \<le> win_StartAt (asg_Window a))"
  using reachable_compatible [OF assms(1-4)] assms(5-13)
  by (auto simp: compatible_def shares_iff win_Overlaps_def holding_def holds_on_def booking_def job_server_def
      held_uuids_def booked_window_def)

text \<open>
  C17. A GPU that a dispatched live job holds is never offered to the scheduler: in every reachable
  state it is not schedulable on its server.
\<close>

theorem held_gpu_never_schedulable:
  assumes "reachable off d" and "map_of (st_jobs (dur_core d)) k = Some j" and "holds_on sid j"
    and "map_of (st_servers (dur_core d)) sid = Some v" and "g \<in> set (srv_GPUs v)"
    and "gpu_UUID g \<in> set (held_uuids j)"
  shows "\<not> gpu_Schedulable g"
  using reachable_inv [OF assms(1)] map_of_SomeD [OF assms(2)] map_of_SomeD [OF assms(4)] assms(3,5,6)
  by (fastforce simp: inv_def all_guarded_def guarded_def list_all_iff)

text \<open>
  A physical GPU is inventoried once: in every reachable state a UUID occurs on one server
  only, and once there.
\<close>

lemma gpu_on_one_server:
  assumes "reachable off d" and "map_of (st_servers (dur_core d)) sid = Some v"
    and "map_of (st_servers (dur_core d)) sid' = Some v'"
    and "i < length (srv_GPUs v)" and "i' < length (srv_GPUs v')"
    and "gpu_UUID (srv_GPUs v ! i) = gpu_UUID (srv_GPUs v' ! i')"
  shows "sid = sid' \<and> i = i'"
proof -
  have s: "inv (dur_core d)" by (rule reachable_inv [OF assms(1)])
  have same: "sid = sid'"
  proof (rule ccontr)
    assume "sid \<noteq> sid'"
    with s map_of_SomeD [OF assms(2)] map_of_SomeD [OF assms(3)] have "uuids_of v \<inter> uuids_of v' = {}"
      by (fastforce simp: inv_def uuids_unique_def)
    moreover have "gpu_UUID (srv_GPUs v ! i) \<in> uuids_of v" "gpu_UUID (srv_GPUs v' ! i') \<in> uuids_of v'"
      using assms(4,5) by (simp_all add: uuids_of_def)
    ultimately show False using assms(6) by auto
  qed
  with assms(2,3) have "v = v'" by simp
  moreover have "distinct (map gpu_UUID (srv_GPUs v))"
    using inv_lookup(1) [OF s assms(2)] by (simp add: wf_server_def)
  ultimately show ?thesis
    using same assms(4-6) nth_eq_iff_index_eq [of "map gpu_UUID (srv_GPUs v)" i i'] by simp
qed

section \<open>Histories\<close>

text \<open>
  C23. A terminal job stays as it ended: along any run its status, termination reason, assignment and
  event log never change again, and the job is never dropped.
\<close>

theorem terminal_is_final:
  assumes "reachable off d" and "(durable_step off)\<^sup>*\<^sup>* d d'"
    and "map_of (st_jobs (dur_core d)) k = Some j" and "Terminal (job_Status j)"
  shows "\<exists>j'. map_of (st_jobs (dur_core d')) k = Some j' \<and> job_Status j' = job_Status j \<and>
    job_TerminationReason j' = job_TerminationReason j \<and> job_Assignment j' = job_Assignment j \<and>
    job_Events j' = job_Events j"
proof -
  from steps_history [OF assms(2,1)] assms(3) obtain j' where
    j': "map_of (st_jobs (dur_core d')) k = Some j'" "evolves j j'" by (auto simp: history_iff)
  then obtain es where es: "job_Events j' = job_Events j @ es" by (auto simp: evolves_def prefix_def)
  with j'(2) assms(4) have "es = []" by (simp add: evolves_def new_events_def del: Terminal.simps)
  with es j' assms(4) show ?thesis
    by (simp add: evolves_def last_status_def del: Terminal.simps)
qed

text \<open>
  C24. The audit log is append-only and accounts for the status: along any run a job keeps its
  identity and request, its log only grows, its status is the one the last new event recorded (or
  unchanged when there is none), and no event follows a terminal one.
\<close>

theorem history_append_only:
  assumes "reachable off d" and "(durable_step off)\<^sup>*\<^sup>* d d'"
    and "map_of (st_jobs (dur_core d)) k = Some j"
  shows "\<exists>j' es. map_of (st_jobs (dur_core d')) k = Some j' \<and> same_request j j' \<and>
    job_Events j' = job_Events j @ es \<and>
    job_Status j' = (if es = [] then job_Status j else ev_Status (last es)) \<and>
    list_all (\<lambda>e. \<not> Terminal (ev_Status e)) (butlast es)"
proof -
  from steps_history [OF assms(2,1)] assms(3) obtain j' where
    j': "map_of (st_jobs (dur_core d')) k = Some j'" "evolves j j'" by (auto simp: history_iff)
  then obtain es where es: "job_Events j' = job_Events j @ es" by (auto simp: evolves_def prefix_def)
  then have "new_events j j' = es" by (simp add: new_events_def)
  with es j' show ?thesis
    by (intro exI [of _ j'] exI [of _ es]) (simp add: evolves_def last_status_def del: Terminal.simps)
qed

section \<open>Failures and restarts\<close>

text \<open>
  C22. A call that fails leaves no trace: whether the repository refused it or the snapshot could not
  be saved, the core and the state file are what they were.
\<close>

theorem failed_call_leaves_no_trace:
  assumes "reachable off d" and "call_ok c (dur_core d)"
    and "fst (transact save (exec c) d) = Inl e"
  shows "snd (transact save (exec c) d) = d"
  using repository.timeout_kept [OF reachable_inv [OF assms(1)] assms(2)]
proof (cases rule: transact_cases [where fn = "exec c" and d = d and save = save])
  case (rolled_back e)
  then show ?thesis by simp
next
  case (committed v core)
  with assms(3) show ?thesis by simp
qed

text \<open>
  C21. Crash safety: from every reachable state a restart succeeds, has every job, command and
  machine of the state before the crash and every server with its GPUs, and no server is schedulable
  before the agent reported again.
\<close>

theorem restart_keeps_everything:
  assumes "reachable off d"
  shows "\<exists>d'. Open (dur_file d) off = Inr d' \<and> st_jobs (dur_core d') = st_jobs (dur_core d) \<and>
    st_commands (dur_core d') = st_commands (dur_core d) \<and>
    st_machines (dur_core d') = st_machines (dur_core d) \<and>
    map (\<lambda>(k, v). (k, srv_GPUs v)) (st_servers (dur_core d')) =
      map (\<lambda>(k, v). (k, srv_GPUs v)) (st_servers (dur_core d)) \<and>
    list_all (\<lambda>(k, v). \<not> srv_Schedulable v now off) (st_servers (dur_core d'))"
proof -
  have d: "dinv off d" by (rule reachable_dinv [OF assms])
  then obtain d' where open': "Open (dur_file d) off = Inr d'"
    by (cases "dur_file d") (auto simp: dinv_def file_matches_def Open_def)
  show ?thesis
    by (rule exI [of _ d'])
      (simp add: open' reopen [OF d open'] map_vals_def case_prod_beta comp_def reopened_def
        forget_liveness_def gob_server_def srv_Schedulable_def list_all_iff)
qed

text \<open>
  What a restart does lose: an exit code of 0 in the last inventory, which the encoding of the
  snapshot turns into an absent one until the agent reports again.
\<close>

lemma restart_loses_exit_code_zero:
  assumes "reachable off d" and "Open (dur_file d) off = Inr d'"
    and "(k, v) \<in> set (st_servers (dur_core d'))" and "c \<in> set (srv_Containers v)"
  shows "ctr_ExitCode c \<noteq> Some 0"
  using assms(3,4) unfolding reopen [OF reachable_dinv [OF assms(1)] assms(2)]
  by (auto simp: map_vals_def reopened_def forget_liveness_def gob_server_def gob_container_def gob_ptr_def
      split: if_splits)

section \<open>Reachability by calls\<close>

definition run_calls :: "repo_call list \<Rightarrow> Durable \<Rightarrow> Durable" where
  "run_calls cs d = foldl (\<lambda>d c. snd (transact (\<lambda>_. None) (exec c) d)) d cs"

fun calls_ok :: "repo_call list \<Rightarrow> Durable \<Rightarrow> bool" where
  "calls_ok [] d = True"
| "calls_ok (c # cs) d = (call_ok c (dur_core d) \<and> calls_ok cs (snd (transact (\<lambda>_. None) (exec c) d)))"

lemma run_calls_steps: "calls_ok cs d \<Longrightarrow> (durable_step off)\<^sup>*\<^sup>* d (run_calls cs d)"
proof (induction cs arbitrary: d)
  case Nil
  then show ?case by (simp add: run_calls_def)
next
  case (Cons c cs)
  then have "durable_step off d (snd (transact (\<lambda>_. None) (exec c) d))" by (intro durable_step.call) simp
  moreover have "(durable_step off)\<^sup>*\<^sup>* (snd (transact (\<lambda>_. None) (exec c) d)) (run_calls (c # cs) d)"
    using Cons.IH Cons.prems by (simp add: run_calls_def)
  ultimately show ?case by (rule converse_rtranclp_into_rtranclp)
qed

lemma run_calls_reachable:
  assumes "Open NoFile off = Inr d" and "calls_ok cs d"
  shows "reachable off (run_calls cs d)"
  using steps_history [OF run_calls_steps [OF assms(2)] reachable.boot [OF assms(1)]] by simp

end
