(* ===== verification/Repository_Laws.thy ===== *)
theory Repository_Laws
  imports Store_Safety
begin

text \<open>
  What the single operations of the repository do: the placement checks of an assignment and its
  effects, the bounds of replanning, the delivery of commands and acknowledgements, stopping before
  delivery, inventory versions, and optimistic training updates.
\<close>

section \<open>CommitAssignment\<close>

text \<open>
  C29. A committed assignment is a legal one. A job that was planned was assigned and not dispatched yet,
  it is inside its window, and the placement is the planned one: the same server and the same GPUs, by a
  start command. Any other job was queued and untimed. The server is of the job's organisation, online,
  not drained, ready for managed execution and heard of within the timeout, and its labels satisfy the
  job's selector. The placement names as many different GPUs as the job asked for, at least one, each a
  healthy free one of that server that fits the request. The command is a new one, for that server.
\<close>

theorem commit_is_legal:
  assumes "wf_store s" and "CommitAssignment jid p c now s = (Inr j', s')"
  shows "\<exists>job server. map_of (st_jobs s) jid = Some job \<and>
    map_of (st_servers s) (plc_ServerID p) = Some server \<and>
    ((\<exists>a. job_Assignment job = Some a \<and> asg_ReservationState a = ''PLANNED'' \<and> job_Status job = JobAssigned \<and>
        asg_CommandID a = '''' \<and> asg_StartAt a \<le> now \<and> now < asg_EndAt a \<and>
        asg_ServerID a = plc_ServerID p \<and> asg_GPUUUIDs a = plc_GPUUUIDs p \<and>
        cmd_Type c = CommandStartContainer) \<or>
     (\<forall>a. job_Assignment job = Some a \<longrightarrow> asg_ReservationState a \<noteq> ''PLANNED'') \<and> job_Status job = JobQueued \<and>
       in_NeededAt (job_Intent job) = '''' \<and> in_TTLSeconds (job_Intent job) = 0) \<and>
    job_OrganizationID job \<noteq> '''' \<and> job_OrganizationID job = srv_OrganizationID server \<and>
    srv_Status server = ServerOnline \<and> \<not> srv_Drained server \<and>
    (\<exists>k. srv_Capabilities server = Some k \<and> cap_ManagedExecutionReady k) \<and>
    Sub now (srv_LastHeartbeatAt server) \<le> st_offlineAfter s \<and>
    Sub now (srv_InventoryReceivedAt server) \<le> st_offlineAfter s \<and>
    (\<forall>(k, v) \<in> set (job_ServerSelector job). label_get (srv_Labels server) k = v) \<and>
    distinct (plc_GPUUUIDs p) \<and> '''' \<notin> set (plc_GPUUUIDs p) \<and> 0 < rq_GPUCount (job_Resources job) \<and>
    int (length (plc_GPUUUIDs p)) = rq_GPUCount (job_Resources job) \<and>
    (\<forall>u \<in> set (plc_GPUUUIDs p). \<exists>g \<in> set (srv_GPUs server). gpu_UUID g = u \<and> gpu_Healthy g \<and>
       gpu_State g = GPUFree \<and> gpu_AssignedJobID g = '''' \<and> CapabilityMatches (job_Resources job) g \<and>
       rq_MinVRAMMiB (job_Resources job) \<le> AvailableMemoryMiB g) \<and>
    map_of (st_commands s) (cmd_ID c) = None \<and> cmd_AgentID c = plc_ServerID p"
proof (cases rule: CommitAssignment_cases [of jid p c now s])
  case (refused e)
  with assms(2) show ?thesis by simp
next
  case (committed job server)
  have w: "distinct (map gpu_UUID (srv_GPUs server))" and id: "srv_ID server = plc_ServerID p"
    using wf_storeD(1) [OF assms(1) committed(2)] by (simp_all add: wf_server_def)
  note ok = committed(3) [unfolded commit_checks_def]
  have "\<exists>g \<in> set (srv_GPUs server). gpu_UUID g = u \<and> Matches (job_Resources job) g"
    if "u \<in> set (plc_GPUUUIDs p)" for u
    using ok w that by (auto elim: wanted_match)
  then have fits: "\<forall>u \<in> set (plc_GPUUUIDs p). \<exists>g \<in> set (srv_GPUs server). gpu_UUID g = u \<and> gpu_Healthy g \<and>
       gpu_State g = GPUFree \<and> gpu_AssignedJobID g = '''' \<and> CapabilityMatches (job_Resources job) g \<and>
       rq_MinVRAMMiB (job_Resources job) \<le> AvailableMemoryMiB g"
    by (fastforce simp: Matches_def gpu_Schedulable_def)
  have planned: "(\<exists>a. job_Assignment job = Some a \<and> asg_ReservationState a = ''PLANNED'' \<and> job_Status job = JobAssigned \<and>
        asg_CommandID a = '''' \<and> asg_StartAt a \<le> now \<and> now < asg_EndAt a \<and>
        asg_ServerID a = plc_ServerID p \<and> asg_GPUUUIDs a = plc_GPUUUIDs p \<and>
        cmd_Type c = CommandStartContainer) \<or>
     (\<forall>a. job_Assignment job = Some a \<longrightarrow> asg_ReservationState a \<noteq> ''PLANNED'') \<and> job_Status job = JobQueued \<and>
       in_NeededAt (job_Intent job) = '''' \<and> in_TTLSeconds (job_Intent job) = 0"
    using ok by (auto simp: commit_guard_def win_Contains_def asg_Window_def split: option.splits if_splits)
  have selector: "\<forall>(k, v) \<in> set (job_ServerSelector job). label_get (srv_Labels server) k = v"
    using ok by (simp add: selector_matches_def list_all_iff)
  have ready: "srv_Status server = ServerOnline \<and> \<not> srv_Drained server \<and>
    (\<exists>k. srv_Capabilities server = Some k \<and> cap_ManagedExecutionReady k) \<and>
    Sub now (srv_LastHeartbeatAt server) \<le> st_offlineAfter s \<and>
    Sub now (srv_InventoryReceivedAt server) \<le> st_offlineAfter s"
    using ok by (auto simp: srv_Schedulable_def split: option.splits)
  show ?thesis
    by (intro exI [of _ job] exI [of _ server] conjI)
      (use committed(1,2) planned selector ready fits ok id in
        \<open>auto simp: valid_uuids_def SameOrganization_def\<close>)
qed

text \<open>
  What a committed assignment writes: the job now holds exactly the placed GPUs under the new
  command, those GPUs and no others are reserved for it, the command is stored as given, and every
  other job, server and command is untouched.
\<close>

lemma commit_effect:
  assumes "wf_store s" and "CommitAssignment jid p c now s = (Inr j', s')"
  shows "st_jobs s' = put jid j' (st_jobs s) \<and> st_commands s' = put (cmd_ID c) c (st_commands s) \<and>
    st_machines s' = st_machines s \<and> holds_on (plc_ServerID p) j' \<and> held_uuids j' = plc_GPUUUIDs p \<and>
    map_option asg_CommandID (job_Assignment j') = Some (cmd_ID c) \<and>
    (\<exists>v. map_of (st_servers s) (plc_ServerID p) = Some v \<and> st_servers s' = put (plc_ServerID p)
      (v\<lparr>srv_GPUs := map (\<lambda>g. if gpu_UUID g \<in> set (plc_GPUUUIDs p)
         then g\<lparr>gpu_State := GPUReserved, gpu_AssignedJobID := jid\<rparr> else g) (srv_GPUs v)\<rparr>) (st_servers s))"
proof (cases rule: CommitAssignment_cases [of jid p c now s])
  case (refused e)
  with assms(2) show ?thesis by simp
next
  case (committed job server)
  then have g: "commit_guard job p c now" by (simp add: commit_checks_def)
  have id: "job_ID job = jid" "srv_ID server = plc_ServerID p"
    using wf_storeD(1,2) [OF assms(1)] committed(1,2) by (auto simp: wf_server_def wf_job_def)
  have j': "j' = committed_job job p c now" and
    s': "s' = put_command c (put_job j' (put_server (srv_ID server) (reserved_server jid p server) s))"
    using committed(4) assms(2) by auto
  have reserve: "reserve_gpu jid us = (\<lambda>g. if gpu_UUID g \<in> set us
     then g\<lparr>gpu_State := GPUReserved, gpu_AssignedJobID := jid\<rparr> else g)" for us
    by (simp add: fun_eq_iff reserve_gpu_def)
  have "holds_on (plc_ServerID p) j' \<and> map_option asg_CommandID (job_Assignment j') = Some (cmd_ID c)"
    using g unfolding j'
    by (auto simp: commit_guard_def committed_job_def Let_def holds_on_def split: option.splits if_splits)
  with committed(2) committed_job_facts(1,3) [OF g] id show ?thesis
    unfolding s' by (simp add: j' reserved_server_def reserve)
qed

text \<open>
  A drained server gets no work: after an operator drains a server, every attempt to assign a
  job to it is refused and changes nothing.
\<close>

lemma drained_server_refuses:
  assumes "SetServerDrained sid True s = (Inr v, s')" and "plc_ServerID p = sid"
  shows "\<exists>e. CommitAssignment jid p c now s' = (Inl e, s')"
proof (cases rule: CommitAssignment_cases [of jid p c now s'])
  case (refused e)
  then show ?thesis by blast
next
  case (committed job server)
  with assms show ?thesis
    by (auto simp: SetServerDrained_def Let_def commit_checks_def srv_Schedulable_def split: option.splits)
qed

section \<open>Liveness of servers\<close>

text \<open>
  A heartbeat alone never revives a lost server: when the server was offline, or silent for
  longer than the timeout, the heartbeat brings it back but it is not schedulable, at any time, until
  an inventory arrives.
\<close>

lemma heartbeat_needs_inventory:
  assumes "map_of (st_servers s) a = Some v0"
    and "srv_Status v0 = ServerOffline \<or> st_offlineAfter s < Sub now (srv_LastHeartbeatAt v0)"
  shows "\<exists>v. Heartbeat a now s = (Inr v, put_server a v s) \<and> srv_Status v \<noteq> ServerOffline \<and>
    srv_LastHeartbeatAt v = now \<and> srv_GPUs v = srv_GPUs v0 \<and> \<not> srv_Schedulable v t timeout"
  using assms by (auto simp: Heartbeat_def Let_def srv_Schedulable_def IsZero_def)

text \<open>
  Inventory versions only move forward: an accepted report had a sequence number above the
  server's version, which becomes the new version; a replay of it is refused as stale.
\<close>

lemma inventory_moves_forward:
  assumes "ReplaceInventory a r s = (Inr v, s')"
  shows "(\<exists>v0. map_of (st_servers s) a = Some v0 \<and> srv_InventoryVersion v0 < rep_Sequence r) \<and>
    srv_InventoryVersion v = rep_Sequence r \<and> map_of (st_servers s') a = Some v \<and>
    ReplaceInventory a r s' = (Inl ErrStaleInventory, s')"
proof -
  obtain v0 where v0: "map_of (st_servers s) a = Some v0"
    using assms by (auto simp: ReplaceInventory_def split: option.splits)
  have fresh: "srv_InventoryVersion v0 < rep_Sequence r"
  proof (rule ccontr)
    assume "\<not> srv_InventoryVersion v0 < rep_Sequence r"
    then have "rep_Sequence r \<le> srv_InventoryVersion v0" by (simp add: not_less)
    with assms v0 show False by (simp add: ReplaceInventory_def)
  qed
  have clash: "\<not> uuid_clash a r s"
  proof
    assume "uuid_clash a r s"
    moreover have "\<not> rep_Sequence r \<le> srv_InventoryVersion v0" using fresh by (simp add: not_le)
    ultimately show False using assms v0 by (simp add: ReplaceInventory_def)
  qed
  obtain v1 s1 where run: "ReplaceInventory a r s = (Inr v1, put_server a v1 s1)"
    and "srv_InventoryVersion v1 = rep_Sequence r"
    using ReplaceInventory_accepted [OF v0 fresh clash] by metis
  with assms have v: "srv_InventoryVersion v = rep_Sequence r" "map_of (st_servers s') a = Some v" by auto
  have "ReplaceInventory a r s' = (Inl ErrStaleInventory, s')" by (simp add: ReplaceInventory_def v)
  with v v0 fresh show ?thesis by blast
qed

section \<open>Delivering commands\<close>

lemma LeaseCommands_grants:
  assumes "LeaseCommands a now d limit s = (Inr cs, s')" and "c \<in> set cs"
  obtains k c0 where "(k, c0) \<in> set (st_commands s)" "lease_eligible s a now c0" "c = leased now d c0"
proof -
  from assms obtain n where "c \<in> set (map (leased now d)
      (take n (sort_by command_less (filter (lease_eligible s a now) (map snd (st_commands s))))))"
    by (auto simp: LeaseCommands_def Let_def split: if_splits)
  then show thesis by (auto dest!: in_set_takeD) (rule that; assumption)
qed

text \<open>
  A poll delivers only what it should: at most the limit (ten by default) of commands, all
  addressed to the polling agent, each either pending or with an expired lease, each now leased for
  the given time with one more attempt counted.
\<close>

lemma lease_is_bounded:
  assumes "wf_store s" and "LeaseCommands a now d limit s = (Inr cs, s')"
  shows "length cs \<le> (if limit \<le> 0 then 10 else nat limit) \<and>
    list_all (\<lambda>c. cmd_AgentID c = a \<and> cmd_Status c = CommandDelivered \<and> cmd_LeaseUntil c = Some (now + d) \<and>
      (case map_of (st_commands s) (cmd_ID c) of None \<Rightarrow> False
       | Some c0 \<Rightarrow> cmd_Attempts c = cmd_Attempts c0 + 1 \<and>
           (cmd_Status c0 = CommandPending \<or> cmd_Status c0 = CommandDelivered \<and>
            (case cmd_LeaseUntil c0 of None \<Rightarrow> False | Some t \<Rightarrow> t < now)))) cs"
proof
  show "length cs \<le> (if limit \<le> 0 then 10 else nat limit)"
    using assms(2) by (auto simp: LeaseCommands_def Let_def split: if_splits)
  show "list_all (\<lambda>c. cmd_AgentID c = a \<and> cmd_Status c = CommandDelivered \<and> cmd_LeaseUntil c = Some (now + d) \<and>
      (case map_of (st_commands s) (cmd_ID c) of None \<Rightarrow> False
       | Some c0 \<Rightarrow> cmd_Attempts c = cmd_Attempts c0 + 1 \<and>
           (cmd_Status c0 = CommandPending \<or> cmd_Status c0 = CommandDelivered \<and>
            (case cmd_LeaseUntil c0 of None \<Rightarrow> False | Some t \<Rightarrow> t < now)))) cs"
    unfolding list_all_iff
  proof
    fix c assume "c \<in> set cs"
    with assms(2) obtain k c0 where c0: "(k, c0) \<in> set (st_commands s)" "lease_eligible s a now c0"
      "c = leased now d c0" by (rule LeaseCommands_grants)
    then have "map_of (st_commands s) (cmd_ID c0) = Some c0"
      using assms(1) by (fastforce simp: wf_store_def list_all_iff)
    with c0 show "cmd_AgentID c = a \<and> cmd_Status c = CommandDelivered \<and> cmd_LeaseUntil c = Some (now + d) \<and>
      (case map_of (st_commands s) (cmd_ID c) of None \<Rightarrow> False
       | Some c0 \<Rightarrow> cmd_Attempts c = cmd_Attempts c0 + 1 \<and>
           (cmd_Status c0 = CommandPending \<or> cmd_Status c0 = CommandDelivered \<and>
            (case cmd_LeaseUntil c0 of None \<Rightarrow> False | Some t \<Rightarrow> t < now)))"
      by (simp add: leased_def lease_eligible_def)
  qed
qed

text \<open>
  C30. No start outside its reservation: a start command a poll delivers is the current command of a
  live job of the server's organisation, on a schedulable server, inside the job's window when it has
  one, and every GPU of the assignment is on that server, healthy and reserved for that very job.
\<close>

theorem start_only_when_reserved:
  assumes "LeaseCommands a now d limit s = (Inr cs, s')" and "c \<in> set cs"
    and "cmd_Type c = CommandStartContainer"
  shows "\<exists>jid job asg server. payload_JobID (cmd_Payload c) = Some jid \<and>
    map_of (st_jobs s) jid = Some job \<and> job_Assignment job = Some asg \<and>
    map_of (st_servers s) a = Some server \<and> srv_Schedulable server now (st_offlineAfter s) \<and>
    \<not> Terminal (job_Status job) \<and> asg_CommandID asg = cmd_ID c \<and>
    job_OrganizationID job = srv_OrganizationID server \<and>
    (win_Valid (asg_Window asg) \<longrightarrow> win_Contains (asg_Window asg) now) \<and>
    list_all (\<lambda>g. gpu_UUID g \<in> set (asg_GPUUUIDs asg) \<longrightarrow> gpu_Healthy g \<and> gpu_AssignedJobID g = job_ID job)
      (srv_GPUs server) \<and>
    found_count (asg_GPUUUIDs asg) (srv_GPUs server) = length (asg_GPUUUIDs asg)"
proof -
  obtain c0 where c0: "lease_eligible s a now c0" "c = leased now d c0"
    using assms(1,2) by (rule LeaseCommands_grants)
  then have same: "cmd_Type c0 = CommandStartContainer" "cmd_ID c0 = cmd_ID c" "cmd_Payload c0 = cmd_Payload c"
    "cmd_AgentID c0 = a"
    using assms(3) by (simp_all add: leased_def lease_eligible_def)
  obtain server where server: "map_of (st_servers s) a = Some server"
    using assms(1) by (cases "map_of (st_servers s) a") (auto simp: LeaseCommands_def)
  have "startDeliverableLocked s c0 now" using c0(1) same by (simp add: lease_eligible_def)
  then show ?thesis
    by (auto simp: startDeliverableLocked_def Let_def get_or_zero_def server same SameOrganization_def
        gpu_ready_for_def list_all_iff simp del: Terminal.simps split: option.splits if_splits)
qed

section \<open>Acknowledgements\<close>

lemma releaseLocked_commands [simp]: "st_commands (snd (releaseLocked j t s)) = st_commands s"
  by (simp add: releaseLocked_def Let_def split: option.split)

lemma finish_job_commands [simp]: "st_commands (finish_job k j t s) = st_commands s"
  by (simp add: finish_job_def case_prod_beta)

lemma applyAck_commands [simp]: "st_commands (applyAckLocked c ack t s) = st_commands s"
  by (simp add: applyAckLocked_def Let_def finish_job_alt split: option.split CommandType.split)

text \<open>
  The first acknowledgement wins: once a command is acknowledged, any later acknowledgement by
  the agent, with whatever outcome, returns the recorded command and changes nothing.
\<close>

lemma first_ack_wins:
  assumes "wf_store s" and "AckCommand a cid r t s = (Inr c, s1)"
  shows "AckCommand a cid r' t' s1 = (Inr c, s1) \<and>
    (cmd_Status c = CommandSucceeded \<or> cmd_Status c = CommandFailed)"
proof -
  obtain c0 where c0: "map_of (st_commands s) cid = Some c0" "cmd_AgentID c0 = a"
    using assms(2) by (auto simp: AckCommand_def split: option.splits if_splits)
  have id: "cmd_ID c0 = cid" by (rule wf_storeD(3) [OF assms(1) c0(1)])
  show ?thesis
  proof (cases "cmd_Status c0 = CommandSucceeded \<or> cmd_Status c0 = CommandFailed")
    case True
    with assms(2) c0 have "c = c0" "s1 = s" by (auto simp: AckCommand_def)
    with True c0 show ?thesis by (simp add: AckCommand_def)
  next
    case False
    with assms(2) c0 have c: "c = acked c0 r t" and s1: "s1 = applyAckLocked c r t (put_command c s)"
      by (auto simp: AckCommand_def Let_def)
    have k: "cmd_ID c = cid" "cmd_AgentID c = a" "cmd_Status c = CommandSucceeded \<or> cmd_Status c = CommandFailed"
      using id c0 by (simp_all add: c acked_def Let_def)
    then have "map_of (st_commands s1) cid = Some c" by (simp add: s1)
    with k show ?thesis by (simp add: AckCommand_def)
  qed
qed

section \<open>Stopping before delivery\<close>

lemma released_not_holding: "Terminal (job_Status j) \<Longrightarrow> \<not> holds_on sid (released j t)"
  by (simp add: holds_on_def del: Terminal.simps split: option.split)

text \<open>
  C31. A job stopped before its start command was delivered never starts: the stop cancels the job at
  once, its GPUs are no longer held, its start command is recorded as failed, and no later poll in
  that state delivers the command, whatever the time.
\<close>

theorem stop_before_delivery:
  assumes "inv s" and "map_of (st_jobs s) jid = Some j0" and "job_Assignment j0 = Some a"
    and "job_Status j0 = JobAssigned \<or> job_Status j0 = JobStarting"
    and "map_of (st_commands s) (asg_CommandID a) = Some start" and "asg_CommandID a \<noteq> ''''"
    and "cmd_Status start = CommandPending"
    and "RequestStop jid c t s = (r, s')" and "LeaseCommands ag now d n s' = (Inr cs, s'')"
  shows "\<exists>j. r = Inr j \<and> map_of (st_jobs s') jid = Some j \<and> job_Status j = JobCancelled \<and>
    \<not> holds_on sid j \<and> (\<forall>c \<in> set cs. cmd_ID c \<noteq> asg_CommandID a)"
proof -
  let ?j = "transitionLocked (j0\<lparr>job_TerminationReason := stop_reason j0 t\<rparr>) JobCancelled
    ''cancelled before command delivery'' t"
  let ?start = "start\<lparr>cmd_Status := CommandFailed, cmd_Error := ''cancelled before dispatch'',
    cmd_CompletedAt := Some t\<rparr>"
  let ?s1 = "put_command ?start s"
  have id: "job_ID j0 = jid" by (rule inv_job_ID [OF assms(1,2)])
  have live: "\<not> Terminal (job_Status j0)" and st: "job_Status j0 \<noteq> JobStopping" "job_Status j0 \<noteq> JobQueued"
    using assms(4) by auto
  have cid: "cmd_ID start = asg_CommandID a" by (rule inv_lookup(3) [OF assms(1,5)])
  have run: "RequestStop jid c t s = (Inr (released ?j t), finish_job jid ?j t ?s1)"
    by (simp add: RequestStop_def Let_def finish_job_alt assms(2,3,5-7) id live st is_pending_def del: Terminal.simps)
  then have r: "r = Inr (released ?j t)" "s' = finish_job jid ?j t ?s1" using assms(8) by auto
  have T: "Terminal (job_Status ?j)" using live by (simp del: Terminal.simps) simp
  have s1: "inv ?s1" by (rule inv_put_command [OF assms(1)])
  have jid: "job_ID ?j = jid" using id by simp
  have lookup: "map_of (st_jobs s') jid = Some (released ?j t)"
    using finish_step(6) [of ?s1 ?j j0 t jid] s1 T stop_moves(1) [OF live] live assms(2) jid r(2) by simp
  have "cmd_ID c \<noteq> asg_CommandID a" if cs: "c \<in> set cs" for c
  proof
    assume eq: "cmd_ID c = asg_CommandID a"
    obtain k c0 where c0: "(k, c0) \<in> set (st_commands s')" "lease_eligible s' ag now c0" "c = leased now d c0"
      by (rule LeaseCommands_grants [OF assms(9) cs])
    have wf: "wf_map (st_commands ?s1)" using s1 by (simp only: inv_def wf_store_def)
    have "(k, c0) \<in> set (st_commands ?s1)" using c0(1) r(2) by simp
    then have k: "map_of (st_commands ?s1) k = Some c0" using wf_mem_iff [OF wf] by blast
    then have "cmd_ID c0 = k" by (rule inv_lookup(3) [OF s1])
    with c0(3) eq cid k have "c0 = ?start" by (simp add: leased_def)
    with c0(2) show False by (simp add: lease_eligible_def)
  qed
  moreover have "job_Status (released ?j t) = JobCancelled" using live by (simp del: Terminal.simps)
  ultimately show ?thesis using r(1) lookup released_not_holding [OF T] by blast
qed

section \<open>Training metadata\<close>

text \<open>
  Training metadata is updated optimistically: an accepted update saw the current revision and
  moves it by one, so a second update with the same expectation is refused; where a run resumes from
  never changes, nor does anything else of the job but its update time.
\<close>

lemma training_update_is_optimistic:
  assumes "UpdateTraining jid expected tr now s = (Inr j', s')"
  shows "\<exists>j. map_of (st_jobs s) jid = Some j \<and> tr_Revision (job_Training j) = expected \<and>
    j' = j\<lparr>job_Training := job_Training j', job_UpdatedAt := now\<rparr> \<and>
    tr_Revision (job_Training j') = expected + 1 \<and>
    tr_ResumeCheckpointURI (job_Training j') = tr_ResumeCheckpointURI (job_Training j) \<and>
    tr_ResumeFromJobID (job_Training j') = tr_ResumeFromJobID (job_Training j) \<and>
    s' = s\<lparr>st_jobs := put jid j' (st_jobs s)\<rparr> \<and>
    UpdateTraining jid expected tr' now' s' = (Inl ErrConflict, s')"
proof -
  obtain j where j: "map_of (st_jobs s) jid = Some j"
    using assms by (auto simp: UpdateTraining_def split: option.splits)
  have neq: "expected + 1 \<noteq> expected" by simp
  from assms j have *: "tr_Revision (job_Training j) = expected"
    "j' = j\<lparr>job_Training := tr\<lparr>tr_ResumeCheckpointURI := tr_ResumeCheckpointURI (job_Training j),
       tr_ResumeFromJobID := tr_ResumeFromJobID (job_Training j),
       tr_CheckpointWarningAt := tr_CheckpointWarningAt (job_Training j), tr_Revision := expected + 1\<rparr>,
       job_UpdatedAt := now\<rparr>" "s' = s\<lparr>st_jobs := put jid j' (st_jobs s)\<rparr>"
    by (auto simp: UpdateTraining_def Let_def split: if_splits)
  have "UpdateTraining jid expected tr' now' s' = (Inl ErrConflict, s')"
    unfolding *(3) UpdateTraining_def using neq by (simp add: *(2))
  with j * show ?thesis by simp
qed

section \<open>Replanning\<close>

lemma replan_claim_replannable:
  assumes "inv s"
  shows "replan_claim now s es ch = Inr ch' \<Longrightarrow> k \<in> set (gokeys ch') \<Longrightarrow> k \<notin> set (gokeys ch) \<Longrightarrow>
    \<exists>j. map_of (st_jobs s) k = Some j \<and> Replannable j now"
proof (induction es arbitrary: ch)
  case Nil
  then show ?case by simp
next
  case (Cons e es)
  from Cons.prems(1) obtain job where job: "map_of (st_jobs s) (rp_JobID e) = Some job" "Replannable job now"
    and rest: "replan_claim now s es (put (job_ID job) (job\<lparr>job_Assignment := None\<rparr>) ch) = Inr ch'"
    by (auto split: option.splits if_splits)
  have id: "job_ID job = rp_JobID e" by (rule inv_job_ID [OF assms job(1)])
  show ?case
  proof (cases "k = rp_JobID e")
    case True
    with job show ?thesis by blast
  next
    case False
    with Cons.prems(3) id have "k \<notin> set (gokeys (put (job_ID job) (job\<lparr>job_Assignment := None\<rparr>) ch))"
      unfolding gokeys_put by simp
    from Cons.IH [OF rest Cons.prems(2) this] show ?thesis .
  qed
qed

text \<open>
  Replanning touches only the queue and future bookings: an accepted plan changes no server, no
  command and no job that was not replannable at that moment, so dispatched and running work is safe.
\<close>

lemma replan_touches_only_replannable:
  assumes "inv s" and "ReplanReservations now plan s = (Inr n, s')"
    and "map_of (st_jobs s) k = Some j" and "\<not> Replannable j now"
  shows "map_of (st_jobs s') k = Some j \<and> st_servers s' = st_servers s \<and>
    st_commands s' = st_commands s \<and> gokeys (st_jobs s') = gokeys (st_jobs s)"
proof -
  obtain plans ch ch' bs where cl: "replan_claim now s plans [] = Inr ch"
    and s': "s' = s\<lparr>st_jobs := put_all ch' (st_jobs s)\<rparr>" and ri: "replan_inv s ch' bs"
    and keys: "set (gokeys ch') = set (gokeys ch)"
    using replan_accepted [OF assms(1,2)] by metis
  have wf: "wf_map ch'" using ri by (simp add: replan_inv_def)
  have claimed: "\<exists>j. map_of (st_jobs s) i = Some j \<and> Replannable j now" if "i \<in> set (gokeys ch')" for i
  proof (rule replan_claim_replannable [OF assms(1) cl])
    show "i \<in> set (gokeys ch)" using that unfolding keys .
  qed simp
  have known: "set (gokeys ch') \<subseteq> set (gokeys (st_jobs s))"
  proof
    fix i assume "i \<in> set (gokeys ch')"
    from claimed [OF this] obtain j where "map_of (st_jobs s) i = Some j" by blast
    then show "i \<in> set (gokeys (st_jobs s))" by (rule map_of_gokeys)
  qed
  have "gokeys (put_all ch (st_jobs s)) = gokeys (st_jobs s)"
    if "set (gokeys ch) \<subseteq> set (gokeys (st_jobs s))" for ch
    using that
  proof (induction ch rule: rev_induct)
    case Nil
    then show ?case by (simp add: put_all_def)
  next
    case (snoc e es)
    then have "gokeys (put_all es (st_jobs s)) = gokeys (st_jobs s)" by simp
    with snoc.prems show ?case by (cases e) (simp add: put_all_def gokeys_put_mem del: set_map)
  qed
  moreover have "map_of ch' k = None"
  proof (rule ccontr)
    assume "map_of ch' k \<noteq> None"
    then obtain c where "map_of ch' k = Some c" by blast
    from claimed [OF map_of_gokeys [OF this]] assms(3,4) show False by simp
  qed
  ultimately show ?thesis using known assms(3) by (simp add: s' map_of_put_all [OF wf])
qed

text \<open>What the accepted plan \<open>e\<close> made of its job.\<close>

definition plan_carried_out :: "ReservationPlan \<Rightarrow> gotime \<Rightarrow> Job \<Rightarrow> bool" where
  "plan_carried_out e now j \<longleftrightarrow> job_Policy j = rp_Policy e \<and> job_StatusReason j = rp_Reason e \<and>
     (case rp_Placement e of
        None \<Rightarrow> job_Status j = JobQueued \<and> job_Assignment j = None
      | Some p \<Rightarrow> job_Status j = JobAssigned \<and> win_Valid (RequestedWindow j) \<and>
          now < win_EndAt (RequestedWindow j) \<and>
          (case job_Assignment j of None \<Rightarrow> False
           | Some a \<Rightarrow> asg_ServerID a = plc_ServerID p \<and> asg_GPUUUIDs a = plc_GPUUUIDs p \<and>
               asg_Window a = RequestedWindow j \<and> asg_CommandID a = '''' \<and>
               asg_ReservationState a = ''PLANNED'' \<and> asg_ReleasedAt a = None \<and>
               asg_Strategy a = plc_Strategy p \<and> asg_Score a = plc_Score p \<and> asg_Reason a = rp_Reason e))"

definition open_entry :: "string \<Rightarrow> Job \<Rightarrow> bool" where
  "open_entry k j \<longleftrightarrow> job_ID j = k \<and> \<not> Terminal (job_Status j) \<and> job_Assignment j = None"

lemma replan_claim_open:
  assumes "inv s"
  shows "replan_claim now s es ch = Inr ch' \<Longrightarrow> list_all (\<lambda>(k, j). open_entry k j) ch \<Longrightarrow>
    list_all (\<lambda>(k, j). open_entry k j) ch'"
proof (induction es arbitrary: ch)
  case Nil
  then show ?case by simp
next
  case (Cons e es)
  from Cons.prems(1) obtain job where job: "map_of (st_jobs s) (rp_JobID e) = Some job" "Replannable job now"
    and rest: "replan_claim now s es (put (job_ID job) (job\<lparr>job_Assignment := None\<rparr>) ch) = Inr ch'"
    by (auto split: option.splits if_splits)
  have "open_entry (job_ID job) (job\<lparr>job_Assignment := None\<rparr>)"
    using Replannable_live [OF job(2)] by (simp add: open_entry_def del: Terminal.simps)
  with Cons.IH [OF rest] Cons.prems(2) show ?case by (simp add: list_all_put)
qed

lemma carried_out_queued:
  assumes "open_entry k j" and "rp_Placement e = None"
  shows "plan_carried_out e now (transitionLocked (j\<lparr>job_Policy := rp_Policy e\<rparr>) JobQueued (rp_Reason e) now)"
  using assms by (simp add: open_entry_def plan_carried_out_def transitionLocked_def Let_def)

lemma carried_out_placed:
  assumes "open_entry k j" and "rp_Placement e = Some p" and "win_Valid (RequestedWindow j)"
    and "now < win_EndAt (RequestedWindow j)"
    and "asg_ServerID a = plc_ServerID p" "asg_GPUUUIDs a = plc_GPUUUIDs p" "asg_Window a = RequestedWindow j"
      "asg_CommandID a = ''''" "asg_ReservationState a = ''PLANNED''" "asg_ReleasedAt a = None"
      "asg_Strategy a = plc_Strategy p" "asg_Score a = plc_Score p" "asg_Reason a = rp_Reason e"
  shows "plan_carried_out e now (planned_job (j\<lparr>job_Policy := rp_Policy e\<rparr>) a (rp_Reason e) now)"
proof -
  let ?j = "planned_job (j\<lparr>job_Policy := rp_Policy e\<rparr>) a (rp_Reason e) now"
  have w: "RequestedWindow ?j = RequestedWindow j" by (rule RequestedWindow_cong) (simp add: planned_job_def)
  have "job_Policy ?j = rp_Policy e" and "job_StatusReason ?j = rp_Reason e"
    using assms(1) by (auto simp: open_entry_def planned_job_def transitionLocked_def Let_def simp del: Terminal.simps)
  with assms w show ?thesis
    by (simp add: plan_carried_out_def open_entry_def planned_job_def del: Terminal.simps)
qed

lemma replan_apply_result:
  "replan_apply now s servers es ch bs n = Inr (ch', n') \<Longrightarrow> distinct (map rp_JobID es) \<Longrightarrow>
   \<forall>e \<in> set es. \<forall>j. map_of ch (rp_JobID e) = Some j \<longrightarrow> open_entry (rp_JobID e) j \<Longrightarrow>
   (\<forall>k. k \<notin> rp_JobID ` set es \<longrightarrow> map_of ch' k = map_of ch k) \<and>
   (\<forall>e \<in> set es. \<exists>j. map_of ch' (rp_JobID e) = Some j \<and> plan_carried_out e now j)"
proof (induction es arbitrary: ch bs n)
  case Nil
  then show ?case by simp
next
  case (Cons e es)
  let ?k = "rp_JobID e"
  from Cons.prems(1) obtain job0 where job0: "map_of ch ?k = Some job0"
    by (auto split: option.splits)
  then have op: "open_entry ?k job0" using Cons.prems(3) by simp
  then have id: "job_ID job0 = ?k" by (simp add: open_entry_def)
  let ?job = "job0\<lparr>job_Policy := rp_Policy e\<rparr>"
  have w: "RequestedWindow ?job = RequestedWindow job0" by (rule RequestedWindow_cong) simp
  obtain j bs1 n1 where rest: "replan_apply now s servers es (put ?k j ch) bs1 n1 = Inr (ch', n')"
    and j: "plan_carried_out e now j"
  proof (cases "rp_Placement e")
    case None
    have "replan_apply now s servers es (put ?k (transitionLocked ?job JobQueued (rp_Reason e) now) ch) bs n
        = Inr (ch', n')"
      using Cons.prems(1) by (simp add: job0 None Let_def id)
    from that [OF this carried_out_queued [OF op None]] show ?thesis .
  next
    case (Some p)
    define a where "a = (let a = planned_assignment ?job p (rp_Reason e) now;
        old = Option.bind (map_of (st_jobs s) ?k) job_Assignment
      in if same_placement old p then a\<lparr>asg_AssignedAt := asg_AssignedAt (the old)\<rparr> else a)"
    have win: "win_Valid (RequestedWindow job0) \<and> now < win_EndAt (RequestedWindow job0)"
      and rest: "\<exists>n bs. replan_apply now s servers es (put ?k (planned_job ?job a (rp_Reason e) now) ch) bs n
        = Inr (ch', n')"
      using Cons.prems(1) by (auto simp: job0 Some Let_def id a_def planned_job_def w split: if_splits)
    have "plan_carried_out e now (planned_job ?job a (rp_Reason e) now)"
      using win by (intro carried_out_placed [OF op Some])
        (simp_all add: a_def Let_def planned_assignment_def asg_Window_def w)
    with rest that show ?thesis by blast
  qed
  have "\<forall>e' \<in> set es. \<forall>i. map_of (put ?k j ch) (rp_JobID e') = Some i \<longrightarrow> open_entry (rp_JobID e') i"
    using Cons.prems(2,3) by (auto simp: image_iff)
  from Cons.IH [OF rest _ this] Cons.prems(2) j show ?case by (auto simp: image_iff)
qed

text \<open>
  C33. An accepted plan is carried out as planned: every planned job ends up assigned on the placed
  server and GPUs, for exactly the window it asked for, which is not over, with no command yet and with the strategy,
  score and reason of the plan; a job without a placement is back in the queue without an assignment.
  Either carries the reason and the policy decision the plan gives for it.
\<close>

theorem replan_carries_out_plan:
  assumes "inv s" and "ReplanReservations now plan s = (Inr n, s')"
    and "plan (jobs_by_id s) (servers_by_id s) = Inr plans" and "e \<in> set plans"
  shows "\<exists>j. map_of (st_jobs s') (rp_JobID e) = Some j \<and> plan_carried_out e now j"
proof -
  obtain ch ch' bs where cl: "replan_claim now s plans [] = Inr ch" and ap: "replan_apply now s (servers_by_id s)
      plans ch (filter (\<lambda>j. map_of ch (job_ID j) = None) (jobs_by_id s)) 0 = Inr (ch', n)"
    and s': "s' = s\<lparr>st_jobs := put_all ch' (st_jobs s)\<rparr>" and ri: "replan_inv s ch' bs" and un: "unapplied plans ch"
    using replan_accepted [OF assms(1,2)] assms(3) by (metis sum.inject(2))
  have "\<forall>e \<in> set plans. \<forall>j. map_of ch (rp_JobID e) = Some j \<longrightarrow> open_entry (rp_JobID e) j"
    using replan_claim_open [OF assms(1) cl] by (auto simp: list_all_iff dest!: map_of_SomeD)
  with replan_apply_result [OF ap] un assms(4) obtain j where
    "map_of ch' (rp_JobID e) = Some j" "plan_carried_out e now j" by (auto simp: unapplied_def)
  moreover have "wf_map ch'" using ri by (simp add: replan_inv_def)
  ultimately show ?thesis by (simp add: s' map_of_put_all)
qed

end
