(* ===== verification/Necessity_Profiles.thy ===== *)
theory Necessity_Profiles
  imports Domain_Model
begin

text \<open>
  \<open>internal/policy/profiles.go\<close>: the table of necessity profiles (which reasons justify which
  necessity level for which workload type) and the option lists of the request form. Labels are the
  UTF-8 bytes of the Vietnamese literals.
\<close>

record PolicyOption =
  opt_ID :: string
  opt_Label :: string

record NecessityProfile =
  np_WorkloadType :: WorkloadType
  np_Level :: NecessityLevel
  np_Label :: string
  np_Reasons :: "PolicyOption list"

definition opt :: "string \<Rightarrow> string \<Rightarrow> PolicyOption" where
  "opt i l = \<lparr>opt_ID = i, opt_Label = l\<rparr>"

definition Profiles :: "NecessityProfile list" where
  "Profiles = [
    \<lparr>np_WorkloadType = WorkloadTraining, np_Level = Necessity1, np_Label = ''C'' @ [CHR 0xE1, CHR 0xBA, CHR 0xA7] @ ''n thi'' @ [CHR 0xE1, CHR 0xBA, CHR 0xBF] @ ''t 1'',
      np_Reasons =
       [opt ''EXECUTIVE_DIRECTION'' (''Ch'' @ [CHR 0xE1, CHR 0xBB, CHR 0x89] @ '' '' @ [CHR 0xC4, CHR 0x91, CHR 0xE1, CHR 0xBA, CHR 0xA1] @ ''o c'' @ [CHR 0xE1, CHR 0xBB, CHR 0xA7] @ ''a Ban TG'' @ [CHR 0xC4, CHR 0x90] @ '' T'' @ [CHR 0xE1, CHR 0xBA, CHR 0xAD] @ ''p '' @ [CHR 0xC4, CHR 0x91] @ ''o'' @ [CHR 0xC3, CHR 0xA0] @ ''n''),
        opt ''CONTRACT_PENALTY'' (''Cam k'' @ [CHR 0xE1, CHR 0xBA, CHR 0xBF] @ ''t h'' @ [CHR 0xE1, CHR 0xBB, CHR 0xA3] @ ''p '' @ [CHR 0xC4, CHR 0x91, CHR 0xE1, CHR 0xBB, CHR 0x93] @ ''ng c'' @ [CHR 0xC3, CHR 0xB3] @ '' ph'' @ [CHR 0xE1, CHR 0xBA, CHR 0xA1] @ ''t''),
        opt ''INCIDENT_RETRAINING'' (''S'' @ [CHR 0xE1, CHR 0xBB, CHR 0xB1] @ '' c'' @ [CHR 0xE1, CHR 0xBB, CHR 0x91] @ '' c'' @ [CHR 0xE1, CHR 0xBA, CHR 0xA7] @ ''n hu'' @ [CHR 0xE1, CHR 0xBA, CHR 0xA5] @ ''n luy'' @ [CHR 0xE1, CHR 0xBB, CHR 0x87] @ ''n l'' @ [CHR 0xE1, CHR 0xBA, CHR 0xA1] @ ''i kh'' @ [CHR 0xE1, CHR 0xBA, CHR 0xA9] @ ''n''),
        opt ''LEGAL_DEADLINE'' (''Y'' @ [CHR 0xC3, CHR 0xAA] @ ''u c'' @ [CHR 0xE1, CHR 0xBA, CHR 0xA7] @ ''u ph'' @ [CHR 0xC3, CHR 0xA1] @ ''p l'' @ [CHR 0xC3, CHR 0xBD] @ '' s'' @ [CHR 0xE1, CHR 0xBA, CHR 0xAF] @ ''p '' @ [CHR 0xC4, CHR 0x91, CHR 0xE1, CHR 0xBA, CHR 0xBF] @ ''n h'' @ [CHR 0xE1, CHR 0xBA, CHR 0xA1] @ ''n'')]\<rparr>,
    \<lparr>np_WorkloadType = WorkloadTraining, np_Level = Necessity2, np_Label = ''C'' @ [CHR 0xE1, CHR 0xBA, CHR 0xA7] @ ''n thi'' @ [CHR 0xE1, CHR 0xBA, CHR 0xBF] @ ''t 2'',
      np_Reasons =
       [opt ''GO_LIVE_90_DAYS'' (''D'' @ [CHR 0xE1, CHR 0xBB, CHR 0xB1] @ '' '' @ [CHR 0xC3, CHR 0xA1] @ ''n go-live d'' @ [CHR 0xC6, CHR 0xB0, CHR 0xE1, CHR 0xBB, CHR 0x9B] @ ''i 90 ng'' @ [CHR 0xC3, CHR 0xA0] @ ''y''),
        opt ''BUSINESS_VALUE'' (''Doanh thu ho'' @ [CHR 0xE1, CHR 0xBA, CHR 0xB7] @ ''c ti'' @ [CHR 0xE1, CHR 0xBA, CHR 0xBF] @ ''t ki'' @ [CHR 0xE1, CHR 0xBB, CHR 0x87] @ ''m l'' @ [CHR 0xE1, CHR 0xBB, CHR 0x9B] @ ''n''),
        opt ''APPROVED_PLAN'' (''K'' @ [CHR 0xE1, CHR 0xBA, CHR 0xBF] @ '' ho'' @ [CHR 0xE1, CHR 0xBA, CHR 0xA1] @ ''ch th'' @ [CHR 0xE1, CHR 0xBB, CHR 0xB1] @ ''c hi'' @ [CHR 0xE1, CHR 0xBB, CHR 0x87] @ ''n ho'' @ [CHR 0xE1, CHR 0xBA, CHR 0xB7] @ ''c ph'' @ [CHR 0xC6, CHR 0xB0, CHR 0xC6, CHR 0xA1] @ ''ng '' @ [CHR 0xC3, CHR 0xA1] @ ''n kinh doanh '' @ [CHR 0xC4, CHR 0x91, CHR 0xC3, CHR 0xA3] @ '' ph'' @ [CHR 0xC3, CHR 0xAA] @ '' duy'' @ [CHR 0xE1, CHR 0xBB, CHR 0x87] @ ''t'')]\<rparr>,
    \<lparr>np_WorkloadType = WorkloadTraining, np_Level = Necessity3, np_Label = ''C'' @ [CHR 0xE1, CHR 0xBA, CHR 0xA7] @ ''n thi'' @ [CHR 0xE1, CHR 0xBA, CHR 0xBF] @ ''t 3'',
      np_Reasons =
       [opt ''PERIODIC_RETRAINING'' (''Hu'' @ [CHR 0xE1, CHR 0xBA, CHR 0xA5] @ ''n luy'' @ [CHR 0xE1, CHR 0xBB, CHR 0x87] @ ''n l'' @ [CHR 0xE1, CHR 0xBA, CHR 0xA1] @ ''i '' @ [CHR 0xC4, CHR 0x91, CHR 0xE1, CHR 0xBB, CHR 0x8B] @ ''nh k'' @ [CHR 0xE1, CHR 0xBB, CHR 0xB3]),
        opt ''INTERNAL_IMPROVEMENT'' (''C'' @ [CHR 0xE1, CHR 0xBA, CHR 0xA3] @ ''i ti'' @ [CHR 0xE1, CHR 0xBA, CHR 0xBF] @ ''n n'' @ [CHR 0xE1, CHR 0xBB, CHR 0x99] @ ''i b'' @ [CHR 0xE1, CHR 0xBB, CHR 0x99])]\<rparr>,
    \<lparr>np_WorkloadType = WorkloadTraining, np_Level = Necessity4, np_Label = ''C'' @ [CHR 0xE1, CHR 0xBA, CHR 0xA7] @ ''n thi'' @ [CHR 0xE1, CHR 0xBA, CHR 0xBF] @ ''t 4'',
      np_Reasons =
       [opt ''EARLY_RESEARCH'' (''Nghi'' @ [CHR 0xC3, CHR 0xAA] @ ''n c'' @ [CHR 0xE1, CHR 0xBB, CHR 0xA9] @ ''u ban '' @ [CHR 0xC4, CHR 0x91, CHR 0xE1, CHR 0xBA, CHR 0xA7] @ ''u''),
        opt ''MODEL_EXPERIMENT'' (''Th'' @ [CHR 0xE1, CHR 0xBB, CHR 0xAD] @ '' nghi'' @ [CHR 0xE1, CHR 0xBB, CHR 0x87] @ ''m m'' @ [CHR 0xC3, CHR 0xB4] @ '' h'' @ [CHR 0xC3, CHR 0xAC] @ ''nh m'' @ [CHR 0xE1, CHR 0xBB, CHR 0x9B] @ ''i'')]\<rparr>,
    \<lparr>np_WorkloadType = WorkloadInference, np_Level = Necessity1, np_Label = ''C'' @ [CHR 0xE1, CHR 0xBA, CHR 0xA7] @ ''n thi'' @ [CHR 0xE1, CHR 0xBA, CHR 0xBF] @ ''t 1'',
      np_Reasons =
       [opt ''EXECUTIVE_DIRECTION'' (''Ch'' @ [CHR 0xE1, CHR 0xBB, CHR 0x89] @ '' '' @ [CHR 0xC4, CHR 0x91, CHR 0xE1, CHR 0xBA, CHR 0xA1] @ ''o c'' @ [CHR 0xE1, CHR 0xBB, CHR 0xA7] @ ''a Ban TG'' @ [CHR 0xC4, CHR 0x90] @ '' T'' @ [CHR 0xE1, CHR 0xBA, CHR 0xAD] @ ''p '' @ [CHR 0xC4, CHR 0x91] @ ''o'' @ [CHR 0xC3, CHR 0xA0] @ ''n''),
        opt ''BROAD_EMERGENCY'' (''Kh'' @ [CHR 0xE1, CHR 0xBA, CHR 0xA9] @ ''n c'' @ [CHR 0xE1, CHR 0xBA, CHR 0xA5] @ ''p, '' @ [CHR 0xE1, CHR 0xBA, CHR 0xA3] @ ''nh h'' @ [CHR 0xC6, CHR 0xB0, CHR 0xE1, CHR 0xBB, CHR 0x9F] @ ''ng r'' @ [CHR 0xE1, CHR 0xBB, CHR 0x99] @ ''ng''),
        opt ''INCIDENT_MITIGATION'' (''Kh'' @ [CHR 0xE1, CHR 0xBA, CHR 0xAF] @ ''c ph'' @ [CHR 0xE1, CHR 0xBB, CHR 0xA5] @ ''c s'' @ [CHR 0xE1, CHR 0xBB, CHR 0xB1] @ '' c'' @ [CHR 0xE1, CHR 0xBB, CHR 0x91]),
        opt ''LEGAL_REQUIREMENT'' (''Y'' @ [CHR 0xC3, CHR 0xAA] @ ''u c'' @ [CHR 0xE1, CHR 0xBA, CHR 0xA7] @ ''u ph'' @ [CHR 0xC3, CHR 0xA1] @ ''p l'' @ [CHR 0xC3, CHR 0xBD] @ '' b'' @ [CHR 0xE1, CHR 0xBA, CHR 0xAF] @ ''t bu'' @ [CHR 0xE1, CHR 0xBB, CHR 0x99] @ ''c'')]\<rparr>,
    \<lparr>np_WorkloadType = WorkloadInference, np_Level = Necessity2, np_Label = ''C'' @ [CHR 0xE1, CHR 0xBA, CHR 0xA7] @ ''n thi'' @ [CHR 0xE1, CHR 0xBA, CHR 0xBF] @ ''t 2'',
      np_Reasons =
       [opt ''CUSTOMER_SLA'' (''S'' @ [CHR 0xE1, CHR 0xBA, CHR 0xA3] @ ''n ph'' @ [CHR 0xE1, CHR 0xBA, CHR 0xA9] @ ''m ph'' @ [CHR 0xE1, CHR 0xBB, CHR 0xA5] @ ''c v'' @ [CHR 0xE1, CHR 0xBB, CHR 0xA5] @ '' kh'' @ [CHR 0xC3, CHR 0xA1] @ ''ch h'' @ [CHR 0xC3, CHR 0xA0] @ ''ng c'' @ [CHR 0xC3, CHR 0xB3] @ '' SLA ch'' @ [CHR 0xE1, CHR 0xBA, CHR 0xB7] @ ''t'')]\<rparr>,
    \<lparr>np_WorkloadType = WorkloadInference, np_Level = Necessity3, np_Label = ''C'' @ [CHR 0xE1, CHR 0xBA, CHR 0xA7] @ ''n thi'' @ [CHR 0xE1, CHR 0xBA, CHR 0xBF] @ ''t 3'',
      np_Reasons =
       [opt ''INTERNAL_PROCESS'' (''Quy tr'' @ [CHR 0xC3, CHR 0xAC] @ ''nh n'' @ [CHR 0xE1, CHR 0xBB, CHR 0x99] @ ''i b'' @ [CHR 0xE1, CHR 0xBB, CHR 0x99]),
        opt ''BATCH_PROCESSING'' (''X'' @ [CHR 0xE1, CHR 0xBB, CHR 0xAD] @ '' l'' @ [CHR 0xC3, CHR 0xBD] @ '' theo l'' @ [CHR 0xC3, CHR 0xB4]),
        opt ''NON_REALTIME'' (''Kh'' @ [CHR 0xC3, CHR 0xB4] @ ''ng r'' @ [CHR 0xC3, CHR 0xA0] @ ''ng bu'' @ [CHR 0xE1, CHR 0xBB, CHR 0x99] @ ''c '' @ [CHR 0xC4, CHR 0x91, CHR 0xE1, CHR 0xBB, CHR 0x99] @ '' tr'' @ [CHR 0xE1, CHR 0xBB, CHR 0x85] @ '' t'' @ [CHR 0xE1, CHR 0xBB, CHR 0xA9] @ ''c th'' @ [CHR 0xE1, CHR 0xBB, CHR 0x9D] @ ''i'')]\<rparr>,
    \<lparr>np_WorkloadType = WorkloadInference, np_Level = Necessity4, np_Label = ''C'' @ [CHR 0xE1, CHR 0xBA, CHR 0xA7] @ ''n thi'' @ [CHR 0xE1, CHR 0xBA, CHR 0xBF] @ ''t 4'',
      np_Reasons =
       [opt ''RESEARCH'' (''R&D''),
        opt ''EXPERIMENT'' (''Th'' @ [CHR 0xE1, CHR 0xBB, CHR 0xAD] @ '' nghi'' @ [CHR 0xE1, CHR 0xBB, CHR 0x87] @ ''m''),
        opt ''DEMO'' (''Demo''),
        opt ''DEV_UAT'' (''Dev/UAT'')]\<rparr>]"

definition ImportanceOptions :: "PolicyOption list" where
  "ImportanceOptions = [
    opt ImportanceCritical ([CHR 0xC4, CHR 0x90, CHR 0xE1, CHR 0xBA, CHR 0xB7] @ ''c bi'' @ [CHR 0xE1, CHR 0xBB, CHR 0x87] @ ''t quan tr'' @ [CHR 0xE1, CHR 0xBB, CHR 0x8D] @ ''ng''),
    opt ImportanceVeryImportant (''R'' @ [CHR 0xE1, CHR 0xBA, CHR 0xA5] @ ''t quan tr'' @ [CHR 0xE1, CHR 0xBB, CHR 0x8D] @ ''ng''),
    opt ImportanceImportant (''Quan tr'' @ [CHR 0xE1, CHR 0xBB, CHR 0x8D] @ ''ng''),
    opt ImportanceNormal (''B'' @ [CHR 0xC3, CHR 0xAC] @ ''nh th'' @ [CHR 0xC6, CHR 0xB0, CHR 0xE1, CHR 0xBB, CHR 0x9D] @ ''ng'')]"

definition NecessityLabel :: "NecessityLevel \<Rightarrow> string" where
  "NecessityLabel level =
     (case filter (\<lambda>p. np_Level p = level) Profiles of
        p # _ \<Rightarrow> np_Label p
      | [] \<Rightarrow> ''Y'' @ [CHR 0xC3, CHR 0xAA] @ ''u c'' @ [CHR 0xE1, CHR 0xBA, CHR 0xA7] @ ''u c'' @ [CHR 0xC5, CHR 0xA9] @ '' ch'' @ [CHR 0xC6, CHR 0xB0] @ ''a khai b'' @ [CHR 0xC3, CHR 0xA1] @ ''o t'' @ [CHR 0xC3, CHR 0xAD] @ ''nh c'' @ [CHR 0xE1, CHR 0xBA, CHR 0xA7] @ ''n thi'' @ [CHR 0xE1, CHR 0xBA, CHR 0xBF] @ ''t'')"

end
