(* ===== verification/Policy_Engine.thy ===== *)
theory Policy_Engine
  imports Necessity_Profiles Messages "HOL-Library.Product_Lexorder"
begin

text \<open>
  \<open>internal/policy/engine.go\<close>: the business policy that decides the lane of a job and the order of
  the queue. Scores are rational numbers: every coefficient has one decimal, so each product has at
  most three decimals and the code's rounding to three decimals recovers exactly that product from
  the binary floating-point approximation.
\<close>

section \<open>Facts and coefficients\<close>

record Facts =
  fct_InSizingPlan :: bool
  fct_WithinQuota :: bool
  fct_QuotaUsage :: int
  fct_Source :: string

type_synonym FactsProvider = "reqctx \<Rightarrow> Job \<Rightarrow> go_error + Facts"

record DevelopmentFacts =
  dev_InSizingPlan :: bool
  dev_QuotaGPUs :: int
  dev_UsedGPUs :: int

definition DevelopmentFacts_Facts :: "DevelopmentFacts \<Rightarrow> FactsProvider" where
  "DevelopmentFacts_Facts p ctx j =
     Inr \<lparr>fct_InSizingPlan = dev_InSizingPlan p,
          fct_WithinQuota = (rq_GPUCount (job_Resources j) \<le> dev_QuotaGPUs p - dev_UsedGPUs p),
          fct_QuotaUsage = dev_UsedGPUs p, fct_Source = ''DEVELOPMENT_CONFIG''\<rparr>"

definition ImportanceCoefficient :: "SystemImportance \<Rightarrow> rat option" where
  "ImportanceCoefficient v =
     (if v = ImportanceCritical then Some (14 / 10)
      else if v = ImportanceVeryImportant then Some (12 / 10)
      else if v = ImportanceImportant then Some 1
      else if v = ImportanceNormal then Some (8 / 10)
      else None)"

text \<open>Go's integer division truncates towards zero.\<close>

definition go_div :: "int \<Rightarrow> int \<Rightarrow> int" where
  "go_div a b = sgn a * sgn b * (\<bar>a\<bar> div \<bar>b\<bar>)"

definition waiting_weeks :: "gotime \<Rightarrow> gotime \<Rightarrow> int" where
  "waiting_weeks createdAt now =
     (let weeks = go_div (Sub now createdAt) (7 * 24 * Hour);
          weeks = (if weeks < 0 then 0 else weeks)
      in if weeks > 4 then 4 else weeks)"

definition WaitingCoefficient :: "gotime \<Rightarrow> gotime \<Rightarrow> rat" where
  "WaitingCoefficient createdAt now = 1 + of_int (waiting_weeks createdAt now) / 10"

definition AuxiliaryScore :: "rat \<Rightarrow> rat \<Rightarrow> rat \<Rightarrow> rat" where
  "AuxiliaryScore importance quota waiting =
     of_int (round (importance * quota * waiting * 1000)) / 1000"

section \<open>Evaluation\<close>

definition job_importance :: "Job \<Rightarrow> rat" where
  "job_importance j =
     (case ImportanceCoefficient (in_SystemImportance (job_Intent j)) of None \<Rightarrow> 8 / 10 | Some c \<Rightarrow> c)"

definition decide :: "Facts \<Rightarrow> Job \<Rightarrow> gotime \<Rightarrow> PolicyDecision" where
  "decide f j now =
     (let quota = (if fct_WithinQuota f then 1 else 8 / 10);
          auto = fct_InSizingPlan f \<and> fct_WithinQuota f
      in \<lparr>pol_Status = (if auto then PolicyAutoEligible else PolicyCompetitive),
          pol_Reason = (if auto then msg_policy_auto else msg_policy_competitive),
          pol_InSizingPlan = fct_InSizingPlan f, pol_WithinQuota = fct_WithinQuota f,
          pol_QuotaUsage = fct_QuotaUsage f, pol_Source = fct_Source f, pol_EvaluatedAt = now,
          pol_AuxiliaryScore =
            AuxiliaryScore (job_importance j) quota (WaitingCoefficient (job_CreatedAt j) now)\<rparr>)"

definition Evaluate :: "FactsProvider \<Rightarrow> reqctx \<Rightarrow> Job \<Rightarrow> gotime \<Rightarrow> go_error + PolicyDecision" where
  "Evaluate facts ctx j now = (case facts ctx j of Inl e \<Rightarrow> Inl e | Inr f \<Rightarrow> Inr (decide f j now))"

section \<open>Queue order\<close>

definition necessityRank :: "NecessityLevel \<Rightarrow> nat" where
  "necessityRank n = (if n = Necessity1 then 1 else if n = Necessity2 then 2
     else if n = Necessity3 then 3 else if n = Necessity4 then 4 else 5)"

definition Before :: "Job \<Rightarrow> Job \<Rightarrow> bool" where
  "Before a b =
     (if pol_Status (job_Policy a) \<noteq> pol_Status (job_Policy b)
      then pol_Status (job_Policy a) = PolicyAutoEligible
      else if necessityRank (in_NecessityLevel (job_Intent a)) \<noteq> necessityRank (in_NecessityLevel (job_Intent b))
      then necessityRank (in_NecessityLevel (job_Intent a)) < necessityRank (in_NecessityLevel (job_Intent b))
      else if pol_AuxiliaryScore (job_Policy a) \<noteq> pol_AuxiliaryScore (job_Policy b)
      then pol_AuxiliaryScore (job_Policy a) > pol_AuxiliaryScore (job_Policy b)
      else if job_CreatedAt a \<noteq> job_CreatedAt b then job_CreatedAt a < job_CreatedAt b
      else job_ID a < job_ID b)"

fun evaluate_all :: "FactsProvider \<Rightarrow> reqctx \<Rightarrow> gotime \<Rightarrow> Job list \<Rightarrow> go_error + Job list" where
  "evaluate_all facts ctx now [] = Inr []"
| "evaluate_all facts ctx now (j # js) =
     (case Evaluate facts ctx j now of
        Inl e \<Rightarrow> Inl e
      | Inr d \<Rightarrow> (case evaluate_all facts ctx now js of
                   Inl e \<Rightarrow> Inl e
                 | Inr js' \<Rightarrow> Inr (j\<lparr>job_Policy := d\<rparr> # js')))"

definition Order :: "FactsProvider \<Rightarrow> reqctx \<Rightarrow> Job list \<Rightarrow> gotime \<Rightarrow> go_error + Job list" where
  "Order facts ctx jobs now =
     (case evaluate_all facts ctx now jobs of Inl e \<Rightarrow> Inl e | Inr js \<Rightarrow> Inr (sort_by Before js))"

section \<open>Validation of the declared intent\<close>

definition reason_allowed :: "AllocationIntent \<Rightarrow> bool" where
  "reason_allowed intent =
     list_ex (\<lambda>p. np_WorkloadType p = in_WorkloadType intent \<and> np_Level p = in_NecessityLevel intent \<and>
       list_ex (\<lambda>r. opt_ID r = in_NecessityReason intent) (np_Reasons p)) Profiles"

definition Validate :: "AllocationIntent \<Rightarrow> labels \<Rightarrow> labels" where
  "Validate intent f0 =
     (let f1 = (if in_WorkloadType intent \<noteq> WorkloadTraining \<and> in_WorkloadType intent \<noteq> WorkloadInference
                then put ''workloadType'' msg_bad_workload_type f0 else f0);
          f2 = (if necessityRank (in_NecessityLevel intent) = 5
                then put ''necessityLevel'' msg_bad_necessity_level f1 else f1);
          f3 = (if ImportanceCoefficient (in_SystemImportance intent) = None
                then put ''systemImportance'' msg_bad_importance f2 else f2);
          custom = (in_NecessityReason intent = ''CUSTOM'');
          validReason = (reason_allowed intent \<or> custom);
          f4 = (if custom \<and> TrimSpace (in_NecessityExplanation intent) = ''''
                then put ''necessityExplanation'' msg_need_explanation f3 else f3);
          f5 = (if \<not> validReason then put ''necessityReason'' msg_bad_reason f4 else f4)
      in if length (in_NecessityExplanation intent) > 4096
         then put ''necessityExplanation'' msg_long_explanation f5 else f5)"

section \<open>The queue key\<close>

text \<open>The lanes are ordered: automatically eligible jobs come first.\<close>

fun lane_rank :: "PolicyStatus \<Rightarrow> nat" where
  "lane_rank PolicyAutoEligible = 0"
| "lane_rank PolicyCompetitive = 1"
| "lane_rank PolicyUnset = 2"

lemma lane_rank_inj: "lane_rank a = lane_rank b \<Longrightarrow> a = b"
  by (cases a; cases b) auto

instantiation PolicyStatus :: linorder
begin

definition less_eq_PolicyStatus :: "PolicyStatus \<Rightarrow> PolicyStatus \<Rightarrow> bool" where
  "less_eq_PolicyStatus a b \<longleftrightarrow> lane_rank a \<le> lane_rank b"

definition less_PolicyStatus :: "PolicyStatus \<Rightarrow> PolicyStatus \<Rightarrow> bool" where
  "less_PolicyStatus a b \<longleftrightarrow> lane_rank a < lane_rank b"

instance
  by standard (auto simp: less_eq_PolicyStatus_def less_PolicyStatus_def dest: lane_rank_inj)

end

definition queue_key :: "Job \<Rightarrow> PolicyStatus \<times> nat \<times> rat \<times> int \<times> string" where
  "queue_key j = (pol_Status (job_Policy j), necessityRank (in_NecessityLevel (job_Intent j)),
     - pol_AuxiliaryScore (job_Policy j), job_CreatedAt j, job_ID j)"

definition evaluated :: "Job \<Rightarrow> bool" where
  "evaluated j \<longleftrightarrow> pol_Status (job_Policy j) \<noteq> PolicyUnset"

lemma Before_key: "evaluated a \<Longrightarrow> evaluated b \<Longrightarrow> Before a b \<longleftrightarrow> queue_key a < queue_key b"
  by (cases "pol_Status (job_Policy a)"; cases "pol_Status (job_Policy b)")
    (auto simp: Before_def queue_key_def evaluated_def less_PolicyStatus_def less_eq_PolicyStatus_def)

interpretation queue_order: keyed_order "\<lambda>a b. queue_key a < queue_key b" queue_key
  by unfold_locales auto

section \<open>Properties\<close>

lemma decide_evaluated [simp]: "evaluated (j\<lparr>job_Policy := decide f j' now\<rparr>)"
  by (simp add: evaluated_def decide_def Let_def)

text \<open>What \<open>evaluate_all\<close> returns: every job with a fresh decision, or the first provider error.\<close>

lemma evaluate_all_Inr:
  "evaluate_all facts ctx now jobs = Inr js \<Longrightarrow>
   list_all2 (\<lambda>j j'. \<exists>f. facts ctx j = Inr f \<and> j' = j\<lparr>job_Policy := decide f j now\<rparr>) jobs js"
  by (induction jobs arbitrary: js) (auto simp: Evaluate_def split: sum.splits)

lemma evaluate_all_Inl:
  "evaluate_all facts ctx now jobs = Inl e \<Longrightarrow> \<exists>j \<in> set jobs. facts ctx j = Inl e"
  by (induction jobs) (auto simp: Evaluate_def split: sum.splits)

lemma evaluate_all_total:
  "(\<And>j. j \<in> set jobs \<Longrightarrow> \<exists>f. facts ctx j = Inr f) \<Longrightarrow> \<exists>js. evaluate_all facts ctx now jobs = Inr js"
proof (induction jobs)
  case Nil
  then show ?case by simp
next
  case (Cons j js)
  then obtain f js' where "facts ctx j = Inr f" "evaluate_all facts ctx now js = Inr js'"
    by (metis list.set_intros)
  then show ?case by (simp add: Evaluate_def)
qed

lemma evaluate_all_evaluated:
  "evaluate_all facts ctx now jobs = Inr js \<Longrightarrow> j \<in> set js \<Longrightarrow> evaluated j"
  by (induction jobs arbitrary: js) (auto simp: Evaluate_def split: sum.splits)

lemma Order_sorted_key:
  assumes "Order facts ctx jobs now = Inr js"
  shows "sorted_wrt (\<lambda>a b. \<not> queue_key b < queue_key a) js"
proof -
  obtain es where es: "evaluate_all facts ctx now jobs = Inr es" "js = sort_by Before es"
    using assms by (auto simp: Order_def split: sum.splits)
  have "sort_by Before es = sort_by (\<lambda>a b. queue_key a < queue_key b) es"
    using evaluate_all_evaluated [OF es(1)] by (intro sort_by_cong Before_key)
  with es(2) queue_order.sorted_sort_by show ?thesis by simp
qed

lemma Order_perm:
  assumes "Order facts ctx jobs now = Inr js"
  shows "\<exists>es. list_all2 (\<lambda>j j'. \<exists>f. facts ctx j = Inr f \<and> j' = j\<lparr>job_Policy := decide f j now\<rparr>) jobs es
    \<and> mset js = mset es"
proof -
  obtain es where es: "evaluate_all facts ctx now jobs = Inr es" "js = sort_by Before es"
    using assms by (auto simp: Order_def split: sum.splits)
  with evaluate_all_Inr [OF es(1)] show ?thesis by auto
qed

text \<open>
  A successful \<open>Order\<close> returns exactly the given jobs, each with a decision freshly made from
  the provider's facts, in the order of the queue key: lane, necessity, score (higher first),
  creation time, ID.
\<close>

lemma Order_correct:
  assumes "Order facts ctx jobs now = Inr js"
  shows "sorted (map queue_key js) \<and>
    (\<exists>es. list_all2 (\<lambda>j j'. \<exists>f. facts ctx j = Inr f \<and> j' = j\<lparr>job_Policy := decide f j now\<rparr>) jobs es
      \<and> mset js = mset es)"
  using Order_sorted_key [OF assms] Order_perm [OF assms]
  by (simp add: sorted_map not_less)

lemma waiting_weeks_bounds: "0 \<le> waiting_weeks c n" "waiting_weeks c n \<le> 4"
  by (auto simp: waiting_weeks_def Let_def)

lemma go_div_mono: "0 < b \<Longrightarrow> a \<le> a' \<Longrightarrow> go_div a b \<le> go_div a' b"
proof -
  assume b: "0 < b" and le: "a \<le> a'"
  consider "0 \<le> a" | "a < 0" "0 \<le> a'" | "a' < 0" using le by linarith
  then show ?thesis
  proof cases
    case 1
    with b le show ?thesis
      by (auto simp: go_div_def sgn_if zdiv_mono1 pos_imp_zdiv_nonneg_iff)
  next
    case 2
    then have "go_div a b \<le> 0" using b by (simp add: go_div_def sgn_if pos_imp_zdiv_nonneg_iff)
    also have "0 \<le> go_div a' b" using 2 b by (simp add: go_div_def sgn_if pos_imp_zdiv_nonneg_iff)
    finally show ?thesis .
  next
    case 3
    with b le show ?thesis by (auto simp: go_div_def sgn_if zdiv_mono1)
  qed
qed

lemma Sub_mono: "a \<le> a' \<Longrightarrow> Sub a c \<le> Sub a' c"
  by (simp add: Sub_def)

lemma waiting_weeks_mono: "now \<le> now' \<Longrightarrow> waiting_weeks c now \<le> waiting_weeks c now'"
  using go_div_mono [of "7 * 24 * Hour" "Sub now c" "Sub now' c"] Sub_mono [of now now' c]
  by (simp add: waiting_weeks_def Let_def)

text \<open>
  Aging is bounded and monotone: the waiting coefficient lies between 1 and 1.4 and never
  decreases while the clock advances, so a waiting job never loses priority by waiting.
\<close>

lemma WaitingCoefficient_bounded_mono:
  assumes "now \<le> now'"
  shows "1 \<le> WaitingCoefficient c now \<and> WaitingCoefficient c now' \<le> 14 / 10 \<and>
    WaitingCoefficient c now \<le> WaitingCoefficient c now'"
proof -
  have "(of_int (waiting_weeks c now) :: rat) \<le> of_int (waiting_weeks c now')"
    using waiting_weeks_mono [OF assms] by (simp only: of_int_le_iff)
  moreover have "(0 :: rat) \<le> of_int (waiting_weeks c now)"
    using waiting_weeks_bounds(1) by (simp only: of_int_0_le_iff)
  moreover have "(of_int (waiting_weeks c now') :: rat) \<le> of_int 4"
    using waiting_weeks_bounds(2) by (simp only: of_int_le_iff)
  ultimately show ?thesis by (simp add: WaitingCoefficient_def)
qed

lemma importance_tenths:
  "ImportanceCoefficient v = Some c \<Longrightarrow> \<exists>k::int. c = of_int k / 10 \<and> 8 \<le> k \<and> k \<le> 14"
proof -
  assume "ImportanceCoefficient v = Some c"
  then have "c = of_int 14 / 10 \<or> c = of_int 12 / 10 \<or> c = of_int 10 / 10 \<or> c = of_int 8 / 10"
    by (auto simp: ImportanceCoefficient_def split: if_splits)
  then show ?thesis by (elim disjE) (force intro: exI)+
qed

lemma job_importance_tenths: "\<exists>k::int. job_importance j = of_int k / 10 \<and> 8 \<le> k \<and> k \<le> 14"
proof (cases "ImportanceCoefficient (in_SystemImportance (job_Intent j))")
  case None
  then have "job_importance j = of_int 8 / 10" by (simp add: job_importance_def)
  then show ?thesis by fastforce
next
  case (Some c)
  with importance_tenths [OF Some] show ?thesis by (simp add: job_importance_def)
qed

text \<open>
  The rounding of the auxiliary score loses nothing: the score of a decision is exactly
  importance times quota factor times waiting coefficient.
\<close>

lemma AuxiliaryScore_exact:
  "pol_AuxiliaryScore (decide f j now) =
     job_importance j * (if fct_WithinQuota f then 1 else 8 / 10) * WaitingCoefficient (job_CreatedAt j) now"
proof -
  obtain k :: int where k: "job_importance j = of_int k / 10" using job_importance_tenths by blast
  have "AuxiliaryScore (job_importance j) (of_int q / 10) (WaitingCoefficient c now)
      = job_importance j * (of_int q / 10) * WaitingCoefficient c now" for q :: int and c
  proof -
    define w where "w = waiting_weeks c now"
    have "job_importance j * (of_int q / 10) * WaitingCoefficient c now * 1000
        = of_int (k * q * (10 + w))"
      by (simp add: k WaitingCoefficient_def w_def field_simps)
    then have "AuxiliaryScore (job_importance j) (of_int q / 10) (WaitingCoefficient c now)
        = of_int (k * q * (10 + w)) / 1000"
      unfolding AuxiliaryScore_def by (simp only: round_of_int)
    then show ?thesis by (simp add: k WaitingCoefficient_def w_def field_simps)
  qed
  from this [of 10] this [of 8] show ?thesis
    by (simp add: decide_def Let_def)
qed

end
