(* ===== verification/Scheduler.thy ===== *)
theory Scheduler
  imports Domain_Model
begin

text \<open>
  \<open>internal/application/scheduler.go\<close>: the placement of one job on one server by filter, score and
  select. The scorer is an argument (the \<open>SchedulingPolicy\<close> interface), looked up by strategy name;
  the four built-in scorers are defined below. Scores are rational numbers: the built-in scores are
  small integers, or a bounded integer plus a fraction \<open>remaining / (n + 1)\<close>, and \<open>float64\<close>
  arithmetic orders such values the same way for any realistic number of GPUs.
\<close>

section \<open>Scorers\<close>

type_synonym SchedulingPolicy = "Server \<Rightarrow> GPU list \<Rightarrow> GPU list \<Rightarrow> rat"

definition freeGPUCount :: "Server \<Rightarrow> int" where
  "freeGPUCount s = int (length (filter gpu_Schedulable (srv_GPUs s)))"

definition firstFitScore :: SchedulingPolicy where
  "firstFitScore s matching selected = 0"

definition bestFitScore :: SchedulingPolicy where
  "bestFitScore s matching selected = of_int (int (length matching) - int (length selected))"

definition binPackScore :: SchedulingPolicy where
  "binPackScore s matching selected =
     (let free = freeGPUCount s
      in of_int ((free - int (length selected)) * 10 - (int (length (srv_GPUs s)) - free)))"

definition fragmentationScore :: SchedulingPolicy where
  "fragmentationScore s matching selected =
     (let free = freeGPUCount s;
          remaining = free - int (length selected);
          score = (if free = int (length (srv_GPUs s)) then 2 else 0)
                + (if remaining > 0 then 1 else 0)
      in score + of_int remaining / of_int (int (length (srv_GPUs s)) + 1))"

record Scheduler =
  sch_defaultStrategy :: SchedulingStrategy
  sch_offlineAfter :: duration
  sch_policies :: "(SchedulingStrategy, SchedulingPolicy) gomap"

definition NewScheduler :: "SchedulingStrategy \<Rightarrow> duration \<Rightarrow> Scheduler" where
  "NewScheduler strategy offlineAfter =
     \<lparr>sch_defaultStrategy = strategy, sch_offlineAfter = offlineAfter,
      sch_policies = [(StrategyFirstFit, firstFitScore), (StrategyBestFit, bestFitScore),
        (StrategyBinPack, binPackScore), (StrategyFragmentation, fragmentationScore)]\<rparr>"

definition WithPolicy :: "Scheduler \<Rightarrow> SchedulingStrategy \<Rightarrow> SchedulingPolicy \<Rightarrow> Scheduler" where
  "WithPolicy s name p = s\<lparr>sch_policies := put name p (sch_policies s)\<rparr>"

section \<open>Matching GPUs of one server\<close>

definition gpu_less :: "GPU \<Rightarrow> GPU \<Rightarrow> bool" where
  "gpu_less a b = (if AvailableMemoryMiB a = AvailableMemoryMiB b then gpu_UUID a < gpu_UUID b
                   else AvailableMemoryMiB a < AvailableMemoryMiB b)"

definition matchingGPUs :: "GPU list \<Rightarrow> ResourceRequest \<Rightarrow> GPU list" where
  "matchingGPUs gpus request = sort_by gpu_less (filter (Matches request) gpus)"

section \<open>Filter\<close>

record candidate =
  cnd_server :: Server
  cnd_gpus :: "GPU list"
  cnd_score :: rat

text \<open>The constraints some server or GPU satisfied so far, for the reason of a failure.\<close>

record FilterFlags =
  fl_online :: bool
  fl_model :: bool
  fl_healthy :: bool
  fl_available :: bool
  fl_vram :: bool
  fl_external :: bool
  fl_unknown :: bool
  fl_executionUnavailable :: bool
  fl_sameOrganization :: bool

definition no_flags :: FilterFlags where
  "no_flags = \<lparr>fl_online = False, fl_model = False, fl_healthy = False, fl_available = False,
     fl_vram = False, fl_external = False, fl_unknown = False, fl_executionUnavailable = False,
     fl_sameOrganization = False\<rparr>"

definition scan_gpu :: "ResourceRequest \<Rightarrow> FilterFlags \<Rightarrow> GPU \<Rightarrow> FilterFlags" where
  "scan_gpu r f g =
     (if \<not> CapabilityMatches r g then f
      else let f = f\<lparr>fl_model := True\<rparr> in
        if \<not> gpu_Healthy g then f
        else let f = f\<lparr>fl_healthy := True,
                       fl_external := (fl_external f \<or> gpu_State g = GPUOccupiedLegacy),
                       fl_unknown := (fl_unknown f \<or> gpu_State g = GPUOccupiedUnknown)\<rparr> in
          if \<not> gpu_Schedulable g then f
          else let f = f\<lparr>fl_available := True\<rparr> in
            if rq_MinVRAMMiB r \<le> AvailableMemoryMiB g then f\<lparr>fl_vram := True\<rparr> else f)"

definition scan_server ::
  "Job \<Rightarrow> gotime \<Rightarrow> duration \<Rightarrow> FilterFlags \<times> candidate list \<Rightarrow> Server \<Rightarrow> FilterFlags \<times> candidate list" where
  "scan_server job now offlineAfter = (\<lambda>(f, cs) s.
     (if \<not> SameOrganization (job_OrganizationID job) (srv_OrganizationID s) then (f, cs)
      else let f = f\<lparr>fl_sameOrganization := True\<rparr> in
        if (case srv_Capabilities s of None \<Rightarrow> True | Some c \<Rightarrow> \<not> cap_ManagedExecutionReady c)
        then (f\<lparr>fl_executionUnavailable := True\<rparr>, cs)
        else if \<not> srv_Schedulable s now offlineAfter then (f, cs)
        else let f = foldl (scan_gpu (job_Resources job)) (f\<lparr>fl_online := True\<rparr>) (srv_GPUs s);
                 matching = matchingGPUs (srv_GPUs s) (job_Resources job)
             in (f, if rq_GPUCount (job_Resources job) \<le> int (length matching)
                    then cs @ [\<lparr>cnd_server = s, cnd_gpus = matching, cnd_score = 0\<rparr>] else cs)))"

definition filter_reason :: "FilterFlags \<Rightarrow> string" where
  "filter_reason f =
     (if \<not> fl_sameOrganization f then ''no server satisfies organization ownership''
      else if \<not> fl_online f \<and> fl_executionUnavailable f then ''managed GPU execution unavailable''
      else if \<not> fl_online f
      then ''no online agent with fresh inventory (offline, drained or inventory unavailable)''
      else if \<not> fl_model f then ''GPU model unavailable for performance profile / FP8 requirement''
      else if \<not> fl_healthy f then ''no healthy matching GPU''
      else if \<not> fl_available f \<and> fl_external f then ''GPU occupied by external workload''
      else if \<not> fl_available f \<and> fl_unknown f then ''GPU ownership unknown; unsafe to schedule''
      else if \<not> fl_available f then ''matching GPUs already reserved or allocated''
      else if \<not> fl_vram f then ''insufficient available VRAM per GPU''
      else if fl_external f
      then ''insufficient GPU count on one server; external workloads occupy part of the pool''
      else if fl_unknown f
      then ''insufficient GPU count on one server; unknown GPU usage is protected''
      else ''insufficient GPU count on one server'')"

definition filter_servers :: "Job \<Rightarrow> Server list \<Rightarrow> gotime \<Rightarrow> duration \<Rightarrow> candidate list \<times> string" where
  "filter_servers job servers now offlineAfter =
     (case foldl (scan_server job now offlineAfter) (no_flags, []) servers of
        (f, cs) \<Rightarrow> (cs, filter_reason f))"

section \<open>Select and plan\<close>

definition candidate_less :: "candidate \<Rightarrow> candidate \<Rightarrow> bool" where
  "candidate_less a b = (if cnd_score a = cnd_score b then srv_ID (cnd_server a) < srv_ID (cnd_server b)
                         else cnd_score a < cnd_score b)"

definition selectCandidate :: "candidate list \<Rightarrow> candidate" where
  "selectCandidate cs = hd (sort_by candidate_less cs)"

text \<open>\<open>%.4f\<close>: four decimals, ties to even.\<close>

definition fmt_fixed4 :: "rat \<Rightarrow> string" where
  "fmt_fixed4 x =
     (let s = \<bar>x\<bar> * 10000;
          k = \<lfloor>s\<rfloor>;
          r = s - of_int k;
          n = (if r > 1 / 2 \<or> (r = 1 / 2 \<and> odd k) then k + 1 else k);
          frac = show_int (n mod 10000)
      in (if x < 0 then ''-'' else '''') @ show_int (n div 10000) @ ''.'' @
         replicate (4 - length frac) CHR ''0'' @ frac)"

definition plan_reason :: "SchedulingStrategy \<Rightarrow> candidate \<Rightarrow> nat \<Rightarrow> string" where
  "plan_reason strategy w n =
     strategy @ '': server '' @ srv_Name (cnd_server w) @ '', score '' @ fmt_fixed4 (cnd_score w) @
     ''; '' @ show_nat n @ '' whole GPU(s), external/unknown consumers excluded''"

definition score_candidate :: "nat \<Rightarrow> SchedulingPolicy \<Rightarrow> candidate \<Rightarrow> candidate" where
  "score_candidate n policy c =
     (let selected = take n (cnd_gpus c)
      in c\<lparr>cnd_score := policy (cnd_server c) (cnd_gpus c) selected, cnd_gpus := selected\<rparr>)"

definition zero_decision :: PolicyDecision where
  "zero_decision = \<lparr>pol_Status = PolicyUnset, pol_Reason = '''', pol_InSizingPlan = False,
     pol_WithinQuota = False, pol_QuotaUsage = 0, pol_Source = '''', pol_EvaluatedAt = 0,
     pol_AuxiliaryScore = 0\<rparr>"

definition Plan :: "Scheduler \<Rightarrow> Job \<Rightarrow> Server list \<Rightarrow> gotime \<Rightarrow> (go_error \<times> string) + Placement" where
  "Plan s job servers now =
     (let strategy = sch_defaultStrategy s; count = rq_GPUCount (job_Resources job) in
      case map_of (sch_policies s) strategy of
        None \<Rightarrow> Inl (ErrInvalidInput, ''invalid strategy or GPU count'')
      | Some policy \<Rightarrow>
          if count \<le> 0 then Inl (ErrInvalidInput, ''invalid strategy or GPU count'')
          else case filter_servers job servers now (sch_offlineAfter s) of
            (candidates, reason) \<Rightarrow>
              if candidates = [] then Inl (ErrInsufficientGPU, reason)
              else let winner = selectCandidate (map (score_candidate (nat count) policy) candidates);
                       uuids = map gpu_UUID (cnd_gpus winner)
                   in Inr \<lparr>plc_Policy = zero_decision, plc_ServerID = srv_ID (cnd_server winner),
                           plc_GPUUUIDs = uuids, plc_Strategy = strategy, plc_Score = cnd_score winner,
                           plc_Reason = plan_reason strategy winner (length uuids)\<rparr>)"

section \<open>The comparators\<close>

interpretation gpu_order: keyed_order gpu_less gpu_UUID
  by unfold_locales (auto simp: gpu_less_def split: if_splits)

interpretation candidate_order: keyed_order candidate_less "\<lambda>c. srv_ID (cnd_server c)"
  by unfold_locales (auto simp: candidate_less_def split: if_splits)

lemma set_matchingGPUs [simp]: "set (matchingGPUs gpus r) = {g \<in> set gpus. Matches r g}"
  by (auto simp: matchingGPUs_def)

lemma length_matchingGPUs [simp]: "length (matchingGPUs gpus r) = length (filter (Matches r) gpus)"
  by (simp add: matchingGPUs_def)

lemma distinct_matchingGPUs:
  "distinct (map gpu_UUID gpus) \<Longrightarrow> distinct (map gpu_UUID (matchingGPUs gpus r))"
  by (simp add: matchingGPUs_def distinct_map_filter)

lemma matchingGPUs_perm:
  assumes "mset gpus = mset gpus'" and "distinct (map gpu_UUID gpus)"
  shows "matchingGPUs gpus r = matchingGPUs gpus' r"
  unfolding matchingGPUs_def
  by (rule sym, rule gpu_order.sort_by_perm)
    (use assms in \<open>auto simp: distinct_map_filter mset_filter\<close>)

section \<open>The candidates\<close>

definition eligible :: "Job \<Rightarrow> gotime \<Rightarrow> duration \<Rightarrow> Server \<Rightarrow> bool" where
  "eligible job now off s \<longleftrightarrow>
     SameOrganization (job_OrganizationID job) (srv_OrganizationID s) \<and> srv_Schedulable s now off \<and>
     rq_GPUCount (job_Resources job) \<le> int (length (filter (Matches (job_Resources job)) (srv_GPUs s)))"

definition candidate_of :: "Job \<Rightarrow> Server \<Rightarrow> candidate" where
  "candidate_of job s =
     \<lparr>cnd_server = s, cnd_gpus = matchingGPUs (srv_GPUs s) (job_Resources job), cnd_score = 0\<rparr>"

lemma scan_server_candidates:
  "snd (scan_server job now off (f, cs) s) = cs @ (if eligible job now off s then [candidate_of job s] else [])"
  by (auto simp: scan_server_def Let_def eligible_def candidate_of_def srv_Schedulable_def
      split: option.splits)

lemma scan_servers_candidates:
  "snd (foldl (scan_server job now off) (f, cs) servers)
     = cs @ map (candidate_of job) (filter (eligible job now off) servers)"
proof (induction servers arbitrary: f cs)
  case Nil
  then show ?case by simp
next
  case (Cons s servers)
  obtain f' cs' where st: "scan_server job now off (f, cs) s = (f', cs')" by fastforce
  with scan_server_candidates [of job now off f cs s]
  have "cs' = cs @ (if eligible job now off s then [candidate_of job s] else [])" by simp
  with Cons.IH [of f' cs'] st show ?case by simp
qed

lemma filter_servers_candidates:
  "fst (filter_servers job servers now off) = map (candidate_of job) (filter (eligible job now off) servers)"
  using scan_servers_candidates [of job now off no_flags "[]" servers]
  by (auto simp: filter_servers_def split: prod.splits)

definition scored :: "nat \<Rightarrow> SchedulingPolicy \<Rightarrow> Job \<Rightarrow> Server \<Rightarrow> candidate" where
  "scored n policy job s = score_candidate n policy (candidate_of job s)"

lemma scored_fields [simp]:
  "cnd_server (scored n policy job s) = s"
  "cnd_gpus (scored n policy job s) = take n (matchingGPUs (srv_GPUs s) (job_Resources job))"
  "cnd_score (scored n policy job s) =
     policy s (matchingGPUs (srv_GPUs s) (job_Resources job))
       (take n (matchingGPUs (srv_GPUs s) (job_Resources job)))"
  by (simp_all add: scored_def score_candidate_def candidate_of_def Let_def)

text \<open>\<open>Plan\<close> in terms of the eligible servers: the shape all properties below use.\<close>

lemma Plan_unfold:
  "Plan s job servers now =
     (case map_of (sch_policies s) (sch_defaultStrategy s) of
        None \<Rightarrow> Inl (ErrInvalidInput, ''invalid strategy or GPU count'')
      | Some policy \<Rightarrow>
          if rq_GPUCount (job_Resources job) \<le> 0
          then Inl (ErrInvalidInput, ''invalid strategy or GPU count'')
          else if filter (eligible job now (sch_offlineAfter s)) servers = []
          then Inl (ErrInsufficientGPU, snd (filter_servers job servers now (sch_offlineAfter s)))
          else let w = selectCandidate (map (scored (nat (rq_GPUCount (job_Resources job))) policy job)
                     (filter (eligible job now (sch_offlineAfter s)) servers))
               in Inr \<lparr>plc_Policy = zero_decision, plc_ServerID = srv_ID (cnd_server w),
                       plc_GPUUUIDs = map gpu_UUID (cnd_gpus w), plc_Strategy = sch_defaultStrategy s,
                       plc_Score = cnd_score w,
                       plc_Reason = plan_reason (sch_defaultStrategy s) w (length (cnd_gpus w))\<rparr>)"
proof -
  have eq: "(\<lambda>x. score_candidate n policy (candidate_of job x)) = scored n policy job" for n policy
    by (simp add: scored_def fun_eq_iff)
  obtain reason where "filter_servers job servers now (sch_offlineAfter s) =
      (map (candidate_of job) (filter (eligible job now (sch_offlineAfter s)) servers), reason)"
    using filter_servers_candidates [of job servers now "sch_offlineAfter s"] by (metis prod.collapse)
  then show ?thesis by (simp add: Plan_def Let_def comp_def eq split: option.split)
qed

lemma selectCandidate_in: "cs \<noteq> [] \<Longrightarrow> selectCandidate cs \<in> set cs"
  unfolding selectCandidate_def by (metis hd_in_set set_sort_by sort_by_empty_iff)

lemma selectCandidate_least: "c \<in> set cs \<Longrightarrow> \<not> candidate_less c (selectCandidate cs)"
proof -
  assume c: "c \<in> set cs"
  then have "sort_by candidate_less cs \<noteq> []" by auto
  then obtain y ys where y: "sort_by candidate_less cs = y # ys" by (meson neq_Nil_conv)
  from candidate_order.sort_by_hd_least [OF y c] y show ?thesis by (simp add: selectCandidate_def)
qed

lemma Plan_Inr:
  assumes "Plan s job servers now = Inr p"
  obtains policy w where "map_of (sch_policies s) (sch_defaultStrategy s) = Some policy"
    "0 < rq_GPUCount (job_Resources job)"
    "w \<in> set servers" "eligible job now (sch_offlineAfter s) w"
    "plc_ServerID p = srv_ID w"
    "plc_GPUUUIDs p = map gpu_UUID (take (nat (rq_GPUCount (job_Resources job)))
        (matchingGPUs (srv_GPUs w) (job_Resources job)))"
    "\<forall>t \<in> set servers. eligible job now (sch_offlineAfter s) t \<longrightarrow>
       \<not> candidate_less (scored (nat (rq_GPUCount (job_Resources job))) policy job t)
                        (scored (nat (rq_GPUCount (job_Resources job))) policy job w)"
    "plc_Score p = cnd_score (scored (nat (rq_GPUCount (job_Resources job))) policy job w)"
proof -
  let ?n = "nat (rq_GPUCount (job_Resources job))"
  let ?es = "filter (eligible job now (sch_offlineAfter s)) servers"
  obtain policy where pol: "map_of (sch_policies s) (sch_defaultStrategy s) = Some policy"
    using assms by (auto simp: Plan_unfold split: option.splits)
  then have pos: "0 < rq_GPUCount (job_Resources job)" and ne: "?es \<noteq> []"
    using assms by (auto simp: Plan_unfold split: if_splits)
  define w where "w = selectCandidate (map (scored ?n policy job) ?es)"
  have "w \<in> set (map (scored ?n policy job) ?es)"
    unfolding w_def using ne by (intro selectCandidate_in) simp
  then obtain ws where ws: "ws \<in> set ?es" "w = scored ?n policy job ws" by auto
  have p: "p = \<lparr>plc_Policy = zero_decision, plc_ServerID = srv_ID (cnd_server w),
      plc_GPUUUIDs = map gpu_UUID (cnd_gpus w), plc_Strategy = sch_defaultStrategy s,
      plc_Score = cnd_score w, plc_Reason = plan_reason (sch_defaultStrategy s) w (length (cnd_gpus w))\<rparr>"
    using assms pol pos ne by (simp add: Plan_unfold w_def Let_def)
  have least: "\<not> candidate_less (scored ?n policy job t) (scored ?n policy job ws)"
    if "t \<in> set servers" "eligible job now (sch_offlineAfter s) t" for t
    using selectCandidate_least [of "scored ?n policy job t" "map (scored ?n policy job) ?es"] that
    unfolding ws(2) [symmetric] w_def by simp
  show ?thesis
    by (rule that [of policy ws]) (use pol pos ws p least in auto)
qed

lemma Plan_placed:
  assumes "Plan s job servers now = Inr p"
    and "\<forall>t \<in> set servers. distinct (map gpu_UUID (srv_GPUs t))"
  shows "\<exists>t \<in> set servers. plc_ServerID p = srv_ID t \<and>
    SameOrganization (job_OrganizationID job) (srv_OrganizationID t) \<and>
    srv_Schedulable t now (sch_offlineAfter s) \<and>
    int (length (plc_GPUUUIDs p)) = rq_GPUCount (job_Resources job) \<and> distinct (plc_GPUUUIDs p) \<and>
    (\<forall>u \<in> set (plc_GPUUUIDs p). \<exists>g \<in> set (srv_GPUs t). gpu_UUID g = u \<and> Matches (job_Resources job) g)"
proof -
  obtain policy w where w: "0 < rq_GPUCount (job_Resources job)" "w \<in> set servers"
    "eligible job now (sch_offlineAfter s) w" "plc_ServerID p = srv_ID w"
    "plc_GPUUUIDs p = map gpu_UUID (take (nat (rq_GPUCount (job_Resources job)))
        (matchingGPUs (srv_GPUs w) (job_Resources job)))"
    using assms(1) by (rule Plan_Inr) blast
  have d: "distinct (plc_GPUUUIDs p)"
    unfolding w(5) take_map [symmetric]
    by (intro distinct_take distinct_matchingGPUs) (use assms(2) w(2) in auto)
  have m: "\<exists>g \<in> set (srv_GPUs w). gpu_UUID g = u \<and> Matches (job_Resources job) g"
    if "u \<in> set (plc_GPUUUIDs p)" for u
    using that in_set_takeD unfolding w(5) by fastforce
  have len: "int (length (plc_GPUUUIDs p)) = rq_GPUCount (job_Resources job)"
    using w(1,3) by (simp add: w(5) eligible_def min_def) linarith
  show ?thesis
    using w(2-4) d m len by (auto simp: eligible_def intro!: bexI [of _ w])
qed

section \<open>Properties\<close>

text \<open>
  C34. Soundness of a placement: the chosen server belongs to the job's organisation, is schedulable
  with fresh inventory, and the plan lists exactly the requested number of distinct GPUs of that
  server, each of which matches the request.
\<close>

theorem Plan_sound:
  assumes "Plan s job servers now = Inr p"
    and "\<forall>t \<in> set servers. distinct (map gpu_UUID (srv_GPUs t))"
  shows "\<exists>t \<in> set servers. plc_ServerID p = srv_ID t \<and>
    SameOrganization (job_OrganizationID job) (srv_OrganizationID t) \<and>
    srv_Schedulable t now (sch_offlineAfter s) \<and>
    int (length (plc_GPUUUIDs p)) = rq_GPUCount (job_Resources job) \<and> distinct (plc_GPUUUIDs p) \<and>
    (\<forall>u \<in> set (plc_GPUUUIDs p). \<exists>g \<in> set (srv_GPUs t). gpu_UUID g = u \<and> Matches (job_Resources job) g)"
  by (rule Plan_placed [OF assms])

text \<open>
  C35. Optimality: no eligible server scores lower than the chosen one under the configured policy,
  and among equal scores the chosen server has the least ID.
\<close>

theorem Plan_optimal:
  assumes "Plan s job servers now = Inr p"
    and "map_of (sch_policies s) (sch_defaultStrategy s) = Some policy"
    and "t \<in> set servers" and "eligible job now (sch_offlineAfter s) t"
  shows "plc_Score p < cnd_score (scored (nat (rq_GPUCount (job_Resources job))) policy job t) \<or>
    (plc_Score p = cnd_score (scored (nat (rq_GPUCount (job_Resources job))) policy job t) \<and>
     plc_ServerID p \<le> srv_ID t)"
proof -
  obtain policy' w where pol: "map_of (sch_policies s) (sch_defaultStrategy s) = Some policy'"
    and w: "plc_ServerID p = srv_ID w"
      "\<forall>t \<in> set servers. eligible job now (sch_offlineAfter s) t \<longrightarrow>
       \<not> candidate_less (scored (nat (rq_GPUCount (job_Resources job))) policy' job t)
                        (scored (nat (rq_GPUCount (job_Resources job))) policy' job w)"
      "plc_Score p = cnd_score (scored (nat (rq_GPUCount (job_Resources job))) policy' job w)"
    using assms(1) by (rule Plan_Inr) blast
  have "policy' = policy" using pol assms(2) by simp
  then have "\<not> candidate_less (scored (nat (rq_GPUCount (job_Resources job))) policy job t)
                        (scored (nat (rq_GPUCount (job_Resources job))) policy job w)"
    using w(2) assms(3,4) by blast
  with w(1,3) \<open>policy' = policy\<close> show ?thesis
    by (auto simp: candidate_less_def not_less simp del: scored_fields(3) split: if_splits)
qed

text \<open>
  Completeness: with a registered strategy and a positive GPU count, planning fails exactly when
  no server of the organisation is schedulable with enough matching GPUs, and then the error is
  \<open>ErrInsufficientGPU\<close>.
\<close>

lemma Plan_complete:
  assumes "map_of (sch_policies s) (sch_defaultStrategy s) = Some policy"
    and "0 < rq_GPUCount (job_Resources job)"
  shows "((\<exists>p. Plan s job servers now = Inr p) \<longleftrightarrow>
           (\<exists>t \<in> set servers. eligible job now (sch_offlineAfter s) t)) \<and>
    (Plan s job servers now = Inl (e, reason) \<longrightarrow> e = ErrInsufficientGPU)"
  using assms by (auto simp: Plan_unfold Let_def filter_empty_conv split: if_splits)

text \<open>
  Determinism: the placement does not depend on the order in which the servers are listed, when
  their IDs differ. The registry of a Go map has no order, so replays agree.
\<close>

lemma Plan_order_independent:
  assumes "mset servers = mset servers'" and "distinct (map srv_ID servers)"
    and "Plan s job servers now = Inr p"
  shows "Plan s job servers' now = Inr p"
proof -
  let ?E = "eligible job now (sch_offlineAfter s)"
  obtain policy where pol: "map_of (sch_policies s) (sch_defaultStrategy s) = Some policy"
    using assms(3) by (auto simp: Plan_unfold split: option.splits)
  let ?sc = "scored (nat (rq_GPUCount (job_Resources job))) policy job"
  have m: "mset (filter ?E servers') = mset (filter ?E servers)"
    using assms(1) by (simp add: mset_filter)
  have d: "distinct (map (\<lambda>c. srv_ID (cnd_server c)) (map ?sc (filter ?E servers)))"
    using assms(2) by (simp add: comp_def distinct_map_filter)
  have m': "mset (map ?sc (filter ?E servers')) = mset (map ?sc (filter ?E servers))"
    using m by (simp only: mset_map)
  have "sort_by candidate_less (map ?sc (filter ?E servers')) = sort_by candidate_less (map ?sc (filter ?E servers))"
    by (rule candidate_order.sort_by_perm [OF m' d])
  then have sel: "selectCandidate (map ?sc (filter ?E servers')) = selectCandidate (map ?sc (filter ?E servers))"
    by (simp add: selectCandidate_def)
  have "filter ?E servers' = [] \<longleftrightarrow> filter ?E servers = []"
    using m by (metis mset_zero_iff)
  with assms(3) pol sel show ?thesis by (simp add: Plan_unfold Let_def split: if_splits)
qed

lemma freeGPUCount_le: "freeGPUCount s \<le> int (length (srv_GPUs s))"
  by (simp add: freeGPUCount_def)

text \<open>
  The fragmentation score keeps its promise for every number of GPUs: opening an empty host
  always costs more than using a partly used one, and on hosts of the same kind a placement that
  leaves free GPUs behind always costs more than one that fills the host.
\<close>

lemma fragmentationScore_preferences:
  assumes "int (length sel) \<le> freeGPUCount a" and "int (length sel) \<le> freeGPUCount b" and "sel \<noteq> []"
  shows "(freeGPUCount a < int (length (srv_GPUs a)) \<and> freeGPUCount b = int (length (srv_GPUs b)) \<longrightarrow>
            fragmentationScore a ma sel < fragmentationScore b mb sel) \<and>
         ((freeGPUCount a = int (length (srv_GPUs a))) = (freeGPUCount b = int (length (srv_GPUs b))) \<and>
          freeGPUCount a = int (length sel) \<and> int (length sel) < freeGPUCount b \<longrightarrow>
            fragmentationScore a ma sel < fragmentationScore b mb sel)"
proof -
  have frac: "0 \<le> (of_int (freeGPUCount s - int (length sel)) / of_int (int (length (srv_GPUs s)) + 1) :: rat)
      \<and> (of_int (freeGPUCount s - int (length sel)) / of_int (int (length (srv_GPUs s)) + 1) :: rat) < 1"
    if "int (length sel) \<le> freeGPUCount s" for s
  proof -
    have "freeGPUCount s - int (length sel) < int (length (srv_GPUs s)) + 1"
      using freeGPUCount_le [of s] by linarith
    then have "(of_int (freeGPUCount s - int (length sel)) :: rat) < of_int (int (length (srv_GPUs s)) + 1)"
      by (simp only: of_int_less_iff)
    moreover have "(0 :: rat) \<le> of_int (freeGPUCount s - int (length sel))"
      using that by (simp only: of_int_0_le_iff diff_ge_0_iff_ge)
    moreover have "(0 :: rat) < of_int (int (length (srv_GPUs s)) + 1)"
      by (simp only: of_int_0_less_iff)
    ultimately show ?thesis by (simp add: divide_less_eq_1)
  qed
  define fr where "fr s = (of_int (freeGPUCount s - int (length sel)) / of_int (int (length (srv_GPUs s)) + 1) :: rat)" for s
  have ab: "0 \<le> fr a" "fr a < 1" "0 \<le> fr b" "fr b < 1"
    using frac [OF assms(1)] frac [OF assms(2)] unfolding fr_def by blast+
  have score: "fragmentationScore s m sel = (if freeGPUCount s = int (length (srv_GPUs s)) then 2 else 0)
      + (if freeGPUCount s - int (length sel) > 0 then 1 else 0) + fr s" for s m
    by (simp add: fragmentationScore_def Let_def fr_def)
  have zero: "freeGPUCount a = int (length sel) \<Longrightarrow> fr a = 0" by (simp add: fr_def)
  have first: "fragmentationScore a ma sel < fragmentationScore b mb sel"
    if "freeGPUCount a < int (length (srv_GPUs a))" "freeGPUCount b = int (length (srv_GPUs b))"
    using that ab by (simp add: score)
  have second: "fragmentationScore a ma sel < fragmentationScore b mb sel"
    if "(freeGPUCount a = int (length (srv_GPUs a))) = (freeGPUCount b = int (length (srv_GPUs b)))"
      "freeGPUCount a = int (length sel)" "int (length sel) < freeGPUCount b"
    using that ab zero by (simp add: score)
  from first second show ?thesis by blast
qed

end
