(* ===== verification/Catalog.thy ===== *)
theory Catalog
  imports Domain_Model
begin

text \<open>
  \<open>internal/capability/catalog.go\<close>: performance profiles resolved to the GPU models that satisfy
  them. \<open>Resolve\<close> pins the models when a job is admitted; \<open>CapabilityMatches\<close> compares against
  them at planning time and again when the assignment commits.
\<close>

record Model =
  mdl_Name :: string
  mdl_FP8 :: bool

record Profile =
  prf_ID :: string
  prf_Label :: string
  prf_Models :: "Model list"

record Catalog =
  cat_profiles :: "Profile list"
  cat_legacyProfiles :: "Profile list"

definition mdl :: "string \<Rightarrow> bool \<Rightarrow> Model" where
  "mdl n b = \<lparr>mdl_Name = n, mdl_FP8 = b\<rparr>"

definition New_Catalog :: "Profile list \<Rightarrow> Catalog" where
  "New_Catalog profiles = \<lparr>cat_profiles = profiles, cat_legacyProfiles = []\<rparr>"

definition a100_models :: "Model list" where
  "a100_models = [mdl ''A100'' False, mdl ''NVIDIA-A100-80GB'' False,
     mdl ''NVIDIA A100-SXM4-40GB'' False, mdl ''NVIDIA A100-SXM4-80GB'' False,
     mdl ''NVIDIA A100 80GB PCIe'' False]"

definition t4_models :: "Model list" where
  "t4_models = [mdl ''T4'' False, mdl ''Tesla T4'' False, mdl ''NVIDIA T4'' False]"

definition h100_models :: "Model list" where
  "h100_models = [mdl ''H100'' True, mdl ''NVIDIA H100 80GB HBM3'' True, mdl ''NVIDIA H100 PCIe'' True]"

definition h200_models :: "Model list" where
  "h200_models = [mdl ''H200'' True, mdl ''NVIDIA H200'' True, mdl ''NVIDIA H200 NVL'' True]"

definition l40s_models :: "Model list" where
  "l40s_models = [mdl ''L40S'' True, mdl ''NVIDIA L40S'' True]"

definition Default_Catalog :: Catalog where
  "Default_Catalog =
     (let high = h100_models @ h200_models;
          all = t4_models @ a100_models @ high @ l40s_models;
          c = New_Catalog
                [\<lparr>prf_ID = ''AUTO'', prf_Label = ''Auto'', prf_Models = all\<rparr>,
                 \<lparr>prf_ID = ''HIGH_PERFORMANCE'',
                  prf_Label = ''Hi'' @ [CHR 0xE1, CHR 0xBB, CHR 0x87] @ ''u n'' @ [CHR 0xC4, CHR 0x83]
                    @ ''ng cao'',
                  prf_Models = high\<rparr>]
      in c\<lparr>cat_legacyProfiles :=
            [\<lparr>prf_ID = ''general'',
              prf_Label = ''GPU t'' @ [CHR 0xE1, CHR 0xBB, CHR 0x95] @ ''ng qu'' @ [CHR 0xC3, CHR 0xA1] @ ''t'',
              prf_Models = t4_models @ a100_models @ h100_models\<rparr>,
             \<lparr>prf_ID = ''a100-equivalent'', prf_Label = ''A100-equivalent'', prf_Models = a100_models\<rparr>,
             \<lparr>prf_ID = ''h100-equivalent'', prf_Label = ''H100-equivalent'', prf_Models = h100_models\<rparr>]\<rparr>)"

definition Catalog_Profiles :: "Catalog \<Rightarrow> Profile list" where
  "Catalog_Profiles c = map (\<lambda>p. p\<lparr>prf_Models := []\<rparr>) (cat_profiles c)"

definition profile_models :: "bool \<Rightarrow> Profile \<Rightarrow> string list" where
  "profile_models fp8 p =
     sort_by (<) (map (\<lambda>m. TrimSpace (mdl_Name m)) (filter (\<lambda>m. \<not> fp8 \<or> mdl_FP8 m) (prf_Models p)))"

definition Resolve :: "Catalog \<Rightarrow> string \<Rightarrow> bool \<Rightarrow> go_error + string list" where
  "Resolve c profile fp8 =
     (if profile = ''AUTO'' \<and> \<not> fp8 then Inr []
      else case List.find (\<lambda>p. prf_ID p = profile) (cat_profiles c @ cat_legacyProfiles c) of
             None \<Rightarrow> Inl ErrInvalidInput
           | Some p \<Rightarrow> Inr (profile_models fp8 p))"

interpretation model_order: keyed_order "(<) :: string \<Rightarrow> string \<Rightarrow> bool" id
  by unfold_locales auto

lemma profile_models_set:
  "set (profile_models fp8 p) = {TrimSpace (mdl_Name m) | m. m \<in> set (prf_Models p) \<and> (fp8 \<longrightarrow> mdl_FP8 m)}"
  by (auto simp: profile_models_def)

lemma Resolve_cases:
  "Resolve c profile fp8 = Inr models \<Longrightarrow>
   (profile = ''AUTO'' \<and> \<not> fp8 \<and> models = []) \<or>
   (\<exists>p \<in> set (cat_profiles c @ cat_legacyProfiles c). prf_ID p = profile \<and> models = profile_models fp8 p)"
proof -
  assume r: "Resolve c profile fp8 = Inr models"
  show ?thesis
  proof (cases "profile = ''AUTO'' \<and> \<not> fp8")
    case True
    with r show ?thesis by (simp add: Resolve_def)
  next
    case False
    with r obtain p where
      "List.find (\<lambda>p. prf_ID p = profile) (cat_profiles c @ cat_legacyProfiles c) = Some p"
      "models = profile_models fp8 p"
      unfolding Resolve_def by (simp only: if_False split: option.splits) auto
    then show ?thesis using find_SomeD by fastforce
  qed
qed

text \<open>
  A request that requires FP8 can only match a GPU whose model is one of the catalog's
  FP8-capable models of the chosen profile: resolution and matching together never place an FP8 job
  on a model without FP8.
\<close>

lemma fp8_only_on_fp8_models:
  assumes "Resolve c (rq_PerformanceProfile r) True = Inr (rq_ResolvedModels r)" and "rq_FP8Required r"
    and "CapabilityMatches r g"
  shows "\<exists>p \<in> set (cat_profiles c @ cat_legacyProfiles c). prf_ID p = rq_PerformanceProfile r \<and>
    (\<exists>m \<in> set (prf_Models p). mdl_FP8 m \<and> EqualFold (TrimSpace (gpu_Model g)) (TrimSpace (mdl_Name m)))"
proof -
  obtain p where p: "p \<in> set (cat_profiles c @ cat_legacyProfiles c)" "prf_ID p = rq_PerformanceProfile r"
    "rq_ResolvedModels r = profile_models True p"
    using Resolve_cases [OF assms(1)] by blast
  obtain model where m: "model \<in> set (rq_ResolvedModels r)" "EqualFold (TrimSpace (gpu_Model g)) model"
    using assms(2,3) by (auto simp: CapabilityMatches_def list_ex_iff split: if_splits)
  have "set (rq_ResolvedModels r) = {TrimSpace (mdl_Name m) | m. m \<in> set (prf_Models p) \<and> mdl_FP8 m}"
    unfolding p(3) profile_models_set by simp
  with m obtain d where "d \<in> set (prf_Models p)" "mdl_FP8 d" "model = TrimSpace (mdl_Name d)"
    by auto
  with m(2) p(1,2) show ?thesis by (intro bexI [of _ p] conjI bexI [of _ d]) simp_all
qed

text \<open>
  \<open>Resolve\<close> fails with invalid input exactly for the profiles that are in neither list of the
  catalog (\<open>AUTO\<close> without FP8 never consults the lists), and the models it returns are sorted.
\<close>

lemma Resolve_total:
  "(Resolve c profile fp8 = Inl e \<longleftrightarrow> e = ErrInvalidInput \<and> \<not> (profile = ''AUTO'' \<and> \<not> fp8) \<and>
      profile \<notin> prf_ID ` set (cat_profiles c @ cat_legacyProfiles c)) \<and>
   (Resolve c profile fp8 = Inr models \<longrightarrow> sorted models)"
proof
  show "Resolve c profile fp8 = Inl e \<longleftrightarrow> e = ErrInvalidInput \<and> \<not> (profile = ''AUTO'' \<and> \<not> fp8) \<and>
      profile \<notin> prf_ID ` set (cat_profiles c @ cat_legacyProfiles c)"
  proof (cases "List.find (\<lambda>p. prf_ID p = profile) (cat_profiles c @ cat_legacyProfiles c)")
    case None
    then have "profile \<notin> prf_ID ` set (cat_profiles c @ cat_legacyProfiles c)"
      by (auto simp: find_None_iff simp del: set_append)
    with None show ?thesis by (auto simp: Resolve_def)
  next
    case (Some p)
    then have "profile \<in> prf_ID ` set (cat_profiles c @ cat_legacyProfiles c)"
      by (force simp: find_Some_iff simp del: set_append)
    with Some show ?thesis by (simp add: Resolve_def)
  qed
  have "sorted (profile_models fp8 p)" for p
    using model_order.sorted_sort_by [of "map (\<lambda>m. TrimSpace (mdl_Name m)) (filter (\<lambda>m. \<not> fp8 \<or> mdl_FP8 m) (prf_Models p))"]
    by (simp add: profile_models_def not_less)
  then show "Resolve c profile fp8 = Inr models \<longrightarrow> sorted models"
    using Resolve_cases by fastforce
qed

end
