(* ===== verification/Application.thy ===== *)
theory Application
  imports Policy_Engine Scheduler Catalog
begin

text \<open>
  What the application layer is composed of: \<open>ControlPlane\<close>, \<open>Options\<close> and \<open>New\<close> of
  \<open>internal/application/controlplane.go\<close>, the options of the training service
  (\<open>training.go\<close>) and the limits of a request (\<open>validation.go\<close>). The policy, the catalogue and the
  object store are Go interfaces, so they are records of functions here; the object store is code
  outside the repository, so its functions are arguments. Of the metadata store only its presence
  is kept: what its calls return is an argument of the operations that call it. The repository is
  the state the operations take and return.
\<close>

section \<open>Interfaces\<close>

record Evaluator =
  evl_Evaluate :: "reqctx \<Rightarrow> Job \<Rightarrow> gotime \<Rightarrow> go_error + PolicyDecision"
  evl_Order :: "reqctx \<Rightarrow> Job list \<Rightarrow> gotime \<Rightarrow> go_error + Job list"

definition New_Engine :: "FactsProvider \<Rightarrow> Evaluator" where
  "New_Engine facts = \<lparr>evl_Evaluate = Evaluate facts, evl_Order = Order facts\<rparr>"

record Resolver =
  res_Profiles :: "Profile list"
  res_Resolve :: "string \<Rightarrow> bool \<Rightarrow> go_error + string list"

definition catalog_resolver :: "Catalog \<Rightarrow> Resolver" where
  "catalog_resolver c = \<lparr>res_Profiles = Catalog_Profiles c, res_Resolve = Resolve c\<rparr>"

text \<open>\<open>Put\<close> of a key, a body and a size gives a URI; \<open>DownloadURL\<close> signs one for a while.\<close>

record ObjectStore =
  obj_Put :: "string \<Rightarrow> string \<Rightarrow> int \<Rightarrow> go_error + string"
  obj_DownloadURL :: "string \<Rightarrow> duration \<Rightarrow> go_error + string"

section \<open>Limits and training options\<close>

record RequestLimits =
  lim_MaxGPUCount :: int
  lim_MaxTTLSeconds :: int

definition DefaultRequestLimits :: RequestLimits where
  "DefaultRequestLimits = \<lparr>lim_MaxGPUCount = 64, lim_MaxTTLSeconds = 30 * 24 * 3600\<rparr>"

record TrainingOptions =
  trn_APIURL :: string
  trn_WarningFraction :: rat
  trn_MinWarningLead :: duration
  trn_MaxWarningLead :: duration
  trn_UploadTimeout :: duration
  trn_MaxUploadBytes :: int

definition DefaultTrainingOptions :: TrainingOptions where
  "DefaultTrainingOptions = \<lparr>trn_APIURL = '''', trn_WarningFraction = 1 / 10,
     trn_MinWarningLead = 5 * Minute, trn_MaxWarningLead = 30 * Minute, trn_UploadTimeout = 15 * Minute,
     trn_MaxUploadBytes = 5 * 2 ^ 30\<rparr>"

definition withDefaults :: "TrainingOptions \<Rightarrow> TrainingOptions" where
  "withDefaults o0 =
     (let d = DefaultTrainingOptions in o0\<lparr>
        trn_WarningFraction := (if trn_WarningFraction o0 \<le> 0 then trn_WarningFraction d else trn_WarningFraction o0),
        trn_MinWarningLead := (if trn_MinWarningLead o0 \<le> 0 then trn_MinWarningLead d else trn_MinWarningLead o0),
        trn_MaxWarningLead := (if trn_MaxWarningLead o0 \<le> 0 then trn_MaxWarningLead d else trn_MaxWarningLead o0),
        trn_UploadTimeout := (if trn_UploadTimeout o0 \<le> 0 then trn_UploadTimeout d else trn_UploadTimeout o0),
        trn_MaxUploadBytes := (if trn_MaxUploadBytes o0 \<le> 0 then trn_MaxUploadBytes d else trn_MaxUploadBytes o0)\<rparr>)"

section \<open>The control plane\<close>

record ControlPlane =
  cp_objects :: "ObjectStore option"
  cp_training :: TrainingOptions
  cp_hasMetadata :: bool
  cp_policy :: Evaluator
  cp_catalog :: Resolver
  cp_limits :: RequestLimits
  cp_scheduler :: Scheduler
  cp_enrollmentToken :: string
  cp_heartbeatInterval :: duration
  cp_offlineAfter :: duration
  cp_commandLease :: duration

abbreviation cp_order :: "ControlPlane \<Rightarrow> reqctx \<Rightarrow> Job list \<Rightarrow> gotime \<Rightarrow> go_error + Job list" where
  "cp_order c \<equiv> evl_Order (cp_policy c)"

record Options =
  opt_ObjectStore :: "ObjectStore option"
  opt_Training :: TrainingOptions
  opt_hasMetadata :: bool
  opt_PlacementPolicy :: "SchedulingPolicy option"
  opt_Policy :: "Evaluator option"
  opt_Catalog :: "Resolver option"
  opt_RequestLimits :: RequestLimits
  opt_EnrollmentToken :: string
  opt_HeartbeatInterval :: duration
  opt_OfflineAfter :: duration
  opt_CommandLease :: duration
  opt_DefaultStrategy :: SchedulingStrategy

definition default_limits :: "RequestLimits \<Rightarrow> RequestLimits" where
  "default_limits l = l\<lparr>
     lim_MaxGPUCount := (if lim_MaxGPUCount l = 0 then lim_MaxGPUCount DefaultRequestLimits else lim_MaxGPUCount l),
     lim_MaxTTLSeconds := (if lim_MaxTTLSeconds l = 0 then lim_MaxTTLSeconds DefaultRequestLimits
                           else lim_MaxTTLSeconds l)\<rparr>"

definition New_ControlPlane :: "Options \<Rightarrow> ControlPlane" where
  "New_ControlPlane opts =
     (let strategy = (if opt_DefaultStrategy opts = '''' then StrategyBestFit else opt_DefaultStrategy opts);
          scheduler = NewScheduler strategy (opt_OfflineAfter opts);
          scheduler = (case opt_PlacementPolicy opts of None \<Rightarrow> scheduler
                       | Some p \<Rightarrow> WithPolicy scheduler strategy p)
      in \<lparr>cp_objects = opt_ObjectStore opts, cp_training = withDefaults (opt_Training opts),
          cp_hasMetadata = opt_hasMetadata opts,
          cp_policy = (case opt_Policy opts of Some e \<Rightarrow> e
            | None \<Rightarrow> New_Engine (DevelopmentFacts_Facts
                \<lparr>dev_InSizingPlan = False, dev_QuotaGPUs = 4, dev_UsedGPUs = 0\<rparr>)),
          cp_catalog = (case opt_Catalog opts of Some r \<Rightarrow> r | None \<Rightarrow> catalog_resolver Default_Catalog),
          cp_limits = default_limits (opt_RequestLimits opts), cp_scheduler = scheduler,
          cp_enrollmentToken = opt_EnrollmentToken opts,
          cp_heartbeatInterval = opt_HeartbeatInterval opts, cp_offlineAfter = opt_OfflineAfter opts,
          cp_commandLease = opt_CommandLease opts\<rparr>)"

text \<open>The composed scheduler always has a scorer for its strategy and the shared offline timeout.\<close>

lemma New_ControlPlane_scheduler:
  "sch_offlineAfter (cp_scheduler (New_ControlPlane opts)) = cp_offlineAfter (New_ControlPlane opts)"
  by (simp add: New_ControlPlane_def Let_def NewScheduler_def WithPolicy_def split: option.split)

lemma New_ControlPlane_strategy:
  assumes "ValidStrategy (opt_DefaultStrategy opts) \<or> opt_DefaultStrategy opts = '''' \<or>
    opt_PlacementPolicy opts \<noteq> None"
  shows "map_of (sch_policies (cp_scheduler (New_ControlPlane opts)))
    (sch_defaultStrategy (cp_scheduler (New_ControlPlane opts))) \<noteq> None"
  using assms
  by (auto simp: New_ControlPlane_def Let_def NewScheduler_def WithPolicy_def ValidStrategy_def split: option.split)

end
