(* ===== verification/Planning.thy ===== *)
theory Planning
  imports Repository_Laws Application
begin

text \<open>
  \<open>internal/application/planning.go\<close> and \<open>tenancy.go\<close>: the greedy planner that runs inside
  \<open>ReplanReservations\<close>, its preview in \<open>allocation.go\<close>, and the proof that its plans always pass the
  repository's revalidation. The configured policy (\<open>policy.Evaluator\<close>) is an interface: the planner
  is proved against its contract, which the policy engine meets.
\<close>

section \<open>Scope and organisations\<close>

definition scopedJobs :: "reqctx \<Rightarrow> Job list \<Rightarrow> Job list" where
  "scopedJobs ctx jobs = filter (\<lambda>job. CanAccess ctx (job_OrganizationID job)) jobs"

text \<open>The map of organisations that may use the platform; a missing key reads as false.\<close>

definition enabledOrganizations :: "bool \<Rightarrow> go_error + Organization list \<Rightarrow> go_error + (string, bool) gomap" where
  "enabledOrganizations hasMetadata items =
     (if \<not> hasMetadata then Inr []
      else case items of Inl e \<Rightarrow> Inl e
        | Inr os \<Rightarrow> Inr (foldl (\<lambda>m org. put (org_ID org) (org_Enabled org) m) [] os))"

definition org_enabled :: "(string, bool) gomap \<Rightarrow> string \<Rightarrow> bool" where
  "org_enabled enabled org = (map_of enabled org = Some True)"

section \<open>planReservations\<close>

definition cons_plan ::
  "ReservationPlan \<Rightarrow> go_error + ReservationPlan list \<Rightarrow> go_error + ReservationPlan list" where
  "cons_plan entry r = (case r of Inl e \<Rightarrow> Inl e | Inr es \<Rightarrow> Inr (entry # es))"

text \<open>The assignment the planner gives a job in its own bookings: no command, no timestamps.\<close>

definition tentative :: "Job \<Rightarrow> Placement \<Rightarrow> Job" where
  "tentative job p = job\<lparr>job_Assignment := Some
     \<lparr>asg_StartAt = win_StartAt (RequestedWindow job), asg_EndAt = win_EndAt (RequestedWindow job),
      asg_ServerID = plc_ServerID p, asg_GPUUUIDs = plc_GPUUUIDs p, asg_CommandID = '''',
      asg_AssignedAt = 0, asg_ReservationState = ''PLANNED'', asg_ReleasedAt = None,
      asg_Strategy = '''', asg_Score = 0, asg_Reason = ''''\<rparr>\<rparr>"

fun plan_loop ::
  "ControlPlane \<Rightarrow> (string, bool) gomap \<Rightarrow> Server list \<Rightarrow> gotime \<Rightarrow> Job list \<Rightarrow> Job list
     \<Rightarrow> go_error + ReservationPlan list" where
  "plan_loop c enabled servers now [] bookings = Inr []"
| "plan_loop c enabled servers now (job # jobs) bookings =
     (let entry = \<lparr>rp_JobID = job_ID job, rp_Placement = None, rp_Policy = job_Policy job,
            rp_Reason = msg_waiting_window\<rparr>;
          window = RequestedWindow job in
      if \<not> win_Valid window
      then cons_plan (entry\<lparr>rp_Reason := msg_window_missing\<rparr>) (plan_loop c enabled servers now jobs bookings)
      else if \<not> now < win_EndAt window
      then cons_plan (entry\<lparr>rp_Reason := msg_window_ended\<rparr>) (plan_loop c enabled servers now jobs bookings)
      else if cp_hasMetadata c \<and> \<not> org_enabled enabled (job_OrganizationID job)
      then cons_plan (entry\<lparr>rp_Reason := msg_org_not_allowed\<rparr>) (plan_loop c enabled servers now jobs bookings)
      else case Plan (cp_scheduler c) job
                  (CalendarServers job servers bookings now (cp_offlineAfter c)) now of
        Inr p0 \<Rightarrow>
          (let p = p0\<lparr>plc_Policy := job_Policy job\<rparr> in
           cons_plan (entry\<lparr>rp_Placement := Some p, rp_Reason := msg_reserved_by_plan\<rparr>)
             (plan_loop c enabled servers now jobs (bookings @ [tentative job p])))
      | Inl (e, _) \<Rightarrow>
          if e \<noteq> ErrInsufficientGPU then Inl e
          else cons_plan entry (plan_loop c enabled servers now jobs bookings))"

definition planReservations ::
  "ControlPlane \<Rightarrow> reqctx \<Rightarrow> Job list \<Rightarrow> Server list \<Rightarrow> (string, bool) gomap \<Rightarrow> gotime
     \<Rightarrow> go_error + ReservationPlan list" where
  "planReservations c ctx jobs servers enabled now =
     (let candidates = filter (\<lambda>job. Replannable job now) (scopedJobs ctx jobs);
          ids = map job_ID candidates in
      case cp_order c ctx candidates now of
        Inl e \<Rightarrow> Inl e
      | Inr ordered \<Rightarrow>
          plan_loop c enabled servers now ordered (filter (\<lambda>job. \<not> List.member ids (job_ID job)) jobs))"

section \<open>Preview\<close>

record ResourceMatch =
  rm_Satisfiable :: bool
  rm_RecommendedGPUModels :: "string list"
  rm_MatchedGPUCount :: int
  rm_RecommendationText :: string
  rm_UnsatisfiedReason :: string

text \<open>The models of the GPUs a placement names, each once, in order.\<close>

definition recommended_models :: "Server list \<Rightarrow> Placement \<Rightarrow> string list" where
  "recommended_models servers p =
     sort_by (\<lambda>a b. a < b) (remdups (map gpu_Model (filter (\<lambda>g. List.member (plc_GPUUUIDs p) (gpu_UUID g))
       (concat (map srv_GPUs (filter (\<lambda>v. srv_ID v = plc_ServerID p) servers))))))"

text \<open>\<open>matchJob\<close> plans a hypothetical job after the stored ones and reports its entry.\<close>

definition matchJob ::
  "ControlPlane \<Rightarrow> reqctx \<Rightarrow> Job \<Rightarrow> Server list \<Rightarrow> Job list \<Rightarrow> (string, bool) gomap \<Rightarrow> gotime
     \<Rightarrow> go_error + ResourceMatch" where
  "matchJob c ctx job0 servers jobs enabled now =
     (let job = job0\<lparr>job_ID := ''preview-candidate''\<rparr> in
      case planReservations c ctx (jobs @ [job]) servers enabled now of
        Inl e \<Rightarrow> Inl e
      | Inr plans \<Rightarrow>
          (case List.find (\<lambda>e. rp_JobID e = job_ID job) plans of
             None \<Rightarrow> Inr \<lparr>rm_Satisfiable = False, rm_RecommendedGPUModels = [], rm_MatchedGPUCount = 0,
                       rm_RecommendationText = msg_waiting_window, rm_UnsatisfiedReason = msg_waiting_window\<rparr>
           | Some entry \<Rightarrow>
               (case rp_Placement entry of
                  None \<Rightarrow> Inr \<lparr>rm_Satisfiable = False, rm_RecommendedGPUModels = [],
                            rm_MatchedGPUCount = 0, rm_RecommendationText = rp_Reason entry,
                            rm_UnsatisfiedReason = rp_Reason entry\<rparr>
                | Some p \<Rightarrow> Inr \<lparr>rm_Satisfiable = True, rm_RecommendedGPUModels = recommended_models servers p,
                              rm_MatchedGPUCount = int (length (plc_GPUUUIDs p)),
                              rm_RecommendationText = msg_can_hold_prefix @
                                show_int (rq_GPUCount (job_Resources job)) @ msg_can_hold_suffix,
                              rm_UnsatisfiedReason = ''''\<rparr>)))"

section \<open>The policy contract\<close>

definition forget_policy :: "Job \<Rightarrow> Job" where
  "forget_policy j = j\<lparr>job_Policy := zero_decision\<rparr>"

text \<open>What the planner relies on: ordering returns the given jobs with fresh decisions, no more.\<close>

locale queue_policy =
  fixes order :: "Job list \<Rightarrow> gotime \<Rightarrow> go_error + Job list"
  assumes permutes: "order jobs now = Inr js \<Longrightarrow> mset (map forget_policy js) = mset (map forget_policy jobs)"
begin

lemma order_member:
  assumes "order jobs now = Inr js" and "j \<in> set js"
  shows "\<exists>j0 \<in> set jobs. forget_policy j = forget_policy j0"
proof -
  have "forget_policy j \<in> set (map forget_policy js)" using assms(2) by simp
  also have "set (map forget_policy js) = set (map forget_policy jobs)"
    using permutes [OF assms(1)] by (metis set_mset_mset)
  finally show ?thesis by auto
qed

lemma order_ids:
  assumes "order jobs now = Inr js"
  shows "mset (map job_ID js) = mset (map job_ID jobs)"
proof -
  have id: "map job_ID xs = map job_ID (map forget_policy xs)" for xs by (simp add: forget_policy_def)
  show ?thesis using permutes [OF assms] by (metis id mset_map)
qed

end

interpretation engine: queue_policy "Order facts ctx" for facts ctx
proof
  fix jobs now js
  assume "Order facts ctx jobs now = Inr js"
  then obtain es where es: "list_all2 (\<lambda>j j'. \<exists>f. facts ctx j = Inr f \<and> j' = j\<lparr>job_Policy := decide f j now\<rparr>) jobs es"
    "mset js = mset es" using Order_perm by blast
  have "map forget_policy es = map forget_policy jobs"
    using es(1) by (induction rule: list_all2_induct) (auto simp: forget_policy_def)
  with es(2) show "mset (map forget_policy js) = mset (map forget_policy jobs)"
    by (metis mset_map)
qed

section \<open>Plans pass revalidation\<close>

lemma all_match_from:
  assumes "distinct (map gpu_UUID gpus)"
    and "\<forall>u \<in> set us. \<exists>g \<in> set gpus. gpu_UUID g = u \<and> Matches r g"
  shows "all_match r us gpus"
proof -
  have "Matches r g" if g: "g \<in> set gpus" "gpu_UUID g \<in> set us" for g
  proof -
    obtain g' where g': "g' \<in> set gpus" "gpu_UUID g' = gpu_UUID g" "Matches r g'" using assms(2) g(2) by blast
    have "inj_on gpu_UUID (set gpus)" using assms(1) by (simp add: distinct_map)
    from inj_onD [OF this g'(2) g'(1) g(1)] g'(3) show ?thesis by simp
  qed
  then show ?thesis by (simp add: all_match_def list_all_iff)
qed

lemma found_from:
  assumes "distinct (map gpu_UUID gpus)" and "distinct us"
    and "\<forall>u \<in> set us. \<exists>g \<in> set gpus. gpu_UUID g = u"
  shows "found_count us gpus = length us"
proof -
  let ?f = "map gpu_UUID (filter (\<lambda>g. List.member us (gpu_UUID g)) gpus)"
  have "set ?f = set us" using assms(3) by auto
  moreover have "distinct ?f" using assms(1) by (simp add: distinct_map_filter)
  ultimately have "length ?f = length us" using assms(2) by (metis distinct_card)
  then show ?thesis by (simp add: found_count_def)
qed

lemma wf_gpu_calendar: "wf_gpu g \<Longrightarrow> wf_gpu (calendar_gpu job now sid bs g)"
  by (simp add: wf_gpu_def calendar_gpu_def free_after_end_def)

text \<open>The scheduler's placement on the calendar is one the repository accepts.\<close>

lemma Plan_placement_valid:
  assumes plan: "Plan sch job (CalendarServers job servers bs now off) now = Inr p0"
    and off: "sch_offlineAfter sch = off" and wf: "\<forall>v \<in> set servers. wf_server (srv_ID v) v"
    and sel: "job_ServerSelector job = []"
  shows "placement_valid job servers bs now off (p0\<lparr>plc_Policy := pol\<rparr>)"
proof -
  have wfc: "distinct (map gpu_UUID (srv_GPUs t)) \<and> list_all wf_gpu (srv_GPUs t)"
    if t: "t \<in> set (CalendarServers job servers bs now off)" for t
  proof -
    obtain v where v: "v \<in> set servers" "t = calendar_server job now bs v" by (rule calendar_serversE [OF t])
    then have w: "distinct (map gpu_UUID (srv_GPUs v))" "list_all wf_gpu (srv_GPUs v)"
      using wf by (auto simp: wf_server_def)
    then show ?thesis unfolding v(2) calendar_server_frame
      by (simp add: calendar_server_def list_all_iff wf_gpu_calendar)
  qed
  then have "\<forall>t \<in> set (CalendarServers job servers bs now off). distinct (map gpu_UUID (srv_GPUs t))" by blast
  from Plan_placed [OF plan this] obtain t where t: "t \<in> set (CalendarServers job servers bs now off)"
    "plc_ServerID p0 = srv_ID t" "SameOrganization (job_OrganizationID job) (srv_OrganizationID t)"
    "srv_Schedulable t now off" "int (length (plc_GPUUUIDs p0)) = rq_GPUCount (job_Resources job)"
    "distinct (plc_GPUUUIDs p0)"
    "\<forall>u \<in> set (plc_GPUUUIDs p0). \<exists>g \<in> set (srv_GPUs t). gpu_UUID g = u \<and> Matches (job_Resources job) g"
    by (auto simp: off)
  have pos: "0 < rq_GPUCount (job_Resources job)" using plan by (rule Plan_Inr)
  have "'''' \<notin> set (plc_GPUUUIDs p0)"
    using t(7) wfc [OF t(1)] by (auto simp: list_all_iff wf_gpu_def)
  then have "placementMatches job t (p0\<lparr>plc_Policy := pol\<rparr>)"
    using t pos wfc [OF t(1)] all_match_from [of "srv_GPUs t" "plc_GPUUUIDs p0"]
      found_from [of "srv_GPUs t" "plc_GPUUUIDs p0"] sel
    by (auto simp: placementMatches_def valid_uuids_def selector_matches_def)
  with t show ?thesis by (auto simp: placement_valid_def list_ex_iff)
qed

text \<open>What planner and repository read of a job.\<close>

definition same_demand :: "Job \<Rightarrow> Job \<Rightarrow> bool" where
  "same_demand j j' \<longleftrightarrow> job_ID j = job_ID j' \<and> job_Intent j = job_Intent j' \<and>
     job_Resources j = job_Resources j' \<and> job_OrganizationID j = job_OrganizationID j' \<and>
     job_ServerSelector j = job_ServerSelector j'"

lemma placement_valid_cong:
  assumes "same_demand j j'" and "map booking_view bs = map booking_view bs'"
  shows "placement_valid j servers bs now off p = placement_valid j' servers bs' now off p"
proof -
  have "CalendarServers j servers bs now off = CalendarServers j' servers bs' now off"
    using assms by (intro CalendarServers_cong) (simp_all add: same_demand_def)
  moreover have "placementMatches j = placementMatches j'"
    using assms(1) by (simp add: placementMatches_def fun_eq_iff same_demand_def)
  ultimately show ?thesis by (simp add: placement_valid_def)
qed

text \<open>Every job still to be planned has an open entry in the repository's changed map.\<close>

definition plannable :: "(string, Job) gomap \<Rightarrow> Job \<Rightarrow> bool" where
  "plannable ch j \<longleftrightarrow> (case map_of ch (job_ID j) of None \<Rightarrow> False
     | Some c \<Rightarrow> open_entry (job_ID j) c \<and> same_demand j c) \<and>
     \<not> Terminal (job_Status j) \<and> job_ServerSelector j = []"

lemma plannable_put:
  "list_all (plannable ch) js \<Longrightarrow> k \<notin> job_ID ` set js \<Longrightarrow> list_all (plannable (put k x ch)) js"
  by (auto simp: list_all_iff plannable_def image_iff)

lemma tentative_view:
  assumes "same_demand j c" and "open_entry k c" and "\<not> Terminal (job_Status j)"
    and "asg_ServerID a = plc_ServerID p" "asg_GPUUUIDs a = plc_GPUUUIDs p" "asg_ReleasedAt a = None"
      "asg_Window a = RequestedWindow c"
  shows "booking_view (tentative j p) = booking_view (planned_job (c\<lparr>job_Policy := pol\<rparr>) a r now)"
proof -
  have w: "RequestedWindow j = RequestedWindow c"
    using assms(1) by (intro RequestedWindow_cong) (simp add: same_demand_def)
  from assms(7) have "asg_StartAt a = win_StartAt (RequestedWindow c)" "asg_EndAt a = win_EndAt (RequestedWindow c)"
    by (metis asg_Window_def TimeWindow.select_convs)+
  moreover have "\<not> Terminal JobAssigned" by simp
  ultimately show ?thesis using assms w
    by (simp add: booking_view_def tentative_def planned_job_def same_demand_def open_entry_def del: Terminal.simps)
qed

lemma replan_apply_queued:
  assumes "map_of ch (rp_JobID e) = Some c" and "job_ID c = rp_JobID e" and "rp_Placement e = None"
  shows "\<exists>x. replan_apply now s servers (e # es) ch bs n = replan_apply now s servers es (put (rp_JobID e) x ch) bs n"
  using assms by (auto simp: Let_def)

lemma replan_apply_placed:
  assumes "map_of ch (rp_JobID e) = Some c" and "job_ID c = rp_JobID e" and "rp_Placement e = Some p"
    and "win_Valid (RequestedWindow c)" and "now < win_EndAt (RequestedWindow c)"
    and "placement_valid (c\<lparr>job_Policy := rp_Policy e\<rparr>) servers bs now (st_offlineAfter s) p"
  shows "\<exists>a x m. replan_apply now s servers (e # es) ch bs n =
      replan_apply now s servers es (put (rp_JobID e) x ch)
        (bs @ [planned_job (c\<lparr>job_Policy := rp_Policy e\<rparr>) a (rp_Reason e) now]) m \<and>
    asg_ServerID a = plc_ServerID p \<and> asg_GPUUUIDs a = plc_GPUUUIDs p \<and> asg_ReleasedAt a = None \<and>
    asg_Window a = RequestedWindow c"
proof -
  have w: "RequestedWindow (c\<lparr>job_Policy := rp_Policy e\<rparr>) = RequestedWindow c"
    by (rule RequestedWindow_cong) simp
  define a where "a = (let a = planned_assignment (c\<lparr>job_Policy := rp_Policy e\<rparr>) p (rp_Reason e) now;
        old = Option.bind (map_of (st_jobs s) (rp_JobID e)) job_Assignment
      in if same_placement old p then a\<lparr>asg_AssignedAt := asg_AssignedAt (the old)\<rparr> else a)"
  have "asg_ServerID a = plc_ServerID p \<and> asg_GPUUUIDs a = plc_GPUUUIDs p \<and> asg_ReleasedAt a = None \<and>
    asg_Window a = RequestedWindow c"
    by (simp add: a_def Let_def planned_assignment_def asg_Window_def w)
  moreover have "\<exists>x m. replan_apply now s servers (e # es) ch bs n =
      replan_apply now s servers es (put (rp_JobID e) x ch)
        (bs @ [planned_job (c\<lparr>job_Policy := rp_Policy e\<rparr>) a (rp_Reason e) now]) m"
    using assms by (simp add: Let_def w a_def planned_job_def) blast
  ultimately show ?thesis by blast
qed

lemma cons_plan_Inr: "cons_plan e r = Inr es \<longleftrightarrow> (\<exists>es'. r = Inr es' \<and> es = e # es')"
  by (auto simp: cons_plan_def split: sum.split)

text \<open>The planner's loop, one job at a time: what it appends and how it goes on.\<close>

lemma plan_loop_cases:
  assumes "plan_loop c enabled servers now (job # jobs) bs = Inr plans"
  obtains (skipped) e es where "plans = e # es" "rp_JobID e = job_ID job" "rp_Placement e = None"
      "plan_loop c enabled servers now jobs bs = Inr es"
  | (placed) e es p0 p where "plans = e # es" "rp_JobID e = job_ID job" "rp_Placement e = Some p"
      "p = p0\<lparr>plc_Policy := job_Policy job\<rparr>" "win_Valid (RequestedWindow job)"
      "now < win_EndAt (RequestedWindow job)"
      "Plan (cp_scheduler c) job (CalendarServers job servers bs now (cp_offlineAfter c)) now = Inr p0"
      "plan_loop c enabled servers now jobs (bs @ [tentative job p]) = Inr es"
proof (cases "win_Valid (RequestedWindow job) \<and> now < win_EndAt (RequestedWindow job) \<and>
    \<not> (cp_hasMetadata c \<and> \<not> org_enabled enabled (job_OrganizationID job))")
  case False
  have "\<exists>e es. plans = e # es \<and> rp_JobID e = job_ID job \<and> rp_Placement e = None \<and>
      plan_loop c enabled servers now jobs bs = Inr es"
    using assms False by (auto simp: Let_def cons_plan_Inr split: if_splits)
  with skipped show ?thesis by blast
next
  case True
  show ?thesis
  proof (cases "Plan (cp_scheduler c) job (CalendarServers job servers bs now (cp_offlineAfter c)) now")
    case (Inl er)
    obtain e0 r where er: "er = (e0, r)" by (cases er)
    have "\<exists>e es. plans = e # es \<and> rp_JobID e = job_ID job \<and> rp_Placement e = None \<and>
        plan_loop c enabled servers now jobs bs = Inr es"
      using assms True Inl by (auto simp: Let_def cons_plan_Inr er split: if_splits)
    with skipped show ?thesis by blast
  next
    case (Inr p0)
    from assms True Inr obtain es where "plans = \<lparr>rp_JobID = job_ID job,
        rp_Placement = Some (p0\<lparr>plc_Policy := job_Policy job\<rparr>), rp_Policy = job_Policy job,
        rp_Reason = msg_reserved_by_plan\<rparr> # es"
      "plan_loop c enabled servers now jobs (bs @ [tentative job (p0\<lparr>plc_Policy := job_Policy job\<rparr>)]) = Inr es"
      by (auto simp: Let_def cons_plan_Inr split: if_splits)
    with placed [of _ es _ p0] True Inr show ?thesis by simp
  qed
qed

lemma plan_loop_ids:
  "plan_loop c enabled servers now jobs bs = Inr plans \<Longrightarrow> map rp_JobID plans = map job_ID jobs"
proof (induction jobs arbitrary: bs plans)
  case Nil
  then show ?case by simp
next
  case (Cons job jobs)
  from Cons.prems show ?case
    by (cases rule: plan_loop_cases) (simp_all add: Cons.IH)
qed

lemma plan_loop_accepted:
  assumes off: "sch_offlineAfter (cp_scheduler c) = cp_offlineAfter c" "st_offlineAfter s = cp_offlineAfter c"
    and srv: "\<forall>v \<in> set servers. wf_server (srv_ID v) v"
  shows "plan_loop c enabled servers now jobs bp = Inr plans \<Longrightarrow> map booking_view bp = map booking_view br \<Longrightarrow>
    list_all (plannable ch) jobs \<Longrightarrow> distinct (map job_ID jobs) \<Longrightarrow>
    \<exists>r. replan_apply now s servers plans ch br n = Inr r"
proof (induction jobs arbitrary: bp br ch plans n)
  case Nil
  then show ?case by simp
next
  case (Cons job jobs)
  from Cons.prems(3) obtain c0 where c0: "map_of ch (job_ID job) = Some c0" "open_entry (job_ID job) c0"
    "same_demand job c0" and live: "\<not> Terminal (job_Status job)" and sel: "job_ServerSelector job = []"
    by (auto simp: plannable_def simp del: Terminal.simps split: option.splits)
  have id: "job_ID c0 = job_ID job" using c0(2) by (simp add: open_entry_def)
  have later: "list_all (plannable (put (job_ID job) x ch)) jobs" for x
    using Cons.prems(3,4) by (intro plannable_put) auto
  have dist: "distinct (map job_ID jobs)" using Cons.prems(4) by simp
  from Cons.prems(1) show ?case
  proof (cases rule: plan_loop_cases)
    case (skipped e es)
    obtain x where "replan_apply now s servers plans ch br n
        = replan_apply now s servers es (put (rp_JobID e) x ch) br n"
      using replan_apply_queued [of ch e c0] c0(1) id skipped(1-3) by auto
    with Cons.IH [OF skipped(4) Cons.prems(2) later dist] skipped(2) show ?thesis by simp
  next
    case (placed e es p0 p)
    have w: "RequestedWindow c0 = RequestedWindow job"
      using c0(3) by (intro RequestedWindow_cong) (simp add: same_demand_def)
    have "placement_valid job servers bp now (cp_offlineAfter c) p"
      unfolding placed(4) by (rule Plan_placement_valid [OF placed(7) off(1) srv sel])
    moreover have "same_demand job (c0\<lparr>job_Policy := rp_Policy e\<rparr>)" using c0(3) by (simp add: same_demand_def)
    ultimately have valid: "placement_valid (c0\<lparr>job_Policy := rp_Policy e\<rparr>) servers br now (st_offlineAfter s) p"
      using placement_valid_cong [OF _ Cons.prems(2)] off(2) by metis
    obtain a x m where step: "replan_apply now s servers plans ch br n = replan_apply now s servers es
        (put (rp_JobID e) x ch) (br @ [planned_job (c0\<lparr>job_Policy := rp_Policy e\<rparr>) a (rp_Reason e) now]) m"
      and a: "asg_ServerID a = plc_ServerID p" "asg_GPUUUIDs a = plc_GPUUUIDs p" "asg_ReleasedAt a = None"
        "asg_Window a = RequestedWindow c0"
      using replan_apply_placed [OF _ _ placed(3) _ _ valid] placed(1,2,5,6) c0(1) id w by metis
    have "map booking_view (bp @ [tentative job p]) = map booking_view
        (br @ [planned_job (c0\<lparr>job_Policy := rp_Policy e\<rparr>) a (rp_Reason e) now])"
      using Cons.prems(2) tentative_view [OF c0(3,2) live a] by simp
    from Cons.IH [OF placed(8) this later dist] step placed(2) show ?thesis by simp
  qed
qed

lemma claim_succeeds:
  assumes s: "inv s"
  shows "\<forall>e \<in> set es. \<exists>j. map_of (st_jobs s) (rp_JobID e) = Some j \<and> Replannable j now \<Longrightarrow>
    distinct (map rp_JobID es) \<Longrightarrow> \<forall>e \<in> set es. map_of ch (rp_JobID e) = None \<Longrightarrow>
    \<exists>ch'. replan_claim now s es ch = Inr ch' \<and>
      (\<forall>k. map_of ch' k = (if k \<in> rp_JobID ` set es
         then map_option (\<lambda>j. j\<lparr>job_Assignment := None\<rparr>) (map_of (st_jobs s) k) else map_of ch k))"
proof (induction es arbitrary: ch)
  case Nil
  then show ?case by simp
next
  case (Cons e es)
  then obtain j where j: "map_of (st_jobs s) (rp_JobID e) = Some j" "Replannable j now" by auto
  have id: "job_ID j = rp_JobID e" by (rule inv_job_ID [OF s j(1)])
  let ?ch = "put (rp_JobID e) (j\<lparr>job_Assignment := None\<rparr>) ch"
  have "\<forall>e' \<in> set es. map_of ?ch (rp_JobID e') = None" using Cons.prems(2,3) by (auto simp: image_iff)
  from Cons.IH [OF _ _ this] Cons.prems(1,2) obtain ch' where ch': "replan_claim now s es ?ch = Inr ch'"
    "\<forall>k. map_of ch' k = (if k \<in> rp_JobID ` set es
         then map_option (\<lambda>j. j\<lparr>job_Assignment := None\<rparr>) (map_of (st_jobs s) k) else map_of ?ch k)"
    by auto
  have "replan_claim now s (e # es) ch = Inr ch'"
    using j id ch'(1) Cons.prems(3) by simp
  with ch'(2) j show ?case by auto
qed

lemma candidates_facts:
  assumes s: "inv s" and j: "j \<in> set (jobs_by_id s)"
  shows "map_of (st_jobs s) (job_ID j) = Some j"
proof -
  obtain k where k: "(k, j) \<in> set (st_jobs s)" using j by (auto simp: jobs_by_id_def)
  moreover have "wf_map (st_jobs s)" using s by (simp add: inv_def wf_store_def)
  ultimately have m: "map_of (st_jobs s) k = Some j" by simp
  with inv_job_ID [OF s m] show ?thesis by simp
qed

lemma jobs_by_id_distinct: "inv s \<Longrightarrow> distinct (map job_ID (jobs_by_id s))"
proof -
  assume s: "inv s"
  have "map job_ID (map snd (st_jobs s)) = gokeys (st_jobs s)"
    using s by (auto simp: inv_def wf_store_def list_all_iff wf_job_def)
  moreover have "wf_map (st_jobs s)" using s by (simp add: inv_def wf_store_def)
  ultimately show ?thesis unfolding jobs_by_id_def distinct_map_sort_by by metis
qed

context queue_policy
begin

text \<open>What the repository receives: one plan per replannable job, each with an open entry.\<close>

lemma ordered_plannable:
  assumes s: "inv s" and order: "order (filter P (jobs_by_id s)) now = Inr ordered"
    and P: "\<And>j. P j \<Longrightarrow> Replannable j now"
    and sel: "\<And>j. j \<in> set (jobs_by_id s) \<Longrightarrow> P j \<Longrightarrow> job_ServerSelector j = []"
    and ch: "\<And>j. j \<in> set (filter P (jobs_by_id s)) \<Longrightarrow>
      map_of ch (job_ID j) = Some (j\<lparr>job_Assignment := None\<rparr>)"
  shows "list_all (plannable ch) ordered"
  unfolding list_all_iff
proof
  fix j assume "j \<in> set ordered"
  from order_member [OF order this] obtain j0 where j0: "j0 \<in> set (filter P (jobs_by_id s))"
    "forget_policy j = forget_policy j0" by blast
  have eq: "f (forget_policy j) = f (forget_policy j0)" for f :: "Job \<Rightarrow> 'c" using j0(2) by simp
  have sd: "same_demand j (j0\<lparr>job_Assignment := None\<rparr>)" "job_Status j = job_Status j0"
    using eq [of job_ID] eq [of job_Intent] eq [of job_Resources] eq [of job_OrganizationID]
      eq [of job_ServerSelector] eq [of job_Status]
    by (simp_all add: forget_policy_def same_demand_def)
  have "\<not> Terminal (job_Status j0)" using P j0(1) Replannable_live by auto
  moreover have "job_ServerSelector j0 = []" using sel j0(1) by auto
  ultimately show "plannable ch j"
    using ch [OF j0(1)] sd by (simp add: plannable_def open_entry_def same_demand_def del: Terminal.simps)
qed

lemma planned_accepted:
  assumes s: "inv s" and c: "cp_order c ctx = order"
    and off: "sch_offlineAfter (cp_scheduler c) = cp_offlineAfter c" "st_offlineAfter s = cp_offlineAfter c"
    and sel: "\<forall>(k, j) \<in> set (st_jobs s). Replannable j now \<and> CanAccess ctx (job_OrganizationID j) \<longrightarrow>
      job_ServerSelector j = []"
    and plan: "planReservations c ctx (jobs_by_id s) (servers_by_id s) enabled now = Inr plans"
  shows "\<exists>n s'. ReplanReservations now (\<lambda>jobs servers. planReservations c ctx jobs servers enabled now) s = (Inr n, s')"
proof -
  let ?P = "\<lambda>j. Replannable j now \<and> CanAccess ctx (job_OrganizationID j)"
  let ?cands = "filter ?P (jobs_by_id s)"
  have cands: "filter (\<lambda>job. Replannable job now) (scopedJobs ctx (jobs_by_id s)) = ?cands"
    by (simp add: scopedJobs_def conj_commute)
  obtain ordered where ord: "order ?cands now = Inr ordered" and
    loop: "plan_loop c enabled (servers_by_id s) now ordered
      (filter (\<lambda>job. \<not> List.member (map job_ID ?cands) (job_ID job)) (jobs_by_id s)) = Inr plans"
    using plan unfolding planReservations_def Let_def cands c by (auto split: sum.splits)
  have ids: "mset (map rp_JobID plans) = mset (map job_ID ?cands)"
    using order_ids [OF ord] plan_loop_ids [OF loop] by simp
  then have idset: "rp_JobID ` set plans = job_ID ` set ?cands" by (metis list.set_map set_mset_mset)
  have "distinct (map job_ID ?cands)" using jobs_by_id_distinct [OF s] by (rule distinct_map_filter)
  then have dist: "distinct (map rp_JobID plans)" "distinct (map job_ID ordered)"
    using ids order_ids [OF ord] by (metis mset_eq_imp_distinct_iff)+
  have "\<exists>j. map_of (st_jobs s) (rp_JobID e) = Some j \<and> Replannable j now" if "e \<in> set plans" for e
  proof -
    have "rp_JobID e \<in> job_ID ` set ?cands" using idset that by blast
    then obtain j where "j \<in> set ?cands" "job_ID j = rp_JobID e" by auto
    with candidates_facts [OF s, of j] show ?thesis by auto
  qed
  from claim_succeeds [OF s _ dist(1), of now "[]"] this obtain ch where
    cl: "replan_claim now s plans [] = Inr ch" and
    ch: "\<forall>k. map_of ch k = (if k \<in> rp_JobID ` set plans
       then map_option (\<lambda>j. j\<lparr>job_Assignment := None\<rparr>) (map_of (st_jobs s) k) else None)" by auto
  have entries: "map_of ch (job_ID j) = Some (j\<lparr>job_Assignment := None\<rparr>)" if "j \<in> set ?cands" for j
    using that ch idset candidates_facts [OF s, of j] by auto
  have same: "map_of ch (job_ID j) = None \<longleftrightarrow> \<not> List.member (map job_ID ?cands) (job_ID j)"
    if "j \<in> set (jobs_by_id s)" for j
    using ch idset candidates_facts [OF s that] by auto
  have bookings: "filter (\<lambda>job. \<not> List.member (map job_ID ?cands) (job_ID job)) (jobs_by_id s) =
      filter (\<lambda>j. map_of ch (job_ID j) = None) (jobs_by_id s)"
    by (rule filter_cong) (use same in auto)
  have wf: "\<forall>v \<in> set (servers_by_id s). wf_server (srv_ID v) v"
    using s by (auto simp: servers_by_id_def inv_def wf_store_def list_all_iff wf_server_def)
  have pl: "list_all (plannable ch) ordered"
    by (rule ordered_plannable [OF s ord _ _ entries]) (use sel in \<open>auto simp: jobs_by_id_def\<close>)
  obtain r where "replan_apply now s (servers_by_id s) plans ch
      (filter (\<lambda>j. map_of ch (job_ID j) = None) (jobs_by_id s)) 0 = Inr r"
    using plan_loop_accepted [OF off wf loop [unfolded bookings] refl pl dist(2)] by blast
  with plan cl show ?thesis by (cases r) (simp add: ReplanReservations_def Let_def)
qed

end

text \<open>
  C18. The planner and the repository agree: a plan computed by the greedy planner with the policy
  engine on a snapshot of a good store always passes the revalidation of \<open>ReplanReservations\<close>, when
  planner and store use the same offline timeout and no job it may plan anew (visible to the caller and
  replannable) restricts its servers by label; what other jobs ask for does not matter.
\<close>

theorem planner_never_conflicts:
  assumes "inv s" and "cp_order c = Order facts"
    and "sch_offlineAfter (cp_scheduler c) = cp_offlineAfter c" and "st_offlineAfter s = cp_offlineAfter c"
    and "\<forall>(k, j) \<in> set (st_jobs s). Replannable j now \<and> CanAccess ctx (job_OrganizationID j) \<longrightarrow> job_ServerSelector j = []"
    and "planReservations c ctx (jobs_by_id s) (servers_by_id s) enabled now = Inr plans"
  shows "\<exists>n s'. ReplanReservations now (\<lambda>jobs servers. planReservations c ctx jobs servers enabled now) s = (Inr n, s')"
  by (rule engine.planned_accepted [OF assms(1) _ assms(3-6)]) (simp add: assms(2))

end
