(* ===== verification/Agent_Protocol.thy ===== *)
theory Agent_Protocol
  imports Store_Safety
begin

text \<open>
  The agent protocol: the wire types of \<open>internal/agentprotocol/v1\<close>, \<open>inventoryToDomain\<close>
  (\<open>internal/application/agent_protocol.go\<close>), which validates an agent's report, and the agent-facing
  entry points \<open>ReportInventory\<close>, \<open>Heartbeat\<close>, \<open>PollCommands\<close> and \<open>AckCommand\<close> of
  \<open>internal/application/controlplane.go\<close> (the receiver's clock is the parameter \<open>now\<close>). Host and
  process items have the same fields on the wire as in the domain, so they share their records.
\<close>

section \<open>Wire types\<close>

record WireGPU =
  wg_UUID :: string
  wg_Index :: int
  wg_Model :: string
  wg_MemoryTotalMiB :: int
  wg_MemoryUsedMiB :: int
  wg_UtilizationPct :: rat
  wg_TemperatureC :: rat
  wg_Healthy :: bool
  wg_State :: string

record WireContainer =
  wc_ID :: string
  wc_Name :: string
  wc_Image :: string
  wc_State :: string
  wc_Origin :: string
  wc_JobID :: string
  wc_GPUUUIDs :: "string list"
  wc_Labels :: labels
  wc_StartedAt :: "gotime option"
  wc_FinishedAt :: "gotime option"
  wc_ExitCode :: "int option"

record WireReport =
  wr_Capabilities :: "Capabilities option"
  wr_Host :: HostInfo
  wr_Sequence :: "64 word"
  wr_ObservedAt :: gotime
  wr_DockerVersion :: string
  wr_GPUs :: "WireGPU list"
  wr_Containers :: "WireContainer list"
  wr_Processes :: "GPUProcess list"

section \<open>inventoryToDomain\<close>

text \<open>A report without capabilities is a complete observation that cannot prove readiness.\<close>

definition report_capabilities :: "WireReport \<Rightarrow> Capabilities" where
  "report_capabilities r =
     (let c = (case wr_Capabilities r of
                 None \<Rightarrow> zero_capabilities\<lparr>cap_DockerAvailable := True, cap_GPUInventoryAvailable := True,
                           cap_NVMLAvailable := True\<rparr>
               | Some c \<Rightarrow> c)
      in if \<not> cap_NVMLAvailable c then c\<lparr>cap_GPUInventoryAvailable := False\<rparr> else c)"

definition gpu_to_domain :: "WireGPU \<Rightarrow> GPU" where
  "gpu_to_domain g = \<lparr>gpu_UUID = TrimSpace (wg_UUID g), gpu_Index = wg_Index g, gpu_Model = wg_Model g,
     gpu_MemoryTotalMiB = wg_MemoryTotalMiB g, gpu_MemoryUsedMiB = wg_MemoryUsedMiB g,
     gpu_UtilizationPct = wg_UtilizationPct g, gpu_TemperatureC = wg_TemperatureC g,
     gpu_Healthy = wg_Healthy g,
     gpu_State = (if wg_State g = ''OCCUPIED_UNKNOWN'' then GPUOccupiedUnknown else GPUFree),
     gpu_AssignedJobID = '''', gpu_ObservedConsumers = [], gpu_StateReason = ''''\<rparr>"

text \<open>The GPU loop stops at the first invalid or duplicate item.\<close>

fun convert_gpus :: "string list \<Rightarrow> WireGPU list \<Rightarrow> go_error + GPU list" where
  "convert_gpus seen [] = Inr []"
| "convert_gpus seen (g # gs) =
     (let u = TrimSpace (wg_UUID g) in
      if u = '''' \<or> wg_Index g < 0 \<or> wg_MemoryTotalMiB g \<le> 0 \<or> wg_MemoryUsedMiB g < 0
      then Inl ErrInvalidInput
      else if List.member seen u then Inl ErrInvalidInput
      else case convert_gpus (u # seen) gs of Inl e \<Rightarrow> Inl e | Inr ds \<Rightarrow> Inr (gpu_to_domain g # ds))"

definition container_to_domain :: "WireContainer \<Rightarrow> Container" where
  "container_to_domain c = \<lparr>ctr_ID = wc_ID c, ctr_Name = wc_Name c, ctr_Image = wc_Image c,
     ctr_State = wc_State c,
     ctr_Origin = (if ToUpper (wc_Origin c) = ''MANAGED'' then ContainerManaged
                   else if ToUpper (wc_Origin c) = ''LEGACY'' then ContainerLegacy else ContainerUnknown),
     ctr_JobID = wc_JobID c, ctr_GPUUUIDs = wc_GPUUUIDs c, ctr_Labels = wc_Labels c,
     ctr_StartedAt = wc_StartedAt c, ctr_FinishedAt = wc_FinishedAt c, ctr_ExitCode = wc_ExitCode c\<rparr>"

definition convert_containers :: "WireContainer list \<Rightarrow> go_error + Container list" where
  "convert_containers cs =
     (if list_ex (\<lambda>c. TrimSpace (wc_ID c) = '''') cs then Inl ErrInvalidInput
      else Inr (map container_to_domain cs))"

definition convert_processes :: "GPUProcess list \<Rightarrow> go_error + GPUProcess list" where
  "convert_processes ps =
     (if list_ex (\<lambda>p. proc_PID p \<le> 0 \<or> TrimSpace (proc_GPUUUID p) = '''') ps then Inl ErrInvalidInput
      else Inr ps)"

definition inventoryToDomain :: "WireReport \<Rightarrow> go_error + InventoryReport" where
  "inventoryToDomain report =
     (let c = report_capabilities report;
          gpus = (if cap_GPUInventoryAvailable c then wr_GPUs report else []);
          processes = (if cap_GPUInventoryAvailable c then wr_Processes report else []);
          containers = (if cap_DockerAvailable c then wr_Containers report else []);
          caps = Normalize (c\<lparr>cap_GPUCount := int (length gpus)\<rparr>) in
      case convert_gpus [] gpus of Inl e \<Rightarrow> Inl e
      | Inr gs \<Rightarrow>
          (case convert_containers containers of Inl e \<Rightarrow> Inl e
           | Inr cs \<Rightarrow>
               (case convert_processes processes of Inl e \<Rightarrow> Inl e
                | Inr ps \<Rightarrow>
                    Inr \<lparr>rep_Capabilities = Some caps, rep_Host = wr_Host report,
                      rep_Sequence = wr_Sequence report, rep_ObservedAt = wr_ObservedAt report,
                      rep_GPUs = gs, rep_Containers = cs, rep_Processes = ps, rep_ReceivedAt = 0,
                      rep_DockerVersion = wr_DockerVersion report\<rparr>)))"

section \<open>Entry points for agents\<close>

definition ReportInventory :: "string \<Rightarrow> WireReport \<Rightarrow> gotime \<Rightarrow> Store \<Rightarrow> Server outcome" where
  "ReportInventory agentID report now s =
     (if wr_Sequence report = 0 then (Inl ErrInvalidInput, s)
      else
        (let report = (if IsZero (wr_ObservedAt report) then report\<lparr>wr_ObservedAt := now\<rparr> else report) in
         case inventoryToDomain report of
           Inl e \<Rightarrow> (Inl e, s)
         | Inr d \<Rightarrow> ReplaceInventory agentID (d\<lparr>rep_ReceivedAt := now\<rparr>) s))"

text \<open>At most a hundred commands per poll, whatever the agent asks for; the wire form drops the rest.\<close>

record WireCommand =
  wcmd_ID :: string
  wcmd_Type :: CommandType
  wcmd_Payload :: Payload

definition PollCommands ::
  "duration \<Rightarrow> string \<Rightarrow> int \<Rightarrow> gotime \<Rightarrow> Store \<Rightarrow> WireCommand list outcome" where
  "PollCommands commandLease agentID limit now s =
     (case LeaseCommands agentID now commandLease (if limit > 100 then 100 else limit) s of
        (Inl e, s') \<Rightarrow> (Inl e, s')
      | (Inr cs, s') \<Rightarrow>
          (Inr (map (\<lambda>c. \<lparr>wcmd_ID = cmd_ID c, wcmd_Type = cmd_Type c, wcmd_Payload = cmd_Payload c\<rparr>) cs), s'))"

section \<open>Properties\<close>

lemma convert_gpus_uuids:
  "convert_gpus seen gs = Inr ds \<Longrightarrow>
   distinct (map gpu_UUID ds) \<and> set (map gpu_UUID ds) \<inter> set seen = {} \<and> list_all wf_gpu ds \<and>
   list_all (\<lambda>g. gpu_AssignedJobID g = '''' \<and> (gpu_State g = GPUFree \<or> gpu_State g = GPUOccupiedUnknown)) ds \<and>
   length ds = length gs"
proof (induction gs arbitrary: seen ds)
  case Nil
  then show ?case by simp
next
  case (Cons g gs)
  let ?u = "TrimSpace (wg_UUID g)"
  from Cons.prems obtain ds' where ds: "convert_gpus (?u # seen) gs = Inr ds'" "ds = gpu_to_domain g # ds'"
    and ok: "?u \<noteq> ''''" "0 < wg_MemoryTotalMiB g" "0 \<le> wg_MemoryUsedMiB g" "?u \<notin> set seen"
    by (auto simp: Let_def split: if_splits sum.splits)
  from Cons.IH [OF ds(1)] ok show ?case
    by (auto simp: ds(2) gpu_to_domain_def wf_gpu_def)
qed

text \<open>
  Reports are validated, not trusted: an accepted report lists GPUs with distinct non-empty UUIDs
  and sane memory, none of them claimed for a job or in a state only the control plane may set, and its
  execution readiness is recomputed from the observations, whatever the agent advertised.
\<close>

lemma accepted_report_is_sane:
  assumes "inventoryToDomain r = Inr d"
  shows "report_ok d s \<and>
    list_all (\<lambda>g. gpu_AssignedJobID g = '''' \<and> (gpu_State g = GPUFree \<or> gpu_State g = GPUOccupiedUnknown)) (rep_GPUs d) \<and>
    (\<exists>c. rep_Capabilities d = Some (Normalize c) \<and> cap_GPUCount c = int (length (rep_GPUs d)) \<and>
      (\<not> cap_NVMLAvailable c \<longrightarrow> rep_GPUs d = [] \<and> rep_Processes d = []))"
proof -
  let ?c = "report_capabilities r"
  let ?gpus = "if cap_GPUInventoryAvailable ?c then wr_GPUs r else []"
  obtain gs cs ps where g: "convert_gpus [] ?gpus = Inr gs" and
    p: "convert_processes (if cap_GPUInventoryAvailable ?c then wr_Processes r else []) = Inr ps" and
    d: "rep_GPUs d = gs" "rep_Processes d = ps"
      "rep_Capabilities d = Some (Normalize (?c\<lparr>cap_GPUCount := int (length ?gpus)\<rparr>))"
    using assms by (auto simp: inventoryToDomain_def Let_def split: sum.splits)
  have nvml: "\<not> cap_NVMLAvailable ?c \<longrightarrow> \<not> cap_GPUInventoryAvailable ?c"
    by (simp add: report_capabilities_def Let_def)
  from convert_gpus_uuids [OF g] p d nvml show ?thesis
    by (auto simp: report_ok_def convert_processes_def)
qed

text \<open>
  Whatever an agent reports, the repository stays consistent: the store invariant holds after
  \<open>ReportInventory\<close>, every job evolves legally, and a rejected report changes nothing.
\<close>

lemma report_keeps_invariant:
  assumes "inv s"
  shows "inv (snd (ReportInventory a r now s)) \<and>
    history (st_jobs s) (st_jobs (snd (ReportInventory a r now s))) \<and>
    (case fst (ReportInventory a r now s) of Inl e \<Rightarrow> snd (ReportInventory a r now s) = s | Inr v \<Rightarrow> True)"
proof -
  let ?r = "if IsZero (wr_ObservedAt r) then r\<lparr>wr_ObservedAt := now\<rparr> else r"
  consider "snd (ReportInventory a r now s) = s"
    | d where "inventoryToDomain ?r = Inr d"
        "ReportInventory a r now s = ReplaceInventory a (d\<lparr>rep_ReceivedAt := now\<rparr>) s"
    by (cases "wr_Sequence r = 0"; cases "inventoryToDomain ?r") (simp_all add: ReportInventory_def Let_def)
  then show ?thesis
  proof cases
    case 1
    with assms show ?thesis by (simp split: sum.split)
  next
    case (2 d)
    then have "distinct (map gpu_UUID (rep_GPUs d)) \<and> list_all wf_gpu (rep_GPUs d)"
      using convert_gpus_uuids by (fastforce simp: inventoryToDomain_def Let_def split: sum.splits)
    then have ok: "report_ok (d\<lparr>rep_ReceivedAt := now\<rparr>) s" by (simp add: report_ok_def)
    show ?thesis
      unfolding 2(2) using assms inventory.keeps [OF assms ok, of a] inventory.grows [OF assms ok, of a]
        inventory.atomic [of a "d\<lparr>rep_ReceivedAt := now\<rparr>" s]
      by (cases "ReplaceInventory a (d\<lparr>rep_ReceivedAt := now\<rparr>) s") (auto split: sum.split)
  qed
qed

end
