(* ===== verification/Samples.thy ===== *)
theory Samples
  imports Planning Agent_Protocol
begin

text \<open>
  Concrete values for the witnesses: one GPU server with two free GPUs, jobs with and without a time
  window, and a short run of the control plane that books GPUs for two jobs, dispatches two others
  and cancels a fifth.
\<close>

section \<open>Values\<close>

text \<open>1 May 2026, 08:00 UTC.\<close>

definition t0 :: gotime where "t0 = 63913219200 * Second"

definition off0 :: duration where "off0 = 30 * Second"

definition sample_caps :: Capabilities where
  "sample_caps = Normalize (zero_capabilities\<lparr>cap_AgentOperational := True, cap_OS := ''linux'',
     cap_Architecture := ''amd64'', cap_DockerAvailable := True, cap_DockerAPIVersion := ''1.47'',
     cap_DockerOS := ''linux'', cap_GPUInventoryAvailable := True, cap_NVMLAvailable := True,
     cap_GPUCount := 2, cap_NVIDIAContainerSupport := True\<rparr>)"

definition gpu_of :: "string \<Rightarrow> GPU" where
  "gpu_of u = \<lparr>gpu_UUID = u, gpu_Index = 0, gpu_Model = ''NVIDIA L40S'', gpu_MemoryTotalMiB = 46068,
     gpu_MemoryUsedMiB = 0, gpu_UtilizationPct = 0, gpu_TemperatureC = 35, gpu_Healthy = True,
     gpu_State = GPUFree, gpu_AssignedJobID = '''', gpu_ObservedConsumers = [], gpu_StateReason = ''''\<rparr>"

definition registration :: Server where
  "registration = zero_server\<lparr>srv_ID := ''srv1'', srv_MachineID := ''m1'', srv_Name := ''gpu-a'',
     srv_OrganizationID := ''org1'', srv_Status := ServerOnline, srv_LastHeartbeatAt := t0,
     srv_Capabilities := Some sample_caps, srv_TokenHash := ''h''\<rparr>"

definition report :: "64 word \<Rightarrow> gotime \<Rightarrow> Container list \<Rightarrow> InventoryReport" where
  "report n t cs = \<lparr>rep_Capabilities = Some sample_caps, rep_Host = zero_host, rep_Sequence = n,
     rep_ObservedAt = t, rep_GPUs = [gpu_of ''GPU-1'', gpu_of ''GPU-2''], rep_Containers = cs,
     rep_Processes = [], rep_ReceivedAt = t, rep_DockerVersion = ''27.0''\<rparr>"

definition no_training :: TrainingState where
  "no_training = \<lparr>tr_CheckpointStatus = CheckpointNone, tr_LatestCheckpointURI = '''',
     tr_CheckpointCreatedAt = 0, tr_CheckpointStep = 0, tr_CheckpointWarningAt = 0,
     tr_ArtifactStatus = ArtifactNone, tr_FinalArtifactURI = '''', tr_ArtifactCreatedAt = 0,
     tr_ResumeCheckpointURI = '''', tr_ResumeFromJobID = '''', tr_Revision = 0, tr_UploadID = '''',
     tr_UploadKind = '''', tr_UploadStartedAt = 0\<rparr>"

definition sample_policy :: PolicyDecision where
  "sample_policy = \<lparr>pol_Status = PolicyAutoEligible, pol_Reason = '''', pol_InSizingPlan = True,
     pol_WithinQuota = True, pol_QuotaUsage = 0, pol_Source = ''dev'', pol_EvaluatedAt = t0,
     pol_AuxiliaryScore = 0\<rparr>"

definition request :: ResourceRequest where
  "request = \<lparr>rq_PerformanceProfile = ''AUTO'', rq_FP8Required = False, rq_ResolvedModels = [],
     rq_GPUCount = 1, rq_GPUModel = '''', rq_MinVRAMMiB = 16000, rq_CPUMilli = 1000,
     rq_MemoryMiB = 1024, rq_AllowSharedGPU = False\<rparr>"

definition job_of :: "string \<Rightarrow> string \<Rightarrow> int \<Rightarrow> Job" where
  "job_of i needed ttl = \<lparr>job_Training = no_training, job_TrainingToken = '''',
     job_TerminationReason = TerminationUnset, job_OrganizationID = ''org1'',
     job_Intent = \<lparr>in_WorkloadType = WorkloadTraining, in_NecessityLevel = Necessity2,
       in_NecessityReason = '''', in_NecessityExplanation = '''', in_SystemImportance = ImportanceNormal,
       in_NeededAt = needed, in_TTLSeconds = ttl\<rparr>,
     job_Policy = sample_policy, job_ID = i, job_Name = i, job_Image = ''img'',
     job_Backend = BackendDocker, job_Command = [], job_Environment = [], job_Resources = request,
     job_Priority = 0, job_ServerSelector = [], job_Strategy = StrategyBestFit,
     job_Status = JobQueued, job_StatusReason = '''', job_Assignment = None, job_CreatedAt = t0,
     job_UpdatedAt = t0, job_LastObservedAt = None, job_ContainerID = '''',
     job_Events = [\<lparr>ev_JobID = i, ev_Status = JobQueued, ev_Reason = '''', ev_At = t0\<rparr>]\<rparr>"

definition place :: "string \<Rightarrow> Placement" where
  "place u = \<lparr>plc_Policy = sample_policy, plc_ServerID = ''srv1'', plc_GPUUUIDs = [u],
     plc_Strategy = StrategyBestFit, plc_Score = 1, plc_Reason = ''fits''\<rparr>"

definition start_command :: "string \<Rightarrow> string \<Rightarrow> string \<Rightarrow> Command" where
  "start_command c i u = \<lparr>cmd_ID = c, cmd_AgentID = ''srv1'', cmd_Type = CommandStartContainer,
     cmd_Status = CommandPending,
     cmd_Payload = StartPayload \<lparr>stp_JobID = i, stp_Name = i, stp_Image = ''img'', stp_Command = [],
       stp_Environment = [], stp_GPUUUIDs = [u], stp_CPUMilli = 1000, stp_MemoryMiB = 1024,
       stp_Labels = []\<rparr>,
     cmd_Attempts = 0, cmd_CreatedAt = t0, cmd_DeliveredAt = None, cmd_LeaseUntil = None,
     cmd_CompletedAt = None, cmd_Error = ''''\<rparr>"

definition stop_command :: "string \<Rightarrow> string \<Rightarrow> Command" where
  "stop_command c i = (start_command c i '''')\<lparr>cmd_Type := CommandStopContainer, cmd_AgentID := '''',
     cmd_Payload := StopPayload \<lparr>spp_JobID = i, spp_ContainerID = '''', spp_GraceSeconds = 30\<rparr>\<rparr>"

text \<open>A plan that books GPU-1 for the two timed jobs, one after the other.\<close>

definition sample_plans :: "ReservationPlan list" where
  "sample_plans =
     [\<lparr>rp_JobID = ''j3'', rp_Placement = Some (place ''GPU-1''), rp_Policy = sample_policy, rp_Reason = ''booked''\<rparr>,
      \<lparr>rp_JobID = ''j4'', rp_Placement = Some (place ''GPU-1''), rp_Policy = sample_policy, rp_Reason = ''booked''\<rparr>]"

definition unplan :: "ReservationPlan list" where
  "unplan = [\<lparr>rp_JobID = ''j3'', rp_Placement = None, rp_Policy = sample_policy, rp_Reason = ''later''\<rparr>]"

definition sample_options :: Options where
  "sample_options = \<lparr>opt_ObjectStore = None, opt_Training = DefaultTrainingOptions, opt_hasMetadata = False,
     opt_PlacementPolicy = None,
     opt_Policy = Some (New_Engine (DevelopmentFacts_Facts
       \<lparr>dev_InSizingPlan = True, dev_QuotaGPUs = 4, dev_UsedGPUs = 0\<rparr>)),
     opt_Catalog = None, opt_RequestLimits = DefaultRequestLimits, opt_EnrollmentToken = ''enroll'',
     opt_HeartbeatInterval = 10 * Second, opt_OfflineAfter = off0, opt_CommandLease = Minute,
     opt_DefaultStrategy = StrategyBestFit\<rparr>"

definition sample_cp :: ControlPlane where
  "sample_cp = New_ControlPlane sample_options"

section \<open>A run\<close>

text \<open>Registration, inventory and five jobs, the last of which is cancelled.\<close>

definition setup_calls :: "repo_call list" where
  "setup_calls =
     [CallUpsertServer registration,
      CallReplaceInventory ''srv1'' (report 1 t0 []),
      CallCreateJob (job_of ''j1'' '''' 0),
      CallCreateJob (job_of ''j2'' '''' 0),
      CallCreateJob (job_of ''j3'' ''2026-05-01T10:00:00Z'' 3600),
      CallCreateJob (job_of ''j4'' ''2026-05-01T12:00:00Z'' 3600),
      CallCreateJob (job_of ''j5'' '''' 0),
      CallRequestStop ''j5'' (stop_command ''x5'' ''j5'') t0]"

text \<open>Then two bookings and two dispatches.\<close>

definition work_calls :: "repo_call list" where
  "work_calls =
     [CallReplanReservations t0 (\<lambda>_ _. Inr sample_plans),
      CallCommitAssignment ''j1'' (place ''GPU-1'') (start_command ''c1'' ''j1'' ''GPU-1'') t0,
      CallCommitAssignment ''j2'' (place ''GPU-2'') (start_command ''c2'' ''j2'' ''GPU-2'') t0]"

definition d_boot :: Durable where
  "d_boot = \<lparr>dur_core = New_Store off0, dur_file = NoFile\<rparr>"

definition d_setup :: Durable where
  "d_setup = run_calls setup_calls d_boot"

definition d_work :: Durable where
  "d_work = run_calls work_calls d_setup"

definition job_at :: "Durable \<Rightarrow> string \<Rightarrow> Job" where
  "job_at d k = the (map_of (st_jobs (dur_core d)) k)"

definition server_at :: "Durable \<Rightarrow> Server" where
  "server_at d = the (map_of (st_servers (dur_core d)) ''srv1'')"

text \<open>Looking up what is there.\<close>

definition has_job :: "Durable \<Rightarrow> string \<Rightarrow> bool" where
  "has_job d k \<longleftrightarrow> map_of (st_jobs (dur_core d)) k \<noteq> None"

definition has_server :: "Durable \<Rightarrow> bool" where
  "has_server d \<longleftrightarrow> map_of (st_servers (dur_core d)) ''srv1'' \<noteq> None"

lemma job_at_lookup: "has_job d k \<Longrightarrow> map_of (st_jobs (dur_core d)) k = Some (job_at d k)"
  by (auto simp: has_job_def job_at_def)

lemma server_at_lookup: "has_server d \<Longrightarrow> map_of (st_servers (dur_core d)) ''srv1'' = Some (server_at d)"
  by (auto simp: has_server_def server_at_def)

lemma outcome_Inr: "\<not> isl (fst x) \<Longrightarrow> x = (Inr (projr (fst x)), snd x)"
  by (cases x; cases "fst x") auto

lemma result_Inr: "\<not> isl x \<Longrightarrow> x = Inr (projr x)"
  by (cases x) auto

section \<open>The run is legal\<close>

lemma setup_ok: "calls_ok setup_calls d_boot"
  by code_simp

lemma work_ok: "calls_ok work_calls d_setup"
  by code_simp

lemma boot_reachable: "reachable off0 d_boot"
  by (rule reachable.boot) (simp add: Open_def d_boot_def)

lemma setup_reachable: "reachable off0 d_setup"
  unfolding d_setup_def using steps_history [OF run_calls_steps [OF setup_ok] boot_reachable] by blast

lemma work_reachable: "reachable off0 d_work"
  unfolding d_work_def using steps_history [OF run_calls_steps [OF work_ok] setup_reachable] by blast

end
