(* ===== verification/Witnesses.thy ===== *)
theory Witnesses
  imports Samples
begin

text \<open>
  The properties of the repository applied to the sample run of \<open>Samples\<close>: every hypothesis holds
  there, so none of the properties is vacuous. The facts about a sample state are evaluated once and
  shared.
\<close>

section \<open>The state after the sample run\<close>

definition work_facts :: "Durable \<Rightarrow> bool" where
  "work_facts d \<longleftrightarrow> has_job d ''j1'' \<and> has_job d ''j2'' \<and> has_job d ''j3'' \<and> has_job d ''j4'' \<and>
     has_job d ''j5'' \<and> has_server d \<and>
     holds_on ''srv1'' (job_at d ''j1'') \<and> holds_on ''srv1'' (job_at d ''j2'') \<and>
     held_uuids (job_at d ''j1'') = [''GPU-1''] \<and> held_uuids (job_at d ''j2'') = [''GPU-2''] \<and>
     booking (job_at d ''j3'') \<and> booking (job_at d ''j4'') \<and>
     job_server (job_at d ''j3'') = job_server (job_at d ''j4'') \<and>
     held_uuids (job_at d ''j3'') = [''GPU-1''] \<and> held_uuids (job_at d ''j4'') = [''GPU-1''] \<and>
     job_Status (job_at d ''j5'') = JobCancelled \<and> length (srv_GPUs (server_at d)) = 2 \<and>
     gpu_UUID (srv_GPUs (server_at d) ! 0) = ''GPU-1'' \<and> wf_store (dur_core d)"

lemma work_facts: "work_facts d_work"
  by code_simp

lemmas work_facts' = work_facts [unfolded work_facts_def]

lemma work_lookup:
  "map_of (st_jobs (dur_core d_work)) ''j1'' = Some (job_at d_work ''j1'')"
  "map_of (st_jobs (dur_core d_work)) ''j2'' = Some (job_at d_work ''j2'')"
  "map_of (st_jobs (dur_core d_work)) ''j3'' = Some (job_at d_work ''j3'')"
  "map_of (st_jobs (dur_core d_work)) ''j4'' = Some (job_at d_work ''j4'')"
  "map_of (st_jobs (dur_core d_work)) ''j5'' = Some (job_at d_work ''j5'')"
  "map_of (st_servers (dur_core d_work)) ''srv1'' = Some (server_at d_work)"
  using work_facts' by (simp_all add: job_at_lookup server_at_lookup)

lemma work_inv: "inv (dur_core d_work)"
  by (rule reachable_inv [OF work_reachable])

section \<open>Safety\<close>

lemma no_double_allocation_witness:
  "set (held_uuids (job_at d_work ''j1'')) \<inter> set (held_uuids (job_at d_work ''j2'')) = {}"
  using no_double_allocation [OF work_reachable work_lookup(1,2), of "''srv1''"] work_facts' by simp

lemma booking_parts:
  "booking j \<Longrightarrow> \<exists>a. job_Assignment j = Some a \<and> \<not> Terminal (job_Status j) \<and> asg_ReleasedAt a = None \<and>
     asg_ServerID a = job_server j \<and> asg_GPUUUIDs a = held_uuids j \<and> asg_Window a = booked_window j \<and>
     win_Valid (asg_Window a)"
  by (auto simp: booking_def job_server_def held_uuids_def booked_window_def split: option.splits)

lemma bookings_never_overlap_witness:
  "win_EndAt (booked_window (job_at d_work ''j3'')) \<le> win_StartAt (booked_window (job_at d_work ''j4'')) \<or>
   win_EndAt (booked_window (job_at d_work ''j4'')) \<le> win_StartAt (booked_window (job_at d_work ''j3''))"
proof -
  have b: "booking (job_at d_work ''j3'')" "booking (job_at d_work ''j4'')" using work_facts' by simp_all
  obtain a where a: "job_Assignment (job_at d_work ''j3'') = Some a" "\<not> Terminal (job_Status (job_at d_work ''j3''))"
    "asg_ReleasedAt a = None" "asg_ServerID a = job_server (job_at d_work ''j3'')"
    "asg_GPUUUIDs a = held_uuids (job_at d_work ''j3'')" "asg_Window a = booked_window (job_at d_work ''j3'')"
    "win_Valid (asg_Window a)"
    using booking_parts [OF b(1)] by blast
  obtain a' where a': "job_Assignment (job_at d_work ''j4'') = Some a'" "\<not> Terminal (job_Status (job_at d_work ''j4''))"
    "asg_ReleasedAt a' = None" "asg_ServerID a' = job_server (job_at d_work ''j4'')"
    "asg_GPUUUIDs a' = held_uuids (job_at d_work ''j4'')" "asg_Window a' = booked_window (job_at d_work ''j4'')"
    "win_Valid (asg_Window a')"
    using booking_parts [OF b(2)] by blast
  from bookings_never_overlap [OF work_reachable work_lookup(3,4) _ a(1) a'(1) a(2) a'(2) a(3) a'(3), of "''GPU-1''"]
    a(4-) a'(4-) work_facts'
  show ?thesis by simp
qed

lemma held_gpu_never_schedulable_witness: "\<not> gpu_Schedulable (srv_GPUs (server_at d_work) ! 0)"
  by (rule held_gpu_never_schedulable [OF work_reachable work_lookup(1) _ work_lookup(6), of "srv_GPUs (server_at d_work) ! 0"])
    (use work_facts' in simp_all)

definition later_calls :: "repo_call list" where
  "later_calls = [CallHeartbeat ''srv1'' (t0 + 5 * Second), CallRequestStop ''j5'' (stop_command ''x6'' ''j5'') t0,
     CallAckCommand ''srv1'' ''c1'' \<lparr>ack_Succeeded = True, ack_Message = '''', ack_ContainerID = ''ctr''\<rparr> (t0 + Second)]"

lemma later_ok: "calls_ok later_calls d_work"
  by code_simp

lemma terminal_is_final_witness:
  "\<exists>j'. map_of (st_jobs (dur_core (run_calls later_calls d_work))) ''j5'' = Some j' \<and>
     job_Status j' = job_Status (job_at d_work ''j5'') \<and>
     job_TerminationReason j' = job_TerminationReason (job_at d_work ''j5'') \<and>
     job_Assignment j' = job_Assignment (job_at d_work ''j5'') \<and> job_Events j' = job_Events (job_at d_work ''j5'')"
  by (rule terminal_is_final [OF work_reachable run_calls_steps [OF later_ok] work_lookup(5)])
    (use work_facts' in simp)

lemma history_append_only_witness:
  "\<exists>j' es. map_of (st_jobs (dur_core (run_calls later_calls d_work))) ''j1'' = Some j' \<and>
     same_request (job_at d_work ''j1'') j' \<and> job_Events j' = job_Events (job_at d_work ''j1'') @ es \<and>
     job_Status j' = (if es = [] then job_Status (job_at d_work ''j1'') else ev_Status (last es)) \<and>
     list_all (\<lambda>e. \<not> Terminal (ev_Status e)) (butlast es)"
  by (rule history_append_only [OF work_reachable run_calls_steps [OF later_ok] work_lookup(1)])

text \<open>A heartbeat whose snapshot cannot be saved.\<close>

lemma failed_call_leaves_no_trace_witness:
  "snd (transact (\<lambda>_. Some ErrConflict) (exec (CallHeartbeat ''srv1'' (t0 + Second))) d_work) = d_work"
proof (rule failed_call_leaves_no_trace [OF work_reachable])
  show "fst (transact (\<lambda>_. Some ErrConflict) (exec (CallHeartbeat ''srv1'' (t0 + Second))) d_work) =
      Inl (ErrOther ''commit control-plane snapshot'')"
    using work_lookup(6) by (simp add: transact_def discard_def Heartbeat_def Let_def)
qed simp

lemma restart_keeps_everything_witness:
  "\<exists>d'. Open (dur_file d_work) off0 = Inr d' \<and> st_jobs (dur_core d') = st_jobs (dur_core d_work) \<and>
    st_commands (dur_core d') = st_commands (dur_core d_work) \<and>
    st_machines (dur_core d') = st_machines (dur_core d_work) \<and>
    map (\<lambda>(k, v). (k, srv_GPUs v)) (st_servers (dur_core d')) =
      map (\<lambda>(k, v). (k, srv_GPUs v)) (st_servers (dur_core d_work)) \<and>
    list_all (\<lambda>(k, v). \<not> srv_Schedulable v t0 off0) (st_servers (dur_core d'))"
  by (rule restart_keeps_everything [OF work_reachable])

section \<open>Assignments and servers\<close>

definition commit_j1 :: "Job outcome" where
  "commit_j1 = CommitAssignment ''j1'' (place ''GPU-1'') (start_command ''c1'' ''j1'' ''GPU-1'') t0 (dur_core d_setup)"

definition setup_facts :: "Durable \<Rightarrow> bool" where
  "setup_facts d \<longleftrightarrow> wf_store (dur_core d) \<and> has_server d \<and> has_job d ''j1'' \<and> has_job d ''j5'' \<and>
     \<not> isl (fst (CommitAssignment ''j1'' (place ''GPU-1'') (start_command ''c1'' ''j1'' ''GPU-1'') t0 (dur_core d))) \<and>
     \<not> isl (fst (ReplanReservations t0 (\<lambda>_ _. Inr sample_plans) (dur_core d))) \<and>
     \<not> isl (planReservations sample_cp None (jobs_by_id (dur_core d)) (servers_by_id (dur_core d)) [] t0) \<and>
     list_all (\<lambda>(k, j). job_ServerSelector j = []) (st_jobs (dur_core d)) \<and>
     st_offlineAfter (dur_core d) = off0 \<and> srv_LastHeartbeatAt (server_at d) = t0 \<and>
     \<not> isl (fst (ReplaceInventory ''srv1'' (report 2 (t0 + Second) []) (dur_core d))) \<and>
     \<not> isl (fst (UpdateTraining ''j1'' 0 no_training t0 (dur_core d)))"

lemma setup_facts: "setup_facts d_setup"
  by code_simp

lemmas setup_facts' = setup_facts [unfolded setup_facts_def]

lemma commit_j1_Inr:
  "CommitAssignment ''j1'' (place ''GPU-1'') (start_command ''c1'' ''j1'' ''GPU-1'') t0 (dur_core d_setup)
     = (Inr (projr (fst commit_j1)), snd commit_j1)"
  unfolding commit_j1_def by (rule outcome_Inr) (use setup_facts' in simp)

lemma commit_is_legal_witness:
  "\<exists>job server. map_of (st_jobs (dur_core d_setup)) ''j1'' = Some job \<and>
    map_of (st_servers (dur_core d_setup)) (plc_ServerID (place ''GPU-1'')) = Some server \<and>
    ((\<exists>a. job_Assignment job = Some a \<and> asg_ReservationState a = ''PLANNED'' \<and> job_Status job = JobAssigned \<and>
        asg_CommandID a = '''' \<and> asg_StartAt a \<le> t0 \<and> t0 < asg_EndAt a \<and>
        asg_ServerID a = plc_ServerID (place ''GPU-1'') \<and> asg_GPUUUIDs a = plc_GPUUUIDs (place ''GPU-1'') \<and>
        cmd_Type (start_command ''c1'' ''j1'' ''GPU-1'') = CommandStartContainer) \<or>
     (\<forall>a. job_Assignment job = Some a \<longrightarrow> asg_ReservationState a \<noteq> ''PLANNED'') \<and> job_Status job = JobQueued \<and>
       in_NeededAt (job_Intent job) = '''' \<and> in_TTLSeconds (job_Intent job) = 0) \<and>
    job_OrganizationID job \<noteq> '''' \<and> job_OrganizationID job = srv_OrganizationID server \<and>
    srv_Status server = ServerOnline \<and> \<not> srv_Drained server \<and>
    (\<exists>k. srv_Capabilities server = Some k \<and> cap_ManagedExecutionReady k) \<and>
    Sub t0 (srv_LastHeartbeatAt server) \<le> st_offlineAfter (dur_core d_setup) \<and>
    Sub t0 (srv_InventoryReceivedAt server) \<le> st_offlineAfter (dur_core d_setup) \<and>
    (\<forall>(k, v) \<in> set (job_ServerSelector job). label_get (srv_Labels server) k = v) \<and>
    distinct (plc_GPUUUIDs (place ''GPU-1'')) \<and> '''' \<notin> set (plc_GPUUUIDs (place ''GPU-1'')) \<and>
    0 < rq_GPUCount (job_Resources job) \<and>
    int (length (plc_GPUUUIDs (place ''GPU-1''))) = rq_GPUCount (job_Resources job) \<and>
    (\<forall>u \<in> set (plc_GPUUUIDs (place ''GPU-1'')). \<exists>g \<in> set (srv_GPUs server). gpu_UUID g = u \<and> gpu_Healthy g \<and>
       gpu_State g = GPUFree \<and> gpu_AssignedJobID g = '''' \<and> CapabilityMatches (job_Resources job) g \<and>
       rq_MinVRAMMiB (job_Resources job) \<le> AvailableMemoryMiB g) \<and>
    map_of (st_commands (dur_core d_setup)) (cmd_ID (start_command ''c1'' ''j1'' ''GPU-1'')) = None \<and>
    cmd_AgentID (start_command ''c1'' ''j1'' ''GPU-1'') = plc_ServerID (place ''GPU-1'')"
  by (rule commit_is_legal [OF _ commit_j1_Inr]) (use setup_facts' in simp)

text \<open>A heartbeat a minute later, with a timeout of thirty seconds.\<close>

definition second_report :: "Server outcome" where
  "second_report = ReplaceInventory ''srv1'' (report 2 (t0 + Second) []) (dur_core d_setup)"

section \<open>Commands\<close>

definition poll :: "Command list outcome" where
  "poll = LeaseCommands ''srv1'' (t0 + Second) off0 10 (dur_core d_work)"

definition poll_facts :: "Command list outcome \<Rightarrow> bool" where
  "poll_facts r \<longleftrightarrow> \<not> isl (fst r) \<and> length (projr (fst r)) = 2 \<and>
     cmd_Type (hd (projr (fst r))) = CommandStartContainer \<and> cmd_ID (hd (projr (fst r))) = ''c1''"

lemma poll_facts: "poll_facts poll"
  by code_simp

lemmas poll_facts' = poll_facts [unfolded poll_facts_def]

lemma poll_Inr: "LeaseCommands ''srv1'' (t0 + Second) off0 10 (dur_core d_work) = (Inr (projr (fst poll)), snd poll)"
  unfolding poll_def by (rule outcome_Inr) (use poll_facts' in \<open>simp add: poll_def\<close>)

lemma poll_hd: "hd (projr (fst poll)) \<in> set (projr (fst poll))"
  using poll_facts' by (intro hd_in_set) auto

lemma start_only_when_reserved_witness:
  "\<exists>jid job asg server. payload_JobID (cmd_Payload (hd (projr (fst poll)))) = Some jid \<and>
    map_of (st_jobs (dur_core d_work)) jid = Some job \<and> job_Assignment job = Some asg \<and>
    map_of (st_servers (dur_core d_work)) ''srv1'' = Some server \<and>
    srv_Schedulable server (t0 + Second) (st_offlineAfter (dur_core d_work)) \<and>
    \<not> Terminal (job_Status job) \<and> asg_CommandID asg = cmd_ID (hd (projr (fst poll))) \<and>
    job_OrganizationID job = srv_OrganizationID server \<and>
    (win_Valid (asg_Window asg) \<longrightarrow> win_Contains (asg_Window asg) (t0 + Second)) \<and>
    list_all (\<lambda>g. gpu_UUID g \<in> set (asg_GPUUUIDs asg) \<longrightarrow> gpu_Healthy g \<and> gpu_AssignedJobID g = job_ID job)
      (srv_GPUs server) \<and>
    found_count (asg_GPUUUIDs asg) (srv_GPUs server) = length (asg_GPUUUIDs asg)"
  by (rule start_only_when_reserved [OF poll_Inr poll_hd]) (use poll_facts' in simp)

definition ack_ok :: CommandAckRequest where
  "ack_ok = \<lparr>ack_Succeeded = True, ack_Message = '''', ack_ContainerID = ''ctr''\<rparr>"

definition ack_c1 :: "Command outcome" where
  "ack_c1 = AckCommand ''srv1'' ''c1'' ack_ok (t0 + Second) (dur_core d_work)"

lemma ack_c1_Inr: "\<not> isl (fst ack_c1)"
  by code_simp

definition stop_j1 :: "Job outcome" where
  "stop_j1 = RequestStop ''j1'' (stop_command ''x1'' ''j1'') (t0 + Second) (dur_core d_work)"

definition poll_after_stop :: "Command list outcome" where
  "poll_after_stop = LeaseCommands ''srv1'' (t0 + 2 * Second) off0 10 (snd stop_j1)"

definition asg_j1 :: Assignment where
  "asg_j1 = the (job_Assignment (job_at d_work ''j1''))"

definition stop_facts :: "Command list outcome \<Rightarrow> Durable \<Rightarrow> bool" where
  "stop_facts r d \<longleftrightarrow> \<not> isl (fst r) \<and> job_Status (job_at d ''j1'') = JobAssigned \<and>
     job_Assignment (job_at d ''j1'') \<noteq> None \<and> asg_CommandID (the (job_Assignment (job_at d ''j1''))) = ''c1'' \<and>
     map_option cmd_Status (map_of (st_commands (dur_core d)) ''c1'') = Some CommandPending"

lemma stop_facts: "stop_facts poll_after_stop d_work"
  by code_simp

lemma stop_before_delivery_witness:
  "\<exists>j. fst stop_j1 = Inr j \<and> map_of (st_jobs (snd stop_j1)) ''j1'' = Some j \<and> job_Status j = JobCancelled \<and>
    \<not> holds_on ''srv1'' j \<and> (\<forall>c \<in> set (projr (fst poll_after_stop)). cmd_ID c \<noteq> asg_CommandID asg_j1)"
proof -
  note f = stop_facts [unfolded stop_facts_def]
  obtain start where start: "map_of (st_commands (dur_core d_work)) ''c1'' = Some start" "cmd_Status start = CommandPending"
    using f by auto
  have asg: "job_Assignment (job_at d_work ''j1'') = Some asg_j1" "asg_CommandID asg_j1 = ''c1''"
    using f by (auto simp: asg_j1_def)
  show ?thesis
  proof (rule stop_before_delivery [OF work_inv work_lookup(1) asg(1)])
    show "map_of (st_commands (dur_core d_work)) (asg_CommandID asg_j1) = Some start" using start asg by simp
    show "RequestStop ''j1'' (stop_command ''x1'' ''j1'') (t0 + Second) (dur_core d_work) = (fst stop_j1, snd stop_j1)"
      by (simp add: stop_j1_def)
    show "LeaseCommands ''srv1'' (t0 + 2 * Second) off0 10 (snd stop_j1) =
        (Inr (projr (fst poll_after_stop)), snd poll_after_stop)"
      unfolding poll_after_stop_def by (rule outcome_Inr) (use f in \<open>simp add: poll_after_stop_def\<close>)
  qed (use f asg start in auto)
qed

definition train_j1 :: "Job outcome" where
  "train_j1 = UpdateTraining ''j1'' 0 no_training t0 (dur_core d_setup)"

section \<open>Planning\<close>

definition replan_setup :: "int outcome" where
  "replan_setup = ReplanReservations t0 (\<lambda>_ _. Inr sample_plans) (dur_core d_setup)"

lemma replan_setup_Inr:
  "ReplanReservations t0 (\<lambda>_ _. Inr sample_plans) (dur_core d_setup) = (Inr (projr (fst replan_setup)), snd replan_setup)"
  unfolding replan_setup_def by (rule outcome_Inr) (use setup_facts' in simp)

lemma setup_inv: "inv (dur_core d_setup)"
  by (rule reachable_inv [OF setup_reachable])

lemma replan_carries_out_plan_witness:
  "\<exists>j. map_of (st_jobs (snd replan_setup)) (rp_JobID (hd sample_plans)) = Some j \<and>
     plan_carried_out (hd sample_plans) t0 j"
  by (rule replan_carries_out_plan [OF setup_inv replan_setup_Inr refl]) (simp add: sample_plans_def)

lemma cancelled_not_replannable: "\<not> Replannable (job_at d_setup ''j5'') t0"
  by code_simp

lemma planner_never_conflicts_witness:
  "\<exists>n s'. ReplanReservations t0 (\<lambda>jobs servers. planReservations sample_cp None jobs servers [] t0) (dur_core d_setup)
     = (Inr n, s')"
proof (rule planner_never_conflicts [OF setup_inv])
  show "planReservations sample_cp None (jobs_by_id (dur_core d_setup)) (servers_by_id (dur_core d_setup)) [] t0 =
      Inr (projr (planReservations sample_cp None (jobs_by_id (dur_core d_setup)) (servers_by_id (dur_core d_setup)) [] t0))"
    by (rule result_Inr) (use setup_facts' in simp)
qed (use setup_facts' in \<open>auto simp: sample_cp_def sample_options_def New_ControlPlane_def New_Engine_def Let_def NewScheduler_def list_all_iff\<close>)

section \<open>Reports\<close>

definition wire_report :: WireReport where
  "wire_report = \<lparr>wr_Capabilities = Some sample_caps, wr_Host = zero_host, wr_Sequence = 7,
     wr_ObservedAt = t0,  wr_DockerVersion = ''27.0'',
     wr_GPUs = [\<lparr>wg_UUID = '' GPU-1'', wg_Index = 0, wg_Model = ''NVIDIA L40S'', wg_MemoryTotalMiB = 46068,
       wg_MemoryUsedMiB = 100, wg_UtilizationPct = 0, wg_TemperatureC = 40, wg_Healthy = True,
       wg_State = ''ALLOCATED''\<rparr>],
     wr_Containers = [], wr_Processes = []\<rparr>"

lemma wire_report_ok: "\<not> isl (inventoryToDomain wire_report)"
  by code_simp

section \<open>Accounting\<close>

definition legacy_ctr :: Container where
  "legacy_ctr = \<lparr>ctr_ID = ''old'', ctr_Name = ''notebook'', ctr_Image = ''img'', ctr_State = ''running'',
     ctr_Origin = ContainerLegacy, ctr_JobID = '''', ctr_GPUUUIDs = [''GPU-2''], ctr_Labels = [],
     ctr_StartedAt = None, ctr_FinishedAt = None, ctr_ExitCode = None\<rparr>"

definition normalized :: "GPU list" where
  "normalized = normalizeGPUState ''srv1'' [gpu_of ''GPU-1'', gpu_of ''GPU-2''] [legacy_ctr] []
     (st_jobs (dur_core d_work))"

lemma normalized_nth: "normalized ! 1 \<in> set normalized" "gpu_UUID (normalized ! 1) = ''GPU-2''"
  by (simp_all add: normalized_def normalizeGPUState_def gpu_of_def)

lemma legacy_unmanaged: "managing_job sid jobs legacy_ctr u = None"
  by (simp add: managing_job_def legacy_ctr_def split: option.split)

lemma normalize_external_protected_witness:
  "(gpu_State (normalized ! 1) = GPUUnhealthy \<or> gpu_State (normalized ! 1) = GPUOccupiedLegacy) \<and>
   gpu_AssignedJobID (normalized ! 1) = ''''"
proof (rule normalize_external_protected)
  show "normalized ! 1 \<in> set (normalizeGPUState ''srv1'' [gpu_of ''GPU-1'', gpu_of ''GPU-2''] [legacy_ctr] []
      (st_jobs (dur_core d_work)))"
    unfolding normalized_def [symmetric] by (rule normalized_nth(1))
  show "gpu_UUID (normalized ! 1) \<in> set (ctr_GPUUUIDs legacy_ctr)"
    unfolding normalized_nth(2) by (simp add: legacy_ctr_def)
  show "containerConsumesGPU (ctr_State legacy_ctr)" by (simp add: legacy_ctr_def containerConsumesGPU_def)
qed (auto simp: legacy_unmanaged)

section \<open>Calendar and scheduler\<close>

definition servers1 :: "Server list" where
  "servers1 = [server_at d_setup]"

definition timed_job :: Job where
  "timed_job = job_of ''j9'' ''2026-05-01T10:30:00Z'' 3600"

text \<open>GPU-1 is booked from 10:00 to 11:00 by j3; GPU-2 stays free for the new job.\<close>

definition view1 :: "Server list" where
  "view1 = CalendarServers timed_job servers1 [job_at d_work ''j3''] t0 off0"

definition sched1 :: Scheduler where
  "sched1 = NewScheduler StrategyBestFit off0"

definition plan_facts :: "Server list \<Rightarrow> Server list \<Rightarrow> bool" where
  "plan_facts vs ss \<longleftrightarrow> length vs = 1 \<and> length (srv_GPUs (hd vs)) = 2 \<and>
     Matches (job_Resources timed_job) (srv_GPUs (hd vs) ! 1) \<and>
     list_all (\<lambda>v. list_all wf_gpu (srv_GPUs v) \<and> distinct (map gpu_UUID (srv_GPUs v))) ss \<and>
     \<not> isl (Plan sched1 timed_job ss t0) \<and> eligible timed_job t0 off0 (hd ss) \<and> length ss = 1"

lemma plan_facts: "plan_facts view1 servers1"
  by code_simp

lemmas plan_facts' = plan_facts [unfolded plan_facts_def]

lemma plan1: "Plan sched1 timed_job servers1 t0 = Inr (projr (Plan sched1 timed_job servers1 t0))"
  by (rule result_Inr) (use plan_facts' in simp)

lemma Plan_sound_witness:
  "\<exists>t \<in> set servers1. plc_ServerID (projr (Plan sched1 timed_job servers1 t0)) = srv_ID t \<and>
     srv_Schedulable t t0 (sch_offlineAfter sched1)"
  using Plan_sound [OF plan1] plan_facts' by (auto simp: list_all_iff)

lemma best_fit_registered: "map_of (sch_policies sched1) (sch_defaultStrategy sched1) = Some bestFitScore"
  by (simp add: sched1_def NewScheduler_def)

lemma servers1_eligible: "hd servers1 \<in> set servers1 \<and> eligible timed_job t0 (sch_offlineAfter sched1) (hd servers1)"
  using plan_facts' by (simp add: servers1_def sched1_def NewScheduler_def)

lemma Plan_optimal_witness:
  "plc_Score (projr (Plan sched1 timed_job servers1 t0)) <
     cnd_score (scored (nat (rq_GPUCount (job_Resources timed_job))) bestFitScore timed_job (hd servers1)) \<or>
   (plc_Score (projr (Plan sched1 timed_job servers1 t0)) =
      cnd_score (scored (nat (rq_GPUCount (job_Resources timed_job))) bestFitScore timed_job (hd servers1)) \<and>
    plc_ServerID (projr (Plan sched1 timed_job servers1 t0)) \<le> srv_ID (hd servers1))"
  using Plan_optimal [OF plan1 best_fit_registered] servers1_eligible by blast

section \<open>Policy and catalog\<close>

definition facts1 :: FactsProvider where
  "facts1 = DevelopmentFacts_Facts \<lparr>dev_InSizingPlan = True, dev_QuotaGPUs = 4, dev_UsedGPUs = 0\<rparr>"

definition queue1 :: "Job list" where
  "queue1 = [job_of ''j2'' '''' 0, job_of ''j1'' '''' 0]"

lemma queue1_ok: "\<not> isl (Order facts1 None queue1 t0)"
  by code_simp

section \<open>A job that restricts its servers\<close>

text \<open>
  The planner does not look at \<open>ServerSelector\<close>, the repository does: a job whose label selector no
  schedulable server meets gets a placement from the planner, and the whole planning transaction is
  then refused as a conflict. No request can set the selector today.
\<close>

definition picky_calls :: "repo_call list" where
  "picky_calls = [CallUpsertServer registration, CallReplaceInventory ''srv1'' (report 1 t0 []),
     CallCreateJob ((job_of ''j3'' ''2026-05-01T10:00:00Z'' 3600)\<lparr>job_ServerSelector := [(''zone'', ''b'')]\<rparr>),
     CallCreateJob (job_of ''j4'' ''2026-05-01T12:00:00Z'' 3600)]"

definition picky_store :: Store where
  "picky_store = dur_core (run_calls picky_calls d_boot)"

lemma selector_defeats_planner:
  "fst (ReplanReservations t0 (\<lambda>jobs servers. planReservations sample_cp None jobs servers [] t0) picky_store)
     = Inl ErrConflict"
  by code_simp

end
