(* ===== verification/Application_Run.thy ===== *)
theory Application_Run
  imports Store_Safety
begin

text \<open>
  The shape of the application layer's operations: a handler reads the repository, makes repository
  calls one after the other and stops at the first error. Each repository call is one transaction of
  the durable store. The interface \<open>application_operation\<close> states what every such operation
  promises: its effect is a sequence of legal repository steps, so that everything proved about runs
  of the repository holds for runs of the application.
\<close>

section \<open>Handlers\<close>

type_synonym 'a app = "Durable \<Rightarrow> (go_error + 'a) \<times> Durable"

definition reply :: "'a \<Rightarrow> 'a app" where
  "reply v d = (Inr v, d)"

definition fail :: "go_error \<Rightarrow> 'a app" where
  "fail e d = (Inl e, d)"

text \<open>A result computed without the repository, such as a random identifier.\<close>

definition lift :: "go_error + 'a \<Rightarrow> 'a app" where
  "lift r d = (r, d)"

text \<open>\<open>newID(prefix)\<close>, from the hexadecimal token \<open>randomToken(8)\<close> returns.\<close>

definition newID :: "string \<Rightarrow> go_error + string \<Rightarrow> go_error + string" where
  "newID kind random = (case random of Inl e \<Rightarrow> Inl e | Inr token \<Rightarrow> Inr (kind @ ''_'' @ token))"

lemma newID_Inr: "newID kind random = Inr i \<longleftrightarrow> (\<exists>t. random = Inr t \<and> i = kind @ ''_'' @ t)"
  by (auto simp: newID_def split: sum.split)

text \<open>A read-only call of the repository.\<close>

definition peek :: "(Store \<Rightarrow> 'a outcome) \<Rightarrow> 'a app" where
  "peek fn d = (read_core fn d, d)"

text \<open>\<open>v, err := m; if err != nil { return err }; f(v)\<close>\<close>

definition andThen :: "'a app \<Rightarrow> ('a \<Rightarrow> 'b app) \<Rightarrow> 'b app" where
  "andThen m f d = (case m d of (Inl e, d') \<Rightarrow> (Inl e, d') | (Inr v, d') \<Rightarrow> f v d')"

text \<open>\<open>errors.Is(err, ErrConflict)\<close> handled, other errors returned.\<close>

definition on_conflict :: "'a app \<Rightarrow> 'a app \<Rightarrow> 'a app" where
  "on_conflict m h d =
     (case m d of (Inl e, d') \<Rightarrow> if e = ErrConflict then h d' else (Inl e, d') | (Inr v, d') \<Rightarrow> (Inr v, d'))"

abbreviation finish_with :: "'a app \<Rightarrow> unit app" where
  "finish_with m \<equiv> andThen m (\<lambda>_. reply ())"

lemma reply_simps [simp]: "reply v d = (Inr v, d)" "fail e d = (Inl e, d)" "lift r d = (r, d)"
    "peek fn d = (fst (fn (dur_core d)), d)"
  by (simp_all add: reply_def fail_def lift_def peek_def read_core_def)

lemma andThen_Inr:
  "andThen m f d = (Inr w, d') \<longleftrightarrow> (\<exists>v d1. m d = (Inr v, d1) \<and> f v d1 = (Inr w, d'))"
  by (auto simp: andThen_def split: prod.splits sum.splits)

lemma on_conflict_Inr:
  "on_conflict m h d = (Inr w, d') \<longleftrightarrow>
     m d = (Inr w, d') \<or> (\<exists>d1. m d = (Inl ErrConflict, d1) \<and> h d1 = (Inr w, d'))"
  by (auto simp: on_conflict_def split: prod.splits sum.splits)

section \<open>Access\<close>

text \<open>\<open>ControlPlane.GetJob\<close>: a job of another organisation does not exist for the caller.\<close>

definition GetVisibleJob :: "reqctx \<Rightarrow> string \<Rightarrow> Job app" where
  "GetVisibleJob ctx i =
     andThen (peek (GetJob i)) (\<lambda>job.
       if \<not> CanAccess ctx (job_OrganizationID job) then fail ErrNotFound else reply job)"

lemma GetVisibleJob_Inr:
  "GetVisibleJob ctx i d = (Inr job, d') \<longleftrightarrow>
     d' = d \<and> map_of (st_jobs (dur_core d)) i = Some job \<and> CanAccess ctx (job_OrganizationID job)"
  by (auto simp: GetVisibleJob_def andThen_Inr GetJob_def split: option.splits if_splits)

section \<open>The contract\<close>

locale application_operation =
  fixes op :: "Durable \<Rightarrow> (go_error + 'a) \<times> Durable" and off :: duration
  assumes steps: "reachable off d \<Longrightarrow> (durable_step off)\<^sup>*\<^sup>* d (snd (op d))"
begin

lemma stays_reachable: "reachable off d \<Longrightarrow> reachable off (snd (op d))"
  using steps steps_history by blast

lemma keeps_invariant: "reachable off d \<Longrightarrow> inv (dur_core (snd (op d)))"
  using stays_reachable reachable_inv by blast

lemma jobs_evolve: "reachable off d \<Longrightarrow> history (st_jobs (dur_core d)) (st_jobs (dur_core (snd (op d))))"
  using steps steps_history by blast

lemma keeps_timeout: "reachable off d \<Longrightarrow> st_offlineAfter (dur_core (snd (op d))) = off"
  using stays_reachable reachable_dinv by (fastforce simp: dinv_def)

end

text \<open>The contract composes.\<close>

named_theorems app_steps \<open>operations of the application meet the contract\<close>

definition advances :: "duration \<Rightarrow> 'a app \<Rightarrow> bool" where
  "advances off m \<longleftrightarrow> (\<forall>d. reachable off d \<longrightarrow> (durable_step off)\<^sup>*\<^sup>* d (snd (m d)))"

lemma advances_operation: "advances off m \<longleftrightarrow> application_operation m off"
  by (simp add: advances_def application_operation_def)

lemma advancesD: "advances off m \<Longrightarrow> reachable off d \<Longrightarrow> m d = (r, d') \<Longrightarrow>
    (durable_step off)\<^sup>*\<^sup>* d d' \<and> reachable off d'"
  using steps_history by (fastforce simp: advances_def)

lemma advances_pure [app_steps, simp]:
  "advances off (reply v)" "advances off (fail e)" "advances off (lift r)" "advances off (peek fn)"
  by (simp_all add: advances_def)

lemma advances_andThen [app_steps]:
  assumes "advances off m" and "\<And>v. advances off (f v)"
  shows "advances off (andThen m f)"
  unfolding advances_def
proof (intro allI impI)
  fix d assume d: "reachable off d"
  obtain r d1 where m: "m d = (r, d1)" by (cases "m d")
  note d1 = advancesD [OF assms(1) d m]
  show "(durable_step off)\<^sup>*\<^sup>* d (snd (andThen m f d))"
  proof (cases r)
    case (Inl e)
    with d1 m show ?thesis by (simp add: andThen_def)
  next
    case (Inr v)
    with assms(2) [of v] d1 have "(durable_step off)\<^sup>*\<^sup>* d1 (snd (f v d1))" by (simp add: advances_def)
    with d1 have "(durable_step off)\<^sup>*\<^sup>* d (snd (f v d1))" by (meson rtranclp_trans)
    with m Inr show ?thesis by (simp add: andThen_def)
  qed
qed

lemma advances_on_conflict [app_steps]:
  assumes "advances off m" and "advances off h"
  shows "advances off (on_conflict m h)"
  unfolding advances_def
proof (intro allI impI)
  fix d assume d: "reachable off d"
  obtain r d1 where m: "m d = (r, d1)" by (cases "m d")
  note d1 = advancesD [OF assms(1) d m]
  with assms(2) have "(durable_step off)\<^sup>*\<^sup>* d1 (snd (h d1))" by (simp add: advances_def)
  with d1 have "(durable_step off)\<^sup>*\<^sup>* d (snd (h d1))" by (meson rtranclp_trans)
  with d1 m show "(durable_step off)\<^sup>*\<^sup>* d (snd (on_conflict m h d))"
    by (cases r) (auto simp: on_conflict_def)
qed

lemma advances_if [app_steps]: "advances off m \<Longrightarrow> advances off n \<Longrightarrow> advances off (if b then m else n)"
  by simp

text \<open>A transaction of a repository call whose argument condition holds in every state.\<close>

lemma transact_discard: "snd (transact save (\<lambda>s. discard (f s)) d) = snd (transact save f d)"
  by (auto simp: transact_def discard_def Let_def split: prod.splits sum.splits option.splits)

lemma advances_call:
  assumes "\<And>s. call_ok c s" and "\<And>s. discard (f s) = exec c s"
  shows "advances off (transact save f)"
proof -
  have "snd (transact save f d) = snd (transact save (exec c) d)" for d
    using transact_discard [of save f d] assms(2) by simp
  then show ?thesis
    using assms(1) durable_step.call by (fastforce simp: advances_def)
qed

lemma advances_calls [app_steps]:
  "advances off (transact save (Heartbeat a t))"
  "advances off (transact save (SetServerDrained a b))"
  "advances off (transact save (MarkStaleServers t))"
  "advances off (transact save (SetJobStatus i st r t))"
  "advances off (transact save (CommitAssignment i p c t))"
  "advances off (transact save (ReplanReservations t plan))"
  "advances off (transact save (RequestStop i c t))"
  "advances off (transact save (LeaseCommands a t l n))"
  "advances off (transact save (AckCommand a k ack t))"
  "advances off (transact save (UpdateTraining i w tr t))"
  by (rule advances_call [where c = "CallHeartbeat a t"] advances_call [where c = "CallSetServerDrained a b"]
      advances_call [where c = "CallMarkStaleServers t"] advances_call [where c = "CallSetJobStatus i st r t"]
      advances_call [where c = "CallCommitAssignment i p c t"] advances_call [where c = "CallReplanReservations t plan"]
      advances_call [where c = "CallRequestStop i c t"] advances_call [where c = "CallLeaseCommands a t l n"]
      advances_call [where c = "CallAckCommand a k ack t"] advances_call [where c = "CallUpdateTraining i w tr t"];
      simp)+

lemma advances_upsert [app_steps]: "srv_GPUs v = [] \<Longrightarrow> advances off (transact save (UpsertServer v))"
  by (rule advances_call [where c = "CallUpsertServer v"]) (simp_all add: fresh_server_def)

lemma advances_inventory [app_steps]:
  "distinct (map gpu_UUID (rep_GPUs r)) \<Longrightarrow> list_all wf_gpu (rep_GPUs r) \<Longrightarrow>
   advances off (transact save (ReplaceInventory a r))"
  by (rule advances_call [where c = "CallReplaceInventory a r"]) (simp_all add: report_ok_def)

lemma advances_create [app_steps]:
  "job_ID j \<noteq> '''' \<Longrightarrow> job_Assignment j = None \<Longrightarrow> advances off (transact save (CreateJob j))"
  by (rule advances_call [where c = "CallCreateJob j"])
    (simp_all add: submitted_def discard_def CreateJob_def split: option.split)

text \<open>What a successful transaction did.\<close>

lemma transact_Inr:
  "transact save fn d = (Inr v, d') \<Longrightarrow> fn (dur_core d) = (Inr v, dur_core d')"
  by (auto simp: transact_def Let_def split: prod.splits sum.splits option.splits)

end
