(* ===== verification/Time_Format.thy ===== *)
theory Time_Format
  imports GoTime
begin

text \<open>
  \<open>Time.Format(time.RFC3339Nano)\<close> of a UTC instant, which the control plane uses to normalise the
  start time of a request and to tell a training job when its allocation ends. The civil date comes
  from the day number by the division steps of Go's package \<open>time\<close>: 400-year cycles, centuries,
  4-year cycles, years. The last section proves that parsing the formatted instant gives it back.
\<close>

section \<open>Civil dates from day numbers\<close>

text \<open>The year and the day of the year, both counted from the first of January of year 1.\<close>

definition year_day :: "int \<Rightarrow> int \<times> int" where
  "year_day d =
     (let a = d div 146097; d1 = d mod 146097;
          b = min 3 (d1 div 36524); d2 = d1 - 36524 * b;
          c = d2 div 1461; d3 = d2 - 1461 * c;
          e = min 3 (d3 div 365)
      in (400 * a + 100 * b + 4 * c + e + 1, d3 - 365 * e))"

text \<open>The month, searched downwards.\<close>

fun month_from :: "nat \<Rightarrow> int \<Rightarrow> int \<Rightarrow> nat" where
  "month_from 0 y yday = 1"
| "month_from (Suc m) y yday = (if days_before_month (Suc m) y \<le> yday then Suc m else month_from m y yday)"

section \<open>Formatting\<close>

definition digit :: "int \<Rightarrow> char" where
  "digit n = char_of (nat (48 + n))"

definition pad2 :: "int \<Rightarrow> string" where
  "pad2 n = [digit (n div 10), digit (n mod 10)]"

definition pad4 :: "int \<Rightarrow> string" where
  "pad4 n = [digit (n div 1000), digit (n div 100 mod 10), digit (n div 10 mod 10), digit (n mod 10)]"

definition show_year :: "int \<Rightarrow> string" where
  "show_year y = (if y < 0 then CHR ''-'' # (if - y < 10000 then pad4 (- y) else show_int (- y))
                  else if y < 10000 then pad4 y else show_int y)"

definition pad9 :: "int \<Rightarrow> string" where
  "pad9 n = map (\<lambda>k. digit (n div 10 ^ k mod 10)) [8, 7, 6, 5, 4, 3, 2, 1, 0]"

text \<open>The layout \<open>.999999999\<close>: trailing zeros are dropped, and the point when nothing is left.\<close>

definition show_frac :: "int \<Rightarrow> string" where
  "show_frac ns =
     (let ds = rev (dropWhile (\<lambda>c. c = digit 0) (rev (pad9 ns)))
      in if ds = [] then [] else CHR ''.'' # ds)"

definition Format_RFC3339Nano :: "gotime \<Rightarrow> string" where
  "Format_RFC3339Nano t =
     (let (y, yday) = year_day (t div (24 * Hour)); r = t mod (24 * Hour);
          m = month_from 12 y yday
      in show_year y @ ''-'' @ pad2 (int m) @ ''-'' @ pad2 (yday - days_before_month m y + 1) @ ''T'' @
         pad2 (r div Hour) @ '':'' @ pad2 (r div Minute mod 60) @ '':'' @ pad2 (r div Second mod 60) @
         show_frac (r mod Second) @ ''Z'')"

section \<open>The date is the right one\<close>

lemma days_before_year_split:
  assumes "0 \<le> b" "b \<le> 3" "0 \<le> c" "c \<le> 24" "0 \<le> e" "e \<le> (3::int)"
  shows "days_before_year (400 * a + 100 * b + 4 * c + e + 1) = 146097 * a + 36524 * b + 1461 * c + 365 * e"
proof -
  let ?n = "400 * a + 100 * b + 4 * c + e"
  have "?n div 4 = 100 * a + 25 * b + c" using assms by linarith
  moreover have "?n div 100 = 4 * a + b" using assms by linarith
  moreover have "?n div 400 = a" using assms by linarith
  ultimately show ?thesis by (simp add: days_before_year_def)
qed

lemma leap_split:
  assumes "0 \<le> b" "b \<le> 3" "0 \<le> c" "c \<le> 24" and "c < 24 \<or> b = (3::int)"
  shows "leap (400 * a + 100 * b + 4 * c + 4)"
proof (cases "c < 24")
  case True
  have "(400 * a + 100 * b + 4 * c + 4) mod 100 = (100 * (4 * a + b) + (4 * c + 4)) mod 100"
    by (simp add: algebra_simps)
  also have "\<dots> = 4 * c + 4"
    unfolding mod_mult_self4 using True assms(3) by (intro mod_pos_pos_trivial) simp_all
  finally have "(400 * a + 100 * b + 4 * c + 4) mod 100 \<noteq> 0" using assms(3) by simp
  moreover have "4 dvd (400 * a + 100 * b + 4 * c + 4)" by presburger
  ultimately show ?thesis by (simp add: leap_def dvd_eq_mod_eq_0)
next
  case False
  with assms have "400 * a + 100 * b + 4 * c + 4 = 400 * (a + 1)" by simp
  then show ?thesis unfolding leap_def by (simp only:) presburger
qed

text \<open>The four division steps, with the bounds that make the year a calendar year.\<close>

lemma year_day_bounds:
  assumes "year_day d = (y, yday)"
  shows "days_before_year y + yday = d" "0 \<le> yday" "yday < (if leap y then 366 else 365)"
proof -
  define a where "a = d div 146097"
  define d1 where "d1 = d mod 146097"
  define b where "b = min 3 (d1 div 36524)"
  define d2 where "d2 = d1 - 36524 * b"
  define c where "c = d2 div 1461"
  define d3 where "d3 = d2 - 1461 * c"
  define e where "e = min 3 (d3 div 365)"
  have y: "y = 400 * a + 100 * b + 4 * c + e + 1" and yd: "yday = d3 - 365 * e"
    using assms by (simp_all add: year_day_def Let_def a_def d1_def b_def d2_def c_def d3_def e_def)
  have d1: "0 \<le> d1" "d1 < 146097" "d = 146097 * a + d1" by (auto simp: d1_def a_def)
  have b: "0 \<le> b" "b \<le> 3" "0 \<le> d2" "d2 \<le> 36524" "b < 3 \<Longrightarrow> d2 < 36524"
    using d1 unfolding b_def d2_def by (auto simp: min_def)
  have c: "0 \<le> c" "c \<le> 24" "0 \<le> d3" "d3 < 1461" "c = 24 \<Longrightarrow> d3 = d2 - 35064"
    using b unfolding c_def d3_def by linarith+
  have e: "0 \<le> e" "e \<le> 3" "0 \<le> yday" "e < 3 \<Longrightarrow> yday < 365" "e = 3 \<Longrightarrow> yday = d3 - 1095"
    using c unfolding e_def yd by (auto simp: min_def)
  show "days_before_year y + yday = d"
    unfolding y days_before_year_split [OF b(1,2) c(1,2) e(1,2)] yd d1(3) d2_def d3_def by simp
  show "0 \<le> yday" by (rule e(3))
  show "yday < (if leap y then 366 else 365)"
  proof (cases "e = 3 \<and> yday = 365")
    case True
    then have "c < 24 \<or> b = 3" using e(5) c(2,5) b(2,5) by linarith
    from leap_split [OF b(1,2) c(1,2) this, of a] True show ?thesis by (simp add: y add.commute add.left_commute)
  next
    case False
    with e c(4) show ?thesis by (cases "e = 3") auto
  qed
qed

lemma days_before_months:
  "days_before_month (Suc 0) y = 0"
  "m \<noteq> 0 \<Longrightarrow> days_before_month (Suc m) y = days_before_month m y + days_in (int m) y"
  by simp_all

lemma month_from_bounds:
  assumes "0 \<le> yday" "yday < (if leap y then 366 else 365)"
  defines "m \<equiv> month_from 12 y yday"
  shows "1 \<le> m" "m \<le> 12" "days_before_month m y \<le> yday" "yday - days_before_month m y < days_in (int m) y"
  using assms(1,2) unfolding m_def
  by (simp_all add: eval_nat_numeral days_in_def split: if_splits)

section \<open>Parsing gives the instant back\<close>

lemma digit_facts:
  assumes "0 \<le> n" "n \<le> 9"
  shows "is_digit (digit n)" "digit_val (digit n) = n"
proof -
  have "(of_char (digit n) :: nat) = nat (48 + n)"
    using assms by (simp add: digit_def nat_less_iff)
  then show "is_digit (digit n)" "digit_val (digit n) = n"
    using assms by (simp_all add: is_digit_def digit_val_def Let_def nat_le_iff le_nat_iff)
qed

lemma getnum_pad2:
  assumes "0 \<le> n" "n < 100"
  shows "getnum b (pad2 n @ r) = Some (n, r)"
  using digit_facts [of "n div 10"] digit_facts [of "n mod 10"] assms by (simp add: pad2_def)

text \<open>Reading decimal digits from the left.\<close>

lemma horner: "0 \<le> m \<Longrightarrow> m * (n div (k * m)) + n div k mod m = (n div k :: int)"
  by (simp add: zdiv_zmult2_eq)

lemmas horner_numeral = mult_div_mod_eq [of 10] horner [of 10 _ 10, simplified]
  horner [of 10 _ 100, simplified] horner [of 10 _ 1000, simplified] horner [of 10 _ 10000, simplified]
  horner [of 10 _ 100000, simplified] horner [of 10 _ 1000000, simplified] horner [of 10 _ 10000000, simplified]

lemma digit_mod: "is_digit (digit (n mod 10))" "digit_val (digit (n mod 10)) = n mod 10"
  using digit_facts [of "n mod 10"] by simp_all

lemma getyear_pad4:
  assumes "0 \<le> y" "y < 10000"
  shows "getyear (pad4 y @ r) = Some (y, r)"
proof -
  have "0 \<le> y div 1000" "y div 1000 \<le> 9" using assms by simp_all
  from digit_facts [OF this] show ?thesis
    using horner_numeral(1-3) [of y] by (simp add: getyear_def pad4_def digits_val_def digit_mod)
qed

lemma digits_val_append: "digits_val (xs @ ys) = digits_val xs * 10 ^ length ys + digits_val ys"
proof (induction ys rule: rev_induct)
  case Nil
  then show ?case by (simp add: digits_val_def)
next
  case (snoc y ys)
  have step: "digits_val (zs @ [y]) = 10 * digits_val zs + digit_val y" for zs
    by (simp add: digits_val_def)
  from snoc step [of "xs @ ys"] step [of ys] show ?case by (simp add: algebra_simps)
qed

lemma digits_val_zeros: "\<forall>c \<in> set zs. c = digit 0 \<Longrightarrow> digits_val zs = 0"
proof (induction zs rule: rev_induct)
  case Nil
  then show ?case by (simp add: digits_val_def)
next
  case (snoc z zs)
  then show ?case using digit_facts(2) [of 0] by (simp add: digits_val_def)
qed

lemma digits_val_Cons: "digits_val (c # cs) = fold (\<lambda>c n. 10 * n + digit_val c) cs (digit_val c)"
  by (simp add: digits_val_def)

lemma pad9_value:
  assumes "0 \<le> n" "n < 1000000000"
  shows "digits_val (pad9 n) = n" "length (pad9 n) = 9" "list_all is_digit (pad9 n)"
proof -
  have top: "n div 100000000 mod 10 = n div 100000000"
    using assms by (intro mod_pos_pos_trivial) simp_all
  have "digits_val (pad9 n) = 10 * (10 * (10 * (10 * (10 * (10 * (10 * (10 * (n div 100000000 mod 10)
      + n div 10000000 mod 10) + n div 1000000 mod 10) + n div 100000 mod 10) + n div 10000 mod 10)
      + n div 1000 mod 10) + n div 100 mod 10) + n div 10 mod 10) + n mod 10"
    unfolding pad9_def list.map digits_val_Cons fold_simps digit_mod by simp
  also have "\<dots> = n" unfolding top horner_numeral ..
  finally show "digits_val (pad9 n) = n" .
  show "length (pad9 n) = 9" "list_all is_digit (pad9 n)"
    by (simp_all add: pad9_def digit_mod)
qed

lemma getfrac_show_frac:
  assumes "0 \<le> n" "n < 1000000000"
  shows "getfrac (show_frac n @ ''Z'') = (n, ''Z'')"
proof -
  define ds where "ds = rev (dropWhile (\<lambda>c. c = digit 0) (rev (pad9 n)))"
  define zs where "zs = rev (takeWhile (\<lambda>c. c = digit 0) (rev (pad9 n)))"
  have split: "pad9 n = ds @ zs"
    unfolding ds_def zs_def by (metis rev_append rev_rev_ident takeWhile_dropWhile_id)
  have "\<forall>c \<in> set zs. c = digit 0" unfolding zs_def by (auto dest: set_takeWhileD)
  from digits_val_zeros [OF this] have n: "digits_val ds * 10 ^ length zs = n"
    using pad9_value(1) [OF assms] by (simp add: split digits_val_append)
  have len: "length zs = 9 - length ds" "length ds \<le> 9"
    using pad9_value(2) [OF assms] by (simp_all add: split)
  have dig: "list_all is_digit ds" using pad9_value(3) [OF assms] by (simp add: split)
  show ?thesis
  proof (cases ds)
    case Nil
    with n have "n = 0" by (simp add: digits_val_def)
    moreover have "show_frac n = []" using Nil by (simp only: show_frac_def ds_def [symmetric] Let_def) simp
    ultimately show ?thesis by (simp add: getfrac_def)
  next
    case (Cons c cs)
    have Z: "\<not> is_digit CHR ''Z''" by (simp add: is_digit_def)
    have all: "\<forall>x \<in> set ds. is_digit x" using dig by (simp add: list_all_iff)
    have "takeWhile is_digit (ds @ ''Z'') = ds" "dropWhile is_digit (ds @ ''Z'') = ''Z''"
      using all Z by (simp_all add: takeWhile_append dropWhile_append)
    then have "takeWhile is_digit (c # cs @ ''Z'') = ds" "dropWhile is_digit (c # cs @ ''Z'') = ''Z''"
      using Cons by simp_all
    moreover have "is_digit c" using all Cons by simp
    ultimately have "getfrac (CHR ''.'' # ds @ ''Z'') = (digits_val ds * 10 ^ (9 - length ds), ''Z'')"
      using len(2) Cons unfolding getfrac_def by (simp del: takeWhile.simps dropWhile.simps)
    moreover have "show_frac n = CHR ''.'' # ds"
      using Cons by (simp only: show_frac_def ds_def [symmetric] Let_def) simp
    ultimately show ?thesis using n len(1) by simp
  qed
qed

lemma parse_fields:
  assumes "0 \<le> y" "y < 10000" "1 \<le> mo" "mo \<le> 12" "1 \<le> d" "d \<le> days_in mo y" "d < 100"
    "0 \<le> h" "h < 24" "0 \<le> mi" "mi < 60" "0 \<le> s" "s < 60" "0 \<le> ns" "ns < 1000000000"
  shows "parse_RFC3339 (pad4 y @ ''-'' @ pad2 mo @ ''-'' @ pad2 d @ ''T'' @ pad2 h @ '':'' @ pad2 mi @ '':'' @
    pad2 s @ show_frac ns @ ''Z'') = Some (Date y mo d h mi s ns)"
  using assms getfrac_show_frac [OF assms(14,15)]
  by (simp add: parse_RFC3339_def getyear_pad4 getnum_pad2 expect_def getzone_def)

lemma clock_sum:
  fixes t :: int
  assumes "(24 * Hour) * d + r = t" "60 * h + mi = q" "60 * q + s = p" "Second * p + ns = r"
  shows "((d * 24 + h) * 60 + mi) * Minute + s * Second + ns = t"
  using assms by simp

lemma instant_split:
  fixes t :: int
  shows "((t div (24 * Hour) * 24 + t mod (24 * Hour) div Hour) * 60 + t mod (24 * Hour) div Minute mod 60) * Minute
    + t mod (24 * Hour) div Second mod 60 * Second + t mod (24 * Hour) mod Second = t"
proof (rule clock_sum)
  let ?r = "t mod (24 * Hour)"
  show "(24 * Hour) * (t div (24 * Hour)) + ?r = t" by (rule mult_div_mod_eq)
  show "60 * (?r div Hour) + ?r div Minute mod 60 = ?r div Minute"
    using horner [of 60 ?r Minute] by (simp only: mult_num_simps mult.commute) simp
  show "60 * (?r div Minute) + ?r div Second mod 60 = ?r div Second"
    using horner [of 60 ?r Second] by simp
  show "Second * (?r div Second) + ?r mod Second = ?r" by (rule mult_div_mod_eq)
qed

text \<open>The years RFC 3339 can write: 0 to 9999.\<close>

lemma parse_Format:
  assumes "0 \<le> fst (year_day (t div (24 * Hour)))" "fst (year_day (t div (24 * Hour))) < 10000"
  shows "parse_RFC3339 (Format_RFC3339Nano t) = Some t"
proof -
  obtain y yday where yd: "year_day (t div (24 * Hour)) = (y, yday)" by fastforce
  define m where "m = month_from 12 y yday"
  define r where "r = t mod (24 * Hour)"
  note day = year_day_bounds [OF yd]
  note month = month_from_bounds [OF day(2,3), folded m_def]
  have y: "0 \<le> y" "y < 10000" using assms unfolding yd by simp_all
  have dom: "0 \<le> yday - days_before_month m y + 1" "yday - days_before_month m y + 1 < 100"
    "1 \<le> yday - days_before_month m y + 1" "yday - days_before_month m y + 1 \<le> days_in (int m) y"
    using month by (auto simp: days_in_def split: if_splits)
  have r: "0 \<le> r div Hour" "r div Hour < 24" "0 \<le> r mod Second" "r mod Second < 1000000000"
    unfolding r_def by (simp_all add: pos_imp_zdiv_nonneg_iff)
  have mo: "1 \<le> int m" "int m \<le> 12" using month(1,2) by simp_all
  have sixty: "0 \<le> n mod 60" "n mod 60 < 60" for n :: int by simp_all
  have eq: "Date y (int m) (yday - days_before_month m y + 1) (r div Hour) (r div Minute mod 60)
      (r div Second mod 60) (r mod Second) = t"
    using day(1) instant_split [of t] by (simp add: Date_def r_def)
  have "show_year y = pad4 y" using y by (simp add: show_year_def)
  then have "parse_RFC3339 (Format_RFC3339Nano t) = parse_RFC3339 (pad4 y @ ''-'' @ pad2 (int m) @ ''-'' @
       pad2 (yday - days_before_month m y + 1) @ ''T'' @ pad2 (r div Hour) @ '':'' @
       pad2 (r div Minute mod 60) @ '':'' @ pad2 (r div Second mod 60) @ show_frac (r mod Second) @ ''Z'')"
    unfolding Format_RFC3339Nano_def yd Let_def prod.case m_def r_def by (simp only:)
  also have "\<dots> = Some (Date y (int m) (yday - days_before_month m y + 1) (r div Hour) (r div Minute mod 60)
      (r div Second mod 60) (r mod Second))"
    by (rule parse_fields [OF y mo dom(3,4,2) r(1,2) sixty [of "r div Minute"] sixty [of "r div Second"] r(3,4)])
  also have "\<dots> = Some t" by (simp only: eq)
  finally show ?thesis .
qed

lemma format_example: "Format_RFC3339Nano (63913219200 * Second + 500000000) = ''2026-05-01T08:00:00.5Z''"
  by code_simp

section \<open>Decimal numbers\<close>

text \<open>A number \<open>%d\<close> printed is read back.\<close>

lemma digit_char: "0 \<le> n \<Longrightarrow> char_of (48 + n) = digit n"
  using char_of_nat [where 'a = int, of "nat (48 + n)"] by (simp add: digit_def)

lemma show_digits_read:
  "0 \<le> n \<Longrightarrow> list_all is_digit (show_digits n) \<and> show_digits n \<noteq> [] \<and> digits_val (show_digits n) = n"
proof (induction n rule: show_digits.induct)
  case (1 n)
  show ?case
  proof (cases "n < 10")
    case True
    with 1 digit_facts [of n] digit_char [of n] show ?thesis by (simp add: show_digits.simps [of n] digits_val_def)
  next
    case False
    with 1 digit_facts [of "n mod 10"] digit_char [of "n mod 10"] show ?thesis
      by (simp add: show_digits.simps [of n] digits_val_append) (simp add: digits_val_def)
  qed
qed

lemma Atoi_show_int:
  assumes "0 \<le> n" and "n \<le> max_int64"
  shows "Atoi (show_int n) = Some n"
proof -
  note d = show_digits_read [OF assms(1)]
  obtain c cs where c: "show_digits n = c # cs" using d by (cases "show_digits n") auto
  with d have "c \<noteq> CHR ''+''" "c \<noteq> CHR ''-''" by (auto simp: is_digit_def)
  with c d assms show ?thesis by (simp add: Atoi_def show_int_def Let_def)
qed

lemma show_digits_inj: "0 \<le> m \<Longrightarrow> 0 \<le> n \<Longrightarrow> show_digits m = show_digits n \<Longrightarrow> m = n"
  by (metis show_digits_read)

end
