(* ===== verification/Lease_Laws.thy ===== *)
theory Lease_Laws
  imports Durable_Store
begin

text \<open>
  Who writes the training state of a job: \<open>UpdateTraining\<close> alone, and each time it advances the revision by
  one. So over a run of the repository shorter than \<open>2 ^ 64\<close> steps the same revision means the same state,
  which is what a lease on a revision relies on.
\<close>

section \<open>Calls that keep the training state\<close>

definition named_jobs :: "Store \<Rightarrow> bool" where
  "named_jobs s \<longleftrightarrow> (\<forall>k j. map_of (st_jobs s) k = Some j \<longrightarrow> job_ID j = k)"

definition training_kept :: "Store \<Rightarrow> Store \<Rightarrow> bool" where
  "training_kept s s' \<longleftrightarrow> named_jobs s' \<and> (\<forall>k j. map_of (st_jobs s) k = Some j \<longrightarrow>
     (\<exists>j'. map_of (st_jobs s') k = Some j' \<and> job_Training j' = job_Training j))"

lemma training_kept_refl: "named_jobs s \<Longrightarrow> training_kept s s"
  by (simp add: training_kept_def)

lemma training_kept_trans: "training_kept a b \<Longrightarrow> training_kept b c \<Longrightarrow> training_kept a c"
  unfolding training_kept_def by metis

lemma training_kept_same: "named_jobs s \<Longrightarrow> st_jobs s' = st_jobs s \<Longrightarrow> training_kept s s'"
  by (simp add: training_kept_def named_jobs_def)

lemma training_kept_put:
  assumes "named_jobs s" and "map_of (st_jobs s) k = Some j0" and "job_ID j = k" and "job_Training j = job_Training j0"
    and "map_of (st_jobs s') = (map_of (st_jobs s))(k \<mapsto> j)"
  shows "training_kept s s'"
  using assms by (auto simp: training_kept_def named_jobs_def)

lemma transition_training [simp]: "job_Training (transitionLocked j st r t) = job_Training j"
  by (simp add: transitionLocked_def Let_def)

lemma released_training [simp]: "job_Training (released j t) = job_Training j" "job_ID (released j t) = job_ID j"
  by (simp_all add: released_def split: option.split)

lemma releaseLocked_jobs:
  "releaseLocked j t s = (j', s') \<Longrightarrow> j' = released j t \<and>
     (map_of (st_jobs s'))(job_ID j \<mapsto> j') = (map_of (st_jobs s))(job_ID j \<mapsto> j')"
  by (auto simp: releaseLocked_def Let_def released_def fun_eq_iff split: option.splits)

lemma finish_job_training:
  assumes "named_jobs s" and "map_of (st_jobs s) k = Some j0" and "job_ID j = k" and "job_Training j = job_Training j0"
  shows "training_kept s (finish_job k j t s)"
proof -
  obtain j' s' where r: "releaseLocked j t s = (j', s')" by fastforce
  from releaseLocked_jobs [OF r] assms show ?thesis
    by (intro training_kept_put [OF assms(1,2), of "released j t"])
      (auto simp: finish_job_def r update_conv')
qed

lemma put_job_training:
  assumes "named_jobs s" and "map_of (st_jobs s) k = Some j0" and "job_ID j = k" and "job_Training j = job_Training j0"
  shows "training_kept s (s\<lparr>st_jobs := put k j (st_jobs s)\<rparr>)"
  by (rule training_kept_put [OF assms]) (simp add: update_conv')

section \<open>Operation by operation\<close>

lemma SetJobStatus_training:
  assumes "named_jobs s"
  shows "training_kept s (snd (SetJobStatus i st r t s))"
proof (cases "map_of (st_jobs s) i")
  case None
  with assms show ?thesis by (simp add: SetJobStatus_def training_kept_refl)
next
  case (Some job)
  with assms have "job_ID job = i" by (simp add: named_jobs_def)
  with Some assms put_job_training [OF assms Some, of "transitionLocked job st r t"]
    finish_job_training [OF assms Some, of "transitionLocked job st r t" t]
  show ?thesis
    by (auto simp: SetJobStatus_def finish_job_def Let_def training_kept_refl split: prod.splits if_splits simp del: Terminal.simps)
qed

lemma CommitAssignment_training:
  assumes "named_jobs s"
  shows "training_kept s (snd (CommitAssignment i p c t s))"
proof (cases "map_of (st_jobs s) i")
  case None
  with assms show ?thesis by (simp add: CommitAssignment_def training_kept_refl)
next
  case (Some job)
  have c: "job_ID (committed_job job p c t) = job_ID job" "job_Training (committed_job job p c t) = job_Training job"
    by (simp_all add: committed_job_def Let_def split: option.split)
  have "job_ID job = i" using Some assms by (simp add: named_jobs_def)
  with put_job_training [OF assms Some, of "committed_job job p c t"] c
  have "training_kept s (s\<lparr>st_jobs := put i (committed_job job p c t) (st_jobs s)\<rparr>)" by simp
  then have "training_kept s s'" if "st_jobs s' = put i (committed_job job p c t) (st_jobs s)" for s'
    using that by (simp add: training_kept_def named_jobs_def)
  with Some c \<open>job_ID job = i\<close> assms show ?thesis
    by (auto simp: CommitAssignment_def Let_def training_kept_refl split: option.splits)
qed

lemma RequestStop_training:
  assumes "named_jobs s"
  shows "training_kept s (snd (RequestStop i c t s))"
proof (cases "map_of (st_jobs s) i")
  case None
  with assms show ?thesis by (simp add: RequestStop_def training_kept_refl)
next
  case (Some job0)
  have id: "job_ID job0 = i" using Some assms by (simp add: named_jobs_def)
  let ?job = "job0\<lparr>job_TerminationReason := stop_reason job0 t\<rparr>"
  have f: "training_kept s (s'\<lparr>st_jobs := put i j' (st_jobs s')\<rparr>)"
    if "releaseLocked (transitionLocked ?job st r t) t s1 = (j', s')" "st_jobs s1 = st_jobs s" for st r s1 j' s'
    using releaseLocked_jobs [OF that(1)] id that(2)
    by (intro training_kept_put [OF assms Some, of "released (transitionLocked ?job st r t) t"])
      (auto simp: update_conv')
  have p: "training_kept s s'" if "st_jobs s' = put i (transitionLocked ?job st r t) (st_jobs s)" for s' st r
    by (rule training_kept_put [OF assms Some, of "transitionLocked ?job st r t"]) (simp_all add: id that update_conv')
  have fid: "job_ID j' = i" if "releaseLocked (transitionLocked ?job st r t) t s1 = (j', s')" for st r s1 j' s'
    using releaseLocked_jobs [OF that] id by simp
  show ?thesis
    using Some id p f fid training_kept_refl [OF assms]
    by (auto simp: RequestStop_def Let_def split: option.splits prod.splits if_splits simp del: Terminal.simps)
qed

lemma applyAck_training:
  assumes "named_jobs s"
  shows "training_kept s (applyAckLocked c a t s)"
proof (cases "Option.bind (payload_JobID (cmd_Payload c)) (map_of (st_jobs s))")
  case None
  with assms show ?thesis by (simp add: applyAckLocked_def training_kept_refl)
next
  case (Some job)
  then obtain k where k: "map_of (st_jobs s) k = Some job" by (auto simp: bind_eq_Some_conv)
  have id: "job_ID job = k" using k assms by (simp add: named_jobs_def)
  have p: "training_kept s (put_job j s)" if "job_ID j = k" "job_Training j = job_Training job" for j
    using put_job_training [OF assms k that] that by simp
  have f: "training_kept s (s'\<lparr>st_jobs := put (job_ID j') j' (st_jobs s')\<rparr>)"
    if "releaseLocked (transitionLocked (job\<lparr>job_TerminationReason := tr\<rparr>) st r t) t s = (j', s')" for st r tr j' s'
    using finish_job_training [OF assms k, of "transitionLocked (job\<lparr>job_TerminationReason := tr\<rparr>) st r t" t]
      releaseLocked_jobs [OF that] id that by (simp add: finish_job_def)
  show ?thesis
    using Some id p f training_kept_refl [OF assms]
    by (auto simp: applyAckLocked_def Let_def split: option.splits prod.splits if_splits CommandType.splits simp del: Terminal.simps)
qed

text \<open>The loop over the jobs of an inventory report.\<close>

lemma reconcile_one_training:
  assumes "named_jobs s"
  shows "training_kept s (reconcile_one a r m s k)"
proof (cases "map_of (st_jobs s) k")
  case None
  with assms show ?thesis by (simp add: reconcile_one_def training_kept_refl)
next
  case (Some job)
  have id: "job_ID job = k" using Some assms by (simp add: named_jobs_def)
  note p = put_job_training [OF assms Some] and f = finish_job_training [OF assms Some]
  have present: "training_kept s (reconcile_present r k job x o' s)" for x o'
    by (auto simp: reconcile_present_def Let_def id p f split: prod.splits)
  have absent: "training_kept s (reconcile_absent r k job x s)" for x
    by (auto simp: reconcile_absent_def Let_def id p f split: prod.splits)
  show ?thesis
    using Some present absent training_kept_refl [OF assms]
    by (auto simp: reconcile_one_def split: option.splits simp del: Terminal.simps)
qed

lemma reconcile_training: "named_jobs s \<Longrightarrow> training_kept s (reconcileObservedLocked a r s)"
proof -
  have "named_jobs s \<Longrightarrow> training_kept s (foldl (reconcile_one a r m) s ks)" for m ks
  proof (induction ks arbitrary: s)
    case Nil
    then show ?case by (simp add: training_kept_refl)
  next
    case (Cons k ks)
    have one: "training_kept s (reconcile_one a r m s k)" by (rule reconcile_one_training [OF Cons.prems])
    then have "named_jobs (reconcile_one a r m s k)" by (simp add: training_kept_def)
    from training_kept_trans [OF one Cons.IH [OF this]] show ?case by simp
  qed
  then show "named_jobs s \<Longrightarrow> training_kept s (reconcileObservedLocked a r s)"
    by (simp add: reconcileObservedLocked_def)
qed

lemma ReplaceInventory_training:
  assumes "named_jobs s"
  shows "training_kept s (snd (ReplaceInventory a r s))"
proof -
  have "training_kept s s'" if "st_jobs s' = st_jobs (reconcileObservedLocked a r' s) \<or> st_jobs s' = st_jobs s" for s' r'
    using that reconcile_training [OF assms, of a r'] assms by (auto simp: training_kept_def named_jobs_def)
  moreover have "st_jobs (snd (ReplaceInventory a r s)) = st_jobs s \<or>
      (\<exists>r'. st_jobs (snd (ReplaceInventory a r s)) = st_jobs (reconcileObservedLocked a r' s))"
    by (auto simp: ReplaceInventory_def Let_def split: option.split prod.split)
  ultimately show ?thesis by blast
qed

text \<open>The two loops of a replanning.\<close>

definition trained_entries :: "Store \<Rightarrow> (string, Job) gomap \<Rightarrow> bool" where
  "trained_entries s ch \<longleftrightarrow> wf_map ch \<and> (\<forall>k c. map_of ch k = Some c \<longrightarrow> job_ID c = k \<and>
     (\<exists>j. map_of (st_jobs s) k = Some j \<and> job_Training c = job_Training j))"

lemma trained_entriesD:
  "trained_entries s ch \<Longrightarrow> map_of ch k = Some c \<Longrightarrow>
     job_ID c = k \<and> (\<exists>j. map_of (st_jobs s) k = Some j \<and> job_Training c = job_Training j)"
  by (simp only: trained_entries_def)

lemma trained_entries_put:
  assumes "trained_entries s ch" and "job_ID c = k" and "map_of (st_jobs s) k = Some j" and "job_Training c = job_Training j"
  shows "trained_entries s (put k c ch)"
  using assms by (auto simp: trained_entries_def)

lemma replan_claim_trained:
  "replan_claim t s es ch = Inr ch' \<Longrightarrow> named_jobs s \<Longrightarrow> trained_entries s ch \<Longrightarrow> trained_entries s ch'"
proof (induction es arbitrary: ch)
  case (Cons e es)
  from Cons.prems(1) obtain j where j: "map_of (st_jobs s) (rp_JobID e) = Some j"
    "replan_claim t s es (put (job_ID j) (j\<lparr>job_Assignment := None\<rparr>) ch) = Inr ch'"
    by (auto split: option.splits if_splits)
  have "job_ID j = rp_JobID e" using j(1) Cons.prems(2) by (simp add: named_jobs_def)
  with j(1) trained_entries_put [OF Cons.prems(3), of "j\<lparr>job_Assignment := None\<rparr>" "job_ID j" j]
  have "trained_entries s (put (job_ID j) (j\<lparr>job_Assignment := None\<rparr>) ch)" by simp
  from Cons.IH [OF j(2) Cons.prems(2) this] show ?case .
qed simp

lemma replan_apply_trained:
  "replan_apply t s vs es ch bs n = Inr (ch', n') \<Longrightarrow> trained_entries s ch \<Longrightarrow> trained_entries s ch'"
proof (induction es arbitrary: ch bs n)
  case (Cons e es)
  from Cons.prems(1) obtain c where c: "map_of ch (rp_JobID e) = Some c" by (auto split: option.splits)
  then obtain j where j: "job_ID c = rp_JobID e" "map_of (st_jobs s) (rp_JobID e) = Some j" "job_Training c = job_Training j"
    using trained_entriesD [OF Cons.prems(2)] by blast
  have step: "trained_entries s (put (rp_JobID e) x ch)" if "job_ID x = job_ID c" "job_Training x = job_Training c" for x
    using that j by (intro trained_entries_put [OF Cons.prems(2)]) auto
  obtain x bs' n1 where "replan_apply t s vs es (put (rp_JobID e) x ch) bs' n1 = Inr (ch', n')" "job_ID x = job_ID c"
    "job_Training x = job_Training c"
    using Cons.prems(1) c j(1) by (auto simp: Let_def split: option.splits if_splits)
  with Cons.IH step show ?case by blast
qed simp

lemma ReplanReservations_training:
  assumes "named_jobs s"
  shows "training_kept s (snd (ReplanReservations t plan s))"
proof (cases "snd (ReplanReservations t plan s) = s")
  case False
  then obtain plans ch ch' n where claim: "replan_claim t s plans [] = Inr ch"
    and "replan_apply t s (servers_by_id s) plans ch (filter (\<lambda>j. map_of ch (job_ID j) = None) (jobs_by_id s)) 0 = Inr (ch', n)"
    and s': "snd (ReplanReservations t plan s) = s\<lparr>st_jobs := put_all ch' (st_jobs s)\<rparr>"
    by (auto simp: ReplanReservations_def Let_def split: sum.splits prod.splits)
  moreover have "trained_entries s []" by (simp add: trained_entries_def)
  ultimately have tr: "trained_entries s ch'" using replan_apply_trained replan_claim_trained [OF _ assms] by blast
  then have look: "map_of (put_all ch' (st_jobs s)) k = (case map_of ch' k of None \<Rightarrow> map_of (st_jobs s) k | Some j \<Rightarrow> Some j)" for k
    by (intro map_of_put_all) (simp add: trained_entries_def)
  have "job_ID j = k" if "map_of (put_all ch' (st_jobs s)) k = Some j" for k j
    using that trained_entriesD [OF tr, of k] assms by (cases "map_of ch' k") (auto simp: look named_jobs_def)
  moreover have "\<exists>j'. map_of (put_all ch' (st_jobs s)) k = Some j' \<and> job_Training j' = job_Training j"
    if "map_of (st_jobs s) k = Some j" for k j
    using that trained_entriesD [OF tr, of k] by (cases "map_of ch' k") (auto simp: look)
  ultimately show ?thesis unfolding s' by (simp add: training_kept_def named_jobs_def)
qed (simp add: training_kept_refl assms)

lemma CreateJob_training: "named_jobs s \<Longrightarrow> training_kept s (snd (CreateJob j s))"
  by (auto simp: CreateJob_def training_kept_def named_jobs_def split: option.splits)

section \<open>A step and a run\<close>

text \<open>At most \<open>n\<close> updates: the revision counts them, and none means the same state.\<close>

definition trained :: "nat \<Rightarrow> Job \<Rightarrow> Job \<Rightarrow> bool" where
  "trained n j j' \<longleftrightarrow> (\<exists>k \<le> n. tr_Revision (job_Training j') = tr_Revision (job_Training j) + of_nat k \<and>
     (k = 0 \<longrightarrow> job_Training j' = job_Training j))"

lemma trained_same: "job_Training j' = job_Training j \<Longrightarrow> trained n j j'"
  by (auto simp: trained_def intro: exI [of _ 0])

lemma trained_trans:
  assumes "trained m a b" and "trained n b c"
  shows "trained (m + n) a c"
proof -
  from assms obtain k l where "k \<le> m" "l \<le> n" "tr_Revision (job_Training b) = tr_Revision (job_Training a) + of_nat k"
    "tr_Revision (job_Training c) = tr_Revision (job_Training b) + of_nat l"
    "k = 0 \<longrightarrow> job_Training b = job_Training a" "l = 0 \<longrightarrow> job_Training c = job_Training b"
    by (auto simp: trained_def)
  then show ?thesis unfolding trained_def by (intro exI [of _ "k + l"]) (auto simp: algebra_simps)
qed

lemma trained_revision:
  assumes "trained n j j'" and "n < 2 ^ 64" and "tr_Revision (job_Training j') = tr_Revision (job_Training j)"
  shows "job_Training j' = job_Training j"
proof -
  from assms(1) obtain k where k: "k \<le> n" "tr_Revision (job_Training j') = tr_Revision (job_Training j) + of_nat k"
    "k = 0 \<longrightarrow> job_Training j' = job_Training j" by (auto simp: trained_def)
  with assms(3) have "(of_nat k :: 64 word) = 0" by simp
  then have "2 ^ 64 dvd k" by (simp add: word_of_nat_eq_0_iff)
  with k(1) assms(2) have "k = 0" by (auto dest: dvd_imp_le)
  with k(3) show ?thesis by simp
qed

lemma UpdateTraining_trained:
  assumes "map_of (st_jobs s) i = Some j"
  shows "\<exists>j'. map_of (st_jobs (snd (UpdateTraining a w tr t s))) i = Some j' \<and> trained 1 j j'"
  using assms trained_same [of j j 1]
  by (auto simp: UpdateTraining_def Let_def trained_def split: option.split intro!: exI [of _ "1::nat"])

lemma exec_trained:
  assumes "inv s" and "call_ok c s" and "map_of (st_jobs s) i = Some j"
  shows "\<exists>j'. map_of (st_jobs (snd (exec c s))) i = Some j' \<and> trained 1 j j'"
proof -
  have n: "named_jobs s" using inv_job_ID [OF assms(1)] by (simp add: named_jobs_def)
  have kept: "\<exists>j'. map_of (st_jobs s') i = Some j' \<and> trained 1 j j'" if "training_kept s s'" for s'
    using that assms(3) trained_same by (fastforce simp: training_kept_def)
  have same: "\<exists>j'. map_of (st_jobs s') i = Some j' \<and> trained 1 j j'" if "st_jobs s' = st_jobs s" for s'
    using that assms(3) trained_same by fastforce
  have ack: "training_kept s (snd (AckCommand x y z u s))" for x y z u
  proof -
    have "named_jobs (put_command k s)" for k using n by (simp add: named_jobs_def)
    from applyAck_training [OF this] have "training_kept s (applyAckLocked k z u (put_command k s))" for k
      by (simp add: training_kept_def)
    with n show ?thesis
      by (auto simp: AckCommand_def Let_def training_kept_refl split: option.split)
  qed
  show ?thesis
    using assms(2) kept ack [THEN kept] same same [OF refl] CreateJob_training [OF n] SetJobStatus_training [OF n] CommitAssignment_training [OF n]
      RequestStop_training [OF n] ReplaceInventory_training [OF n] ReplanReservations_training [OF n]
      UpdateTraining_trained [OF assms(3)]
    by (cases c)
      (simp_all add: upsert.jobs_kept heartbeat.jobs_kept drain.jobs_kept stale.jobs_kept enqueue.jobs_kept lease.jobs_kept)
qed

lemma step_trained:
  assumes "durable_step off d d'" and "dinv off d" and "map_of (st_jobs (dur_core d)) i = Some j"
  shows "\<exists>j'. map_of (st_jobs (dur_core d')) i = Some j' \<and> trained 1 j j'"
  using assms(1)
proof (cases rule: durable_step.cases)
  case (call c save)
  have s: "inv (dur_core d)" using assms(2) by (simp add: dinv_def)
  show ?thesis
    using repository.timeout_kept [OF s call(2)]
  proof (cases rule: transact_cases [where fn = "exec c" and d = d and save = save])
    case (rolled_back e)
    with call assms(3) trained_same show ?thesis by fastforce
  next
    case (committed v core)
    with call exec_trained [OF s call(2) assms(3)] show ?thesis by simp
  qed
next
  case restart
  with reopen [OF assms(2)] assms(3) trained_same show ?thesis by fastforce
qed

lemma run_trained:
  "(durable_step off ^^ n) d d' \<Longrightarrow> reachable off d \<Longrightarrow> map_of (st_jobs (dur_core d)) i = Some j \<Longrightarrow>
     reachable off d' \<and> (\<exists>j'. map_of (st_jobs (dur_core d')) i = Some j' \<and> trained n j j')"
proof (induction n arbitrary: d')
  case 0
  with trained_same [of j j 0] show ?case by simp
next
  case (Suc n)
  from Suc.prems(1) obtain m where m: "(durable_step off ^^ n) d m" "durable_step off m d'" by auto
  from Suc.IH [OF m(1) Suc.prems(2,3)] obtain j1 where j1: "reachable off m" "map_of (st_jobs (dur_core m)) i = Some j1" "trained n j j1"
    by blast
  from step_trained [OF m(2) reachable_dinv [OF j1(1)] j1(2)] obtain j' where
    j': "map_of (st_jobs (dur_core d')) i = Some j'" "trained 1 j1 j'" by blast
  from trained_trans [OF j1(3) j'(2)] j'(1) reachable.step [OF j1(1) m(2)] show ?case by simp
qed

end
