(* ===== verification/Training_Service.thy ===== *)
theory Training_Service
  imports Application_Run Application Time_Format Lease_Laws
begin

text \<open>
  \<open>internal/application/training.go\<close>: checkpoint warnings, the environment of a training job, the
  credential of a running job, and the publication of checkpoints and artifacts. The upload itself
  runs outside the repository: \<open>SaveTrainingOutput\<close> is a first transaction that takes a lease, the
  object store's \<open>Put\<close>, and a second transaction that publishes or gives up. What the upload
  context reports and the clock after the upload are arguments.
\<close>

section \<open>Strings for the container\<close>

text \<open>\<open>url.PathEscape\<close> on bytes.\<close>

definition hex_digit :: "nat \<Rightarrow> char" where
  "hex_digit n = char_of (if n < 10 then 48 + n else 55 + n)"

definition path_safe :: "char \<Rightarrow> bool" where
  "path_safe c \<longleftrightarrow> (let n = of_char c :: nat in
     (48 \<le> n \<and> n \<le> 57) \<or> (65 \<le> n \<and> n \<le> 90) \<or> (97 \<le> n \<and> n \<le> 122)) \<or> List.member ''-_.~$&+:=@'' c"

definition escape_char :: "char \<Rightarrow> string" where
  "escape_char c = (if path_safe c then [c]
     else let n = of_char c :: nat in [CHR ''%'', hex_digit (n div 16), hex_digit (n mod 16)])"

definition PathEscape :: "string \<Rightarrow> string" where
  "PathEscape s = concat (map escape_char s)"

definition TrimRightSlash :: "string \<Rightarrow> string" where
  "TrimRightSlash s = rev (dropWhile (\<lambda>c. c = CHR ''/'') (rev s))"

section \<open>Deadlines\<close>

abbreviation stop_grace :: duration where "stop_grace \<equiv> 30 * Second"

definition earlier_deadline :: "gotime \<Rightarrow> JobEvent \<Rightarrow> gotime" where
  "earlier_deadline deadline e =
     (if ev_Status e = JobStopping \<or> Terminal (ev_Status e)
      then (let t = ev_At e + stop_grace in if t < deadline then t else deadline)
      else deadline)"

definition trainingDeadline :: "Job \<Rightarrow> gotime" where
  "trainingDeadline job =
     foldl earlier_deadline (win_EndAt (RequestedWindow job) + stop_grace) (job_Events job)"

text \<open>\<open>time.Duration(float64(d) * fraction)\<close> drops the fraction of a nanosecond.\<close>

definition scale :: "duration \<Rightarrow> rat \<Rightarrow> duration" where
  "scale d f = (let x = of_int d * f in if x < 0 then - \<lfloor>- x\<rfloor> else \<lfloor>x\<rfloor>)"

definition WarningAt :: "TrainingOptions \<Rightarrow> TimeWindow \<Rightarrow> gotime" where
  "WarningAt opts w =
     (let lead = scale (Sub (win_EndAt w) (win_StartAt w)) (trn_WarningFraction opts);
          lead = (if lead < trn_MinWarningLead opts then trn_MinWarningLead opts else lead);
          lead = (if trn_MaxWarningLead opts < lead then trn_MaxWarningLead opts else lead);
          warn = win_EndAt w - lead
      in if warn < win_StartAt w then win_StartAt w else warn)"

text \<open>\<open>token\<close> is what \<open>randomToken(32)\<close> returns.\<close>

definition initTraining :: "ControlPlane \<Rightarrow> go_error + string \<Rightarrow> Job \<Rightarrow> go_error + Job" where
  "initTraining c token job0 =
     (let job = job0\<lparr>job_Training := (job_Training job0)\<lparr>tr_CheckpointStatus := CheckpointNone,
            tr_ArtifactStatus := ArtifactNone\<rparr>\<rparr> in
      if in_WorkloadType (job_Intent job) \<noteq> WorkloadTraining \<or> cp_objects c = None then Inr job
      else case token of Inl e \<Rightarrow> Inl e
        | Inr tok \<Rightarrow> Inr (job\<lparr>job_TrainingToken := tok,
            job_Training := (job_Training job)\<lparr>tr_CheckpointWarningAt :=
              WarningAt (cp_training c) (RequestedWindow job)\<rparr>\<rparr>))"

definition trainingEnvironment :: "ControlPlane \<Rightarrow> Job \<Rightarrow> labels" where
  "trainingEnvironment c job =
     (let env = foldl (\<lambda>m (k, v). put k v m) [] (job_Environment job) in
      if in_WorkloadType (job_Intent job) = WorkloadTraining \<and> job_TrainingToken job \<noteq> '''' \<and>
         cp_objects c \<noteq> None
      then foldl (\<lambda>m (k, v). put k v m) env
        [(''AIWM_JOB_ID'', job_ID job),
         (''AIWM_TRAINING_URL'', TrimRightSlash (trn_APIURL (cp_training c)) @ ''/api/v1/training/'' @
            PathEscape (job_ID job)),
         (''AIWM_TRAINING_TOKEN'', job_TrainingToken job),
         (''AIWM_ALLOCATION_END_AT'', Format_RFC3339Nano (win_EndAt (RequestedWindow job))),
         (''AIWM_CHECKPOINT_URI'', tr_LatestCheckpointURI (job_Training job)),
         (''AIWM_ARTIFACT_URI'', tr_FinalArtifactURI (job_Training job)),
         (''AIWM_RESUME_CHECKPOINT_URI'', tr_ResumeCheckpointURI (job_Training job))]
      else env)"

section \<open>Controller steps\<close>

definition upload_active :: "ControlPlane \<Rightarrow> TrainingState \<Rightarrow> gotime \<Rightarrow> bool" where
  "upload_active c t now \<longleftrightarrow>
     tr_UploadID t \<noteq> '''' \<and> Sub now (tr_UploadStartedAt t) < trn_UploadTimeout (cp_training c)"

definition checkpoint_due :: "ControlPlane \<Rightarrow> Job \<Rightarrow> gotime \<Rightarrow> bool" where
  "checkpoint_due c job now \<longleftrightarrow>
     (let t = job_Training job in
      \<not> (cp_objects c = None \<or> in_WorkloadType (job_Intent job) \<noteq> WorkloadTraining \<or>
         job_Status job \<noteq> JobRunning \<or> upload_active c t now \<or> IsZero (tr_CheckpointWarningAt t) \<or>
         now < tr_CheckpointWarningAt t \<or> \<not> now < win_EndAt (RequestedWindow job) \<or>
         tr_CheckpointStatus t = CheckpointSaving \<or> tr_CheckpointStatus t = CheckpointRequested \<or>
         \<not> tr_CheckpointCreatedAt t < tr_CheckpointWarningAt t))"

definition requestCheckpoint ::
  "(Snapshot \<Rightarrow> go_error option) \<Rightarrow> ControlPlane \<Rightarrow> Job \<Rightarrow> gotime \<Rightarrow> unit app" where
  "requestCheckpoint save c job now =
     (if \<not> checkpoint_due c job now then reply ()
      else let t = (job_Training job)\<lparr>tr_CheckpointStatus := CheckpointRequested\<rparr> in
        on_conflict
          (finish_with (transact save (UpdateTraining (job_ID job) (tr_Revision t) t now)))
          (reply ()))"

text \<open>What a failed or abandoned upload leaves: an earlier checkpoint stays available.\<close>

definition failed_upload :: "bool \<Rightarrow> TrainingState \<Rightarrow> TrainingState" where
  "failed_upload checkpoint t =
     (if checkpoint
      then t\<lparr>tr_CheckpointStatus := (if tr_LatestCheckpointURI t \<noteq> '''' then CheckpointAvailable else CheckpointFailed)\<rparr>
      else t\<lparr>tr_ArtifactStatus := ArtifactFailed\<rparr>)"

definition end_upload :: "TrainingState \<Rightarrow> TrainingState" where
  "end_upload t = t\<lparr>tr_UploadID := '''', tr_UploadKind := ''''\<rparr>"

definition recoverTrainingUpload ::
  "(Snapshot \<Rightarrow> go_error option) \<Rightarrow> ControlPlane \<Rightarrow> Job \<Rightarrow> gotime \<Rightarrow> Job app" where
  "recoverTrainingUpload save c job now =
     (let t = job_Training job in
      if tr_UploadID t = '''' \<or>
         (now < tr_UploadStartedAt t + trn_UploadTimeout (cp_training c) \<and> now < trainingDeadline job)
      then reply job
      else let t' = end_upload (failed_upload (tr_UploadKind t = ''checkpoint'') t) in
        on_conflict (transact save (UpdateTraining (job_ID job) (tr_Revision t) t' now)) (reply job))"

section \<open>The running job's session\<close>

definition session_open :: "ControlPlane \<Rightarrow> string \<Rightarrow> gotime \<Rightarrow> Job \<Rightarrow> bool" where
  "session_open c token now job \<longleftrightarrow>
     cp_objects c \<noteq> None \<and> token \<noteq> '''' \<and> job_TrainingToken job \<noteq> '''' \<and> token = job_TrainingToken job \<and>
     win_Valid (RequestedWindow job) \<and> \<not> now < win_StartAt (RequestedWindow job) \<and>
     now < trainingDeadline job \<and>
     (case job_Assignment job of None \<Rightarrow> False | Some a \<Rightarrow> asg_CommandID a \<noteq> '''')"

definition TrainingSession :: "ControlPlane \<Rightarrow> string \<Rightarrow> string \<Rightarrow> gotime \<Rightarrow> Job app" where
  "TrainingSession c i token now d =
     (case read_core (GetJob i) d of
        Inl e \<Rightarrow> (Inl ErrUnauthorized, d)
      | Inr job \<Rightarrow> if session_open c token now job then (Inr job, d) else (Inl ErrUnauthorized, d))"

record TrainingContract =
  tc_StopRequested :: bool
  tc_JobID :: string
  tc_EndAt :: gotime
  tc_CheckpointRequested :: bool
  tc_Training :: TrainingState
  tc_ResumeURL :: string

definition GetTrainingContract :: "ControlPlane \<Rightarrow> string \<Rightarrow> string \<Rightarrow> gotime \<Rightarrow> TrainingContract app" where
  "GetTrainingContract c i token now =
     andThen (TrainingSession c i token now) (\<lambda>job.
       let r = \<lparr>tc_StopRequested = (job_Status job = JobStopping), tc_JobID = job_ID job,
              tc_EndAt = win_EndAt (RequestedWindow job),
              tc_CheckpointRequested = (tr_CheckpointStatus (job_Training job) = CheckpointRequested),
              tc_Training = job_Training job, tc_ResumeURL = ''''\<rparr> in
       case cp_objects c of
         Some objects \<Rightarrow>
           if tr_ResumeCheckpointURI (job_Training job) \<noteq> ''''
           then andThen (lift (obj_DownloadURL objects (tr_ResumeCheckpointURI (job_Training job)) (5 * Minute)))
                  (\<lambda>url. reply (r\<lparr>tc_ResumeURL := url\<rparr>))
           else reply r
       | None \<Rightarrow> reply r)"

section \<open>Publishing an output\<close>

record Upload =
  up_Job :: Job
  up_ID :: string
  up_State :: TrainingState
  up_Deadline :: gotime
  up_Key :: string

definition start_upload :: "bool \<Rightarrow> string \<Rightarrow> string \<Rightarrow> gotime \<Rightarrow> TrainingState \<Rightarrow> TrainingState" where
  "start_upload checkpoint uploadID kind now t =
     (let t = t\<lparr>tr_UploadID := uploadID, tr_UploadKind := kind, tr_UploadStartedAt := now\<rparr> in
      if checkpoint then t\<lparr>tr_CheckpointStatus := CheckpointSaving\<rparr>
      else t\<lparr>tr_ArtifactStatus := ArtifactSaving\<rparr>)"

definition upload_refused :: "ControlPlane \<Rightarrow> string \<Rightarrow> int \<Rightarrow> int \<Rightarrow> gotime \<Rightarrow> TrainingState \<Rightarrow> go_error option" where
  "upload_refused c kind step bytes now t =
     (if (kind \<noteq> ''checkpoint'' \<and> kind \<noteq> ''artifact'') \<or> step < 0 \<or> bytes \<le> 0 \<or>
         trn_MaxUploadBytes (cp_training c) < bytes
      then Some ErrInvalidInput
      else if upload_active c t now then Some ErrConflict
      else if kind = ''artifact'' \<and> tr_ArtifactStatus t = ArtifactReady then Some ErrConflict
      else None)"

definition object_key :: "Job \<Rightarrow> string \<Rightarrow> string \<Rightarrow> string" where
  "object_key job kind uploadID =
     PathEscape (job_OrganizationID job) @ ''/jobs/'' @ job_ID job @ ''/'' @ kind @ ''s/'' @ uploadID @ ''.bin''"

text \<open>The first transaction: take the lease. \<open>random\<close> is what \<open>randomToken(8)\<close> returns.\<close>

definition beginOutput ::
  "(Snapshot \<Rightarrow> go_error option) \<Rightarrow> ControlPlane \<Rightarrow> string \<Rightarrow> string \<Rightarrow> string \<Rightarrow> int \<Rightarrow> int
     \<Rightarrow> go_error + string \<Rightarrow> gotime \<Rightarrow> Upload app" where
  "beginOutput save c i token kind step bytes random now =
     andThen (TrainingSession c i token now) (\<lambda>job.
       let t = job_Training job in
       case upload_refused c kind step bytes now t of
         Some e \<Rightarrow> fail e
       | None \<Rightarrow> andThen (lift (newID ''output'' random)) (\<lambda>uploadID.
           andThen (transact save (UpdateTraining i (tr_Revision t)
                      (start_upload (kind = ''checkpoint'') uploadID kind now t) now)) (\<lambda>saving.
             let deadline = now + trn_UploadTimeout (cp_training c);
                 stop_by = trainingDeadline job
             in reply \<lparr>up_Job = job, up_ID = uploadID, up_State = job_Training saving,
                  up_Deadline = (if stop_by < deadline then stop_by else deadline),
                  up_Key = object_key job kind uploadID\<rparr>)))"

text \<open>
  Whether the upload counts: it succeeded, with a URI, before its deadline and before the current
  deadline of the job. \<open>latest\<close> is the job as the repository has it now.
\<close>

definition published ::
  "Upload \<Rightarrow> go_error + string \<Rightarrow> bool \<Rightarrow> gotime \<Rightarrow> go_error + Job \<Rightarrow> string option" where
  "published up put_result ctx_ended now latest =
     (case (put_result, latest) of
        (Inr uri, Inr job) \<Rightarrow>
          if \<not> now < trainingDeadline job \<or> uri = '''' \<or> ctx_ended \<or> \<not> now < up_Deadline up
          then None else Some uri
      | _ \<Rightarrow> None)"

definition finished_upload ::
  "bool \<Rightarrow> int \<Rightarrow> gotime \<Rightarrow> string option \<Rightarrow> TrainingState \<Rightarrow> TrainingState" where
  "finished_upload checkpoint step now uri t =
     end_upload (case uri of
       Some u \<Rightarrow>
         if checkpoint
         then t\<lparr>tr_CheckpointStatus := CheckpointAvailable, tr_LatestCheckpointURI := u,
                tr_CheckpointCreatedAt := now, tr_CheckpointStep := step\<rparr>
         else t\<lparr>tr_ArtifactStatus := ArtifactReady, tr_FinalArtifactURI := u, tr_ArtifactCreatedAt := now\<rparr>
     | None \<Rightarrow> failed_upload checkpoint t)"

definition finishOutput ::
  "(Snapshot \<Rightarrow> go_error option) \<Rightarrow> string \<Rightarrow> string \<Rightarrow> int \<Rightarrow> Upload \<Rightarrow> go_error + string \<Rightarrow> bool
     \<Rightarrow> gotime \<Rightarrow> TrainingState app" where
  "finishOutput save i kind step up put_result ctx_ended now d =
     (let uri = published up put_result ctx_ended now (read_core (GetJob i) d);
          t = finished_upload (kind = ''checkpoint'') step now uri (up_State up)
      in andThen (transact save (UpdateTraining i (tr_Revision t) t now)) (\<lambda>stored.
           if uri = None then fail (ErrOther msg_output_not_saved) else reply (job_Training stored)) d)"

text \<open>Both transactions; \<open>later\<close> is what other requests did to the repository during the upload.\<close>

definition SaveTrainingOutput ::
  "(Snapshot \<Rightarrow> go_error option) \<Rightarrow> ControlPlane \<Rightarrow> string \<Rightarrow> string \<Rightarrow> string \<Rightarrow> int \<Rightarrow> int \<Rightarrow> string
     \<Rightarrow> go_error + string \<Rightarrow> gotime \<Rightarrow> (Durable \<Rightarrow> Durable) \<Rightarrow> bool \<Rightarrow> gotime \<Rightarrow> TrainingState app" where
  "SaveTrainingOutput save c i token kind step bytes body random now later ctx_ended end_time =
     andThen (beginOutput save c i token kind step bytes random now) (\<lambda>up d.
       case cp_objects c of
         None \<Rightarrow> (Inl ErrUnauthorized, d)
       | Some objects \<Rightarrow>
           finishOutput save i kind step up (obj_Put objects (up_Key up) body bytes) ctx_ended end_time (later d))"

definition ArtifactDownload :: "ControlPlane \<Rightarrow> reqctx \<Rightarrow> string \<Rightarrow> string app" where
  "ArtifactDownload c ctx i =
     andThen (GetVisibleJob ctx i) (\<lambda>job.
       case cp_objects c of
         None \<Rightarrow> fail ErrConflict
       | Some objects \<Rightarrow>
           if tr_ArtifactStatus (job_Training job) \<noteq> ArtifactReady \<or> tr_FinalArtifactURI (job_Training job) = ''''
           then fail ErrConflict
           else lift (obj_DownloadURL objects (tr_FinalArtifactURI (job_Training job)) (5 * Minute)))"

section \<open>Lemmas\<close>

lemma UpdateTraining_Inr:
  assumes "UpdateTraining i w t now s = (Inr j', s')"
  obtains j where "map_of (st_jobs s) i = Some j" "tr_Revision (job_Training j) = w"
    "in_WorkloadType (job_Intent j) = WorkloadTraining"
    "j' = j\<lparr>job_Training := t\<lparr>tr_ResumeCheckpointURI := tr_ResumeCheckpointURI (job_Training j),
       tr_ResumeFromJobID := tr_ResumeFromJobID (job_Training j),
       tr_CheckpointWarningAt := tr_CheckpointWarningAt (job_Training j), tr_Revision := w + 1\<rparr>,
       job_UpdatedAt := now\<rparr>"
    "s' = s\<lparr>st_jobs := put i j' (st_jobs s)\<rparr>"
  using assms by (auto simp: UpdateTraining_def Let_def split: option.splits if_splits)

lemma requestCheckpoint_advances [app_steps]: "advances off (requestCheckpoint save c job now)"
  by (simp add: requestCheckpoint_def Let_def app_steps)

lemma recoverTrainingUpload_advances [app_steps]: "advances off (recoverTrainingUpload save c job now)"
  by (simp add: recoverTrainingUpload_def Let_def app_steps)

lemma TrainingSession_Inr:
  "TrainingSession c i token now d = (Inr job, d') \<longleftrightarrow>
     d' = d \<and> map_of (st_jobs (dur_core d)) i = Some job \<and> session_open c token now job"
  by (auto simp: TrainingSession_def read_core_def GetJob_def split: option.splits)

lemma TrainingSession_pure: "snd (TrainingSession c i token now d) = d"
  by (simp add: TrainingSession_def split: sum.split)

lemma TrainingSession_advances [app_steps]: "advances off (TrainingSession c i token now)"
  by (simp add: advances_def TrainingSession_pure)

lemma beginOutput_advances [app_steps]: "advances off (beginOutput save c i token kind step bytes random now)"
  by (auto simp: beginOutput_def Let_def intro!: app_steps split: option.split)

lemma beginOutput_Inr:
  assumes "beginOutput save c i token kind step bytes random now d = (Inr up, d1)"
  obtains job u saving where "map_of (st_jobs (dur_core d)) i = Some job" "session_open c token now job"
    "upload_refused c kind step bytes now (job_Training job) = None" "newID ''output'' random = Inr u"
    "transact save (UpdateTraining i (tr_Revision (job_Training job))
       (start_upload (kind = ''checkpoint'') u kind now (job_Training job)) now) d = (Inr saving, d1)"
    "up_Job up = job" "up_ID up = u" "up_State up = job_Training saving"
    "up_Deadline up = min (trainingDeadline job) (now + trn_UploadTimeout (cp_training c))"
proof -
  obtain job where j: "map_of (st_jobs (dur_core d)) i = Some job" "session_open c token now job"
    and body: "(let t = job_Training job in
       case upload_refused c kind step bytes now t of
         Some e \<Rightarrow> fail e
       | None \<Rightarrow> andThen (lift (newID ''output'' random)) (\<lambda>uploadID.
           andThen (transact save (UpdateTraining i (tr_Revision t)
                      (start_upload (kind = ''checkpoint'') uploadID kind now t) now)) (\<lambda>saving.
             let deadline = now + trn_UploadTimeout (cp_training c);
                 stop_by = trainingDeadline job
             in reply \<lparr>up_Job = job, up_ID = uploadID, up_State = job_Training saving,
                  up_Deadline = (if stop_by < deadline then stop_by else deadline),
                  up_Key = object_key job kind uploadID\<rparr>))) d = (Inr up, d1)"
    using assms unfolding beginOutput_def andThen_Inr [of "TrainingSession c i token now"] TrainingSession_Inr
    by blast
  show ?thesis
  proof (cases "upload_refused c kind step bytes now (job_Training job)")
    case None
    with body j that show ?thesis by (auto simp: Let_def andThen_Inr min_def)
  next
    case (Some e)
    with body show ?thesis by (simp add: Let_def)
  qed
qed

lemma finishOutput_advances [app_steps]: "advances off (finishOutput save i kind step up r b now)"
  unfolding advances_def finishOutput_def Let_def
proof (intro allI impI)
  fix d :: Durable
  let ?u = "published up r b now (read_core (GetJob i) d)"
  let ?m = "andThen (transact save (UpdateTraining i
      (tr_Revision (finished_upload (kind = ''checkpoint'') step now ?u (up_State up)))
      (finished_upload (kind = ''checkpoint'') step now ?u (up_State up)) now))
    (\<lambda>stored. if ?u = None then fail (ErrOther msg_output_not_saved) else reply (job_Training stored))"
  assume "reachable off d"
  moreover have "advances off ?m" by (intro app_steps)
  ultimately show "(durable_step off)\<^sup>*\<^sup>* d (snd (?m d))" by (simp add: advances_def)
qed

text \<open>The deadline only moves earlier, and never past the end of the allocation plus the grace.\<close>

lemma earlier_deadline_le: "earlier_deadline x e \<le> x"
  by (simp add: earlier_deadline_def Let_def)

lemma foldl_earlier_le: "foldl earlier_deadline x es \<le> x"
  by (induction es arbitrary: x) (auto intro: order_trans earlier_deadline_le)

lemma trainingDeadline_le: "trainingDeadline job \<le> win_EndAt (RequestedWindow job) + stop_grace"
  by (simp add: trainingDeadline_def foldl_earlier_le)

lemma foldl_earlier_mono: "x \<le> y \<Longrightarrow> foldl earlier_deadline x es \<le> foldl earlier_deadline y es"
  by (induction es arbitrary: x y) (auto simp: earlier_deadline_def Let_def)

lemma foldl_earlier_event:
  "e \<in> set es \<Longrightarrow> ev_Status e = JobStopping \<or> Terminal (ev_Status e) \<Longrightarrow>
   foldl earlier_deadline x es \<le> ev_At e + stop_grace"
proof (induction es arbitrary: x)
  case Nil
  then show ?case by simp
next
  case (Cons a es)
  show ?case
  proof (cases "a = e")
    case True
    have "foldl earlier_deadline (earlier_deadline x e) es \<le> earlier_deadline x e" by (rule foldl_earlier_le)
    also have "\<dots> \<le> ev_At e + stop_grace" using Cons.prems(2) by (auto simp: earlier_deadline_def Let_def)
    finally show ?thesis using True by simp
  next
    case False
    with Cons show ?thesis by simp
  qed
qed

section \<open>Properties\<close>

text \<open>
  C27. A training credential opens nothing outside its allocation: a session is granted only for the
  token of the job, from the start of its window, before the end of the window plus the stop grace,
  and before the grace after any stop request or end in its log; the job was dispatched.
\<close>

theorem training_session_bounded:
  assumes "TrainingSession c i token now d = (Inr job, d')"
  shows "d' = d \<and> map_of (st_jobs (dur_core d)) i = Some job \<and> token \<noteq> '''' \<and> token = job_TrainingToken job \<and>
    win_Valid (RequestedWindow job) \<and> win_StartAt (RequestedWindow job) \<le> now \<and>
    now < win_EndAt (RequestedWindow job) + 30 * Second \<and>
    (\<exists>a. job_Assignment job = Some a \<and> asg_CommandID a \<noteq> '''') \<and>
    \<not> (\<exists>e \<in> set (job_Events job). (ev_Status e = JobStopping \<or> Terminal (ev_Status e)) \<and>
         ev_At e + 30 * Second \<le> now)"
proof -
  from assms have s: "d' = d" "map_of (st_jobs (dur_core d)) i = Some job" "session_open c token now job"
    by (simp_all add: TrainingSession_Inr)
  then have now: "now < trainingDeadline job" by (simp add: session_open_def)
  have "\<not> ev_At e + 30 * Second \<le> now"
    if "e \<in> set (job_Events job)" "ev_Status e = JobStopping \<or> Terminal (ev_Status e)" for e
    using foldl_earlier_event [OF that, of "win_EndAt (RequestedWindow job) + stop_grace"] now
    by (simp add: trainingDeadline_def)
  with s now trainingDeadline_le [of job] show ?thesis
    by (auto simp: session_open_def split: option.splits)
qed


text \<open>
  The checkpoint warning falls inside the allocation, whatever options are configured: with the
  defaults filled in, it is not before the start of a valid window and before its end, and it is at
  the start or at least the smaller of the two configured leads before the end.
\<close>

lemma warning_inside_window:
  assumes "win_Valid w" and "opts = withDefaults o0"
  shows "win_StartAt w \<le> WarningAt opts w \<and> WarningAt opts w < win_EndAt w \<and>
    (WarningAt opts w = win_StartAt w \<or>
     WarningAt opts w \<le> win_EndAt w - min (trn_MinWarningLead opts) (trn_MaxWarningLead opts))"
proof -
  have pos: "0 < trn_MinWarningLead opts" "0 < trn_MaxWarningLead opts"
    by (simp_all add: assms(2) withDefaults_def Let_def DefaultTrainingOptions_def)
  have lt: "win_StartAt w < win_EndAt w" using assms(1) by (simp add: win_Valid_def)
  from pos lt show ?thesis
    by (auto simp: WarningAt_def Let_def min_def)
qed

text \<open>The published outputs of a training state.\<close>

definition checkpoint_of :: "TrainingState \<Rightarrow> string \<times> gotime \<times> int" where
  "checkpoint_of t = (tr_LatestCheckpointURI t, tr_CheckpointCreatedAt t, tr_CheckpointStep t)"

definition artifact_of :: "TrainingState \<Rightarrow> string \<times> gotime" where
  "artifact_of t = (tr_FinalArtifactURI t, tr_ArtifactCreatedAt t)"

lemma failed_upload_outputs:
  "checkpoint_of (end_upload (failed_upload b t)) = checkpoint_of t"
  "artifact_of (end_upload (failed_upload b t)) = artifact_of t"
  by (simp_all add: checkpoint_of_def artifact_of_def end_upload_def failed_upload_def)

lemma finished_upload_outputs:
  "uri = None \<Longrightarrow> checkpoint_of (finished_upload b step now uri t) = checkpoint_of t"
  "uri = None \<Longrightarrow> artifact_of (finished_upload b step now uri t) = artifact_of t"
  "uri = Some u \<Longrightarrow> checkpoint_of (finished_upload b step now uri t) =
     (if b then (u, now, step) else checkpoint_of t)"
  "uri = Some u \<Longrightarrow> artifact_of (finished_upload b step now uri t) = (if b then artifact_of t else (u, now))"
  "tr_Revision (finished_upload b step now uri t) = tr_Revision t"
  by (auto simp: finished_upload_def failed_upload_outputs checkpoint_of_def artifact_of_def end_upload_def
      failed_upload_def split: option.split)

lemma published_SomeD:
  "published up r ended now latest = Some u \<Longrightarrow>
     r = Inr u \<and> u \<noteq> '''' \<and> \<not> ended \<and> now < up_Deadline up \<and> (\<exists>j. latest = Inr j \<and> now < trainingDeadline j)"
  by (auto simp: published_def split: sum.splits if_splits)

text \<open>An upload that finishes, when the same revision means the same outputs.\<close>

lemma finishOutput_keeps:
  assumes j: "map_of (st_jobs (dur_core d)) i = Some j"
    and rev: "tr_Revision (job_Training j) = tr_Revision (up_State up) \<Longrightarrow>
      checkpoint_of (job_Training j) = checkpoint_of (up_State up) \<and>
      artifact_of (job_Training j) = artifact_of (up_State up)"
    and run: "finishOutput save i kind step up r ended now d = (res, d')"
  shows "\<exists>j'. map_of (st_jobs (dur_core d')) i = Some j' \<and>
    (case res of
       Inl e \<Rightarrow> checkpoint_of (job_Training j') = checkpoint_of (job_Training j) \<and>
                artifact_of (job_Training j') = artifact_of (job_Training j)
     | Inr st \<Rightarrow> st = job_Training j' \<and> now < up_Deadline up \<and> now < trainingDeadline j \<and> (\<exists>u. r = Inr u \<and> u \<noteq> '''' \<and>
         (if kind = ''checkpoint''
          then checkpoint_of st = (u, now, step) \<and> artifact_of st = artifact_of (job_Training j)
          else artifact_of st = (u, now) \<and> checkpoint_of st = checkpoint_of (job_Training j))))"
proof -
  define uri where "uri = published up r ended now (read_core (GetJob i) d)"
  define t where "t = finished_upload (kind = ''checkpoint'') step now uri (up_State up)"
  obtain r1 d1 where call: "transact save (UpdateTraining i (tr_Revision t) t now) d = (r1, d1)" by fastforce
  have latest: "read_core (GetJob i) d = Inr j" using j by (simp add: read_core_def GetJob_def)
  show ?thesis
  proof (cases r1)
    case (Inl e)
    from call Inl have "st_jobs (dur_core d1) = st_jobs (dur_core d)"
      by (auto simp: transact_def Restore_def Export_def Let_def split: prod.splits sum.splits option.splits)
    moreover have "res = Inl e" "d' = d1"
      using run call Inl by (auto simp: finishOutput_def Let_def andThen_def uri_def [symmetric] t_def [symmetric])
    ultimately show ?thesis using j by simp
  next
    case (Inr j')
    from transact_Inr [OF call [unfolded Inr]]
    obtain j0 where j0: "map_of (st_jobs (dur_core d)) i = Some j0" "tr_Revision (job_Training j0) = tr_Revision t"
      "j' = j0\<lparr>job_Training := t\<lparr>tr_ResumeCheckpointURI := tr_ResumeCheckpointURI (job_Training j0),
         tr_ResumeFromJobID := tr_ResumeFromJobID (job_Training j0),
         tr_CheckpointWarningAt := tr_CheckpointWarningAt (job_Training j0), tr_Revision := tr_Revision t + 1\<rparr>,
         job_UpdatedAt := now\<rparr>"
      "dur_core d1 = (dur_core d)\<lparr>st_jobs := put i j' (st_jobs (dur_core d))\<rparr>"
      by (rule UpdateTraining_Inr)
    have same: "checkpoint_of (job_Training j) = checkpoint_of (up_State up)"
      "artifact_of (job_Training j) = artifact_of (up_State up)"
      using rev j j0(1,2) by (auto simp: t_def finished_upload_outputs)
    have out: "checkpoint_of (job_Training j') = checkpoint_of t" "artifact_of (job_Training j') = artifact_of t"
      by (simp_all add: j0(3) checkpoint_of_def artifact_of_def)
    have res: "d' = d1" "res = (if uri = None then Inl (ErrOther msg_output_not_saved) else Inr (job_Training j'))"
      using run call Inr
      by (auto simp: finishOutput_def Let_def andThen_def uri_def [symmetric] t_def [symmetric] split: if_splits)
    have stored: "map_of (st_jobs (dur_core d')) i = Some j'" using j0(4) res(1) by simp
    show ?thesis
    proof (cases uri)
      case None
      with res stored out same show ?thesis by (simp add: t_def finished_upload_outputs)
    next
      case (Some u)
      note p = published_SomeD [OF Some [unfolded uri_def latest]]
      with Some res stored out same show ?thesis by (simp add: t_def finished_upload_outputs)
    qed
  qed
qed

text \<open>The lease is in the repository, with the state it was taken for.\<close>

lemma lease_stored:
  assumes "beginOutput save c i token kind step bytes random now d = (Inr up, d1)"
  shows "\<exists>j. map_of (st_jobs (dur_core d1)) i = Some j \<and> job_Training j = up_State up"
proof -
  obtain u and job saving :: Job where call: "transact save (UpdateTraining i (tr_Revision (job_Training job))
       (start_upload (kind = ''checkpoint'') u kind now (job_Training job)) now) d = (Inr saving, d1)"
    and up: "up_State up = job_Training saving"
    by (rule beginOutput_Inr [OF assms])
  from transact_Inr [OF call] have "map_of (st_jobs (dur_core d1)) i = Some saving"
    by (rule UpdateTraining_Inr) simp
  with up show ?thesis by simp
qed

text \<open>
  C26. Publishing never loses an output. From any reachable state let an upload take its lease, let
  then any \<open>n\<close> steps of the repository follow (calls of other requests, failed saves, restarts; fewer
  than the \<open>2 ^ 64\<close> a revision can count), and let the upload finish as it may. The checkpoint and the
  artifact the job had at that moment stay its outputs, except that an upload which is reported as
  successful replaces the one of its own kind by the stored object, before the deadline of the upload
  and of the job. What makes it safe is the revision: every update of the training state advances it, so
  an update during the upload makes the last transaction a conflict.
\<close>

theorem publishing_never_loses_output:
  assumes "reachable off d" and lease: "beginOutput save c i token kind step bytes random now0 d = (Inr up, d1)"
    and meanwhile: "(durable_step off ^^ n) d1 d2" "n < 2 ^ 64"
    and run: "finishOutput save' i kind step up r ended now d2 = (res, d')"
  shows "\<exists>j j'. map_of (st_jobs (dur_core d2)) i = Some j \<and> map_of (st_jobs (dur_core d')) i = Some j' \<and>
    (case res of
       Inl e \<Rightarrow> checkpoint_of (job_Training j') = checkpoint_of (job_Training j) \<and>
                artifact_of (job_Training j') = artifact_of (job_Training j)
     | Inr st \<Rightarrow> st = job_Training j' \<and> now < up_Deadline up \<and> now < trainingDeadline j \<and> (\<exists>u. r = Inr u \<and> u \<noteq> '''' \<and>
         (if kind = ''checkpoint''
          then checkpoint_of st = (u, now, step) \<and> artifact_of st = artifact_of (job_Training j)
          else artifact_of st = (u, now) \<and> checkpoint_of st = checkpoint_of (job_Training j))))"
proof -
  obtain j0 where j0: "map_of (st_jobs (dur_core d1)) i = Some j0" "job_Training j0 = up_State up"
    using lease_stored [OF lease] by blast
  have "(durable_step off)\<^sup>*\<^sup>* d d1"
    using beginOutput_advances [of off save c i token kind step bytes random now0] assms(1) lease
    by (auto simp: advances_def)
  with steps_history assms(1) have "reachable off d1" by blast
  from run_trained [OF meanwhile(1) this j0(1)] obtain j where j: "map_of (st_jobs (dur_core d2)) i = Some j"
    "trained n j0 j" by blast
  have rev: "checkpoint_of (job_Training j) = checkpoint_of (up_State up) \<and> artifact_of (job_Training j) = artifact_of (up_State up)"
    if "tr_Revision (job_Training j) = tr_Revision (up_State up)"
    using trained_revision [OF j(2) meanwhile(2)] that j0(2) by simp
  from finishOutput_keeps [OF j(1) rev run] j(1) show ?thesis by blast
qed

text \<open>
  C28. One upload at a time: a lease is granted only when no upload of the job is active, the artifact
  is not ready yet when an artifact is uploaded, and the request is within the limits; while the lease
  is active a second upload of any kind is refused and changes nothing.
\<close>

theorem one_upload_at_a_time:
  assumes "beginOutput save c i token kind step bytes random now d = (Inr up, d1)"
    and "Sub now' now < trn_UploadTimeout (cp_training c)"
  shows "kind \<in> {''checkpoint'', ''artifact''} \<and> 0 \<le> step \<and> 0 < bytes \<and> bytes \<le> trn_MaxUploadBytes (cp_training c) \<and>
    \<not> upload_active c (job_Training (up_Job up)) now \<and>
    (kind = ''artifact'' \<longrightarrow> tr_ArtifactStatus (job_Training (up_Job up)) \<noteq> ArtifactReady) \<and>
    tr_UploadID (up_State up) = up_ID up \<and> up_ID up \<noteq> '''' \<and>
    beginOutput save c i token kind' step' bytes' random' now' d1 \<noteq> (Inr up', d2) \<and>
    snd (beginOutput save c i token kind' step' bytes' random' now' d1) = d1"
proof -
  obtain job u saving where s: "upload_refused c kind step bytes now (job_Training job) = None"
    and call: "transact save (UpdateTraining i (tr_Revision (job_Training job))
       (start_upload (kind = ''checkpoint'') u kind now (job_Training job)) now) d = (Inr saving, d1)"
    and up: "up_Job up = job" "up_State up = job_Training saving" "up_ID up = u" and u: "u \<noteq> ''''"
    by (rule beginOutput_Inr [OF assms(1)]) (auto simp: newID_Inr)
  from transact_Inr [OF call] obtain j0 where
    "saving = j0\<lparr>job_Training := (start_upload (kind = ''checkpoint'') u kind now (job_Training job))
        \<lparr>tr_ResumeCheckpointURI := tr_ResumeCheckpointURI (job_Training j0),
         tr_ResumeFromJobID := tr_ResumeFromJobID (job_Training j0),
         tr_CheckpointWarningAt := tr_CheckpointWarningAt (job_Training j0),
         tr_Revision := tr_Revision (job_Training job) + 1\<rparr>, job_UpdatedAt := now\<rparr>"
    "dur_core d1 = (dur_core d)\<lparr>st_jobs := put i saving (st_jobs (dur_core d))\<rparr>"
    by (rule UpdateTraining_Inr)
  then have lease: "tr_UploadID (job_Training saving) = u" "tr_UploadStartedAt (job_Training saving) = now"
    "map_of (st_jobs (dur_core d1)) i = Some saving"
    by (simp_all add: start_upload_def Let_def)
  then have active: "upload_active c (job_Training saving) now'"
    using assms(2) u by (simp add: upload_active_def)
  let ?m = "beginOutput save c i token kind' step' bytes' random' now' d1"
  have "\<exists>e. ?m = (Inl e, d1)"
  proof (cases "TrainingSession c i token now' d1")
    case (Pair r d')
    then have "d' = d1" "\<And>j. r = Inr j \<Longrightarrow> j = saving"
      using TrainingSession_pure [of c i token now' d1] lease(3) by (auto simp: TrainingSession_Inr)
    moreover have "upload_refused c kind' step' bytes' now' (job_Training saving) \<noteq> None"
      using active by (simp add: upload_refused_def)
    ultimately show ?thesis
      using Pair by (cases r) (auto simp: beginOutput_def andThen_def Let_def)
  qed
  with s up u lease(1) show ?thesis by (auto simp: upload_refused_def split: if_splits)
qed

end
