(* ===== verification/Control_Plane.thy ===== *)
theory Control_Plane
  imports Planning Agent_Protocol Training_Service
begin

text \<open>
  The operations of \<open>internal/application/controlplane.go\<close> and the execution controller
  \<open>processReservations\<close> of \<open>planning.go\<close>, as handlers over the durable store. What the code gets from
  outside is an argument: the random identifiers and tokens, the clock (one reading per handler, and
  one per job in the controller's loop), the organisations the metadata store lists, the enrolment
  it binds, the digest function, and \<open>save\<close>, the result of writing the state file.
\<close>

section \<open>Agents\<close>

record RegisterRequest =
  reg_ProtocolVersion :: string
  reg_MachineID :: string
  reg_Name :: string
  reg_Address :: string
  reg_AgentVersion :: string
  reg_Labels :: labels
  reg_CapabilityReport :: "Capabilities option"
  reg_Capabilities :: "string list"

record RegisterResponse =
  rsp_AgentID :: string
  rsp_AgentToken :: string
  rsp_HeartbeatIntervalSeconds :: int

abbreviation ProtocolVersion :: string where "ProtocolVersion \<equiv> ''v1''"

definition registered_server ::
  "(string \<Rightarrow> string) \<Rightarrow> RegisterRequest \<Rightarrow> string \<Rightarrow> string \<Rightarrow> string \<Rightarrow> gotime \<Rightarrow> Server" where
  "registered_server sha256 r org agentID token now =
     zero_server\<lparr>srv_OrganizationID := org, srv_Capabilities := reg_CapabilityReport r, srv_ID := agentID,
       srv_MachineID := reg_MachineID r, srv_Name := reg_Name r, srv_Address := reg_Address r,
       srv_AgentVersion := reg_AgentVersion r, srv_Labels := reg_Labels r, srv_Status := ServerOnline,
       srv_LastHeartbeatAt := now, srv_TokenHash := sha256 token\<rparr>"

definition RegisterAgent ::
  "(Snapshot \<Rightarrow> go_error option) \<Rightarrow> (string \<Rightarrow> string) \<Rightarrow> ControlPlane \<Rightarrow> string \<Rightarrow> RegisterRequest
     \<Rightarrow> go_error + string \<Rightarrow> go_error + string \<Rightarrow> (string \<Rightarrow> string \<Rightarrow> gotime \<Rightarrow> go_error + ServerOwnership)
     \<Rightarrow> gotime \<Rightarrow> RegisterResponse app" where
  "RegisterAgent save sha256 c enrollmentToken r random newToken bindEnrollment now =
     (if \<not> cp_hasMetadata c \<and> (enrollmentToken = '''' \<or> enrollmentToken \<noteq> cp_enrollmentToken c)
      then fail ErrUnauthorized
      else if reg_ProtocolVersion r \<noteq> ProtocolVersion then fail ErrInvalidInput
      else if TrimSpace (reg_MachineID r) = '''' \<or> TrimSpace (reg_Name r) = '''' then fail ErrInvalidInput
      else andThen (lift (newID ''srv'' random)) (\<lambda>agentID. andThen (lift newToken) (\<lambda>token.
        andThen (if cp_hasMetadata c
                 then andThen (lift (bindEnrollment (sha256 enrollmentToken) (reg_MachineID r) now)) (\<lambda>owner.
                        reply (own_OrganizationID owner, own_ServerID owner,
                          r\<lparr>reg_Name := own_DisplayName owner, reg_Labels := own_Labels owner\<rparr>))
                 else reply ('''', agentID, r)) (\<lambda>(org, sid, req).
          andThen (transact save (UpsertServer (registered_server sha256 req org sid token now))) (\<lambda>server.
            reply \<lparr>rsp_AgentID = srv_ID server, rsp_AgentToken = token,
              rsp_HeartbeatIntervalSeconds = go_div (cp_heartbeatInterval c) Second\<rparr>)))))"

section \<open>Presentation\<close>

definition presentServer :: "ControlPlane \<Rightarrow> gotime \<Rightarrow> Server \<Rightarrow> Server" where
  "presentServer c now server =
     (let ready = srv_Schedulable server now (cp_offlineAfter c) in
      if srv_OrganizationID server = ''''
      then server\<lparr>srv_SchedulingReady := False, srv_SchedulingReason := msg_no_ownership\<rparr>
      else if srv_Status server = ServerOffline \<or> cp_offlineAfter c < Sub now (srv_LastHeartbeatAt server)
      then server\<lparr>srv_SchedulingReady := ready, srv_SchedulingReason := ''agent offline''\<rparr>
      else if (case srv_Capabilities server of None \<Rightarrow> True | Some k \<Rightarrow> \<not> cap_ManagedExecutionReady k)
      then server\<lparr>srv_SchedulingReady := ready, srv_SchedulingReason := ''MANAGED_EXECUTION_UNAVAILABLE''\<rparr>
      else if srv_Drained server
      then server\<lparr>srv_SchedulingReady := ready, srv_SchedulingReason := ''server drained''\<rparr>
      else if IsZero (srv_InventoryReceivedAt server) \<or>
              cp_offlineAfter c < Sub now (srv_InventoryReceivedAt server)
      then server\<lparr>srv_SchedulingReady := ready, srv_SchedulingReason := ''inventory missing or stale''\<rparr>
      else server\<lparr>srv_SchedulingReady := ready,
             srv_SchedulingReason := ''agent online with fresh inventory''\<rparr>)"

text \<open>A server of an organisation that is not enabled is never shown as ready.\<close>

definition mark_inactive :: "ControlPlane \<Rightarrow> (string, bool) gomap \<Rightarrow> Server \<Rightarrow> Server" where
  "mark_inactive c enabled server =
     (if cp_hasMetadata c \<and> \<not> org_enabled enabled (srv_OrganizationID server)
      then server\<lparr>srv_SchedulingReady := False, srv_SchedulingReason := msg_org_inactive\<rparr> else server)"

definition ListVisibleServers ::
  "ControlPlane \<Rightarrow> reqctx \<Rightarrow> go_error + Organization list \<Rightarrow> gotime \<Rightarrow> Server list app" where
  "ListVisibleServers c ctx orgs now =
     andThen (peek ListServers) (\<lambda>servers.
     andThen (lift (enabledOrganizations (cp_hasMetadata c) orgs)) (\<lambda>enabled.
       reply (map (\<lambda>v. mark_inactive c enabled (presentServer c now v))
                (filter (\<lambda>v. CanAccess ctx (srv_OrganizationID v)) servers))))"

definition GetVisibleServer ::
  "ControlPlane \<Rightarrow> reqctx \<Rightarrow> go_error + Organization list \<Rightarrow> gotime \<Rightarrow> string \<Rightarrow> Server app" where
  "GetVisibleServer c ctx orgs now i =
     andThen (peek (GetServer i)) (\<lambda>server.
       if \<not> CanAccess ctx (srv_OrganizationID server) then fail ErrNotFound
       else if cp_hasMetadata c
       then andThen (lift (enabledOrganizations True orgs)) (\<lambda>enabled.
              reply (mark_inactive c enabled (presentServer c now server)))
       else reply (presentServer c now server))"

definition DrainServer ::
  "(Snapshot \<Rightarrow> go_error option) \<Rightarrow> ControlPlane \<Rightarrow> reqctx \<Rightarrow> go_error + Organization list \<Rightarrow> gotime
     \<Rightarrow> string \<Rightarrow> bool \<Rightarrow> Server app" where
  "DrainServer save c ctx orgs now i drained =
     andThen (GetVisibleServer c ctx orgs now i) (\<lambda>_.
     andThen (transact save (SetServerDrained i drained)) (\<lambda>server. reply (presentServer c now server)))"

definition ListVisibleJobs :: "reqctx \<Rightarrow> Job list app" where
  "ListVisibleJobs ctx = andThen (peek ListJobs) (\<lambda>jobs. reply (scopedJobs ctx jobs))"

definition Queue :: "ControlPlane \<Rightarrow> reqctx \<Rightarrow> gotime \<Rightarrow> Job list app" where
  "Queue c ctx now = andThen (peek ListQueuedJobs) (\<lambda>jobs. lift (cp_order c ctx (scopedJobs ctx jobs) now))"

record ClusterSummary =
  sum_ServersTotal :: int
  sum_ServersOnline :: int
  sum_ServersOffline :: int
  sum_GPUsTotal :: int
  sum_GPUsFree :: int
  sum_GPUsOccupied :: int
  sum_GPUsLegacy :: int
  sum_GPUsUnknown :: int
  sum_GPUsReserved :: int
  sum_GPUsAllocated :: int
  sum_GPUsUnhealthy :: int
  sum_JobsQueued :: int
  sum_JobsRunning :: int
  sum_RecentEvents :: "JobEvent list"

definition tally :: "('a \<Rightarrow> bool) \<Rightarrow> 'a list \<Rightarrow> int" where
  "tally P xs = int (length (filter P xs))"

definition server_online :: "ControlPlane \<Rightarrow> gotime \<Rightarrow> Server \<Rightarrow> bool" where
  "server_online c now v \<longleftrightarrow> srv_Status v \<noteq> ServerOffline \<and>
     Sub now (srv_LastHeartbeatAt v) \<le> cp_offlineAfter c"

definition summarize :: "ControlPlane \<Rightarrow> gotime \<Rightarrow> Server list \<Rightarrow> Job list \<Rightarrow> ClusterSummary" where
  "summarize c now servers jobs =
     (let gpus = concat (map (\<lambda>v. map (Pair v) (srv_GPUs v)) servers);
          in_state = (\<lambda>st. tally (\<lambda>(v, g). gpu_State g = st) gpus) in
      \<lparr>sum_ServersTotal = int (length servers),
       sum_ServersOnline = tally (server_online c now) servers,
       sum_ServersOffline = int (length servers) - tally (server_online c now) servers,
       sum_GPUsTotal = int (length gpus),
       sum_GPUsFree = tally (\<lambda>(v, g). gpu_State g = GPUFree \<and> srv_SchedulingReady v \<and> gpu_Schedulable g) gpus,
       sum_GPUsOccupied = tally (\<lambda>(v, g). gpu_State g \<noteq> GPUFree) gpus,
       sum_GPUsLegacy = in_state GPUOccupiedLegacy, sum_GPUsUnknown = in_state GPUOccupiedUnknown,
       sum_GPUsReserved = in_state GPUReserved, sum_GPUsAllocated = in_state GPUAllocated,
       sum_GPUsUnhealthy = in_state GPUUnhealthy,
       sum_JobsQueued = tally (\<lambda>j. job_Status j = JobQueued) jobs,
       sum_JobsRunning = tally (\<lambda>j. job_Status j = JobRunning) jobs,
       sum_RecentEvents = take 20 (sort_by (\<lambda>a b. ev_At b < ev_At a) (concat (map job_Events jobs)))\<rparr>)"

definition Summary ::
  "ControlPlane \<Rightarrow> reqctx \<Rightarrow> go_error + Organization list \<Rightarrow> gotime \<Rightarrow> ClusterSummary app" where
  "Summary c ctx orgs now =
     andThen (ListVisibleServers c ctx orgs now) (\<lambda>servers.
     andThen (ListVisibleJobs ctx) (\<lambda>jobs. reply (summarize c now servers jobs)))"

text \<open>The rows of the GPU and container lists; no origin means every container.\<close>

definition ListGPUs ::
  "ControlPlane \<Rightarrow> reqctx \<Rightarrow> go_error + Organization list \<Rightarrow> gotime \<Rightarrow> (Server \<times> GPU) list app" where
  "ListGPUs c ctx orgs now =
     andThen (ListVisibleServers c ctx orgs now) (\<lambda>servers.
       reply (concat (map (\<lambda>v. map (Pair v) (srv_GPUs v)) servers)))"

definition ListContainers ::
  "ControlPlane \<Rightarrow> reqctx \<Rightarrow> go_error + Organization list \<Rightarrow> gotime \<Rightarrow> ContainerOrigin option
     \<Rightarrow> (Server \<times> Container) list app" where
  "ListContainers c ctx orgs now origin =
     andThen (ListVisibleServers c ctx orgs now) (\<lambda>servers.
       reply (sort_by (\<lambda>a b. srv_Name (fst a) < srv_Name (fst b))
         (concat (map (\<lambda>v. map (Pair v) (filter (\<lambda>k. origin = None \<or> origin = Some (ctr_Origin k))
            (srv_Containers v))) servers))))"

section \<open>Stopping a job\<close>

definition stop_request :: "string \<Rightarrow> string \<Rightarrow> gotime \<Rightarrow> Command" where
  "stop_request i commandID now =
     \<lparr>cmd_ID = commandID, cmd_AgentID = '''', cmd_Type = CommandStopContainer, cmd_Status = CommandPending,
      cmd_Payload = StopPayload \<lparr>spp_JobID = i, spp_ContainerID = '''', spp_GraceSeconds = 30\<rparr>,
      cmd_Attempts = 0, cmd_CreatedAt = now, cmd_DeliveredAt = None, cmd_LeaseUntil = None,
      cmd_CompletedAt = None, cmd_Error = ''''\<rparr>"

definition StopJob ::
  "(Snapshot \<Rightarrow> go_error option) \<Rightarrow> reqctx \<Rightarrow> string \<Rightarrow> go_error + string \<Rightarrow> gotime \<Rightarrow> Job app" where
  "StopJob save ctx i random now =
     andThen (GetVisibleJob ctx i) (\<lambda>_. andThen (lift (newID ''cmd'' random)) (\<lambda>commandID.
       transact save (RequestStop i (stop_request i commandID now) now)))"

section \<open>The execution controller\<close>

text \<open>The reservation is turned into a start command on the reserved GPUs.\<close>

definition start_request :: "ControlPlane \<Rightarrow> Job \<Rightarrow> Assignment \<Rightarrow> string \<Rightarrow> gotime \<Rightarrow> Command" where
  "start_request c job a commandID now =
     \<lparr>cmd_ID = commandID, cmd_AgentID = asg_ServerID a, cmd_Type = CommandStartContainer,
      cmd_Status = CommandPending,
      cmd_Payload = StartPayload \<lparr>stp_JobID = job_ID job, stp_Name = ''aiwm-'' @ job_ID job,
        stp_Image = job_Image job, stp_Command = job_Command job,
        stp_Environment = trainingEnvironment c job, stp_GPUUUIDs = asg_GPUUUIDs a,
        stp_CPUMilli = rq_CPUMilli (job_Resources job), stp_MemoryMiB = rq_MemoryMiB (job_Resources job),
        stp_Labels = [(''aiwm.managed'', ''true''), (''aiwm.job-id'', job_ID job)]\<rparr>,
      cmd_Attempts = 0, cmd_CreatedAt = now, cmd_DeliveredAt = None, cmd_LeaseUntil = None,
      cmd_CompletedAt = None, cmd_Error = ''''\<rparr>"

definition reserved_placement :: "Job \<Rightarrow> Assignment \<Rightarrow> Placement" where
  "reserved_placement job a =
     \<lparr>plc_Policy = job_Policy job, plc_ServerID = asg_ServerID a, plc_GPUUUIDs = asg_GPUUUIDs a,
      plc_Strategy = asg_Strategy a, plc_Score = asg_Score a, plc_Reason = asg_Reason a\<rparr>"

text \<open>A conflict leaves the reservation and notes why the job waits.\<close>

definition activate ::
  "(Snapshot \<Rightarrow> go_error option) \<Rightarrow> ControlPlane \<Rightarrow> Job \<Rightarrow> Assignment \<Rightarrow> go_error + string \<Rightarrow> gotime \<Rightarrow> unit app" where
  "activate save c job a random now =
     andThen (lift (newID ''cmd'' random)) (\<lambda>commandID.
       on_conflict
         (finish_with (transact save (CommitAssignment (job_ID job) (reserved_placement job a)
            (start_request c job a commandID now) now)))
         (finish_with (transact save (SetJobStatus (job_ID job) JobAssigned msg_wait_for_safe_gpu now))))"

definition controlled_window :: "Job \<Rightarrow> TimeWindow" where
  "controlled_window job = (case job_Assignment job of None \<Rightarrow> RequestedWindow job | Some a \<Rightarrow> asg_Window a)"

text \<open>The start of a planned job whose window has arrived.\<close>

definition start_if_due ::
  "(Snapshot \<Rightarrow> go_error option) \<Rightarrow> ControlPlane \<Rightarrow> (string, bool) gomap \<Rightarrow> Job \<Rightarrow> go_error + string
     \<Rightarrow> gotime \<Rightarrow> unit app" where
  "start_if_due save c enabled job random now =
     (case job_Assignment job of
        None \<Rightarrow> reply ()
      | Some a \<Rightarrow>
          if job_Status job \<noteq> JobAssigned \<or> asg_ReservationState a \<noteq> ''PLANNED'' \<or>
             \<not> win_Contains (asg_Window a) now
          then reply ()
          else if cp_hasMetadata c \<and> \<not> org_enabled enabled (job_OrganizationID job) then reply ()
          else activate save c job a random now)"

text \<open>The end of a job whose window is over.\<close>

definition end_expired ::
  "(Snapshot \<Rightarrow> go_error option) \<Rightarrow> reqctx \<Rightarrow> Job \<Rightarrow> go_error + string \<Rightarrow> gotime \<Rightarrow> unit app" where
  "end_expired save ctx job random now =
     (if job_Status job = JobQueued
      then finish_with (transact save (SetJobStatus (job_ID job) JobFailed msg_window_expired_unallocated now))
      else finish_with (StopJob save ctx (job_ID job) random now))"

definition control_job ::
  "(Snapshot \<Rightarrow> go_error option) \<Rightarrow> ControlPlane \<Rightarrow> reqctx \<Rightarrow> (string, bool) gomap \<Rightarrow> Job
     \<Rightarrow> go_error + string \<Rightarrow> gotime \<Rightarrow> unit app" where
  "control_job save c ctx enabled job random now =
     (if Terminal (job_Status job) then reply ()
      else if \<not> win_Valid (controlled_window job) then reply ()
      else if \<not> now < win_EndAt (controlled_window job) then end_expired save ctx job random now
      else andThen (requestCheckpoint save c job now) (\<lambda>_. start_if_due save c enabled job random now))"

definition process_job ::
  "(Snapshot \<Rightarrow> go_error option) \<Rightarrow> ControlPlane \<Rightarrow> reqctx \<Rightarrow> (string, bool) gomap \<Rightarrow> Job
     \<Rightarrow> go_error + string \<Rightarrow> gotime \<Rightarrow> unit app" where
  "process_job save c ctx enabled job random now =
     andThen (recoverTrainingUpload save c job now) (\<lambda>job'. control_job save c ctx enabled job' random now)"

text \<open>What one pass gets from outside; identifiers and clock readings are per job.\<close>

record PassInput =
  pin_orgs :: "go_error + Organization list"
  pin_random :: "string \<Rightarrow> go_error + string"
  pin_clock :: "string \<Rightarrow> gotime"

fun process_all ::
  "(Snapshot \<Rightarrow> go_error option) \<Rightarrow> ControlPlane \<Rightarrow> reqctx \<Rightarrow> (string, bool) gomap \<Rightarrow> PassInput
     \<Rightarrow> Job list \<Rightarrow> unit app" where
  "process_all save c ctx enabled inp [] = reply ()"
| "process_all save c ctx enabled inp (job # jobs) =
     andThen (process_job save c ctx enabled job (pin_random inp (job_ID job)) (pin_clock inp (job_ID job)))
       (\<lambda>_. process_all save c ctx enabled inp jobs)"

definition processReservations ::
  "(Snapshot \<Rightarrow> go_error option) \<Rightarrow> ControlPlane \<Rightarrow> reqctx \<Rightarrow> PassInput \<Rightarrow> unit app" where
  "processReservations save c ctx inp =
     andThen (peek ListJobs) (\<lambda>jobs.
     andThen (lift (enabledOrganizations (cp_hasMetadata c) (pin_orgs inp))) (\<lambda>enabled.
       process_all save c ctx enabled inp (sort_by (\<lambda>a b. job_ID a < job_ID b) (scopedJobs ctx jobs))))"

definition ScheduleOnce ::
  "(Snapshot \<Rightarrow> go_error option) \<Rightarrow> ControlPlane \<Rightarrow> reqctx \<Rightarrow> PassInput \<Rightarrow> go_error + Organization list
     \<Rightarrow> gotime \<Rightarrow> PassInput \<Rightarrow> int app" where
  "ScheduleOnce save c ctx pass1 orgs now pass2 =
     andThen (processReservations save c ctx pass1) (\<lambda>_.
     andThen (lift (enabledOrganizations (cp_hasMetadata c) orgs)) (\<lambda>enabled.
     andThen (transact save (ReplanReservations now
                (\<lambda>jobs servers. planReservations c ctx jobs servers enabled now))) (\<lambda>moved.
     andThen (processReservations save c ctx pass2) (\<lambda>_. reply moved))))"

definition Reconcile ::
  "(Snapshot \<Rightarrow> go_error option) \<Rightarrow> ControlPlane \<Rightarrow> reqctx \<Rightarrow> gotime \<Rightarrow> PassInput \<Rightarrow> int app" where
  "Reconcile save c ctx now inp =
     andThen (transact save (MarkStaleServers (now - cp_offlineAfter c))) (\<lambda>changed.
     andThen (processReservations save c ctx inp) (\<lambda>_. reply changed))"

end
