(* ===== verification/Job_Requests.thy ===== *)
theory Job_Requests
  imports Planning Training_Service
begin

text \<open>
  From a request to a queued job: \<open>validateJobRequest\<close> (\<open>internal/application/validation.go\<close>),
  \<open>prepareJob\<close> and \<open>PreviewJob\<close> (\<open>allocation.go\<close>), \<open>CreateJob\<close> (\<open>controlplane.go\<close>) and
  \<open>ContinueTraining\<close> (\<open>training.go\<close>). Parsing an image reference is third-party code: the parameter
  \<open>image_ok\<close> says which names it accepts.
\<close>

section \<open>Requests\<close>

record CreateJobRequest =
  crq_ResumeFromJobID :: string
  crq_Intent :: AllocationIntent
  crq_Name :: string
  crq_Image :: string
  crq_Backend :: ExecutionBackend
  crq_Command :: "string list"
  crq_Environment :: labels
  crq_Resources :: AllocationResources

section \<open>Validation\<close>

text \<open>The regular expression \<open>^[A-Za-z_][A-Za-z0-9_]*$\<close>.\<close>

definition key_start :: "char \<Rightarrow> bool" where
  "key_start c \<longleftrightarrow> (let n = of_char c :: nat in (65 \<le> n \<and> n \<le> 90) \<or> (97 \<le> n \<and> n \<le> 122) \<or> n = 95)"

definition environmentKey :: "string \<Rightarrow> bool" where
  "environmentKey s \<longleftrightarrow> (case s of [] \<Rightarrow> False
     | c # cs \<Rightarrow> key_start c \<and> list_all (\<lambda>x. key_start x \<or> is_digit x) cs)"

definition env_allowed :: "string \<times> string \<Rightarrow> bool" where
  "env_allowed = (\<lambda>(k, v). \<not> (\<not> environmentKey k \<or> 8192 < length v \<or> List.member v (CHR 0x00) \<or>
     HasPrefix k ''AIWM_'' \<or> HasPrefix k ''NVIDIA_'' \<or> k = ''CUDA_VISIBLE_DEVICES''))"

definition arg_allowed :: "string \<Rightarrow> bool" where
  "arg_allowed a \<longleftrightarrow> \<not> (8192 < length a \<or> List.member a (CHR 0x00))"

text \<open>\<open>if b { fields[k] = v }\<close>\<close>

definition mark_field :: "bool \<Rightarrow> string \<Rightarrow> string \<Rightarrow> labels \<Rightarrow> labels" where
  "mark_field b k v fs = (if b then put k v fs else fs)"

definition resource_fields :: "AllocationResources \<Rightarrow> RequestLimits \<Rightarrow> Resolver \<Rightarrow> labels \<Rightarrow> labels" where
  "resource_fields r limits catalog f0 =
     (let f1 = mark_field (ar_AllowSharedGPU r) ''resources.allowSharedGpu'' msg_shared_gpu f0;
          f2 = mark_field (ar_GPUCount r < 1 \<or> lim_MaxGPUCount limits < ar_GPUCount r) ''resources.gpuCount''
                 (msg_gpu_count @ show_int (lim_MaxGPUCount limits)) f1;
          f3 = mark_field (ar_MinVRAMMiB r \<le> 0) ''resources.minVramMiB'' msg_bad_vram f2;
          f4 = mark_field (ar_CPUMilli r < 0 \<or> max_int64 div 1000000 < ar_CPUMilli r) ''resources.cpuMilli'' msg_bad_cpu f3;
          f5 = mark_field (ar_MemoryMiB r < 0 \<or> max_int64 div (1024 * 1024) < ar_MemoryMiB r) ''resources.memoryMiB''
                 msg_bad_memory f4;
          f6 = mark_field (ar_FP8Required r = None) ''resources.fp8Required'' msg_need_fp8 f5
      in mark_field (isl (res_Resolve catalog (ar_PerformanceProfile r) False)) ''resources.performanceProfile''
           msg_bad_profile f6)"

definition request_fields :: "(string \<Rightarrow> bool) \<Rightarrow> CreateJobRequest \<Rightarrow> RequestLimits \<Rightarrow> Resolver \<Rightarrow> labels" where
  "request_fields image_ok r limits catalog =
     (let ttl = in_TTLSeconds (crq_Intent r);
          f1 = mark_field (length (TrimSpace (crq_Name r)) < 3 \<or> 128 < length (crq_Name r)) ''name'' msg_bad_name [];
          f2 = mark_field (\<not> image_ok (crq_Image r) \<or> 512 < length (crq_Image r)) ''image'' msg_bad_image f1;
          f3 = mark_field (crq_Backend r \<noteq> BackendDocker) ''backend'' msg_bad_backend f2;
          f4 = resource_fields (crq_Resources r) limits catalog f3;
          f5 = Validate (crq_Intent r) f4;
          f6 = mark_field (parse_RFC3339 (in_NeededAt (crq_Intent r)) = None) ''neededAt'' msg_bad_needed_at f5;
          f7 = mark_field (ttl \<le> 0 \<or> lim_MaxTTLSeconds limits < ttl) ''ttlSeconds''
                 (msg_ttl_prefix @ show_int (lim_MaxTTLSeconds limits) @ msg_ttl_suffix) f6;
          f8 = mark_field (128 < length (crq_Environment r)) ''environment'' msg_too_many_env f7;
          f9 = mark_field (256 < length (crq_Command r)) ''command'' msg_too_many_args f8;
          f10 = mark_field (\<not> list_all env_allowed (crq_Environment r)) ''environment'' msg_bad_env f9
      in mark_field (\<not> list_all arg_allowed (crq_Command r)) ''command'' msg_bad_arg f10)"

definition validateJobRequest ::
  "(string \<Rightarrow> bool) \<Rightarrow> CreateJobRequest \<Rightarrow> RequestLimits \<Rightarrow> Resolver \<Rightarrow> go_error + unit" where
  "validateJobRequest image_ok r limits catalog =
     (let marked = request_fields image_ok r limits catalog
      in if marked \<noteq> [] then Inl (ValidationError marked) else Inr ())"

section \<open>Preparing a job\<close>

definition principal_org :: "reqctx \<Rightarrow> string" where
  "principal_org ctx = (case ctx of None \<Rightarrow> '''' | Some p \<Rightarrow> usr_OrganizationID (prn_User p))"

definition zero_training :: TrainingState where
  "zero_training = \<lparr>tr_CheckpointStatus = CheckpointUnset, tr_LatestCheckpointURI = '''',
     tr_CheckpointCreatedAt = 0, tr_CheckpointStep = 0, tr_CheckpointWarningAt = 0,
     tr_ArtifactStatus = ArtifactUnset, tr_FinalArtifactURI = '''', tr_ArtifactCreatedAt = 0,
     tr_ResumeCheckpointURI = '''', tr_ResumeFromJobID = '''', tr_Revision = 0, tr_UploadID = '''',
     tr_UploadKind = '''', tr_UploadStartedAt = 0\<rparr>"

definition draft_job ::
  "string \<Rightarrow> CreateJobRequest \<Rightarrow> string \<Rightarrow> ResourceRequest \<Rightarrow> SchedulingStrategy \<Rightarrow> gotime \<Rightarrow> Job" where
  "draft_job org r neededAt resources strategy now =
     \<lparr>job_Training = zero_training, job_TrainingToken = '''', job_TerminationReason = TerminationUnset,
      job_OrganizationID = org, job_Intent = (crq_Intent r)\<lparr>in_NeededAt := neededAt\<rparr>,
      job_Policy = zero_decision, job_ID = '''', job_Name = TrimSpace (crq_Name r), job_Image = crq_Image r,
      job_Backend = crq_Backend r, job_Command = crq_Command r, job_Environment = crq_Environment r,
      job_Resources = resources, job_Priority = 0, job_ServerSelector = [], job_Strategy = strategy,
      job_Status = JobQueued, job_StatusReason = '''', job_Assignment = None, job_CreatedAt = now,
      job_UpdatedAt = now, job_LastObservedAt = None, job_ContainerID = '''', job_Events = []\<rparr>"

text \<open>A continued training job starts from the checkpoint of a stopped job of the organisation.\<close>

definition resume_from :: "ControlPlane \<Rightarrow> reqctx \<Rightarrow> string \<Rightarrow> Job \<Rightarrow> Job app" where
  "resume_from c ctx sourceID job =
     (if sourceID = '''' then reply job
      else andThen (GetVisibleJob ctx sourceID) (\<lambda>source.
        if cp_objects c = None \<or> \<not> Resumable source \<or> job_OrganizationID source \<noteq> job_OrganizationID job \<or>
           in_WorkloadType (job_Intent job) \<noteq> WorkloadTraining
        then fail ErrConflict
        else reply (job\<lparr>job_Training := (job_Training job)\<lparr>tr_ResumeFromJobID := job_ID source,
               tr_ResumeCheckpointURI := tr_LatestCheckpointURI (job_Training source)\<rparr>\<rparr>)))"

definition prepareJob ::
  "(string \<Rightarrow> bool) \<Rightarrow> ControlPlane \<Rightarrow> reqctx \<Rightarrow> CreateJobRequest \<Rightarrow> gotime \<Rightarrow> Job app" where
  "prepareJob image_ok c ctx r0 now =
     (if cp_hasMetadata c \<and> ctx = None then fail ErrUnauthorized
      else
        let r = (if crq_Backend r0 = '''' then r0\<lparr>crq_Backend := BackendDocker\<rparr> else r0) in
        andThen (lift (validateJobRequest image_ok r (cp_limits c) (cp_catalog c))) (\<lambda>_.
          let resources = AllocationResources_Domain (crq_Resources r) in
          andThen (lift (res_Resolve (cp_catalog c) (rq_PerformanceProfile resources) (rq_FP8Required resources)))
            (\<lambda>models.
              let needed = (case parse_RFC3339 (in_NeededAt (crq_Intent r)) of None \<Rightarrow> 0 | Some t \<Rightarrow> t);
                  job = draft_job (principal_org ctx) r (Format_RFC3339Nano needed)
                    (resources\<lparr>rq_ResolvedModels := models\<rparr>) (sch_defaultStrategy (cp_scheduler c)) now;
                  window = RequestedWindow job in
              if needed < now - Minute then fail (ValidationError [(''neededAt'', msg_needed_in_past)])
              else if \<not> win_Valid window \<or> \<not> now < win_EndAt window
              then fail (ValidationError [(''ttlSeconds'', msg_window_over)])
              else andThen (resume_from c ctx (crq_ResumeFromJobID r) job) (\<lambda>job.
                andThen (lift (evl_Evaluate (cp_policy c) ctx job now)) (\<lambda>decision.
                  reply (job\<lparr>job_Policy := decision\<rparr>))))))"

definition matchJobNow ::
  "ControlPlane \<Rightarrow> reqctx \<Rightarrow> Job \<Rightarrow> go_error + Organization list \<Rightarrow> gotime \<Rightarrow> ResourceMatch app" where
  "matchJobNow c ctx job orgs now =
     andThen (peek ListServers) (\<lambda>servers. andThen (peek ListJobs) (\<lambda>jobs.
     andThen (lift (enabledOrganizations (cp_hasMetadata c) orgs)) (\<lambda>enabled.
       lift (matchJob c ctx job servers jobs enabled now))))"

definition CreateJobFor ::
  "(Snapshot \<Rightarrow> go_error option) \<Rightarrow> (string \<Rightarrow> bool) \<Rightarrow> ControlPlane \<Rightarrow> reqctx \<Rightarrow> CreateJobRequest
     \<Rightarrow> go_error + Organization list \<Rightarrow> go_error + string \<Rightarrow> go_error + string \<Rightarrow> gotime \<Rightarrow> Job app" where
  "CreateJobFor save image_ok c ctx r orgs random token now =
     andThen (prepareJob image_ok c ctx r now) (\<lambda>job.
     andThen (matchJobNow c ctx job orgs now) (\<lambda>match.
     andThen (lift (newID ''job'' random)) (\<lambda>jid.
     andThen (lift (initTraining c token (job\<lparr>job_ID := jid\<rparr>))) (\<lambda>job.
       let job = job\<lparr>job_StatusReason := rm_RecommendationText match,
             job_Events := [\<lparr>ev_JobID = job_ID job, ev_Status = JobQueued,
               ev_Reason = rm_RecommendationText match, ev_At = job_CreatedAt job\<rparr>]\<rparr>
       in andThen (transact save (CreateJob job)) (\<lambda>_. reply job)))))"

record JobPreview =
  prv_Window :: TimeWindow
  prv_PlanningStatus :: string
  prv_WorkloadType :: WorkloadType
  prv_PolicyStatus :: PolicyStatus
  prv_PolicyReason :: string
  prv_NecessityLabel :: string
  prv_SizingPlanStatus :: string
  prv_QuotaStatus :: string
  prv_PolicySource :: string
  prv_ResourceMatch :: ResourceMatch
  prv_EvaluatedAt :: gotime

definition PreviewJob ::
  "(string \<Rightarrow> bool) \<Rightarrow> ControlPlane \<Rightarrow> reqctx \<Rightarrow> CreateJobRequest \<Rightarrow> go_error + Organization list \<Rightarrow> gotime
     \<Rightarrow> JobPreview app" where
  "PreviewJob image_ok c ctx r orgs now =
     andThen (prepareJob image_ok c ctx r now) (\<lambda>job.
     andThen (matchJobNow c ctx job orgs now) (\<lambda>match.
       let p = job_Policy job in
       reply \<lparr>prv_Window = RequestedWindow job,
         prv_PlanningStatus = (if rm_Satisfiable match then ''AVAILABLE'' else ''CONFLICT''),
         prv_WorkloadType = in_WorkloadType (job_Intent job), prv_PolicyStatus = pol_Status p,
         prv_PolicyReason = pol_Reason p, prv_NecessityLabel = NecessityLabel (in_NecessityLevel (job_Intent job)),
         prv_SizingPlanStatus = (if pol_InSizingPlan p then msg_inside_plan else msg_outside_plan),
         prv_QuotaStatus = (if pol_WithinQuota p then msg_inside_quota else msg_over_quota),
         prv_PolicySource = pol_Source p, prv_ResourceMatch = match, prv_EvaluatedAt = pol_EvaluatedAt p\<rparr>))"

record AllocationOptions =
  alo_Limits :: RequestLimits
  alo_PerformanceProfiles :: "Profile list"
  alo_NecessityProfiles :: "NecessityProfile list"
  alo_SystemImportance :: "PolicyOption list"
  alo_WorkloadTypes :: "PolicyOption list"
  alo_CustomReason :: PolicyOption

definition GetAllocationOptions :: "ControlPlane \<Rightarrow> AllocationOptions" where
  "GetAllocationOptions c =
     \<lparr>alo_Limits = cp_limits c, alo_PerformanceProfiles = res_Profiles (cp_catalog c),
      alo_NecessityProfiles = Profiles, alo_SystemImportance = ImportanceOptions,
      alo_WorkloadTypes = [opt ''TRAINING'' ''Training'', opt ''INFERENCE'' ''Inference''],
      alo_CustomReason = opt ''CUSTOM'' msg_custom_reason\<rparr>"

text \<open>A resumable job asked to go on in a new window.\<close>

definition continued_request :: "Job \<Rightarrow> string \<Rightarrow> int \<Rightarrow> CreateJobRequest" where
  "continued_request source neededAt ttl =
     (let rs = job_Resources source in
      \<lparr>crq_ResumeFromJobID = job_ID source,
       crq_Intent = (job_Intent source)\<lparr>in_NeededAt := neededAt, in_TTLSeconds := ttl\<rparr>,
       crq_Name = job_Name source, crq_Image = job_Image source, crq_Backend = job_Backend source,
       crq_Command = job_Command source, crq_Environment = job_Environment source,
       crq_Resources = \<lparr>ar_GPUCount = rq_GPUCount rs, ar_MinVRAMMiB = rq_MinVRAMMiB rs,
         ar_PerformanceProfile = rq_PerformanceProfile rs, ar_FP8Required = Some (rq_FP8Required rs),
         ar_CPUMilli = rq_CPUMilli rs, ar_MemoryMiB = rq_MemoryMiB rs, ar_AllowSharedGPU = False\<rparr>\<rparr>)"

definition ContinueTraining ::
  "(Snapshot \<Rightarrow> go_error option) \<Rightarrow> (string \<Rightarrow> bool) \<Rightarrow> ControlPlane \<Rightarrow> reqctx \<Rightarrow> string \<Rightarrow> string \<Rightarrow> int
     \<Rightarrow> go_error + Organization list \<Rightarrow> go_error + string \<Rightarrow> go_error + string \<Rightarrow> gotime \<Rightarrow> Job app" where
  "ContinueTraining save image_ok c ctx i neededAt ttl orgs random token now =
     andThen (GetVisibleJob ctx i) (\<lambda>source.
       if \<not> Resumable source \<or> cp_objects c = None then fail ErrConflict
       else CreateJobFor save image_ok c ctx (continued_request source neededAt ttl) orgs random token now)"

end
