(* ===== verification/Request_Laws.thy ===== *)
theory Request_Laws
  imports Job_Requests
begin

text \<open>
  What an accepted request is: the fields the validation lets through, the steps \<open>prepareJob\<close> went
  through, and the job \<open>CreateJob\<close> stores.
\<close>

section \<open>Validation\<close>

lemma put_not_Nil [simp]: "put k v m \<noteq> []"
  by (cases m) auto

lemma mark_field_Nil [simp]: "mark_field b k v fs = [] \<longleftrightarrow> \<not> b \<and> fs = []"
  by (simp add: mark_field_def)

lemma Validate_Nil:
  "Validate intent fs = [] \<longleftrightarrow> fs = [] \<and> (in_WorkloadType intent = WorkloadTraining \<or> in_WorkloadType intent = WorkloadInference) \<and>
     necessityRank (in_NecessityLevel intent) \<noteq> 5 \<and> ImportanceCoefficient (in_SystemImportance intent) \<noteq> None \<and>
     (in_NecessityReason intent = ''CUSTOM'' \<longrightarrow> TrimSpace (in_NecessityExplanation intent) \<noteq> '''') \<and>
     (reason_allowed intent \<or> in_NecessityReason intent = ''CUSTOM'') \<and>
     length (in_NecessityExplanation intent) \<le> 4096"
  by (auto simp: Validate_def Let_def)

text \<open>What a request without field errors satisfies: its resources, its intent, and what it executes.
  The platform keeps the variables of three prefixes to itself.\<close>

definition resources_ok :: "AllocationResources \<Rightarrow> RequestLimits \<Rightarrow> Resolver \<Rightarrow> bool" where
  "resources_ok r limits catalog \<longleftrightarrow>
     \<not> ar_AllowSharedGPU r \<and> 1 \<le> ar_GPUCount r \<and> ar_GPUCount r \<le> lim_MaxGPUCount limits \<and> 0 < ar_MinVRAMMiB r \<and>
     0 \<le> ar_CPUMilli r \<and> ar_CPUMilli r * 1000000 \<le> max_int64 \<and>
     0 \<le> ar_MemoryMiB r \<and> ar_MemoryMiB r * 1048576 \<le> max_int64 \<and>
     ar_FP8Required r \<noteq> None \<and> (\<exists>models. res_Resolve catalog (ar_PerformanceProfile r) False = Inr models)"

definition intent_ok :: "AllocationIntent \<Rightarrow> RequestLimits \<Rightarrow> bool" where
  "intent_ok i limits \<longleftrightarrow>
     in_WorkloadType i \<in> {WorkloadTraining, WorkloadInference} \<and>
     in_NecessityLevel i \<in> {Necessity1, Necessity2, Necessity3, Necessity4} \<and>
     in_SystemImportance i \<in> {ImportanceCritical, ImportanceVeryImportant, ImportanceImportant, ImportanceNormal} \<and>
     (in_NecessityReason i = ''CUSTOM'' \<and> TrimSpace (in_NecessityExplanation i) \<noteq> '''' \<or>
      (\<exists>p \<in> set Profiles. np_WorkloadType p = in_WorkloadType i \<and> np_Level p = in_NecessityLevel i \<and>
         in_NecessityReason i \<in> opt_ID ` set (np_Reasons p))) \<and>
     length (in_NecessityExplanation i) \<le> 4096 \<and>
     (\<exists>t. parse_RFC3339 (in_NeededAt i) = Some t) \<and>
     0 < in_TTLSeconds i \<and> in_TTLSeconds i \<le> lim_MaxTTLSeconds limits"

definition execution_ok :: "(string \<Rightarrow> bool) \<Rightarrow> CreateJobRequest \<Rightarrow> bool" where
  "execution_ok image_ok r \<longleftrightarrow>
     3 \<le> length (TrimSpace (crq_Name r)) \<and> length (crq_Name r) \<le> 128 \<and>
     image_ok (crq_Image r) \<and> length (crq_Image r) \<le> 512 \<and> crq_Backend r = BackendDocker \<and>
     length (crq_Environment r) \<le> 128 \<and> length (crq_Command r) \<le> 256 \<and>
     (\<forall>(k, v) \<in> set (crq_Environment r). k \<noteq> '''' \<and> \<not> is_digit (hd k) \<and>
        (\<forall>c \<in> set k. is_digit c \<or> (let n = of_char c :: nat in (65 \<le> n \<and> n \<le> 90) \<or> (97 \<le> n \<and> n \<le> 122) \<or> n = 95)) \<and>
        length v \<le> 8192 \<and> CHR 0x00 \<notin> set v \<and>
        \<not> HasPrefix k ''AIWM_'' \<and> \<not> HasPrefix k ''NVIDIA_'' \<and> k \<noteq> ''CUDA_VISIBLE_DEVICES'') \<and>
     (\<forall>a \<in> set (crq_Command r). length a \<le> 8192 \<and> CHR 0x00 \<notin> set a)"

definition request_ok :: "(string \<Rightarrow> bool) \<Rightarrow> CreateJobRequest \<Rightarrow> RequestLimits \<Rightarrow> Resolver \<Rightarrow> bool" where
  "request_ok image_ok r limits catalog \<longleftrightarrow>
     resources_ok (crq_Resources r) limits catalog \<and> intent_ok (crq_Intent r) limits \<and> execution_ok image_ok r"

lemma key_start_no_digit: "key_start c \<Longrightarrow> \<not> is_digit c"
  by (auto simp: key_start_def is_digit_def Let_def)

lemma env_allowed_raw:
  assumes "env_allowed (k, v)"
  shows "k \<noteq> '''' \<and> \<not> is_digit (hd k) \<and>
    (\<forall>c \<in> set k. is_digit c \<or> (let n = of_char c :: nat in (65 \<le> n \<and> n \<le> 90) \<or> (97 \<le> n \<and> n \<le> 122) \<or> n = 95)) \<and>
    length v \<le> 8192 \<and> CHR 0x00 \<notin> set v \<and> \<not> HasPrefix k ''AIWM_'' \<and> \<not> HasPrefix k ''NVIDIA_'' \<and> k \<noteq> ''CUDA_VISIBLE_DEVICES''"
proof -
  from assms have e: "environmentKey k" and rest: "length v \<le> 8192" "CHR 0x00 \<notin> set v" "\<not> HasPrefix k ''AIWM_''"
    "\<not> HasPrefix k ''NVIDIA_''" "k \<noteq> ''CUDA_VISIBLE_DEVICES''" by (auto simp: env_allowed_def)
  from e obtain c cs where k: "k = c # cs" "key_start c" "list_all (\<lambda>x. key_start x \<or> is_digit x) cs"
    by (auto simp: environmentKey_def split: list.splits)
  with key_start_no_digit [OF k(2)] rest show ?thesis by (auto simp: list_all_iff key_start_def Let_def)
qed

lemma intent_okI:
  assumes "Validate i fs = []" and "parse_RFC3339 (in_NeededAt i) = Some t"
    and "\<not> (in_TTLSeconds i \<le> 0 \<or> lim_MaxTTLSeconds limits < in_TTLSeconds i)"
  shows "intent_ok i limits"
proof -
  note v = assms(1) [unfolded Validate_Nil]
  have "in_NecessityLevel i \<in> {Necessity1, Necessity2, Necessity3, Necessity4}"
    using v by (auto simp: necessityRank_def split: if_splits)
  moreover have "in_SystemImportance i \<in> {ImportanceCritical, ImportanceVeryImportant, ImportanceImportant, ImportanceNormal}"
    using v by (auto simp: ImportanceCoefficient_def split: if_splits)
  moreover have "reason_allowed i \<Longrightarrow> \<exists>p \<in> set Profiles. np_WorkloadType p = in_WorkloadType i \<and>
      np_Level p = in_NecessityLevel i \<and> in_NecessityReason i \<in> opt_ID ` set (np_Reasons p)"
    unfolding reason_allowed_def list_ex_iff by (metis imageI)
  ultimately show ?thesis using v assms(2,3) unfolding intent_ok_def by auto
qed

lemma le_div_mult:
  fixes x m k :: int
  assumes "0 < k" "x \<le> m div k" shows "x * k \<le> m"
proof -
  have "x * k \<le> m div k * k" using assms by (simp add: mult_right_mono)
  also have "\<dots> \<le> m" using assms(1) by (simp add: minus_mod_eq_div_mult [symmetric])
  finally show ?thesis .
qed

lemma resource_fields_Nil:
  "resource_fields r limits catalog fs = [] \<Longrightarrow> fs = [] \<and> resources_ok r limits catalog"
  using le_div_mult [of 1000000 "ar_CPUMilli r" max_int64] le_div_mult [of 1048576 "ar_MemoryMiB r" max_int64]
  by (cases "res_Resolve catalog (ar_PerformanceProfile r) False")
    (auto simp: resource_fields_def resources_ok_def Let_def not_less not_le)

lemma request_fields_Nil:
  assumes "request_fields image_ok r limits catalog = []"
  shows "request_ok image_ok r limits catalog" "\<exists>t. parse_RFC3339 (in_NeededAt (crq_Intent r)) = Some t"
proof -
  from assms have nil: "resource_fields (crq_Resources r) limits catalog
      (mark_field (crq_Backend r \<noteq> BackendDocker) ''backend'' msg_bad_backend
        (mark_field (\<not> image_ok (crq_Image r) \<or> 512 < length (crq_Image r)) ''image'' msg_bad_image
          (mark_field (length (TrimSpace (crq_Name r)) < 3 \<or> 128 < length (crq_Name r)) ''name'' msg_bad_name []))) = []"
    and rest: "Validate (crq_Intent r) [] = []"
      "parse_RFC3339 (in_NeededAt (crq_Intent r)) \<noteq> None"
      "\<not> (in_TTLSeconds (crq_Intent r) \<le> 0 \<or> lim_MaxTTLSeconds limits < in_TTLSeconds (crq_Intent r))"
      "\<not> 128 < length (crq_Environment r)" "\<not> 256 < length (crq_Command r)"
      "list_all env_allowed (crq_Environment r)" "list_all arg_allowed (crq_Command r)"
    unfolding request_fields_def Let_def mark_field_Nil Validate_Nil by simp_all
  from rest(2) show at: "\<exists>t. parse_RFC3339 (in_NeededAt (crq_Intent r)) = Some t" by simp
  then have "intent_ok (crq_Intent r) limits" using intent_okI [OF rest(1) _ rest(3)] by blast
  moreover have "execution_ok image_ok r"
    using resource_fields_Nil [OF nil] rest(4-) env_allowed_raw
    unfolding execution_ok_def mark_field_Nil by (fastforce simp: not_less list_all_iff arg_allowed_def)
  ultimately show "request_ok image_ok r limits catalog"
    using resource_fields_Nil [OF nil] by (simp add: request_ok_def)
qed

lemma validateJobRequest_Inr: "validateJobRequest image_ok r limits catalog = Inr u \<longleftrightarrow>
    request_fields image_ok r limits catalog = []"
  by (simp add: validateJobRequest_def Let_def)

section \<open>Preparing\<close>

lemma initTraining_Inr:
  "initTraining c token j = Inr j' \<Longrightarrow> \<exists>t k. j' = j\<lparr>job_Training := t, job_TrainingToken := k\<rparr>"
  by (auto simp: initTraining_def Let_def split: if_splits sum.splits)
    (metis Job.surjective Job.update_convs(1,2))+

lemma resume_from_Inr:
  "resume_from c ctx sourceID job d = (Inr j, d') \<Longrightarrow> d' = d \<and> (\<exists>t. j = job\<lparr>job_Training := t\<rparr>)"
  by (auto simp: resume_from_def andThen_Inr GetVisibleJob_Inr split: if_splits)
    (metis Job.surjective Job.update_convs(1))

text \<open>An empty backend means Docker.\<close>

definition normalized_request :: "CreateJobRequest \<Rightarrow> CreateJobRequest" where
  "normalized_request r = (if crq_Backend r = '''' then r\<lparr>crq_Backend := BackendDocker\<rparr> else r)"

lemma normalized_request_sel [simp]:
  "crq_Intent (normalized_request r) = crq_Intent r" "crq_Resources (normalized_request r) = crq_Resources r"
  by (simp_all add: normalized_request_def)

lemma prepareJob_Inr:
  assumes "prepareJob image_ok c ctx r now d = (Inr job, d')"
  obtains models needed t p where "d' = d" "cp_hasMetadata c \<Longrightarrow> ctx \<noteq> None"
    "request_ok image_ok (normalized_request r) (cp_limits c) (cp_catalog c)"
    "res_Resolve (cp_catalog c) (ar_PerformanceProfile (crq_Resources r))
       (rq_FP8Required (AllocationResources_Domain (crq_Resources r))) = Inr models"
    "parse_RFC3339 (in_NeededAt (crq_Intent r)) = Some needed" "now - Minute \<le> needed"
    "job = (draft_job (principal_org ctx) (normalized_request r) (Format_RFC3339Nano needed)
        ((AllocationResources_Domain (crq_Resources r))\<lparr>rq_ResolvedModels := models\<rparr>)
        (sch_defaultStrategy (cp_scheduler c)) now)\<lparr>job_Training := t, job_Policy := p\<rparr>"
    "win_Valid (RequestedWindow job)" "now < win_EndAt (RequestedWindow job)"
proof -
  have auth: "\<not> (cp_hasMetadata c \<and> ctx = None)"
  proof
    assume "cp_hasMetadata c \<and> ctx = None"
    with assms show False by (simp add: prepareJob_def)
  qed
  define needed where "needed = (case parse_RFC3339 (in_NeededAt (crq_Intent r)) of None \<Rightarrow> 0 | Some t \<Rightarrow> t)"
  obtain models where ok: "request_fields image_ok (normalized_request r) (cp_limits c) (cp_catalog c) = []"
    and models: "res_Resolve (cp_catalog c) (rq_PerformanceProfile (AllocationResources_Domain (crq_Resources r)))
       (rq_FP8Required (AllocationResources_Domain (crq_Resources r))) = Inr models"
    using assms auth by (auto simp: prepareJob_def andThen_Inr validateJobRequest_Inr Let_def
        normalized_request_def [symmetric])
  define j0 where "j0 = draft_job (principal_org ctx) (normalized_request r) (Format_RFC3339Nano needed)
        ((AllocationResources_Domain (crq_Resources r))\<lparr>rq_ResolvedModels := models\<rparr>)
        (sch_defaultStrategy (cp_scheduler c)) now"
  have "now - Minute \<le> needed \<and> win_Valid (RequestedWindow j0) \<and> now < win_EndAt (RequestedWindow j0) \<and>
      (\<exists>j1. resume_from c ctx (crq_ResumeFromJobID (normalized_request r)) j0 d = (Inr j1, d') \<and>
         (\<exists>p. job = j1\<lparr>job_Policy := p\<rparr>))"
    using assms auth models
    by (auto simp: prepareJob_def andThen_Inr validateJobRequest_Inr Let_def
        normalized_request_def [symmetric] needed_def [symmetric] j0_def [symmetric] split: if_splits)
  then obtain t p where r: "d' = d" "now - Minute \<le> needed" "win_Valid (RequestedWindow j0)"
    "now < win_EndAt (RequestedWindow j0)" "job = j0\<lparr>job_Training := t, job_Policy := p\<rparr>"
    by (auto dest!: resume_from_Inr)
  have w: "RequestedWindow job = RequestedWindow j0" by (rule RequestedWindow_cong) (simp add: r(5))
  obtain t0 where "parse_RFC3339 (in_NeededAt (crq_Intent r)) = Some t0"
    using request_fields_Nil(2) [OF ok] by auto
  then have "parse_RFC3339 (in_NeededAt (crq_Intent r)) = Some needed" by (simp add: needed_def)
  moreover have "rq_PerformanceProfile (AllocationResources_Domain (crq_Resources r)) =
      ar_PerformanceProfile (crq_Resources r)"
    by (simp add: AllocationResources_Domain_def)
  ultimately show ?thesis
    using that [OF r(1) _ request_fields_Nil(1) [OF ok] _ _ r(2) r(5) [unfolded j0_def]] auth models
      r(3,4) [folded w] by metis
qed

section \<open>Creating\<close>

lemma CreateJobFor_Inr:
  assumes "CreateJobFor save image_ok c ctx r orgs random token now d = (Inr job, d')"
  obtains j0 i t k reason where "prepareJob image_ok c ctx r now d = (Inr j0, d)" "newID ''job'' random = Inr i"
    "job = j0\<lparr>job_ID := i, job_Training := t, job_TrainingToken := k, job_StatusReason := reason,
       job_Events := [\<lparr>ev_JobID = i, ev_Status = JobQueued, ev_Reason = reason, ev_At = job_CreatedAt j0\<rparr>]\<rparr>"
    "map_of (st_jobs (dur_core d)) i = None" "dur_core d' = put_job job (dur_core d)"
proof -
  obtain j0 d1 where p: "prepareJob image_ok c ctx r now d = (Inr j0, d1)"
    and rest: "andThen (matchJobNow c ctx j0 orgs now) (\<lambda>match.
     andThen (lift (newID ''job'' random)) (\<lambda>jid.
     andThen (lift (initTraining c token (j0\<lparr>job_ID := jid\<rparr>))) (\<lambda>job.
       let job = job\<lparr>job_StatusReason := rm_RecommendationText match,
             job_Events := [\<lparr>ev_JobID = job_ID job, ev_Status = JobQueued,
               ev_Reason = rm_RecommendationText match, ev_At = job_CreatedAt job\<rparr>]\<rparr>
       in andThen (transact save (CreateJob job)) (\<lambda>_. reply job)))) d1 = (Inr job, d')"
    using assms unfolding CreateJobFor_def andThen_Inr [of "prepareJob image_ok c ctx r now"] by blast
  have d1: "d1 = d" using p by (rule prepareJob_Inr)
  from rest d1 obtain match :: ResourceMatch and i j1 where i: "newID ''job'' random = Inr i"
    and j1: "initTraining c token (j0\<lparr>job_ID := i\<rparr>) = Inr j1"
    and job: "job = j1\<lparr>job_StatusReason := rm_RecommendationText match,
             job_Events := [\<lparr>ev_JobID = job_ID j1, ev_Status = JobQueued,
               ev_Reason = rm_RecommendationText match, ev_At = job_CreatedAt j1\<rparr>]\<rparr>"
    and call: "transact save (CreateJob job) d = (Inr (), d')"
    by (auto simp: andThen_Inr Let_def matchJobNow_def)
  obtain t k where j1': "j1 = j0\<lparr>job_ID := i, job_Training := t, job_TrainingToken := k\<rparr>"
    using initTraining_Inr [OF j1] by auto
  from transact_Inr [OF call] have "map_of (st_jobs (dur_core d)) (job_ID job) = None" "dur_core d' = put_job job (dur_core d)"
    by (auto simp: CreateJob_def split: option.splits)
  with that p d1 i job j1' show ?thesis by simp
qed

text \<open>
  C25. Only sound requests enter the queue. A job that \<open>CreateJob\<close> accepts is stored under a fresh
  identifier, queued and unassigned, in the organisation of the caller, with the resources, intent,
  environment and arguments of the request and the models the catalogue resolves its profile to. The
  request passes every check of the validation: \<open>resources_ok\<close> (GPUs, memory, CPU, an explicit FP8
  requirement, a known profile), \<open>intent_ok\<close> (workload, necessity level, importance, a reason of the
  profiles or a custom one that is explained, an explanation of at most 4096 bytes, an instant, a
  lifetime) and \<open>execution_ok\<close> (name, image, backend, and no variable the platform sets). The window of
  the job is valid, not over, and was asked for from at most a minute ago; when the requested instant
  is of the years 0 to 9999 in UTC, as a year of four digits shows it, the window starts there and is
  as long as the lifetime. No other job, server or command changes.
\<close>

theorem created_job_is_sound:
  assumes "CreateJobFor save image_ok c ctx r orgs random token now d = (Inr job, d')"
  shows "map_of (st_jobs (dur_core d)) (job_ID job) = None \<and>
    dur_core d' = put_job job (dur_core d) \<and>
    (\<exists>tok. random = Inr tok \<and> job_ID job = ''job_'' @ tok) \<and>
    job_Status job = JobQueued \<and> job_Assignment job = None \<and> job_ServerSelector job = [] \<and>
    job_OrganizationID job = principal_org ctx \<and> (cp_hasMetadata c \<longrightarrow> ctx \<noteq> None) \<and>
    request_ok image_ok (normalized_request r) (cp_limits c) (cp_catalog c) \<and>
    job_Name job = TrimSpace (crq_Name r) \<and> job_Image job = crq_Image r \<and> job_Backend job = BackendDocker \<and>
    job_Environment job = crq_Environment r \<and> job_Command job = crq_Command r \<and>
    (\<exists>fp8 models. ar_FP8Required (crq_Resources r) = Some fp8 \<and>
      res_Resolve (cp_catalog c) (ar_PerformanceProfile (crq_Resources r)) fp8 = Inr models \<and>
      job_Resources job = \<lparr>rq_PerformanceProfile = ar_PerformanceProfile (crq_Resources r), rq_FP8Required = fp8,
        rq_ResolvedModels = models, rq_GPUCount = ar_GPUCount (crq_Resources r), rq_GPUModel = '''',
        rq_MinVRAMMiB = ar_MinVRAMMiB (crq_Resources r), rq_CPUMilli = ar_CPUMilli (crq_Resources r),
        rq_MemoryMiB = ar_MemoryMiB (crq_Resources r), rq_AllowSharedGPU = False\<rparr>) \<and>
    win_Valid (RequestedWindow job) \<and> now < win_EndAt (RequestedWindow job) \<and>
    (\<exists>needed. parse_RFC3339 (in_NeededAt (crq_Intent r)) = Some needed \<and> now - Minute \<le> needed \<and>
      job_Intent job = (crq_Intent r)\<lparr>in_NeededAt := Format_RFC3339Nano needed\<rparr> \<and>
      (0 \<le> fst (year_day (needed div (24 * Hour))) \<and> fst (year_day (needed div (24 * Hour))) < 10000 \<longrightarrow>
        win_StartAt (RequestedWindow job) = needed \<and>
        win_EndAt (RequestedWindow job) = needed + in_TTLSeconds (crq_Intent r) * Second))"
proof -
  obtain j0 i t k reason where p: "prepareJob image_ok c ctx r now d = (Inr j0, d)"
    and i: "newID ''job'' random = Inr i"
    and job: "job = j0\<lparr>job_ID := i, job_Training := t, job_TrainingToken := k, job_StatusReason := reason,
       job_Events := [\<lparr>ev_JobID = i, ev_Status = JobQueued, ev_Reason = reason, ev_At = job_CreatedAt j0\<rparr>]\<rparr>"
    and fresh: "map_of (st_jobs (dur_core d)) i = None" "dur_core d' = put_job job (dur_core d)"
    using assms by (rule CreateJobFor_Inr)
  obtain models needed t0 pol where q: "cp_hasMetadata c \<Longrightarrow> ctx \<noteq> None"
    "request_ok image_ok (normalized_request r) (cp_limits c) (cp_catalog c)"
    "parse_RFC3339 (in_NeededAt (crq_Intent r)) = Some needed" "now - Minute \<le> needed"
    and resolved: "res_Resolve (cp_catalog c) (ar_PerformanceProfile (crq_Resources r))
       (rq_FP8Required (AllocationResources_Domain (crq_Resources r))) = Inr models"
    and j0: "j0 = (draft_job (principal_org ctx) (normalized_request r) (Format_RFC3339Nano needed)
        ((AllocationResources_Domain (crq_Resources r))\<lparr>rq_ResolvedModels := models\<rparr>)
        (sch_defaultStrategy (cp_scheduler c)) now)\<lparr>job_Training := t0, job_Policy := pol\<rparr>"
    and win: "win_Valid (RequestedWindow j0)" "now < win_EndAt (RequestedWindow j0)"
    using p by (rule prepareJob_Inr) blast
  have w: "RequestedWindow job = RequestedWindow j0" by (rule RequestedWindow_cong) (simp add: job)
  have start: "win_StartAt (RequestedWindow j0) = needed \<and>
      win_EndAt (RequestedWindow j0) = needed + in_TTLSeconds (crq_Intent r) * Second"
    if "0 \<le> fst (year_day (needed div (24 * Hour)))" "fst (year_day (needed div (24 * Hour))) < 10000"
    using parse_Format [OF that] q(2) win(1)
    by (auto simp: RequestedWindow_def j0 draft_job_def request_ok_def intent_ok_def win_Valid_def split: if_splits)
  have sel: "job_ID job = i" "job_Status job = JobQueued" "job_Assignment job = None" "job_ServerSelector job = []"
    "job_OrganizationID job = principal_org ctx" "job_Environment job = crq_Environment r"
    "job_Command job = crq_Command r" "job_Name job = TrimSpace (crq_Name r)" "job_Image job = crq_Image r"
    "job_Intent job = (crq_Intent r)\<lparr>in_NeededAt := Format_RFC3339Nano needed\<rparr>"
    by (simp_all add: job j0 draft_job_def normalized_request_def)
  have backend: "job_Backend job = BackendDocker"
    using q(2) by (simp add: job j0 draft_job_def request_ok_def execution_ok_def)
  obtain fp8 where fp8: "ar_FP8Required (crq_Resources r) = Some fp8"
    using q(2) by (auto simp: request_ok_def resources_ok_def)
  then have res: "res_Resolve (cp_catalog c) (ar_PerformanceProfile (crq_Resources r)) fp8 = Inr models"
    "job_Resources job = \<lparr>rq_PerformanceProfile = ar_PerformanceProfile (crq_Resources r), rq_FP8Required = fp8,
        rq_ResolvedModels = models, rq_GPUCount = ar_GPUCount (crq_Resources r), rq_GPUModel = '''',
        rq_MinVRAMMiB = ar_MinVRAMMiB (crq_Resources r), rq_CPUMilli = ar_CPUMilli (crq_Resources r),
        rq_MemoryMiB = ar_MemoryMiB (crq_Resources r), rq_AllowSharedGPU = False\<rparr>"
    using resolved by (simp_all add: job j0 draft_job_def AllocationResources_Domain_def)
  from i obtain tok where "random = Inr tok" "i = ''job_'' @ tok" by (auto simp: newID_Inr)
  with fresh q win start sel backend fp8 res show ?thesis unfolding w by auto
qed

end
