(* ===== verification/Application_Protocol.thy ===== *)
theory Application_Protocol
  imports Control_Plane Request_Laws
begin

text \<open>
  Every operation of the application layer that changes state meets the contract
  \<open>application_operation\<close>; a run of the control plane, requests and restarts in any order, is then a
  run of the repository, and what holds in every reachable repository state holds while the platform
  serves requests.
\<close>

section \<open>Every operation is a sequence of repository steps\<close>

lemma advances_pure_op: "(\<And>d. snd (m d) = d) \<Longrightarrow> advances off m"
  by (simp add: advances_def)

lemma advances_option [app_steps]:
  "advances off m \<Longrightarrow> (\<And>v. advances off (f v)) \<Longrightarrow> advances off (case x of None \<Rightarrow> m | Some v \<Rightarrow> f v)"
  by (cases x) simp_all

lemma advances_let [app_steps]: "advances off (f v) \<Longrightarrow> advances off (let x = v in f x)"
  by simp

lemma advances_prod [app_steps]: "(\<And>a b. advances off (f a b)) \<Longrightarrow> advances off (case x of (a, b) \<Rightarrow> f a b)"
  by (cases x) simp

lemma GetVisibleJob_advances [app_steps]: "advances off (GetVisibleJob ctx i)"
  unfolding GetVisibleJob_def by (intro app_steps)

lemma GetVisibleServer_advances [app_steps]: "advances off (GetVisibleServer c ctx orgs now i)"
  unfolding GetVisibleServer_def by (intro app_steps)

lemma StopJob_advances [app_steps]: "advances off (StopJob save ctx i random now)"
  unfolding StopJob_def by (intro app_steps)

lemma DrainServer_advances [app_steps]: "advances off (DrainServer save c ctx orgs now i drained)"
  unfolding DrainServer_def by (intro app_steps)

lemma registered_server_fresh: "srv_GPUs (registered_server sha256 r org i token now) = []"
  by (simp add: registered_server_def zero_server_def)

lemma RegisterAgent_advances [app_steps]: "advances off (RegisterAgent save sha256 c enr r random token bind now)"
  unfolding RegisterAgent_def by (intro app_steps registered_server_fresh)

lemma activate_advances [app_steps]: "advances off (activate save c job a random now)"
  unfolding activate_def by (intro app_steps)

lemma start_if_due_advances [app_steps]: "advances off (start_if_due save c enabled job random now)"
  unfolding start_if_due_def by (intro app_steps)

lemma end_expired_advances [app_steps]: "advances off (end_expired save ctx job random now)"
  unfolding end_expired_def by (intro app_steps)

lemma process_job_advances [app_steps]: "advances off (process_job save c ctx enabled job random now)"
  unfolding process_job_def control_job_def by (intro app_steps)

lemma process_all_advances [app_steps]: "advances off (process_all save c ctx enabled inp jobs)"
proof (induction jobs)
  case Nil
  show ?case unfolding process_all.simps by (intro app_steps)
next
  case (Cons job jobs)
  then show ?case unfolding process_all.simps by (intro app_steps)
qed

lemma processReservations_advances [app_steps]: "advances off (processReservations save c ctx inp)"
  unfolding processReservations_def by (intro app_steps)

lemma ScheduleOnce_advances [app_steps]: "advances off (ScheduleOnce save c ctx pass1 orgs now pass2)"
  unfolding ScheduleOnce_def by (intro app_steps)

lemma Reconcile_advances [app_steps]: "advances off (Reconcile save c ctx now inp)"
  unfolding Reconcile_def by (intro app_steps)

text \<open>A request refused before any repository call, as a transaction that fails.\<close>

lemma advances_refused: "advances off (transact save (\<lambda>s. (Inl e, s)))"
  unfolding advances_def
proof (intro allI impI)
  fix d :: Durable
  have "Restore (Export (dur_core d)) (dur_core d) = dur_core d" by (rule Restore_Export) simp
  then show "(durable_step off)\<^sup>*\<^sup>* d (snd (transact save (\<lambda>s. (Inl e, s)) d))"
    by (simp add: transact_def)
qed

lemma ReportInventory_advances [app_steps]: "advances off (transact save (ReportInventory a r now))"
proof -
  let ?r = "if IsZero (wr_ObservedAt r) then r\<lparr>wr_ObservedAt := now\<rparr> else r"
  consider e where "ReportInventory a r now = (\<lambda>s. (Inl e, s))"
    | d where "inventoryToDomain ?r = Inr d" "ReportInventory a r now = ReplaceInventory a (d\<lparr>rep_ReceivedAt := now\<rparr>)"
    by (cases "wr_Sequence r = 0"; cases "inventoryToDomain ?r") (auto simp: ReportInventory_def Let_def fun_eq_iff)
  then show ?thesis
  proof cases
    case (1 e)
    then show ?thesis using advances_refused by metis
  next
    case (2 d)
    then have "distinct (map gpu_UUID (rep_GPUs d)) \<and> list_all wf_gpu (rep_GPUs d)"
      using convert_gpus_uuids by (fastforce simp: inventoryToDomain_def Let_def split: sum.splits)
    then show ?thesis unfolding 2(2) by (intro advances_inventory) simp_all
  qed
qed

lemma PollCommands_advances [app_steps]: "advances off (transact save (PollCommands lease a n now))"
  by (rule advances_call [where c = "CallLeaseCommands a now lease (if n > 100 then 100 else n)"])
    (auto simp: PollCommands_def discard_def split: prod.split sum.split)

text \<open>A continuation that meets the contract for the values the first part can return.\<close>

lemma advances_andThen_if:
  assumes "advances off m" and "\<And>v d d'. m d = (Inr v, d') \<Longrightarrow> advances off (f v)"
  shows "advances off (andThen m f)"
proof -
  define g where "g v = (if \<exists>d d'. m d = (Inr v, d') then f v else fail ErrConflict)" for v
  have "andThen m f d = andThen m g d" for d
    by (auto simp: andThen_def g_def split: prod.splits sum.splits)
  moreover have "advances off (g v)" for v using assms(2) by (auto simp: g_def)
  ultimately show ?thesis using advances_andThen [OF assms(1), of g] by (simp add: advances_def)
qed

lemma resume_from_advances [app_steps]: "advances off (resume_from c ctx i job)"
  unfolding resume_from_def by (intro app_steps)

lemma prepareJob_advances [app_steps]: "advances off (prepareJob image_ok c ctx r now)"
  unfolding prepareJob_def Let_def by (intro app_steps)

lemma matchJobNow_advances [app_steps]: "advances off (matchJobNow c ctx job orgs now)"
  unfolding matchJobNow_def by (intro app_steps)

text \<open>A new job has the identifier \<open>job_...\<close> and no assignment.\<close>

lemma CreateJobFor_advances [app_steps]:
  "advances off (CreateJobFor save image_ok c ctx r orgs random token now)"
  unfolding CreateJobFor_def
proof (rule advances_andThen_if [OF prepareJob_advances])
  fix j0 d d' assume p: "prepareJob image_ok c ctx r now d = (Inr j0, d')"
  have j0: "job_Assignment j0 = None" by (rule prepareJob_Inr [OF p]) (simp add: draft_job_def)
  show "advances off (andThen (matchJobNow c ctx j0 orgs now) (\<lambda>match. andThen (lift (newID ''job'' random))
     (\<lambda>jid. andThen (lift (initTraining c token (j0\<lparr>job_ID := jid\<rparr>))) (\<lambda>job.
       let job = job\<lparr>job_StatusReason := rm_RecommendationText match,
             job_Events := [\<lparr>ev_JobID = job_ID job, ev_Status = JobQueued,
               ev_Reason = rm_RecommendationText match, ev_At = job_CreatedAt job\<rparr>]\<rparr>
       in andThen (transact save (CreateJob job)) (\<lambda>_. reply job)))))"
  proof (rule advances_andThen [OF matchJobNow_advances], rule advances_andThen_if, simp,
      rule advances_andThen_if, simp)
    fix match :: ResourceMatch and i and d1 d1' :: Durable and job and d2 d2' :: Durable
    assume "lift (newID ''job'' random) d1 = (Inr i, d1')"
      and "lift (initTraining c token (j0\<lparr>job_ID := i\<rparr>)) d2 = (Inr job, d2')"
    then have "job_ID job \<noteq> ''''" "job_Assignment job = None"
      using j0 initTraining_Inr [of c token "j0\<lparr>job_ID := i\<rparr>" job] by (auto simp: newID_Inr)
    then show "advances off (let job = job\<lparr>job_StatusReason := rm_RecommendationText match,
             job_Events := [\<lparr>ev_JobID = job_ID job, ev_Status = JobQueued,
               ev_Reason = rm_RecommendationText match, ev_At = job_CreatedAt job\<rparr>]\<rparr>
       in andThen (transact save (CreateJob job)) (\<lambda>_. reply job))"
      unfolding Let_def by (intro advances_andThen advances_create advances_pure) simp_all
  qed
qed

lemma ContinueTraining_advances [app_steps]:
  "advances off (ContinueTraining save image_ok c ctx i neededAt ttl orgs random token now)"
  unfolding ContinueTraining_def by (intro app_steps)

section \<open>The contract holds\<close>

lemmas meets_contract = advances_operation [THEN iffD1]

interpretation stop_job: application_operation "StopJob save ctx i random now" off for save ctx i random now off
  by (rule meets_contract [OF StopJob_advances])

interpretation create_job: application_operation "CreateJobFor save image_ok c ctx r orgs random token now" off
  for save image_ok c ctx r orgs random token now off
  by (rule meets_contract [OF CreateJobFor_advances])

interpretation register: application_operation "RegisterAgent save sha256 c enr r random token bind now" off
  for save sha256 c enr r random token bind now off
  by (rule meets_contract [OF RegisterAgent_advances])

interpretation schedule: application_operation "ScheduleOnce save c ctx pass1 orgs now pass2" off
  for save c ctx pass1 orgs now pass2 off
  by (rule meets_contract [OF ScheduleOnce_advances])

interpretation controller: application_operation "process_job save c ctx enabled job random now" off
  for save c ctx enabled job random now off
  by (rule meets_contract [OF process_job_advances])

interpretation begin_output: application_operation "beginOutput save c i token kind step bytes random now" off
  for save c i token kind step bytes random now off
  by (rule meets_contract [OF beginOutput_advances])

interpretation finish_output: application_operation "finishOutput save i kind step up r ended now" off
  for save i kind step up r ended now off
  by (rule meets_contract [OF finishOutput_advances])

section \<open>Runs of the control plane\<close>

text \<open>
  The requests that can change state, each with what its handler gets from outside: the result of
  saving, the caller, identifiers, tokens, the organisations and the clock. An upload is two requests,
  with any others in between.
\<close>

datatype app_request =
    ReqRegister "string \<Rightarrow> string" string RegisterRequest "go_error + string" "go_error + string"
      "string \<Rightarrow> string \<Rightarrow> gotime \<Rightarrow> go_error + ServerOwnership"
  | ReqHeartbeat string
  | ReqReport string WireReport
  | ReqPoll string int
  | ReqAck string string CommandAckRequest
  | ReqDrain reqctx "go_error + Organization list" string bool
  | ReqCreate "string \<Rightarrow> bool" reqctx CreateJobRequest "go_error + Organization list" "go_error + string"
      "go_error + string"
  | ReqContinue "string \<Rightarrow> bool" reqctx string string int "go_error + Organization list" "go_error + string"
      "go_error + string"
  | ReqStop reqctx string "go_error + string"
  | ReqSchedule reqctx PassInput "go_error + Organization list" PassInput
  | ReqReconcile reqctx PassInput
  | ReqBeginOutput string string string int int "go_error + string"
  | ReqFinishOutput string string int Upload "go_error + string" bool

fun serve :: "(Snapshot \<Rightarrow> go_error option) \<Rightarrow> ControlPlane \<Rightarrow> gotime \<Rightarrow> app_request \<Rightarrow> unit app" where
  "serve save c now (ReqRegister sha256 enr r random token bind) =
     finish_with (RegisterAgent save sha256 c enr r random token bind now)"
| "serve save c now (ReqHeartbeat a) = finish_with (transact save (Heartbeat a now))"
| "serve save c now (ReqReport a r) = finish_with (transact save (ReportInventory a r now))"
| "serve save c now (ReqPoll a n) = finish_with (transact save (PollCommands (cp_commandLease c) a n now))"
| "serve save c now (ReqAck a k ack) = finish_with (transact save (AckCommand a k ack now))"
| "serve save c now (ReqDrain ctx orgs i b) = finish_with (DrainServer save c ctx orgs now i b)"
| "serve save c now (ReqCreate image_ok ctx r orgs random token) =
     finish_with (CreateJobFor save image_ok c ctx r orgs random token now)"
| "serve save c now (ReqContinue image_ok ctx i neededAt ttl orgs random token) =
     finish_with (ContinueTraining save image_ok c ctx i neededAt ttl orgs random token now)"
| "serve save c now (ReqStop ctx i random) = finish_with (StopJob save ctx i random now)"
| "serve save c now (ReqSchedule ctx pass1 orgs pass2) =
     finish_with (ScheduleOnce save c ctx pass1 orgs now pass2)"
| "serve save c now (ReqReconcile ctx inp) = finish_with (Reconcile save c ctx now inp)"
| "serve save c now (ReqBeginOutput i token kind step bytes random) =
     finish_with (beginOutput save c i token kind step bytes random now)"
| "serve save c now (ReqFinishOutput i kind step up r ended) =
     finish_with (finishOutput save i kind step up r ended now)"

inductive app_reachable :: "ControlPlane \<Rightarrow> Durable \<Rightarrow> bool" for c :: ControlPlane where
  start: "Open NoFile (cp_offlineAfter c) = Inr d \<Longrightarrow> app_reachable c d"
| request: "app_reachable c d \<Longrightarrow> app_reachable c (snd (serve save c now req d))"
| restart: "app_reachable c d \<Longrightarrow> Open (dur_file d) (cp_offlineAfter c) = Inr d' \<Longrightarrow> app_reachable c d'"

lemma serve_advances: "advances off (serve save c now req)"
  by (cases req) (simp_all only: serve.simps, (intro app_steps)+)

interpretation served: application_operation "serve save c now req" off for save c now req off
  by (rule meets_contract [OF serve_advances])

lemma app_reachable_reachable:
  assumes "app_reachable c d"
  shows "reachable (cp_offlineAfter c) d"
  using assms
proof induction
  case (start d)
  then show ?case by (rule reachable.boot)
next
  case (request d save now req)
  then show ?case by (intro served.stays_reachable)
next
  case (restart d d')
  then show ?case by (meson durable_step.restart reachable.step)
qed

text \<open>
  C2. The application refines the repository: whatever requests agents, users and the controller's
  tickers make, in any order, with any clock, any failing save and any restarts in between, the store
  is always in a state the repository can reach. So no request path ever double-allocates a GPU,
  breaks the invariant or loses history.
\<close>

theorem application_refines_repository:
  assumes "app_reachable c d"
  shows "reachable (cp_offlineAfter c) d \<and> inv (dur_core d) \<and>
    history (st_jobs (dur_core d)) (st_jobs (dur_core (snd (serve save c now req d))))"
  using app_reachable_reachable [OF assms] served.jobs_evolve reachable_inv by blast

end
