(* ===== verification/Controller_Laws.thy ===== *)
theory Controller_Laws
  imports Application_Protocol
begin

text \<open>
  What one pass of the execution controller (\<open>processReservations\<close> in
  \<open>internal/application/planning.go\<close>) does to the jobs: it ends what is over and dispatches only what
  is due. The pass handles the jobs one after the other, so the proofs need two things: handling one
  job leaves the others alone, and what handling a job does to that job. Both are instances of one
  interface, \<open>controller_step\<close>.
\<close>

section \<open>Properties kept by a handler\<close>

text \<open>\<open>m\<close> keeps \<open>P\<close> of the store, whatever it returns, and its results satisfy \<open>Q\<close>.\<close>

definition keeps :: "duration \<Rightarrow> (Store \<Rightarrow> bool) \<Rightarrow> 'a app \<Rightarrow> ('a \<Rightarrow> bool) \<Rightarrow> bool" where
  "keeps off P m Q \<longleftrightarrow> advances off m \<and> (\<forall>d. reachable off d \<longrightarrow> P (dur_core d) \<longrightarrow>
     P (dur_core (snd (m d))) \<and> (\<forall>v. fst (m d) = Inr v \<longrightarrow> Q v))"

named_theorems keep_rules \<open>composition of handlers that keep a property\<close>

lemma keepsI:
  assumes "advances off m" and "\<And>d r d'. reachable off d \<Longrightarrow> P (dur_core d) \<Longrightarrow> m d = (r, d') \<Longrightarrow>
    P (dur_core d') \<and> (\<forall>v. r = Inr v \<longrightarrow> Q v)"
  shows "keeps off P m Q"
  unfolding keeps_def using assms by (metis prod.collapse)

lemma keepsD:
  assumes "keeps off P m Q" and "reachable off d" and "P (dur_core d)" and "m d = (r, d')"
  shows "P (dur_core d')" "reachable off d'" "r = Inr v \<Longrightarrow> Q v"
  using assms advancesD [of off m d r d'] by (auto simp: keeps_def)

lemma keeps_pure [keep_rules]:
  "keeps off P (reply v) (\<lambda>_. True)" "keeps off P (fail e) (\<lambda>_. True)" "keeps off P (lift r) (\<lambda>_. True)"
  "keeps off P (peek fn) (\<lambda>_. True)"
  by (simp_all add: keeps_def)

lemma keeps_weaken: "keeps off P m Q \<Longrightarrow> (\<And>v. Q v \<Longrightarrow> R v) \<Longrightarrow> keeps off P m R"
  by (auto simp: keeps_def)

lemma keeps_andThen:
  assumes "keeps off P m Q" and "\<And>v. Q v \<Longrightarrow> keeps off P (f v) R"
    and "advances off (andThen m f)"
  shows "keeps off P (andThen m f) R"
proof (rule keepsI [OF assms(3)])
  fix d r d' assume d: "reachable off d" "P (dur_core d)" "andThen m f d = (r, d')"
  obtain r1 d1 where m: "m d = (r1, d1)" by (cases "m d")
  note k = keepsD [OF assms(1) d(1,2) m]
  show "P (dur_core d') \<and> (\<forall>v. r = Inr v \<longrightarrow> R v)"
  proof (cases r1)
    case (Inl e)
    with d(3) m k(1) show ?thesis by (auto simp: andThen_def)
  next
    case (Inr v)
    with d(3) m have "f v d1 = (r, d')" by (simp add: andThen_def)
    with keepsD [OF assms(2) [OF k(3) [OF Inr]] k(2,1)] show ?thesis by blast
  qed
qed

lemma keeps_then [keep_rules]:
  assumes "keeps off P m (\<lambda>_. True)" and "\<And>v. keeps off P (f v) R"
  shows "keeps off P (andThen m f) R"
  using assms by (intro keeps_andThen [where Q = "\<lambda>_. True"] advances_andThen) (simp_all add: keeps_def)

lemma keeps_on_conflict [keep_rules]:
  assumes "keeps off P m R" and "keeps off P h R"
  shows "keeps off P (on_conflict m h) R"
proof (rule keepsI)
  show "advances off (on_conflict m h)" using assms by (intro advances_on_conflict) (simp_all add: keeps_def)
  fix d r d' assume d: "reachable off d" "P (dur_core d)" "on_conflict m h d = (r, d')"
  obtain r1 d1 where m: "m d = (r1, d1)" by (cases "m d")
  note k = keepsD [OF assms(1) d(1,2) m]
  have "r = r1 \<and> d' = d1 \<or> h d1 = (r, d')"
    using d(3) m by (cases r1) (simp_all add: on_conflict_def split: if_splits)
  then consider "r = r1" "d' = d1" | "h d1 = (r, d')" by blast
  then show "P (dur_core d') \<and> (\<forall>v. r = Inr v \<longrightarrow> R v)"
  proof cases
    case 1
    with k(1,3) show ?thesis by simp
  next
    case 2
    from keepsD(1,3) [OF assms(2) k(2,1) 2] show ?thesis by simp
  qed
qed

lemma keeps_if [keep_rules]:
  "(b \<Longrightarrow> keeps off P m Q) \<Longrightarrow> (\<not> b \<Longrightarrow> keeps off P n Q) \<Longrightarrow> keeps off P (if b then m else n) Q"
  by simp

text \<open>A repository call: what it keeps of a good store, its transaction keeps.\<close>

lemma keeps_transact:
  assumes "advances off (transact save f)" and "\<And>s. inv s \<Longrightarrow> st_offlineAfter (snd (f s)) = st_offlineAfter s"
    and "\<And>s. inv s \<Longrightarrow> P s \<Longrightarrow> P (snd (f s))"
    and "\<And>s v s'. inv s \<Longrightarrow> P s \<Longrightarrow> f s = (Inr v, s') \<Longrightarrow> Q v"
  shows "keeps off P (transact save f) Q"
proof (rule keepsI [OF assms(1)])
  fix d :: Durable and r d'
  assume d: "reachable off d" "P (dur_core d)" "transact save f d = (r, d')"
  have s: "inv (dur_core d)" by (rule reachable_inv [OF d(1)])
  show "P (dur_core d') \<and> (\<forall>v. r = Inr v \<longrightarrow> Q v)"
    using assms(2) [OF s]
  proof (cases rule: transact_cases [where fn = f and d = d and save = save])
    case (rolled_back e)
    with d show ?thesis by auto
  next
    case (committed v core)
    with d assms(3,4) [OF s d(2)] show ?thesis by auto
  qed
qed

section \<open>One job of the pass\<close>

text \<open>The start of a job is due: it is planned, its window is open and its organisation may run jobs.\<close>

definition due :: "ControlPlane \<Rightarrow> (string, bool) gomap \<Rightarrow> gotime \<Rightarrow> Job \<Rightarrow> bool" where
  "due c enabled now job \<longleftrightarrow> job_Status job = JobAssigned \<and>
     (\<not> cp_hasMetadata c \<or> org_enabled enabled (job_OrganizationID job)) \<and>
     (case job_Assignment job of None \<Rightarrow> False
      | Some a \<Rightarrow> asg_ReservationState a = ''PLANNED'' \<and> win_Contains (asg_Window a) now)"

text \<open>
  A property of the store that the repository calls on job \<open>k\<close> keep; an assignment is committed only
  when the job, as the pass sees it, is due.
\<close>

locale controller_step =
  fixes c :: ControlPlane and enabled :: "(string, bool) gomap" and now :: gotime
    and P :: "Store \<Rightarrow> bool" and Q :: "Job \<Rightarrow> bool" and k :: string
  assumes status: "inv s \<Longrightarrow> P s \<Longrightarrow> P (snd (SetJobStatus k st r t s))"
    and stop: "inv s \<Longrightarrow> P s \<Longrightarrow> P (snd (RequestStop k cmd t s))"
    and training: "inv s \<Longrightarrow> P s \<Longrightarrow> P (snd (UpdateTraining k w tr t s))"
    and trained: "inv s \<Longrightarrow> P s \<Longrightarrow> UpdateTraining k w tr t s = (Inr j, s') \<Longrightarrow> Q j"
    and commit: "Q job \<Longrightarrow> due c enabled now job \<Longrightarrow> inv s \<Longrightarrow> P s \<Longrightarrow> P (snd (CommitAssignment k p cmd t s))"
    and subject: "Q job \<Longrightarrow> job_ID job = k"
begin

lemma keeps_status [keep_rules]: "keeps off P (transact save (SetJobStatus k st r t)) (\<lambda>_. True)"
  by (rule keeps_transact) (simp_all add: advances_calls set_status.timeout_kept status)

lemma keeps_stop [keep_rules]: "keeps off P (transact save (RequestStop k cmd t)) (\<lambda>_. True)"
  by (rule keeps_transact) (simp_all add: advances_calls request_stop.timeout_kept stop)

lemma keeps_training: "keeps off P (transact save (UpdateTraining k w tr t)) Q"
  by (rule keeps_transact) (simp_all add: advances_calls training.timeout_kept training trained)

lemma keeps_training' [keep_rules]: "keeps off P (transact save (UpdateTraining k w tr t)) (\<lambda>_. True)"
  by (rule keeps_weaken [OF keeps_training]) simp

lemma keeps_commit:
  "Q job \<Longrightarrow> due c enabled now job \<Longrightarrow> keeps off P (transact save (CommitAssignment k p cmd t)) (\<lambda>_. True)"
  by (rule keeps_transact) (simp_all add: advances_calls commit.timeout_kept commit)

lemma keeps_recover:
  assumes "Q job" shows "keeps off P (recoverTrainingUpload save c job now) Q"
proof -
  have "keeps off P (reply job) Q" using assms by (simp add: keeps_def)
  with keeps_training subject [OF assms] show ?thesis
    unfolding recoverTrainingUpload_def Let_def by (simp add: keeps_on_conflict)
qed

lemma keeps_visible [keep_rules]: "keeps off P (GetVisibleJob ctx i) (\<lambda>_. True)"
  unfolding GetVisibleJob_def by (intro keep_rules)

lemma keeps_end [keep_rules]: "Q job \<Longrightarrow> keeps off P (end_expired save ctx job random now) (\<lambda>_. True)"
  unfolding end_expired_def StopJob_def by (simp add: subject) (intro conjI impI keep_rules)

lemma keeps_start [keep_rules]:
  assumes "Q job" shows "keeps off P (start_if_due save c enabled job random now) (\<lambda>_. True)"
proof (cases "due c enabled now job")
  case True
  note commit_rule = keeps_commit [OF assms True]
  show ?thesis
    unfolding start_if_due_def activate_def subject [OF assms]
    by (cases "job_Assignment job") (simp_all add: keep_rules commit_rule)
next
  case False
  then have "start_if_due save c enabled job random now = reply ()"
    by (auto simp: start_if_due_def due_def split: option.split)
  then show ?thesis by (simp add: keep_rules)
qed

lemma keeps_process: "Q job \<Longrightarrow> keeps off P (process_job save c ctx enabled job random now) (\<lambda>_. True)"
  unfolding process_job_def
proof (rule keeps_andThen [OF keeps_recover])
  fix job' assume q: "Q job'"
  have "keeps off P (requestCheckpoint save c job' now) (\<lambda>_. True)"
    unfolding requestCheckpoint_def Let_def subject [OF q] by (intro keep_rules)
  with q show "keeps off P (control_job save c ctx enabled job' random now) (\<lambda>_. True)"
    unfolding control_job_def by (intro keep_rules)
qed (use process_job_advances [unfolded process_job_def] in simp_all)

end

section \<open>The other jobs\<close>

lemma finish_other:
  assumes "inv s" and "map_of (st_jobs s) k = Some j0" and "job_ID j = k" and "Terminal (job_Status j)" and "i \<noteq> k"
  shows "map_of (st_jobs (finish_job k j t s)) i = map_of (st_jobs s) i"
proof -
  obtain s' where r: "releaseLocked j t s = (released j t, s')" by (metis fst_releaseLocked prod.collapse)
  with release_step [of s j j0 t] assms show ?thesis by (simp add: finish_job_def del: Terminal.simps)
qed

definition same_job :: "string \<Rightarrow> Job option \<Rightarrow> Store \<Rightarrow> bool" where
  "same_job i x s \<longleftrightarrow> map_of (st_jobs s) i = x"

lemma SetJobStatus_other:
  assumes s: "inv s" and "i \<noteq> k"
  shows "map_of (st_jobs (snd (SetJobStatus k st r t s))) i = map_of (st_jobs s) i"
  using SetJobStatus_cases [OF s, of k st r t]
proof
  assume "\<exists>j0. map_of (st_jobs s) k = Some j0 \<and> \<not> Terminal (job_Status j0) \<and>
       snd (SetJobStatus k st r t s) = (let j = transitionLocked j0 st r t in
          if Terminal st then finish_job k j t s else s\<lparr>st_jobs := put k j (st_jobs s)\<rparr>)"
  then obtain j0 where j0: "map_of (st_jobs s) k = Some j0" "\<not> Terminal (job_Status j0)"
    and r: "snd (SetJobStatus k st r t s) = (let j = transitionLocked j0 st r t in
          if Terminal st then finish_job k j t s else s\<lparr>st_jobs := put k j (st_jobs s)\<rparr>)" by blast
  have "job_ID (transitionLocked j0 st r t) = k" using inv_job_ID [OF s j0(1)] by simp
  with finish_other [OF s j0(1) this _ assms(2), of t] j0(2) assms(2) show ?thesis
    by (simp add: r Let_def del: Terminal.simps)
qed simp

lemma RequestStop_other:
  assumes s: "inv s" and "i \<noteq> k"
  shows "map_of (st_jobs (snd (RequestStop k c t s))) i = map_of (st_jobs s) i"
  using s
proof (cases rule: RequestStop_cases [where jid = k and c = c and t = t])
  case unchanged
  then show ?thesis by simp
next
  case (queued j0)
  with assms(2) inv_job_ID [OF s queued(1)] show ?thesis by simp
next
  case (cancelled j0 r c')
  let ?j = "transitionLocked (j0\<lparr>job_TerminationReason := stop_reason j0 t\<rparr>) JobCancelled r t"
  have id: "job_ID ?j = k" using inv_job_ID [OF s cancelled(1)] by simp
  have T: "Terminal (job_Status ?j)" using cancelled(2) by (simp del: Terminal.simps) simp
  have "map_of (st_jobs (put_command c' s)) k = Some j0" using cancelled(1) by simp
  with finish_other [OF s cancelled(1) id T assms(2), of t]
    finish_other [OF inv_put_command [OF s, of c'] _ id T assms(2), of j0 t] cancelled(3)
  show ?thesis by auto
next
  case (stopping j0 c')
  with assms(2) inv_job_ID [OF s stopping(1)] show ?thesis by simp
qed

lemma UpdateTraining_other: "i \<noteq> k \<Longrightarrow> map_of (st_jobs (snd (UpdateTraining k w tr t s))) i = map_of (st_jobs s) i"
  by (auto simp: UpdateTraining_def Let_def split: option.split)

lemma CommitAssignment_other:
  assumes s: "inv s" and "i \<noteq> k"
  shows "map_of (st_jobs (snd (CommitAssignment k p c t s))) i = map_of (st_jobs s) i"
proof (cases rule: CommitAssignment_cases [of k p c t s])
  case (refused e)
  then show ?thesis by simp
next
  case (committed job server)
  then have "commit_guard job p c t" by (simp add: commit_checks_def)
  from committed_job_facts(1) [OF this] inv_job_ID [OF s committed(1)] committed(4) assms(2) show ?thesis
    by simp
qed

interpretation others: controller_step c enabled now "\<lambda>s. i \<noteq> k \<longrightarrow> same_job i x s" "\<lambda>j. job_ID j = k" k
  for c enabled now i x k
proof unfold_locales
  fix s s' :: Store and w tr t j
  assume "inv s" "UpdateTraining k w tr t s = (Inr j, s')"
  then show "job_ID j = k" by (auto elim!: UpdateTraining_Inr simp: inv_job_ID)
qed (simp_all add: same_job_def SetJobStatus_other RequestStop_other UpdateTraining_other CommitAssignment_other)

lemma process_job_others:
  assumes "reachable off d" and "process_job save c ctx enabled job random now d = (r, d')"
    and "i \<noteq> job_ID job"
  shows "map_of (st_jobs (dur_core d')) i = map_of (st_jobs (dur_core d)) i" "reachable off d'"
  using keepsD(1,2) [OF others.keeps_process [where k = "job_ID job" and i = i and
        x = "map_of (st_jobs (dur_core d)) i" and now = now] assms(1) _ assms(2)] assms(3)
  by (auto simp: same_job_def)

section \<open>Starting only what is due\<close>

text \<open>Not dispatched yet: no assignment, or a reservation of window \<open>w\<close> without a command.\<close>

definition waiting_job :: "string \<Rightarrow> TimeWindow \<Rightarrow> Job \<Rightarrow> bool" where
  "waiting_job org w j \<longleftrightarrow> job_OrganizationID j = org \<and>
     (case job_Assignment j of None \<Rightarrow> True | Some a \<Rightarrow> asg_CommandID a = '''' \<and> asg_Window a = w)"

definition waiting :: "string \<Rightarrow> string \<Rightarrow> TimeWindow \<Rightarrow> Store \<Rightarrow> bool" where
  "waiting k org w s \<longleftrightarrow> (case map_of (st_jobs s) k of None \<Rightarrow> True | Some j \<Rightarrow> waiting_job org w j)"

lemma waiting_transition [simp]: "waiting_job org w (transitionLocked j st r t) = waiting_job org w j"
  by (simp add: waiting_job_def)

lemma waiting_updates [simp]:
  "waiting_job org w (j\<lparr>job_TerminationReason := x\<rparr>) = waiting_job org w j"
  "waiting_job org w (j\<lparr>job_Training := y, job_UpdatedAt := t\<rparr>) = waiting_job org w j"
  by (simp_all add: waiting_job_def)

lemma waiting_released: "waiting_job org w j \<Longrightarrow> waiting_job org w (released j t)"
  by (auto simp: waiting_job_def released_def asg_Window_def split: option.splits)

lemma finish_at: "map_of (st_jobs (finish_job k j t s)) k = Some (released j t)"
proof -
  obtain s' where "releaseLocked j t s = (released j t, s')" by (metis fst_releaseLocked prod.collapse)
  then show ?thesis by (simp add: finish_job_def)
qed

lemma SetJobStatus_waiting:
  assumes s: "inv s" and w: "waiting k org w s"
  shows "waiting k org w (snd (SetJobStatus k st r t s))"
  using SetJobStatus_cases [OF s, of k st r t] w
  by (cases "Terminal st")
    (auto simp: waiting_def Let_def finish_at waiting_released split: option.splits simp del: Terminal.simps)

lemma RequestStop_waiting:
  assumes s: "inv s" and w: "waiting k org w s"
  shows "waiting k org w (snd (RequestStop k c t s))"
  using s
proof (cases rule: RequestStop_cases [where jid = k and c = c and t = t])
  case unchanged
  with w show ?thesis by simp
next
  case (queued j0)
  with w inv_job_ID [OF s queued(1)] show ?thesis by (simp add: waiting_def)
next
  case (cancelled j0 r c')
  with w show ?thesis by (auto simp: waiting_def finish_at waiting_released)
next
  case (stopping j0 c')
  with w inv_job_ID [OF s stopping(1)] show ?thesis by (simp add: waiting_def)
qed

lemma UpdateTraining_waiting:
  assumes "waiting k org w s"
  shows "waiting k org w (snd (UpdateTraining k v tr t s))"
    "UpdateTraining k v tr t s = (Inr j, s') \<Longrightarrow> waiting_job org w j"
  using assms by (auto simp: UpdateTraining_def Let_def waiting_def split: option.splits if_splits)

text \<open>The organisation may run jobs and the window is open.\<close>

definition may_start :: "ControlPlane \<Rightarrow> (string, bool) gomap \<Rightarrow> gotime \<Rightarrow> string \<Rightarrow> TimeWindow \<Rightarrow> bool" where
  "may_start c enabled now org w \<longleftrightarrow>
     win_Contains w now \<and> (\<not> cp_hasMetadata c \<or> org_enabled enabled org)"

interpretation waits: controller_step c enabled now "\<lambda>s. \<not> may_start c enabled now org w \<longrightarrow> waiting k org w s"
    "\<lambda>j. job_ID j = k \<and> (\<not> may_start c enabled now org w \<longrightarrow> waiting_job org w j)" k
  for c enabled now org w k
proof unfold_locales
  fix s s' :: Store and v tr t j
  assume s: "inv s" "\<not> may_start c enabled now org w \<longrightarrow> waiting k org w s"
    and u: "UpdateTraining k v tr t s = (Inr j, s')"
  then have "job_ID j = k" by (auto elim!: UpdateTraining_Inr simp: inv_job_ID)
  with s u UpdateTraining_waiting(2) show "job_ID j = k \<and> (\<not> may_start c enabled now org w \<longrightarrow> waiting_job org w j)"
    by blast
next
  fix s :: Store and job p cmd t
  assume j: "job_ID job = k \<and> (\<not> may_start c enabled now org w \<longrightarrow> waiting_job org w job)"
    and "due c enabled now job"
  then have "may_start c enabled now org w \<or> may_start c enabled now (job_OrganizationID job) (asg_Window (the (job_Assignment job)))
      \<and> job_Assignment job \<noteq> None"
    by (auto simp: due_def may_start_def split: option.splits)
  with j show "\<not> may_start c enabled now org w \<longrightarrow> waiting k org w (snd (CommitAssignment k p cmd t s))"
    by (auto simp: waiting_job_def split: option.splits)
qed (simp_all add: SetJobStatus_waiting RequestStop_waiting UpdateTraining_waiting)

lemma process_all_waiting:
  "reachable off d \<Longrightarrow> process_all save c ctx enabled inp jobs d = (r, d') \<Longrightarrow> waiting k org w (dur_core d) \<Longrightarrow>
   \<not> may_start c enabled (pin_clock inp k) org w \<Longrightarrow>
   \<forall>j \<in> set jobs. job_ID j = k \<longrightarrow> waiting_job org w j \<Longrightarrow> waiting k org w (dur_core d')"
proof (induction jobs arbitrary: d)
  case Nil
  then show ?case by simp
next
  case (Cons job jobs)
  let ?m = "process_job save c ctx enabled job (pin_random inp (job_ID job)) (pin_clock inp (job_ID job))"
  obtain r1 d1 where m: "?m d = (r1, d1)" by (cases "?m d")
  have "waiting k org w (dur_core d1) \<and> reachable off d1"
  proof (cases "job_ID job = k")
    case True
    have "keeps off (\<lambda>s. \<not> may_start c enabled (pin_clock inp k) org w \<longrightarrow> waiting k org w s) ?m (\<lambda>_. True)"
      unfolding True using Cons.prems(5) True by (intro waits.keeps_process) simp
    from keepsD(1,2) [OF this Cons.prems(1) _ m] Cons.prems(3,4) show ?thesis by blast
  next
    case False
    with process_job_others [OF Cons.prems(1) m, of k] Cons.prems(3) show ?thesis by (simp add: waiting_def)
  qed
  then show ?case
    using Cons.IH [of d1] Cons.prems m by (cases r1) (auto simp: andThen_def)
qed

text \<open>The jobs of a pass: those of the store the caller may see, each once.\<close>

definition pass_jobs :: "reqctx \<Rightarrow> Store \<Rightarrow> Job list" where
  "pass_jobs ctx s = sort_by (\<lambda>a b. job_ID a < job_ID b) (scopedJobs ctx (projr (fst (ListJobs s))))"

lemma pass_jobs_member:
  assumes "inv s"
  shows "j \<in> set (pass_jobs ctx s) \<longleftrightarrow> map_of (st_jobs s) (job_ID j) = Some j \<and> CanAccess ctx (job_OrganizationID j)"
proof -
  have "j \<in> snd ` set (st_jobs s) \<longleftrightarrow> map_of (st_jobs s) (job_ID j) = Some j"
  proof
    assume "j \<in> snd ` set (st_jobs s)"
    then have "j \<in> set (jobs_by_id s)" by (simp add: jobs_by_id_def)
    then show "map_of (st_jobs s) (job_ID j) = Some j" by (rule candidates_facts [OF assms])
  next
    assume "map_of (st_jobs s) (job_ID j) = Some j"
    then have "(job_ID j, j) \<in> set (st_jobs s)" by (rule map_of_SomeD)
    then show "j \<in> snd ` set (st_jobs s)" by force
  qed
  then show ?thesis by (auto simp: pass_jobs_def scopedJobs_def ListJobs_def)
qed

lemma pass_jobs_distinct:
  assumes "inv s" shows "distinct (map job_ID (pass_jobs ctx s))"
proof -
  have "mset (map job_ID (jobs_by_id s)) = mset (map job_ID (projr (fst (ListJobs s))))"
    by (simp add: jobs_by_id_def ListJobs_def)
  then have "distinct (map job_ID (projr (fst (ListJobs s))))"
    using jobs_by_id_distinct [OF assms] by (metis mset_eq_imp_distinct_iff)
  then have "distinct (map job_ID (scopedJobs ctx (projr (fst (ListJobs s)))))"
    unfolding scopedJobs_def by (rule distinct_map_filter)
  then show ?thesis unfolding pass_jobs_def distinct_map_sort_by .
qed

lemma processReservations_pass:
  "processReservations save c ctx inp d =
     (case enabledOrganizations (cp_hasMetadata c) (pin_orgs inp) of
        Inl e \<Rightarrow> (Inl e, d)
      | Inr enabled \<Rightarrow> process_all save c ctx enabled inp (pass_jobs ctx (dur_core d)) d)"
  by (simp add: processReservations_def andThen_def pass_jobs_def ListJobs_def split: sum.split)

text \<open>
  C3. The controller starts only what is due. If a job that was not dispatched has a start command
  after a pass, then it was planned, the reading of the clock for that job lies inside the window of
  its reservation, and its organisation was enabled when the platform has tenants. This holds also
  when the pass ends with an error.
\<close>

theorem controller_starts_only_due:
  assumes "reachable off d" and "map_of (st_jobs (dur_core d)) i = Some j"
    and "case job_Assignment j of None \<Rightarrow> True | Some a \<Rightarrow> asg_CommandID a = ''''"
    and "processReservations save c ctx inp d = (r, d')"
    and "map_of (st_jobs (dur_core d')) i = Some j'" and "job_Assignment j' = Some a'" and "asg_CommandID a' \<noteq> ''''"
  shows "\<exists>a. job_Assignment j = Some a \<and> win_Contains (asg_Window a) (pin_clock inp i) \<and>
    (cp_hasMetadata c \<longrightarrow> (\<exists>enabled. enabledOrganizations True (pin_orgs inp) = Inr enabled \<and>
       org_enabled enabled (job_OrganizationID j)))"
proof -
  define w where "w = (case job_Assignment j of None \<Rightarrow> zero_window | Some a \<Rightarrow> asg_Window a)"
  have wait: "waiting_job (job_OrganizationID j) w j"
    using assms(3) by (simp add: waiting_job_def w_def split: option.splits)
  have s: "inv (dur_core d)" by (rule reachable_inv [OF assms(1)])
  have moved: "\<not> waiting i (job_OrganizationID j) v (dur_core d')" for v
    using assms(5-7) by (simp add: waiting_def waiting_job_def)
  have was: "waiting i (job_OrganizationID j) v (dur_core d)" if "waiting_job (job_OrganizationID j) v j" for v
    using that assms(2) by (simp add: waiting_def)
  from assms(4) was [OF wait] moved obtain enabled
    where en: "enabledOrganizations (cp_hasMetadata c) (pin_orgs inp) = Inr enabled"
      and pass: "process_all save c ctx enabled inp (pass_jobs ctx (dur_core d)) d = (r, d')"
    by (auto simp: processReservations_pass split: sum.splits)
  have start: "may_start c enabled (pin_clock inp i) (job_OrganizationID j) v"
    if v: "waiting_job (job_OrganizationID j) v j" for v
  proof (rule ccontr)
    assume "\<not> may_start c enabled (pin_clock inp i) (job_OrganizationID j) v"
    moreover have "\<forall>x \<in> set (pass_jobs ctx (dur_core d)). job_ID x = i \<longrightarrow> waiting_job (job_OrganizationID j) v x"
      using v assms(2) by (auto simp: pass_jobs_member [OF s])
    ultimately show False using process_all_waiting [OF assms(1) pass was [OF v]] moved by blast
  qed
  have "job_Assignment j \<noteq> None"
  proof
    assume "job_Assignment j = None"
    then have "waiting_job (job_OrganizationID j) zero_window j" by (simp add: waiting_job_def)
    from start [OF this] show False by (simp add: may_start_def win_Contains_def)
  qed
  with start [OF wait] en show ?thesis by (auto simp: may_start_def w_def)
qed

section \<open>Ending what is over\<close>

definition settled :: "Job \<Rightarrow> bool" where
  "settled j \<longleftrightarrow> Terminal (job_Status j) \<or> job_Status j = JobStopping"

lemma RequestStop_settles:
  assumes "inv s" and "RequestStop k c t s = (Inr j, s')"
  shows "map_of (st_jobs s') k = Some j \<and> settled j"
proof -
  obtain j0 where j0: "map_of (st_jobs s) k = Some j0"
    using assms(2) by (auto simp: RequestStop_def split: option.splits)
  have id: "job_ID j0 = k" by (rule inv_job_ID [OF assms(1) j0])
  have live: "job_Status (transitionLocked (j0\<lparr>job_TerminationReason := x\<rparr>) st y t) = st"
    if "\<not> Terminal (job_Status j0)" for x st y
    using that by (simp del: Terminal.simps)
  show ?thesis
    using assms(2)
    by (auto simp: RequestStop_def Let_def finish_job_alt j0 id settled_def live finish_at
        split: if_splits option.splits simp del: Terminal.simps) (use j0 in simp_all)
qed

lemma SetJobStatus_fails:
  assumes "inv s" and "map_of (st_jobs s) k = Some j0" and "job_Status j0 = JobQueued"
    and "SetJobStatus k JobFailed r t s = (Inr j, s')"
  shows "map_of (st_jobs s') k = Some j \<and> settled j"
proof -
  obtain s2 where "releaseLocked (transitionLocked j0 JobFailed r t) t s = (released (transitionLocked j0 JobFailed r t) t, s2)"
    by (metis fst_releaseLocked prod.collapse)
  with assms(2-4) show ?thesis by (auto simp: SetJobStatus_def settled_def)
qed

lemma recover_Inr:
  assumes "reachable off d" and "map_of (st_jobs (dur_core d)) (job_ID job) = Some job"
    and "recoverTrainingUpload save c job now d = (Inr job', d')"
  shows "map_of (st_jobs (dur_core d')) (job_ID job) = Some job' \<and> job_ID job' = job_ID job \<and>
    job_Status job' = job_Status job \<and> controlled_window job' = controlled_window job \<and> reachable off d'"
proof -
  let ?t = "job_Training job"
  let ?u = "end_upload (failed_upload (tr_UploadKind ?t = ''checkpoint'') ?t)"
  let ?m = "transact save (UpdateTraining (job_ID job) (tr_Revision ?t) ?u now)"
  have "recoverTrainingUpload save c job now = reply job \<or>
      recoverTrainingUpload save c job now = on_conflict ?m (reply job)"
    by (simp add: recoverTrainingUpload_def Let_def)
  then have "reply job d = (Inr job', d') \<or> on_conflict ?m (reply job) d = (Inr job', d')"
    using assms(3) by metis
  then consider "job' = job" "d' = d" | "?m d = (Inr job', d')"
    | d1 where "?m d = (Inl ErrConflict, d1)" "job' = job" "d' = d1"
    unfolding on_conflict_Inr reply_simps prod.inject sum.inject by blast
  then show ?thesis
  proof cases
    case 1
    with assms show ?thesis by simp
  next
    case 2
    have "reachable off d'" using advancesD [of off ?m, OF _ assms(1) 2] advances_calls(10) by blast
    with transact_Inr [OF 2] assms(2) show ?thesis
      by (auto elim!: UpdateTraining_Inr simp: controlled_window_def RequestedWindow_def split: option.split)
  next
    case (3 d1)
    have "d1 = d"
      using training.timeout_kept [OF reachable_inv [OF assms(1)], of "job_ID job" "tr_Revision ?t" ?u now]
      by (rule transact_cases [where save = save]) (use 3(1) in auto)
    with 3 assms show ?thesis by simp
  qed
qed

text \<open>The window that decides about the job is over.\<close>

definition over :: "gotime \<Rightarrow> Job \<Rightarrow> bool" where
  "over now j \<longleftrightarrow> win_Valid (controlled_window j) \<and> win_EndAt (controlled_window j) \<le> now"

definition settled_at :: "string \<Rightarrow> Store \<Rightarrow> bool" where
  "settled_at k s \<longleftrightarrow> (\<exists>j. map_of (st_jobs s) k = Some j \<and> settled j)"

lemma process_job_settles:
  assumes "reachable off d" and "map_of (st_jobs (dur_core d)) (job_ID job) = Some job" and "over now job"
    and "process_job save c ctx enabled job random now d = (Inr u, d')"
  shows "settled_at (job_ID job) (dur_core d')"
proof -
  obtain job' d1 where rec: "recoverTrainingUpload save c job now d = (Inr job', d1)"
    and run: "control_job save c ctx enabled job' random now d1 = (Inr u, d')"
    using assms(4) by (auto simp: process_job_def andThen_Inr)
  note r = recover_Inr [OF assms(1,2) rec]
  have s: "inv (dur_core d1)" using r reachable_inv by blast
  have o: "win_Valid (controlled_window job')" "\<not> now < win_EndAt (controlled_window job')"
    using assms(3) r by (simp_all add: over_def)
  show ?thesis
  proof (cases "Terminal (job_Status job')")
    case True
    with run r show ?thesis by (auto simp: control_job_def settled_at_def settled_def)
  next
    case False
    with run o have "end_expired save ctx job' random now d1 = (Inr u, d')" by (simp add: control_job_def)
    then obtain j where "(job_Status job' = JobQueued \<and> SetJobStatus (job_ID job') JobFailed msg_window_expired_unallocated
          now (dur_core d1) = (Inr j, dur_core d')) \<or>
        (\<exists>cmd. RequestStop (job_ID job') cmd now (dur_core d1) = (Inr j, dur_core d'))"
      by (auto simp: end_expired_def StopJob_def andThen_Inr GetVisibleJob_Inr dest!: transact_Inr split: if_splits)
    then have "map_of (st_jobs (dur_core d')) (job_ID job') = Some j \<and> settled j"
      using SetJobStatus_fails [OF s] RequestStop_settles [OF s] r by metis
    with r show ?thesis by (auto simp: settled_at_def)
  qed
qed

lemma process_all_settles:
  "process_all save c ctx enabled inp jobs d = (Inr u, d') \<Longrightarrow> reachable off d \<Longrightarrow>
   distinct (map job_ID jobs) \<Longrightarrow> \<forall>x \<in> set jobs. map_of (st_jobs (dur_core d)) (job_ID x) = Some x \<Longrightarrow>
   (settled_at k (dur_core d) \<and> k \<notin> job_ID ` set jobs) \<or>
     (\<exists>x \<in> set jobs. job_ID x = k \<and> over (pin_clock inp k) x) \<Longrightarrow>
   settled_at k (dur_core d')"
proof (induction jobs arbitrary: d)
  case Nil
  then show ?case by auto
next
  case (Cons job jobs)
  let ?m = "process_job save c ctx enabled job (pin_random inp (job_ID job)) (pin_clock inp (job_ID job))"
  obtain v d1 where m: "?m d = (Inr v, d1)" and rest: "process_all save c ctx enabled inp jobs d1 = (Inr u, d')"
    using Cons.prems(1) by (auto simp: andThen_Inr)
  have d1: "reachable off d1" using controller.stays_reachable [OF Cons.prems(2)] m by (metis snd_conv)
  have same: "map_of (st_jobs (dur_core d1)) i = map_of (st_jobs (dur_core d)) i" if "i \<noteq> job_ID job" for i
    by (rule process_job_others(1) [OF Cons.prems(2) m that])
  have later: "\<forall>x \<in> set jobs. map_of (st_jobs (dur_core d1)) (job_ID x) = Some x"
  proof
    fix x assume x: "x \<in> set jobs"
    with Cons.prems(3) have "job_ID x \<noteq> job_ID job" by (auto simp: image_iff)
    with same Cons.prems(4) x show "map_of (st_jobs (dur_core d1)) (job_ID x) = Some x" by simp
  qed
  have "(settled_at k (dur_core d1) \<and> k \<notin> job_ID ` set jobs) \<or>
     (\<exists>x \<in> set jobs. job_ID x = k \<and> over (pin_clock inp k) x)"
  proof (cases "job_ID job = k")
    case True
    with Cons.prems(3) have "k \<notin> job_ID ` set jobs" by auto
    moreover from this Cons.prems(5) True have "over (pin_clock inp k) job" by (auto simp: image_iff)
    with process_job_settles [OF Cons.prems(2) _ _ m] Cons.prems(4) True have "settled_at k (dur_core d1)" by auto
    ultimately show ?thesis by blast
  next
    case False
    with Cons.prems(5) same [of k] show ?thesis by (auto simp: settled_at_def)
  qed
  from Cons.IH [OF rest d1 _ later this] Cons.prems(3) show ?case by simp
qed

text \<open>
  C4. A reservation ends. After a pass that reports success every job the pass may see, and whose
  window (that of its reservation, or the one it asked for) is valid and over at the reading of the
  clock for it, is finished or asked to stop; none keeps running past its window unnoticed.
\<close>

theorem controller_ends_what_is_over:
  assumes "reachable off d" and "map_of (st_jobs (dur_core d)) i = Some j"
    and "CanAccess ctx (job_OrganizationID j)" and "win_Valid (controlled_window j)"
    and "win_EndAt (controlled_window j) \<le> pin_clock inp i"
    and "processReservations save c ctx inp d = (Inr u, d')"
  shows "\<exists>j'. map_of (st_jobs (dur_core d')) i = Some j' \<and>
    (Terminal (job_Status j') \<or> job_Status j' = JobStopping)"
proof -
  have s: "inv (dur_core d)" by (rule reachable_inv [OF assms(1)])
  have id: "job_ID j = i" by (rule inv_job_ID [OF s assms(2)])
  obtain enabled where "process_all save c ctx enabled inp (pass_jobs ctx (dur_core d)) d = (Inr u, d')"
    using assms(6) by (auto simp: processReservations_pass split: sum.splits)
  moreover have "j \<in> set (pass_jobs ctx (dur_core d))"
    using assms(2,3) id by (simp add: pass_jobs_member [OF s])
  moreover have "over (pin_clock inp i) j" using assms(4,5) by (simp add: over_def)
  ultimately have "settled_at i (dur_core d')"
    using process_all_settles [OF _ assms(1) pass_jobs_distinct [OF s], of save c ctx enabled inp _ u d' i]
      pass_jobs_member [OF s] id by blast
  then show ?thesis by (simp only: settled_at_def settled_def)
qed

end
