(* ===== verification/Application_Samples.thy ===== *)
theory Application_Samples
  imports Samples Controller_Laws
begin

text \<open>
  A run of the application for the witnesses: an agent enrols and reports two GPUs, a user asks for a
  training window an hour later, the scheduler reserves a GPU, the controller starts the job when
  its window opens, and the job begins to upload a checkpoint.
\<close>

section \<open>Values\<close>

definition no_error :: "Snapshot \<Rightarrow> go_error option" where
  "no_error s = None"

definition object_store :: ObjectStore where
  "object_store = \<lparr>obj_Put = (\<lambda>key body size. Inr (''s3://'' @ key)), obj_DownloadURL = (\<lambda>uri t. Inr (''https://'' @ uri))\<rparr>"

definition app_cp :: ControlPlane where
  "app_cp = New_ControlPlane (sample_options\<lparr>opt_ObjectStore := Some object_store, opt_hasMetadata := True\<rparr>)"

definition org1 :: Organization where
  "org1 = \<lparr>org_ID = ''org1'', org_Code = ''o'', org_Name = ''Lab'', org_Enabled = True, org_CreatedAt = t0,
     org_UpdatedAt = t0\<rparr>"

definition orgs1 :: "go_error + Organization list" where
  "orgs1 = Inr [org1]"

definition user1 :: reqctx where
  "user1 = Some \<lparr>prn_User = \<lparr>usr_ID = ''u1'', usr_Username = ''u'', usr_PasswordHash = '''',
     usr_Role = RoleOrganizationUser, usr_OrganizationID = ''org1'', usr_Enabled = True\<rparr>,
     prn_Organization = org1, prn_ScopeOrganizationID = ''org1''\<rparr>"

definition enrol :: "string \<Rightarrow> string \<Rightarrow> gotime \<Rightarrow> go_error + ServerOwnership" where
  "enrol hash machine t = Inr \<lparr>own_ServerID = ''srv1'', own_MachineID = machine, own_OrganizationID = ''org1'',
     own_DisplayName = ''gpu-a'', own_Labels = []\<rparr>"

definition register_request :: RegisterRequest where
  "register_request = \<lparr>reg_ProtocolVersion = ''v1'', reg_MachineID = ''m1'', reg_Name = ''gpu-a'',
     reg_Address = '''', reg_AgentVersion = ''1.0'', reg_Labels = [], reg_CapabilityReport = Some sample_caps,
     reg_Capabilities = []\<rparr>"

definition wire_gpu :: "string \<Rightarrow> WireGPU" where
  "wire_gpu u = \<lparr>wg_UUID = u, wg_Index = 0, wg_Model = ''NVIDIA L40S'', wg_MemoryTotalMiB = 46068,
     wg_MemoryUsedMiB = 0, wg_UtilizationPct = 0, wg_TemperatureC = 40, wg_Healthy = True, wg_State = ''''\<rparr>"

definition host_report :: "64 word \<Rightarrow> gotime \<Rightarrow> WireReport" where
  "host_report n t = \<lparr>wr_Capabilities = Some sample_caps, wr_Host = zero_host, wr_Sequence = n,
     wr_ObservedAt = t, wr_DockerVersion = ''27.0'', wr_GPUs = [wire_gpu ''GPU-1'', wire_gpu ''GPU-2''],
     wr_Containers = [], wr_Processes = []\<rparr>"

definition train_request :: CreateJobRequest where
  "train_request = \<lparr>crq_ResumeFromJobID = '''',
     crq_Intent = \<lparr>in_WorkloadType = WorkloadTraining, in_NecessityLevel = Necessity2,
       in_NecessityReason = ''CUSTOM'', in_NecessityExplanation = ''paper'',
       in_SystemImportance = ImportanceNormal, in_NeededAt = ''2026-05-01T09:00:00Z'', in_TTLSeconds = 3600\<rparr>,
     crq_Name = ''train'', crq_Image = ''img:1'', crq_Backend = '''', crq_Command = [''python''],
     crq_Environment = [(''LR'', ''0.1'')],
     crq_Resources = \<lparr>ar_GPUCount = 1, ar_MinVRAMMiB = 16000, ar_PerformanceProfile = ''AUTO'',
       ar_FP8Required = Some False, ar_CPUMilli = 1000, ar_MemoryMiB = 1024, ar_AllowSharedGPU = False\<rparr>\<rparr>"

definition pass_at :: "gotime \<Rightarrow> string \<Rightarrow> PassInput" where
  "pass_at t tok = \<lparr>pin_orgs = orgs1, pin_random = (\<lambda>i. Inr tok), pin_clock = (\<lambda>i. t)\<rparr>"

section \<open>The run\<close>

definition serve_all :: "(gotime \<times> app_request) list \<Rightarrow> Durable \<Rightarrow> Durable" where
  "serve_all rs d = foldl (\<lambda>d (t, r). snd (serve no_error app_cp t r d)) d rs"

definition d_new :: Durable where
  "d_new = serve_all
     [(t0, ReqRegister (\<lambda>s. ''#'' @ s) ''enroll'' register_request (Inr ''a1'') (Inr ''token'') enrol),
      (t0, ReqReport ''srv1'' (host_report 1 t0))]
     \<lparr>dur_core = New_Store (cp_offlineAfter app_cp), dur_file = NoFile\<rparr>"

definition create_run :: "(go_error + Job) \<times> Durable" where
  "create_run = CreateJobFor no_error (\<lambda>s. True) app_cp user1 train_request orgs1 (Inr ''b1'') (Inr ''secret'') t0 d_new"

text \<open>Reserved, and an hour later the host reports again.\<close>

definition d_planned :: Durable where
  "d_planned = serve_all
     [(t0, ReqCreate (\<lambda>s. True) user1 train_request orgs1 (Inr ''b1'') (Inr ''secret'')),
      (t0, ReqSchedule None (pass_at t0 ''c1'') orgs1 (pass_at t0 ''c2'')),
      (t0 + Hour, ReqReport ''srv1'' (host_report 2 (t0 + Hour)))] d_new"

definition start_run :: "(go_error + unit) \<times> Durable" where
  "start_run = processReservations no_error app_cp None (pass_at (t0 + Hour) ''c3'') d_planned"

definition begin_run :: "(go_error + Upload) \<times> Durable" where
  "begin_run = beginOutput no_error app_cp ''job_b1'' ''secret'' ''checkpoint'' 7 1000 (Inr ''u1'')
     (t0 + Hour + Minute) (snd start_run)"

definition finish_run :: "(go_error + TrainingState) \<times> Durable" where
  "finish_run = finishOutput no_error ''job_b1'' ''checkpoint'' 7 (projr (fst begin_run)) (Inr ''s3://ck'') False
     (t0 + Hour + 2 * Minute) (snd begin_run)"

definition end_run :: "(go_error + unit) \<times> Durable" where
  "end_run = processReservations no_error app_cp None (pass_at (t0 + 2 * Hour) ''c4'') (snd start_run)"

section \<open>The run is legal\<close>

lemma serve_all_reachable: "app_reachable app_cp d \<Longrightarrow> app_reachable app_cp (serve_all rs d)"
proof (induction rs arbitrary: d)
  case Nil
  then show ?case by (simp add: serve_all_def)
next
  case (Cons r rs)
  from app_reachable.request [OF Cons.prems, of no_error "fst r" "snd r"] Cons.IH show ?case
    by (simp add: serve_all_def case_prod_beta)
qed

lemma new_app: "app_reachable app_cp d_new"
  unfolding d_new_def by (intro serve_all_reachable app_reachable.start) (simp add: Open_def)

end
