(* ===== verification/Application_Witnesses.thy ===== *)
theory Application_Witnesses
  imports Application_Samples
begin

text \<open>
  The properties of the application applied to the run of \<open>Application_Samples\<close>: its states are
  reachable and every hypothesis holds there.
\<close>

section \<open>The run is legal\<close>

lemma planned_app: "app_reachable app_cp d_planned"
  unfolding d_planned_def by (intro serve_all_reachable new_app)

lemmas planned_reachable = app_reachable_reachable [OF planned_app]

lemma started_reachable: "reachable (cp_offlineAfter app_cp) (snd start_run)"
  unfolding start_run_def
  using planned_reachable processReservations_advances advancesD by (metis prod.collapse)

definition job1 :: "Durable \<Rightarrow> Job" where
  "job1 d = job_at d ''job_b1''"

definition asg1 :: "Durable \<Rightarrow> Assignment" where
  "asg1 d = the (job_Assignment (job1 d))"

section \<open>What the run computed\<close>

definition start_facts :: "Durable \<Rightarrow> Durable \<Rightarrow> bool" where
  "start_facts d d' \<longleftrightarrow> has_job d ''job_b1'' \<and> has_job d' ''job_b1'' \<and> job_Assignment (job1 d) \<noteq> None \<and>
     asg_CommandID (asg1 d) = '''' \<and> job_Assignment (job1 d') \<noteq> None \<and> asg_CommandID (asg1 d') \<noteq> '''' \<and>
     win_Valid (controlled_window (job1 d')) \<and> win_EndAt (controlled_window (job1 d')) \<le> t0 + 2 * Hour"

lemma start_facts: "start_facts d_planned (snd start_run)"
  by code_simp

lemmas start_facts' = start_facts [unfolded start_facts_def]

definition upload_facts :: "(go_error + Upload) \<times> Durable \<Rightarrow> (go_error + TrainingState) \<times> Durable \<Rightarrow> bool" where
  "upload_facts b f \<longleftrightarrow> \<not> isl (fst b) \<and> \<not> isl (fst f)"

lemma upload_facts: "upload_facts begin_run finish_run"
  by code_simp

lemmas upload_facts' = upload_facts [unfolded upload_facts_def]

lemma create_ok: "\<not> isl (fst create_run)"
  by code_simp

lemma end_ok: "\<not> isl (fst end_run)"
  by code_simp

lemma session_ok: "\<not> isl (fst (TrainingSession app_cp ''job_b1'' ''secret'' (t0 + Hour + Minute) (snd start_run)))"
  by code_simp

section \<open>Witnesses\<close>

lemma created_job_is_sound_witness:
  "map_of (st_jobs (dur_core d_new)) (job_ID (projr (fst create_run))) = None \<and>
   job_Status (projr (fst create_run)) = JobQueued"
proof -
  have "CreateJobFor no_error (\<lambda>s. True) app_cp user1 train_request orgs1 (Inr ''b1'') (Inr ''secret'') t0 d_new
      = (Inr (projr (fst create_run)), snd create_run)"
    unfolding create_run_def by (rule outcome_Inr) (use create_ok in \<open>simp add: create_run_def\<close>)
  from created_job_is_sound [OF this] show ?thesis by blast
qed

lemma application_refines_repository_witness:
  "reachable (cp_offlineAfter app_cp) d_planned \<and> inv (dur_core d_planned)"
  using application_refines_repository [OF planned_app] by blast

lemma controller_starts_only_due_witness:
  "win_Contains (asg_Window (asg1 d_planned)) (t0 + Hour)"
proof -
  have "processReservations no_error app_cp None (pass_at (t0 + Hour) ''c3'') d_planned = (fst start_run, snd start_run)"
    by (simp add: start_run_def)
  from controller_starts_only_due [OF planned_reachable job_at_lookup _ this job_at_lookup, of "''job_b1''" "asg1 (snd start_run)"]
    start_facts' show ?thesis
    by (auto simp: job1_def asg1_def pass_at_def)
qed

lemma controller_ends_what_is_over_witness:
  "\<exists>j'. map_of (st_jobs (dur_core (snd end_run))) ''job_b1'' = Some j' \<and>
     (Terminal (job_Status j') \<or> job_Status j' = JobStopping)"
proof -
  have "processReservations no_error app_cp None (pass_at (t0 + 2 * Hour) ''c4'') (snd start_run)
      = (Inr (projr (fst end_run)), snd end_run)"
    unfolding end_run_def by (rule outcome_Inr) (use end_ok in \<open>simp add: end_run_def\<close>)
  from controller_ends_what_is_over [OF started_reachable job_at_lookup _ _ _ this] start_facts'
  show ?thesis by (simp add: job1_def pass_at_def CanAccess_def)
qed

lemma training_session_bounded_witness: "t0 + Hour + Minute < win_EndAt (RequestedWindow (job1 (snd start_run))) + 30 * Second"
proof -
  let ?r = "TrainingSession app_cp ''job_b1'' ''secret'' (t0 + Hour + Minute) (snd start_run)"
  have "?r = (Inr (projr (fst ?r)), snd ?r)" by (rule outcome_Inr) (rule session_ok)
  from training_session_bounded [OF this] show ?thesis
    using job_at_lookup [of "snd start_run" "''job_b1''"] start_facts' by (simp add: job1_def)
qed

lemma begin_Inr: "beginOutput no_error app_cp ''job_b1'' ''secret'' ''checkpoint'' 7 1000 (Inr ''u1'')
     (t0 + Hour + Minute) (snd start_run) = (Inr (projr (fst begin_run)), snd begin_run)"
  unfolding begin_run_def by (rule outcome_Inr) (use upload_facts' in \<open>simp add: begin_run_def\<close>)

lemma one_upload_at_a_time_witness:
  "snd (beginOutput no_error app_cp ''job_b1'' ''secret'' ''artifact'' 8 1000 (Inr ''u2'')
     (t0 + Hour + 2 * Minute) (snd begin_run)) = snd begin_run"
  using one_upload_at_a_time [OF begin_Inr, of "t0 + Hour + 2 * Minute"]
  by (auto simp: app_cp_def New_ControlPlane_def sample_options_def Sub_def withDefaults_def
      DefaultTrainingOptions_def Let_def)

lemma publishing_never_loses_output_witness:
  "\<exists>j'. map_of (st_jobs (dur_core (snd finish_run))) ''job_b1'' = Some j' \<and>
     checkpoint_of (job_Training j') = (''s3://ck'', t0 + Hour + 2 * Minute, 7)"
proof -
  have run: "finishOutput no_error ''job_b1'' ''checkpoint'' 7 (projr (fst begin_run)) (Inr ''s3://ck'') False
     (t0 + Hour + 2 * Minute) (snd begin_run) = (Inr (projr (fst finish_run)), snd finish_run)"
    unfolding finish_run_def by (rule outcome_Inr) (use upload_facts' in \<open>simp add: finish_run_def\<close>)
  have stays: "(durable_step (cp_offlineAfter app_cp) ^^ 0) (snd begin_run) (snd begin_run)" by simp
  have "\<exists>j'. map_of (st_jobs (dur_core (snd finish_run))) ''job_b1'' = Some j' \<and>
      projr (fst finish_run) = job_Training j' \<and>
      checkpoint_of (projr (fst finish_run)) = (''s3://ck'', t0 + Hour + 2 * Minute, 7)"
    using publishing_never_loses_output [OF started_reachable begin_Inr stays _ run]
    by (simp only: simp_thms if_True sum.case) auto
  then show ?thesis by auto
qed

end
