(* ===== verification/Docker_Engine.thy ===== *)
theory Docker_Engine
  imports Agent_Protocol
begin

text \<open>
  \<open>internal/agent/dockerengine/engine.go\<close>, the adapter that reads and runs containers through the
  Docker Engine API, and the types of \<open>internal/agent/contracts.go\<close>. The client library and the
  daemon behind it are parameters: \<open>docker_api\<close> holds the calls the adapter makes, each a function of
  a state of the outside world that the model leaves open. The adapter's own part is modelled in full:
  which containers it inspects, how it reads GPU grants from their configuration, and which calls
  that change containers it makes. Those calls are recorded in a log, in order.
\<close>

section \<open>Errors of the agent\<close>

datatype agent_error =
    AgentUnauthorized | UnsafeGPU string | LegacyTarget | LocalState agent_error
  | Wrapped string agent_error | Joined agent_error agent_error | AgentError string

text \<open>\<open>err.Error()\<close>; \<open>Wrapped p e\<close> is \<open>fmt.Errorf("p: %w", e)\<close>.\<close>

fun error_text :: "agent_error \<Rightarrow> string" where
  "error_text AgentUnauthorized = ''agent authentication rejected''"
| "error_text (UnsafeGPU d) = ''requested GPU is not safely available: '' @ d"
| "error_text LegacyTarget = ''refusing to control a legacy container''"
| "error_text (LocalState e) = ''agent local state persistence failed: '' @ error_text e"
| "error_text (Wrapped p e) = p @ '': '' @ error_text e"
| "error_text (Joined e f) = error_text e @ [CHR 0x0A] @ error_text f"
| "error_text (AgentError m) = m"

section \<open>Strings\<close>

text \<open>\<open>strings.Cut(s, "=")\<close>\<close>

definition cut_eq :: "string \<Rightarrow> (string \<times> string) option" where
  "cut_eq s = (let k = takeWhile (\<lambda>c. c \<noteq> CHR ''='') s in
     if length k = length s then None else Some (k, drop (length k + 1) s))"

text \<open>\<open>%q\<close> of a string without characters to escape.\<close>

definition quoted :: "string \<Rightarrow> string" where
  "quoted s = [CHR 0x22] @ s @ [CHR 0x22]"

section \<open>Containers as the agent sees them\<close>

record RuntimeContainer =
  rtc_ID :: string
  rtc_Name :: string
  rtc_Image :: string
  rtc_State :: string
  rtc_Labels :: labels
  rtc_GPUUUIDs :: "string list"
  rtc_GPUIndexes :: "int list"
  rtc_UnboundedGPUAccess :: bool
  rtc_InitPID :: int
  rtc_StartedAt :: "gotime option"
  rtc_FinishedAt :: "gotime option"
  rtc_ExitCode :: "int option"

definition activeState :: "string \<Rightarrow> bool" where
  "activeState state \<longleftrightarrow> state = ''running'' \<or> state = ''paused'' \<or> state = ''restarting''"

definition ManagedLabel :: string where "ManagedLabel = ''aiwm.managed''"
definition JobIDLabel :: string where "JobIDLabel = ''aiwm.job-id''"

text \<open>The label test of \<open>StartManagedContainer\<close> and \<open>StopManagedJob\<close>.\<close>

definition managed_label :: "labels \<Rightarrow> bool" where
  "managed_label ls \<longleftrightarrow> EqualFold (label_get ls ManagedLabel) ''true''"

definition managed_for :: "string \<Rightarrow> RuntimeContainer \<Rightarrow> bool" where
  "managed_for jobID item \<longleftrightarrow> managed_label (rtc_Labels item) \<and> label_get (rtc_Labels item) JobIDLabel = jobID"

section \<open>The Docker API\<close>

text \<open>The fields of the API's answers that the adapter reads.\<close>

record ContainerSummary =
  sum_ID :: string
  sum_Names :: "string list"
  sum_Image :: string
  sum_State :: string
  sum_Labels :: labels

record DeviceRequest =
  dev_Driver :: string
  dev_DeviceIDs :: "string list"
  dev_Count :: int

record InspectConfig =
  icf_Image :: string
  icf_Labels :: labels
  icf_Env :: "string list"

record InspectState =
  ist_Status :: string
  ist_Pid :: int
  ist_ExitCode :: int
  ist_StartedAt :: string
  ist_FinishedAt :: string

record InspectResponse =
  ins_ID :: string
  ins_Name :: string
  ins_Config :: "InspectConfig option"
  ins_State :: "InspectState option"
  ins_DeviceRequests :: "DeviceRequest list option"

record CreateOptions =
  cop_Name :: string
  cop_Image :: string
  cop_Cmd :: "string list"
  cop_Env :: "string list"
  cop_Labels :: labels
  cop_NanoCPUs :: "64 word"
  cop_Memory :: "64 word"
  cop_DeviceIDs :: "string list"

datatype image_status = ImagePresent | ImageNotFound | ImageFailed agent_error

record RuntimeCompatibility =
  rtm_Version :: string
  rtm_APIVersion :: string
  rtm_OS :: string
  rtm_NVIDIARuntime :: bool

text \<open>\<open>api_ImagePull\<close> is the pull request followed by \<open>pull.Wait\<close>.\<close>

record 'w docker_api =
  api_ContainerList :: "'w \<Rightarrow> (agent_error + ContainerSummary list) \<times> 'w"
  api_ContainerInspect :: "string \<Rightarrow> 'w \<Rightarrow> (agent_error + InspectResponse) \<times> 'w"
  api_ImageInspect :: "string \<Rightarrow> 'w \<Rightarrow> image_status \<times> 'w"
  api_ImagePull :: "string \<Rightarrow> 'w \<Rightarrow> (agent_error + unit) \<times> 'w"
  api_ContainerCreate :: "CreateOptions \<Rightarrow> 'w \<Rightarrow> (agent_error + string) \<times> 'w"
  api_ContainerStart :: "string \<Rightarrow> 'w \<Rightarrow> (agent_error + unit) \<times> 'w"
  api_ContainerStop :: "string \<Rightarrow> int \<Rightarrow> 'w \<Rightarrow> (agent_error + unit) \<times> 'w"
  api_ContainerRemove :: "string \<Rightarrow> 'w \<Rightarrow> (agent_error + unit) \<times> 'w"
  api_ServerVersion :: "'w \<Rightarrow> (agent_error + string \<times> string \<times> string) \<times> 'w"
  api_Runtimes :: "'w \<Rightarrow> (agent_error + string list) \<times> 'w"

text \<open>The calls that change what runs on the host; a creation is noted with the identifier the engine
  gave the container, if it created one.\<close>

datatype docker_call =
    Pulled string | Created CreateOptions "string option" | Started string | Stopped string int | Removed string

record 'w docker_state =
  dk_world :: 'w
  dk_calls :: "docker_call list"

type_synonym ('w, 'a) docker = "'w docker_state \<Rightarrow> (agent_error + 'a) \<times> 'w docker_state"

definition ask :: "('w \<Rightarrow> (agent_error + 'a) \<times> 'w) \<Rightarrow> ('w, 'a) docker" where
  "ask f st = (case f (dk_world st) of (r, w) \<Rightarrow> (r, st\<lparr>dk_world := w\<rparr>))"

definition invoke :: "docker_call \<Rightarrow> ('w \<Rightarrow> (agent_error + 'a) \<times> 'w) \<Rightarrow> ('w, 'a) docker" where
  "invoke c f st = (case f (dk_world st) of (r, w) \<Rightarrow> (r, st\<lparr>dk_world := w, dk_calls := dk_calls st @ [c]\<rparr>))"

section \<open>Reading containers\<close>

text \<open>A device named by UUID, by index, or by an alias that cannot be resolved.\<close>

definition grant_device :: "string \<Rightarrow> RuntimeContainer \<Rightarrow> RuntimeContainer" where
  "grant_device d r =
     (if HasPrefix d ''GPU-'' \<or> HasPrefix d ''MIG-'' then r\<lparr>rtc_GPUUUIDs := rtc_GPUUUIDs r @ [d]\<rparr>
      else case Atoi d of
        None \<Rightarrow> r\<lparr>rtc_UnboundedGPUAccess := True\<rparr>
      | Some i \<Rightarrow> if 0 \<le> i then r\<lparr>rtc_GPUIndexes := rtc_GPUIndexes r @ [i]\<rparr>
                  else r\<lparr>rtc_UnboundedGPUAccess := True\<rparr>)"

definition grant_request :: "DeviceRequest \<Rightarrow> RuntimeContainer \<Rightarrow> RuntimeContainer" where
  "grant_request q r =
     (if dev_Driver q \<noteq> '''' \<and> dev_Driver q \<noteq> ''nvidia'' then r
      else if dev_DeviceIDs q \<noteq> [] then fold grant_device (dev_DeviceIDs q) r
      else if dev_Count q \<noteq> 0 then r\<lparr>rtc_UnboundedGPUAccess := True\<rparr>
      else r)"

definition grant_env :: "string \<Rightarrow> RuntimeContainer \<Rightarrow> RuntimeContainer" where
  "grant_env entry r =
     (case cut_eq entry of
        None \<Rightarrow> r
      | Some (k, v) \<Rightarrow>
          if k \<noteq> ''NVIDIA_VISIBLE_DEVICES'' then r
          else (let mode = ToLower (TrimSpace v) in
            if mode \<in> {'''', ''none'', ''void''} then r
            else if mode = ''all''
            then (if rtc_GPUUUIDs r = [] \<and> rtc_GPUIndexes r = []
                  then r\<lparr>rtc_UnboundedGPUAccess := True\<rparr> else r)
            else fold grant_device (map TrimSpace (Split CHR '','' v)) r))"

fun unique_from :: "string list \<Rightarrow> string list \<Rightarrow> string list" where
  "unique_from seen [] = []"
| "unique_from seen (v # vs) =
     (if v \<noteq> '''' \<and> \<not> List.member seen v then v # unique_from (v # seen) vs else unique_from seen vs)"

definition unique :: "string list \<Rightarrow> string list" where
  "unique vs = unique_from [] vs"

definition parsed_time :: "string \<Rightarrow> gotime option \<Rightarrow> gotime option" where
  "parsed_time s old = (case parse_RFC3339 s of None \<Rightarrow> old | Some t \<Rightarrow> if IsZero t then old else Some t)"

definition fromInspect :: "InspectResponse \<Rightarrow> RuntimeContainer \<Rightarrow> RuntimeContainer" where
  "fromInspect i fallback =
     (let r0 = fallback\<lparr>rtc_ID := ins_ID i, rtc_Name := TrimPrefix (ins_Name i) ''/''\<rparr>;
          r1 = (case ins_Config i of None \<Rightarrow> r0
                | Some c \<Rightarrow> r0\<lparr>rtc_Image := icf_Image c, rtc_Labels := icf_Labels c\<rparr>);
          r2 = (case ins_State i of None \<Rightarrow> r1
                | Some s \<Rightarrow> r1\<lparr>rtc_State := ist_Status s, rtc_InitPID := ist_Pid s,
                    rtc_ExitCode := (if ist_Status s = ''exited'' \<or> ist_Status s = ''dead''
                                     then Some (ist_ExitCode s) else rtc_ExitCode r1),
                    rtc_FinishedAt := parsed_time (ist_FinishedAt s) (rtc_FinishedAt r1),
                    rtc_StartedAt := parsed_time (ist_StartedAt s) (rtc_StartedAt r1)\<rparr>);
          r3 = (case ins_DeviceRequests i of None \<Rightarrow> r2 | Some qs \<Rightarrow> fold grant_request qs r2);
          r4 = (case ins_Config i of None \<Rightarrow> r3 | Some c \<Rightarrow> fold grant_env (icf_Env c) r3)
      in r4\<lparr>rtc_GPUUUIDs := unique (rtc_GPUUUIDs r4)\<rparr>)"

definition firstName :: "string list \<Rightarrow> string" where
  "firstName vs = (case vs of [] \<Rightarrow> '''' | v # _ \<Rightarrow> TrimPrefix v ''/'')"

definition summarized :: "ContainerSummary \<Rightarrow> RuntimeContainer" where
  "summarized s = \<lparr>rtc_ID = sum_ID s, rtc_Name = firstName (sum_Names s), rtc_Image = sum_Image s,
     rtc_State = sum_State s, rtc_Labels = sum_Labels s, rtc_GPUUUIDs = [], rtc_GPUIndexes = [],
     rtc_UnboundedGPUAccess = False, rtc_InitPID = 0, rtc_StartedAt = None, rtc_FinishedAt = None,
     rtc_ExitCode = None\<rparr>"

text \<open>The loop of \<open>ListContainers\<close>: running and managed containers are inspected, and one failed
  inspection fails the listing.\<close>

fun inspect_all :: "'w docker_api \<Rightarrow> ContainerSummary list \<Rightarrow> ('w, RuntimeContainer list) docker" where
  "inspect_all api [] = yield []"
| "inspect_all api (s # ss) =
     and_then
       (if activeState (sum_State s) \<or> managed_label (sum_Labels s)
        then and_then
               (or_else (ask (api_ContainerInspect api (sum_ID s)))
                  (\<lambda>e. raise (Wrapped (''inspect container '' @ sum_ID s) e)))
               (\<lambda>i. yield (fromInspect i (summarized s)))
        else yield (summarized s))
       (\<lambda>item. and_then (inspect_all api ss) (\<lambda>items. yield (item # items)))"

definition engine_ListContainers :: "'w docker_api \<Rightarrow> ('w, RuntimeContainer list) docker" where
  "engine_ListContainers api =
     and_then (ask (api_ContainerList api)) (\<lambda>ss.
     and_then (inspect_all api ss) (\<lambda>cs. yield (sort_by (\<lambda>a b. rtc_ID a < rtc_ID b) cs)))"

definition Version :: "'w docker_api \<Rightarrow> ('w, string) docker" where
  "Version api = and_then (ask (api_ServerVersion api)) (\<lambda>(v, _, _). yield v)"

definition Compatibility :: "'w docker_api \<Rightarrow> ('w, RuntimeCompatibility) docker" where
  "Compatibility api =
     and_then (ask (api_ServerVersion api)) (\<lambda>(v, apiv, os).
     and_then (ask (api_Runtimes api)) (\<lambda>rs.
       yield \<lparr>rtm_Version = v, rtm_APIVersion = apiv, rtm_OS = os, rtm_NVIDIARuntime = List.member rs ''nvidia''\<rparr>))"

section \<open>Starting and stopping\<close>

definition environment :: "labels \<Rightarrow> string list" where
  "environment values = map (\<lambda>k. k @ ''='' @ label_get values k) (sort_by (<) (gokeys values))"

definition ensure_image :: "'w docker_api \<Rightarrow> string \<Rightarrow> ('w, unit) docker" where
  "ensure_image api img st =
     (case api_ImageInspect api img (dk_world st) of
        (ImagePresent, w) \<Rightarrow> (Inr (), st\<lparr>dk_world := w\<rparr>)
      | (ImageFailed e, w) \<Rightarrow> (Inl (Wrapped (''inspect image '' @ quoted img) e), st\<lparr>dk_world := w\<rparr>)
      | (ImageNotFound, w) \<Rightarrow>
          or_else (invoke (Pulled img) (api_ImagePull api img))
            (\<lambda>e. raise (Wrapped (''pull image '' @ quoted img) e)) (st\<lparr>dk_world := w\<rparr>))"

text \<open>\<open>payload.CPUMilli * 1_000_000\<close> and \<open>payload.MemoryMiB * 1024 * 1024\<close> wrap as \<open>int64\<close>.\<close>

definition create_options :: "StartContainerPayload \<Rightarrow> CreateOptions" where
  "create_options p = \<lparr>cop_Name = stp_Name p, cop_Image = stp_Image p, cop_Cmd = stp_Command p,
     cop_Env = environment (stp_Environment p),
     cop_Labels = put JobIDLabel (stp_JobID p) (put ManagedLabel ''true'' (stp_Labels p)),
     cop_NanoCPUs = word_of_int (stp_CPUMilli p) * 1000000,
     cop_Memory = word_of_int (stp_MemoryMiB p) * 1024 * 1024,
     cop_DeviceIDs = stp_GPUUUIDs p\<rparr>"

definition create_container :: "'w docker_api \<Rightarrow> CreateOptions \<Rightarrow> ('w, string) docker" where
  "create_container api options st =
     (case api_ContainerCreate api options (dk_world st) of
        (Inl e, w) \<Rightarrow> (Inl e, st\<lparr>dk_world := w, dk_calls := dk_calls st @ [Created options None]\<rparr>)
      | (Inr cid, w) \<Rightarrow> (Inr cid, st\<lparr>dk_world := w, dk_calls := dk_calls st @ [Created options (Some cid)]\<rparr>))"

text \<open>\<open>errors.Join\<close> leaves out a clean-up that did not fail.\<close>

definition remove_after :: "'w docker_api \<Rightarrow> string \<Rightarrow> agent_error \<Rightarrow> ('w, 'a) docker" where
  "remove_after api cid e st =
     (case invoke (Removed cid) (api_ContainerRemove api cid) st of
        (Inl f, st') \<Rightarrow> (Inl (Joined e f), st')
      | (Inr _, st') \<Rightarrow> (Inl e, st'))"

definition create_and_start :: "'w docker_api \<Rightarrow> StartContainerPayload \<Rightarrow> ('w, string) docker" where
  "create_and_start api p =
     and_then (ensure_image api (stp_Image p)) (\<lambda>_.
     and_then (create_container api (create_options p)) (\<lambda>cid.
     and_then (or_else (invoke (Started cid) (api_ContainerStart api cid)) (remove_after api cid)) (\<lambda>_.
       yield cid)))"

text \<open>A container of the job that exists is reused, whatever became of it; only one that was never
  started is started.\<close>

definition StartManagedContainer :: "'w docker_api \<Rightarrow> StartContainerPayload \<Rightarrow> ('w, string) docker" where
  "StartManagedContainer api p =
     and_then (engine_ListContainers api) (\<lambda>existing.
       case List.find (managed_for (stp_JobID p)) existing of
         Some item \<Rightarrow>
           if rtc_State item = ''created''
           then and_then
                  (or_else (invoke (Started (rtc_ID item)) (api_ContainerStart api (rtc_ID item)))
                     (\<lambda>e. raise (Wrapped (''restart existing managed container '' @ rtc_ID item) e)))
                  (\<lambda>_. yield (rtc_ID item))
           else yield (rtc_ID item)
       | None \<Rightarrow> create_and_start api p)"

text \<open>The loop of \<open>StopManagedJob\<close>; \<open>matched\<close> is the first container of the job.\<close>

definition stop_target :: "StopContainerPayload \<Rightarrow> RuntimeContainer \<Rightarrow> bool" where
  "stop_target p item \<longleftrightarrow>
     \<not> (spp_ContainerID p \<noteq> '''' \<and> rtc_ID item \<noteq> spp_ContainerID p) \<and> managed_for (spp_JobID p) item"

fun stop_all :: "'w docker_api \<Rightarrow> StopContainerPayload \<Rightarrow> RuntimeContainer list \<Rightarrow> string \<Rightarrow> ('w, string) docker" where
  "stop_all api p [] matched = yield matched"
| "stop_all api p (item # items) matched =
     (if \<not> stop_target p item then stop_all api p items matched
      else (let matched' = (if matched = '''' then rtc_ID item else matched);
                grace = (if spp_GraceSeconds p < 0 then 0 else spp_GraceSeconds p)
            in if activeState (rtc_State item)
               then and_then (invoke (Stopped (rtc_ID item) grace) (api_ContainerStop api (rtc_ID item) grace))
                      (\<lambda>_. stop_all api p items matched')
               else stop_all api p items matched'))"

definition StopManagedJob :: "'w docker_api \<Rightarrow> StopContainerPayload \<Rightarrow> ('w, string) docker" where
  "StopManagedJob api p =
     and_then (engine_ListContainers api) (\<lambda>cs.
     and_then (stop_all api p cs '''') (\<lambda>matched.
       if spp_ContainerID p \<noteq> '''' \<and> list_ex (\<lambda>c. rtc_ID c = spp_ContainerID p) cs \<and> matched = ''''
       then raise LegacyTarget else yield matched))"

end
