(* ===== verification/Go_Text.thy ===== *)
theory Go_Text
  imports GoTime
begin

text \<open>
  The parsers of Go's standard library the configuration files go through: \<open>strings.Cut\<close>, \<open>Trim\<close>,
  the lines of \<open>bufio.Scanner\<close>, \<open>strconv.ParseBool\<close> and \<open>ParseFloat\<close>, \<open>time.ParseDuration\<close>. A
  \<open>float64\<close> is an exact rational here, or one of the values that are not numbers, which
  \<open>ParseFloat\<close> also reads.
\<close>

section \<open>Strings\<close>

definition Cut :: "char \<Rightarrow> string \<Rightarrow> (string \<times> string) option" where
  "Cut sep s = (let k = takeWhile (\<lambda>c. c \<noteq> sep) s in
     if length k = length s then None else Some (k, drop (length k + 1) s))"

definition Trim :: "char list \<Rightarrow> string \<Rightarrow> string" where
  "Trim cutset s = rev (dropWhile (\<lambda>c. c \<in> set cutset) (rev (dropWhile (\<lambda>c. c \<in> set cutset) s)))"

text \<open>The lines of a scanner: without their line ends, and no empty line after the last one. A line that
  does not fit the scanner's buffer of 64 KiB ends the scan with an error; the lines before it are
  delivered.\<close>

definition drop_cr :: "string \<Rightarrow> string" where
  "drop_cr l = (if l \<noteq> [] \<and> last l = CHR 0x0D then butlast l else l)"

definition raw_lines :: "string \<Rightarrow> string list" where
  "raw_lines s = (let ls = Split (CHR 0x0A) s in if last ls = [] then butlast ls else ls)"

definition max_token :: nat where
  "max_token = 64 * 1024"

definition scan_lines :: "string \<Rightarrow> string list \<times> bool" where
  "scan_lines s =
     (let fit = takeWhile (\<lambda>l. length l < max_token) (raw_lines s)
      in (map drop_cr fit, length fit < length (raw_lines s)))"

section \<open>Booleans\<close>

definition ParseBool :: "string \<Rightarrow> bool option" where
  "ParseBool s =
     (if s \<in> set [''1'', ''t'', ''T'', ''TRUE'', ''true'', ''True''] then Some True
      else if s \<in> set [''0'', ''f'', ''F'', ''FALSE'', ''false'', ''False''] then Some False
      else None)"

section \<open>Floating point numbers\<close>

datatype go_float = NaN | Infinite bool | Finite rat

text \<open>The comparisons of Go: one with \<open>NaN\<close> is false. \<open>Infinite b\<close> is negative if \<open>b\<close>.\<close>

fun float_le :: "go_float \<Rightarrow> go_float \<Rightarrow> bool" where
  "float_le NaN y = False"
| "float_le x NaN = False"
| "float_le (Infinite True) y = True"
| "float_le (Infinite False) y = (y = Infinite False)"
| "float_le (Finite a) (Infinite b) = (\<not> b)"
| "float_le (Finite a) (Finite b) = (a \<le> b)"

fun float_less :: "go_float \<Rightarrow> go_float \<Rightarrow> bool" where
  "float_less NaN y = False"
| "float_less x NaN = False"
| "float_less x y = (\<not> float_le y x)"

text \<open>Underscores separate digits.\<close>

fun underscores_ok :: "bool \<Rightarrow> char \<Rightarrow> string \<Rightarrow> bool" where
  "underscores_ok hex prev [] = (prev \<noteq> CHR ''_'')"
| "underscores_ok hex prev (c # s) =
     (if is_digit c \<or> hex \<and> lower_char c \<in> set ''abcdef'' then underscores_ok hex (CHR ''0'') s
      else if c = CHR ''_'' then prev = CHR ''0'' \<and> underscores_ok hex (CHR ''_'') s
      else prev \<noteq> CHR ''_'' \<and> underscores_ok hex (CHR ''!'') s)"

definition digit_of :: "char \<Rightarrow> int" where
  "digit_of c = (if is_digit c then digit_val c else int (of_char (lower_char c)) - 87)"

definition is_base_digit :: "bool \<Rightarrow> char \<Rightarrow> bool" where
  "is_base_digit hex c \<longleftrightarrow> is_digit c \<or> hex \<and> lower_char c \<in> set ''abcdef''"

definition base_val :: "int \<Rightarrow> string \<Rightarrow> int" where
  "base_val b ds = fold (\<lambda>c n. b * n + digit_of c) ds 0"

text \<open>The exponent: its digits stop counting at ten thousand.\<close>

definition exponent :: "string \<Rightarrow> int option" where
  "exponent s =
     (let neg = (take 1 s = ''-''); ds = (if take 1 s = ''-'' \<or> take 1 s = ''+'' then drop 1 s else s)
      in if ds = [] \<or> \<not> list_all is_digit ds then None
         else (let e = fold (\<lambda>c n. if n < 10000 then 10 * n + digit_val c else n) ds 0
               in Some (if neg then - e else e)))"

definition power_of :: "rat \<Rightarrow> int \<Rightarrow> rat" where
  "power_of b e = (if 0 \<le> e then b ^ nat e else 1 / b ^ nat (- e))"

text \<open>Digits with at most one point, then an exponent, which hexadecimal digits require. A value that
  rounds beyond the largest \<open>float64\<close> is out of range.\<close>

definition magnitude :: "bool \<Rightarrow> string \<Rightarrow> rat option" where
  "magnitude hex s =
     (let b = (if hex then 16 else 10);
          whole = takeWhile (is_base_digit hex) s; r1 = dropWhile (is_base_digit hex) s;
          point = (take 1 r1 = ''.'');
          frac = (if point then takeWhile (is_base_digit hex) (drop 1 r1) else []);
          r2 = (if point then dropWhile (is_base_digit hex) (drop 1 r1) else r1);
          m = of_int (base_val b (whole @ frac)) / of_int b ^ length frac
      in if whole @ frac = [] then None
         else if r2 = [] then (if hex then None else Some m)
         else if map lower_char (take 1 r2) = (if hex then ''p'' else ''e'')
         then map_option (\<lambda>e. m * power_of (if hex then 2 else 10) e) (exponent (drop 1 r2))
         else None)"

definition finite_float :: "rat \<Rightarrow> go_float option" where
  "finite_float q = (if 2 ^ 1024 - 2 ^ 970 \<le> \<bar>q\<bar> then None else Some (Finite q))"

definition ParseFloat :: "string \<Rightarrow> go_float option" where
  "ParseFloat s =
     (let neg = (take 1 s = ''-''); u = (if take 1 s = ''-'' \<or> take 1 s = ''+'' then drop 1 s else s);
          hex = (map lower_char (take 2 u) = ''0x''); digits = (if hex then drop 2 u else u)
      in if EqualFold s ''nan'' then Some NaN
         else if EqualFold u ''inf'' \<or> EqualFold u ''infinity'' then Some (Infinite neg)
         else if \<not> underscores_ok hex (if hex then CHR ''0'' else CHR ''^'') digits then None
         else Option.bind (magnitude hex (filter (\<lambda>c. c \<noteq> CHR ''_'') digits))
                (\<lambda>q. finite_float (if neg then - q else q)))"

section \<open>Durations\<close>

text \<open>\<open>leadingInt\<close> fails beyond \<open>2^63\<close>; \<open>leadingFraction\<close> skips the digits that no longer fit.\<close>

definition leadingInt :: "string \<Rightarrow> (int \<times> string) option" where
  "leadingInt s = (let v = digits_val (takeWhile is_digit s) in
     if 2 ^ 63 < v then None else Some (v, dropWhile is_digit s))"

fun fraction_digits :: "string \<Rightarrow> int \<times> nat \<Rightarrow> int \<times> nat" where
  "fraction_digits [] (f, k) = (f, k)"
| "fraction_digits (c # ds) (f, k) =
     (if (2 ^ 63 - 1) div 10 < f \<or> 2 ^ 63 < 10 * f + digit_val c then (f, k)
      else fraction_digits ds (10 * f + digit_val c, k + 1))"

definition leadingFraction :: "string \<Rightarrow> int \<times> nat \<times> string" where
  "leadingFraction s = (case fraction_digits (takeWhile is_digit s) (0, 0) of (f, k) \<Rightarrow> (f, k, dropWhile is_digit s))"

text \<open>The unit runs to the next digit or point; the micro sign has two spellings in UTF-8.\<close>

definition unit_of :: "string \<Rightarrow> duration option" where
  "unit_of u = map_of
     [(''ns'', 1), (''us'', 1000), ([CHR 0xC2, CHR 0xB5, CHR ''s''], 1000), ([CHR 0xCE, CHR 0xBC, CHR ''s''], 1000),
      (''ms'', 1000000), (''s'', Second), (''m'', Minute), (''h'', Hour)] u"

definition in_unit :: "char \<Rightarrow> bool" where
  "in_unit c \<longleftrightarrow> c \<noteq> CHR ''.'' \<and> \<not> is_digit c"

text \<open>One number with its unit, in nanoseconds, and what follows it.\<close>

definition duration_part :: "string \<Rightarrow> (int \<times> string) option" where
  "duration_part s =
     (case leadingInt s of None \<Rightarrow> None
      | Some (v, s1) \<Rightarrow>
          (let (f, k, s2) = (if take 1 s1 = ''.'' then leadingFraction (drop 1 s1) else (0, 0, s1));
               digits = (length s1 < length s \<or> take 1 s1 = ''.'' \<and> length s2 + 1 < length s1)
           in if \<not> digits then None
              else case unit_of (takeWhile in_unit s2) of None \<Rightarrow> None
              | Some u \<Rightarrow>
                  (let n = v * u + \<lfloor>of_int f * of_int u / (10 ^ k :: rat)\<rfloor>
                   in if 2 ^ 63 div u < v \<or> 2 ^ 63 < n then None else Some (n, dropWhile in_unit s2))))"

lemma duration_part_shorter: "duration_part s = Some (n, r) \<Longrightarrow> length r < length s"
proof -
  assume d: "duration_part s = Some (n, r)"
  have le: "length (dropWhile P xs) \<le> length xs" for P :: "char \<Rightarrow> bool" and xs
    by (rule length_dropWhile_le)
  from d show ?thesis
    unfolding duration_part_def leadingInt_def leadingFraction_def Let_def
    using le [of is_digit s] le [of is_digit "drop 1 (dropWhile is_digit s)"]
    by (auto simp: Let_def split: option.splits if_splits prod.splits
        intro: le_less_trans [OF length_dropWhile_le])
qed

text \<open>The sum of the parts; every part consumes a digit, so the loop ends.\<close>

function duration_parts :: "int \<Rightarrow> string \<Rightarrow> int option" where
  "duration_parts d s =
     (if s = [] then Some d
      else case duration_part s of None \<Rightarrow> None
      | Some (n, r) \<Rightarrow> if 2 ^ 63 < d + n then None else duration_parts (d + n) r)"
  by auto
termination
  by (relation "measure (length \<circ> snd)") (auto dest: duration_part_shorter)

declare duration_parts.simps [simp del]

definition ParseDuration :: "string \<Rightarrow> duration option" where
  "ParseDuration s =
     (let neg = (take 1 s = ''-''); u = (if take 1 s = ''-'' \<or> take 1 s = ''+'' then drop 1 s else s)
      in if u = ''0'' then Some 0
         else if u = [] then None
         else case duration_parts 0 u of None \<Rightarrow> None
         | Some d \<Rightarrow> if neg then Some (- d) else if max_int64 < d then None else Some d)"

end
