(* ===== verification/Agent_Inventory.thy ===== *)
theory Agent_Inventory
  imports Docker_Engine Go_Text
begin

text \<open>
  What an agent sees of its host: \<open>internal/agent/inventory.go\<close> and \<open>preflight.go\<close>. A snapshot joins
  the containers Docker lists with the GPUs and processes NVML reports, and marks every GPU whose use
  has no known owner; \<open>GPUsAvailable\<close> is the agent's last check before it starts a container. Docker,
  NVML, the cgroup resolver, the clock and the host's files are the interfaces of \<open>contracts.go\<close>, read
  in the state of the outside world.
\<close>

section \<open>The interfaces of the agent\<close>

text \<open>\<open>DockerRuntime\<close>; \<open>run_Compatibility\<close> is present where the runtime is also a \<open>RuntimeProbe\<close>.\<close>

record 'w DockerRuntime =
  run_Version :: "('w, string) docker"
  run_ListContainers :: "('w, RuntimeContainer list) docker"
  run_StartManagedContainer :: "StartContainerPayload \<Rightarrow> ('w, string) docker"
  run_StopManagedJob :: "StopContainerPayload \<Rightarrow> ('w, string) docker"
  run_Compatibility :: "('w, RuntimeCompatibility) docker option"

text \<open>The Docker Engine adapter as a \<open>DockerRuntime\<close>.\<close>

definition engine_runtime :: "'w docker_api \<Rightarrow> 'w DockerRuntime" where
  "engine_runtime api = \<lparr>run_Version = Version api, run_ListContainers = engine_ListContainers api,
     run_StartManagedContainer = StartManagedContainer api, run_StopManagedJob = StopManagedJob api,
     run_Compatibility = Some (Compatibility api)\<rparr>"

record InventoryPolicy =
  pol_UnknownMemoryMiB :: int
  pol_UnknownUtilizationPct :: go_float

text \<open>The policy \<open>NewInventoryCollector\<close> takes: the first one given, or the default.\<close>

definition collector_policy :: "InventoryPolicy list \<Rightarrow> InventoryPolicy" where
  "collector_policy policies =
     (case policies of [] \<Rightarrow> \<lparr>pol_UnknownMemoryMiB = 256, pol_UnknownUtilizationPct = Finite 5\<rparr> | p # _ \<Rightarrow> p)"

text \<open>\<open>inv_ctxErr\<close> is \<open>ctx.Err()\<close> after the sources were read; \<open>inv_host\<close> is \<open>discoverHost\<close>.\<close>

record 'w InventoryCollector =
  inv_platform :: "'w \<Rightarrow> Capabilities"
  inv_machineID :: string
  inv_docker :: "'w DockerRuntime option"
  inv_gpus :: "('w \<Rightarrow> agent_error + WireGPU list \<times> GPUProcess list) option"
  inv_driver :: "('w \<Rightarrow> string \<times> string) option"
  inv_resolver :: "('w \<Rightarrow> int \<Rightarrow> agent_error + string) option"
  inv_now :: "'w \<Rightarrow> gotime"
  inv_host :: "'w \<Rightarrow> HostInfo"
  inv_ctxErr :: "'w \<Rightarrow> agent_error option"
  inv_policy :: InventoryPolicy

section \<open>A reader that recovers\<close>

text \<open>\<open>internal/agent/gpu/recovering.go\<close>: a reader that failed is closed and opened again at the next
  snapshot. The state is the open reader, if there is one.\<close>

type_synonym 'w gpu_reader = "'w \<Rightarrow> agent_error + WireGPU list \<times> GPUProcess list"

definition read_or_drop ::
  "'w gpu_reader \<Rightarrow> 'w \<Rightarrow> (agent_error + WireGPU list \<times> GPUProcess list) \<times> 'w gpu_reader option" where
  "read_or_drop reader w = (case reader w of Inl e \<Rightarrow> (Inl e, None) | Inr v \<Rightarrow> (Inr v, Some reader))"

definition recovering_snapshot ::
  "('w \<Rightarrow> agent_error + 'w gpu_reader) \<Rightarrow> agent_error option \<Rightarrow> 'w gpu_reader option \<Rightarrow> 'w
     \<Rightarrow> (agent_error + WireGPU list \<times> GPUProcess list) \<times> 'w gpu_reader option" where
  "recovering_snapshot open_reader ctxErr reader w =
     (case ctxErr of
        Some e \<Rightarrow> (Inl e, reader)
      | None \<Rightarrow>
          (case reader of
             Some rd \<Rightarrow> read_or_drop rd w
           | None \<Rightarrow> (case open_reader w of Inl e \<Rightarrow> (Inl e, None) | Inr rd \<Rightarrow> read_or_drop rd w)))"

lemma recovers:
  assumes "recovering_snapshot open_reader None reader w = (Inl e, reader')"
  shows "reader' = None \<and>
    recovering_snapshot open_reader None reader' w' =
      (case open_reader w' of Inl e \<Rightarrow> (Inl e, None) | Inr rd \<Rightarrow> read_or_drop rd w')"
proof -
  have "reader' = None"
    using assms by (auto simp: recovering_snapshot_def read_or_drop_def split: option.splits sum.splits)
  then show ?thesis by (simp add: recovering_snapshot_def)
qed

section \<open>Reading the sources\<close>

record sourceSnapshot =
  src_capabilities :: Capabilities
  src_gpus :: "WireGPU list"
  src_processes :: "GPUProcess list"
  src_containers :: "RuntimeContainer list"

text \<open>A source that fails is left out; it never becomes an empty source.\<close>

definition read_gpus :: "'w InventoryCollector \<Rightarrow> 'w \<Rightarrow> sourceSnapshot \<Rightarrow> sourceSnapshot" where
  "read_gpus c w s =
     (case inv_gpus c of None \<Rightarrow> s
      | Some read \<Rightarrow>
          (case read w of Inl e \<Rightarrow> s
           | Inr (devices, ps) \<Rightarrow>
               (let (driver, cuda) = (case inv_driver c of
                        None \<Rightarrow> (cap_NVIDIADriverVersion (src_capabilities s), cap_CUDADriverVersion (src_capabilities s))
                      | Some info \<Rightarrow> info w)
                in s\<lparr>src_gpus := devices, src_processes := ps,
                     src_capabilities := (src_capabilities s)
                       \<lparr>cap_NVMLAvailable := True, cap_GPUInventoryAvailable := True,
                        cap_GPUCount := int (length devices), cap_NVIDIADriverVersion := driver,
                        cap_CUDADriverVersion := cuda\<rparr>\<rparr>)))"

definition probe_docker ::
  "'w DockerRuntime \<Rightarrow> sourceSnapshot \<Rightarrow> 'w docker_state \<Rightarrow> sourceSnapshot \<times> 'w docker_state" where
  "probe_docker rt s st =
     (case run_Compatibility rt of
        Some probe \<Rightarrow>
          (case probe st of
             (Inl e, st') \<Rightarrow> (s, st')
           | (Inr info, st') \<Rightarrow>
               (s\<lparr>src_capabilities := (src_capabilities s)
                    \<lparr>cap_DockerVersion := rtm_Version info, cap_DockerAPIVersion := rtm_APIVersion info,
                     cap_DockerOS := rtm_OS info, cap_NVIDIAContainerSupport := rtm_NVIDIARuntime info\<rparr>\<rparr>, st'))
      | None \<Rightarrow>
          (case run_Version rt st of
             (r, st') \<Rightarrow>
               (s\<lparr>src_capabilities := (src_capabilities s)
                    \<lparr>cap_DockerVersion := (case r of Inl e \<Rightarrow> '''' | Inr v \<Rightarrow> v)\<rparr>\<rparr>, st')))"

definition read_docker ::
  "'w InventoryCollector \<Rightarrow> sourceSnapshot \<Rightarrow> 'w docker_state \<Rightarrow> sourceSnapshot \<times> 'w docker_state" where
  "read_docker c s st =
     (case inv_docker c of None \<Rightarrow> (s, st)
      | Some rt \<Rightarrow>
          (case run_ListContainers rt st of
             (Inl e, st') \<Rightarrow>
               if cap_DockerAvailable (src_capabilities s) then probe_docker rt s st' else (s, st')
           | (Inr cs, st') \<Rightarrow>
               probe_docker rt (s\<lparr>src_containers := cs,
                 src_capabilities := (src_capabilities s)\<lparr>cap_DockerAvailable := True\<rparr>\<rparr>) st'))"

definition collectSources ::
  "'w InventoryCollector \<Rightarrow> Capabilities \<Rightarrow> 'w docker_state \<Rightarrow> sourceSnapshot \<times> 'w docker_state" where
  "collectSources c base st =
     (let s0 = \<lparr>src_capabilities = base, src_gpus = [], src_processes = [], src_containers = []\<rparr>;
          (s, st') = read_docker c (read_gpus c (dk_world st) s0) st
      in (s\<lparr>src_capabilities := Normalize (src_capabilities s)\<rparr>, st'))"

section \<open>The snapshot\<close>

definition appendUnique :: "string list \<Rightarrow> string \<Rightarrow> string list" where
  "appendUnique vs v = (if List.member vs v then vs else if v \<noteq> '''' then vs @ [v] else vs)"

definition uniqueStrings :: "string list \<Rightarrow> string list" where
  "uniqueStrings vs = foldl (\<lambda>acc v. appendUnique acc (TrimSpace v)) [] vs"

definition activeContainerState :: "string \<Rightarrow> bool" where
  "activeContainerState state \<longleftrightarrow> state = ''running'' \<or> state = ''paused'' \<or> state = ''restarting''"

definition classifyContainer :: "labels \<Rightarrow> string \<times> string" where
  "classifyContainer ls =
     (if EqualFold (label_get ls ManagedLabel) ''true'' \<and> TrimSpace (label_get ls JobIDLabel) \<noteq> ''''
      then (''MANAGED'', label_get ls JobIDLabel) else (''LEGACY'', ''''))"

text \<open>The GPUs of a container: by UUID, by index, and all of them where the grant cannot be bounded.\<close>

fun resolve_indexes :: "WireGPU list \<Rightarrow> int list \<Rightarrow> string list \<times> bool \<Rightarrow> string list \<times> bool" where
  "resolve_indexes gpus [] (us, unbounded) = (us, unbounded)"
| "resolve_indexes gpus (i # is) (us, unbounded) =
     (case List.find (\<lambda>g. wg_Index g = i) gpus of
        Some g \<Rightarrow> resolve_indexes gpus is (appendUnique us (wg_UUID g), unbounded)
      | None \<Rightarrow> resolve_indexes gpus is (us, True))"

definition known_uuid :: "WireGPU list \<Rightarrow> string \<Rightarrow> bool" where
  "known_uuid gpus u \<longleftrightarrow> list_ex (\<lambda>g. wg_UUID g = u) gpus"

definition container_gpus :: "WireGPU list \<Rightarrow> RuntimeContainer \<Rightarrow> string list" where
  "container_gpus gpus c =
     (let (us, unbounded) = resolve_indexes gpus (rtc_GPUIndexes c)
                              (uniqueStrings (rtc_GPUUUIDs c), rtc_UnboundedGPUAccess c);
          unbounded = (unbounded \<or> \<not> list_all (known_uuid gpus) us)
      in if activeContainerState (rtc_State c) \<and> unbounded then map wg_UUID gpus else us)"

definition wire_container :: "WireGPU list \<Rightarrow> RuntimeContainer \<Rightarrow> WireContainer" where
  "wire_container gpus c = \<lparr>wc_ID = rtc_ID c, wc_Name = rtc_Name c, wc_Image = rtc_Image c,
     wc_State = rtc_State c, wc_Origin = fst (classifyContainer (rtc_Labels c)),
     wc_JobID = snd (classifyContainer (rtc_Labels c)), wc_GPUUUIDs = container_gpus gpus c,
     wc_Labels = rtc_Labels c, wc_StartedAt = rtc_StartedAt c, wc_FinishedAt = rtc_FinishedAt c,
     wc_ExitCode = rtc_ExitCode c\<rparr>"

text \<open>\<open>byID\<close>, from a container's identifier to its place in the report; the later of two wins.\<close>

fun index_containers :: "nat \<Rightarrow> RuntimeContainer list \<Rightarrow> (string, nat) gomap \<Rightarrow> (string, nat) gomap" where
  "index_containers n [] m = m"
| "index_containers n (c # cs) m = index_containers (n + 1) cs (put (rtc_ID c) n m)"

text \<open>An identifier of which one is a prefix of the other counts as the same container. Where several
  match, Go takes the first in the unspecified order of the map, here the order of the report.\<close>

definition matchContainerID :: "string \<Rightarrow> (string, nat) gomap \<Rightarrow> string" where
  "matchContainerID cid byID =
     (if map_of byID cid \<noteq> None then cid
      else case List.find (\<lambda>k. HasPrefix k cid \<or> HasPrefix cid k) (gokeys byID) of
        Some k \<Rightarrow> k | None \<Rightarrow> '''')"

text \<open>One process: its container is the one NVML names or the one its cgroup names.\<close>

definition attributed ::
  "(int \<Rightarrow> agent_error + string) option \<Rightarrow> bool \<Rightarrow> (string, nat) gomap \<Rightarrow> GPUProcess \<Rightarrow> GPUProcess" where
  "attributed resolver dockerAvailable byID p0 =
     (let p = (if dockerAvailable then p0 else p0\<lparr>proc_ContainerID := ''''\<rparr>) in
      case resolver of None \<Rightarrow> p
      | Some resolve \<Rightarrow>
          if proc_ContainerID p \<noteq> '''' then p
          else case resolve (proc_PID p) of
            Inl e \<Rightarrow> p
          | Inr cid \<Rightarrow> p\<lparr>proc_ContainerID := matchContainerID cid byID\<rparr>)"

definition joined_process :: "(string, nat) gomap \<Rightarrow> GPUProcess \<Rightarrow> WireContainer list \<Rightarrow> WireContainer list" where
  "joined_process byID p cs =
     (case map_of byID (proc_ContainerID p) of None \<Rightarrow> cs
      | Some i \<Rightarrow> cs[i := (cs ! i)\<lparr>wc_GPUUUIDs := appendUnique (wc_GPUUUIDs (cs ! i)) (proc_GPUUUID p)\<rparr>])"

definition sorted_uuids :: "WireContainer \<Rightarrow> WireContainer" where
  "sorted_uuids c = c\<lparr>wc_GPUUUIDs := sort_by (<) (wc_GPUUUIDs c)\<rparr>"

text \<open>A busy GPU that no active container accounts for.\<close>

definition held_by_container :: "WireContainer list \<Rightarrow> string \<Rightarrow> bool" where
  "held_by_container cs u \<longleftrightarrow> list_ex (\<lambda>c. activeContainerState (wc_State c) \<and> List.member (wc_GPUUUIDs c) u) cs"

definition observed_gpu :: "InventoryPolicy \<Rightarrow> WireContainer list \<Rightarrow> WireGPU \<Rightarrow> WireGPU" where
  "observed_gpu policy cs g =
     (if \<not> held_by_container cs (wg_UUID g) \<and>
         (pol_UnknownMemoryMiB policy \<le> wg_MemoryUsedMiB g \<or>
          float_le (pol_UnknownUtilizationPct policy) (Finite (wg_UtilizationPct g)))
      then g\<lparr>wg_State := ''OCCUPIED_UNKNOWN''\<rparr> else g)"

definition snapshot_report :: "'w InventoryCollector \<Rightarrow> 64 word \<Rightarrow> 'w \<Rightarrow> sourceSnapshot \<Rightarrow> WireReport" where
  "snapshot_report c sequence w s =
     (let caps = src_capabilities s;
          byID = index_containers 0 (src_containers s) [];
          processes = map (attributed (map_option (\<lambda>r. r w) (inv_resolver c)) (cap_DockerAvailable caps) byID)
                        (src_processes s);
          containers = map sorted_uuids
                         (fold (joined_process byID) processes (map (wire_container (src_gpus s)) (src_containers s)))
      in \<lparr>wr_Capabilities = Some caps, wr_Host = inv_host c w, wr_Sequence = sequence,
          wr_ObservedAt = inv_now c w, wr_DockerVersion = cap_DockerVersion caps,
          wr_GPUs = map (observed_gpu (inv_policy c) containers) (src_gpus s),
          wr_Containers = containers, wr_Processes = processes\<rparr>)"

definition machine_base :: "string \<Rightarrow> Capabilities \<Rightarrow> Capabilities" where
  "machine_base machineID base =
     (if machineID \<noteq> '''' then base\<lparr>cap_MachineIDAvailable := True, cap_AgentOperational := True\<rparr> else base)"

definition collector_Snapshot :: "'w InventoryCollector \<Rightarrow> 64 word \<Rightarrow> ('w, WireReport) docker" where
  "collector_Snapshot c sequence st =
     (if sequence = 0 then (Inl (AgentError ''inventory sequence must be positive''), st)
      else (let base = machine_base (inv_machineID c) (inv_platform c (dk_world st));
                (sources, st') = collectSources c base st
            in case inv_ctxErr c (dk_world st') of
                 Some e \<Rightarrow> (Inl e, st')
               | None \<Rightarrow> (Inr (snapshot_report c sequence (dk_world st') sources), st')))"

section \<open>The check before a start\<close>

text \<open>The maps \<open>known\<close>, \<open>ignoredContainers\<close> and \<open>occupied\<close> of \<open>GPUsAvailable\<close>. The last of two GPUs
  with one UUID decides.\<close>

definition known_healthy :: "WireGPU list \<Rightarrow> string \<Rightarrow> bool" where
  "known_healthy gpus u = (case List.find (\<lambda>g. wg_UUID g = u) (rev gpus) of None \<Rightarrow> False | Some g \<Rightarrow> wg_Healthy g)"

definition own_container :: "string \<Rightarrow> WireContainer \<Rightarrow> bool" where
  "own_container jobID c \<longleftrightarrow>
     activeContainerState (wc_State c) \<and> wc_Origin c = ''MANAGED'' \<and> wc_JobID c = jobID"

definition gpu_occupied :: "WireReport \<Rightarrow> string \<Rightarrow> string \<Rightarrow> bool" where
  "gpu_occupied r jobID u \<longleftrightarrow>
     list_ex (\<lambda>g. wg_UUID g = u \<and> wg_State g = ''OCCUPIED_UNKNOWN'') (wr_GPUs r) \<or>
     list_ex (\<lambda>c. activeContainerState (wc_State c) \<and> \<not> own_container jobID c \<and> List.member (wc_GPUUUIDs c) u)
       (wr_Containers r) \<or>
     list_ex (\<lambda>p. \<not> list_ex (\<lambda>c. own_container jobID c \<and> wc_ID c = proc_ContainerID p) (wr_Containers r) \<and>
                  proc_GPUUUID p = u) (wr_Processes r)"

definition GPUsAvailable :: "'w InventoryCollector \<Rightarrow> string list \<Rightarrow> string \<Rightarrow> ('w, unit) docker" where
  "GPUsAvailable c wanted sameJobID =
     and_then (collector_Snapshot c 1) (\<lambda>report.
       case wr_Capabilities report of
         None \<Rightarrow> raise (UnsafeGPU ''managed GPU execution is unavailable'')
       | Some caps \<Rightarrow>
           if \<not> cap_ManagedExecutionReady caps then raise (UnsafeGPU ''managed GPU execution is unavailable'')
           else case List.find (\<lambda>u. \<not> known_healthy (wr_GPUs report) u \<or> gpu_occupied report sameJobID u)
                       (uniqueStrings wanted) of
             Some u \<Rightarrow> raise (UnsafeGPU (''GPU '' @ u @ '' is missing, unhealthy, or occupied''))
           | None \<Rightarrow> yield ())"

section \<open>Preflight\<close>

datatype CompatibilityStatus = PlatformSupported | PlatformDegraded | PlatformUnsupported

record CompatibilityReport =
  cpr_Capabilities :: Capabilities
  cpr_Status :: CompatibilityStatus
  cpr_Schedulable :: bool

definition Preflight :: "'w InventoryCollector \<Rightarrow> string option \<Rightarrow> 'w docker_state \<Rightarrow> CompatibilityReport \<times> 'w docker_state" where
  "Preflight c machineID st =
     (let base = inv_platform c (dk_world st);
          base = (case machineID of None \<Rightarrow> base
                  | Some m \<Rightarrow> if TrimSpace m \<noteq> '''' then base\<lparr>cap_MachineIDAvailable := True, cap_AgentOperational := True\<rparr>
                              else base);
          (s, st') = collectSources c base st;
          caps = src_capabilities s
      in (\<lparr>cpr_Capabilities = caps,
           cpr_Status = (if cap_ManagedExecutionReady caps then PlatformSupported
                         else if cap_OS caps \<noteq> ''linux'' \<or> cap_Architecture caps \<noteq> ''amd64'' then PlatformUnsupported
                         else PlatformDegraded),
           cpr_Schedulable = cap_ManagedExecutionReady caps\<rparr>, st'))"

end
