(* ===== verification/Agent_Laws.thy ===== *)
theory Agent_Laws
  imports Agent_Inventory "HOL-Library.Sublist"
begin

text \<open>
  What the agent promises about the host: reading changes nothing, a stop reaches only the running
  containers of the job it names, a start creates at most one container and none where the job has one,
  and a GPU that passes the agent's check is in no one else's hands.
\<close>

section \<open>Calls an operation may make\<close>

definition confined :: "(docker_call \<Rightarrow> bool) \<Rightarrow> ('w, 'a) docker \<Rightarrow> bool" where
  "confined P m \<longleftrightarrow> (\<forall>st. \<exists>made. dk_calls (snd (m st)) = dk_calls st @ made \<and> list_all P made)"

named_theorems confined_intros \<open>calls of composed operations\<close>

lemma confinedE:
  assumes "confined P m" and "m st = (r, st')"
  obtains made where "dk_calls st' = dk_calls st @ made" and "list_all P made"
  using assms(1) [unfolded confined_def, rule_format, of st] assms(2) by auto

lemma confined_base [confined_intros, simp]:
  "confined P (yield v)" "confined P (raise e)" "confined P (ask f)"
  by (auto simp: confined_def yield_def raise_def ask_def split: prod.split)

lemma confined_invoke [confined_intros]: "P c \<Longrightarrow> confined P (invoke c f)"
  by (auto simp: confined_def invoke_def split: prod.split)

lemma confined_then [confined_intros]:
  assumes "confined P m" and "\<And>v. confined P (f v)"
  shows "confined P (and_then m f)"
  unfolding confined_def
proof
  fix st
  obtain r st' where m: "m st = (r, st')" by fastforce
  with assms(1) obtain made where made: "dk_calls st' = dk_calls st @ made" "list_all P made"
    by (metis confined_def snd_conv)
  show "\<exists>made. dk_calls (snd (and_then m f st)) = dk_calls st @ made \<and> list_all P made"
  proof (cases r)
    case (Inl e)
    with m made show ?thesis by (auto simp: and_then_def)
  next
    case (Inr v)
    from assms(2) [of v] obtain made2 where "dk_calls (snd (f v st')) = dk_calls st' @ made2" "list_all P made2"
      by (metis confined_def)
    with Inr m made show ?thesis by (intro exI [of _ "made @ made2"]) (simp add: and_then_def)
  qed
qed

lemma confined_else [confined_intros]:
  assumes "confined P m" and "\<And>e. confined P (h e)"
  shows "confined P (or_else m h)"
  unfolding confined_def
proof
  fix st
  obtain r st' where m: "m st = (r, st')" by fastforce
  with assms(1) obtain made where made: "dk_calls st' = dk_calls st @ made" "list_all P made"
    by (metis confined_def snd_conv)
  show "\<exists>made. dk_calls (snd (or_else m h st)) = dk_calls st @ made \<and> list_all P made"
  proof (cases r)
    case (Inr v)
    with m made show ?thesis by (auto simp: or_else_def)
  next
    case (Inl e)
    from assms(2) [of e] obtain made2 where "dk_calls (snd (h e st')) = dk_calls st' @ made2" "list_all P made2"
      by (metis confined_def)
    with Inl m made show ?thesis by (intro exI [of _ "made @ made2"]) (simp add: or_else_def)
  qed
qed

text \<open>An operation that makes no call.\<close>

abbreviation silent :: "('w, 'a) docker \<Rightarrow> bool" where
  "silent m \<equiv> confined (\<lambda>_. False) m"

lemma silent_calls: "silent m \<Longrightarrow> m st = (r, st') \<Longrightarrow> dk_calls st' = dk_calls st"
  by (erule confinedE, assumption) (simp add: list_all_iff)

lemma inspect_all_silent: "silent (inspect_all api ss)"
  by (induction ss) (auto intro!: confined_intros)

lemma ListContainers_silent: "silent (engine_ListContainers api)"
  unfolding engine_ListContainers_def by (intro confined_intros inspect_all_silent)

lemma Version_silent: "silent (Version api)"
  unfolding Version_def by (auto intro!: confined_intros split: prod.split)

lemma Compatibility_silent: "silent (Compatibility api)"
  unfolding Compatibility_def by (auto intro!: confined_intros split: prod.split)

section \<open>The contract of a runtime\<close>

text \<open>A container the platform runs for a job, by its labels.\<close>

definition container_of :: "string \<Rightarrow> RuntimeContainer \<Rightarrow> bool" where
  "container_of job item \<longleftrightarrow> EqualFold (label_get (rtc_Labels item) ''aiwm.managed'') ''true'' \<and>
     label_get (rtc_Labels item) ''aiwm.job-id'' = job"

lemma managed_for_labels: "managed_for = container_of"
  by (simp add: fun_eq_iff managed_for_def managed_label_def ManagedLabel_def JobIDLabel_def container_of_def)

text \<open>The calls a stop may make: it stops active containers of the job, only the one it names where it
  names one, with the grace it was given.\<close>

definition stops_own :: "RuntimeContainer list \<Rightarrow> StopContainerPayload \<Rightarrow> docker_call \<Rightarrow> bool" where
  "stops_own cs p k \<longleftrightarrow>
     (\<exists>item \<in> set cs. container_of (spp_JobID p) item \<and>
        (spp_ContainerID p = '''' \<or> rtc_ID item = spp_ContainerID p) \<and>
        rtc_State item \<in> {''running'', ''paused'', ''restarting''} \<and>
        k = Stopped (rtc_ID item) (max 0 (spp_GraceSeconds p)))"

lemma stops_ownI:
  assumes "item \<in> set cs" and "stop_target p item" and "activeState (rtc_State item)"
    and "k = Stopped (rtc_ID item) (max 0 (spp_GraceSeconds p))"
  shows "stops_own cs p k"
  using assms unfolding stops_own_def stop_target_def activeState_def managed_for_labels by blast

text \<open>What a new container is given: exactly the name, image, command, GPUs, limits and variables of
  the start, under the labels that make it the job's.\<close>

definition made_for :: "StartContainerPayload \<Rightarrow> CreateOptions \<Rightarrow> bool" where
  "made_for p options \<longleftrightarrow>
     cop_Name options = stp_Name p \<and> cop_Image options = stp_Image p \<and> cop_Cmd options = stp_Command p \<and>
     cop_DeviceIDs options = stp_GPUUUIDs p \<and>
     cop_NanoCPUs options = word_of_int (stp_CPUMilli p * 1000000) \<and>
     cop_Memory options = word_of_int (stp_MemoryMiB p * 1048576) \<and>
     set (cop_Env options) = {k @ ''='' @ v | k v. map_of (stp_Environment p) k = Some v} \<and>
     map_of (cop_Labels options) = (map_of (stp_Labels p))(''aiwm.managed'' \<mapsto> ''true'', ''aiwm.job-id'' \<mapsto> stp_JobID p)"

lemma environment_entries: "set (environment m) = {k @ ''='' @ v | k v. map_of m k = Some v}"
proof -
  have "set (environment m) = {k @ ''='' @ label_get m k | k. k \<in> dom (map_of m)}"
    by (auto simp: environment_def dom_map_of_conv_image_fst)
  also have "\<dots> = {k @ ''='' @ v | k v. map_of m k = Some v}"
  proof (intro Collect_cong iffI; elim exE conjE)
    fix x k
    assume "x = k @ ''='' @ label_get m k" and "k \<in> dom (map_of m)"
    then show "\<exists>k v. x = k @ ''='' @ v \<and> map_of m k = Some v"
      by (intro exI [of _ k] exI [of _ "label_get m k"]) (auto simp: label_get_def)
  next
    fix x k v
    assume "x = k @ ''='' @ v" and "map_of m k = Some v"
    then show "\<exists>k. x = k @ ''='' @ label_get m k \<and> k \<in> dom (map_of m)"
      by (intro exI [of _ k]) (simp add: label_get_def domI)
  qed
  finally show ?thesis .
qed

lemma made_for_create: "made_for p (create_options p)"
proof -
  have "word_of_int (stp_MemoryMiB p * 1048576) = (word_of_int (stp_MemoryMiB p) * 1024 * 1024 :: 64 word)"
    "word_of_int (stp_CPUMilli p * 1000000) = (word_of_int (stp_CPUMilli p) * 1000000 :: 64 word)"
    by (simp_all add: mult.assoc flip: wi_hom_mult)
  then show ?thesis
    by (simp add: made_for_def create_options_def environment_entries ManagedLabel_def JobIDLabel_def fun_eq_iff)
qed

text \<open>The calls of a start: none or one start of the job's container where there is one. Otherwise an
  optional pull and a creation that failed, or a creation, the start of the container that the engine
  created, and its removal; or a part of these from the beginning.\<close>

definition start_calls :: "RuntimeContainer list \<Rightarrow> StartContainerPayload \<Rightarrow> docker_call list \<Rightarrow> bool" where
  "start_calls cs p made \<longleftrightarrow>
     (if \<exists>item \<in> set cs. container_of (stp_JobID p) item
      then made = [] \<or> (\<exists>item \<in> set cs. container_of (stp_JobID p) item \<and> rtc_State item = ''created'' \<and>
                                      made = [Started (rtc_ID item)])
      else \<exists>options. made_for p options \<and> (\<exists>pull \<in> {[], [Pulled (stp_Image p)]}.
             made \<in> {[], pull, pull @ [Created options None]} \<or>
             (\<exists>cid. made \<in> {pull @ [Created options (Some cid), Started cid],
                             pull @ [Created options (Some cid), Started cid, Removed cid]})))"

lemma start_calls_managed:
  "start_calls cs p made \<longleftrightarrow>
     (if list_ex (managed_for (stp_JobID p)) cs
      then made = [] \<or> (\<exists>item \<in> set cs. managed_for (stp_JobID p) item \<and> rtc_State item = ''created'' \<and>
                                      made = [Started (rtc_ID item)])
      else \<exists>options. made_for p options \<and> (\<exists>pull \<in> {[], [Pulled (stp_Image p)]}.
             made \<in> {[], pull, pull @ [Created options None]} \<or>
             (\<exists>cid. made \<in> {pull @ [Created options (Some cid), Started cid],
                             pull @ [Created options (Some cid), Started cid, Removed cid]})))"
  by (simp only: start_calls_def managed_for_labels list_ex_iff)

locale docker_runtime =
  fixes rt :: "'w DockerRuntime"
  assumes list_silent: "silent (run_ListContainers rt)"
    and version_silent: "silent (run_Version rt)"
    and probe_silent: "run_Compatibility rt = Some probe \<Longrightarrow> silent probe"
    and unlisted: "run_ListContainers rt st = (Inl e, st1) \<Longrightarrow>
          run_StartManagedContainer rt p st = (Inl e, st1) \<and> run_StopManagedJob rt q st = (Inl e, st1)"
    and stop_own: "run_ListContainers rt st = (Inr cs, st1) \<Longrightarrow> run_StopManagedJob rt q st = (r, st') \<Longrightarrow>
          \<exists>made. dk_calls st' = dk_calls st @ made \<and> list_all (stops_own cs q) made"
    and start_own: "run_ListContainers rt st = (Inr cs, st1) \<Longrightarrow> run_StartManagedContainer rt p st = (r, st') \<Longrightarrow>
          \<exists>made. dk_calls st' = dk_calls st @ made \<and> start_calls cs p made"
begin

lemma collect_silent:
  assumes "inv_docker c = Some rt \<or> inv_docker c = None" and "collectSources c base st = (s, st')"
  shows "dk_calls st' = dk_calls st"
proof -
  have probe: "dk_calls (snd (probe_docker rt s0 st0)) = dk_calls st0" for s0 st0
    using silent_calls [OF version_silent] silent_calls [OF probe_silent]
    by (auto simp: probe_docker_def split: option.splits prod.splits sum.splits)
  show ?thesis
    using assms probe silent_calls [OF list_silent]
    by (auto simp: collectSources_def read_docker_def Let_def split: option.splits prod.splits sum.splits if_splits)
      (metis snd_conv)+
qed

lemma snapshot_silent:
  assumes "inv_docker c = Some rt \<or> inv_docker c = None" and "collector_Snapshot c n st = (r, st')"
  shows "dk_calls st' = dk_calls st"
  using assms collect_silent
  by (auto simp: collector_Snapshot_def Let_def split: if_splits prod.splits option.splits)

lemma available_silent:
  assumes "inv_docker c = Some rt \<or> inv_docker c = None" and "GPUsAvailable c us j st = (r, st')"
  shows "dk_calls st' = dk_calls st"
  using assms snapshot_silent
  by (auto simp: GPUsAvailable_def and_then_def raise_def yield_def split: if_splits prod.splits sum.splits option.splits)

end

section \<open>The engine keeps the contract\<close>

lemma stop_all_confined: "confined (stops_own items p) (stop_all api p items m)"
proof -
  have "set items \<subseteq> set cs \<Longrightarrow> confined (stops_own cs p) (stop_all api p items m)" for cs
    by (induction items arbitrary: m)
      (auto simp: Let_def intro!: confined_intros stops_ownI)
  then show ?thesis by simp
qed

lemma StopManagedJob_own:
  assumes "engine_ListContainers api st = (Inr cs, st1)" and "StopManagedJob api p st = (r, st')"
  shows "\<exists>made. dk_calls st' = dk_calls st @ made \<and> list_all (stops_own cs p) made"
proof -
  let ?rest = "and_then (stop_all api p cs '''') (\<lambda>matched.
       if spp_ContainerID p \<noteq> '''' \<and> list_ex (\<lambda>c. rtc_ID c = spp_ContainerID p) cs \<and> matched = ''''
       then raise LegacyTarget else yield matched)"
  have "confined (stops_own cs p) ?rest"
    by (intro confined_intros stop_all_confined) (simp split: if_split)
  moreover have "?rest st1 = (r, st')"
    using assms(2) unfolding StopManagedJob_def and_then_simps(1) [where m = "engine_ListContainers api", OF assms(1)] .
  ultimately obtain made where "dk_calls st' = dk_calls st1 @ made" "list_all (stops_own cs p) made"
    by (rule confinedE)
  with silent_calls [OF ListContainers_silent assms(1)] show ?thesis by auto
qed

lemma invoke_calls: "invoke k f st = (r, st') \<Longrightarrow> dk_calls st' = dk_calls st @ [k]"
  by (auto simp: invoke_def split: prod.splits)

lemma remove_after_calls: "remove_after api cid e st = (r, st') \<Longrightarrow> isl r \<and> dk_calls st' = dk_calls st @ [Removed cid]"
  by (cases "invoke (Removed cid) (api_ContainerRemove api cid) st" rule: prod.exhaust)
    (auto simp: remove_after_def dest: invoke_calls split: sum.splits)

lemma start_or_remove_calls:
  assumes "or_else (invoke (Started cid) (api_ContainerStart api cid)) (remove_after api cid) st = (r, st')"
  shows "dk_calls st' = dk_calls st @ [Started cid] \<or> dk_calls st' = dk_calls st @ [Started cid, Removed cid]"
proof -
  obtain r1 st1 where s: "invoke (Started cid) (api_ContainerStart api cid) st = (r1, st1)" by fastforce
  show ?thesis
  proof (cases r1)
    case (Inl e)
    with assms s have "remove_after api cid e st1 = (r, st')" by (simp add: or_else_def)
    with invoke_calls [OF s] show ?thesis by (simp add: remove_after_calls)
  next
    case (Inr u)
    with assms s have "st' = st1" by (simp add: or_else_def)
    with invoke_calls [OF s] show ?thesis by simp
  qed
qed

lemma ensure_image_calls:
  assumes "ensure_image api img st = (r, st')"
  shows "dk_calls st' = dk_calls st \<or> dk_calls st' = dk_calls st @ [Pulled img]"
proof -
  obtain i w where i: "api_ImageInspect api img (dk_world st) = (i, w)" by fastforce
  show ?thesis
  proof (cases i)
    case ImageNotFound
    with assms i have "or_else (invoke (Pulled img) (api_ImagePull api img))
        (\<lambda>e. raise (Wrapped (''pull image '' @ quoted img) e)) (st\<lparr>dk_world := w\<rparr>) = (r, st')"
      by (simp add: ensure_image_def)
    then show ?thesis
      by (auto simp: or_else_def invoke_def raise_def split: prod.splits sum.splits)
  qed (use assms i in \<open>auto simp: ensure_image_def\<close>)
qed

lemma create_container_calls:
  assumes "create_container api options st = (r, st')"
  shows "dk_calls st' = dk_calls st @ [Created options (case r of Inl e \<Rightarrow> None | Inr cid \<Rightarrow> Some cid)]"
  using assms by (auto simp: create_container_def split: prod.splits sum.splits)

lemma create_and_start_calls:
  assumes "create_and_start api p st = (r, st')"
  shows "\<exists>made. dk_calls st' = dk_calls st @ made \<and> (\<exists>pull \<in> {[], [Pulled (stp_Image p)]}.
           made \<in> {[], pull, pull @ [Created (create_options p) None]} \<or>
           (\<exists>cid. made \<in> {pull @ [Created (create_options p) (Some cid), Started cid],
                           pull @ [Created (create_options p) (Some cid), Started cid, Removed cid]}))"
proof -
  obtain r1 st1 where e: "ensure_image api (stp_Image p) st = (r1, st1)" by fastforce
  then obtain pull where pull: "pull \<in> {[], [Pulled (stp_Image p)]}" "dk_calls st1 = dk_calls st @ pull"
    using ensure_image_calls [OF e] by (metis append_Nil2 insertI1 insertI2)
  show ?thesis
  proof (cases r1)
    case (Inl x)
    with assms e have "st' = st1" by (simp add: create_and_start_def and_then_def)
    with pull show ?thesis by (intro exI [of _ pull] conjI bexI [of _ pull]) auto
  next
    case (Inr x)
    let ?o = "create_options p"
    let ?go = "\<lambda>cid. or_else (invoke (Started cid) (api_ContainerStart api cid)) (remove_after api cid)"
    obtain r2 st2 where c: "create_container api ?o st1 = (r2, st2)" by fastforce
    have run: "(r, st') = and_then (create_container api ?o) (\<lambda>cid. and_then (?go cid) (\<lambda>_. yield cid)) st1"
      using assms unfolding create_and_start_def and_then_simps(1) [where m = "ensure_image api (stp_Image p)", OF e [unfolded Inr]] by simp
    show ?thesis
    proof (cases r2)
      case (Inl y)
      with run c have "st' = st2" by (simp add: and_then_def)
      with create_container_calls [OF c] pull Inl show ?thesis
        by (intro exI [of _ "pull @ [Created ?o None]"] conjI bexI [of _ pull]) simp_all
    next
      case (Inr cid)
      obtain r3 st3 where g: "?go cid st2 = (r3, st3)" by fastforce
      have "st' = st3"
        using run c Inr g by (cases r3) (simp_all add: and_then_def yield_def)
      with start_or_remove_calls [OF g] create_container_calls [OF c] pull Inr
      obtain made where made: "dk_calls st' = dk_calls st @ made"
        "made \<in> {pull @ [Created ?o (Some cid), Started cid], pull @ [Created ?o (Some cid), Started cid, Removed cid]}"
        by auto
      with pull(1) show ?thesis by (intro exI [of _ made] conjI bexI [of _ pull] disjI2 exI [of _ cid])
    qed
  qed
qed

lemma StartManagedContainer_own:
  assumes "engine_ListContainers api st = (Inr cs, st1)" and "StartManagedContainer api p st = (r, st')"
  shows "\<exists>made. dk_calls st' = dk_calls st @ made \<and> start_calls cs p made"
proof (cases "List.find (managed_for (stp_JobID p)) cs")
  case None
  then have "create_and_start api p st1 = (r, st')"
    using assms(2) unfolding StartManagedContainer_def and_then_simps(1) [where m = "engine_ListContainers api", OF assms(1)] by simp
  moreover from None have "\<not> list_ex (managed_for (stp_JobID p)) cs"
    by (auto simp: find_None_iff list_ex_iff)
  ultimately
  show ?thesis
    using create_and_start_calls [of api p st1 r st'] silent_calls [OF ListContainers_silent assms(1)] made_for_create [of p]
    unfolding start_calls_managed by auto
next
  case (Some item)
  then have item: "item \<in> set cs" "managed_for (stp_JobID p) item"
    using find_SomeD by fast+
  then have ex: "list_ex (managed_for (stp_JobID p)) cs" by (auto simp: list_ex_iff)
  have same: "dk_calls st1 = dk_calls st"
    using silent_calls [OF ListContainers_silent assms(1)] .
  have run: "(r, st') = (if rtc_State item = ''created''
       then and_then (or_else (invoke (Started (rtc_ID item)) (api_ContainerStart api (rtc_ID item)))
              (\<lambda>e. raise (Wrapped (''restart existing managed container '' @ rtc_ID item) e)))
            (\<lambda>_. yield (rtc_ID item))
       else yield (rtc_ID item)) st1"
    using assms(2) Some unfolding StartManagedContainer_def and_then_simps(1) [where m = "engine_ListContainers api", OF assms(1)] by simp
  show ?thesis
  proof (cases "rtc_State item = ''created''")
    case True
    obtain r1 st2 where i: "invoke (Started (rtc_ID item)) (api_ContainerStart api (rtc_ID item)) st1 = (r1, st2)"
      by fastforce
    with True run have "st' = st2"
      by (cases r1) (simp_all add: and_then_def or_else_def raise_def yield_def)
    with invoke_calls [OF i] same have "dk_calls st' = dk_calls st @ [Started (rtc_ID item)]" by simp
    moreover from True item ex have "start_calls cs p [Started (rtc_ID item)]"
      unfolding start_calls_managed by auto
    ultimately show ?thesis by blast
  next
    case False
    with run same ex show ?thesis
      by (intro exI [of _ "[]"]) (simp add: start_calls_managed yield_def)
  qed
qed

interpretation engine: docker_runtime "engine_runtime api" for api
proof
  show "silent (run_ListContainers (engine_runtime api))"
    by (simp add: engine_runtime_def ListContainers_silent)
  show "silent (run_Version (engine_runtime api))"
    by (simp add: engine_runtime_def Version_silent)
  show "silent probe" if "run_Compatibility (engine_runtime api) = Some probe" for probe
    using that Compatibility_silent by (auto simp: engine_runtime_def)
  show "run_StartManagedContainer (engine_runtime api) p st = (Inl e, st1) \<and>
      run_StopManagedJob (engine_runtime api) q st = (Inl e, st1)"
    if "run_ListContainers (engine_runtime api) st = (Inl e, st1)" for st e st1 p q
    using that by (simp add: engine_runtime_def StartManagedContainer_def StopManagedJob_def and_then_def)
qed (use StopManagedJob_own StartManagedContainer_own in \<open>simp_all add: engine_runtime_def\<close>)

end
