(* ===== verification/Inventory_Laws.thy ===== *)
theory Inventory_Laws
  imports Agent_Laws
begin

text \<open>
  What \<open>GPUsAvailable\<close> guarantees, stated over what Docker and NVML said: a GPU that passes is known,
  healthy, granted to no running container but the job's own, and used by no process outside it. The
  report between the sources and the check may only add grants to a container, never drop one.
\<close>

section \<open>Grants\<close>

lemma set_appendUnique: "set (appendUnique vs v) = (if v = '''' then set vs else insert v (set vs))"
  by (auto simp: appendUnique_def)

lemma set_uniqueStrings: "set (uniqueStrings vs) = TrimSpace ` set vs - {''''}"
proof -
  have "set (foldl (\<lambda>acc v. appendUnique acc (TrimSpace v)) acc vs) =
      set acc \<union> (TrimSpace ` set vs - {''''})" for acc
    by (induction vs arbitrary: acc) (auto simp: set_appendUnique)
  from this [of "[]"] show ?thesis by (simp add: uniqueStrings_def)
qed

text \<open>May a container use the GPU \<open>u\<close>? Yes where it is granted by UUID or by index, and whenever its
  grant is unbounded or names a device NVML does not know.\<close>

definition unresolved :: "WireGPU list \<Rightarrow> RuntimeContainer \<Rightarrow> bool" where
  "unresolved gpus k \<longleftrightarrow> rtc_UnboundedGPUAccess k \<or>
     list_ex (\<lambda>i. List.find (\<lambda>g. wg_Index g = i) gpus = None) (rtc_GPUIndexes k) \<or>
     list_ex (\<lambda>v. TrimSpace v \<noteq> '''' \<and> \<not> known_uuid gpus (TrimSpace v)) (rtc_GPUUUIDs k)"

definition may_use :: "WireGPU list \<Rightarrow> RuntimeContainer \<Rightarrow> string \<Rightarrow> bool" where
  "may_use gpus k u \<longleftrightarrow> unresolved gpus k \<or> u \<in> TrimSpace ` set (rtc_GPUUUIDs k) \<or>
     list_ex (\<lambda>i. map_option wg_UUID (List.find (\<lambda>g. wg_Index g = i) gpus) = Some u) (rtc_GPUIndexes k)"

lemma resolve_indexes_unbounded:
  "snd (resolve_indexes gpus is (us, b)) \<longleftrightarrow> b \<or> list_ex (\<lambda>i. List.find (\<lambda>g. wg_Index g = i) gpus = None) is"
  by (induction "is" arbitrary: us b) (auto split: option.splits)

lemma resolve_indexes_uuids:
  "set us \<subseteq> set (fst (resolve_indexes gpus is (us, b)))"
  "i \<in> set is \<Longrightarrow> List.find (\<lambda>g. wg_Index g = i) gpus = Some g \<Longrightarrow> wg_UUID g \<noteq> '''' \<Longrightarrow>
     wg_UUID g \<in> set (fst (resolve_indexes gpus is (us, b)))"
proof -
  show mono: "set us \<subseteq> set (fst (resolve_indexes gpus is (us, b)))" for us b "is"
    by (induction "is" arbitrary: us b) (fastforce simp: set_appendUnique split: option.splits if_splits)+
  show "i \<in> set is \<Longrightarrow> List.find (\<lambda>g. wg_Index g = i) gpus = Some g \<Longrightarrow> wg_UUID g \<noteq> '''' \<Longrightarrow>
     wg_UUID g \<in> set (fst (resolve_indexes gpus is (us, b)))"
  proof (induction "is" arbitrary: us b)
    case Nil
    then show ?case by simp
  next
    case (Cons j js)
    show ?case
    proof (cases "i = j")
      case True
      with Cons.prems have "wg_UUID g \<in> set (appendUnique us (wg_UUID g))" by (simp add: set_appendUnique)
      with True Cons.prems mono show ?thesis by fastforce
    next
      case False
      with Cons show ?thesis by (auto split: option.splits)
    qed
  qed
qed

lemma container_gpus_may_use:
  assumes "activeContainerState (rtc_State k)" and "may_use gpus k u" and "known_uuid gpus u" and "u \<noteq> ''''"
  shows "u \<in> set (container_gpus gpus k)"
proof -
  let ?r = "resolve_indexes gpus (rtc_GPUIndexes k) (uniqueStrings (rtc_GPUUUIDs k), rtc_UnboundedGPUAccess k)"
  obtain us b where r: "?r = (us, b)" by fastforce
  have all: "u \<in> set (map wg_UUID gpus)" using assms(3) by (auto simp: known_uuid_def list_ex_iff)
  show ?thesis
  proof (cases "b \<or> \<not> list_all (known_uuid gpus) us")
    case True
    with assms(1) all r show ?thesis by (auto simp: container_gpus_def)
  next
    case False
    have us: "set (uniqueStrings (rtc_GPUUUIDs k)) \<subseteq> set us"
      using resolve_indexes_uuids(1) [of "uniqueStrings (rtc_GPUUUIDs k)"] r by (metis fst_conv)
    have "\<not> b" using False by simp
    then have "\<not> rtc_UnboundedGPUAccess k"
      "\<not> list_ex (\<lambda>i. List.find (\<lambda>g. wg_Index g = i) gpus = None) (rtc_GPUIndexes k)"
      using resolve_indexes_unbounded [of gpus "rtc_GPUIndexes k" "uniqueStrings (rtc_GPUUUIDs k)" "rtc_UnboundedGPUAccess k"]
      by (simp_all add: r)
    moreover have "\<not> list_ex (\<lambda>v. TrimSpace v \<noteq> '''' \<and> \<not> known_uuid gpus (TrimSpace v)) (rtc_GPUUUIDs k)"
      using False us by (force simp: set_uniqueStrings list_ex_iff list_all_iff)
    ultimately have "\<not> unresolved gpus k" by (simp add: unresolved_def)
    with assms(2) consider "u \<in> TrimSpace ` set (rtc_GPUUUIDs k)"
      | i g where "i \<in> set (rtc_GPUIndexes k)" "List.find (\<lambda>g. wg_Index g = i) gpus = Some g" "wg_UUID g = u"
      by (auto simp: may_use_def list_ex_iff)
    then have "u \<in> set us"
    proof cases
      case 1
      with assms(4) us show ?thesis by (auto simp: set_uniqueStrings)
    next
      case 2
      with assms(4) resolve_indexes_uuids(2) [of i "rtc_GPUIndexes k" gpus g] r show ?thesis by (metis fst_conv)
    qed
    with False r show ?thesis by (auto simp: container_gpus_def)
  qed
qed

section \<open>The report only adds grants\<close>

definition reports :: "WireGPU list \<Rightarrow> RuntimeContainer \<Rightarrow> WireContainer \<Rightarrow> bool" where
  "reports gpus k c \<longleftrightarrow> wc_ID c = rtc_ID k \<and> wc_State c = rtc_State k \<and>
     (wc_Origin c, wc_JobID c) = classifyContainer (rtc_Labels k) \<and>
     set (container_gpus gpus k) \<subseteq> set (wc_GPUUUIDs c)"

lemma reports_joined:
  assumes "list_all2 (reports gpus) ks cs"
  shows "list_all2 (reports gpus) ks (fold (joined_process byID) ps cs)"
  using assms
proof (induction ps arbitrary: cs)
  case Nil
  then show ?case by simp
next
  case (Cons p ps)
  have "list_all2 (reports gpus) ks (joined_process byID p cs)"
  proof (cases "map_of byID (proc_ContainerID p)")
    case None
    with Cons.prems show ?thesis by (simp add: joined_process_def)
  next
    case (Some i)
    show ?thesis
    proof (cases "i < length cs")
      case True
      with Cons.prems have "reports gpus (ks ! i) (cs ! i)" by (simp add: list_all2_conv_all_nth)
      then have "reports gpus (ks ! i) ((cs ! i)\<lparr>wc_GPUUUIDs := appendUnique (wc_GPUUUIDs (cs ! i)) (proc_GPUUUID p)\<rparr>)"
        by (auto simp: reports_def set_appendUnique)
      with Cons.prems Some True show ?thesis
        by (auto simp: joined_process_def list_all2_conv_all_nth nth_list_update)
    qed (use Cons.prems Some in \<open>simp add: joined_process_def list_update_beyond\<close>)
  qed
  with Cons.IH show ?case by simp
qed

lemma snapshot_containers:
  "list_all2 (reports (src_gpus s)) (src_containers s) (wr_Containers (snapshot_report c n w s))"
proof -
  have "list_all2 (reports gpus) ks (map (wire_container gpus) ks)" for gpus ks
    by (simp add: list_all2_conv_all_nth reports_def wire_container_def)
  from reports_joined [OF this] have
    "list_all2 (reports gpus) ks (map sorted_uuids (fold (joined_process byID) ps (map (wire_container gpus) ks)))"
    for gpus ks byID ps
    by (simp add: list_all2_map2 sorted_uuids_def reports_def [abs_def])
  then show ?thesis by (simp add: snapshot_report_def Let_def)
qed

lemma snapshot_gpus:
  "wr_GPUs (snapshot_report c n w s) =
     map (observed_gpu (inv_policy c) (wr_Containers (snapshot_report c n w s))) (src_gpus s)"
  by (simp add: snapshot_report_def Let_def)

lemma observed_gpu_same [simp]:
  "wg_UUID (observed_gpu p cs g) = wg_UUID g" "wg_Healthy (observed_gpu p cs g) = wg_Healthy g"
  by (simp_all add: observed_gpu_def)

lemma known_healthyD: "known_healthy gpus u \<Longrightarrow> \<exists>g \<in> set gpus. wg_UUID g = u \<and> wg_Healthy g"
  by (auto simp: known_healthy_def split: option.splits dest!: find_SomeD)

lemma Snapshot_Inr:
  "collector_Snapshot c n st = (Inr r, st') \<longleftrightarrow> n \<noteq> 0 \<and>
     (\<exists>s. collectSources c (machine_base (inv_machineID c) (inv_platform c (dk_world st))) st = (s, st') \<and>
          inv_ctxErr c (dk_world st') = None \<and> r = snapshot_report c n (dk_world st') s)"
  by (auto simp: collector_Snapshot_def Let_def split: prod.splits option.splits)

lemma GPUsAvailable_Inr:
  "GPUsAvailable c wanted j st = (Inr u, st') \<longleftrightarrow>
     (\<exists>r caps. collector_Snapshot c 1 st = (Inr r, st') \<and> wr_Capabilities r = Some caps \<and> cap_ManagedExecutionReady caps \<and>
        (\<forall>u \<in> set (uniqueStrings wanted). known_healthy (wr_GPUs r) u \<and> \<not> gpu_occupied r j u))"
  by (auto simp: GPUsAvailable_def and_then_Inr raise_def yield_def find_None_iff split: option.splits if_splits)
    (fastforce simp: find_None_iff dest: find_SomeD)+

section \<open>The guarantee\<close>

text \<open>A running container of the job itself.\<close>

definition own_running :: "string \<Rightarrow> RuntimeContainer \<Rightarrow> bool" where
  "own_running j k \<longleftrightarrow> activeContainerState (rtc_State k) \<and> classifyContainer (rtc_Labels k) = (''MANAGED'', j)"

definition process_owner :: "'w InventoryCollector \<Rightarrow> 'w \<Rightarrow> sourceSnapshot \<Rightarrow> GPUProcess \<Rightarrow> string" where
  "process_owner c w s p = proc_ContainerID (attributed (map_option (\<lambda>r. r w) (inv_resolver c))
     (cap_DockerAvailable (src_capabilities s)) (index_containers 0 (src_containers s) []) p)"

lemma attributed_gpu [simp]: "proc_GPUUUID (attributed r d b p) = proc_GPUUUID p"
  by (simp add: attributed_def Let_def split: option.split sum.split)

lemma snapshot_processes:
  "p \<in> set (src_processes s) \<Longrightarrow>
     \<exists>q \<in> set (wr_Processes (snapshot_report c n w s)).
       proc_GPUUUID q = proc_GPUUUID p \<and> proc_ContainerID q = process_owner c w s p"
  by (auto simp: snapshot_report_def Let_def process_owner_def)

lemma own_container_reports: "reports gpus k c \<Longrightarrow> own_container j c \<longleftrightarrow> own_running j k"
  by (auto simp: reports_def own_container_def own_running_def)

lemma list_all2_left: "list_all2 P xs ys \<Longrightarrow> x \<in> set xs \<Longrightarrow> \<exists>y \<in> set ys. P x y"
  by (induction rule: list_all2_induct) auto

lemma list_all2_right: "list_all2 P xs ys \<Longrightarrow> y \<in> set ys \<Longrightarrow> \<exists>x \<in> set xs. P x y"
  by (induction rule: list_all2_induct) auto

lemma report_of:
  assumes "k \<in> set (src_containers s)"
  obtains d where "d \<in> set (wr_Containers (snapshot_report c n w s))" and "reports (src_gpus s) k d"
  using list_all2_left [OF snapshot_containers [of s c n w] assms] by blast

lemma reported_of:
  assumes "d \<in> set (wr_Containers (snapshot_report c n w s))"
  obtains k where "k \<in> set (src_containers s)" and "reports (src_gpus s) k d"
  using list_all2_right [OF snapshot_containers [of s c n w] assms] by blast

text \<open>
  C6. What a GPU that passed the check is free of.
\<close>

theorem available_gpus_are_free:
  assumes ok: "GPUsAvailable c wanted j st = (Inr (), st')" and u: "u \<in> set wanted" "TrimSpace u \<noteq> ''''"
  shows "\<exists>s. collectSources c (machine_base (inv_machineID c) (inv_platform c (dk_world st))) st = (s, st') \<and>
     cap_ManagedExecutionReady (src_capabilities s) \<and>
     (\<exists>g \<in> set (src_gpus s). wg_UUID g = TrimSpace u \<and> wg_Healthy g) \<and>
     (\<forall>k \<in> set (src_containers s).
        activeContainerState (rtc_State k) \<and> may_use (src_gpus s) k (TrimSpace u) \<longrightarrow> own_running j k) \<and>
     (\<forall>p \<in> set (src_processes s). proc_GPUUUID p = TrimSpace u \<longrightarrow>
        (\<exists>k \<in> set (src_containers s). own_running j k \<and> rtc_ID k = process_owner c (dk_world st') s p)) \<and>
     (\<forall>g \<in> set (src_gpus s). wg_UUID g = TrimSpace u \<longrightarrow> wg_State g \<noteq> ''OCCUPIED_UNKNOWN'' \<and>
        (pol_UnknownMemoryMiB (inv_policy c) \<le> wg_MemoryUsedMiB g \<or>
         float_le (pol_UnknownUtilizationPct (inv_policy c)) (Finite (wg_UtilizationPct g)) \<longrightarrow>
         (\<exists>k \<in> set (src_containers s). own_running j k)))"
proof -
  from ok obtain r caps where r: "collector_Snapshot c 1 st = (Inr r, st')" "wr_Capabilities r = Some caps"
    "cap_ManagedExecutionReady caps"
    and free: "\<forall>v \<in> set (uniqueStrings wanted). known_healthy (wr_GPUs r) v \<and> \<not> gpu_occupied r j v"
    unfolding GPUsAvailable_Inr by blast
  from r(1) obtain s where s: "collectSources c (machine_base (inv_machineID c) (inv_platform c (dk_world st))) st = (s, st')"
    and rs: "r = snapshot_report c 1 (dk_world st') s"
    unfolding Snapshot_Inr by blast
  let ?u = "TrimSpace u"
  from u have "?u \<in> set (uniqueStrings wanted)" by (simp add: set_uniqueStrings)
  with free have healthy: "known_healthy (wr_GPUs r) ?u" and unoccupied: "\<not> gpu_occupied r j ?u" by blast+
  from healthy have g: "\<exists>g \<in> set (src_gpus s). wg_UUID g = ?u \<and> wg_Healthy g"
    using known_healthyD [OF healthy] unfolding rs snapshot_gpus by fastforce
  then have known: "known_uuid (src_gpus s) ?u" by (auto simp: known_uuid_def list_ex_iff)
  have own: "own_container j d"
    if "d \<in> set (wr_Containers r)" "activeContainerState (wc_State d)" "?u \<in> set (wc_GPUUUIDs d)" for d
    using that unoccupied by (auto simp: gpu_occupied_def list_ex_iff)
  have containers: "own_running j k"
    if k: "k \<in> set (src_containers s)" "activeContainerState (rtc_State k)" "may_use (src_gpus s) k ?u" for k
  proof -
    obtain d where d: "d \<in> set (wr_Containers r)" "reports (src_gpus s) k d"
      using report_of [OF k(1)] unfolding rs by metis
    then have "?u \<in> set (wc_GPUUUIDs d)" "activeContainerState (wc_State d)"
      using container_gpus_may_use [OF k(2,3) known u(2)] k(2) by (auto simp: reports_def)
    with own [OF d(1)] d(2) show ?thesis by (simp add: own_container_reports)
  qed
  have processes: "\<exists>k \<in> set (src_containers s). own_running j k \<and> rtc_ID k = process_owner c (dk_world st') s p"
    if p: "p \<in> set (src_processes s)" "proc_GPUUUID p = ?u" for p
  proof -
    from snapshot_processes [OF p(1)] obtain q where q: "q \<in> set (wr_Processes r)" "proc_GPUUUID q = ?u"
      "proc_ContainerID q = process_owner c (dk_world st') s p"
      unfolding rs using p(2) by metis
    with unoccupied obtain d where d: "d \<in> set (wr_Containers r)" "own_container j d" "wc_ID d = proc_ContainerID q"
      by (auto simp: gpu_occupied_def list_ex_iff)
    from d(1) obtain k where "k \<in> set (src_containers s)" "reports (src_gpus s) k d"
      unfolding rs by (rule reported_of)
    with d q(3) show ?thesis by (auto simp: own_container_reports reports_def)
  qed
  have busy: "\<exists>k \<in> set (src_containers s). own_running j k"
    if h: "held_by_container (wr_Containers r) ?u"
  proof -
    from h obtain d where d: "d \<in> set (wr_Containers r)" "activeContainerState (wc_State d)" "?u \<in> set (wc_GPUUUIDs d)"
      by (auto simp: held_by_container_def list_ex_iff)
    from d(1) obtain k where "k \<in> set (src_containers s)" "reports (src_gpus s) k d"
      unfolding rs by (rule reported_of)
    with own [OF d] show ?thesis by (auto simp: own_container_reports)
  qed
  have state: "wg_State g \<noteq> ''OCCUPIED_UNKNOWN'' \<and>
      (pol_UnknownMemoryMiB (inv_policy c) \<le> wg_MemoryUsedMiB g \<or>
       float_le (pol_UnknownUtilizationPct (inv_policy c)) (Finite (wg_UtilizationPct g)) \<longrightarrow> held_by_container (wr_Containers r) ?u)"
    if "g \<in> set (src_gpus s)" "wg_UUID g = ?u" for g
  proof -
    have "wg_State (observed_gpu (inv_policy c) (wr_Containers r) g) \<noteq> ''OCCUPIED_UNKNOWN''"
      using unoccupied that by (auto simp: gpu_occupied_def list_ex_iff rs snapshot_gpus)
    with that show ?thesis by (auto simp: observed_gpu_def split: if_splits)
  qed
  have "cap_ManagedExecutionReady (src_capabilities s)"
    using r(2,3) by (simp add: rs snapshot_report_def Let_def)
  with s g containers processes busy state show ?thesis by blast
qed

end
