(* ===== verification/Agent_Runner.thy ===== *)
theory Agent_Runner
  imports Agent_Inventory
begin

text \<open>
  The agent process: \<open>internal/agent/executor.go\<close>, \<open>runner.go\<close> and \<open>state/file.go\<close>. The executor turns
  a command into calls of the runtime; the runner polls for commands, persists each result before it
  acknowledges it, reports inventory under a sequence number it persists first, and renews its
  identity. The loops of \<open>Run\<close> are ticks here: what a loop does when its timer fires is a function, and
  \<open>Agent_Journal\<close> lets the ticks happen in any order, with crashes in between. Calls of the control
  plane and the file system are parameters. What the process does to the outside is recorded as a
  list of events.
\<close>

section \<open>Executing a command\<close>

text \<open>A command as the agent decodes it; the type is a free string on the wire.\<close>

record AgentCommand =
  acm_ID :: string
  acm_Type :: string
  acm_Payload :: Payload

text \<open>\<open>ex_decodeError\<close> is the text of the JSON decoder's error for a payload of the wrong shape.\<close>

record 'w CommandExecutor =
  ex_docker :: "'w DockerRuntime option"
  ex_inventory :: "'w InventoryCollector"
  ex_decodeError :: "Payload \<Rightarrow> string"

definition failedAck :: "string \<Rightarrow> CommandAckRequest" where
  "failedAck message = \<lparr>ack_Succeeded = False, ack_Message = message, ack_ContainerID = ''''\<rparr>"

definition acked_with :: "string \<Rightarrow> string \<Rightarrow> CommandAckRequest" where
  "acked_with cid message = \<lparr>ack_Succeeded = True, ack_Message = message, ack_ContainerID = cid\<rparr>"

text \<open>A payload written for the other command has fields the target does not know, so
  \<open>strictUnmarshal\<close> refuses it.\<close>

fun start_payload :: "Payload \<Rightarrow> StartContainerPayload option" where
  "start_payload (StartPayload p) = Some p"
| "start_payload _ = None"

fun stop_payload :: "Payload \<Rightarrow> StopContainerPayload option" where
  "stop_payload (StopPayload p) = Some p"
| "stop_payload _ = None"

text \<open>A start without a Docker runtime never gets past \<open>GPUsAvailable\<close>.\<close>

definition execute_start ::
  "'w CommandExecutor \<Rightarrow> StartContainerPayload \<Rightarrow> 'w docker_state \<Rightarrow> CommandAckRequest \<times> 'w docker_state" where
  "execute_start e p st =
     (if TrimSpace (stp_JobID p) = '''' \<or> TrimSpace (stp_Image p) = '''' \<or> stp_GPUUUIDs p = []
      then (failedAck ''start payload requires jobId, image and gpuUuids'', st)
      else case GPUsAvailable (ex_inventory e) (stp_GPUUUIDs p) (stp_JobID p) st of
        (Inl err, st1) \<Rightarrow> (failedAck (error_text err), st1)
      | (Inr _, st1) \<Rightarrow>
          (case ex_docker e of
             None \<Rightarrow> (failedAck ''start managed container: no runtime'', st1)
           | Some rt \<Rightarrow>
               (case run_StartManagedContainer rt p st1 of
                  (Inl err, st2) \<Rightarrow> (failedAck (''start managed container: '' @ error_text err), st2)
                | (Inr cid, st2) \<Rightarrow> (acked_with cid ''managed container started'', st2))))"

definition execute_stop ::
  "'w DockerRuntime \<Rightarrow> StopContainerPayload \<Rightarrow> 'w docker_state \<Rightarrow> CommandAckRequest \<times> 'w docker_state" where
  "execute_stop rt p st =
     (if TrimSpace (spp_JobID p) = '''' then (failedAck ''stop payload requires jobId'', st)
      else case run_StopManagedJob rt p st of
        (Inl err, st1) \<Rightarrow> (failedAck (''stop managed container: '' @ error_text err), st1)
      | (Inr cid, st1) \<Rightarrow> (acked_with cid ''managed container stopped or already absent'', st1))"

definition Execute ::
  "'w CommandExecutor \<Rightarrow> AgentCommand \<Rightarrow> 'w docker_state \<Rightarrow> CommandAckRequest \<times> 'w docker_state" where
  "Execute e c st =
     (if acm_Type c = ''START_CONTAINER''
      then (case start_payload (acm_Payload c) of
              None \<Rightarrow> (failedAck (''invalid start payload: '' @ ex_decodeError e (acm_Payload c)), st)
            | Some p \<Rightarrow> execute_start e p st)
      else if acm_Type c = ''STOP_CONTAINER''
      then (case ex_docker e of
              None \<Rightarrow> (failedAck ''Docker unavailable'', st)
            | Some rt \<Rightarrow>
                (case stop_payload (acm_Payload c) of
                   None \<Rightarrow> (failedAck (''invalid stop payload: '' @ ex_decodeError e (acm_Payload c)), st)
                 | Some p \<Rightarrow> execute_stop rt p st))
      else (failedAck (''unsupported command type '' @ quoted (acm_Type c)), st))"

section \<open>The state file\<close>

record CommandResult =
  cr_Ack :: CommandAckRequest
  cr_CompletedAt :: gotime

record PersistentState =
  pst_AgentID :: string
  pst_AgentToken :: string
  pst_MachineID :: string
  pst_InventorySequence :: "64 word"
  pst_ProcessedCommands :: "(string, CommandResult) gomap"

definition empty_state :: PersistentState where
  "empty_state = \<lparr>pst_AgentID = '''', pst_AgentToken = '''', pst_MachineID = '''',
     pst_InventorySequence = 0, pst_ProcessedCommands = []\<rparr>"

text \<open>What \<open>Load\<close> finds: no file, one it cannot read or decode, or a state. The JSON of a state decodes
  to the state. \<open>Save\<close> writes beside the file and renames, so any failing step leaves the old file.\<close>

datatype state_file = NoFile | BadFile agent_error | GoodFile PersistentState

definition Load :: "state_file \<Rightarrow> agent_error + PersistentState" where
  "Load f = (case f of NoFile \<Rightarrow> Inr empty_state | BadFile e \<Rightarrow> Inl e | GoodFile p \<Rightarrow> Inr p)"

datatype io_step =
    EncodeState | MakeDirectory | CreateTemporary | ChangeMode | WriteTemporary | SyncTemporary
  | CloseTemporary | RenameTemporary

definition Save :: "(io_step \<Rightarrow> agent_error option) \<Rightarrow> PersistentState \<Rightarrow> state_file \<Rightarrow> agent_error option \<times> state_file" where
  "Save io p f =
     (case List.find (\<lambda>s. io s \<noteq> None)
             [EncodeState, MakeDirectory, CreateTemporary, ChangeMode, WriteTemporary, SyncTemporary,
              CloseTemporary, RenameTemporary] of
        Some s \<Rightarrow> (io s, f)
      | None \<Rightarrow> (None, GoodFile p))"

section \<open>The runner\<close>

record RunnerConfig =
  cfg_MachineID :: string
  cfg_Name :: string
  cfg_AgentVersion :: string
  cfg_Labels :: labels
  cfg_EnrollmentToken :: string
  cfg_HeartbeatEvery :: duration
  cfg_InventoryEvery :: duration
  cfg_CommandPollEvery :: duration
  cfg_CommandLimit :: int
  cfg_MaxCommandHistory :: int

record AgentRegisterRequest =
  arq_ProtocolVersion :: string
  arq_MachineID :: string
  arq_Name :: string
  arq_AgentVersion :: string
  arq_Labels :: labels
  arq_Capabilities :: "string list"
  arq_CapabilityReport :: "Capabilities option"

record 'w ControlPlaneClient =
  cli_Register :: "AgentRegisterRequest \<Rightarrow> string \<Rightarrow> 'w \<Rightarrow> (agent_error + string \<times> string) \<times> 'w"
  cli_Heartbeat :: "string \<Rightarrow> string \<Rightarrow> gotime \<Rightarrow> 'w \<Rightarrow> (agent_error + unit) \<times> 'w"
  cli_ReportInventory :: "string \<Rightarrow> string \<Rightarrow> WireReport \<Rightarrow> 'w \<Rightarrow> (agent_error + unit) \<times> 'w"
  cli_PollCommands :: "string \<Rightarrow> string \<Rightarrow> int \<Rightarrow> 'w \<Rightarrow> (agent_error + AgentCommand list) \<times> 'w"
  cli_AckCommand :: "string \<Rightarrow> string \<Rightarrow> string \<Rightarrow> CommandAckRequest \<Rightarrow> 'w \<Rightarrow> (agent_error + unit) \<times> 'w"

text \<open>\<open>run_io\<close> gives the outcome of the steps of one save; \<open>run_now\<close> is the clock.\<close>

record 'w Runner =
  run_config :: RunnerConfig
  run_client :: "'w ControlPlaneClient"
  run_inventory :: "'w InventoryCollector"
  run_executor :: "'w CommandExecutor"
  run_io :: "'w \<Rightarrow> (io_step \<Rightarrow> agent_error option) \<times> 'w"
  run_now :: "'w \<Rightarrow> gotime"

text \<open>The executor shares the collector of the runner, as in \<open>cmd/aiwm-agent\<close>, so the machine
  identity reaches both.\<close>

definition NewRunner ::
  "RunnerConfig \<Rightarrow> 'w ControlPlaneClient \<Rightarrow> 'w InventoryCollector \<Rightarrow> (Payload \<Rightarrow> string)
     \<Rightarrow> ('w \<Rightarrow> (io_step \<Rightarrow> agent_error option) \<times> 'w) \<Rightarrow> ('w \<Rightarrow> gotime) \<Rightarrow> 'w Runner" where
  "NewRunner config client inventory decodeError io now =
     (let c1 = (if cfg_CommandLimit config \<le> 0 then config\<lparr>cfg_CommandLimit := 10\<rparr> else config);
          c2 = (if cfg_MaxCommandHistory c1 \<le> 0 then c1\<lparr>cfg_MaxCommandHistory := 1000\<rparr> else c1);
          inventory' = inventory\<lparr>inv_machineID := cfg_MachineID c2\<rparr>
      in \<lparr>run_config = c2, run_client = client, run_inventory = inventory',
          run_executor = \<lparr>ex_docker = inv_docker inventory', ex_inventory = inventory', ex_decodeError = decodeError\<rparr>,
          run_io = io, run_now = now\<rparr>)"

datatype agent_event =
    Saved PersistentState
  | Executed AgentCommand CommandAckRequest
  | Acked string CommandAckRequest bool
  | Reported "64 word" bool
  | Registered string

record 'w agent =
  ag_docker :: "'w docker_state"
  ag_persistent :: PersistentState
  ag_stateErr :: "agent_error option"
  ag_cancelled :: bool
  ag_file :: state_file
  ag_events :: "agent_event list"

type_synonym ('w, 'a) runner = "'w agent \<Rightarrow> (agent_error + 'a) \<times> 'w agent"

abbreviation ag_world :: "'w agent \<Rightarrow> 'w" where
  "ag_world st \<equiv> dk_world (ag_docker st)"

definition set_world :: "'w \<Rightarrow> 'w agent \<Rightarrow> 'w agent" where
  "set_world w st = st\<lparr>ag_docker := (ag_docker st)\<lparr>dk_world := w\<rparr>\<rparr>"

definition emit :: "agent_event \<Rightarrow> 'w agent \<Rightarrow> 'w agent" where
  "emit ev st = st\<lparr>ag_events := ag_events st @ [ev]\<rparr>"

definition consult :: "('w \<Rightarrow> (agent_error + 'a) \<times> 'w) \<Rightarrow> ('w, 'a) runner" where
  "consult f st = (case f (ag_world st) of (r, w) \<Rightarrow> (r, set_world w st))"

text \<open>\<open>errors.Is\<close> looks through every wrapped error.\<close>

fun is_unauthorized :: "agent_error \<Rightarrow> bool" where
  "is_unauthorized AgentUnauthorized = True"
| "is_unauthorized (LocalState e) = is_unauthorized e"
| "is_unauthorized (Wrapped p e) = is_unauthorized e"
| "is_unauthorized (Joined e f) = (is_unauthorized e \<or> is_unauthorized f)"
| "is_unauthorized _ = False"

fun is_local_state :: "agent_error \<Rightarrow> bool" where
  "is_local_state (LocalState e) = True"
| "is_local_state (Wrapped p e) = is_local_state e"
| "is_local_state (Joined e f) = (is_local_state e \<or> is_local_state f)"
| "is_local_state _ = False"

section \<open>Persistence\<close>

definition saveLocked :: "'w Runner \<Rightarrow> ('w, unit) runner" where
  "saveLocked r st =
     (case ag_stateErr st of
        Some e \<Rightarrow> (Inl e, st)
      | None \<Rightarrow>
          (let (io, w) = run_io r (ag_world st);
               (failed, file) = Save io (ag_persistent st) (ag_file st);
               st1 = (set_world w st)\<lparr>ag_file := file\<rparr>
           in case failed of
                None \<Rightarrow> (Inr (), emit (Saved (ag_persistent st)) st1)
              | Some e \<Rightarrow> (Inl (LocalState e), st1\<lparr>ag_stateErr := Some (LocalState e), ag_cancelled := True\<rparr>)))"

definition stateFailure :: "('w, unit) runner" where
  "stateFailure st = (case ag_stateErr st of None \<Rightarrow> Inr () | Some e \<Rightarrow> Inl e, st)"

text \<open>The oldest entry of the history, as the loop over the map finds it.\<close>

fun older :: "string \<times> gotime \<Rightarrow> string \<times> CommandResult \<Rightarrow> string \<times> gotime" where
  "older (oid, t) (cid, res) =
     (if oid = '''' \<or> cr_CompletedAt res < t then (cid, cr_CompletedAt res) else (oid, t))"

definition oldest_entry :: "(string, CommandResult) gomap \<Rightarrow> string \<times> gotime" where
  "oldest_entry m = foldl older ('''', 0) m"

lemma foldl_older_in: "fst (foldl older a m) \<in> insert (fst a) (set (gokeys m))"
proof (induction m arbitrary: a)
  case Nil
  then show ?case by simp
next
  case (Cons x m)
  have "fst (older a x) \<in> {fst a, fst x}" by (cases a; cases x) simp
  with Cons [of "older a x"] show ?case by auto
qed

lemma oldest_entry_in:
  assumes "m \<noteq> []"
  shows "fst (oldest_entry m) \<in> set (gokeys m)"
proof -
  from assms obtain x m' where m: "m = x # m'" by (cases m) auto
  have "older ('''', 0) x = (fst x, cr_CompletedAt (snd x))" by (cases x) simp
  with m foldl_older_in [of "older ('''', 0) x" m'] show ?thesis by (simp add: oldest_entry_def)
qed

lemma length_delete_less: "k \<in> set (gokeys m) \<Longrightarrow> length (AList.delete k m) < length m"
proof (induction m)
  case Nil
  then show ?case by simp
next
  case (Cons a m)
  have "length (AList.delete k m) \<le> length m" by (simp add: length_delete_le)
  with Cons show ?case by (cases a) (auto simp: delete_simps)
qed

text \<open>\<open>for len(m) > max { delete(m, oldest) }\<close>; an empty map ends it, since \<open>NewRunner\<close> makes \<open>max\<close>
  positive.\<close>

function prune :: "int \<Rightarrow> (string, CommandResult) gomap \<Rightarrow> (string, CommandResult) gomap" where
  "prune limit m =
     (if int (length m) \<le> limit \<or> m = [] then m else prune limit (AList.delete (fst (oldest_entry m)) m))"
  by auto
termination
  by (relation "measure (length \<circ> snd)") (auto intro: length_delete_less oldest_entry_in)

declare prune.simps [simp del]

definition remember :: "'w Runner \<Rightarrow> string \<Rightarrow> CommandAckRequest \<Rightarrow> ('w, unit) runner" where
  "remember r cid ack st =
     (let res = \<lparr>cr_Ack = ack, cr_CompletedAt = run_now r (ag_world st)\<rparr>;
          m = prune (cfg_MaxCommandHistory (run_config r))
                (put cid res (pst_ProcessedCommands (ag_persistent st)))
      in saveLocked r (st\<lparr>ag_persistent := (ag_persistent st)\<lparr>pst_ProcessedCommands := m\<rparr>\<rparr>))"

section \<open>Identity and inventory\<close>

definition take_snapshot :: "'w Runner \<Rightarrow> 64 word \<Rightarrow> ('w, WireReport) runner" where
  "take_snapshot r n st =
     (case collector_Snapshot (run_inventory r) n (ag_docker st) of
        (res, dk) \<Rightarrow>
          (case res of Inr report \<Rightarrow> if ag_cancelled st then Inl (AgentError ''context canceled'') else Inr report
           | Inl e \<Rightarrow> Inl e,
           st\<lparr>ag_docker := dk\<rparr>))"

definition advertised :: "WireReport \<Rightarrow> string list" where
  "advertised report =
     (case wr_Capabilities report of
        None \<Rightarrow> []
      | Some c \<Rightarrow> (if cap_DockerAvailable c then [''docker-inventory''] else []) @
                  (if cap_GPUInventoryAvailable c then [''nvml-inventory''] else []) @
                  (if cap_ManagedExecutionReady c then [''managed-container-v1''] else []))"

definition registration_request :: "RunnerConfig \<Rightarrow> WireReport \<Rightarrow> AgentRegisterRequest" where
  "registration_request c report = \<lparr>arq_ProtocolVersion = ''v1'', arq_MachineID = cfg_MachineID c, arq_Name = cfg_Name c,
     arq_AgentVersion = cfg_AgentVersion c, arq_Labels = cfg_Labels c, arq_Capabilities = advertised report,
     arq_CapabilityReport = wr_Capabilities report\<rparr>"

definition adopt_identity :: "'w Runner \<Rightarrow> string \<times> string \<Rightarrow> ('w, unit) runner" where
  "adopt_identity r response st =
     or_else
       (saveLocked r)
       (\<lambda>e. raise (Wrapped ''persist agent identity'' e))
       (st\<lparr>ag_persistent := (ag_persistent st)\<lparr>pst_AgentID := fst response, pst_AgentToken := snd response\<rparr>\<rparr>)"

definition ensureRegistered :: "'w Runner \<Rightarrow> string \<Rightarrow> ('w, unit) runner" where
  "ensureRegistered r failedAgentID st =
     (let current = pst_AgentID (ag_persistent st) in
      if current \<noteq> '''' \<and> failedAgentID \<noteq> '''' \<and> current \<noteq> failedAgentID then (Inr (), st)
      else if current \<noteq> '''' \<and> failedAgentID = '''' then (Inr (), st)
      else
        and_then (or_else (take_snapshot r 1) (\<lambda>e. raise (Wrapped ''probe agent capabilities'' e))) (\<lambda>report.
        and_then (or_else (consult (cli_Register (run_client r) (registration_request (run_config r) report)
                                      (cfg_EnrollmentToken (run_config r))))
                    (\<lambda>e. raise (Wrapped ''register agent'' e))) (\<lambda>response.
        and_then (adopt_identity r response) (\<lambda>_ st1.
          (Inr (), emit (Registered (fst response)) st1)))) st)"

definition post_report :: "'w Runner \<Rightarrow> WireReport \<Rightarrow> ('w, unit) runner" where
  "post_report r report st =
     (case cli_ReportInventory (run_client r) (pst_AgentID (ag_persistent st)) (pst_AgentToken (ag_persistent st))
             report (ag_world st) of
        (res, w) \<Rightarrow> (res, emit (Reported (wr_Sequence report) (\<not> isl res)) (set_world w st)))"

definition send_report :: "'w Runner \<Rightarrow> WireReport \<Rightarrow> ('w, unit) runner" where
  "send_report r report st =
     (let failedID = pst_AgentID (ag_persistent st) in
      or_else (post_report r report)
        (\<lambda>e. if is_unauthorized e then and_then (ensureRegistered r failedID) (\<lambda>_. post_report r report)
             else raise e) st)"

definition reportInventory :: "'w Runner \<Rightarrow> ('w, unit) runner" where
  "reportInventory r st =
     (let sequence = pst_InventorySequence (ag_persistent st) + 1;
          st1 = st\<lparr>ag_persistent := (ag_persistent st)\<lparr>pst_InventorySequence := sequence\<rparr>\<rparr>
      in case saveLocked r st1 of
           (Inl e, st2) \<Rightarrow>
             (Inl e, st2\<lparr>ag_persistent := (ag_persistent st2)
                \<lparr>pst_InventorySequence := pst_InventorySequence (ag_persistent st2) - 1\<rparr>\<rparr>)
         | (Inr _, st2) \<Rightarrow> and_then (take_snapshot r sequence) (send_report r) st2)"

section \<open>Commands\<close>

definition command_result :: "'w Runner \<Rightarrow> AgentCommand \<Rightarrow> ('w, CommandAckRequest) runner" where
  "command_result r c st =
     (case map_of (pst_ProcessedCommands (ag_persistent st)) (acm_ID c) of
        Some res \<Rightarrow> (Inr (cr_Ack res), st)
      | None \<Rightarrow>
          (let (ack, dk) = Execute (run_executor r) c (ag_docker st);
               st1 = emit (Executed c ack) (st\<lparr>ag_docker := dk\<rparr>)
           in and_then (or_else (remember r (acm_ID c) ack)
                          (\<lambda>e. raise (Wrapped ''persist command result before ACK'' e)))
                (\<lambda>_. yield ack) st1))"

definition post_ack :: "'w Runner \<Rightarrow> string \<Rightarrow> CommandAckRequest \<Rightarrow> ('w, unit) runner" where
  "post_ack r cid ack st =
     (case cli_AckCommand (run_client r) (pst_AgentID (ag_persistent st)) (pst_AgentToken (ag_persistent st))
             cid ack (ag_world st) of
        (res, w) \<Rightarrow> (res, emit (Acked cid ack (\<not> isl res)) (set_world w st)))"

text \<open>\<open>ctx.Err()\<close>\<close>

definition context_alive :: "'w Runner \<Rightarrow> ('w, unit) runner" where
  "context_alive r st =
     (if ag_cancelled st then (Inl (AgentError ''context canceled''), st)
      else case inv_ctxErr (run_inventory r) (ag_world st) of Some e \<Rightarrow> (Inl e, st) | None \<Rightarrow> (Inr (), st))"

definition run_command :: "'w Runner \<Rightarrow> AgentCommand \<Rightarrow> ('w, unit) runner" where
  "run_command r c =
     and_then (context_alive r) (\<lambda>_.
     and_then stateFailure (\<lambda>_.
     and_then (command_result r c) (\<lambda>ack.
     and_then stateFailure (\<lambda>_.
     and_then (post_ack r (acm_ID c) ack) (\<lambda>_.
       or_else (reportInventory r) (\<lambda>e. if is_local_state e then raise e else yield ()))))))"

fun run_commands :: "'w Runner \<Rightarrow> AgentCommand list \<Rightarrow> ('w, unit) runner" where
  "run_commands r [] = yield ()"
| "run_commands r (c # cs) = and_then (run_command r c) (\<lambda>_. run_commands r cs)"

definition poll_commands :: "'w Runner \<Rightarrow> ('w, AgentCommand list) runner" where
  "poll_commands r st =
     consult (cli_PollCommands (run_client r) (pst_AgentID (ag_persistent st)) (pst_AgentToken (ag_persistent st))
                (cfg_CommandLimit (run_config r))) st"

definition pollAndExecute :: "'w Runner \<Rightarrow> ('w, unit) runner" where
  "pollAndExecute r =
     and_then stateFailure (\<lambda>_ st.
       case poll_commands r st of
         (Inl e, st1) \<Rightarrow>
           if is_unauthorized e
           then and_then (ensureRegistered r (pst_AgentID (ag_persistent st))) (\<lambda>_. reportInventory r) st1
           else (Inl e, st1)
       | (Inr commands, st1) \<Rightarrow> run_commands r commands st1)"

section \<open>Ticks\<close>

text \<open>One turn of \<open>heartbeatLoop\<close>; \<open>attempt\<close> counts the failures since the last success.\<close>

definition heartbeat :: "'w Runner \<Rightarrow> nat \<Rightarrow> ('w, unit) runner" where
  "heartbeat r attempt st =
     (let agentID = pst_AgentID (ag_persistent st) in
      and_then
        (or_else (consult (cli_Heartbeat (run_client r) agentID (pst_AgentToken (ag_persistent st))
                             (run_now r (ag_world st))))
           (\<lambda>e. if is_unauthorized e then ensureRegistered r agentID else raise e))
        (\<lambda>_. if 0 < attempt then reportInventory r else yield ()) st)"

text \<open>\<open>retryDelay\<close>: the doubling loop, the cap, and the jitter, a number up to half of the base.\<close>

fun doubled :: "nat \<Rightarrow> duration \<Rightarrow> duration" where
  "doubled 0 base = base"
| "doubled (Suc attempt) base = (if base < 30 * Second then doubled attempt (base * 2) else base)"

definition retry_base :: "duration \<Rightarrow> nat \<Rightarrow> duration" where
  "retry_base base attempt = min (60 * Second) (doubled attempt (if base < Second then Second else base))"

definition retryDelay :: "duration \<Rightarrow> nat \<Rightarrow> duration \<Rightarrow> duration" where
  "retryDelay base attempt jitter =
     retry_base base attempt div 2 + jitter mod (retry_base base attempt div 2 + 1)"

definition next_heartbeat :: "'w Runner \<Rightarrow> nat \<Rightarrow> bool \<Rightarrow> duration \<Rightarrow> duration \<times> nat" where
  "next_heartbeat r attempt failed jitter =
     (if failed then (retryDelay (cfg_HeartbeatEvery (run_config r)) attempt jitter, attempt + 1)
      else (cfg_HeartbeatEvery (run_config r), 0))"

section \<open>Starting\<close>

text \<open>\<open>Run\<close> up to the first registration: the state must belong to this machine and be writable.\<close>

definition boot_checks :: "'w Runner \<Rightarrow> PersistentState \<Rightarrow> agent_error option" where
  "boot_checks r p =
     (let machine = cfg_MachineID (run_config r) in
      if machine = '''' \<or>
         ((pst_AgentID p \<noteq> '''' \<or> pst_AgentToken p \<noteq> '''' \<or> pst_InventorySequence p \<noteq> 0 \<or>
           pst_ProcessedCommands p \<noteq> []) \<and> pst_MachineID p = '''')
      then Some (AgentError ''agent state requires a verifiable machine identity'')
      else if (pst_AgentID p = '''') \<noteq> (pst_AgentToken p = '''')
      then Some (AgentError ''agent state contains incomplete credentials'')
      else if pst_MachineID p \<noteq> '''' \<and> pst_MachineID p \<noteq> machine
      then Some (AgentError (''state belongs to machine '' @ quoted (pst_MachineID p) @
                             '', current machine is '' @ quoted machine))
      else None)"

definition boot :: "'w Runner \<Rightarrow> ('w, unit) runner" where
  "boot r st =
     (let st0 = st\<lparr>ag_persistent := empty_state, ag_stateErr := None, ag_cancelled := False\<rparr> in
      case Load (ag_file st) of
        Inl e \<Rightarrow> (Inl (Wrapped ''load agent state'' e), st0)
      | Inr p \<Rightarrow>
          (case boot_checks r p of
             Some e \<Rightarrow> (Inl e, st0)
           | None \<Rightarrow>
               (let p' = p\<lparr>pst_MachineID := cfg_MachineID (run_config r)\<rparr>;
                    (io, w) = run_io r (ag_world st);
                    (failed, file) = Save io p' (ag_file st);
                    st1 = (set_world w st0)\<lparr>ag_file := file\<rparr>
                in case failed of
                     Some e \<Rightarrow> (Inl (Wrapped ''initialize writable agent state'' e), st1)
                   | None \<Rightarrow> (Inr (), emit (Saved p') (st1\<lparr>ag_persistent := p'\<rparr>)))))"

text \<open>One attempt of the start-up loop, with the identity that was loaded.\<close>

definition first_contact :: "'w Runner \<Rightarrow> string \<Rightarrow> ('w, unit) runner" where
  "first_contact r loadedAgentID = and_then (ensureRegistered r loadedAgentID) (\<lambda>_. reportInventory r)"

end
