(* ===== verification/Agent_Journal.thy ===== *)
theory Agent_Journal
  imports Agent_Runner "HOL-Library.Sublist"
begin

text \<open>
  The life of an agent as a step relation: it boots from its state file, contacts the control plane,
  then lets its loops run in any order, and may halt or crash between any two events of a handler.
  The state file after a crash is what the last save wrote. The events of every life form a journal in
  which each event is \<open>legal\<close>: nothing whose result is on disk is executed, nothing is acknowledged
  that is not on disk, and no inventory goes out under a number that was accepted before.
\<close>

section \<open>Lives of an agent\<close>

datatype agent_mode = Halted | Starting string | Running nat

text \<open>The state the last save left on disk.\<close>

fun journal_step :: "PersistentState \<Rightarrow> agent_event \<Rightarrow> PersistentState" where
  "journal_step p (Saved q) = q"
| "journal_step p _ = p"

definition journal :: "agent_event list \<Rightarrow> PersistentState" where
  "journal evs = foldl journal_step empty_state evs"

fun is_saved :: "agent_event \<Rightarrow> bool" where
  "is_saved (Saved p) = True"
| "is_saved _ = False"

definition file_of :: "agent_event list \<Rightarrow> state_file" where
  "file_of evs = (if list_ex is_saved evs then GoodFile (journal evs) else NoFile)"

text \<open>What may run in a mode.\<close>

inductive handler :: "'w Runner \<Rightarrow> agent_mode \<Rightarrow> ('w, unit) runner \<Rightarrow> bool" for r where
  "handler r Halted (boot r)"
| "handler r (Starting l) (first_contact r l)"
| "handler r (Running n) (heartbeat r n)"
| "handler r (Running n) (pollAndExecute r)"
| "handler r (Running n) (reportInventory r)"

text \<open>The mode after a handler: a failure of the local state ends the process, other failures are
  retried, and a heartbeat counts them.\<close>

fun next_mode :: "agent_mode \<Rightarrow> bool \<Rightarrow> agent_error + unit \<Rightarrow> 'w agent \<Rightarrow> agent_mode" where
  "next_mode Halted beat (Inl e) st = Halted"
| "next_mode Halted beat (Inr _) st = Starting (pst_AgentID (ag_persistent st))"
| "next_mode (Starting l) beat (Inl e) st = (if is_local_state e then Halted else Starting l)"
| "next_mode (Starting l) beat (Inr _) st = Running 0"
| "next_mode (Running n) beat (Inl e) st = Running (if beat then n + 1 else n)"
| "next_mode (Running n) beat (Inr _) st = Running (if beat then 0 else n)"

inductive agent_step :: "'w Runner \<Rightarrow> agent_mode \<times> 'w agent \<Rightarrow> agent_mode \<times> 'w agent \<Rightarrow> bool" for r where
  tick: "handler r mode h \<Longrightarrow> h st = (res, st') \<Longrightarrow> agent_step r (mode, st) (next_mode mode beat res st', st')"
| halt: "agent_step r (mode, st) (Halted, st)"
| crash: "handler r mode h \<Longrightarrow> h st = (res, st') \<Longrightarrow> prefix (ag_events st) evs \<Longrightarrow> prefix evs (ag_events st') \<Longrightarrow>
    agent_step r (mode, st) (Halted, st'\<lparr>ag_events := evs, ag_file := file_of evs, ag_docker := dk\<rparr>)"
| outside: "agent_step r (mode, st) (mode, st\<lparr>ag_docker := dk\<rparr>)"

text \<open>A machine on which no agent has run.\<close>

definition fresh_agent :: "'w docker_state \<Rightarrow> 'w agent" where
  "fresh_agent dk = \<lparr>ag_docker = dk, ag_persistent = empty_state, ag_stateErr = None, ag_cancelled = False,
     ag_file = NoFile, ag_events = []\<rparr>"

inductive agent_reachable :: "'w Runner \<Rightarrow> agent_mode \<times> 'w agent \<Rightarrow> bool" for r where
  fresh: "agent_reachable r (Halted, fresh_agent dk)"
| step: "agent_reachable r s \<Longrightarrow> agent_step r s s' \<Longrightarrow> agent_reachable r s'"

section \<open>Legal journals\<close>

fun is_executed :: "agent_event \<Rightarrow> bool" where
  "is_executed (Executed c ack) = True"
| "is_executed _ = False"

abbreviation executions :: "agent_event list \<Rightarrow> int" where
  "executions evs \<equiv> int (length (filter is_executed evs))"

abbreviation results :: "PersistentState \<Rightarrow> string \<Rightarrow> CommandResult option" where
  "results p \<equiv> map_of (pst_ProcessedCommands p)"

text \<open>A command with this identifier was executed with this outcome.\<close>

definition carried_out :: "agent_event list \<Rightarrow> string \<Rightarrow> CommandAckRequest \<Rightarrow> bool" where
  "carried_out evs cid ack \<longleftrightarrow> (\<exists>c. acm_ID c = cid \<and> Executed c ack \<in> set evs)"

lemma carried_out_append: "carried_out a cid ack \<Longrightarrow> carried_out (a @ b) cid ack"
  by (auto simp: carried_out_def)

text \<open>An inventory number does not wrap in a life of fewer than \<open>2^64\<close> events.\<close>

abbreviation unwrapped :: "agent_event list \<Rightarrow> bool" where
  "unwrapped evs \<equiv> length evs < 2 ^ 64"

fun legal :: "int \<Rightarrow> agent_event list \<Rightarrow> agent_event \<Rightarrow> bool" where
  "legal limit evs (Saved p) \<longleftrightarrow>
     int (length (pst_ProcessedCommands p)) \<le> executions evs \<and>
     (executions evs \<le> limit \<longrightarrow> (\<forall>cid res. results (journal evs) cid = Some res \<longrightarrow> results p cid = Some res)) \<and>
     (\<forall>cid res. results p cid = Some res \<longrightarrow> results (journal evs) cid = Some res \<or> carried_out evs cid (cr_Ack res)) \<and>
     (unwrapped evs \<longrightarrow>
        pst_InventorySequence p = pst_InventorySequence (journal evs) \<or>
        pst_InventorySequence p = pst_InventorySequence (journal evs) + 1)"
| "legal limit evs (Executed c ack) \<longleftrightarrow> results (journal evs) (acm_ID c) = None"
| "legal limit evs (Acked cid ack ok) \<longleftrightarrow>
     (executions evs \<le> limit \<longrightarrow> (\<exists>res. results (journal evs) cid = Some res \<and> cr_Ack res = ack))"
| "legal limit evs (Reported n ok) \<longleftrightarrow>
     pst_InventorySequence (journal evs) = n \<and> (unwrapped evs \<longrightarrow> Reported n True \<notin> set evs)"
| "legal limit evs (Registered i) \<longleftrightarrow> True"

definition journal_ok :: "int \<Rightarrow> agent_event list \<Rightarrow> bool" where
  "journal_ok limit evs \<longleftrightarrow> (\<forall>a ev b. evs = a @ ev # b \<longrightarrow> legal limit a ev)"

lemma journal_Nil [simp]: "journal [] = empty_state"
  by (simp add: journal_def)

lemma journal_snoc [simp]: "journal (evs @ [ev]) = journal_step (journal evs) ev"
  by (simp add: journal_def)

lemma file_of_snoc [simp]:
  "file_of (evs @ [Saved p]) = GoodFile p"
  "\<not> is_saved ev \<Longrightarrow> file_of (evs @ [ev]) = file_of evs"
  by (auto simp: file_of_def elim: is_saved.elims)

lemma Load_file_of [simp]: "Load (file_of evs) = Inr (journal evs)"
proof -
  have "\<not> list_ex is_saved evs \<Longrightarrow> journal evs = empty_state"
  proof (induction evs rule: rev_induct)
    case (snoc ev evs)
    then show ?case by (cases ev) auto
  qed simp
  then show ?thesis by (simp add: Load_def file_of_def)
qed

lemma journal_ok_Nil [simp]: "journal_ok limit []"
  by (simp add: journal_ok_def)

lemma journal_ok_snoc [simp]: "journal_ok limit (evs @ [ev]) \<longleftrightarrow> journal_ok limit evs \<and> legal limit evs ev"
proof
  assume ok: "journal_ok limit (evs @ [ev])"
  then have "legal limit a e" if "evs = a @ e # b" for a e b
    using that unfolding journal_ok_def by (metis append.assoc append_Cons)
  with ok show "journal_ok limit evs \<and> legal limit evs ev"
    unfolding journal_ok_def by blast
next
  assume "journal_ok limit evs \<and> legal limit evs ev"
  then show "journal_ok limit (evs @ [ev])"
    unfolding journal_ok_def
    by (metis append_butlast_last_id butlast_append butlast_snoc last_appendR last_snoc list.distinct(1)
        butlast.simps(2) append.right_neutral list.inject last_ConsL)
qed

lemma journal_ok_prefix: "prefix evs' evs \<Longrightarrow> journal_ok limit evs \<Longrightarrow> journal_ok limit evs'"
  by (auto simp: journal_ok_def prefix_def)

section \<open>What a legal journal means\<close>

lemma executions_append: "executions (a @ b) = executions a + executions b"
  by simp

lemma journal_results_stay:
  assumes "journal_ok limit (a @ b)" and "executions (a @ b) \<le> limit" and "results (journal a) cid = Some res"
  shows "results (journal (a @ b)) cid = Some res"
  using assms
proof (induction b rule: rev_induct)
  case Nil
  then show ?case by simp
next
  case (snoc ev b)
  from snoc.prems(1) have ok: "journal_ok limit (a @ b)" "legal limit (a @ b) ev"
    using journal_ok_snoc [of limit "a @ b" ev] by simp_all
  moreover from snoc.prems(2) have limit: "executions (a @ b) \<le> limit" by (simp split: if_splits)
  ultimately have "results (journal (a @ b)) cid = Some res" using snoc.IH snoc.prems(3) by blast
  with ok(2) limit have "results (journal ((a @ b) @ [ev])) cid = Some res"
    unfolding journal_snoc by (cases ev) (simp_all del: all_simps ex_simps)
  then show ?case by simp
qed

lemma journal_carried_out:
  "journal_ok limit evs \<Longrightarrow> results (journal evs) cid = Some res \<Longrightarrow> carried_out evs cid (cr_Ack res)"
proof (induction evs arbitrary: res rule: rev_induct)
  case Nil
  then show ?case by (simp add: empty_state_def)
next
  case (snoc ev evs)
  then have "carried_out evs cid (cr_Ack res)" by (cases ev) auto
  then show ?case by (rule carried_out_append)
qed

lemma journal_sequence_le:
  assumes "journal_ok limit evs"
  shows "unwrapped evs \<Longrightarrow> unat (pst_InventorySequence (journal evs)) \<le> length evs"
  using assms
proof (induction evs rule: rev_induct)
  case Nil
  then show ?case by (simp add: empty_state_def)
next
  case (snoc ev evs)
  then have le: "unat (pst_InventorySequence (journal evs)) \<le> length evs" by simp
  show ?case
  proof (cases ev)
    case (Saved p)
    with snoc.prems consider "pst_InventorySequence p = pst_InventorySequence (journal evs)"
      | "pst_InventorySequence p = pst_InventorySequence (journal evs) + 1"
      by auto
    then show ?thesis
    proof cases
      case 1
      with le Saved show ?thesis by simp
    next
      case 2
      have "unat (pst_InventorySequence (journal evs) + 1) \<le> unat (pst_InventorySequence (journal evs)) + 1"
        by (metis unatSuc word_le_nat_alt add.commute le_refl plus_1_eq_Suc le_add1 unat_0 zero_le)
      with le 2 Saved show ?thesis by simp
    qed
  qed (use le in simp_all)
qed

lemma sequence_no_wrap:
  assumes "journal_ok limit evs" and "Suc (length evs) < 2 ^ 64"
  shows "pst_InventorySequence (journal evs) < pst_InventorySequence (journal evs) + 1"
proof -
  have "unat (pst_InventorySequence (journal evs)) < 2 ^ 64 - 1"
    using journal_sequence_le [OF assms(1)] assms(2) by simp
  then have "pst_InventorySequence (journal evs) \<noteq> - 1"
    by (auto simp: unsigned_minus_1_eq_mask mask_eq_exp_minus_1)
  then have "1 + pst_InventorySequence (journal evs) \<noteq> 0"
    by (metis add_eq_0_iff)
  then show ?thesis
    by (simp add: word_less_nat_alt unatSuc add.commute)
qed

lemma reported_le:
  assumes "journal_ok limit evs" and "unwrapped evs" and "Reported n ok \<in> set evs"
  shows "n \<le> pst_InventorySequence (journal evs)"
  using assms
proof (induction evs rule: rev_induct)
  case Nil
  then show ?case by simp
next
  case (snoc ev evs)
  show ?case
  proof (cases "ev = Reported n ok")
    case True
    with snoc.prems show ?thesis by simp
  next
    case False
    with snoc have le: "n \<le> pst_InventorySequence (journal evs)" by simp
    show ?thesis
    proof (cases ev)
      case (Saved p)
      with snoc.prems sequence_no_wrap [of limit evs]
      have "pst_InventorySequence (journal evs) \<le> pst_InventorySequence p"
        by (auto simp: less_imp_le)
      with le Saved show ?thesis by simp
    qed (use le in simp_all)
  qed
qed

lemma reports_ordered:
  assumes "journal_ok limit evs" and "unwrapped evs" and "evs = a @ Reported n ok # b @ Reported m ok' # c"
  shows "n \<le> m \<and> (ok \<longrightarrow> n < m)"
proof -
  let ?p = "a @ Reported n ok # b"
  have evs: "evs = ?p @ Reported m ok' # c" using assms(3) by simp
  with assms(1) have legal: "legal limit ?p (Reported m ok')" unfolding journal_ok_def by blast
  have "journal_ok limit ?p" "unwrapped ?p"
    using assms evs journal_ok_prefix [of ?p evs limit] by auto
  from reported_le [OF this, of n ok] legal have "n \<le> m" by simp
  moreover have "n \<noteq> m" if ok
    using legal that \<open>unwrapped ?p\<close> by auto
  ultimately show ?thesis by auto
qed

lemma acknowledged_once:
  assumes ok: "journal_ok limit evs" and limit: "executions evs \<le> limit" and evs: "evs = a @ Acked cid ack ok # b"
  shows "carried_out a cid ack \<and> (\<forall>c ack'. Executed c ack' \<in> set b \<longrightarrow> acm_ID c \<noteq> cid) \<and>
    (\<forall>ack' ok'. Acked cid ack' ok' \<in> set b \<longrightarrow> ack' = ack)"
proof -
  have exec: "executions x \<le> limit" if "prefix x evs" for x
    using that limit by (auto simp: prefix_def)
  from ok evs have "legal limit a (Acked cid ack ok)" unfolding journal_ok_def by blast
  with exec [of a] evs obtain res where res: "results (journal a) cid = Some res" "cr_Ack res = ack" by auto
  have later: "results (journal (a @ Acked cid ack ok # b1)) cid = Some res" if "b = b1 @ ev # b2" for b1 ev b2
    using that evs res journal_results_stay [of limit a "Acked cid ack ok # b1" cid res]
      journal_ok_prefix [OF _ ok, of "a @ Acked cid ack ok # b1"] exec [of "a @ Acked cid ack ok # b1"]
    by simp
  have legal: "legal limit (a @ Acked cid ack ok # b1) ev" if "b = b1 @ ev # b2" for b1 ev b2
    using that evs ok unfolding journal_ok_def by simp
  have "journal_ok limit a" using ok evs journal_ok_prefix [of a evs limit] by auto
  with res have "carried_out a cid ack" using journal_carried_out by blast
  moreover have "acm_ID c \<noteq> cid" if "Executed c ack' \<in> set b" for c ack'
    using that legal later by (metis legal.simps(2) option.distinct(1) split_list)
  moreover have "ack' = ack" if "Acked cid ack' ok' \<in> set b" for ack' ok'
  proof -
    from that obtain b1 b2 where b: "b = b1 @ Acked cid ack' ok' # b2" by (metis split_list)
    have "executions (a @ Acked cid ack ok # b1) \<le> limit"
      using exec [of "a @ Acked cid ack ok # b1"] evs b by simp
    with legal [OF b] later [OF b] res show "ack' = ack" by auto
  qed
  ultimately show ?thesis by blast
qed

end
