(* ===== verification/Agent_Life.thy ===== *)
theory Agent_Life
  imports Agent_Journal
begin

text \<open>
  Every handler of the runner keeps the journal legal, on success and on failure, so the journal of
  every reachable agent is legal; the properties of legal journals then hold for every life of an agent.
  The handlers are verified with pre- and postconditions: \<open>triple P m Q E\<close> says that \<open>m\<close> run in a state
  with \<open>P\<close> ends in \<open>Q\<close> when it returns a value and in \<open>E\<close> when it returns an error.
\<close>

section \<open>Pre- and postconditions\<close>

definition triple ::
  "('w agent \<Rightarrow> bool) \<Rightarrow> ('w, 'a) runner \<Rightarrow> ('a \<Rightarrow> 'w agent \<Rightarrow> bool) \<Rightarrow> ('w agent \<Rightarrow> bool) \<Rightarrow> bool" where
  "triple P m Q E \<longleftrightarrow>
     (\<forall>st res st'. P st \<longrightarrow> m st = (res, st') \<longrightarrow> (case res of Inl e \<Rightarrow> E st' | Inr v \<Rightarrow> Q v st'))"

lemma tripleI:
  assumes "\<And>st e st'. P st \<Longrightarrow> m st = (Inl e, st') \<Longrightarrow> E st'"
    and "\<And>st v st'. P st \<Longrightarrow> m st = (Inr v, st') \<Longrightarrow> Q v st'"
  shows "triple P m Q E"
  using assms by (simp add: triple_def split: sum.split)

lemma tripleD: "triple P m Q E \<Longrightarrow> P st \<Longrightarrow> m st = (res, st') \<Longrightarrow> case res of Inl e \<Rightarrow> E st' | Inr v \<Rightarrow> Q v st'"
  unfolding triple_def by blast

lemma triple_Inr: "triple P m Q E \<Longrightarrow> P st \<Longrightarrow> m st = (Inr v, st') \<Longrightarrow> Q v st'"
  by (drule (2) tripleD) simp

lemma triple_Inl: "triple P m Q E \<Longrightarrow> P st \<Longrightarrow> m st = (Inl e, st') \<Longrightarrow> E st'"
  by (drule (2) tripleD) simp

lemma triple_then:
  assumes "triple P m R E" and "\<And>v. triple (R v) (f v) Q E"
  shows "triple P (and_then m f) Q E"
  unfolding triple_def
proof (intro allI impI)
  fix st res st'
  assume P: "P st" and run: "and_then m f st = (res, st')"
  obtain r1 st1 where m: "m st = (r1, st1)" by fastforce
  note first = tripleD [OF assms(1) P m]
  show "case res of Inl e \<Rightarrow> E st' | Inr v \<Rightarrow> Q v st'"
  proof (cases r1)
    case (Inl e)
    with m run have "res = Inl e" "st' = st1" by (simp_all add: and_then_def)
    with first Inl show ?thesis by simp
  next
    case (Inr v)
    with first have "R v st1" by simp
    moreover from m Inr run have "f v st1 = (res, st')" by (simp add: and_then_def)
    ultimately show ?thesis by (rule tripleD [OF assms(2)])
  qed
qed

lemma triple_else:
  assumes "triple P m Q R" and "\<And>e. triple R (h e) Q E"
  shows "triple P (or_else m h) Q E"
  unfolding triple_def
proof (intro allI impI)
  fix st res st'
  assume P: "P st" and run: "or_else m h st = (res, st')"
  obtain r1 st1 where m: "m st = (r1, st1)" by fastforce
  note first = tripleD [OF assms(1) P m]
  show "case res of Inl e \<Rightarrow> E st' | Inr v \<Rightarrow> Q v st'"
  proof (cases r1)
    case (Inl e)
    with first have "R st1" by simp
    moreover from m Inl run have "h e st1 = (res, st')" by (simp add: or_else_def)
    ultimately show ?thesis by (rule tripleD [OF assms(2)])
  next
    case (Inr v)
    with m run have "res = Inr v" "st' = st1" by (simp_all add: or_else_def)
    with first Inr show ?thesis by simp
  qed
qed

lemma triple_yield [simp]: "triple P (yield v) Q E \<longleftrightarrow> (\<forall>st. P st \<longrightarrow> Q v st)"
  by (simp add: triple_def yield_def)

lemma triple_raise [simp]: "triple P (raise e) Q E \<longleftrightarrow> (\<forall>st. P st \<longrightarrow> E st)"
  by (simp add: triple_def raise_def)

lemma triple_read: "(\<And>x. triple P (f x) Q E) \<Longrightarrow> triple P (\<lambda>st. f (g st) st) Q E"
  by (simp add: triple_def)

lemma triple_if: "(b \<Longrightarrow> triple P m Q E) \<Longrightarrow> (\<not> b \<Longrightarrow> triple P n Q E) \<Longrightarrow> triple P (if b then m else n) Q E"
  by simp

lemma triple_weaken:
  assumes "triple P m Q E" and "\<And>st. P' st \<Longrightarrow> P st" and "\<And>v st. Q v st \<Longrightarrow> Q' v st" and "\<And>st. E st \<Longrightarrow> E' st"
  shows "triple P' m Q' E'"
proof (rule tripleI)
  show "E' st'" if "P' st" "m st = (Inl e, st')" for st e st'
    using assms(4) [OF triple_Inl [OF assms(1) assms(2) [OF that(1)] that(2)]] .
  show "Q' v st'" if "P' st" "m st = (Inr v, st')" for st v st'
    using assms(3) [OF triple_Inr [OF assms(1) assms(2) [OF that(1)] that(2)]] .
qed

lemma triple_fact: "triple P m Q E \<Longrightarrow> triple (\<lambda>st. b \<and> P st) m (\<lambda>v st. b \<and> Q v st) E"
  by (rule tripleI) (auto dest: triple_Inl triple_Inr)

text \<open>An operation that keeps a predicate, whatever it returns.\<close>

abbreviation keeps :: "('w agent \<Rightarrow> bool) \<Rightarrow> ('w, 'a) runner \<Rightarrow> bool" where
  "keeps I m \<equiv> triple I m (\<lambda>_. I) I"

lemma agent_keeps_then: "keeps I m \<Longrightarrow> (\<And>v. keeps I (f v)) \<Longrightarrow> keeps I (and_then m f)"
  by (rule triple_then)

lemma keeps_else: "keeps I m \<Longrightarrow> (\<And>e. keeps I (h e)) \<Longrightarrow> keeps I (or_else m h)"
  by (rule triple_else)

lemma keeps_base: "keeps I (yield v)" "keeps I (raise e)"
  by simp_all

lemma agent_keepsD: "keeps I m \<Longrightarrow> I st \<Longrightarrow> m st = (res, st') \<Longrightarrow> I st'"
  by (drule (2) tripleD) (simp split: sum.splits)

section \<open>The invariant between handlers\<close>

definition live :: "int \<Rightarrow> 'w agent \<Rightarrow> bool" where
  "live limit st \<longleftrightarrow> journal_ok limit (ag_events st) \<and> ag_file st = file_of (ag_events st) \<and>
     (ag_stateErr st = None \<longrightarrow> ag_persistent st = journal (ag_events st))"

text \<open>What identity renewal leaves alone: the number of the last inventory and a bound on the reports
  that were accepted.\<close>

definition accepted :: "agent_event list \<Rightarrow> 64 word set" where
  "accepted evs = {n. Reported n True \<in> set evs}"

definition live_at :: "int \<Rightarrow> 64 word \<Rightarrow> 64 word set \<Rightarrow> 'w agent \<Rightarrow> bool" where
  "live_at limit n A st \<longleftrightarrow>
     live limit st \<and> pst_InventorySequence (journal (ag_events st)) = n \<and>
     (unwrapped (ag_events st) \<longrightarrow> accepted (ag_events st) \<subseteq> A)"

lemma live_docker [simp]:
  "live limit (st\<lparr>ag_docker := dk\<rparr>) = live limit st"
  "live_at limit n A (st\<lparr>ag_docker := dk\<rparr>) = live_at limit n A st"
  by (simp_all add: live_def live_at_def)

lemma set_world_sel [simp]:
  "ag_events (set_world w st) = ag_events st" "ag_persistent (set_world w st) = ag_persistent st"
  "ag_stateErr (set_world w st) = ag_stateErr st" "ag_file (set_world w st) = ag_file st"
  "ag_cancelled (set_world w st) = ag_cancelled st"
  by (simp_all add: set_world_def)

lemma live_world [simp]:
  "live limit (set_world w st) = live limit st" "live_at limit n A (set_world w st) = live_at limit n A st"
  by (simp_all add: set_world_def)

lemma results_length: "journal_ok limit evs \<Longrightarrow> int (length (pst_ProcessedCommands (journal evs))) \<le> executions evs"
proof (induction evs rule: rev_induct)
  case Nil
  then show ?case by (simp add: empty_state_def)
next
  case (snoc ev evs)
  then show ?case by (cases ev) simp_all
qed

lemma Save_outcome:
  assumes "Save io p f = (err, disk)"
  shows "disk = (if err = None then GoodFile p else f)"
proof (cases "List.find (\<lambda>s. io s \<noteq> None)
             [EncodeState, MakeDirectory, CreateTemporary, ChangeMode, WriteTemporary, SyncTemporary,
              CloseTemporary, RenameTemporary]")
  case None
  with assms show ?thesis by (simp only: Save_def) auto
next
  case (Some s)
  then have "io s \<noteq> None" by (rule find_SomeD [THEN conjunct2])
  with assms Some show ?thesis by (simp only: Save_def) auto
qed

text \<open>A save either appends the state to the journal or marks the state as failed.\<close>

lemma saveLocked_cases:
  assumes "saveLocked r st = (res, st')"
  obtains (failed) e where "res = Inl e" "ag_stateErr st' \<noteq> None" "ag_events st' = ag_events st"
      "ag_file st' = ag_file st" "ag_persistent st' = ag_persistent st"
  | (written) "res = Inr ()" "ag_stateErr st = None" "ag_stateErr st' = None"
      "ag_events st' = ag_events st @ [Saved (ag_persistent st)]"
      "ag_file st' = GoodFile (ag_persistent st)" "ag_persistent st' = ag_persistent st"
proof (cases "ag_stateErr st")
  case (Some e)
  with assms have "res = Inl e" "st' = st" by (simp_all add: saveLocked_def)
  with Some show ?thesis using failed by auto
next
  case None
  obtain io w where io: "run_io r (ag_world st) = (io, w)" by fastforce
  obtain err disk where sv: "Save io (ag_persistent st) (ag_file st) = (err, disk)" by fastforce
  show ?thesis
  proof (cases err)
    case (Some e)
    with Save_outcome [OF sv] have "disk = ag_file st" by simp
    moreover from Some None io sv assms have "res = Inl (LocalState e)"
      "st' = (set_world w st)\<lparr>ag_file := disk, ag_stateErr := Some (LocalState e), ag_cancelled := True\<rparr>"
      by (simp_all add: saveLocked_def)
    ultimately show ?thesis using failed by simp
  next
    assume err: "err = None"
    with Save_outcome [OF sv] have "disk = GoodFile (ag_persistent st)" by simp
    moreover from err None io sv assms have "res = Inr ()"
      "st' = emit (Saved (ag_persistent st)) ((set_world w st)\<lparr>ag_file := disk\<rparr>)"
      by (simp_all add: saveLocked_def)
    ultimately show ?thesis using written None by (simp add: emit_def)
  qed
qed

lemma saveLocked_live:
  assumes "journal_ok limit (ag_events st)" and "ag_file st = file_of (ag_events st)"
    and "ag_stateErr st = None \<Longrightarrow> legal limit (ag_events st) (Saved (ag_persistent st))"
    and "saveLocked r st = (res, st')"
  shows "live limit st'"
  using assms(4)
proof (cases rule: saveLocked_cases)
  case (failed e)
  with assms(1,2) show ?thesis by (auto simp: live_def)
next
  case written
  with assms(1-3) show ?thesis by (simp add: live_def)
qed

section \<open>The handlers\<close>

lemma consult_live_at: "triple (live_at limit n A) (consult f) (\<lambda>_. live_at limit n A) (live_at limit n A)"
  by (rule tripleI) (auto simp: consult_def split: prod.splits)

lemma take_snapshot_live_at:
  "triple (live_at limit n A) (take_snapshot r k) (\<lambda>_. live_at limit n A) (live_at limit n A)"
  by (rule tripleI) (auto simp: take_snapshot_def split: prod.splits)

lemma adopt_identity_live_at:
  "triple (live_at limit n A) (adopt_identity r resp) (\<lambda>_. live_at limit n A) (live_at limit n A)"
proof -
  let ?new = "\<lambda>st. st\<lparr>ag_persistent := (ag_persistent st)\<lparr>pst_AgentID := fst resp, pst_AgentToken := snd resp\<rparr>\<rparr>"
  have save: "live_at limit n A st'" if l: "live_at limit n A st" and s: "saveLocked r (?new st) = (res, st')" for st res st'
  proof -
    from l have live: "live limit st" by (simp add: live_at_def)
    then have "live limit st'"
      using results_length [of limit "ag_events st"]
      by (intro saveLocked_live [OF _ _ _ s]) (auto simp: live_def)
    with s l show ?thesis
      by (cases rule: saveLocked_cases) (auto simp: live_at_def live_def accepted_def)
  qed
  show ?thesis
    by (rule tripleI) (auto simp: adopt_identity_def or_else_def raise_def split: prod.splits sum.splits dest: save)
qed

lemma emit_registered_live_at: "live_at limit n A st \<Longrightarrow> live_at limit n A (emit (Registered i) st)"
  by (auto simp: live_at_def live_def emit_def accepted_def)

lemma ensureRegistered_live_at:
  "triple (live_at limit n A) (ensureRegistered r i) (\<lambda>_. live_at limit n A) (live_at limit n A)"
proof -
  let ?T = "and_then (or_else (take_snapshot r 1) (\<lambda>e. raise (Wrapped ''probe agent capabilities'' e))) (\<lambda>report.
        and_then (or_else (consult (cli_Register (run_client r) (registration_request (run_config r) report)
                                      (cfg_EnrollmentToken (run_config r))))
                    (\<lambda>e. raise (Wrapped ''register agent'' e))) (\<lambda>response.
        and_then (adopt_identity r response) (\<lambda>_ st1.
          (Inr (), emit (Registered (fst response)) st1))))"
  have emit: "triple (live_at limit n A) (\<lambda>st1. (Inr (), emit (Registered i) st1)) (\<lambda>_. live_at limit n A) (live_at limit n A)" for i
    by (simp add: triple_def emit_registered_live_at)
  have T: "triple (live_at limit n A) ?T (\<lambda>_. live_at limit n A) (live_at limit n A)"
    by (intro agent_keeps_then keeps_else keeps_base take_snapshot_live_at consult_live_at adopt_identity_live_at emit)
  show ?thesis
  proof (rule tripleI)
    fix st e st'
    assume l: "live_at limit n A st" and run: "ensureRegistered r i st = (Inl e, st')"
    from run have "?T st = (Inl e, st')" by (simp add: ensureRegistered_def Let_def split: if_splits)
    from triple_Inl [OF T l this] show "live_at limit n A st'" .
  next
    fix st v st'
    assume l: "live_at limit n A st" and run: "ensureRegistered r i st = (Inr v, st')"
    from run have "st' = st \<or> ?T st = (Inr v, st')" by (auto simp: ensureRegistered_def Let_def split: if_splits)
    with triple_Inr [OF T l] l show "live_at limit n A st'" by auto
  qed
qed

text \<open>An operation is sound when it keeps the invariant, whatever it returns.\<close>

lemma sound_live_at:
  fixes m :: "('w, 'a) runner"
  assumes "\<And>n A. keeps (live_at limit n A) m"
  shows "keeps (live limit) m"
proof -
  have "live limit st'" if "live limit st" "m st = (res, st')" for st res st'
    using agent_keepsD [OF assms _ that(2), of "pst_InventorySequence (journal (ag_events st))" UNIV]
      that(1) by (simp add: live_at_def)
  then show ?thesis by (intro tripleI)
qed

lemmas ensureRegistered_sound = sound_live_at [OF ensureRegistered_live_at]
lemmas consult_sound = sound_live_at [OF consult_live_at]

text \<open>A report may go out while its number is the last on disk and was not accepted yet.\<close>

abbreviation ready :: "int \<Rightarrow> 64 word \<Rightarrow> 'w agent \<Rightarrow> bool" where
  "ready limit n \<equiv> live_at limit n (- {n})"

lemma take_snapshot_ready:
  "triple (ready limit n) (take_snapshot r n) (\<lambda>report st. wr_Sequence report = n \<and> ready limit n st) (live limit)"
proof (rule tripleI)
  fix st e st'
  assume "ready limit n st" "take_snapshot r n st = (Inl e, st')"
  then show "live limit st'" by (auto simp: take_snapshot_def live_at_def split: prod.splits)
next
  fix st v st'
  assume ready: "ready limit n st" and run: "take_snapshot r n st = (Inr v, st')"
  from run have "wr_Sequence v = n"
    by (auto simp: take_snapshot_def collector_Snapshot_def snapshot_report_def Let_def
        split: prod.splits sum.splits if_splits option.splits)
  with agent_keepsD [OF take_snapshot_live_at ready run] show "wr_Sequence v = n \<and> ready limit n st'" by simp
qed

lemma emit_reported_live: "ready limit n st \<Longrightarrow> live limit (emit (Reported n ok) st)"
  by (auto simp: live_at_def live_def emit_def accepted_def)

lemma emit_refused_ready: "ready limit n st \<Longrightarrow> ready limit n (emit (Reported n False) st)"
  by (auto simp: live_at_def live_def emit_def accepted_def)

lemma post_report_live:
  "triple (\<lambda>st. wr_Sequence report = n \<and> ready limit n st) (post_report r report)
     (\<lambda>_. live limit) (\<lambda>st. wr_Sequence report = n \<and> ready limit n st)"
  by (rule tripleI)
    (auto simp: post_report_def intro!: emit_reported_live emit_refused_ready split: prod.splits)

lemma send_report_live:
  "triple (\<lambda>st. wr_Sequence report = n \<and> ready limit n st) (send_report r report) (\<lambda>_. live limit) (live limit)"
proof -
  let ?P = "\<lambda>st. wr_Sequence report = n \<and> ready limit n st"
  have again: "triple ?P (and_then (ensureRegistered r i) (\<lambda>_. post_report r report)) (\<lambda>_. live limit) (live limit)" for i
  proof (rule triple_then)
    show "triple ?P (ensureRegistered r i) (\<lambda>_. ?P) (live limit)"
      by (rule triple_weaken [OF triple_fact [OF ensureRegistered_live_at [of limit n "- {n}"]]]) (auto simp: live_at_def)
    show "triple ?P (post_report r report) (\<lambda>_. live limit) (live limit)" for v :: unit
      by (rule triple_weaken [OF post_report_live [of report n limit r]]) (auto simp: live_at_def)
  qed
  have all: "triple ?P (or_else (post_report r report)
        (\<lambda>e. if is_unauthorized e then and_then (ensureRegistered r i) (\<lambda>_. post_report r report) else raise e))
      (\<lambda>_. live limit) (live limit)" for i
    by (intro triple_else [OF post_report_live] triple_if again) (auto simp: live_at_def)
  show ?thesis
    unfolding send_report_def [abs_def] Let_def by (rule triple_read [OF all])
qed

text \<open>\<open>reportInventory\<close> persists the next number, which was never accepted.\<close>

lemma reportInventory_sound: "keeps (live limit) (reportInventory r)"
proof -
  have "live limit st'" if l: "live limit st" and run: "reportInventory r st = (res, st')" for st res st'
  proof -
    let ?n = "pst_InventorySequence (ag_persistent st) + 1"
    let ?st1 = "st\<lparr>ag_persistent := (ag_persistent st)\<lparr>pst_InventorySequence := ?n\<rparr>\<rparr>"
    obtain r1 st2 where s: "saveLocked r ?st1 = (r1, st2)" by fastforce
    have live2: "live limit st2"
      using l results_length [of limit "ag_events st"]
      by (intro saveLocked_live [OF _ _ _ s]) (auto simp: live_def)
    from s show ?thesis
    proof (cases rule: saveLocked_cases)
      case (failed e)
      with run s live2 show ?thesis by (auto simp: reportInventory_def Let_def live_def)
    next
      case written
      have seq: "pst_InventorySequence (journal (ag_events st2)) = ?n"
        using written by simp
      have before: "pst_InventorySequence (ag_persistent st) = pst_InventorySequence (journal (ag_events st))"
        using l written by (simp add: live_def)
      have "?n \<notin> accepted (ag_events st2)" if "unwrapped (ag_events st2)"
      proof
        assume "?n \<in> accepted (ag_events st2)"
        with written have "Reported ?n True \<in> set (ag_events st)" by (simp add: accepted_def)
        with l that written have "?n \<le> pst_InventorySequence (journal (ag_events st))"
          by (intro reported_le) (auto simp: live_def)
        moreover have "pst_InventorySequence (journal (ag_events st)) < ?n"
          unfolding before using l that written by (intro sequence_no_wrap) (auto simp: live_def)
        ultimately show False by simp
      qed
      with live2 seq have "ready limit ?n st2" by (auto simp: live_at_def)
      moreover from run s written have "and_then (take_snapshot r ?n) (send_report r) st2 = (res, st')"
        by (simp add: reportInventory_def Let_def)
      ultimately show ?thesis
        using tripleD [OF triple_then [OF take_snapshot_ready send_report_live]] by (fastforce split: sum.splits)
    qed
  qed
  then show ?thesis by (intro tripleI)
qed

text \<open>Commands. A result is on disk before it is acknowledged.\<close>

lemma prune_length: "length (prune limit m) \<le> length m"
proof (induction limit m rule: prune.induct)
  case (1 limit m)
  then show ?case
    using length_delete_le [of "fst (oldest_entry m)" m] unfolding prune.simps [of limit m]
    by (auto intro: le_trans)
qed

lemma prune_results: "map_of (prune limit m) cid = Some res \<Longrightarrow> map_of m cid = Some res"
proof (induction limit m rule: prune.induct)
  case (1 limit m)
  then show ?case
    unfolding prune.simps [of limit m] by (auto simp: delete_conv' split: if_splits)
qed

lemma prune_short: "int (length m) \<le> limit \<Longrightarrow> prune limit m = m"
  by (simp add: prune.simps)

definition stored :: "int \<Rightarrow> string \<Rightarrow> CommandAckRequest \<Rightarrow> 'w agent \<Rightarrow> bool" where
  "stored limit cid ack st \<longleftrightarrow> live limit st \<and>
     (executions (ag_events st) \<le> limit \<longrightarrow>
        (\<exists>res. results (journal (ag_events st)) cid = Some res \<and> cr_Ack res = ack))"

lemma remember_stored:
  fixes r :: "'w Runner"
  assumes "cfg_MaxCommandHistory (run_config r) = limit"
  shows "triple
     (\<lambda>st. live limit st \<and> carried_out (ag_events st) cid ack \<and>
        (ag_stateErr st = None \<longrightarrow> results (journal (ag_events st)) cid = None \<and>
             int (length (pst_ProcessedCommands (journal (ag_events st)))) < executions (ag_events st)))
     (remember r cid ack) (\<lambda>_. stored limit cid ack) (live limit)"
proof -
  have save: "live limit st' \<and> (res = Inr () \<longrightarrow> stored limit cid ack st')"
    if l: "live limit st" and made: "carried_out (ag_events st) cid ack" and new: "ag_stateErr st = None \<longrightarrow> results (journal (ag_events st)) cid = None \<and>
             int (length (pst_ProcessedCommands (journal (ag_events st)))) < executions (ag_events st)"
      and run: "remember r cid ack st = (res, st')" for st res st'
  proof -
    define entry where "entry = \<lparr>cr_Ack = ack, cr_CompletedAt = run_now r (ag_world st)\<rparr>"
    define m where "m = put cid entry (pst_ProcessedCommands (ag_persistent st))"
    let ?st = "st\<lparr>ag_persistent := (ag_persistent st)\<lparr>pst_ProcessedCommands := prune limit m\<rparr>\<rparr>"
    from run assms have s: "saveLocked r ?st = (res, st')" by (simp add: remember_def Let_def entry_def m_def)
    have len: "int (length m) \<le> executions (ag_events st)" if "ag_stateErr st = None"
      using that new l length_put [of cid entry "pst_ProcessedCommands (ag_persistent st)"]
      by (simp add: m_def live_def)
    have keep: "prune limit m = m" if "ag_stateErr st = None" "executions (ag_events st) \<le> limit"
      using len that by (intro prune_short) simp
    have legal: "legal limit (ag_events ?st) (Saved (ag_persistent ?st))" if "ag_stateErr ?st = None"
    proof -
      have "results (journal (ag_events st)) i = Some x \<or> carried_out (ag_events st) i (cr_Ack x)"
        if "map_of (prune limit m) i = Some x" for i x
        using prune_results [OF that] made l \<open>ag_stateErr ?st = None\<close>
        by (auto simp: m_def entry_def live_def split: if_splits)
      with that l new len keep prune_length [of limit m] show ?thesis by (auto simp: live_def m_def)
    qed
    have live': "live limit st'"
      using l legal by (intro saveLocked_live [OF _ _ _ s]) (auto simp: live_def)
    show ?thesis
      using s
    proof (cases rule: saveLocked_cases)
      case written
      with keep live' show ?thesis by (auto simp: stored_def m_def entry_def)
    qed (use live' in simp)
  qed
  show ?thesis
  proof (rule tripleI)
    fix st v st'
    assume P: "live limit st \<and> carried_out (ag_events st) cid ack \<and>
        (ag_stateErr st = None \<longrightarrow> results (journal (ag_events st)) cid = None \<and>
             int (length (pst_ProcessedCommands (journal (ag_events st)))) < executions (ag_events st))"
      and run: "remember r cid ack st = (Inr v, st')"
    show "stored limit cid ack st'" using save [of st "Inr v" st'] P run by auto
  next
    fix st e st'
    assume P: "live limit st \<and> carried_out (ag_events st) cid ack \<and>
        (ag_stateErr st = None \<longrightarrow> results (journal (ag_events st)) cid = None \<and>
             int (length (pst_ProcessedCommands (journal (ag_events st)))) < executions (ag_events st))"
      and run: "remember r cid ack st = (Inl e, st')"
    show "live limit st'" using save [of st "Inl e" st'] P run by auto
  qed
qed

lemma command_result_stored:
  fixes r :: "'w Runner"
  assumes "cfg_MaxCommandHistory (run_config r) = limit"
  shows "triple (\<lambda>st. live limit st \<and> ag_stateErr st = None) (command_result r c)
     (\<lambda>ack. stored limit (acm_ID c) ack) (live limit)"
proof -
  have new: "triple (\<lambda>st. live limit st \<and> carried_out (ag_events st) (acm_ID c) ack \<and> (ag_stateErr st = None \<longrightarrow> results (journal (ag_events st)) (acm_ID c) = None \<and>
             int (length (pst_ProcessedCommands (journal (ag_events st)))) < executions (ag_events st)))
      (and_then (or_else (remember r (acm_ID c) ack)
                   (\<lambda>e. raise (Wrapped ''persist command result before ACK'' e))) (\<lambda>_. yield ack))
      (\<lambda>a. stored limit (acm_ID c) a) (live limit)" for ack
    by (rule triple_then [where R = "\<lambda>_. stored limit (acm_ID c) ack", OF triple_else [OF remember_stored [OF assms]]])
      simp_all
  have run: "case res of Inl e \<Rightarrow> live limit st' | Inr a \<Rightarrow> stored limit (acm_ID c) a st'"
    if l: "live limit st" "ag_stateErr st = None" and run: "command_result r c st = (res, st')" for st res st'
  proof (cases "results (ag_persistent st) (acm_ID c)")
    case (Some old)
    with l run show ?thesis by (auto simp: command_result_def live_def stored_def)
  next
    case None
    obtain ack dk where e: "Execute (run_executor r) c (ag_docker st) = (ack, dk)" by fastforce
    let ?st1 = "emit (Executed c ack) (st\<lparr>ag_docker := dk\<rparr>)"
    have "live limit ?st1" "carried_out (ag_events ?st1) (acm_ID c) ack" "results (journal (ag_events ?st1)) (acm_ID c) = None"
      "int (length (pst_ProcessedCommands (journal (ag_events ?st1)))) < executions (ag_events ?st1)"
      using l None results_length [of limit "ag_events st"] by (auto simp: live_def emit_def carried_out_def)
    with tripleD [OF new, of ?st1 ack res st'] run None e show ?thesis
      by (simp add: command_result_def)
  qed
  show ?thesis
    by (rule tripleI) (use run in \<open>fastforce split: sum.splits\<close>)+
qed

lemma stateFailure_triple: "triple P stateFailure (\<lambda>_ st. P st \<and> ag_stateErr st = None) P"
  by (rule tripleI) (auto simp: stateFailure_def split: option.splits)

lemma context_alive_keeps: "keeps P (context_alive r)"
  by (rule tripleI) (auto simp: context_alive_def split: if_splits option.splits)

lemma post_ack_live:
  fixes r :: "'w Runner"
  shows "triple (stored limit cid ack) (post_ack r cid ack) (\<lambda>_. live limit) (live limit)"
proof -
  have "live limit (emit (Acked cid ack ok) st)" if "stored limit cid ack st" for ok and st :: "'w agent"
    using that by (auto simp: stored_def live_def emit_def)
  moreover have "stored limit cid ack (set_world w st)" if "stored limit cid ack st" for w and st :: "'w agent"
    using that by (simp add: stored_def)
  ultimately show ?thesis
    by (intro tripleI) (auto simp: post_ack_def split: prod.splits)
qed

lemma run_command_sound:
  assumes "cfg_MaxCommandHistory (run_config r) = limit"
  shows "keeps (live limit) (run_command r c)"
proof -
  have report: "keeps (live limit) (or_else (reportInventory r) (\<lambda>e. if is_local_state e then raise e else yield ()))"
    by (intro keeps_else reportInventory_sound triple_if keeps_base)
  have ack: "triple (stored limit (acm_ID c) ack)
      (and_then stateFailure (\<lambda>_. and_then (post_ack r (acm_ID c) ack) (\<lambda>_.
         or_else (reportInventory r) (\<lambda>e. if is_local_state e then raise e else yield ()))))
      (\<lambda>_. live limit) (live limit)" for ack
  proof (rule triple_then)
    show "triple (stored limit (acm_ID c) ack) stateFailure (\<lambda>_. stored limit (acm_ID c) ack) (live limit)"
      by (rule triple_weaken [OF stateFailure_triple [of "stored limit (acm_ID c) ack"]]) (auto simp: stored_def)
  qed (intro triple_then [OF post_ack_live] report)
  show ?thesis
    unfolding run_command_def
    by (intro triple_then [OF context_alive_keeps] triple_then [OF stateFailure_triple]
        triple_then [OF command_result_stored [OF assms]] ack)
qed

lemma run_commands_sound:
  "cfg_MaxCommandHistory (run_config r) = limit \<Longrightarrow> keeps (live limit) (run_commands r cs)"
  by (induction cs) (auto intro!: agent_keeps_then run_command_sound)

lemma pollAndExecute_sound:
  assumes "cfg_MaxCommandHistory (run_config r) = limit"
  shows "keeps (live limit) (pollAndExecute r)"
proof -
  let ?rest = "\<lambda>st. case poll_commands r st of
         (Inl e, st1) \<Rightarrow>
           if is_unauthorized e
           then and_then (ensureRegistered r (pst_AgentID (ag_persistent st))) (\<lambda>_. reportInventory r) st1
           else (Inl e, st1)
       | (Inr commands, st1) \<Rightarrow> run_commands r commands st1"
  have renew: "keeps (live limit) (and_then (ensureRegistered r i) (\<lambda>_. reportInventory r))" for i
    by (intro agent_keeps_then ensureRegistered_sound reportInventory_sound)
  have polled: "live limit st1" if "live limit st" "poll_commands r st = (res, st1)" for st res st1
    using that by (auto simp: poll_commands_def consult_def split: prod.splits)
  have rest: "live limit st'" if l: "live limit st" and run: "?rest st = (res, st')" for st res st'
  proof -
    obtain r1 st1 where p: "poll_commands r st = (r1, st1)" by fastforce
    show ?thesis
    proof (cases r1)
      case (Inl e)
      with run p polled [OF l p] agent_keepsD [OF renew polled [OF l p]] show ?thesis by (auto split: if_splits)
    next
      case (Inr commands)
      with run p agent_keepsD [OF run_commands_sound [OF assms] polled [OF l p]] show ?thesis by auto
    qed
  qed
  have "keeps (live limit) ?rest" by (intro tripleI) (use rest in blast)+
  then show ?thesis
    unfolding pollAndExecute_def
    by (intro triple_then [OF triple_weaken [OF stateFailure_triple [of "live limit"]]]) auto
qed

lemma heartbeat_sound: "keeps (live limit) (heartbeat r n)"
proof -
  have "keeps (live limit) (and_then
        (or_else (consult (cli_Heartbeat (run_client r) i t w))
           (\<lambda>e. if is_unauthorized e then ensureRegistered r i else raise e))
        (\<lambda>_. if 0 < n then reportInventory r else yield ()))" for i t w
    by (intro agent_keeps_then keeps_else triple_if keeps_base consult_sound ensureRegistered_sound reportInventory_sound)
  then show ?thesis
    by (simp add: heartbeat_def Let_def triple_def)
qed

lemma first_contact_sound: "keeps (live limit) (first_contact r l)"
  unfolding first_contact_def by (intro agent_keeps_then ensureRegistered_sound reportInventory_sound)

section \<open>Every life\<close>

definition life_ok :: "int \<Rightarrow> agent_mode \<times> 'w agent \<Rightarrow> bool" where
  "life_ok limit s \<longleftrightarrow> journal_ok limit (ag_events (snd s)) \<and> ag_file (snd s) = file_of (ag_events (snd s)) \<and>
     (fst s \<noteq> Halted \<longrightarrow> live limit (snd s))"

lemma boot_life:
  fixes st :: "'w agent"
  assumes ok: "journal_ok limit (ag_events st)" "ag_file st = file_of (ag_events st)"
    and run: "boot r st = (res, st')"
  shows "life_ok limit (next_mode Halted b res st'', st')"
proof (cases "boot_checks r (journal (ag_events st))")
  case (Some e)
  with ok run show ?thesis by (auto simp: boot_def Let_def life_ok_def)
next
  case None
  let ?p = "(journal (ag_events st))\<lparr>pst_MachineID := cfg_MachineID (run_config r)\<rparr>"
  obtain io w where io: "run_io r (ag_world st) = (io, w)" by fastforce
  obtain err disk where sv: "Save io ?p (file_of (ag_events st)) = (err, disk)" by fastforce
  show ?thesis
  proof (cases err)
    case (Some e)
    with Save_outcome [OF sv] None io sv ok run show ?thesis
      by (auto simp: boot_def Let_def life_ok_def)
  next
    assume err: "err = None"
    with Save_outcome [OF sv] None io sv ok(2) run
    have st': "ag_events st' = ag_events st @ [Saved ?p]" "ag_file st' = GoodFile ?p" "ag_persistent st' = ?p"
      by (auto simp: boot_def Let_def emit_def)
    have "legal limit (ag_events st) (Saved ?p)"
      using results_length [OF ok(1)] by simp
    with ok(1) st' show ?thesis by (simp add: life_ok_def live_def)
  qed
qed

lemma handler_life:
  assumes limit: "cfg_MaxCommandHistory (run_config r) = limit"
    and "handler r mode h" and ok: "life_ok limit (mode, st)" and run: "h st = (res, st')"
  shows "life_ok limit (next_mode mode b res st', st')"
  using assms(2)
proof cases
  case 1
  with ok run show ?thesis by (auto simp: life_ok_def intro: boot_life [unfolded life_ok_def] dest: boot_life)
next
  case (2 l)
  with ok have "live limit st" by (simp add: life_ok_def)
  from agent_keepsD [OF first_contact_sound this] run 2 show ?thesis by (auto simp: life_ok_def live_def)
next
  case (3 n)
  with ok have "live limit st" by (simp add: life_ok_def)
  from agent_keepsD [OF heartbeat_sound this] run 3 show ?thesis by (auto simp: life_ok_def live_def)
next
  case (4 n)
  with ok have "live limit st" by (simp add: life_ok_def)
  from agent_keepsD [OF pollAndExecute_sound [OF limit] this] run 4 show ?thesis by (auto simp: life_ok_def live_def)
next
  case (5 n)
  with ok have "live limit st" by (simp add: life_ok_def)
  from agent_keepsD [OF reportInventory_sound this] run 5 show ?thesis by (auto simp: life_ok_def live_def)
qed

lemma step_life:
  assumes "agent_step r s s'" and "life_ok (cfg_MaxCommandHistory (run_config r)) s"
  shows "life_ok (cfg_MaxCommandHistory (run_config r)) s'"
  using assms
proof cases
  case (tick mode h st res st' beat)
  with assms(2) handler_life [OF refl] show ?thesis by blast
next
  case (halt mode st)
  with assms(2) show ?thesis by (simp add: life_ok_def)
next
  case (crash mode h st res st' evs dk)
  with assms(2) handler_life [OF refl, of r mode h st res st' False] journal_ok_prefix [of evs "ag_events st'"]
  show ?thesis by (auto simp: life_ok_def)
next
  case (outside mode st dk)
  with assms(2) show ?thesis by (simp add: life_ok_def)
qed

lemma reachable_life:
  "agent_reachable r s \<Longrightarrow> life_ok (cfg_MaxCommandHistory (run_config r)) s"
proof (induction rule: agent_reachable.induct)
  case (fresh dk)
  show ?case by (simp add: life_ok_def fresh_agent_def file_of_def)
next
  case (step s s')
  then show ?case by (blast intro: step_life)
qed

lemma reachable_journal:
  "agent_reachable r (mode, st) \<Longrightarrow> journal_ok (cfg_MaxCommandHistory (run_config r)) (ag_events st)"
  using reachable_life by (fastforce simp: life_ok_def)

text \<open>
  C5. Commands are carried out once.
\<close>

theorem acknowledged_commands_never_rerun:
  assumes "agent_reachable r (mode, st)" and "executions (ag_events st) \<le> cfg_MaxCommandHistory (run_config r)"
    and "ag_events st = a @ Acked cid ack ok # b"
  shows "carried_out a cid ack \<and> (\<forall>c ack'. Executed c ack' \<in> set b \<longrightarrow> acm_ID c \<noteq> cid) \<and>
     (\<forall>ack' ok'. Acked cid ack' ok' \<in> set b \<longrightarrow> ack' = ack)"
  using acknowledged_once [OF reachable_journal [OF assms(1)] assms(2,3)] .

text \<open>
  C8. Inventory numbers.
\<close>

theorem inventory_numbers_increase:
  assumes "agent_reachable r (mode, st)" and "length (ag_events st) < 2 ^ 64"
    and "ag_events st = a @ Reported n ok # b @ Reported m ok' # c"
  shows "n \<le> m \<and> (ok \<longrightarrow> n < m)"
  using reports_ordered [OF reachable_journal [OF assms(1)] assms(2,3)] .

end
