(* ===== verification/Executor_Laws.thy ===== *)
theory Executor_Laws
  imports Inventory_Laws Agent_Life
begin

text \<open>
  What a command may do to the host: a start goes through the agent's check and then makes the calls of
  one container, a stop reaches the job's own running containers, anything else is refused. Also the
  two loops of the runner that bound its memory and its waiting.
\<close>

section \<open>Commands and the runtime\<close>

context docker_runtime
begin

lemma start_checked:
  assumes "inv_docker (ex_inventory e) = Some rt" and "ex_docker e = Some rt"
    and "execute_start e p st = (ack, st')"
  shows "dk_calls st' = dk_calls st \<or>
    (\<exists>st1 st2 cs made. GPUsAvailable (ex_inventory e) (stp_GPUUUIDs p) (stp_JobID p) st = (Inr (), st1) \<and>
       run_ListContainers rt st1 = (Inr cs, st2) \<and> dk_calls st' = dk_calls st @ made \<and> start_calls cs p made)"
proof -
  obtain a st1 where a: "GPUsAvailable (ex_inventory e) (stp_GPUUUIDs p) (stp_JobID p) st = (a, st1)" by fastforce
  have same: "dk_calls st1 = dk_calls st" using available_silent [OF _ a] assms(1) by simp
  show ?thesis
  proof (cases "a = Inr () \<and> dk_calls st' \<noteq> dk_calls st")
    case False
    with assms a same show ?thesis by (cases a) (auto simp: execute_start_def split: if_splits prod.splits sum.splits)
  next
    case True
    obtain r st2 where start: "run_StartManagedContainer rt p st1 = (r, st2)" by fastforce
    have st': "st' = st2"
      using assms(2,3) a True start by (cases r) (auto simp: execute_start_def split: if_splits)
    obtain l st3 where list: "run_ListContainers rt st1 = (l, st3)" by fastforce
    show ?thesis
    proof (cases l)
      case (Inl err)
      with list unlisted [of st1 err st3 p] start silent_calls [OF list_silent list] same st' True show ?thesis by auto
    next
      case (Inr cs)
      with start_own [OF list [unfolded Inr] start] a True list same st' show ?thesis by auto
    qed
  qed
qed

lemma stop_checked:
  assumes "execute_stop rt p st = (ack, st')"
  shows "dk_calls st' = dk_calls st \<or>
    (\<exists>cs st1 made. run_ListContainers rt st = (Inr cs, st1) \<and> dk_calls st' = dk_calls st @ made \<and>
       list_all (stops_own cs p) made)"
proof -
  obtain r st2 where stop: "run_StopManagedJob rt p st = (r, st2)" by fastforce
  have st': "st' = st \<or> st' = st2"
    using assms stop by (cases r) (auto simp: execute_stop_def split: if_splits)
  obtain l st1 where list: "run_ListContainers rt st = (l, st1)" by fastforce
  show ?thesis
  proof (cases l)
    case (Inl err)
    with list unlisted [of st err st1 _ p] stop silent_calls [OF list_silent list] st' show ?thesis by auto
  next
    case (Inr cs)
    with stop_own [OF list [unfolded Inr] stop] list st' show ?thesis by auto
  qed
qed

end

text \<open>
  C7. Commands touch only containers of their job. Whatever calls a command makes to Docker, either it
  was a start whose GPUs passed the check, or a stop. Where the host has a container of the job (by the
  labels of the platform) a start at most starts that one, if it was never started. Else it at most pulls
  the image and creates one container, with exactly the image, command, GPUs, limits, variables and
  labels of the start, and starts, and if that fails removes, the container the engine answered with.
  A stop stops active containers of the job it names, and of these only the one it names if it names one.
\<close>

theorem commands_touch_only_their_job:
  assumes "inv_docker (ex_inventory e) = Some (engine_runtime api)" and "ex_docker e = Some (engine_runtime api)"
    and "Execute e c st = (ack, st')"
  shows "dk_calls st' = dk_calls st \<or>
    (\<exists>p st1 st2 cs made. acm_Type c = ''START_CONTAINER'' \<and> acm_Payload c = StartPayload p \<and>
       GPUsAvailable (ex_inventory e) (stp_GPUUUIDs p) (stp_JobID p) st = (Inr (), st1) \<and>
       engine_ListContainers api st1 = (Inr cs, st2) \<and> dk_calls st' = dk_calls st @ made \<and> start_calls cs p made) \<or>
    (\<exists>p st1 cs made. acm_Type c = ''STOP_CONTAINER'' \<and> acm_Payload c = StopPayload p \<and>
       engine_ListContainers api st = (Inr cs, st1) \<and> dk_calls st' = dk_calls st @ made \<and> list_all (stops_own cs p) made)"
proof -
  consider (start) p where "acm_Type c = ''START_CONTAINER''" "acm_Payload c = StartPayload p"
      "execute_start e p st = (ack, st')"
    | (stop) p where "acm_Type c = ''STOP_CONTAINER''" "acm_Payload c = StopPayload p"
      "execute_stop (engine_runtime api) p st = (ack, st')"
    | (refused) "st' = st"
    using assms(2,3) by (cases "acm_Payload c") (auto simp: Execute_def split: if_splits)
  then show ?thesis
  proof cases
    case start
    with engine.start_checked [OF assms(1,2) start(3)] show ?thesis by (auto simp: engine_runtime_def)
  next
    case stop
    with engine.stop_checked [OF stop(3)] show ?thesis by (auto simp: engine_runtime_def)
  qed simp
qed

lemma stop_all_none: "\<not> list_ex (stop_target p) cs \<Longrightarrow> stop_all api p cs m st = (Inr m, st)"
  by (induction cs) (simp_all add: yield_def)

text \<open>
  A stop that names a container of someone else.
\<close>

lemma stop_refuses_foreign_container:
  assumes "engine_ListContainers api st = (Inr cs, st1)" and "spp_ContainerID p \<noteq> ''''"
    and "k \<in> set cs" and "rtc_ID k = spp_ContainerID p"
    and "\<forall>k' \<in> set cs. rtc_ID k' = spp_ContainerID p \<longrightarrow> \<not> managed_for (spp_JobID p) k'"
  shows "StopManagedJob api p st = (Inl LegacyTarget, st1)"
proof -
  have "\<not> list_ex (stop_target p) cs"
    using assms(2,5) by (auto simp: list_ex_iff stop_target_def)
  with assms(1-4) show ?thesis
    unfolding StopManagedJob_def and_then_simps(1) [where m = "engine_ListContainers api", OF assms(1)]
    by (auto simp: and_then_def stop_all_none raise_def list_ex_iff)
qed

section \<open>The command history\<close>

lemma foldl_older_least:
  assumes "'''' \<notin> set (gokeys m)" and "oid \<noteq> ''''"
  shows "(fst (foldl older (oid, t) m) = oid \<and> snd (foldl older (oid, t) m) = t \<or>
      (\<exists>res. (fst (foldl older (oid, t) m), res) \<in> set m \<and> snd (foldl older (oid, t) m) = cr_CompletedAt res)) \<and>
    snd (foldl older (oid, t) m) \<le> t \<and> (\<forall>e \<in> set m. snd (foldl older (oid, t) m) \<le> cr_CompletedAt (snd e))"
  using assms
proof (induction m arbitrary: oid t)
  case Nil
  then show ?case by simp
next
  case (Cons x m)
  obtain k v where x: "x = (k, v)" by fastforce
  from Cons.prems x have k: "k \<noteq> ''''" "'''' \<notin> set (gokeys m)" by auto
  show ?case
  proof (cases "cr_CompletedAt v < t")
    case True
    with x have "older (oid, t) x = (k, cr_CompletedAt v)" by simp
    with Cons.IH [OF k(2,1), of "cr_CompletedAt v"] True x show ?thesis by auto
  next
    case False
    with x Cons.prems have "older (oid, t) x = (oid, t)" by simp
    with Cons.IH [OF k(2) Cons.prems(2), of t] False x show ?thesis by auto
  qed
qed

lemma oldest_least:
  assumes "'''' \<notin> set (gokeys m)" and "m \<noteq> []"
  obtains res where "(fst (oldest_entry m), res) \<in> set m"
    and "\<forall>e \<in> set m. cr_CompletedAt res \<le> cr_CompletedAt (snd e)"
proof -
  from assms(2) obtain k v m' where m: "m = (k, v) # m'" by (cases m) auto
  with assms(1) have k: "k \<noteq> ''''" "'''' \<notin> set (gokeys m')" by auto
  have "oldest_entry m = foldl older (k, cr_CompletedAt v) m'" using m by (simp add: oldest_entry_def)
  with foldl_older_least [OF k(2,1), of "cr_CompletedAt v"] m that show ?thesis by fastforce
qed

text \<open>
  C40. The pruning of the history.
\<close>

theorem history_keeps_newest:
  assumes "0 < limit" and "wf_map m" and "'''' \<notin> set (gokeys m)"
  shows "int (length (prune limit m)) = min limit (int (length m)) \<and> set (prune limit m) \<subseteq> set m \<and>
    (\<forall>e \<in> set m - set (prune limit m). \<forall>k \<in> set (prune limit m). cr_CompletedAt (snd e) \<le> cr_CompletedAt (snd k))"
  using assms
proof (induction limit m rule: prune.induct)
  case (1 limit m)
  show ?case
  proof (cases "int (length m) \<le> limit")
    case True
    then show ?thesis by (simp add: prune_short)
  next
    case False
    with 1(2) have ne: "m \<noteq> []" by auto
    let ?k = "fst (oldest_entry m)"
    let ?m = "AList.delete ?k m"
    have step: "prune limit m = prune limit ?m" using False ne by (simp add: prune.simps [of limit m])
    from oldest_least [OF 1(4) ne] obtain res where res: "(?k, res) \<in> set m"
      and least: "\<forall>e \<in> set m. cr_CompletedAt res \<le> cr_CompletedAt (snd e)" .
    have only: "v = res" if "(?k, v) \<in> set m" for v
      using that res 1(3) by (metis map_of_is_SomeI option.inject)
    have set: "set ?m = set m - {(?k, res)}"
      unfolding AList.delete_eq using only by auto
    have len: "length ?m = length m - 1"
    proof -
      have "distinct m" using 1(3) by (simp add: distinct_map)
      moreover have "distinct ?m" using distinct_delete [OF 1(3), of ?k] by (simp add: distinct_map)
      ultimately
      show ?thesis using set res by (metis distinct_card card_Diff_singleton)
    qed
    have IH: "int (length (prune limit ?m)) = min limit (int (length ?m)) \<and> set (prune limit ?m) \<subseteq> set ?m \<and>
        (\<forall>e \<in> set ?m - set (prune limit ?m). \<forall>k \<in> set (prune limit ?m). cr_CompletedAt (snd e) \<le> cr_CompletedAt (snd k))"
    proof (rule 1(1))
      show "wf_map ?m" using distinct_delete [OF 1(3)] .
      show "'''' \<notin> set (gokeys ?m)" using 1(4) dom_delete_subset [of ?k m] by auto
    qed (use False ne 1(2) in simp_all)
    then have sub: "set (prune limit ?m) \<subseteq> set m" using set by blast
    have "cr_CompletedAt (snd e) \<le> cr_CompletedAt (snd k)"
      if "e \<in> set m - set (prune limit ?m)" "k \<in> set (prune limit ?m)" for e k
      using that IH least set sub by (cases "e = (?k, res)") auto
    with IH sub len False ne step show ?thesis by auto
  qed
qed

section \<open>Waiting\<close>

lemma doubled_ge: "min (30 * Second) (2 ^ n * base) \<le> doubled n base" if "0 \<le> base"
  using that
proof (induction n base rule: doubled.induct)
  case (1 base)
  then show ?case by simp
next
  case (2 n base)
  show ?case
  proof (cases "base < 30 * Second")
    case True
    with 2 have "min (30 * Second) (2 ^ n * (base * 2)) \<le> doubled n (base * 2)" by simp
    with True show ?thesis by (simp add: mult.commute mult.left_commute)
  next
    case False
    then show ?thesis by (simp add: min.coboundedI1)
  qed
qed

lemma doubled_base: "0 \<le> base \<Longrightarrow> base \<le> doubled n base"
  by (induction n base rule: doubled.induct) auto

text \<open>
  The delay before a retry.
\<close>

lemma retry_delay_bounds:
  "Second div 2 \<le> retryDelay base attempt jitter \<and> retryDelay base attempt jitter \<le> 60 * Second \<and>
   (5 \<le> attempt \<longrightarrow> 15 * Second \<le> retryDelay base attempt jitter)"
proof -
  let ?b = "if base < Second then Second else base"
  let ?r = "retry_base base attempt"
  have b: "Second \<le> ?b" by simp
  then have lower: "Second \<le> ?r"
    using doubled_base [of ?b attempt] by (simp add: retry_base_def)
  have upper: "?r \<le> 60 * Second" by (simp add: retry_base_def)
  have late: "30 * Second \<le> ?r" if "5 \<le> attempt"
  proof -
    have "(2 :: int) ^ 5 \<le> 2 ^ attempt" using that by (intro power_increasing) auto
    then have "2 ^ 5 * Second \<le> 2 ^ attempt * ?b" using b by (intro mult_mono) auto
    then have "30 * Second \<le> doubled attempt ?b"
      using doubled_ge [of ?b attempt] by auto
    then show ?thesis by (simp add: retry_base_def)
  qed
  have jitter: "0 \<le> jitter mod (?r div 2 + 1)" "jitter mod (?r div 2 + 1) \<le> ?r div 2"
    using lower pos_mod_bound [of "?r div 2 + 1" jitter] by auto
  then have "?r div 2 \<le> retryDelay base attempt jitter" "retryDelay base attempt jitter \<le> ?r div 2 + ?r div 2"
    by (simp_all add: retryDelay_def)
  with lower upper late show ?thesis by auto
qed

end
