(* ===== verification/Agent_Samples.thy ===== *)
theory Agent_Samples
  imports Executor_Laws
begin

text \<open>
  A host for the witnesses: two GPUs, a container of someone else on the second one, a Docker daemon
  that creates, starts and stops containers, and a control plane that keeps handing out one start
  command. The world is the list of containers.
\<close>

type_synonym host = "InspectResponse list"

definition inspected :: "string \<Rightarrow> string \<Rightarrow> labels \<Rightarrow> string list \<Rightarrow> InspectResponse" where
  "inspected cid state ls devices = \<lparr>ins_ID = cid, ins_Name = ''/'' @ cid,
     ins_Config = Some \<lparr>icf_Image = ''img'', icf_Labels = ls, icf_Env = []\<rparr>,
     ins_State = Some \<lparr>ist_Status = state, ist_Pid = 7, ist_ExitCode = 0, ist_StartedAt = '''', ist_FinishedAt = ''''\<rparr>,
     ins_DeviceRequests = Some [\<lparr>dev_Driver = ''nvidia'', dev_DeviceIDs = devices, dev_Count = 0\<rparr>]\<rparr>"

definition summary_of :: "InspectResponse \<Rightarrow> ContainerSummary" where
  "summary_of i = \<lparr>sum_ID = ins_ID i, sum_Names = [ins_Name i], sum_Image = ''img'',
     sum_State = (case ins_State i of None \<Rightarrow> '''' | Some s \<Rightarrow> ist_Status s),
     sum_Labels = (case ins_Config i of None \<Rightarrow> [] | Some c \<Rightarrow> icf_Labels c)\<rparr>"

definition with_status :: "string \<Rightarrow> string \<Rightarrow> host \<Rightarrow> host" where
  "with_status cid status h = map (\<lambda>i. if ins_ID i = cid
     then i\<lparr>ins_State := map_option (\<lambda>s. s\<lparr>ist_Status := status\<rparr>) (ins_State i)\<rparr> else i) h"

definition sample_api :: "host docker_api" where
  "sample_api = \<lparr>api_ContainerList = (\<lambda>h. (Inr (map summary_of h), h)),
     api_ContainerInspect = (\<lambda>cid h. (case List.find (\<lambda>i. ins_ID i = cid) h of
         None \<Rightarrow> Inl (AgentError ''no such container'') | Some i \<Rightarrow> Inr i, h)),
     api_ImageInspect = (\<lambda>i h. (ImagePresent, h)),
     api_ImagePull = (\<lambda>i h. (Inr (), h)),
     api_ContainerCreate = (\<lambda>p h. (Inr (cop_Name p), h @ [inspected (cop_Name p) ''created'' (cop_Labels p) (cop_DeviceIDs p)])),
     api_ContainerStart = (\<lambda>cid h. (Inr (), with_status cid ''running'' h)),
     api_ContainerStop = (\<lambda>cid t h. (Inr (), with_status cid ''exited'' h)),
     api_ContainerRemove = (\<lambda>cid h. (Inr (), filter (\<lambda>i. ins_ID i \<noteq> cid) h)),
     api_ServerVersion = (\<lambda>h. (Inr (''29'', ''1.52'', ''linux''), h)),
     api_Runtimes = (\<lambda>h. (Inr [''nvidia''], h))\<rparr>"

definition sample_gpu :: "string \<Rightarrow> int \<Rightarrow> WireGPU" where
  "sample_gpu u i = \<lparr>wg_UUID = u, wg_Index = i, wg_Model = ''A100'', wg_MemoryTotalMiB = 80, wg_MemoryUsedMiB = 0,
     wg_UtilizationPct = 0, wg_TemperatureC = 30, wg_Healthy = True, wg_State = ''FREE''\<rparr>"

definition sample_collector :: "host InventoryCollector" where
  "sample_collector = \<lparr>inv_platform = (\<lambda>h. zero_capabilities\<lparr>cap_OS := ''linux'', cap_Architecture := ''amd64''\<rparr>),
     inv_machineID = ''m1'', inv_docker = Some (engine_runtime sample_api),
     inv_gpus = Some (\<lambda>h. Inr ([sample_gpu ''GPU-0'' 0, sample_gpu ''GPU-1'' 1], [])),
     inv_driver = None, inv_resolver = None, inv_now = (\<lambda>h. 5),
     inv_host = (\<lambda>h. \<lparr>host_Hostname = ''h1'', host_OS = ''linux'', host_Architecture = ''amd64'', host_CPUCount = 8,
                        host_MemoryTotalMiB = 64\<rparr>),
     inv_ctxErr = (\<lambda>h. None), inv_policy = collector_policy []\<rparr>"

definition sample_host :: "host docker_state" where
  "sample_host = \<lparr>dk_world = [inspected ''other'' ''running'' [] [''GPU-1'']], dk_calls = []\<rparr>"

definition sample_start :: StartContainerPayload where
  "sample_start = \<lparr>stp_JobID = ''job_1'', stp_Name = ''job-1'', stp_Image = ''img'', stp_Command = [], stp_Environment = [],
     stp_GPUUUIDs = [''GPU-0''], stp_CPUMilli = 0, stp_MemoryMiB = 0, stp_Labels = []\<rparr>"

definition sample_command :: AgentCommand where
  "sample_command = \<lparr>acm_ID = ''cmd_1'', acm_Type = ''START_CONTAINER'', acm_Payload = StartPayload sample_start\<rparr>"

definition sample_client :: "host ControlPlaneClient" where
  "sample_client = \<lparr>cli_Register = (\<lambda>q t h. (Inr (''agent_1'', ''secret''), h)),
     cli_Heartbeat = (\<lambda>i t n h. (Inr (), h)), cli_ReportInventory = (\<lambda>i t q h. (Inr (), h)),
     cli_PollCommands = (\<lambda>i t n h. (Inr [sample_command], h)), cli_AckCommand = (\<lambda>i t c a h. (Inr (), h))\<rparr>"

definition sample_config :: RunnerConfig where
  "sample_config = \<lparr>cfg_MachineID = ''m1'', cfg_Name = ''n1'', cfg_AgentVersion = ''0.2.0'', cfg_Labels = [],
     cfg_EnrollmentToken = ''t'', cfg_HeartbeatEvery = Second, cfg_InventoryEvery = Second,
     cfg_CommandPollEvery = Second, cfg_CommandLimit = 10, cfg_MaxCommandHistory = 0\<rparr>"

definition sample_runner :: "host Runner" where
  "sample_runner = NewRunner sample_config sample_client sample_collector (\<lambda>p. ''json'') (\<lambda>h. (\<lambda>s. None, h)) (\<lambda>h. 9)"

text \<open>A life: boot, register and report, carry out the command, crash, and do it all again.\<close>

definition booted :: "host agent" where
  "booted = snd (boot sample_runner (fresh_agent sample_host))"

definition contacted :: "host agent" where
  "contacted = snd (first_contact sample_runner '''' booted)"

definition polled :: "host agent" where
  "polled = snd (pollAndExecute sample_runner contacted)"

definition booted_again :: "host agent" where
  "booted_again = snd (boot sample_runner polled)"

definition contacted_again :: "host agent" where
  "contacted_again = snd (first_contact sample_runner ''agent_1'' booted_again)"

definition polled_again :: "host agent" where
  "polled_again = snd (pollAndExecute sample_runner contacted_again)"

end
