(* ===== verification/Agent_Witnesses.thy ===== *)
theory Agent_Witnesses
  imports Agent_Samples
begin

text \<open>
  The properties of the agent applied to the host of \<open>Agent_Samples\<close>: its life is reachable, its journal
  holds an acknowledged command and several accepted reports, and its free GPU passes the check.
\<close>

lemma life_ok_steps:
  "fst (boot sample_runner (fresh_agent sample_host)) = Inr ()"
  "fst (first_contact sample_runner '''' booted) = Inr ()"
  "fst (pollAndExecute sample_runner contacted) = Inr ()"
  "fst (boot sample_runner polled) = Inr ()"
  "fst (first_contact sample_runner ''agent_1'' booted_again) = Inr ()"
  "fst (pollAndExecute sample_runner contacted_again) = Inr ()"
  "pst_AgentID (ag_persistent booted) = ''''"
  "pst_AgentID (ag_persistent booted_again) = ''agent_1''"
  by code_simp+

lemma sample_tick:
  assumes "agent_reachable r (mode, st)" and "handler r mode h" and "fst (h st) = Inr ()"
  shows "agent_reachable r (next_mode mode False (Inr ()) (snd (h st)), snd (h st))"
  using assms by (intro agent_reachable.step [OF assms(1)] agent_step.tick [OF assms(2)]) (simp add: prod_eq_iff)

lemma sample_life: "agent_reachable sample_runner (Running 0, polled_again)"
proof -
  note ok = life_ok_steps
  have "agent_reachable sample_runner (Starting '''', booted)"
    using sample_tick [OF agent_reachable.fresh handler.intros(1) ok(1)] ok(7) by (simp add: booted_def [symmetric])
  from sample_tick [OF this handler.intros(2) ok(2)] have "agent_reachable sample_runner (Running 0, contacted)"
    by (simp add: contacted_def [symmetric])
  from sample_tick [OF this handler.intros(4) ok(3)] have "agent_reachable sample_runner (Running 0, polled)"
    by (simp add: polled_def [symmetric])
  then have "agent_reachable sample_runner (Halted, polled)"
    by (rule agent_reachable.step) (rule agent_step.halt)
  from sample_tick [OF this handler.intros(1) ok(4)] have "agent_reachable sample_runner (Starting ''agent_1'', booted_again)"
    using ok(8) by (simp add: booted_again_def [symmetric])
  from sample_tick [OF this handler.intros(2) ok(5)] have "agent_reachable sample_runner (Running 0, contacted_again)"
    by (simp add: contacted_again_def [symmetric])
  from sample_tick [OF this handler.intros(4) ok(6)] show ?thesis
    by (simp add: polled_again_def [symmetric])
qed

lemma life_facts:
  "length (ag_events polled_again) = 18"
  "executions (ag_events polled_again) = 1"
  "cfg_MaxCommandHistory (run_config sample_runner) = 1000"
  "ag_events polled_again ! 7 = Acked ''cmd_1'' (acked_with ''job-1'' ''managed container started'') True"
  "ag_events polled_again ! 4 = Reported 1 True"
  "ag_events polled_again ! 9 = Reported 2 True"
  by code_simp+

lemma life_split:
  "ag_events polled_again = take 7 (ag_events polled_again) @
     Acked ''cmd_1'' (acked_with ''job-1'' ''managed container started'') True # drop 8 (ag_events polled_again)"
  using id_take_nth_drop [of 7 "ag_events polled_again"] by (simp add: life_facts)

theorem acknowledged_commands_never_rerun_witness:
  "carried_out (take 7 (ag_events polled_again)) ''cmd_1'' (acked_with ''job-1'' ''managed container started'') \<and>
   ''cmd_1'' \<notin> {acm_ID c |c ack'. Executed c ack' \<in> set (drop 8 (ag_events polled_again))}"
  using acknowledged_commands_never_rerun [OF sample_life _ life_split] by (auto simp: life_facts)

theorem inventory_numbers_increase_witness:
  "ag_events polled_again ! 4 = Reported 1 True \<and> ag_events polled_again ! 9 = Reported 2 True \<and> (1 :: 64 word) < 2"
proof -
  let ?e = "ag_events polled_again"
  have "?e = take 4 ?e @ Reported 1 True # drop 5 ?e"
    using id_take_nth_drop [of 4 ?e] by (simp add: life_facts)
  moreover have "drop 5 ?e = take 4 (drop 5 ?e) @ Reported 2 True # drop 10 ?e"
    using id_take_nth_drop [of 4 "drop 5 ?e"] by (simp add: life_facts)
  ultimately have "?e = take 4 ?e @ Reported 1 True # take 4 (drop 5 ?e) @ Reported 2 True # drop 10 ?e" by metis
  from inventory_numbers_increase [OF sample_life _ this] show ?thesis by (simp add: life_facts)
qed

lemma sample_available: "fst (GPUsAvailable sample_collector [''GPU-0''] ''job_2'' sample_host) = Inr ()"
  by code_simp

theorem available_gpus_are_free_witness:
  "\<exists>s st'. (\<exists>g \<in> set (src_gpus s). wg_UUID g = ''GPU-0'' \<and> wg_Healthy g) \<and>
     collectSources sample_collector (machine_base ''m1'' (inv_platform sample_collector (dk_world sample_host))) sample_host
       = (s, st')"
proof -
  have run: "GPUsAvailable sample_collector [''GPU-0''] ''job_2'' sample_host =
      (Inr (), snd (GPUsAvailable sample_collector [''GPU-0''] ''job_2'' sample_host))"
    using sample_available by (simp add: prod_eq_iff)
  have trim: "TrimSpace ''GPU-0'' = ''GPU-0''" by code_simp
  have machine: "inv_machineID sample_collector = ''m1''" by (simp add: sample_collector_def)
  from available_gpus_are_free [OF run, of "''GPU-0''"] show ?thesis by (fastforce simp: trim machine)
qed

definition sample_executor :: "host CommandExecutor" where
  "sample_executor = \<lparr>ex_docker = Some (engine_runtime sample_api), ex_inventory = sample_collector,
     ex_decodeError = (\<lambda>p. ''json'')\<rparr>"

lemma executed_calls: "dk_calls (snd (Execute sample_executor sample_command sample_host)) =
    [Created (create_options sample_start) (Some ''job-1''), Started ''job-1'']"
  by code_simp

theorem commands_touch_only_their_job_witness:
  "\<exists>cs made. dk_calls (snd (Execute sample_executor sample_command sample_host)) = made \<and> made \<noteq> [] \<and>
     start_calls cs sample_start made"
proof -
  have run: "Execute sample_executor sample_command sample_host =
      (fst (Execute sample_executor sample_command sample_host), snd (Execute sample_executor sample_command sample_host))"
    by simp
  have e: "inv_docker (ex_inventory sample_executor) = Some (engine_runtime sample_api)"
    "ex_docker sample_executor = Some (engine_runtime sample_api)"
    by (simp_all add: sample_executor_def sample_collector_def)
  from commands_touch_only_their_job [OF e run] executed_calls show ?thesis
    by (auto simp: sample_command_def sample_host_def)
qed

definition stop_other :: StopContainerPayload where
  "stop_other = \<lparr>spp_JobID = ''job_1'', spp_ContainerID = ''other'', spp_GraceSeconds = 5\<rparr>"

lemma listed:
  "fst (engine_ListContainers sample_api sample_host) = Inr [fromInspect (inspected ''other'' ''running'' [] [''GPU-1''])
     (summarized (summary_of (inspected ''other'' ''running'' [] [''GPU-1''])))]"
  "snd (engine_ListContainers sample_api sample_host) = sample_host"
  by code_simp+

lemma other_container:
  "rtc_ID (fromInspect (inspected ''other'' ''running'' [] [''GPU-1'']) (summarized (summary_of (inspected ''other'' ''running'' [] [''GPU-1''])))) = ''other''"
  "\<not> managed_for ''job_1'' (fromInspect (inspected ''other'' ''running'' [] [''GPU-1'']) (summarized (summary_of (inspected ''other'' ''running'' [] [''GPU-1'']))))"
  by code_simp+

definition old_results :: "(string, CommandResult) gomap" where
  "old_results = [(''a'', \<lparr>cr_Ack = failedAck '''', cr_CompletedAt = 3\<rparr>), (''b'', \<lparr>cr_Ack = failedAck '''', cr_CompletedAt = 1\<rparr>)]"

theorem history_keeps_newest_witness:
  "int (length (prune 1 old_results)) = 1 \<and> set (prune 1 old_results) \<subseteq> set old_results"
  using history_keeps_newest [of 1 old_results] by (simp add: old_results_def)

text \<open>
  When the clock has gone back and the history is full, the result just recorded is the one that is
  dropped, so it is not on disk when the command is acknowledged.
\<close>

lemma new_result_can_be_evicted:
  "map_of (prune 1 (put ''new'' \<lparr>cr_Ack = failedAck '''', cr_CompletedAt = 2\<rparr>
     [(''old'', \<lparr>cr_Ack = failedAck '''', cr_CompletedAt = 3\<rparr>)])) ''new'' = None"
  by code_simp

end
