(* ===== verification/Metadata_Store.thy ===== *)
theory Metadata_Store
  imports Domain_Model
begin

text \<open>
  \<open>internal/store/postgres/store.go\<close> with the schema \<open>001_metadata.sql\<close>: organisations, accounts,
  sessions and enrolments. The state is the contents of the tables, and each SQL statement is the
  function of the tables its text says, with the constraints of the schema as its failures. What the
  database adds is a parameter, \<open>Driver\<close>: which statement fails and with what message, its clock, the
  collation of \<open>ORDER BY\<close>, the precision of a timestamp. A transaction that fails leaves the tables
  as they were; when the connection is lost while a commit is under way, the caller sees an error
  and the change may or may not have happened.
\<close>

section \<open>Tables\<close>

record SessionRow =
  ses_UserID :: string
  ses_ExpiresAt :: gotime

text \<open>\<open>machine_id\<close> is nullable.\<close>

record EnrollmentRow =
  enw_OrganizationID :: string
  enw_ServerID :: string
  enw_DisplayName :: string
  enw_Labels :: labels
  enw_TokenHash :: string
  enw_ExpiresAt :: gotime
  enw_MachineID :: "string option"
  enw_Revoked :: bool

record OwnershipRow =
  onr_MachineID :: string
  onr_OrganizationID :: string
  onr_EnrollmentID :: string

text \<open>Each table is a map from its primary key; the key is a field of the records of organisations
  and users too.\<close>

record Tables =
  tb_organizations :: "(string, Organization) gomap"
  tb_users :: "(string, User) gomap"
  tb_sessions :: "(string, SessionRow) gomap"
  tb_enrollments :: "(string, EnrollmentRow) gomap"
  tb_ownership :: "(string, OwnershipRow) gomap"

definition empty_tables :: Tables where
  "empty_tables = \<lparr>tb_organizations = [], tb_users = [], tb_sessions = [], tb_enrollments = [], tb_ownership = []\<rparr>"

section \<open>The driver\<close>

datatype sql_step = BeginTx | Statement nat | CommitTx

datatype sql_error = NoRows | Violation string | DriverFailure string

record Driver =
  drv_fault :: "sql_step \<Rightarrow> string option"
  drv_applied :: bool
  drv_now :: gotime
  drv_timestamp :: "gotime \<Rightarrow> gotime"
  drv_before :: "string \<Rightarrow> string \<Rightarrow> bool"
  drv_message :: "string \<Rightarrow> string"

text \<open>The classes of constraint violations of PostgreSQL.\<close>

abbreviation unique_violation :: string where "unique_violation \<equiv> ''23505''"
abbreviation foreign_key_violation :: string where "foreign_key_violation \<equiv> ''23503''"

definition raw :: "Driver \<Rightarrow> sql_error \<Rightarrow> go_error" where
  "raw drv e = (case e of NoRows \<Rightarrow> ErrOther ''sql: no rows in result set''
     | Violation c \<Rightarrow> ErrOther (drv_message drv c) | DriverFailure m \<Rightarrow> ErrOther m)"

definition translate :: "Driver \<Rightarrow> sql_error \<Rightarrow> go_error" where
  "translate drv e =
     (case e of NoRows \<Rightarrow> ErrNotFound
      | Violation c \<Rightarrow> if c = unique_violation then ErrConflict
                       else if c = foreign_key_violation \<or> c = ''23514'' then ErrInvalidInput else raw drv e
      | DriverFailure m \<Rightarrow> raw drv e)"

text \<open>One statement: \<open>conv\<close> is what the caller makes of its error.\<close>

type_synonym 'a sql = "Tables \<Rightarrow> (go_error + 'a) \<times> Tables"

definition statement :: "Driver \<Rightarrow> nat \<Rightarrow> (sql_error \<Rightarrow> go_error) \<Rightarrow> (Tables \<Rightarrow> sql_error + 'a \<times> Tables) \<Rightarrow> 'a sql" where
  "statement drv n conv q t =
     (case drv_fault drv (Statement n) of
        Some m \<Rightarrow> (Inl (conv (DriverFailure m)), t)
      | None \<Rightarrow> (case q t of Inl e \<Rightarrow> (Inl (conv e), t) | Inr (v, t') \<Rightarrow> (Inr v, t')))"

text \<open>\<open>BeginTx\<close>, the body, \<open>Commit\<close>, with \<open>defer tx.Rollback()\<close>.\<close>

definition transaction :: "Driver \<Rightarrow> 'a sql \<Rightarrow> 'a sql" where
  "transaction drv body t =
     (case drv_fault drv BeginTx of
        Some m \<Rightarrow> (Inl (ErrOther m), t)
      | None \<Rightarrow>
          (case body t of
             (Inl e, _) \<Rightarrow> (Inl e, t)
           | (Inr v, t') \<Rightarrow>
               (case drv_fault drv CommitTx of
                  Some m \<Rightarrow> (Inl (ErrOther m), if drv_applied drv then t' else t)
                | None \<Rightarrow> (Inr v, t'))))"

text \<open>A statement outside a transaction commits by itself.\<close>

definition auto_commit :: "Driver \<Rightarrow> (sql_error \<Rightarrow> go_error) \<Rightarrow> (Tables \<Rightarrow> sql_error + 'a \<times> Tables) \<Rightarrow> 'a sql" where
  "auto_commit drv conv q t =
     (case drv_fault drv (Statement 0) of
        Some m \<Rightarrow> (Inl (conv (DriverFailure m)),
                   case q t of Inr (v, t') \<Rightarrow> if drv_applied drv then t' else t | Inl e \<Rightarrow> t)
      | None \<Rightarrow> (case q t of Inl e \<Rightarrow> (Inl (conv e), t) | Inr (v, t') \<Rightarrow> (Inr v, t')))"

definition select :: "Driver \<Rightarrow> (sql_error \<Rightarrow> go_error) \<Rightarrow> (Tables \<Rightarrow> sql_error + 'a) \<Rightarrow> 'a sql" where
  "select drv conv q t =
     (case drv_fault drv (Statement 0) of
        Some m \<Rightarrow> (Inl (conv (DriverFailure m)), t)
      | None \<Rightarrow> (case q t of Inl e \<Rightarrow> (Inl (conv e), t) | Inr v \<Rightarrow> (Inr v, t)))"

section \<open>Organisations\<close>

definition code_taken :: "string \<Rightarrow> string \<Rightarrow> Tables \<Rightarrow> bool" where
  "code_taken oid code t \<longleftrightarrow> list_ex (\<lambda>(i, o'). i \<noteq> oid \<and> org_Code o' = code) (tb_organizations t)"

definition insert_organization :: "Driver \<Rightarrow> string \<Rightarrow> string \<Rightarrow> string \<Rightarrow> bool \<Rightarrow> Tables \<Rightarrow> sql_error + Organization \<times> Tables" where
  "insert_organization drv oid code orgname enabled t =
     (if map_of (tb_organizations t) oid \<noteq> None \<or> code_taken oid code t then Inl (Violation unique_violation)
      else let row = \<lparr>org_ID = oid, org_Code = code, org_Name = orgname, org_Enabled = enabled,
                      org_CreatedAt = drv_now drv, org_UpdatedAt = drv_now drv\<rparr>
           in Inr (row, t\<lparr>tb_organizations := put oid row (tb_organizations t)\<rparr>))"

text \<open>\<open>INSERT ... ON CONFLICT(id) DO UPDATE SET ... RETURNING created_at, updated_at\<close>\<close>

definition upsert_organization :: "Driver \<Rightarrow> Organization \<Rightarrow> Tables \<Rightarrow> sql_error + Organization \<times> Tables" where
  "upsert_organization drv r t =
     (case map_of (tb_organizations t) (org_ID r) of
        None \<Rightarrow> insert_organization drv (org_ID r) (org_Code r) (org_Name r) (org_Enabled r) t
      | Some old \<Rightarrow>
          if code_taken (org_ID r) (org_Code r) t then Inl (Violation unique_violation)
          else let row = old\<lparr>org_Code := org_Code r, org_Name := org_Name r, org_Enabled := org_Enabled r,
                             org_UpdatedAt := drv_now drv\<rparr>
               in Inr (row, t\<lparr>tb_organizations := put (org_ID r) row (tb_organizations t)\<rparr>))"

definition by_columns :: "(string \<Rightarrow> string \<Rightarrow> bool) \<Rightarrow> ('a \<Rightarrow> string) \<Rightarrow> ('a \<Rightarrow> string) \<Rightarrow> 'a \<Rightarrow> 'a \<Rightarrow> bool" where
  "by_columns before a b x y \<longleftrightarrow> before (a x) (a y) \<or> \<not> before (a y) (a x) \<and> before (b x) (b y)"

definition ListOrganizations :: "Driver \<Rightarrow> Organization list sql" where
  "ListOrganizations drv = select drv (raw drv)
     (\<lambda>t. Inr (sort_by (by_columns (drv_before drv) org_Code org_ID) (map snd (tb_organizations t))))"

definition GetOrganization :: "Driver \<Rightarrow> string \<Rightarrow> Organization sql" where
  "GetOrganization drv i = select drv (translate drv)
     (\<lambda>t. case map_of (tb_organizations t) i of None \<Rightarrow> Inl NoRows | Some r \<Rightarrow> Inr r)"

definition SaveOrganization :: "Driver \<Rightarrow> Organization \<Rightarrow> Organization sql" where
  "SaveOrganization drv r =
     and_then (auto_commit drv (translate drv) (upsert_organization drv r))
       (\<lambda>row. yield (r\<lparr>org_CreatedAt := org_CreatedAt row, org_UpdatedAt := org_UpdatedAt row\<rparr>))"

section \<open>Accounts\<close>

definition username_taken :: "string \<Rightarrow> string \<Rightarrow> Tables \<Rightarrow> bool" where
  "username_taken uid uname t \<longleftrightarrow> list_ex (\<lambda>(i, u). i \<noteq> uid \<and> usr_Username u = uname) (tb_users t)"

definition insert_user :: "User \<Rightarrow> Tables \<Rightarrow> sql_error + unit \<times> Tables" where
  "insert_user u t =
     (if map_of (tb_users t) (usr_ID u) \<noteq> None \<or> username_taken (usr_ID u) (usr_Username u) t
      then Inl (Violation unique_violation)
      else if map_of (tb_organizations t) (usr_OrganizationID u) = None then Inl (Violation foreign_key_violation)
      else Inr ((), t\<lparr>tb_users := put (usr_ID u) u (tb_users t)\<rparr>))"

text \<open>The upsert of an account; an account of another organisation is left alone, and the number of
  rows affected is the result. An empty hash keeps the old one.\<close>

definition upsert_user :: "User \<Rightarrow> Tables \<Rightarrow> sql_error + nat \<times> Tables" where
  "upsert_user u t =
     (case map_of (tb_users t) (usr_ID u) of
        None \<Rightarrow> (case insert_user u t of Inl e \<Rightarrow> Inl e | Inr (_, t') \<Rightarrow> Inr (1, t'))
      | Some old \<Rightarrow>
          if usr_OrganizationID old \<noteq> usr_OrganizationID u then Inr (0, t)
          else if username_taken (usr_ID u) (usr_Username u) t then Inl (Violation unique_violation)
          else Inr (1, t\<lparr>tb_users := put (usr_ID u)
                 (old\<lparr>usr_Username := usr_Username u, usr_Role := usr_Role u, usr_Enabled := usr_Enabled u,
                      usr_PasswordHash := (if usr_PasswordHash u = '''' then usr_PasswordHash old
                                           else usr_PasswordHash u)\<rparr>) (tb_users t)\<rparr>))"

definition delete_sessions :: "string \<Rightarrow> Tables \<Rightarrow> sql_error + unit \<times> Tables" where
  "delete_sessions uid t = Inr ((), t\<lparr>tb_sessions := filter (\<lambda>(h, s). ses_UserID s \<noteq> uid) (tb_sessions t)\<rparr>)"

text \<open>\<open>ListUsers\<close> does not read the password hash.\<close>

definition ListUsers :: "Driver \<Rightarrow> User list sql" where
  "ListUsers drv = select drv (raw drv)
     (\<lambda>t. Inr (sort_by (by_columns (drv_before drv) usr_Username usr_ID)
                 (map (\<lambda>(i, u). u\<lparr>usr_PasswordHash := ''''\<rparr>) (tb_users t))))"

definition UserByUsername :: "Driver \<Rightarrow> string \<Rightarrow> User sql" where
  "UserByUsername drv uname = select drv (translate drv)
     (\<lambda>t. case List.find (\<lambda>u. usr_Username u = uname) (map snd (tb_users t)) of None \<Rightarrow> Inl NoRows | Some u \<Rightarrow> Inr u)"

definition SaveUser :: "Driver \<Rightarrow> User \<Rightarrow> User sql" where
  "SaveUser drv u = transaction drv
     (and_then (statement drv 1 (translate drv) (upsert_user u)) (\<lambda>n.
      if n \<noteq> 1 then raise ErrConflict
      else and_then (statement drv 2 (raw drv) (delete_sessions (usr_ID u))) (\<lambda>_. yield u)))"

text \<open>\<open>Bootstrap\<close> locks the table, so no account appears between the count and the insertion.\<close>

definition Bootstrap :: "Driver \<Rightarrow> Organization \<Rightarrow> User \<Rightarrow> unit sql" where
  "Bootstrap drv r u = transaction drv
     (and_then (statement drv 1 (raw drv) (\<lambda>t. Inr ((), t))) (\<lambda>_.
      and_then (statement drv 2 (raw drv) (\<lambda>t. Inr (length (tb_users t), t))) (\<lambda>count.
      if count \<noteq> 0 then raise ErrConflict
      else and_then (statement drv 3 (translate drv)
             (insert_organization drv (org_ID r) (org_Code r) (org_Name r) True)) (\<lambda>_.
           statement drv 4 (translate drv)
             (insert_user (u\<lparr>usr_Role := RoleAdmin, usr_OrganizationID := org_ID r, usr_Enabled := True\<rparr>))))))"

section \<open>Sessions\<close>

definition insert_session :: "Driver \<Rightarrow> string \<Rightarrow> string \<Rightarrow> gotime \<Rightarrow> Tables \<Rightarrow> sql_error + unit \<times> Tables" where
  "insert_session drv hash uid expires t =
     (if map_of (tb_sessions t) hash \<noteq> None then Inl (Violation unique_violation)
      else if map_of (tb_users t) uid = None then Inl (Violation foreign_key_violation)
      else Inr ((), t\<lparr>tb_sessions := put hash \<lparr>ses_UserID = uid, ses_ExpiresAt = drv_timestamp drv expires\<rparr>
                       (tb_sessions t)\<rparr>))"

definition CreateSession :: "Driver \<Rightarrow> string \<Rightarrow> string \<Rightarrow> gotime \<Rightarrow> unit sql" where
  "CreateSession drv hash uid expires = auto_commit drv (raw drv) (insert_session drv hash uid expires)"

text \<open>The join of a live session with its account and organisation, both enabled.\<close>

definition session_row :: "Driver \<Rightarrow> string \<Rightarrow> gotime \<Rightarrow> Tables \<Rightarrow> sql_error + Principal" where
  "session_row drv hash now t =
     (case map_of (tb_sessions t) hash of
        None \<Rightarrow> Inl NoRows
      | Some s \<Rightarrow>
          (case map_of (tb_users t) (ses_UserID s) of
             None \<Rightarrow> Inl NoRows
           | Some u \<Rightarrow>
               (case map_of (tb_organizations t) (usr_OrganizationID u) of
                  None \<Rightarrow> Inl NoRows
                | Some r \<Rightarrow>
                    if drv_timestamp drv now < ses_ExpiresAt s \<and> usr_Enabled u \<and> org_Enabled r
                    then Inr \<lparr>prn_User = u\<lparr>usr_PasswordHash := ''''\<rparr>, prn_Organization = r, prn_ScopeOrganizationID = ''''\<rparr>
                    else Inl NoRows)))"

definition SessionPrincipal :: "Driver \<Rightarrow> string \<Rightarrow> gotime \<Rightarrow> Principal sql" where
  "SessionPrincipal drv hash now =
     select drv (\<lambda>e. if e = NoRows then ErrUnauthorized else raw drv e) (session_row drv hash now)"

definition delete_session :: "Driver \<Rightarrow> string \<Rightarrow> Tables \<Rightarrow> sql_error + unit \<times> Tables" where
  "delete_session drv hash t = Inr ((), t\<lparr>tb_sessions :=
     filter (\<lambda>(h, s). \<not> (h = hash \<or> ses_ExpiresAt s \<le> drv_now drv)) (tb_sessions t)\<rparr>)"

definition DeleteSession :: "Driver \<Rightarrow> string \<Rightarrow> unit sql" where
  "DeleteSession drv hash = auto_commit drv (raw drv) (delete_session drv hash)"

section \<open>Enrolments\<close>

definition insert_enrollment :: "Driver \<Rightarrow> Enrollment \<Rightarrow> Tables \<Rightarrow> sql_error + unit \<times> Tables" where
  "insert_enrollment drv e t =
     (if map_of (tb_enrollments t) (enr_ID e) \<noteq> None \<or>
         list_ex (\<lambda>(i, w). enw_ServerID w = enr_ServerID e \<or> enw_TokenHash w = enr_TokenHash e) (tb_enrollments t)
      then Inl (Violation unique_violation)
      else if map_of (tb_organizations t) (enr_OrganizationID e) = None then Inl (Violation foreign_key_violation)
      else Inr ((), t\<lparr>tb_enrollments := put (enr_ID e)
             \<lparr>enw_OrganizationID = enr_OrganizationID e, enw_ServerID = enr_ServerID e,
              enw_DisplayName = enr_DisplayName e, enw_Labels = enr_Labels e, enw_TokenHash = enr_TokenHash e,
              enw_ExpiresAt = drv_timestamp drv (enr_ExpiresAt e), enw_MachineID = None, enw_Revoked = False\<rparr>
             (tb_enrollments t)\<rparr>))"

definition CreateEnrollment :: "Driver \<Rightarrow> Enrollment \<Rightarrow> unit sql" where
  "CreateEnrollment drv e = auto_commit drv (translate drv) (insert_enrollment drv e)"

text \<open>\<open>coalesce(machine_id, '')\<close>\<close>

definition bound_machine :: "EnrollmentRow \<Rightarrow> string" where
  "bound_machine w = (case enw_MachineID w of None \<Rightarrow> '''' | Some m \<Rightarrow> m)"

definition listed_enrollment :: "string \<times> EnrollmentRow \<Rightarrow> Enrollment" where
  "listed_enrollment = (\<lambda>(i, w). \<lparr>enr_ID = i, enr_OrganizationID = enw_OrganizationID w, enr_ServerID = enw_ServerID w,
     enr_DisplayName = enw_DisplayName w, enr_Labels = enw_Labels w, enr_TokenHash = '''',
     enr_ExpiresAt = enw_ExpiresAt w, enr_MachineID = bound_machine w, enr_Revoked = enw_Revoked w\<rparr>)"

definition ListEnrollments :: "Driver \<Rightarrow> Enrollment list sql" where
  "ListEnrollments drv = select drv (raw drv)
     (\<lambda>t. Inr (sort_by (\<lambda>x y. enr_ExpiresAt y < enr_ExpiresAt x \<or>
                              enr_ExpiresAt x = enr_ExpiresAt y \<and> drv_before drv (enr_ID x) (enr_ID y))
                 (map listed_enrollment (tb_enrollments t))))"

definition revoke_enrollment :: "string \<Rightarrow> Tables \<Rightarrow> sql_error + unit \<times> Tables" where
  "revoke_enrollment eid t = Inr ((), t\<lparr>tb_enrollments :=
     map_vals (\<lambda>i w. if i = eid then w\<lparr>enw_Revoked := True\<rparr> else w) (tb_enrollments t)\<rparr>)"

definition RevokeEnrollment :: "Driver \<Rightarrow> string \<Rightarrow> unit sql" where
  "RevokeEnrollment drv eid = auto_commit drv (raw drv) (revoke_enrollment eid)"

text \<open>The locked row of a token: not revoked, of an enabled organisation.\<close>

definition token_row :: "string \<Rightarrow> Tables \<Rightarrow> sql_error + (string \<times> EnrollmentRow) \<times> Tables" where
  "token_row hash t =
     (case List.find (\<lambda>(i, w). enw_TokenHash w = hash \<and> \<not> enw_Revoked w \<and>
             (case map_of (tb_organizations t) (enw_OrganizationID w) of None \<Rightarrow> False | Some r \<Rightarrow> org_Enabled r))
             (tb_enrollments t) of
        None \<Rightarrow> Inl NoRows | Some iw \<Rightarrow> Inr (iw, t))"

definition insert_ownership :: "string \<Rightarrow> OwnershipRow \<Rightarrow> Tables \<Rightarrow> sql_error + unit \<times> Tables" where
  "insert_ownership sid row t =
     (if map_of (tb_ownership t) sid \<noteq> None \<or>
         list_ex (\<lambda>(i, w). onr_MachineID w = onr_MachineID row \<or> onr_EnrollmentID w = onr_EnrollmentID row) (tb_ownership t)
      then Inl (Violation unique_violation)
      else if map_of (tb_organizations t) (onr_OrganizationID row) = None \<or>
              map_of (tb_enrollments t) (onr_EnrollmentID row) = None
      then Inl (Violation foreign_key_violation)
      else Inr ((), t\<lparr>tb_ownership := put sid row (tb_ownership t)\<rparr>))"

definition set_machine :: "string \<Rightarrow> string \<Rightarrow> Tables \<Rightarrow> sql_error + unit \<times> Tables" where
  "set_machine eid machine t =
     Inr ((), t\<lparr>tb_enrollments := map_vals (\<lambda>i w. if i = eid then w\<lparr>enw_MachineID := Some machine\<rparr> else w) (tb_enrollments t)\<rparr>)"

definition owner_of :: "EnrollmentRow \<Rightarrow> string \<Rightarrow> ServerOwnership" where
  "owner_of w machine = \<lparr>own_ServerID = enw_ServerID w, own_MachineID = machine,
     own_OrganizationID = enw_OrganizationID w, own_DisplayName = enw_DisplayName w, own_Labels = enw_Labels w\<rparr>"

definition bind_row :: "Driver \<Rightarrow> string \<Rightarrow> gotime \<Rightarrow> string \<times> EnrollmentRow \<Rightarrow> ServerOwnership sql" where
  "bind_row drv machine now iw =
     (let (i, w) = iw; bound = bound_machine w in
      if bound \<noteq> '''' \<and> bound \<noteq> machine \<or> bound = '''' \<and> \<not> now < enw_ExpiresAt w then raise ErrUnauthorized
      else if bound = ''''
      then and_then (statement drv 2 (translate drv) (insert_ownership (enw_ServerID w)
                       \<lparr>onr_MachineID = machine, onr_OrganizationID = enw_OrganizationID w, onr_EnrollmentID = i\<rparr>)) (\<lambda>_.
           and_then (statement drv 3 (raw drv) (set_machine i machine)) (\<lambda>_. yield (owner_of w machine)))
      else yield (owner_of w machine))"

definition BindEnrollment :: "Driver \<Rightarrow> string \<Rightarrow> string \<Rightarrow> gotime \<Rightarrow> ServerOwnership sql" where
  "BindEnrollment drv hash machine now = transaction drv
     (and_then (statement drv 1 (\<lambda>e. if e = NoRows then ErrUnauthorized else raw drv e) (token_row hash))
        (bind_row drv machine now))"

end
