(* ===== verification/Metadata_Laws.thy ===== *)
theory Metadata_Laws
  imports Metadata_Store
begin

text \<open>
  What the metadata store keeps over every run of calls, with any faults: its tables are consistent,
  an account never changes organisation, an enrolment token binds one machine, once, and a session
  that authenticates was created for its account and has not been revoked since.
\<close>

section \<open>Effects of statements and transactions\<close>

lemma statement_Inr: "statement drv n conv q t = (Inr v, t') \<longleftrightarrow> drv_fault drv (Statement n) = None \<and> q t = Inr (v, t')"
  by (auto simp: statement_def split: option.splits sum.splits)

lemma select_Inr: "select drv conv q t = (Inr v, t') \<longleftrightarrow> drv_fault drv (Statement 0) = None \<and> q t = Inr v \<and> t' = t"
  by (auto simp: select_def split: option.splits sum.splits)

lemma select_pure [simp]: "snd (select drv conv q t) = t"
  by (auto simp: select_def split: option.splits sum.splits)

lemma raise_Inr [simp]: "raise e t = (Inr v, t') \<longleftrightarrow> False" and yield_Inr [simp]: "yield u t = (Inr v, t') \<longleftrightarrow> v = u \<and> t' = t"
  by (auto simp: raise_def yield_def)

lemma auto_commit_Inr:
  "auto_commit drv conv q t = (Inr v, t') \<longleftrightarrow> drv_fault drv (Statement 0) = None \<and> q t = Inr (v, t')"
  by (auto simp: auto_commit_def split: option.splits sum.splits)

lemma auto_commit_effect:
  "auto_commit drv conv q t = (r, t') \<Longrightarrow> t' = t \<or> (\<exists>v. q t = Inr (v, t'))"
  by (auto simp: auto_commit_def split: option.splits sum.splits if_splits)

lemma transaction_Inr:
  "transaction drv body t = (Inr v, t') \<Longrightarrow> body t = (Inr v, t')"
  by (auto simp: transaction_def split: option.splits sum.splits prod.splits)

lemma transaction_effect:
  "transaction drv body t = (r, t') \<Longrightarrow> t' = t \<or> (\<exists>v. body t = (Inr v, t'))"
  by (auto simp: transaction_def split: option.splits sum.splits prod.splits if_splits)

section \<open>Calls\<close>

text \<open>The calls that change the tables.\<close>

datatype md_call =
    MdBootstrap Organization User | MdSaveOrganization Organization | MdSaveUser User
  | MdCreateSession string string gotime | MdDeleteSession string
  | MdCreateEnrollment Enrollment | MdRevokeEnrollment string | MdBindEnrollment string string gotime

fun exec_md :: "Driver \<Rightarrow> md_call \<Rightarrow> unit sql" where
  "exec_md drv (MdBootstrap r u) = Bootstrap drv r u"
| "exec_md drv (MdSaveOrganization r) = and_then (SaveOrganization drv r) (\<lambda>_. yield ())"
| "exec_md drv (MdSaveUser u) = and_then (SaveUser drv u) (\<lambda>_. yield ())"
| "exec_md drv (MdCreateSession hash uid expires) = CreateSession drv hash uid expires"
| "exec_md drv (MdDeleteSession hash) = DeleteSession drv hash"
| "exec_md drv (MdCreateEnrollment e) = CreateEnrollment drv e"
| "exec_md drv (MdRevokeEnrollment i) = RevokeEnrollment drv i"
| "exec_md drv (MdBindEnrollment hash machine now) = and_then (BindEnrollment drv hash machine now) (\<lambda>_. yield ())"

inductive md_run :: "Tables \<Rightarrow> (md_call \<times> bool) list \<Rightarrow> bool" where
  fresh: "md_run empty_tables []"
| call: "md_run t es \<Longrightarrow> exec_md drv c t = (r, t') \<Longrightarrow> md_run t' (es @ [(c, \<not> isl r)])"

text \<open>What a call can do to the tables, its faults aside.\<close>

definition user_row :: "User \<Rightarrow> User \<Rightarrow> User" where
  "user_row old u = old\<lparr>usr_Username := usr_Username u, usr_Role := usr_Role u, usr_Enabled := usr_Enabled u,
     usr_PasswordHash := (if usr_PasswordHash u = '''' then usr_PasswordHash old else usr_PasswordHash u)\<rparr>"

inductive md_effect :: "Driver \<Rightarrow> md_call \<Rightarrow> Tables \<Rightarrow> Tables \<Rightarrow> bool" for drv where
  nothing: "md_effect drv c t t"
| bootstrap: "insert_organization drv (org_ID r) (org_Code r) (org_Name r) True t = Inr (row, t1) \<Longrightarrow>
    insert_user (u\<lparr>usr_Role := RoleAdmin, usr_OrganizationID := org_ID r, usr_Enabled := True\<rparr>) t1 = Inr ((), t2) \<Longrightarrow>
    tb_users t = [] \<Longrightarrow> md_effect drv (MdBootstrap r u) t t2"
| organization: "upsert_organization drv r t = Inr (row, t1) \<Longrightarrow> md_effect drv (MdSaveOrganization r) t t1"
| account: "upsert_user u t = Inr (1, t1) \<Longrightarrow> delete_sessions (usr_ID u) t1 = Inr ((), t2) \<Longrightarrow>
    md_effect drv (MdSaveUser u) t t2"
| session: "insert_session drv hash uid expires t = Inr ((), t1) \<Longrightarrow> md_effect drv (MdCreateSession hash uid expires) t t1"
| logout: "delete_session drv hash t = Inr ((), t1) \<Longrightarrow> md_effect drv (MdDeleteSession hash) t t1"
| enrollment: "insert_enrollment drv e t = Inr ((), t1) \<Longrightarrow> md_effect drv (MdCreateEnrollment e) t t1"
| revoke: "revoke_enrollment i t = Inr ((), t1) \<Longrightarrow> md_effect drv (MdRevokeEnrollment i) t t1"
| bind: "token_row hash t = Inr ((i, w), t) \<Longrightarrow> bound_machine w = '''' \<Longrightarrow>
    insert_ownership (enw_ServerID w)
      \<lparr>onr_MachineID = machine, onr_OrganizationID = enw_OrganizationID w, onr_EnrollmentID = i\<rparr> t = Inr ((), t1) \<Longrightarrow>
    set_machine i machine t1 = Inr ((), t2) \<Longrightarrow> md_effect drv (MdBindEnrollment hash machine now) t t2"

lemma token_row_same: "token_row hash t = Inr (iw, t') \<Longrightarrow> t' = t"
  by (auto simp: token_row_def split: option.splits)

lemma and_then_done: "and_then m (\<lambda>_. yield ()) t = (r, t') \<Longrightarrow> \<exists>r'. m t = (r', t') \<and> isl r = isl r'"
  by (auto simp: and_then_def yield_def split: prod.splits sum.splits)

lemma bind_row_Inr:
  "bind_row drv machine now (i, w) t = (Inr v, t') \<Longrightarrow>
     v = owner_of w machine \<and>
     (bound_machine w = machine \<and> machine \<noteq> '''' \<and> t' = t \<or>
      bound_machine w = '''' \<and> now < enw_ExpiresAt w \<and>
      (\<exists>t1. insert_ownership (enw_ServerID w)
          \<lparr>onr_MachineID = machine, onr_OrganizationID = enw_OrganizationID w, onr_EnrollmentID = i\<rparr> t = Inr ((), t1) \<and>
        set_machine i machine t1 = Inr ((), t')))"
  by (auto simp: bind_row_def Let_def and_then_Inr statement_Inr split: if_splits)

lemma bind_body_Inr:
  "and_then (statement drv n conv (token_row hash)) (bind_row drv machine now) t = (Inr v, t') \<Longrightarrow>
     \<exists>i w. token_row hash t = Inr ((i, w), t) \<and> bind_row drv machine now (i, w) t = (Inr v, t')"
  by (fastforce simp: and_then_Inr statement_Inr dest: token_row_same)

lemma BindEnrollment_Inr:
  "BindEnrollment drv hash machine now t = (Inr v, t') \<Longrightarrow>
     \<exists>i w. token_row hash t = Inr ((i, w), t) \<and> bind_row drv machine now (i, w) t = (Inr v, t')"
  unfolding BindEnrollment_def by (drule transaction_Inr) (rule bind_body_Inr)

lemma exec_md_effect: "exec_md drv c t = (r, t') \<Longrightarrow> md_effect drv c t t'"
proof (cases c)
  case (MdBootstrap o1 u)
  assume "exec_md drv c t = (r, t')"
  with MdBootstrap transaction_effect [of drv _ t r t'] show ?thesis
    by (fastforce simp: Bootstrap_def and_then_Inr statement_Inr split: if_splits intro: md_effect.nothing md_effect.bootstrap)
next
  case (MdSaveOrganization o1)
  assume "exec_md drv c t = (r, t')"
  with MdSaveOrganization obtain r1 where "and_then (auto_commit drv (translate drv) (upsert_organization drv o1))
       (\<lambda>row. yield (o1\<lparr>org_CreatedAt := org_CreatedAt row, org_UpdatedAt := org_UpdatedAt row\<rparr>)) t = (r1, t')"
    by (auto simp: SaveOrganization_def dest: and_then_done)
  then obtain r2 where "auto_commit drv (translate drv) (upsert_organization drv o1) t = (r2, t')"
    by (auto simp: and_then_def yield_def split: prod.splits sum.splits)
  from auto_commit_effect [OF this] MdSaveOrganization show ?thesis
    by (auto intro: md_effect.nothing md_effect.organization)
next
  case (MdSaveUser u)
  assume "exec_md drv c t = (r, t')"
  with MdSaveUser obtain r1 where "SaveUser drv u t = (r1, t')" by (auto dest: and_then_done)
  from transaction_effect [OF this [unfolded SaveUser_def]] MdSaveUser show ?thesis
    by (auto simp: and_then_Inr statement_Inr split: if_splits intro: md_effect.nothing md_effect.account)
next
  case (MdBindEnrollment hash machine now)
  assume "exec_md drv c t = (r, t')"
  with MdBindEnrollment obtain r1 where "BindEnrollment drv hash machine now t = (r1, t')" by (auto dest: and_then_done)
  from transaction_effect [OF this [unfolded BindEnrollment_def]] consider "t' = t"
    | i w v where "token_row hash t = Inr ((i, w), t)" "bind_row drv machine now (i, w) t = (Inr v, t')"
    using bind_body_Inr by blast
  then show ?thesis
    using MdBindEnrollment by cases (auto dest!: bind_row_Inr intro: md_effect.nothing md_effect.bind)
next
  case (MdCreateSession h u e)
  then show "exec_md drv c t = (r, t') \<Longrightarrow> ?thesis"
    by (auto simp: CreateSession_def dest!: auto_commit_effect intro: md_effect.nothing md_effect.session)
next
  case (MdCreateEnrollment e)
  then show "exec_md drv c t = (r, t') \<Longrightarrow> ?thesis"
    by (auto simp: CreateEnrollment_def dest!: auto_commit_effect intro: md_effect.nothing md_effect.enrollment)
next
  case (MdDeleteSession h)
  then show "exec_md drv c t = (r, t') \<Longrightarrow> ?thesis"
    by (auto simp: DeleteSession_def dest!: auto_commit_effect intro: md_effect.nothing md_effect.logout)
next
  case (MdRevokeEnrollment i)
  then show "exec_md drv c t = (r, t') \<Longrightarrow> ?thesis"
    by (auto simp: RevokeEnrollment_def dest!: auto_commit_effect intro: md_effect.nothing md_effect.revoke)
qed

section \<open>Consistency of the tables\<close>

text \<open>Each table in itself, and enrolments against ownership: a bound enrolment owns its server.\<close>

definition keyed :: "('a \<Rightarrow> string) \<Rightarrow> (string, 'a) gomap \<Rightarrow> bool" where
  "keyed key m \<longleftrightarrow> wf_map m \<and> (\<forall>(i, r) \<in> set m. key r = i)"

definition enrollments_ok :: "(string, EnrollmentRow) gomap \<Rightarrow> bool" where
  "enrollments_ok es \<longleftrightarrow> wf_map es \<and> distinct (map (enw_TokenHash \<circ> snd) es) \<and> distinct (map (enw_ServerID \<circ> snd) es)"

definition ownership_ok :: "(string, OwnershipRow) gomap \<Rightarrow> bool" where
  "ownership_ok ow \<longleftrightarrow> wf_map ow \<and> distinct (map (onr_MachineID \<circ> snd) ow)"

definition binding_ok :: "(string, OwnershipRow) gomap \<Rightarrow> string \<Rightarrow> EnrollmentRow \<Rightarrow> bool" where
  "binding_ok ow i w \<longleftrightarrow>
     (case enw_MachineID w of None \<Rightarrow> map_of ow (enw_ServerID w) = None
      | Some m \<Rightarrow> map_of ow (enw_ServerID w) =
          Some \<lparr>onr_MachineID = m, onr_OrganizationID = enw_OrganizationID w, onr_EnrollmentID = i\<rparr>)"

text \<open>Every owned server comes from an enrolment.\<close>

definition bindings_ok :: "(string, EnrollmentRow) gomap \<Rightarrow> (string, OwnershipRow) gomap \<Rightarrow> bool" where
  "bindings_ok es ow \<longleftrightarrow> (\<forall>(i, w) \<in> set es. binding_ok ow i w) \<and>
     set (gokeys ow) \<subseteq> (enw_ServerID \<circ> snd) ` set es"

definition md_ok :: "Tables \<Rightarrow> bool" where
  "md_ok t \<longleftrightarrow> keyed org_ID (tb_organizations t) \<and> keyed usr_ID (tb_users t) \<and> wf_map (tb_sessions t) \<and>
     enrollments_ok (tb_enrollments t) \<and> ownership_ok (tb_ownership t) \<and> bindings_ok (tb_enrollments t) (tb_ownership t)"

text \<open>What never changes once it is there: the organisation of an account, the terms of an enrolment,
  the machine it is bound to, and who owns a server.\<close>

definition users_later :: "(string, User) gomap \<Rightarrow> (string, User) gomap \<Rightarrow> bool" where
  "users_later us us' \<longleftrightarrow> (\<forall>i u. map_of us i = Some u \<longrightarrow>
     (\<exists>u'. map_of us' i = Some u' \<and> usr_OrganizationID u' = usr_OrganizationID u))"

definition row_later :: "EnrollmentRow \<Rightarrow> EnrollmentRow \<Rightarrow> bool" where
  "row_later w w' \<longleftrightarrow> enw_OrganizationID w' = enw_OrganizationID w \<and> enw_ServerID w' = enw_ServerID w \<and>
     enw_DisplayName w' = enw_DisplayName w \<and> enw_Labels w' = enw_Labels w \<and> enw_TokenHash w' = enw_TokenHash w \<and>
     enw_ExpiresAt w' = enw_ExpiresAt w \<and> enw_MachineID w' \<in> (if enw_MachineID w = None then UNIV else {enw_MachineID w}) \<and>
     (enw_Revoked w \<longrightarrow> enw_Revoked w')"

definition enrollments_later :: "(string, EnrollmentRow) gomap \<Rightarrow> (string, EnrollmentRow) gomap \<Rightarrow> bool" where
  "enrollments_later es es' \<longleftrightarrow>
     (\<forall>i w. map_of es i = Some w \<longrightarrow> (\<exists>w'. map_of es' i = Some w' \<and> row_later w w'))"

definition md_later :: "Tables \<Rightarrow> Tables \<Rightarrow> bool" where
  "md_later t t' \<longleftrightarrow> users_later (tb_users t) (tb_users t') \<and> enrollments_later (tb_enrollments t) (tb_enrollments t') \<and>
     map_of (tb_ownership t) \<subseteq>\<^sub>m map_of (tb_ownership t')"

lemma later_refl [simp]: "users_later us us" "row_later w w" "enrollments_later es es" "md_later t t"
  by (auto simp: users_later_def row_later_def enrollments_later_def md_later_def)

lemma row_later_trans: "row_later w1 w2 \<Longrightarrow> row_later w2 w3 \<Longrightarrow> row_later w1 w3"
  by (auto simp: row_later_def split: if_splits)

lemma md_later_trans: "md_later t1 t2 \<Longrightarrow> md_later t2 t3 \<Longrightarrow> md_later t1 t3"
  unfolding md_later_def users_later_def enrollments_later_def
  by (intro conjI; metis (no_types, lifting) map_le_trans row_later_trans)

lemma md_ok_empty: "md_ok empty_tables"
  by (simp add: md_ok_def empty_tables_def keyed_def enrollments_ok_def ownership_ok_def bindings_ok_def)

lemma keyed_put: "keyed key m \<Longrightarrow> key v = k \<Longrightarrow> keyed key (put k v m)"
  by (auto simp: keyed_def dest: set_putD)

lemma keyed_lookup: "keyed key m \<Longrightarrow> map_of m k = Some v \<Longrightarrow> key v = k"
  by (auto simp: keyed_def dest: map_of_SomeD)

lemma users_later_put:
  "(\<And>old. map_of us i = Some old \<Longrightarrow> usr_OrganizationID old = usr_OrganizationID u) \<Longrightarrow> users_later us (put i u us)"
  by (auto simp: users_later_def)

lemma insert_organization_Inr:
  "insert_organization drv i c n b t = Inr (row, t') \<Longrightarrow> md_ok t \<Longrightarrow>
     md_ok t' \<and> md_later t t' \<and> tb_sessions t' = tb_sessions t"
  by (auto simp: insert_organization_def md_ok_def md_later_def Let_def split: if_splits intro!: keyed_put)

lemma upsert_organization_Inr:
  assumes up: "upsert_organization drv r t = Inr (row, t')" and ok: "md_ok t"
  shows "md_ok t' \<and> md_later t t' \<and> tb_sessions t' = tb_sessions t"
proof (cases "map_of (tb_organizations t) (org_ID r)")
  case None
  with up have "insert_organization drv (org_ID r) (org_Code r) (org_Name r) (org_Enabled r) t = Inr (row, t')"
    by (simp add: upsert_organization_def)
  then show ?thesis using ok by (rule insert_organization_Inr)
next
  case (Some old)
  with ok have "org_ID old = org_ID r" by (auto simp: md_ok_def dest: keyed_lookup)
  with up ok Some show ?thesis
    by (auto simp: upsert_organization_def md_ok_def md_later_def Let_def split: if_splits intro!: keyed_put)
qed

lemma insert_user_Inr:
  "insert_user u t = Inr ((), t') \<Longrightarrow> md_ok t \<Longrightarrow> md_ok t' \<and> md_later t t' \<and> tb_sessions t' = tb_sessions t"
  by (auto simp: insert_user_def md_ok_def md_later_def split: if_splits intro!: keyed_put users_later_put)

lemma upsert_user_Inr:
  assumes up: "upsert_user u t = Inr (n, t')" and ok: "md_ok t"
  shows "md_ok t' \<and> md_later t t' \<and> tb_sessions t' = tb_sessions t"
proof (cases "map_of (tb_users t) (usr_ID u)")
  case None
  with up have "insert_user u t = Inr ((), t')" by (auto simp: upsert_user_def split: sum.splits)
  then show ?thesis using ok by (rule insert_user_Inr)
next
  case (Some old)
  with ok have "usr_ID old = usr_ID u" by (auto simp: md_ok_def dest: keyed_lookup)
  with up ok Some show ?thesis
    by (auto simp: upsert_user_def md_ok_def md_later_def split: if_splits intro!: keyed_put users_later_put)
qed

lemma wf_map_filter: "wf_map m \<Longrightarrow> wf_map (filter P m)"
  by (simp add: distinct_map_filter)

lemma insert_session_Inr:
  "insert_session drv h uid e t = Inr ((), t') \<Longrightarrow> md_ok t \<Longrightarrow> md_ok t' \<and> md_later t t'"
  by (auto simp: insert_session_def md_ok_def md_later_def split: if_splits)

lemma delete_sessions_Inr:
  "delete_sessions uid t = Inr ((), t') \<Longrightarrow> md_ok t \<Longrightarrow> md_ok t' \<and> md_later t t'"
  "delete_session drv h t = Inr ((), t') \<Longrightarrow> md_ok t \<Longrightarrow> md_ok t' \<and> md_later t t'"
  by (auto simp: delete_sessions_def delete_session_def md_ok_def md_later_def wf_map_filter)

lemma put_new: "k \<notin> set (gokeys m) \<Longrightarrow> put k v m = m @ [(k, v)]"
  by (induction m) auto

lemma insert_enrollment_Inr:
  "insert_enrollment drv e t = Inr ((), t') \<Longrightarrow> md_ok t \<Longrightarrow> md_ok t' \<and> md_later t t' \<and> tb_sessions t' = tb_sessions t"
proof -
  assume "insert_enrollment drv e t = Inr ((), t')"
  then have free: "map_of (tb_enrollments t) (enr_ID e) = None"
      "\<forall>(i, w) \<in> set (tb_enrollments t). enw_ServerID w \<noteq> enr_ServerID e \<and> enw_TokenHash w \<noteq> enr_TokenHash e"
    and t': "t' = t\<lparr>tb_enrollments := put (enr_ID e)
       \<lparr>enw_OrganizationID = enr_OrganizationID e, enw_ServerID = enr_ServerID e,
        enw_DisplayName = enr_DisplayName e, enw_Labels = enr_Labels e, enw_TokenHash = enr_TokenHash e,
        enw_ExpiresAt = drv_timestamp drv (enr_ExpiresAt e), enw_MachineID = None, enw_Revoked = False\<rparr>
       (tb_enrollments t)\<rparr>"
    by (auto simp: insert_enrollment_def list_ex_iff split: if_splits)
  have new: "put (enr_ID e) v (tb_enrollments t) = tb_enrollments t @ [(enr_ID e, v)]" for v
    using free(1) by (intro put_new) (simp add: map_of_eq_None_iff)
  assume ok: "md_ok t"
  then have "map_of (tb_ownership t) (enr_ServerID e) = None"
    using free(2) by (fastforce simp: md_ok_def bindings_ok_def map_of_eq_None_iff)
  with ok free show ?thesis
    unfolding t' new by (auto simp: md_ok_def md_later_def enrollments_ok_def bindings_ok_def binding_ok_def
        enrollments_later_def map_of_eq_None_iff image_iff map_add_def split: option.splits)
qed

lemma enrollments_later_map_vals:
  "(\<And>i w. map_of es i = Some w \<Longrightarrow> row_later w (f i w)) \<Longrightarrow> enrollments_later es (map_vals f es)"
  by (auto simp: enrollments_later_def)

lemma enrollments_ok_map_vals:
  assumes "enrollments_ok es" and "\<And>i w. enw_TokenHash (f i w) = enw_TokenHash w \<and> enw_ServerID (f i w) = enw_ServerID w"
  shows "enrollments_ok (map_vals f es)" and "(enw_ServerID \<circ> snd) ` set (map_vals f es) = (enw_ServerID \<circ> snd) ` set es"
proof -
  have "map (enw_TokenHash \<circ> snd) (map_vals f es) = map (enw_TokenHash \<circ> snd) es"
    and s: "map (enw_ServerID \<circ> snd) (map_vals f es) = map (enw_ServerID \<circ> snd) es"
    by (auto simp: map_vals_def assms(2))
  with assms(1) show "enrollments_ok (map_vals f es)" by (simp add: enrollments_ok_def)
  from s show "(enw_ServerID \<circ> snd) ` set (map_vals f es) = (enw_ServerID \<circ> snd) ` set es"
    by (metis list.set_map)
qed

lemma bindings_ok_map_vals:
  assumes "bindings_ok es ow" and "\<And>i w. enw_ServerID (f i w) = enw_ServerID w"
    and "\<And>i w. (i, w) \<in> set es \<Longrightarrow> binding_ok ow i w \<Longrightarrow> binding_ok ow i (f i w)"
  shows "bindings_ok (map_vals f es) ow"
  using assms by (fastforce simp: bindings_ok_def map_vals_def image_image case_prod_beta)

lemma revoke_enrollment_Inr:
  "revoke_enrollment i t = Inr ((), t') \<Longrightarrow> md_ok t \<Longrightarrow> md_ok t' \<and> md_later t t' \<and> tb_sessions t' = tb_sessions t"
  by (auto simp: revoke_enrollment_def md_ok_def md_later_def row_later_def
      intro!: enrollments_ok_map_vals enrollments_later_map_vals bindings_ok_map_vals)
    (auto simp: binding_ok_def split: option.splits)

text \<open>Binding a machine: the new row of \<open>server_ownership\<close> and the machine of the enrolment.\<close>

lemma token_row_Inr:
  assumes "token_row hash t = Inr ((i, w), t')"
  shows "(i, w) \<in> set (tb_enrollments t) \<and> enw_TokenHash w = hash \<and> \<not> enw_Revoked w \<and>
    (\<exists>r. map_of (tb_organizations t) (enw_OrganizationID w) = Some r \<and> org_Enabled r)"
  using assms by (auto simp: token_row_def split: option.splits dest!: find_SomeD)

lemma distinct_map_eq: "distinct (map (f \<circ> snd) m) \<Longrightarrow> (i, v) \<in> set m \<Longrightarrow> (j, u) \<in> set m \<Longrightarrow> f u = f v \<Longrightarrow> j = i \<and> u = v"
  by (auto simp: distinct_map dest: inj_onD [where x = "(j, u)" and y = "(i, v)"])

lemma server_unique:
  "enrollments_ok es \<Longrightarrow> (i, w) \<in> set es \<Longrightarrow> (j, v) \<in> set es \<Longrightarrow> enw_ServerID v = enw_ServerID w \<Longrightarrow> j = i \<and> v = w"
  using distinct_map_eq [of enw_ServerID es i w j v] by (simp add: enrollments_ok_def)

lemma hash_unique:
  "enrollments_ok es \<Longrightarrow> (i, w) \<in> set es \<Longrightarrow> (j, v) \<in> set es \<Longrightarrow> enw_TokenHash v = enw_TokenHash w \<Longrightarrow> j = i \<and> v = w"
  using distinct_map_eq [of enw_TokenHash es i w j v] by (simp add: enrollments_ok_def)

lemma bind_Inr:
  assumes row: "(i, w) \<in> set (tb_enrollments t)" and free: "enw_MachineID w = None"
    and own: "insert_ownership (enw_ServerID w)
      \<lparr>onr_MachineID = machine, onr_OrganizationID = enw_OrganizationID w, onr_EnrollmentID = i\<rparr> t = Inr ((), t1)"
    and machine: "set_machine i machine t1 = Inr ((), t2)" and ok: "md_ok t"
  shows "md_ok t2 \<and> md_later t t2 \<and> tb_sessions t2 = tb_sessions t"
proof -
  let ?row = "\<lparr>onr_MachineID = machine, onr_OrganizationID = enw_OrganizationID w, onr_EnrollmentID = i\<rparr>"
  let ?f = "\<lambda>k v. if k = i then v\<lparr>enw_MachineID := Some machine\<rparr> else v"
  from own have new: "map_of (tb_ownership t) (enw_ServerID w) = None"
      "\<forall>(k, v) \<in> set (tb_ownership t). onr_MachineID v \<noteq> machine"
    and t1: "t1 = t\<lparr>tb_ownership := tb_ownership t @ [(enw_ServerID w, ?row)]\<rparr>"
    by (auto simp: insert_ownership_def list_ex_iff map_of_eq_None_iff put_new split: if_splits)
  let ?ow = "tb_ownership t @ [(enw_ServerID w, ?row)]"
  from machine t1 have t2: "t2 = t\<lparr>tb_ownership := ?ow, tb_enrollments := map_vals ?f (tb_enrollments t)\<rparr>"
    by (simp add: set_machine_def)
  from ok have e: "enrollments_ok (tb_enrollments t)" and b: "bindings_ok (tb_enrollments t) (tb_ownership t)"
    and o: "ownership_ok (tb_ownership t)" by (auto simp: md_ok_def)
  have look: "map_of (tb_enrollments t) i = Some w" using row e by (simp add: enrollments_ok_def)
  have own: "ownership_ok ?ow" using o new by (auto simp: ownership_ok_def map_of_eq_None_iff)
  have "binding_ok ?ow k (?f k v)" if "(k, v) \<in> set (tb_enrollments t)" for k v
  proof (cases "k = i")
    case True
    with that look e have "v = w" by (auto simp: enrollments_ok_def dest: map_of_is_SomeI)
    with True new show ?thesis by (simp add: binding_ok_def map_add_def)
  next
    case False
    with that row e have "enw_ServerID v \<noteq> enw_ServerID w" using server_unique by blast
    moreover have "binding_ok (tb_ownership t) k v" using b that by (auto simp: bindings_ok_def)
    ultimately show ?thesis using False by (auto simp: binding_ok_def map_add_def split: option.splits)
  qed
  then have "\<forall>(k, v) \<in> set (map_vals ?f (tb_enrollments t)). binding_ok ?ow k v"
    by (auto simp: map_vals_def)
  moreover have servers: "(enw_ServerID \<circ> snd) ` set (map_vals ?f (tb_enrollments t)) = (enw_ServerID \<circ> snd) ` set (tb_enrollments t)"
    using e by (rule enrollments_ok_map_vals(2)) simp
  moreover have "set (gokeys ?ow) \<subseteq> (enw_ServerID \<circ> snd) ` set (tb_enrollments t)"
    using b rev_image_eqI [OF row, of "enw_ServerID w" "enw_ServerID \<circ> snd"] by (simp add: bindings_ok_def)
  ultimately have "bindings_ok (map_vals ?f (tb_enrollments t)) ?ow"
    unfolding bindings_ok_def by (simp only: servers)
  moreover from e have "enrollments_ok (map_vals ?f (tb_enrollments t))"
    by (rule enrollments_ok_map_vals(1)) simp
  moreover have "enrollments_later (tb_enrollments t) (map_vals ?f (tb_enrollments t))"
    using look free by (intro enrollments_later_map_vals) (auto simp: row_later_def)
  moreover have "map_of (tb_ownership t) \<subseteq>\<^sub>m map_of ?ow"
    using new by (auto simp: map_le_def map_add_def split: option.splits)
  ultimately show ?thesis
    using ok own unfolding t2 by (simp add: md_ok_def md_later_def)
qed

section \<open>Runs\<close>

lemma bound_free: "binding_ok ow i w \<Longrightarrow> map_of ow (enw_ServerID w) = None \<Longrightarrow> enw_MachineID w = None"
  by (auto simp: binding_ok_def split: option.splits)

lemma insert_ownership_free: "insert_ownership sid row t = Inr ((), t') \<Longrightarrow> map_of (tb_ownership t) sid = None"
  by (auto simp: insert_ownership_def split: if_splits)

lemma md_effect_ok: "md_effect drv c t t' \<Longrightarrow> md_ok t \<Longrightarrow> md_ok t' \<and> md_later t t'"
proof (induction rule: md_effect.induct)
  case (nothing c t)
  then show ?case by simp
next
  case (bootstrap r t row t1 u t2)
  then show ?case using insert_organization_Inr insert_user_Inr md_later_trans by metis
next
  case (account u t t1 t2)
  then show ?case using upsert_user_Inr delete_sessions_Inr(1) md_later_trans by metis
next
  case (bind hash t i w machine t1 t2 now)
  then have "(i, w) \<in> set (tb_enrollments t)" using token_row_Inr by blast
  moreover from this bind have "enw_MachineID w = None"
    using bound_free insert_ownership_free by (fastforce simp: md_ok_def bindings_ok_def)
  ultimately show ?case using bind_Inr bind by blast
qed (blast dest: upsert_organization_Inr insert_session_Inr delete_sessions_Inr(2) insert_enrollment_Inr
      revoke_enrollment_Inr)+

lemma exec_md_ok: "exec_md drv c t = (r, t') \<Longrightarrow> md_ok t \<Longrightarrow> md_ok t' \<and> md_later t t'"
  using exec_md_effect md_effect_ok by blast

lemma md_run_ok: "md_run t es \<Longrightarrow> md_ok t"
  by (induction rule: md_run.induct) (use md_ok_empty exec_md_ok in blast)+

text \<open>More calls after a point of a run.\<close>

inductive md_steps :: "Tables \<Rightarrow> Tables \<Rightarrow> bool" where
  here: "md_steps t t"
| more: "md_steps t t1 \<Longrightarrow> exec_md drv c t1 = (r, t2) \<Longrightarrow> md_steps t t2"

lemma md_steps_later: "md_steps t t' \<Longrightarrow> md_ok t \<Longrightarrow> md_ok t' \<and> md_later t t'"
proof (induction rule: md_steps.induct)
  case (here t)
  then show ?case by simp
next
  case (more t t1 drv c r t2)
  then show ?case using exec_md_ok md_later_trans by blast
qed

lemma BindEnrollment_call: "BindEnrollment drv hash machine now t = (Inr v, t') \<Longrightarrow>
    exec_md drv (MdBindEnrollment hash machine now) t = (Inr (), t')"
  by (simp add: and_then_def yield_def)

lemma BindEnrollment_bound:
  assumes "BindEnrollment drv hash machine now t = (Inr v, t')" and ok: "md_ok t"
  obtains i w w' where "(i, w) \<in> set (tb_enrollments t)" "enw_TokenHash w = hash" "v = owner_of w machine"
    "map_of (tb_enrollments t') i = Some w'" "enw_MachineID w' = Some machine" "row_later w w'"
proof -
  from BindEnrollment_Inr [OF assms(1)] obtain i w where token: "token_row hash t = Inr ((i, w), t)"
    and bind: "bind_row drv machine now (i, w) t = (Inr v, t')" by blast
  have row: "(i, w) \<in> set (tb_enrollments t)" "enw_TokenHash w = hash" using token_row_Inr [OF token] by auto
  have later: "md_later t t'" using exec_md_ok [OF BindEnrollment_call [OF assms(1)] ok] by blast
  have look: "map_of (tb_enrollments t) i = Some w"
    using row(1) ok by (simp add: md_ok_def enrollments_ok_def)
  with later obtain w' where w': "map_of (tb_enrollments t') i = Some w'" "row_later w w'"
    by (auto simp: md_later_def enrollments_later_def)
  have "enw_MachineID w' = Some machine"
    using bind_row_Inr [OF bind]
  proof (elim conjE disjE exE)
    assume "bound_machine w = machine" "machine \<noteq> ''''"
    then have "enw_MachineID w = Some machine" by (auto simp: bound_machine_def split: option.splits)
    with w'(2) show ?thesis by (simp add: row_later_def)
  next
    fix t1 assume "set_machine i machine t1 = Inr ((), t')"
      and "insert_ownership (enw_ServerID w)
        \<lparr>onr_MachineID = machine, onr_OrganizationID = enw_OrganizationID w, onr_EnrollmentID = i\<rparr> t = Inr ((), t1)"
    with w'(1) look show ?thesis by (auto simp: set_machine_def insert_ownership_def split: if_splits)
  qed
  with row bind_row_Inr [OF bind] w' that show ?thesis by blast
qed

lemma machine_unique:
  assumes ok: "md_ok t" and "(i, w) \<in> set (tb_enrollments t)" "(j, v) \<in> set (tb_enrollments t)"
    and "enw_MachineID w = Some m" "enw_MachineID v = Some m"
  shows "enw_ServerID v = enw_ServerID w"
proof -
  have own: "\<exists>row. (enw_ServerID y, row) \<in> set (tb_ownership t) \<and> onr_MachineID row = m"
    if "(k, y) \<in> set (tb_enrollments t)" "enw_MachineID y = Some m" for k y
    using ok that by (auto simp: md_ok_def bindings_ok_def binding_ok_def dest!: bspec map_of_SomeD)
  obtain r1 r2 where "(enw_ServerID w, r1) \<in> set (tb_ownership t)" "(enw_ServerID v, r2) \<in> set (tb_ownership t)"
    "onr_MachineID r1 = m" "onr_MachineID r2 = m" using own assms by meson
  with ok show ?thesis using distinct_map_eq [of onr_MachineID "tb_ownership t"] by (fastforce simp: md_ok_def ownership_ok_def)
qed

text \<open>
  C14. One token, one machine. After any calls, with any faults, a token that once bound a machine always
  returns the ownership of that binding, whatever happened since, and neither its machine nor its
  server can be bound by another token.
\<close>

theorem enrollment_binds_one_machine:
  assumes "md_run t es" and "BindEnrollment d1 hash m1 now1 t = (Inr o1, t1)" and "md_steps t1 t2"
    and "BindEnrollment d2 hash' m2 now2 t2 = (Inr o2, t3)"
  shows "(hash' = hash \<longrightarrow> o2 = o1) \<and> (m2 = m1 \<or> own_ServerID o2 = own_ServerID o1 \<longrightarrow> hash' = hash)"
proof -
  from md_run_ok [OF assms(1)] have ok: "md_ok t" .
  from BindEnrollment_bound [OF assms(2) ok] obtain i w w1 where b1: "enw_TokenHash w = hash" "o1 = owner_of w m1"
    "map_of (tb_enrollments t1) i = Some w1" "enw_MachineID w1 = Some m1" "row_later w w1" by metis
  have ok1: "md_ok t1" using exec_md_ok [OF BindEnrollment_call [OF assms(2)] ok] by blast
  from md_steps_later [OF assms(3) ok1] have t2: "md_ok t2" "md_later t1 t2" by auto
  from BindEnrollment_bound [OF assms(4) t2(1)] obtain j v v3 where b2: "enw_TokenHash v = hash'" "o2 = owner_of v m2"
    "map_of (tb_enrollments t3) j = Some v3" "enw_MachineID v3 = Some m2" "row_later v v3" by metis
  have t3: "md_ok t3" "md_later t1 t3"
    using exec_md_ok [OF BindEnrollment_call [OF assms(4)] t2(1)] md_later_trans t2(2) by blast+
  from b1(3) t3(2) obtain w3 where w3: "map_of (tb_enrollments t3) i = Some w3" "row_later w1 w3"
    by (auto simp: md_later_def enrollments_later_def)
  have bound: "enw_MachineID w3 = Some m1" "enw_TokenHash w3 = hash" "owner_of w3 m1 = o1"
    and bound3: "enw_TokenHash v3 = hash'" "owner_of v3 m2 = o2"
    using b1 b2 w3 by (auto simp: row_later_def owner_of_def)
  have rows: "(i, w3) \<in> set (tb_enrollments t3)" "(j, v3) \<in> set (tb_enrollments t3)"
    using w3(1) b2(3) by (auto dest: map_of_SomeD)
  have e3: "enrollments_ok (tb_enrollments t3)" using t3(1) by (simp add: md_ok_def)
  have same: "v3 = w3" if "hash' = hash" using hash_unique [OF e3 rows] bound bound3 that by simp
  have server: "hash' = hash" if "enw_ServerID v3 = enw_ServerID w3"
    using server_unique [OF e3 rows that] bound bound3 by simp
  have machine: "enw_ServerID v3 = enw_ServerID w3" if "m2 = m1"
    using machine_unique [OF t3(1) rows bound(1)] b2(4) that by simp
  from same bound bound3 b2(4) have "hash' = hash \<longrightarrow> o2 = o1" by auto
  moreover from machine server bound bound3 have "m2 = m1 \<or> own_ServerID o2 = own_ServerID o1 \<longrightarrow> hash' = hash"
    by (auto simp: owner_of_def)
  ultimately show ?thesis ..
qed

section \<open>Sessions\<close>

text \<open>Where a session comes from, and what a call that succeeded did not do to it.\<close>

lemma map_of_filter_Some:
  "wf_map m \<Longrightarrow> map_of (filter P m) k = Some v \<Longrightarrow> map_of m k = Some v \<and> P (k, v)"
  using wf_mem_iff [of m k v] by (auto dest!: map_of_SomeD)

definition revokes :: "md_call \<Rightarrow> string \<Rightarrow> string \<Rightarrow> bool" where
  "revokes c hash uid \<longleftrightarrow> c = MdDeleteSession hash \<or> (\<exists>u. c = MdSaveUser u \<and> usr_ID u = uid)"

definition creates :: "Driver \<Rightarrow> md_call \<Rightarrow> string \<Rightarrow> SessionRow \<Rightarrow> bool" where
  "creates drv c hash s \<longleftrightarrow>
     (\<exists>expires. c = MdCreateSession hash (ses_UserID s) expires \<and> ses_ExpiresAt s = drv_timestamp drv expires)"

lemma md_effect_session:
  assumes "md_effect drv c t t'" and "md_ok t" and "map_of (tb_sessions t') hash = Some s"
  shows "map_of (tb_sessions t) hash = Some s \<or> creates drv c hash s"
  using assms
proof (induction rule: md_effect.induct)
  case (account u t t1 t2)
  from account upsert_user_Inr [OF account(1)] show ?case
    by (auto simp: delete_sessions_def md_ok_def dest!: map_of_filter_Some [rotated])
next
  case (bootstrap r t row t1 u t2)
  then show ?case using insert_organization_Inr insert_user_Inr by metis
next
  case (session hash uid expires t t1)
  then show ?case by (auto simp: insert_session_def creates_def split: if_splits)
next
  case (logout hash t t1)
  then show ?case by (auto simp: delete_session_def md_ok_def dest!: map_of_filter_Some [rotated])
next
  case (bind hash t i w machine t1 t2 now)
  then show ?case by (auto simp: insert_ownership_def set_machine_def split: if_splits)
qed (use upsert_organization_Inr insert_enrollment_Inr revoke_enrollment_Inr in auto)

lemma SaveUser_revokes:
  assumes "exec_md drv (MdSaveUser u) t = (Inr (), t')" and "md_ok t" and "map_of (tb_sessions t') hash = Some s"
  shows "ses_UserID s \<noteq> usr_ID u"
proof -
  from assms(1) have "and_then (statement drv 1 (translate drv) (upsert_user u)) (\<lambda>n.
      if n \<noteq> 1 then raise ErrConflict
      else and_then (statement drv 2 (raw drv) (delete_sessions (usr_ID u))) (\<lambda>_. yield u)) t = (Inr u, t')"
    by (auto simp: SaveUser_def and_then_Inr dest!: transaction_Inr split: if_splits)
  then obtain n t1 where "upsert_user u t = Inr (n, t1)" "delete_sessions (usr_ID u) t1 = Inr ((), t')"
    by (auto simp: and_then_Inr statement_Inr split: if_splits)
  with assms(2,3) upsert_user_Inr show ?thesis
    by (fastforce simp: delete_sessions_def md_ok_def dest!: map_of_filter_Some [rotated])
qed

lemma exec_md_session:
  assumes "exec_md drv c t = (r, t')" and "md_ok t" and "map_of (tb_sessions t') hash = Some s"
  shows "creates drv c hash s \<or>
    map_of (tb_sessions t) hash = Some s \<and> (isl r \<or> \<not> revokes c hash (ses_UserID s))"
proof -
  have "\<not> revokes c hash (ses_UserID s)" if "r = Inr ()"
  proof
    assume "revokes c hash (ses_UserID s)"
    then consider "c = MdDeleteSession hash" | u where "c = MdSaveUser u" "usr_ID u = ses_UserID s"
      by (auto simp: revokes_def)
    then show False
    proof cases
      case 1
      with assms that show ?thesis
        by (auto simp: DeleteSession_def auto_commit_Inr delete_session_def md_ok_def dest!: map_of_filter_Some [rotated])
    next
      case 2
      from assms(1) 2 that have "exec_md drv (MdSaveUser u) t = (Inr (), t')" by simp
      from SaveUser_revokes [OF this assms(2,3)] 2 show ?thesis by simp
    qed
  qed
  with md_effect_session [OF exec_md_effect [OF assms(1)] assms(2,3)] show ?thesis by (cases r) auto
qed

definition unrevoked :: "(md_call \<times> bool) list \<Rightarrow> string \<Rightarrow> string \<Rightarrow> bool" where
  "unrevoked es hash uid \<longleftrightarrow> list_all (\<lambda>(c, ok). \<not> (ok \<and> revokes c hash uid)) es"

lemma md_run_sessions:
  assumes "md_run t es" and "map_of (tb_sessions t) hash = Some s"
  shows "\<exists>drv c ok a b. es = a @ (c, ok) # b \<and> creates drv c hash s \<and> unrevoked b hash (ses_UserID s)"
  using assms
proof (induction arbitrary: s rule: md_run.induct)
  case fresh
  then show ?case by (simp add: empty_tables_def)
next
  case (call t es drv c r t')
  from exec_md_session [OF call(2) md_run_ok [OF call(1)] call(4)] show ?case
  proof
    assume "creates drv c hash s"
    then show ?thesis by (fastforce simp: unrevoked_def)
  next
    assume old: "map_of (tb_sessions t) hash = Some s \<and> (isl r \<or> \<not> revokes c hash (ses_UserID s))"
    with call.IH obtain d k ok a b where "es = a @ (k, ok) # b" "creates d k hash s" "unrevoked b hash (ses_UserID s)"
      by blast
    moreover from this old have "es @ [(c, \<not> isl r)] = a @ (k, ok) # (b @ [(c, \<not> isl r)])"
      "unrevoked (b @ [(c, \<not> isl r)]) hash (ses_UserID s)" by (auto simp: unrevoked_def)
    ultimately show ?thesis by blast
  qed
qed

text \<open>
  C15. Sessions are authentic. Whenever a session token authenticates, some earlier call created a session
  for exactly that token and account with an expiry still ahead, neither a logout nor an edit of the
  account came since, and the account and its organisation are enabled now.
\<close>

theorem session_is_authentic:
  assumes "md_run t es" and "SessionPrincipal drv hash now t = (Inr p, t')"
  shows "(\<exists>(d :: Driver) expires ok a b. es = a @ (MdCreateSession hash (usr_ID (prn_User p)) expires, ok) # b \<and>
      unrevoked b hash (usr_ID (prn_User p)) \<and> drv_timestamp drv now < drv_timestamp d expires) \<and>
    (\<exists>u. map_of (tb_users t) (usr_ID (prn_User p)) = Some u \<and> prn_User p = u\<lparr>usr_PasswordHash := ''''\<rparr> \<and>
      usr_Enabled u \<and> map_of (tb_organizations t) (usr_OrganizationID u) = Some (prn_Organization p) \<and>
      org_Enabled (prn_Organization p))"
proof -
  from assms(2) obtain s u g where s: "map_of (tb_sessions t) hash = Some s" "drv_timestamp drv now < ses_ExpiresAt s"
    and u: "map_of (tb_users t) (ses_UserID s) = Some u" "usr_Enabled u" "prn_User p = u\<lparr>usr_PasswordHash := ''''\<rparr>"
    and g: "map_of (tb_organizations t) (usr_OrganizationID u) = Some g" "org_Enabled g" "prn_Organization p = g"
    by (auto simp: SessionPrincipal_def select_Inr session_row_def split: option.splits if_splits)
  from u md_run_ok [OF assms(1)] have uid: "usr_ID (prn_User p) = ses_UserID s"
    by (auto simp: md_ok_def dest: keyed_lookup)
  from md_run_sessions [OF assms(1) s(1)] obtain d c ok a b where
    "es = a @ (c, ok) # b" "creates d c hash s" "unrevoked b hash (ses_UserID s)" by blast
  then obtain expires where "es = a @ (MdCreateSession hash (usr_ID (prn_User p)) expires, ok) # b"
      "unrevoked b hash (usr_ID (prn_User p))" "drv_timestamp drv now < drv_timestamp d expires"
    using s(2) uid by (auto simp: creates_def)
  then have "\<exists>(d :: Driver) expires ok a b. es = a @ (MdCreateSession hash (usr_ID (prn_User p)) expires, ok) # b \<and>
      unrevoked b hash (usr_ID (prn_User p)) \<and> drv_timestamp drv now < drv_timestamp d expires"
    by (intro exI conjI)
  with u g uid show ?thesis by auto
qed

end
