(* ===== verification/Metadata_Port.thy ===== *)
theory Metadata_Port
  imports Metadata_Laws
begin

text \<open>
  \<open>internal/ports/metadata.go\<close>: the interface through which the application reaches the metadata store,
  as a record of functions on a state that the interface leaves open. The locale \<open>tenant_store\<close> states
  what its clients rely on: which organisation each call can affect. \<open>Postgres\<close> puts the adapter of
  \<open>Metadata_Store\<close> behind the interface and meets the contract.
\<close>

record 'w MetadataRepository =
  mdr_Bootstrap :: "Organization \<Rightarrow> User \<Rightarrow> 'w \<Rightarrow> (go_error + unit) \<times> 'w"
  mdr_ListOrganizations :: "'w \<Rightarrow> (go_error + Organization list) \<times> 'w"
  mdr_GetOrganization :: "string \<Rightarrow> 'w \<Rightarrow> (go_error + Organization) \<times> 'w"
  mdr_SaveOrganization :: "Organization \<Rightarrow> 'w \<Rightarrow> (go_error + Organization) \<times> 'w"
  mdr_ListUsers :: "'w \<Rightarrow> (go_error + User list) \<times> 'w"
  mdr_UserByUsername :: "string \<Rightarrow> 'w \<Rightarrow> (go_error + User) \<times> 'w"
  mdr_SaveUser :: "User \<Rightarrow> 'w \<Rightarrow> (go_error + User) \<times> 'w"
  mdr_CreateSession :: "string \<Rightarrow> string \<Rightarrow> gotime \<Rightarrow> 'w \<Rightarrow> (go_error + unit) \<times> 'w"
  mdr_SessionPrincipal :: "string \<Rightarrow> gotime \<Rightarrow> 'w \<Rightarrow> (go_error + Principal) \<times> 'w"
  mdr_DeleteSession :: "string \<Rightarrow> 'w \<Rightarrow> (go_error + unit) \<times> 'w"
  mdr_CreateEnrollment :: "Enrollment \<Rightarrow> 'w \<Rightarrow> (go_error + unit) \<times> 'w"
  mdr_ListEnrollments :: "'w \<Rightarrow> (go_error + Enrollment list) \<times> 'w"
  mdr_RevokeEnrollment :: "string \<Rightarrow> 'w \<Rightarrow> (go_error + unit) \<times> 'w"
  mdr_BindEnrollment :: "string \<Rightarrow> string \<Rightarrow> gotime \<Rightarrow> 'w \<Rightarrow> (go_error + ServerOwnership) \<times> 'w"

text \<open>\<open>part w g\<close> is what belongs to organisation \<open>g\<close>: its row, its accounts, its enrolments and its
  servers. Sessions come and go with the logins and are not part of it.\<close>

locale tenant_store =
  fixes md :: "'w MetadataRepository" and good :: "'w \<Rightarrow> bool" and part :: "'w \<Rightarrow> string \<Rightarrow> 'p"
  assumes list_organizations: "good w \<Longrightarrow> mdr_ListOrganizations md w = (a, w') \<Longrightarrow> good w' \<and> part w' = part w"
    and get_organization: "good w \<Longrightarrow> mdr_GetOrganization md g w = (b, w') \<Longrightarrow> good w' \<and> part w' = part w"
    and list_users: "good w \<Longrightarrow> mdr_ListUsers md w = (us, w') \<Longrightarrow> good w' \<and> part w' = part w"
    and user_by_username: "good w \<Longrightarrow> mdr_UserByUsername md n w = (u, w') \<Longrightarrow> good w' \<and> part w' = part w"
    and session_principal: "good w \<Longrightarrow> mdr_SessionPrincipal md h now w = (p, w') \<Longrightarrow> good w' \<and> part w' = part w"
    and list_enrollments: "good w \<Longrightarrow> mdr_ListEnrollments md w = (es, w') \<Longrightarrow> good w' \<and> part w' = part w"
    and create_session: "good w \<Longrightarrow> mdr_CreateSession md h i t w = (c, w') \<Longrightarrow> good w' \<and> part w' = part w"
    and delete_session: "good w \<Longrightarrow> mdr_DeleteSession md h w = (c, w') \<Longrightarrow> good w' \<and> part w' = part w"
    and create_enrollment: "good w \<Longrightarrow> mdr_CreateEnrollment md e w = (c, w') \<Longrightarrow>
      good w' \<and> (\<forall>g. g \<noteq> enr_OrganizationID e \<longrightarrow> part w' g = part w g)"
    and revoke_enrollment: "good w \<Longrightarrow> mdr_ListEnrollments md w = (Inr l, w1) \<Longrightarrow> e \<in> set l \<Longrightarrow>
      mdr_RevokeEnrollment md (enr_ID e) w1 = (c, w') \<Longrightarrow>
      good w' \<and> (\<forall>g. g \<noteq> enr_OrganizationID e \<longrightarrow> part w' g = part w g)"

section \<open>The PostgreSQL adapter behind the interface\<close>

text \<open>The conditions the \<open>n\<close>-th call meets are \<open>env n\<close>; the state counts the calls.\<close>

record Database =
  db_tables :: Tables
  db_calls :: nat

definition on_tables :: "(nat \<Rightarrow> Driver) \<Rightarrow> (Driver \<Rightarrow> 'a sql) \<Rightarrow> Database \<Rightarrow> (go_error + 'a) \<times> Database" where
  "on_tables env m db =
     (case m (env (db_calls db)) (db_tables db) of
        (r, t) \<Rightarrow> (r, \<lparr>db_tables = t, db_calls = Suc (db_calls db)\<rparr>))"

definition Postgres :: "(nat \<Rightarrow> Driver) \<Rightarrow> Database MetadataRepository" where
  "Postgres env = \<lparr>
     mdr_Bootstrap = (\<lambda>r u. on_tables env (\<lambda>d. Bootstrap d r u)),
     mdr_ListOrganizations = on_tables env ListOrganizations,
     mdr_GetOrganization = (\<lambda>i. on_tables env (\<lambda>d. GetOrganization d i)),
     mdr_SaveOrganization = (\<lambda>r. on_tables env (\<lambda>d. SaveOrganization d r)),
     mdr_ListUsers = on_tables env ListUsers,
     mdr_UserByUsername = (\<lambda>n. on_tables env (\<lambda>d. UserByUsername d n)),
     mdr_SaveUser = (\<lambda>u. on_tables env (\<lambda>d. SaveUser d u)),
     mdr_CreateSession = (\<lambda>h i t. on_tables env (\<lambda>d. CreateSession d h i t)),
     mdr_SessionPrincipal = (\<lambda>h now. on_tables env (\<lambda>d. SessionPrincipal d h now)),
     mdr_DeleteSession = (\<lambda>h. on_tables env (\<lambda>d. DeleteSession d h)),
     mdr_CreateEnrollment = (\<lambda>e. on_tables env (\<lambda>d. CreateEnrollment d e)),
     mdr_ListEnrollments = on_tables env ListEnrollments,
     mdr_RevokeEnrollment = (\<lambda>i. on_tables env (\<lambda>d. RevokeEnrollment d i)),
     mdr_BindEnrollment = (\<lambda>h m now. on_tables env (\<lambda>d. BindEnrollment d h m now))\<rparr>"

type_synonym tenant_part = "Organization option \<times> (string, User) gomap \<times> (string, EnrollmentRow) gomap \<times> (string, OwnershipRow) gomap"

definition tables_part :: "Tables \<Rightarrow> string \<Rightarrow> tenant_part" where
  "tables_part t g = (map_of (tb_organizations t) g,
     filter (\<lambda>(i, u). usr_OrganizationID u = g) (tb_users t),
     filter (\<lambda>(i, w). enw_OrganizationID w = g) (tb_enrollments t),
     filter (\<lambda>(i, w). onr_OrganizationID w = g) (tb_ownership t))"

definition db_ok :: "Database \<Rightarrow> bool" where
  "db_ok db \<longleftrightarrow> md_ok (db_tables db)"

definition db_part :: "Database \<Rightarrow> string \<Rightarrow> tenant_part" where
  "db_part db = tables_part (db_tables db)"

lemma on_tables_pure:
  "on_tables env m db = (r, db') \<Longrightarrow> (\<And>d. snd (m d (db_tables db)) = db_tables db) \<Longrightarrow>
     db_tables db' = db_tables db"
  by (auto simp: on_tables_def split: prod.splits) (metis snd_conv)

lemma reads_pure:
  "snd (ListOrganizations d t) = t" "snd (GetOrganization d i t) = t" "snd (ListUsers d t) = t"
  "snd (UserByUsername d n t) = t" "snd (SessionPrincipal d h now t) = t" "snd (ListEnrollments d t) = t"
  by (simp_all add: ListOrganizations_def GetOrganization_def ListUsers_def UserByUsername_def SessionPrincipal_def
      ListEnrollments_def)

text \<open>What the statements do to the part of an organisation.\<close>

lemma session_parts:
  "insert_session d h i e t = Inr ((), t') \<Longrightarrow> tables_part t' = tables_part t"
  "Metadata_Store.delete_session d h t = Inr ((), t') \<Longrightarrow> tables_part t' = tables_part t"
  by (auto simp: insert_session_def Metadata_Store.delete_session_def tables_part_def fun_eq_iff split: if_splits)

lemma insert_enrollment_part:
  "insert_enrollment d e t = Inr ((), t') \<Longrightarrow> g \<noteq> enr_OrganizationID e \<Longrightarrow> tables_part t' g = tables_part t g"
  by (auto simp: insert_enrollment_def tables_part_def put_new map_of_eq_None_iff split: if_splits)

lemma CreateSession_part:
  assumes "on_tables env (\<lambda>d. CreateSession d h i t) db = (c, db')" and "db_ok db"
  shows "db_ok db' \<and> db_part db' = db_part db"
proof -
  let ?d = "env (db_calls db)"
  from assms(1) have run: "CreateSession ?d h i t (db_tables db) = (c, db_tables db')"
    by (auto simp: on_tables_def split: prod.splits)
  have "md_ok (db_tables db')"
    using exec_md_ok [of ?d "MdCreateSession h i t" "db_tables db" c "db_tables db'"] run assms(2) by (simp add: db_ok_def)
  moreover have "tables_part (db_tables db') = tables_part (db_tables db)"
    using auto_commit_effect [OF run [unfolded CreateSession_def]] session_parts(1) by auto
  ultimately show ?thesis by (simp add: db_ok_def db_part_def)
qed

lemma DeleteSession_part:
  assumes "on_tables env (\<lambda>d. DeleteSession d h) db = (c, db')" and "db_ok db"
  shows "db_ok db' \<and> db_part db' = db_part db"
proof -
  let ?d = "env (db_calls db)"
  from assms(1) have run: "DeleteSession ?d h (db_tables db) = (c, db_tables db')"
    by (auto simp: on_tables_def split: prod.splits)
  have "md_ok (db_tables db')"
    using exec_md_ok [of ?d "MdDeleteSession h" "db_tables db" c "db_tables db'"] run assms(2) by (simp add: db_ok_def)
  moreover have "tables_part (db_tables db') = tables_part (db_tables db)"
    using auto_commit_effect [OF run [unfolded DeleteSession_def]] session_parts(2) by auto
  ultimately show ?thesis by (simp add: db_ok_def db_part_def)
qed

lemma CreateEnrollment_part:
  assumes "on_tables env (\<lambda>d. CreateEnrollment d e) db = (c, db')" and "db_ok db"
  shows "db_ok db' \<and> (\<forall>g. g \<noteq> enr_OrganizationID e \<longrightarrow> db_part db' g = db_part db g)"
proof -
  let ?d = "env (db_calls db)"
  from assms(1) have run: "CreateEnrollment ?d e (db_tables db) = (c, db_tables db')"
    by (auto simp: on_tables_def split: prod.splits)
  have "md_ok (db_tables db')"
    using exec_md_ok [of ?d "MdCreateEnrollment e" "db_tables db" c "db_tables db'"] run assms(2) by (simp add: db_ok_def)
  moreover have "tables_part (db_tables db') g = tables_part (db_tables db) g" if "g \<noteq> enr_OrganizationID e" for g
    using auto_commit_effect [OF run [unfolded CreateEnrollment_def]] insert_enrollment_part that by auto
  ultimately show ?thesis by (simp add: db_ok_def db_part_def)
qed

lemma filter_map_vals:
  assumes "\<And>i w. (i, w) \<in> set m \<Longrightarrow> f i w \<noteq> w \<Longrightarrow> \<not> P w" and "\<And>i w. P (f i w) = P w"
  shows "filter (\<lambda>(i, w). P w) (map_vals f m) = filter (\<lambda>(i, w). P w) m"
  using assms(1) by (induction m) (auto simp: map_vals_def assms(2))

lemma RevokeEnrollment_part:
  assumes "mdr_ListEnrollments (Postgres env) db = (Inr l, db1)" and "e \<in> set l"
    and "mdr_RevokeEnrollment (Postgres env) (enr_ID e) db1 = (c, db')" and "db_ok db"
  shows "db_ok db' \<and> (\<forall>g. g \<noteq> enr_OrganizationID e \<longrightarrow> db_part db' g = db_part db g)"
proof -
  let ?t = "db_tables db" and ?d = "env (db_calls db1)"
  from assms(1) have list: "ListEnrollments (env (db_calls db)) ?t = (Inr l, db_tables db1)"
    by (auto simp: Postgres_def on_tables_def split: prod.splits)
  then have t1: "db_tables db1 = ?t" using reads_pure(6) by (metis snd_conv)
  from list have "set l = listed_enrollment ` set (tb_enrollments ?t)"
    by (auto simp: ListEnrollments_def select_Inr)
  with assms(2) obtain w where w: "(enr_ID e, w) \<in> set (tb_enrollments ?t)" "enw_OrganizationID w = enr_OrganizationID e"
    by (auto simp: listed_enrollment_def)
  from assms(3) have run: "RevokeEnrollment ?d (enr_ID e) ?t = (c, db_tables db')"
    by (auto simp: Postgres_def on_tables_def t1 split: prod.splits)
  have "md_ok (db_tables db')"
    using exec_md_ok [of ?d "MdRevokeEnrollment (enr_ID e)" ?t c "db_tables db'"] run assms(4) by (simp add: db_ok_def)
  moreover have "tables_part (db_tables db') g = tables_part ?t g" if "g \<noteq> enr_OrganizationID e" for g
  proof -
    have wf: "wf_map (tb_enrollments ?t)" using assms(4) by (simp add: db_ok_def md_ok_def enrollments_ok_def)
    have unique: "v = w" if "(enr_ID e, v) \<in> set (tb_enrollments ?t)" for v
      using that w(1) wf by (metis eq_key_imp_eq_value)
    have "filter (\<lambda>(i, w). enw_OrganizationID w = g)
        (map_vals (\<lambda>i w. if i = enr_ID e then w\<lparr>enw_Revoked := True\<rparr> else w) (tb_enrollments ?t)) =
      filter (\<lambda>(i, w). enw_OrganizationID w = g) (tb_enrollments ?t)"
      by (rule filter_map_vals) (use unique w(2) that in \<open>auto split: if_splits\<close>)
    then show ?thesis
      using auto_commit_effect [OF run [unfolded RevokeEnrollment_def]]
      by (auto simp: Metadata_Store.revoke_enrollment_def tables_part_def dest: sym)
  qed
  ultimately show ?thesis by (simp add: db_ok_def db_part_def)
qed

interpretation postgres: tenant_store "Postgres env" db_ok db_part for env
proof (unfold_locales, goal_cases)
  case (1 w a w')
  then show ?case using on_tables_pure [of env ListOrganizations w a w'] by (simp add: Postgres_def reads_pure db_ok_def db_part_def)
next
  case (2 w g b w')
  then show ?case using on_tables_pure [of env "\<lambda>d. GetOrganization d g" w b w'] by (simp add: Postgres_def reads_pure db_ok_def db_part_def)
next
  case (3 w us w')
  then show ?case using on_tables_pure [of env ListUsers w us w'] by (simp add: Postgres_def reads_pure db_ok_def db_part_def)
next
  case (4 w n u w')
  then show ?case using on_tables_pure [of env "\<lambda>d. UserByUsername d n" w u w'] by (simp add: Postgres_def reads_pure db_ok_def db_part_def)
next
  case (5 w h now p w')
  then show ?case using on_tables_pure [of env "\<lambda>d. SessionPrincipal d h now" w p w'] by (simp add: Postgres_def reads_pure db_ok_def db_part_def)
next
  case (6 w es w')
  then show ?case using on_tables_pure [of env ListEnrollments w es w'] by (simp add: Postgres_def reads_pure db_ok_def db_part_def)
next
  case (7 w h i t c w')
  then show ?case using CreateSession_part [of env h i t w c w'] by (simp add: Postgres_def)
next
  case (8 w h c w')
  then show ?case using DeleteSession_part [of env h w c w'] by (simp add: Postgres_def)
next
  case (9 w e c w')
  then show ?case using CreateEnrollment_part [of env e w c w'] by (simp add: Postgres_def)
next
  case (10 w l w1 e c w')
  then show ?case using RevokeEnrollment_part by blast
qed

end
