(* ===== verification/Identity.thy ===== *)
theory Identity
  imports Metadata_Port Application_Run
begin

text \<open>
  \<open>internal/application/identity.go\<close>: passwords, logins and sessions, the administration of organisations
  and accounts, and the enrolment of servers. Random tokens, the clock and the digest functions of Go's
  \<open>crypto\<close> packages are arguments; the metadata store is behind its interface.
\<close>

section \<open>Hexadecimal\<close>

definition hex_char :: "nat \<Rightarrow> char" where
  "hex_char n = char_of (if n < 10 then 48 + n else 87 + n)"

definition hex_value :: "char \<Rightarrow> nat option" where
  "hex_value c = (let n = of_char c :: nat in
     if 48 \<le> n \<and> n \<le> 57 then Some (n - 48)
     else if 97 \<le> n \<and> n \<le> 102 then Some (n - 87)
     else if 65 \<le> n \<and> n \<le> 70 then Some (n - 55) else None)"

fun hex_encode :: "string \<Rightarrow> string" where
  "hex_encode [] = []"
| "hex_encode (c # s) = (let n = of_char c :: nat in hex_char (n div 16) # hex_char (n mod 16) # hex_encode s)"

fun hex_decode :: "string \<Rightarrow> string option" where
  "hex_decode [] = Some []"
| "hex_decode [c] = None"
| "hex_decode (a # b # s) =
     (case (hex_value a, hex_value b, hex_decode s) of
        (Some h, Some l, Some r) \<Rightarrow> Some (char_of (16 * h + l) # r)
      | _ \<Rightarrow> None)"

lemma hex_value_char: "n < 16 \<Longrightarrow> hex_value (hex_char n) = Some n"
  by (auto simp: hex_value_def hex_char_def Let_def)

lemma hex_roundtrip: "hex_decode (hex_encode s) = Some s"
proof (induction s)
  case Nil
  show ?case by simp
next
  case (Cons c s)
  have "(of_char c :: nat) div 16 < 16" using nat_of_char_less_256 [of c]
    by (simp only: less_mult_imp_div_less)
  then show ?case by (simp add: Let_def hex_value_char Cons.IH)
qed

lemma length_hex_encode [simp]: "length (hex_encode s) = 2 * length s"
  by (induction s) (simp_all add: Let_def)

lemma hex_char_plain: "n < 16 \<Longrightarrow> hex_char n \<noteq> CHR ''$''"
  using hex_value_char [of n] by (auto simp: hex_value_def)

lemma hex_encode_plain: "CHR ''$'' \<notin> set (hex_encode s)"
proof (induction s)
  case Nil
  show ?case by simp
next
  case (Cons c s)
  have "(of_char c :: nat) div 16 < 16" using nat_of_char_less_256 [of c]
    by (simp only: less_mult_imp_div_less)
  with Cons hex_char_plain show ?case by (auto simp: Let_def dest: sym)
qed

section \<open>Passwords\<close>

text \<open>\<open>kdf password salt\<close> is \<open>pbkdf2.Key\<close> with SHA-256, 600000 iterations and a key of 32 bytes.\<close>

type_synonym kdf = "string \<Rightarrow> string \<Rightarrow> go_error + string"

definition tokenHash :: "(string \<Rightarrow> string) \<Rightarrow> string \<Rightarrow> string" where
  "tokenHash sha256 token = hex_encode (sha256 token)"

definition password_scheme :: string where "password_scheme = ''pbkdf2-sha256-600000''"

definition hashPassword :: "kdf \<Rightarrow> go_error + string \<Rightarrow> string \<Rightarrow> go_error + string" where
  "hashPassword kdf random password =
     (if length password < 12 \<or> 256 < length password then Inl ErrInvalidInput
      else case random of Inl e \<Rightarrow> Inl e
      | Inr salt \<Rightarrow>
          (case kdf password salt of Inl e \<Rightarrow> Inl e
           | Inr key \<Rightarrow> Inr (password_scheme @ ''$'' @ salt @ ''$'' @ hex_encode key)))"

text \<open>The salt and the key an encoded hash names; a hash of another shape still costs a derivation.\<close>

definition decoded_hash :: "string \<Rightarrow> string \<times> string option" where
  "decoded_hash encoded =
     (case Split (CHR ''$'') encoded of
        [scheme, salt, key] \<Rightarrow>
          if scheme = password_scheme
          then (salt, case hex_decode key of Some d \<Rightarrow> if length d = 32 then Some d else None | None \<Rightarrow> None)
          else (replicate 32 (CHR ''0''), None)
      | _ \<Rightarrow> (replicate 32 (CHR ''0''), None))"

definition verifyPassword :: "kdf \<Rightarrow> string \<Rightarrow> string \<Rightarrow> bool" where
  "verifyPassword kdf encoded password =
     (let (salt, want) = decoded_hash encoded in
      case kdf password salt of
        Inl e \<Rightarrow> False
      | Inr got \<Rightarrow> (case want of None \<Rightarrow> False | Some key \<Rightarrow> got = key))"

section \<open>Sessions\<close>

definition given :: "'e + 'a \<Rightarrow> 's \<Rightarrow> ('e + 'a) \<times> 's" where
  "given r w = (r, w)"

definition SessionTTL :: duration where "SessionTTL = 8 * 60 * Minute"

record LoginResult =
  lgr_Token :: string
  lgr_ExpiresAt :: gotime
  lgr_Principal :: Principal

definition zero_user :: User where
  "zero_user = \<lparr>usr_ID = '''', usr_Username = '''', usr_PasswordHash = '''', usr_Role = RoleOrganizationUser,
     usr_OrganizationID = '''', usr_Enabled = False\<rparr>"

definition Login ::
  "'w MetadataRepository \<Rightarrow> (string \<Rightarrow> string) \<Rightarrow> kdf \<Rightarrow> string \<Rightarrow> string \<Rightarrow> go_error + string \<Rightarrow> gotime
     \<Rightarrow> 'w \<Rightarrow> (go_error + LoginResult) \<times> 'w" where
  "Login md sha256 kdf username password random now =
     (if 200 < length username \<or> 256 < length password then raise ErrUnauthorized
      else and_then (or_else (mdr_UserByUsername md (ToLower (TrimSpace username)))
                       (\<lambda>e. if e = ErrNotFound then yield zero_user else raise e)) (\<lambda>u.
           if \<not> verifyPassword kdf (usr_PasswordHash u) password \<or> \<not> usr_Enabled u then raise ErrUnauthorized
           else and_then (mdr_GetOrganization md (usr_OrganizationID u)) (\<lambda>g.
                if \<not> org_Enabled g then raise ErrUnauthorized
                else and_then (given random) (\<lambda>token.
                     let expires = now + SessionTTL in
                     and_then (mdr_CreateSession md (tokenHash sha256 token) (usr_ID u) expires) (\<lambda>_.
                     yield \<lparr>lgr_Token = token, lgr_ExpiresAt = expires,
                       lgr_Principal = \<lparr>prn_User = u, prn_Organization = g, prn_ScopeOrganizationID = ''''\<rparr>\<rparr>)))))"

definition Authenticate ::
  "'w MetadataRepository \<Rightarrow> (string \<Rightarrow> string) \<Rightarrow> string \<Rightarrow> gotime \<Rightarrow> 'w \<Rightarrow> (go_error + Principal) \<times> 'w" where
  "Authenticate md sha256 token now =
     (if token = '''' then raise ErrUnauthorized else mdr_SessionPrincipal md (tokenHash sha256 token) now)"

definition Logout :: "'w MetadataRepository \<Rightarrow> (string \<Rightarrow> string) \<Rightarrow> string \<Rightarrow> 'w \<Rightarrow> (go_error + unit) \<times> 'w" where
  "Logout md sha256 token = mdr_DeleteSession md (tokenHash sha256 token)"

section \<open>Administration\<close>

definition requireAdmin :: "reqctx \<Rightarrow> go_error + unit" where
  "requireAdmin ctx = (case ctx of None \<Rightarrow> Inl ErrUnauthorized
     | Some p \<Rightarrow> if usr_Role (prn_User p) \<noteq> RoleAdmin then Inl ErrForbidden else Inr ())"

definition Organizations :: "'w MetadataRepository \<Rightarrow> reqctx \<Rightarrow> 'w \<Rightarrow> (go_error + Organization list) \<times> 'w" where
  "Organizations md ctx =
     and_then (mdr_ListOrganizations md) (\<lambda>items. yield (filter (\<lambda>g. CanAccess ctx (org_ID g)) items))"

record OrganizationInput =
  ori_Code :: string
  ori_Name :: string
  ori_Enabled :: bool

text \<open>\<open>IdentityService.SaveOrganization\<close>; the empty identifier asks for a new organisation.\<close>

definition StoreOrganization ::
  "'w MetadataRepository \<Rightarrow> reqctx \<Rightarrow> string \<Rightarrow> OrganizationInput \<Rightarrow> go_error + string
     \<Rightarrow> 'w \<Rightarrow> (go_error + Organization) \<times> 'w" where
  "StoreOrganization md ctx i input random =
     and_then (given (requireAdmin ctx)) (\<lambda>_.
     let code = ToUpper (TrimSpace (ori_Code input)); orgname = TrimSpace (ori_Name input) in
     if code = '''' \<or> 32 < length code \<or> orgname = '''' \<or> 200 < length orgname then raise ErrInvalidInput
     else and_then (if i = '''' then given (newID ''org'' random)
                    else and_then (mdr_GetOrganization md i) (\<lambda>_. yield i)) (\<lambda>oid.
          mdr_SaveOrganization md \<lparr>org_ID = oid, org_Code = code, org_Name = orgname,
            org_Enabled = ori_Enabled input, org_CreatedAt = 0, org_UpdatedAt = 0\<rparr>))"

record UserInput =
  usi_Username :: string
  usi_Password :: string
  usi_Role :: string
  usi_OrganizationID :: string
  usi_Enabled :: bool

definition Users :: "'w MetadataRepository \<Rightarrow> reqctx \<Rightarrow> 'w \<Rightarrow> (go_error + User list) \<times> 'w" where
  "Users md ctx = and_then (given (requireAdmin ctx)) (\<lambda>_. mdr_ListUsers md)"

definition parse_role :: "string \<Rightarrow> Role option" where
  "parse_role r = (if r = ''ADMIN'' then Some RoleAdmin
     else if r = ''ORGANIZATION_USER'' then Some RoleOrganizationUser else None)"

definition StoreUser ::
  "'w MetadataRepository \<Rightarrow> kdf \<Rightarrow> reqctx \<Rightarrow> string \<Rightarrow> UserInput \<Rightarrow> go_error + string \<Rightarrow> go_error + string
     \<Rightarrow> 'w \<Rightarrow> (go_error + User) \<times> 'w" where
  "StoreUser md kdf ctx i input random salt =
     and_then (given (requireAdmin ctx)) (\<lambda>_.
     let uname = ToLower (TrimSpace (usi_Username input)) in
     if uname = '''' \<or> 200 < length uname then raise ErrInvalidInput
     else case parse_role (usi_Role input) of None \<Rightarrow> raise ErrInvalidInput
     | Some role \<Rightarrow>
         and_then (mdr_GetOrganization md (usi_OrganizationID input)) (\<lambda>g.
         if \<not> org_Enabled g then raise ErrConflict
         else and_then (if i = '''' then given (newID ''usr'' random)
                        else and_then (mdr_ListUsers md) (\<lambda>users.
                               if list_ex (\<lambda>u. usr_ID u = i) users then yield i else raise ErrNotFound)) (\<lambda>uid.
              and_then (given (if i = '''' \<or> usi_Password input \<noteq> '''' then hashPassword kdf salt (usi_Password input)
                               else Inr '''')) (\<lambda>hash.
              mdr_SaveUser md \<lparr>usr_ID = uid, usr_Username = uname, usr_PasswordHash = hash, usr_Role = role,
                usr_OrganizationID = usi_OrganizationID input, usr_Enabled = usi_Enabled input\<rparr>))))"

definition BootstrapAccount ::
  "'w MetadataRepository \<Rightarrow> kdf \<Rightarrow> string \<Rightarrow> string \<Rightarrow> string \<Rightarrow> string \<Rightarrow> go_error + string \<Rightarrow> go_error + string
     \<Rightarrow> go_error + string \<Rightarrow> 'w \<Rightarrow> (go_error + unit) \<times> 'w" where
  "BootstrapAccount md kdf code0 orgname0 username password salt random1 random2 =
     (let code = ToUpper (TrimSpace code0); orgname = TrimSpace orgname0; uname = ToLower (TrimSpace username) in
      if code = '''' \<or> 32 < length code \<or> orgname = '''' \<or> 200 < length orgname \<or> uname = '''' \<or> 200 < length uname
      then raise ErrInvalidInput
      else and_then (given (hashPassword kdf salt password)) (\<lambda>hash.
           and_then (given (newID ''org'' random1)) (\<lambda>oid.
           and_then (given (newID ''usr'' random2)) (\<lambda>uid.
           mdr_Bootstrap md \<lparr>org_ID = oid, org_Code = code, org_Name = orgname, org_Enabled = True,
               org_CreatedAt = 0, org_UpdatedAt = 0\<rparr>
             \<lparr>usr_ID = uid, usr_Username = uname, usr_PasswordHash = hash, usr_Role = RoleAdmin,
               usr_OrganizationID = oid, usr_Enabled = True\<rparr>))))"

section \<open>Enrolment\<close>

record EnrollmentInput =
  eni_DisplayName :: string
  eni_OrganizationID :: string

record EnrollmentResult =
  enx_Enrollment :: Enrollment
  enx_EnrollmentToken :: string

text \<open>An administrator may enrol for any organisation; an account only for its own, without naming it.\<close>

definition enrolling_organization :: "Principal \<Rightarrow> string \<Rightarrow> go_error + string" where
  "enrolling_organization p named =
     (if usr_Role (prn_User p) \<noteq> RoleAdmin \<and> named \<noteq> '''' then Inl ErrForbidden
      else Inr (if usr_Role (prn_User p) = RoleAdmin \<and> named \<noteq> '''' then named else usr_OrganizationID (prn_User p)))"

definition EnrollServer ::
  "'w MetadataRepository \<Rightarrow> (string \<Rightarrow> string) \<Rightarrow> reqctx \<Rightarrow> EnrollmentInput \<Rightarrow> go_error + string
     \<Rightarrow> go_error + string \<Rightarrow> go_error + string \<Rightarrow> gotime \<Rightarrow> 'w \<Rightarrow> (go_error + EnrollmentResult) \<times> 'w" where
  "EnrollServer md sha256 ctx input random1 random2 newToken now =
     (case ctx of None \<Rightarrow> raise ErrUnauthorized
      | Some p \<Rightarrow>
          and_then (given (enrolling_organization p (eni_OrganizationID input))) (\<lambda>orgID.
          and_then (mdr_GetOrganization md orgID) (\<lambda>g.
          if \<not> org_Enabled g then raise ErrConflict
          else let display = TrimSpace (eni_DisplayName input) in
          if display = '''' \<or> 200 < length display then raise ErrInvalidInput
          else and_then (given (newID ''enr'' random1)) (\<lambda>eid.
               and_then (given (newID ''srv'' random2)) (\<lambda>sid.
               and_then (given newToken) (\<lambda>token.
               let e = \<lparr>enr_ID = eid, enr_OrganizationID = orgID, enr_ServerID = sid, enr_DisplayName = display,
                        enr_Labels = [], enr_TokenHash = tokenHash sha256 token,
                        enr_ExpiresAt = now + 24 * 60 * Minute, enr_MachineID = '''', enr_Revoked = False\<rparr> in
               and_then (mdr_CreateEnrollment md e) (\<lambda>_.
               yield \<lparr>enx_Enrollment = e, enx_EnrollmentToken = token\<rparr>)))))))"

definition Enrollments :: "'w MetadataRepository \<Rightarrow> reqctx \<Rightarrow> 'w \<Rightarrow> (go_error + Enrollment list) \<times> 'w" where
  "Enrollments md ctx =
     and_then (mdr_ListEnrollments md) (\<lambda>items. yield (filter (\<lambda>e. CanAccess ctx (enr_OrganizationID e)) items))"

definition WithdrawEnrollment ::
  "'w MetadataRepository \<Rightarrow> reqctx \<Rightarrow> string \<Rightarrow> 'w \<Rightarrow> (go_error + unit) \<times> 'w" where
  "WithdrawEnrollment md ctx i =
     and_then (Enrollments md ctx) (\<lambda>items.
       if list_ex (\<lambda>e. enr_ID e = i) items then mdr_RevokeEnrollment md i else raise ErrNotFound)"

end
