(* ===== verification/Http_Views.thy ===== *)
theory Http_Views
  imports Identity Control_Plane Job_Requests
begin

text \<open>
  The edge of \<open>internal/httpapi\<close>: requests and responses, the routes of the mux, the decoding of bodies,
  the mapping of errors to statuses (\<open>server.go\<close>), the tokens of \<open>security.go\<close> and the public view of a
  job (\<open>job_view.go\<close>). What \<open>encoding/json\<close> makes of a body is part of the request: the decoded value,
  or the way decoding failed. Header names and values the handlers do not read are left out.
\<close>

section \<open>Requests\<close>

text \<open>The decoded bodies of the routes that read one.\<close>

datatype ApiInput =
    InRegister RegisterRequest | InHeartbeat | InReport WireReport | InAck CommandAckRequest | InDrain bool
  | InCreate CreateJobRequest | InContinue string int | InLogin string string
  | InOrganization OrganizationInput | InUser UserInput | InEnrollment EnrollmentInput

text \<open>A body over the limit, one that is not JSON for the type (with the field the decoder names), one
  with a second value behind the first, and a good one.\<close>

datatype Body = BodyTooLarge | BodyMalformed string | BodyTrailing | BodyJSON ApiInput | BodyBytes string

record HttpRequest =
  req_Method :: string
  req_Path :: string
  req_Query :: labels
  req_Authorization :: string
  req_EnrollmentToken :: string
  req_RequestID :: string
  req_Origin :: string
  req_Peer :: string
  req_ContentLength :: int
  req_Body :: Body

definition bearerToken :: "string \<Rightarrow> string" where
  "bearerToken header =
     (case Fields_from [] header of [kind, token] \<Rightarrow> if EqualFold kind ''Bearer'' then token else '''' | _ \<Rightarrow> '''')"

section \<open>Errors\<close>

text \<open>What a handler passes to \<open>respond\<close>: an error of the domain, a body over the limit, or a body with
  trailing data, which joins \<open>ErrInvalidInput\<close> with a text.\<close>

datatype http_error = DomainError go_error | BodyLimit | TrailingData

text \<open>The decoder's target accepts one shape of input; \<open>strict\<close> is that shape.\<close>

definition decodeJSON :: "(ApiInput \<Rightarrow> 'a option) \<Rightarrow> Body \<Rightarrow> http_error + 'a" where
  "decodeJSON strict body =
     (case body of
        BodyTooLarge \<Rightarrow> Inl BodyLimit
      | BodyMalformed field \<Rightarrow> Inl (DomainError (ValidationError [(if field = '''' then ''body'' else field, msg_bad_body)]))
      | BodyTrailing \<Rightarrow> Inl TrailingData
      | BodyBytes b \<Rightarrow> Inl (DomainError (ValidationError [(''body'', msg_bad_body)]))
      | BodyJSON i \<Rightarrow> (case strict i of Some v \<Rightarrow> Inr v
                      | None \<Rightarrow> Inl (DomainError (ValidationError [(''body'', msg_bad_body)]))))"

fun go_error_text :: "go_error \<Rightarrow> string" where
  "go_error_text ErrForbidden = ''access forbidden''"
| "go_error_text ErrNotFound = ''resource not found''"
| "go_error_text ErrConflict = ''resource state conflict''"
| "go_error_text ErrUnauthorized = ''unauthorized agent''"
| "go_error_text ErrInvalidInput = ''invalid input''"
| "go_error_text ErrStaleInventory = ''stale inventory report''"
| "go_error_text ErrInsufficientGPU = ''no server satisfies the GPU request''"
| "go_error_text ErrJobNotStoppable = ''job cannot be stopped in its current state''"
| "go_error_text (ErrOther m) = m"
| "go_error_text (ValidationError fs) = msg_invalid_request"

text \<open>The switch of \<open>respond\<close>; a validation error unwraps to \<open>ErrInvalidInput\<close>.\<close>

fun error_status :: "go_error \<Rightarrow> int \<times> string" where
  "error_status ErrInvalidInput = (400, ''INVALID_INPUT'')"
| "error_status (ValidationError fs) = (400, ''INVALID_INPUT'')"
| "error_status ErrUnauthorized = (401, ''UNAUTHORIZED'')"
| "error_status ErrForbidden = (403, ''FORBIDDEN'')"
| "error_status ErrNotFound = (404, ''NOT_FOUND'')"
| "error_status ErrConflict = (409, ''CONFLICT'')"
| "error_status ErrStaleInventory = (409, ''CONFLICT'')"
| "error_status ErrJobNotStoppable = (409, ''CONFLICT'')"
| "error_status ErrInsufficientGPU = (422, ''INSUFFICIENT_GPU'')"
| "error_status (ErrOther m) = (500, ''INTERNAL'')"

section \<open>The public view of a job\<close>

record JobView =
  jv_Training :: TrainingState
  jv_TerminationReason :: TerminationReason
  jv_Resumable :: bool
  jv_TimeWindow :: TimeWindow
  jv_OrganizationID :: string
  jv_NecessityLabel :: string
  jv_Intent :: AllocationIntent
  jv_Policy :: PolicyDecision
  jv_ID :: string
  jv_Name :: string
  jv_Image :: string
  jv_Backend :: ExecutionBackend
  jv_Command :: "string list"
  jv_Environment :: labels
  jv_Resources :: ResourceRequest
  jv_Priority :: int
  jv_ServerSelector :: labels
  jv_Strategy :: SchedulingStrategy
  jv_Status :: JobStatus
  jv_StatusReason :: string
  jv_Assignment :: "Assignment option"
  jv_CreatedAt :: gotime
  jv_UpdatedAt :: gotime
  jv_LastObservedAt :: "gotime option"
  jv_ContainerID :: string
  jv_Events :: "JobEvent list"

text \<open>\<open>strings.Contains\<close>\<close>

fun Contains :: "string \<Rightarrow> string \<Rightarrow> bool" where
  "Contains [] sub = (sub = [])"
| "Contains (c # s) sub = (HasPrefix (c # s) sub \<or> Contains s sub)"

definition publicReason :: "string \<Rightarrow> string" where
  "publicReason reason = (if Contains reason '', score '' then msg_reserved_notice else reason)"

definition public_event :: "JobEvent \<Rightarrow> JobEvent" where
  "public_event e = e\<lparr>ev_Reason := publicReason (ev_Reason e)\<rparr>"

definition publicJob :: "Job \<Rightarrow> JobView" where
  "publicJob j =
     \<lparr>jv_Training = job_Training j, jv_TerminationReason = job_TerminationReason j, jv_Resumable = Resumable j,
      jv_TimeWindow = RequestedWindow j, jv_OrganizationID = job_OrganizationID j,
      jv_NecessityLabel = NecessityLabel (in_NecessityLevel (job_Intent j)), jv_Intent = job_Intent j,
      jv_Policy = job_Policy j, jv_ID = job_ID j, jv_Name = job_Name j, jv_Image = job_Image j,
      jv_Backend = job_Backend j, jv_Command = job_Command j,
      jv_Environment = map (\<lambda>(k, v). (k, ''[redacted]'')) (job_Environment j),
      jv_Resources = job_Resources j, jv_Priority = job_Priority j, jv_ServerSelector = job_ServerSelector j,
      jv_Strategy = job_Strategy j, jv_Status = job_Status j, jv_StatusReason = publicReason (job_StatusReason j),
      jv_Assignment = job_Assignment j, jv_CreatedAt = job_CreatedAt j, jv_UpdatedAt = job_UpdatedAt j,
      jv_LastObservedAt = job_LastObservedAt j, jv_ContainerID = job_ContainerID j,
      jv_Events = map public_event (job_Events j)\<rparr>"

definition publicJobs :: "Job list \<Rightarrow> JobView list" where
  "publicJobs jobs = map publicJob jobs"

section \<open>Responses\<close>

datatype ApiData =
    NoData | HealthData string | SummaryData ClusterSummary | RegisteredData RegisterResponse | ServerData Server
  | ServersData "Server list" | CommandsData "WireCommand list" | CommandData Command
  | GPUsData "(Server \<times> GPU) list" | ContainersData "(Server \<times> Container) list" | OptionsData AllocationOptions
  | PreviewData JobPreview | JobData JobView | JobsData "JobView list" | AssignedData int
  | LoginData LoginResult | PrincipalData Principal | LoggedOutData bool | OrganizationsData "Organization list"
  | OrganizationData Organization | UsersData "User list" | UserData User | EnrolledData EnrollmentResult
  | EnrollmentsData "Enrollment list" | RevokedData bool | ContractData TrainingContract
  | TrainingData TrainingState | ArtifactData string int

datatype ApiResponse = NoContent | TextResponse string | DataResponse ApiData | ErrorResponse string string "(string \<times> string) list"

record HttpResponse =
  rsp_Status :: int
  rsp_Headers :: labels
  rsp_Body :: ApiResponse

text \<open>\<open>writeJSON\<close>, and the plain text with which the mux answers a path it does not route.\<close>

definition content_type :: "ApiResponse \<Rightarrow> labels" where
  "content_type body = (case body of NoContent \<Rightarrow> []
     | TextResponse s \<Rightarrow> [(''Content-Type'', ''text/plain; charset=utf-8'')]
     | _ \<Rightarrow> [(''Content-Type'', ''application/json; charset=utf-8'')])"

definition plain :: "int \<Rightarrow> ApiResponse \<Rightarrow> HttpResponse" where
  "plain status body = \<lparr>rsp_Status = status, rsp_Headers = content_type body, rsp_Body = body\<rparr>"

definition writeError :: "int \<Rightarrow> string \<Rightarrow> string \<Rightarrow> HttpResponse" where
  "writeError status code message = plain status (ErrorResponse code message [])"

text \<open>An internal error is logged and its text replaced. Of an error that wraps a sentinel the model
  keeps the sentinel, so the message is the sentinel's.\<close>

definition respond :: "http_error + ApiData \<Rightarrow> int \<Rightarrow> HttpResponse" where
  "respond r success =
     (case r of
        Inr v \<Rightarrow> plain success (DataResponse v)
      | Inl BodyLimit \<Rightarrow> writeError 413 ''BODY_TOO_LARGE'' ''request body exceeds 1 MiB''
      | Inl TrailingData \<Rightarrow> writeError 400 ''INVALID_INPUT''
          (go_error_text ErrInvalidInput @ [CHR 0x0A] @ ''request body must contain one JSON value'')
      | Inl (DomainError e) \<Rightarrow>
          (let (status, code) = error_status e;
               message = (if status = 500 then ''internal server error'' else go_error_text e)
           in case e of ValidationError fs \<Rightarrow> plain status (ErrorResponse code message fs)
              | _ \<Rightarrow> writeError status code message))"

definition with_header :: "string \<Rightarrow> string \<Rightarrow> HttpResponse \<Rightarrow> HttpResponse" where
  "with_header k v r = r\<lparr>rsp_Headers := put k v (rsp_Headers r)\<rparr>"

abbreviation no_store :: "HttpResponse \<Rightarrow> HttpResponse" where
  "no_store \<equiv> with_header ''Cache-Control'' ''no-store''"

section \<open>Routes\<close>

datatype Endpoint =
    EpTrainingContract | EpTrainingUpload | EpContinue | EpArtifact | EpHealth | EpReady | EpSummary | EpRegister
  | EpHeartbeat | EpInventory | EpPoll | EpAck | EpListServers | EpGetServer | EpDrain | EpListGPUs
  | EpListContainers | EpCreateJob | EpPreviewJob | EpJobOptions | EpListJobs | EpGetJob | EpStopJob | EpQueue
  | EpRunScheduler | EpLogin | EpMe | EpLogout | EpOrganizations | EpSaveOrganization | EpUsers | EpSaveUser
  | EpEnroll | EpEnrollments | EpRevoke

text \<open>The patterns given to \<open>HandleFunc\<close>. The mux prefers a literal segment to a wildcard; the only two
  patterns that overlap are \<open>jobs/options\<close> and \<open>jobs/{jobID}\<close>, listed in that order.\<close>

definition routes :: "(string \<times> string \<times> Endpoint) list" where
  "routes =
    [(''GET'', ''/api/v1/training/{jobID}'', EpTrainingContract),
     (''PUT'', ''/api/v1/training/{jobID}/{kind}'', EpTrainingUpload),
     (''POST'', ''/api/v1/jobs/{jobID}/continue'', EpContinue),
     (''GET'', ''/api/v1/jobs/{jobID}/artifact'', EpArtifact),
     (''GET'', ''/healthz'', EpHealth),
     (''GET'', ''/readyz'', EpReady),
     (''GET'', ''/api/v1/system/summary'', EpSummary),
     (''POST'', ''/api/v1/agents/register'', EpRegister),
     (''POST'', ''/api/v1/agents/{agentID}/heartbeat'', EpHeartbeat),
     (''PUT'', ''/api/v1/agents/{agentID}/inventory'', EpInventory),
     (''GET'', ''/api/v1/agents/{agentID}/commands'', EpPoll),
     (''POST'', ''/api/v1/agents/{agentID}/commands/{commandID}/ack'', EpAck),
     (''GET'', ''/api/v1/servers'', EpListServers),
     (''GET'', ''/api/v1/servers/{serverID}'', EpGetServer),
     (''POST'', ''/api/v1/servers/{serverID}/drain'', EpDrain),
     (''GET'', ''/api/v1/gpus'', EpListGPUs),
     (''GET'', ''/api/v1/containers'', EpListContainers),
     (''POST'', ''/api/v1/jobs'', EpCreateJob),
     (''POST'', ''/api/v1/jobs/preview'', EpPreviewJob),
     (''GET'', ''/api/v1/jobs/options'', EpJobOptions),
     (''GET'', ''/api/v1/jobs'', EpListJobs),
     (''GET'', ''/api/v1/jobs/{jobID}'', EpGetJob),
     (''POST'', ''/api/v1/jobs/{jobID}/stop'', EpStopJob),
     (''GET'', ''/api/v1/queue'', EpQueue),
     (''POST'', ''/api/v1/scheduler/run-once'', EpRunScheduler)]"

definition identity_routes :: "(string \<times> string \<times> Endpoint) list" where
  "identity_routes =
    [(''POST'', ''/api/v1/auth/login'', EpLogin),
     (''GET'', ''/api/v1/auth/me'', EpMe),
     (''POST'', ''/api/v1/auth/logout'', EpLogout),
     (''GET'', ''/api/v1/organizations'', EpOrganizations),
     (''POST'', ''/api/v1/organizations'', EpSaveOrganization),
     (''POST'', ''/api/v1/organizations/{organizationID}'', EpSaveOrganization),
     (''GET'', ''/api/v1/users'', EpUsers),
     (''POST'', ''/api/v1/users'', EpSaveUser),
     (''POST'', ''/api/v1/users/{userID}'', EpSaveUser),
     (''POST'', ''/api/v1/enrollments'', EpEnroll),
     (''GET'', ''/api/v1/enrollments'', EpEnrollments),
     (''POST'', ''/api/v1/enrollments/{enrollmentID}/revoke'', EpRevoke)]"

text \<open>A wildcard takes one segment, not an empty one; the segments it took are the path values.\<close>

fun match_segments :: "string list \<Rightarrow> string list \<Rightarrow> string list option" where
  "match_segments [] [] = Some []"
| "match_segments (p # ps) (s # ss) =
     (if HasPrefix p ''{''
      then (if s = '''' then None else map_option (Cons s) (match_segments ps ss))
      else if p = s then match_segments ps ss else None)"
| "match_segments _ _ = None"

definition match_path :: "string \<Rightarrow> string \<Rightarrow> string list option" where
  "match_path pattern path = match_segments (Split (CHR ''/'') pattern) (Split (CHR ''/'') path)"

text \<open>A \<open>GET\<close> pattern also takes \<open>HEAD\<close>.\<close>

definition method_ok :: "string \<Rightarrow> string \<Rightarrow> bool" where
  "method_ok pattern method \<longleftrightarrow> method = pattern \<or> pattern = ''GET'' \<and> method = ''HEAD''"

datatype route_result = Routed Endpoint "string list" | WrongMethod | NoRoute

fun find_route :: "(string \<times> string \<times> Endpoint) list \<Rightarrow> string \<Rightarrow> string \<Rightarrow> route_result" where
  "find_route [] method path = NoRoute"
| "find_route ((m, pattern, ep) # rs) method path =
     (case match_path pattern path of
        None \<Rightarrow> find_route rs method path
      | Some vs \<Rightarrow>
          if method_ok m method then Routed ep vs
          else case find_route rs method path of NoRoute \<Rightarrow> WrongMethod | r \<Rightarrow> r)"

end
