(* ===== verification/Http_Server.thy ===== *)
theory Http_Server
  imports Http_Views
begin

text \<open>
  The handlers and middleware of \<open>internal/httpapi\<close> (\<open>server.go\<close>, \<open>identity.go\<close>, \<open>training.go\<close>,
  \<open>middleware.go\<close>, \<open>security.go\<close>): one request as a function of the whole state of the control plane,
  which is the durable store, the metadata store and the login windows. The log and the recovery of
  panics are left out: neither answers a request that the model can express.
\<close>

section \<open>The server\<close>

text \<open>\<open>web_identity\<close> is the metadata store of the identity service and of the control plane, as
  \<open>cmd/aiwm-server\<close> wires them; without it the server falls back to one shared token, or, without
  options, to none. \<open>web_sha256\<close> is the raw digest.\<close>

record 'w Web =
  web_controlPlane :: ControlPlane
  web_identity :: "'w MetadataRepository option"
  web_publicToken :: "string option"
  web_corsOrigins :: "string list"
  web_sha256 :: "string \<Rightarrow> string"
  web_kdf :: kdf
  web_imageOK :: "string \<Rightarrow> bool"

record LoginWindow =
  lwn_at :: gotime
  lwn_count :: int

record 'w Site =
  site_store :: Durable
  site_world :: 'w
  site_logins :: "(string, LoginWindow) gomap"

text \<open>What a request gets from outside: the result of saving, the clock, random tokens by use, whether
  one of the four login slots is free, the inputs of the controller's two passes, and, for an upload,
  what other requests did meanwhile and how it ended.\<close>

record Call =
  cal_save :: "Snapshot \<Rightarrow> go_error option"
  cal_now :: gotime
  cal_random :: "nat \<Rightarrow> go_error + string"
  cal_slotFree :: bool
  cal_pass1 :: PassInput
  cal_pass2 :: PassInput
  cal_meanwhile :: "Durable \<Rightarrow> Durable"
  cal_uploadCut :: bool
  cal_uploadEnd :: gotime

type_synonym ('w, 'a) web = "'w Site \<Rightarrow> (http_error + 'a) \<times> 'w Site"

definition in_store :: "'a app \<Rightarrow> ('w, 'a) web" where
  "in_store m s = (case m (site_store s) of (r, d) \<Rightarrow> (map_sum DomainError id r, s\<lparr>site_store := d\<rparr>))"

definition in_world :: "('w \<Rightarrow> (go_error + 'a) \<times> 'w) \<Rightarrow> ('w, 'a) web" where
  "in_world m s = (case m (site_world s) of (r, w) \<Rightarrow> (map_sum DomainError id r, s\<lparr>site_world := w\<rparr>))"

definition parsed :: "http_error + 'a \<Rightarrow> ('w, 'a) web" where
  "parsed r s = (r, s)"

text \<open>An operation of the control plane that asks the metadata store for the organisations.\<close>

definition with_orgs :: "'w Web \<Rightarrow> (go_error + Organization list \<Rightarrow> 'a app) \<Rightarrow> ('w, 'a) web" where
  "with_orgs web f s =
     (case web_identity web of
        None \<Rightarrow> in_store (f (Inr [])) s
      | Some md \<Rightarrow> (case mdr_ListOrganizations md (site_world s) of (orgs, w) \<Rightarrow> in_store (f orgs) (s\<lparr>site_world := w\<rparr>)))"

type_synonym 'w http_handler = "'w Site \<Rightarrow> HttpResponse \<times> 'w Site"

text \<open>\<open>result, err := m; respond(w, result, err, status)\<close>\<close>

definition answer_with :: "('a \<Rightarrow> ApiData) \<Rightarrow> int \<Rightarrow> ('w, 'a) web \<Rightarrow> 'w http_handler" where
  "answer_with view status m s = (case m s of (r, s') \<Rightarrow> (respond (map_sum id view r) status, s'))"

definition answer_now :: "HttpResponse \<Rightarrow> 'w http_handler" where
  "answer_now r s = (r, s)"

section \<open>Bodies\<close>

fun in_register where "in_register (InRegister r) = Some r" | "in_register _ = None"
fun in_heartbeat where "in_heartbeat InHeartbeat = Some ()" | "in_heartbeat _ = None"
fun in_report where "in_report (InReport r) = Some r" | "in_report _ = None"
fun in_ack where "in_ack (InAck a) = Some a" | "in_ack _ = None"
fun in_drain where "in_drain (InDrain b) = Some b" | "in_drain _ = None"
fun in_create where "in_create (InCreate r) = Some r" | "in_create _ = None"
fun in_continue where "in_continue (InContinue t n) = Some (t, n)" | "in_continue _ = None"
fun in_login where "in_login (InLogin u p) = Some (u, p)" | "in_login _ = None"
fun in_organization where "in_organization (InOrganization i) = Some i" | "in_organization _ = None"
fun in_user where "in_user (InUser u) = Some u" | "in_user _ = None"
fun in_enrollment where "in_enrollment (InEnrollment e) = Some e" | "in_enrollment _ = None"

definition path_value :: "string list \<Rightarrow> nat \<Rightarrow> string" where
  "path_value vs n = (if n < length vs then vs ! n else '''')"

section \<open>Agents\<close>

definition agent_token_hash :: "'w Web \<Rightarrow> string \<Rightarrow> string" where
  "agent_token_hash web = tokenHash (web_sha256 web)"

definition withAgentAuth :: "'w Web \<Rightarrow> HttpRequest \<Rightarrow> string \<Rightarrow> 'w http_handler \<Rightarrow> 'w http_handler" where
  "withAgentAuth web req agentID next s =
     (case read_core (AuthenticateAgent (agent_token_hash web) agentID (bearerToken (req_Authorization req))) (site_store s) of
        Inl e \<Rightarrow> (respond (Inl (DomainError ErrUnauthorized)) 0, s)
      | Inr _ \<Rightarrow> next s)"

text \<open>Registration binds the enrolment in the metadata store before it adds the server; the binding
  stays when the second step fails.\<close>

definition binds_enrollment :: "ControlPlane \<Rightarrow> RegisterRequest \<Rightarrow> go_error + string \<Rightarrow> go_error + string \<Rightarrow> bool" where
  "binds_enrollment c r random token \<longleftrightarrow> cp_hasMetadata c \<and> reg_ProtocolVersion r = ProtocolVersion \<and>
     TrimSpace (reg_MachineID r) \<noteq> '''' \<and> TrimSpace (reg_Name r) \<noteq> '''' \<and> \<not> isl random \<and> \<not> isl token"

definition register :: "'w Web \<Rightarrow> Call \<Rightarrow> HttpRequest \<Rightarrow> RegisterRequest \<Rightarrow> ('w, RegisterResponse) web" where
  "register web k req r s =
     (let c = web_controlPlane web; token = req_EnrollmentToken req; hash = agent_token_hash web;
          random = cal_random k 0; agentToken = cal_random k 1;
          bind = (\<lambda>h m t. case web_identity web of None \<Rightarrow> Inl ErrUnauthorized
                  | Some md \<Rightarrow> fst (mdr_BindEnrollment md h m t (site_world s)));
          w = (case web_identity web of None \<Rightarrow> site_world s
               | Some md \<Rightarrow> if binds_enrollment c r random agentToken
                            then snd (mdr_BindEnrollment md (hash token) (reg_MachineID r) (cal_now k) (site_world s))
                            else site_world s)
      in in_store (RegisterAgent (cal_save k) hash c token r random agentToken bind (cal_now k)) (s\<lparr>site_world := w\<rparr>))"

section \<open>Uploads\<close>

text \<open>\<open>strconv.ParseInt\<close> of the step; a missing step is 0.\<close>

definition upload_step :: "HttpRequest \<Rightarrow> http_error + int" where
  "upload_step req =
     (let raw = label_get (req_Query req) ''step'' in
      if raw = '''' then Inr 0
      else case Atoi raw of None \<Rightarrow> Inl (DomainError ErrInvalidInput)
      | Some n \<Rightarrow> if n < 0 then Inl (DomainError ErrInvalidInput) else Inr n)"

definition body_bytes :: "Body \<Rightarrow> string" where
  "body_bytes b = (case b of BodyBytes s \<Rightarrow> s | _ \<Rightarrow> '''')"

definition upload :: "'w Web \<Rightarrow> Call \<Rightarrow> HttpRequest \<Rightarrow> string \<Rightarrow> string \<Rightarrow> 'w http_handler" where
  "upload web k req jobID kind s =
     (let c = web_controlPlane web; token = bearerToken (req_Authorization req) in
      case in_store (TrainingSession c jobID token (cal_now k)) s of
        (Inl e, s1) \<Rightarrow> (respond (Inl e) 0, s1)
      | (Inr _, s1) \<Rightarrow>
          if req_ContentLength req \<le> 0 \<or> trn_MaxUploadBytes (cp_training c) < req_ContentLength req
          then (writeError 413 ''OUTPUT_SIZE'' msg_output_size, s1)
          else case upload_step req of
            Inl e \<Rightarrow> (respond (Inl e) 0, s1)
          | Inr step \<Rightarrow>
              (case answer_with TrainingData 200
                      (in_store (SaveTrainingOutput (cal_save k) c jobID token kind step (req_ContentLength req)
                         (body_bytes (req_Body req)) (cal_random k 0) (cal_now k) (cal_meanwhile k)
                         (cal_uploadCut k) (cal_uploadEnd k))) s1 of
                 (r, s2) \<Rightarrow> (no_store r, s2)))"

section \<open>Handlers of the control plane\<close>

definition public_summary :: "ClusterSummary \<Rightarrow> ClusterSummary" where
  "public_summary m = m\<lparr>sum_RecentEvents := map public_event (sum_RecentEvents m)\<rparr>"

text \<open>The query's origin; the empty one is every origin, one the domain does not know selects nothing.\<close>

definition parse_origin :: "string \<Rightarrow> ContainerOrigin option option" where
  "parse_origin o0 =
     (let v = ToUpper o0 in
      if v = '''' then Some None else if v = ''MANAGED'' then Some (Some ContainerManaged)
      else if v = ''LEGACY'' then Some (Some ContainerLegacy) else if v = ''UNKNOWN'' then Some (Some ContainerUnknown)
      else None)"

definition containers_of :: "'w Web \<Rightarrow> Call \<Rightarrow> reqctx \<Rightarrow> string \<Rightarrow> ('w, (Server \<times> Container) list) web" where
  "containers_of web k ctx origin =
     with_orgs web (\<lambda>orgs.
       case parse_origin origin of
         Some sel \<Rightarrow> ListContainers (web_controlPlane web) ctx orgs (cal_now k) sel
       | None \<Rightarrow> andThen (ListContainers (web_controlPlane web) ctx orgs (cal_now k) None) (\<lambda>_. reply []))"

definition decoded :: "(ApiInput \<Rightarrow> 'a option) \<Rightarrow> HttpRequest \<Rightarrow> ('w, 'a) web" where
  "decoded strict req = parsed (decodeJSON strict (req_Body req))"

fun handle :: "'w Web \<Rightarrow> Call \<Rightarrow> reqctx \<Rightarrow> HttpRequest \<Rightarrow> string list \<Rightarrow> Endpoint \<Rightarrow> 'w http_handler" where
  "handle web k ctx req vs EpHealth = answer_now (plain 200 (DataResponse (HealthData ''ok'')))"
| "handle web k ctx req vs EpReady = answer_now (plain 200 (DataResponse (HealthData ''ready'')))"
| "handle web k ctx req vs EpSummary =
     answer_with (SummaryData \<circ> public_summary) 200
       (with_orgs web (\<lambda>orgs. Summary (web_controlPlane web) ctx orgs (cal_now k)))"
| "handle web k ctx req vs EpRegister =
     answer_with RegisteredData 201 (and_then (decoded in_register req) (register web k req))"
| "handle web k ctx req vs EpHeartbeat =
     withAgentAuth web req (path_value vs 0) (answer_with ServerData 200
       (and_then (decoded in_heartbeat req) (\<lambda>_. in_store (transact (cal_save k) (Heartbeat (path_value vs 0) (cal_now k))))))"
| "handle web k ctx req vs EpInventory =
     withAgentAuth web req (path_value vs 0) (answer_with ServerData 200
       (and_then (decoded in_report req) (\<lambda>r. in_store (transact (cal_save k) (ReportInventory (path_value vs 0) r (cal_now k))))))"
| "handle web k ctx req vs EpPoll =
     withAgentAuth web req (path_value vs 0) (answer_with CommandsData 200
       (in_store (transact (cal_save k) (PollCommands (cp_commandLease (web_controlPlane web)) (path_value vs 0)
          (case Atoi (label_get (req_Query req) ''limit'') of None \<Rightarrow> 0 | Some n \<Rightarrow> n) (cal_now k)))))"
| "handle web k ctx req vs EpAck =
     withAgentAuth web req (path_value vs 0) (answer_with CommandData 200
       (and_then (decoded in_ack req) (\<lambda>a.
          in_store (transact (cal_save k) (AckCommand (path_value vs 0) (path_value vs 1) a (cal_now k))))))"
| "handle web k ctx req vs EpListServers =
     answer_with ServersData 200 (with_orgs web (\<lambda>orgs. ListVisibleServers (web_controlPlane web) ctx orgs (cal_now k)))"
| "handle web k ctx req vs EpGetServer =
     answer_with ServerData 200
       (with_orgs web (\<lambda>orgs. GetVisibleServer (web_controlPlane web) ctx orgs (cal_now k) (path_value vs 0)))"
| "handle web k ctx req vs EpDrain =
     answer_with ServerData 200 (and_then (decoded in_drain req) (\<lambda>b.
       with_orgs web (\<lambda>orgs. DrainServer (cal_save k) (web_controlPlane web) ctx orgs (cal_now k) (path_value vs 0) b)))"
| "handle web k ctx req vs EpListGPUs =
     answer_with GPUsData 200 (with_orgs web (\<lambda>orgs. ListGPUs (web_controlPlane web) ctx orgs (cal_now k)))"
| "handle web k ctx req vs EpListContainers =
     answer_with ContainersData 200 (containers_of web k ctx (label_get (req_Query req) ''origin''))"
| "handle web k ctx req vs EpJobOptions =
     answer_now (plain 200 (DataResponse (OptionsData (GetAllocationOptions (web_controlPlane web)))))"
| "handle web k ctx req vs EpPreviewJob =
     answer_with PreviewData 200 (and_then (decoded in_create req) (\<lambda>r.
       with_orgs web (\<lambda>orgs. PreviewJob (web_imageOK web) (web_controlPlane web) ctx r orgs (cal_now k))))"
| "handle web k ctx req vs EpCreateJob =
     answer_with (JobData \<circ> publicJob) 201 (and_then (decoded in_create req) (\<lambda>r.
       with_orgs web (\<lambda>orgs. CreateJobFor (cal_save k) (web_imageOK web) (web_controlPlane web) ctx r orgs
         (cal_random k 0) (cal_random k 1) (cal_now k))))"
| "handle web k ctx req vs EpListJobs =
     answer_with (JobsData \<circ> publicJobs) 200 (in_store (ListVisibleJobs ctx))"
| "handle web k ctx req vs EpGetJob =
     answer_with (JobData \<circ> publicJob) 200 (in_store (GetVisibleJob ctx (path_value vs 0)))"
| "handle web k ctx req vs EpStopJob =
     answer_with (JobData \<circ> publicJob) 202
       (in_store (StopJob (cal_save k) ctx (path_value vs 0) (cal_random k 0) (cal_now k)))"
| "handle web k ctx req vs EpQueue =
     answer_with (JobsData \<circ> publicJobs) 200 (in_store (Queue (web_controlPlane web) ctx (cal_now k)))"
| "handle web k ctx req vs EpRunScheduler =
     answer_with AssignedData 200 (with_orgs web (\<lambda>orgs.
       ScheduleOnce (cal_save k) (web_controlPlane web) ctx ((cal_pass1 k)\<lparr>pin_orgs := orgs\<rparr>) orgs (cal_now k)
         ((cal_pass2 k)\<lparr>pin_orgs := orgs\<rparr>)))"
| "handle web k ctx req vs EpTrainingContract =
     (\<lambda>s. case answer_with ContractData 200
             (in_store (GetTrainingContract (web_controlPlane web) (path_value vs 0)
                (bearerToken (req_Authorization req)) (cal_now k))) s of (r, s') \<Rightarrow> (no_store r, s'))"
| "handle web k ctx req vs EpTrainingUpload = upload web k req (path_value vs 0) (path_value vs 1)"
| "handle web k ctx req vs EpContinue =
     answer_with (JobData \<circ> publicJob) 201 (and_then (decoded in_continue req) (\<lambda>(neededAt, ttl).
       with_orgs web (\<lambda>orgs. ContinueTraining (cal_save k) (web_imageOK web) (web_controlPlane web) ctx
         (path_value vs 0) neededAt ttl orgs (cal_random k 0) (cal_random k 1) (cal_now k))))"
| "handle web k ctx req vs EpArtifact =
     (\<lambda>s. case answer_with (\<lambda>u. ArtifactData u 300) 200
             (in_store (ArtifactDownload (web_controlPlane web) ctx (path_value vs 0))) s of (r, s') \<Rightarrow> (no_store r, s'))"
| "handle web k ctx req vs _ = answer_now (plain 404 (TextResponse ''404 page not found''))"

section \<open>Handlers of the identity service\<close>

text \<open>The login windows: one per peer address, dropped after a minute, at most 20 attempts in one and
  at most 4096 of them.\<close>

definition live_windows :: "gotime \<Rightarrow> (string, LoginWindow) gomap \<Rightarrow> (string, LoginWindow) gomap" where
  "live_windows now ws = filter (\<lambda>(p, v). \<not> Minute < Sub now (lwn_at v)) ws"

definition admit_login :: "string \<Rightarrow> gotime \<Rightarrow> (string, LoginWindow) gomap \<Rightarrow> bool \<times> (string, LoginWindow) gomap" where
  "admit_login peer now ws =
     (let live = live_windows now ws;
          v0 = (case map_of live peer of None \<Rightarrow> \<lparr>lwn_at = 0, lwn_count = 0\<rparr> | Some v \<Rightarrow> v);
          v = (if IsZero (lwn_at v0) then v0\<lparr>lwn_at := now\<rparr> else v0);
          allowed = (lwn_count v < 20 \<and> length live < 4096)
      in (allowed, if allowed then put peer (v\<lparr>lwn_count := lwn_count v + 1\<rparr>) live else live))"

definition login :: "'w MetadataRepository \<Rightarrow> 'w Web \<Rightarrow> Call \<Rightarrow> HttpRequest \<Rightarrow> 'w http_handler" where
  "login md web k req s =
     (let (allowed, ws) = admit_login (req_Peer req) (cal_now k) (site_logins s); s1 = s\<lparr>site_logins := ws\<rparr> in
      if \<not> allowed then (with_header ''Retry-After'' ''60'' (writeError 429 ''RATE_LIMIT'' msg_login_later), s1)
      else if \<not> cal_slotFree k then (writeError 429 ''RATE_LIMIT'' msg_login_busy, s1)
      else case decodeJSON in_login (req_Body req) of
        Inl e \<Rightarrow> (respond (Inl e) 0, s1)
      | Inr (username, password) \<Rightarrow>
          (case answer_with LoginData 200
                  (in_world (Login md (web_sha256 web) (web_kdf web) username password (cal_random k 0) (cal_now k))) s1 of
             (r, s2) \<Rightarrow> (no_store r, s2)))"

definition zero_principal :: Principal where
  "zero_principal = \<lparr>prn_User = zero_user, prn_Organization = \<lparr>org_ID = '''', org_Code = '''', org_Name = '''',
     org_Enabled = False, org_CreatedAt = 0, org_UpdatedAt = 0\<rparr>, prn_ScopeOrganizationID = ''''\<rparr>"

fun handle_identity ::
  "'w MetadataRepository \<Rightarrow> 'w Web \<Rightarrow> Call \<Rightarrow> reqctx \<Rightarrow> HttpRequest \<Rightarrow> string list \<Rightarrow> Endpoint \<Rightarrow> 'w http_handler" where
  "handle_identity md web k ctx req vs EpLogin = login md web k req"
| "handle_identity md web k ctx req vs EpMe =
     answer_now (plain 200 (DataResponse (PrincipalData (case ctx of None \<Rightarrow> zero_principal | Some p \<Rightarrow> p))))"
| "handle_identity md web k ctx req vs EpLogout =
     answer_with (\<lambda>_. LoggedOutData True) 200
       (in_world (Logout md (web_sha256 web) (bearerToken (req_Authorization req))))"
| "handle_identity md web k ctx req vs EpOrganizations =
     answer_with OrganizationsData 200 (in_world (Organizations md ctx))"
| "handle_identity md web k ctx req vs EpSaveOrganization =
     answer_with OrganizationData 200 (and_then (decoded in_organization req) (\<lambda>i.
       in_world (StoreOrganization md ctx (path_value vs 0) i (cal_random k 0))))"
| "handle_identity md web k ctx req vs EpUsers = answer_with UsersData 200 (in_world (Users md ctx))"
| "handle_identity md web k ctx req vs EpSaveUser =
     answer_with UserData 200 (and_then (decoded in_user req) (\<lambda>u.
       in_world (StoreUser md (web_kdf web) ctx (path_value vs 0) u (cal_random k 0) (cal_random k 1))))"
| "handle_identity md web k ctx req vs EpEnroll =
     answer_with EnrolledData 201 (and_then (decoded in_enrollment req) (\<lambda>e.
       in_world (EnrollServer md (web_sha256 web) ctx e (cal_random k 0) (cal_random k 1) (cal_random k 2) (cal_now k))))"
| "handle_identity md web k ctx req vs EpEnrollments =
     answer_with EnrollmentsData 200 (in_world (Enrollments md ctx))"
| "handle_identity md web k ctx req vs EpRevoke =
     answer_with (\<lambda>_. RevokedData True) 200 (in_world (WithdrawEnrollment md ctx (path_value vs 0)))"
| "handle_identity md web k ctx req vs ep = handle web k ctx req vs ep"

section \<open>Mux and middleware\<close>

definition mux :: "'w Web \<Rightarrow> Call \<Rightarrow> reqctx \<Rightarrow> HttpRequest \<Rightarrow> 'w http_handler" where
  "mux web k ctx req s =
     (case web_identity web of
        None \<Rightarrow>
          (case find_route routes (req_Method req) (req_Path req) of
             Routed ep vs \<Rightarrow> handle web k ctx req vs ep s
           | WrongMethod \<Rightarrow> (plain 405 (TextResponse ''Method Not Allowed''), s)
           | NoRoute \<Rightarrow> (plain 404 (TextResponse ''404 page not found''), s))
      | Some md \<Rightarrow>
          (case find_route (routes @ identity_routes) (req_Method req) (req_Path req) of
             Routed ep vs \<Rightarrow> handle_identity md web k ctx req vs ep s
           | WrongMethod \<Rightarrow> (plain 405 (TextResponse ''Method Not Allowed''), s)
           | NoRoute \<Rightarrow> (plain 404 (TextResponse ''404 page not found''), s)))"

text \<open>The paths that carry their own authentication, or none.\<close>

definition outside_session :: "string \<Rightarrow> bool" where
  "outside_session path \<longleftrightarrow> \<not> HasPrefix path ''/api/v1/'' \<or> HasPrefix path ''/api/v1/agents/'' \<or>
     HasPrefix path ''/api/v1/training/'' \<or> path = ''/api/v1/auth/login''"

definition scoped_principal :: "HttpRequest \<Rightarrow> Principal \<Rightarrow> go_error + Principal" where
  "scoped_principal req p =
     (let org = label_get (req_Query req) ''organizationId'';
          admin = (usr_Role (prn_User p) = RoleAdmin) in
      if org \<noteq> '''' \<and> \<not> admin then Inl ErrForbidden
      else if req_Path req = ''/api/v1/scheduler/run-once'' \<and> \<not> admin then Inl ErrForbidden
      else Inr (if org \<noteq> '''' then p\<lparr>prn_ScopeOrganizationID := org\<rparr> else p))"

definition sessionAuth :: "'w MetadataRepository \<Rightarrow> 'w Web \<Rightarrow> Call \<Rightarrow> HttpRequest \<Rightarrow> (reqctx \<Rightarrow> 'w http_handler) \<Rightarrow> 'w http_handler" where
  "sessionAuth md web k req next s =
     (if outside_session (req_Path req) then next None s
      else case in_world (Authenticate md (web_sha256 web) (bearerToken (req_Authorization req)) (cal_now k)) s of
        (Inl e, s1) \<Rightarrow> (respond (Inl e) 0, s1)
      | (Inr p, s1) \<Rightarrow>
          (case scoped_principal req p of
             Inl e \<Rightarrow> (respond (Inl (DomainError e)) 0, s1)
           | Inr p' \<Rightarrow> (case next (Some p') s1 of (r, s2) \<Rightarrow> (no_store r, s2))))"

definition publicAuth :: "string \<Rightarrow> HttpRequest \<Rightarrow> 'w http_handler \<Rightarrow> 'w http_handler" where
  "publicAuth token req next s =
     (if HasPrefix (req_Path req) ''/api/v1/'' \<and> \<not> HasPrefix (req_Path req) ''/api/v1/agents/'' \<and>
         \<not> HasPrefix (req_Path req) ''/api/v1/training/'' \<and>
         (token = '''' \<or> bearerToken (req_Authorization req) \<noteq> token)
      then (writeError 401 ''UNAUTHORIZED'' ''valid public API bearer token required'', s)
      else next s)"

definition authorized :: "'w Web \<Rightarrow> Call \<Rightarrow> HttpRequest \<Rightarrow> 'w http_handler" where
  "authorized web k req =
     (case (web_identity web, web_publicToken web) of
        (Some md, _) \<Rightarrow> sessionAuth md web k req (\<lambda>ctx. mux web k ctx req)
      | (None, Some token) \<Rightarrow> publicAuth token req (mux web k None req)
      | (None, None) \<Rightarrow> mux web k None req)"

definition cors_headers :: "'w Web \<Rightarrow> HttpRequest \<Rightarrow> labels" where
  "cors_headers web req =
     (if List.member (web_corsOrigins web) (req_Origin req)
      then [(''Access-Control-Allow-Origin'', req_Origin req), (''Vary'', ''Origin''),
            (''Access-Control-Allow-Headers'', ''Authorization, Content-Type, X-Enrollment-Token, X-Request-ID''),
            (''Access-Control-Allow-Methods'', ''GET, POST, PUT, OPTIONS'')]
      else [])"

definition unix_epoch :: gotime where "unix_epoch = 62135596800 * Second"

definition request_id :: "Call \<Rightarrow> HttpRequest \<Rightarrow> string" where
  "request_id k req =
     (let i = TrimSpace (req_RequestID req) in
      if i = '''' then ''req_'' @ show_int (cal_now k - unix_epoch) else i)"

definition add_headers :: "labels \<Rightarrow> HttpResponse \<Rightarrow> HttpResponse" where
  "add_headers hs r = foldr (\<lambda>(h, v). with_header h v) hs r"

text \<open>The whole chain: request identifier, CORS, authentication, mux.\<close>

definition serve_http :: "'w Web \<Rightarrow> Call \<Rightarrow> HttpRequest \<Rightarrow> 'w http_handler" where
  "serve_http web k req s =
     (let hs = (''X-Request-ID'', request_id k req) # cors_headers web req in
      if req_Method req = ''OPTIONS'' then (add_headers hs (plain 204 NoContent), s)
      else case authorized web k req s of (r, s') \<Rightarrow> (add_headers hs r, s'))"

end
