(* ===== verification/Http_Routes.thy ===== *)
theory Http_Routes
  imports Http_Server
begin

text \<open>
  Which paths lead to which endpoint: a request the mux routes has a path of the endpoint's pattern, so
  the prefixes by which the middleware exempts a path from a session (\<open>sessionAuth\<close>) cover exactly the
  endpoints that check a credential of their own, and nothing else.
\<close>

section \<open>Segments\<close>

fun unsplit :: "char \<Rightarrow> string list \<Rightarrow> string" where
  "unsplit sep [] = []"
| "unsplit sep [x] = x"
| "unsplit sep (x # y # r) = x @ sep # unsplit sep (y # r)"

lemma Split_not_Nil: "Split sep s \<noteq> []"
  by (cases s) (auto split: list.split)

lemma unsplit_Cons: "unsplit sep ((c # x) # r) = c # unsplit sep (x # r)"
  by (cases r) simp_all

lemma unsplit_Nil_Cons: "r \<noteq> [] \<Longrightarrow> unsplit sep ([] # r) = sep # unsplit sep r"
  by (cases r) simp_all

lemma unsplit_Split: "unsplit sep (Split sep s) = s"
  by (induction s) (auto simp: unsplit_Cons unsplit_Nil_Cons Split_not_Nil split: list.split)

lemma find_route_Routed:
  "find_route rs m path = Routed ep vs \<Longrightarrow>
     \<exists>m' pattern. (m', pattern, ep) \<in> set rs \<and> match_path pattern path = Some vs \<and> method_ok m' m"
  by (induction rs m path rule: find_route.induct) (auto split: option.splits if_splits route_result.splits)

section \<open>The endpoints with a credential of their own\<close>

text \<open>The credential each endpoint checks, as \<open>Http_Access\<close> proves of the handlers: agents present the
  token of their server, a training job the token of the job, a registration an enrolment token and a
  login a password; the two probes answer without any.\<close>

datatype credential = AnySession | ServerToken | JobToken | EnrollmentToken | Password | NoCredential

fun credential_of :: "Endpoint \<Rightarrow> credential" where
  "credential_of EpTrainingContract = JobToken"
| "credential_of EpTrainingUpload = JobToken"
| "credential_of EpRegister = EnrollmentToken"
| "credential_of EpHeartbeat = ServerToken"
| "credential_of EpInventory = ServerToken"
| "credential_of EpPoll = ServerToken"
| "credential_of EpAck = ServerToken"
| "credential_of EpLogin = Password"
| "credential_of EpHealth = NoCredential"
| "credential_of EpReady = NoCredential"
| "credential_of _ = AnySession"

lemma match_segments_Nil [simp]: "match_segments [] ss = Some vs \<longleftrightarrow> ss = [] \<and> vs = []"
  by (cases ss) auto

lemma match_segments_Cons:
  "match_segments (p # ps) ss = Some vs \<longleftrightarrow>
     (\<exists>s r. ss = s # r \<and>
       (if HasPrefix p ''{'' then s \<noteq> '''' \<and> (\<exists>ws. match_segments ps r = Some ws \<and> vs = s # ws)
        else s = p \<and> match_segments ps r = Some vs))"
  by (cases ss) auto

lemma match_path_eq:
  "match_path pattern path = Some vs \<Longrightarrow>
     \<exists>ss. path = unsplit (CHR ''/'') ss \<and> match_segments (Split (CHR ''/'') pattern) ss = Some vs"
  using unsplit_Split by (metis match_path_def)

text \<open>Decided pattern by pattern.\<close>

definition paths_agree :: "string \<Rightarrow> Endpoint \<Rightarrow> bool" where
  "paths_agree path ep \<longleftrightarrow> (outside_session path \<longleftrightarrow> credential_of ep \<noteq> AnySession) \<and>
     (ep = EpRunScheduler \<longrightarrow> path = ''/api/v1/scheduler/run-once'')"

lemma pattern_agrees:
  "\<forall>(m, pattern, ep) \<in> set (routes @ identity_routes).
     \<forall>ss. match_segments (Split (CHR ''/'') pattern) ss = Some vs \<longrightarrow> paths_agree (unsplit (CHR ''/'') ss) ep"
  unfolding routes_def identity_routes_def
  by (auto simp: match_segments_Cons HasPrefix_def paths_agree_def outside_session_def)

lemma routed_agrees:
  assumes "find_route (routes @ identity_routes) verb path = Routed ep vs"
  shows "paths_agree path ep"
proof -
  from find_route_Routed [OF assms] obtain m pattern where r: "(m, pattern, ep) \<in> set (routes @ identity_routes)"
    and "match_path pattern path = Some vs" by blast
  from match_path_eq [OF this(2)] obtain ss where ss: "path = unsplit (CHR ''/'') ss"
    "match_segments (Split (CHR ''/'') pattern) ss = Some vs" by blast
  from bspec [OF pattern_agrees r] ss(2) show ?thesis by (simp add: ss(1))
qed

end
