(* ===== verification/Identity_Laws.thy ===== *)
theory Identity_Laws
  imports Identity
begin

text \<open>
  Passwords are checked against exactly the key that was derived, a login is refused unless the account
  and its organisation are enabled, and whatever an account that is not an administrator asks of the
  identity service leaves every other organisation as it is.
\<close>

section \<open>Passwords\<close>

lemma Split_plain: "sep \<notin> set a \<Longrightarrow> Split sep a = [a]"
  by (induction a) auto

lemma Split_append: "sep \<notin> set a \<Longrightarrow> Split sep (a @ sep # s) = a # Split sep s"
  by (induction a) auto

lemma decoded_hash_encoded:
  assumes "CHR ''$'' \<notin> set salt"
  shows "decoded_hash (password_scheme @ ''$'' @ salt @ ''$'' @ hex_encode key) =
    (salt, if length key = 32 then Some key else None)"
proof -
  have scheme: "CHR ''$'' \<notin> set password_scheme" by (simp add: password_scheme_def)
  have "Split (CHR ''$'') (password_scheme @ ''$'' @ salt @ ''$'' @ hex_encode key) = [password_scheme, salt, hex_encode key]"
    using Split_append [OF scheme] Split_append [OF assms] Split_plain [OF hex_encode_plain] by simp
  then show ?thesis by (simp add: decoded_hash_def hex_roundtrip)
qed

text \<open>
  C38. Passwords round-trip. What \<open>hashPassword\<close> stored accepts an attempt exactly when the key derived from
  the attempt is the key derived from the password. The random salt is hexadecimal, so it has no
  dollar sign, and the key has the 32 bytes asked for.
\<close>

theorem password_roundtrip:
  assumes "hashPassword kdf (Inr salt) password = Inr encoded" and "CHR ''$'' \<notin> set salt"
    and "\<And>key. kdf password salt = Inr key \<Longrightarrow> length key = 32"
  shows "verifyPassword kdf encoded attempt \<longleftrightarrow> (\<exists>key. kdf attempt salt = Inr key \<and> kdf password salt = Inr key)"
proof -
  from assms(1) obtain key where key: "kdf password salt = Inr key"
    and enc: "encoded = password_scheme @ ''$'' @ salt @ ''$'' @ hex_encode key"
    by (auto simp: hashPassword_def split: if_splits sum.splits)
  show ?thesis
    using decoded_hash_encoded [OF assms(2), of key] assms(3) [OF key] key
    by (auto simp: verifyPassword_def enc split: sum.splits)
qed

text \<open>A hash that is not one of this scheme admits no password.\<close>

lemma malformed_hash_refuses: "snd (decoded_hash encoded) = None \<Longrightarrow> \<not> verifyPassword kdf encoded attempt"
  by (auto simp: verifyPassword_def split: prod.splits sum.splits)

section \<open>Logins\<close>

lemma Login_Inr:
  assumes "Login md sha256 kdf username password random now w = (Inr r, w')"
  obtains u g w1 w2 where "mdr_UserByUsername md (ToLower (TrimSpace username)) w = (Inr u, w1)"
    "verifyPassword kdf (usr_PasswordHash u) password" "usr_Enabled u"
    "mdr_GetOrganization md (usr_OrganizationID u) w1 = (Inr g, w2)" "org_Enabled g"
    "random = Inr (lgr_Token r)" "lgr_ExpiresAt r = now + SessionTTL"
    "lgr_Principal r = \<lparr>prn_User = u, prn_Organization = g, prn_ScopeOrganizationID = ''''\<rparr>"
    "mdr_CreateSession md (tokenHash sha256 (lgr_Token r)) (usr_ID u) (now + SessionTTL) w2 = (Inr (), w')"
proof -
  have no_user: "\<not> usr_Enabled zero_user" by (simp add: zero_user_def)
  from assms that show ?thesis
    using no_user
    by (auto simp: Login_def and_then_Inr or_else_def given_def Let_def split: if_splits prod.splits sum.splits)
qed

section \<open>Tenants\<close>

lemma given_then: "and_then (given (Inr v)) f = f v" "and_then (given (Inl e)) f = (\<lambda>w. (Inl e, w))"
  by (simp_all add: and_then_def given_def fun_eq_iff)

text \<open>An operation that leaves every organisation but \<open>own\<close> alone.\<close>

context tenant_store
begin

definition spares :: "string \<Rightarrow> ('w \<Rightarrow> (go_error + 'a) \<times> 'w) \<Rightarrow> bool" where
  "spares own m \<longleftrightarrow> (\<forall>w r w'. good w \<longrightarrow> m w = (r, w') \<longrightarrow>
     good w' \<and> (\<forall>g. g \<noteq> own \<longrightarrow> part w' g = part w g))"

lemma sparesI: "(\<And>w r w'. good w \<Longrightarrow> m w = (r, w') \<Longrightarrow> good w' \<and> part w' = part w) \<Longrightarrow> spares own m"
  unfolding spares_def by metis

lemma spares_then:
  assumes "spares own m" and "\<And>v. spares own (f v)"
  shows "spares own (and_then m f)"
  unfolding spares_def
proof (intro allI impI)
  fix w r w' assume w: "good w" and run: "and_then m f w = (r, w')"
  obtain r1 w1 where m: "m w = (r1, w1)" by fastforce
  have w1: "good w1" "\<forall>g. g \<noteq> own \<longrightarrow> part w1 g = part w g" using assms(1) w m by (auto simp: spares_def)
  show "good w' \<and> (\<forall>g. g \<noteq> own \<longrightarrow> part w' g = part w g)"
  proof (cases r1)
    case (Inl e)
    with m run w1 show ?thesis by (simp add: and_then_def)
  next
    case (Inr v)
    with m run have "f v w1 = (r, w')" by (simp add: and_then_def)
    with assms(2) [of v] w1 show ?thesis by (simp add: spares_def)
  qed
qed

lemma spares_else:
  assumes "spares own m" and "\<And>e. spares own (h e)"
  shows "spares own (or_else m h)"
  unfolding spares_def
proof (intro allI impI)
  fix w r w' assume w: "good w" and run: "or_else m h w = (r, w')"
  obtain r1 w1 where m: "m w = (r1, w1)" by fastforce
  have w1: "good w1" "\<forall>g. g \<noteq> own \<longrightarrow> part w1 g = part w g" using assms(1) w m by (auto simp: spares_def)
  show "good w' \<and> (\<forall>g. g \<noteq> own \<longrightarrow> part w' g = part w g)"
  proof (cases r1)
    case (Inr v)
    with m run w1 show ?thesis by (simp add: or_else_def)
  next
    case (Inl e)
    with m run have "h e w1 = (r, w')" by (simp add: or_else_def)
    with assms(2) [of e] w1 show ?thesis by (simp add: spares_def)
  qed
qed

lemma spares_refused: "(\<And>w. m w = (Inl e, w)) \<Longrightarrow> spares own m"
  by (simp add: spares_def)

lemma spares_create: "enr_OrganizationID e = own \<Longrightarrow> spares own (mdr_CreateEnrollment md e)"
  unfolding spares_def using create_enrollment by blast

lemma spares_base: "spares own (yield v)" "spares own (raise e)" "spares own (given r)"
  by (auto simp: spares_def yield_def raise_def given_def)

lemma spares_reads:
  "spares own (mdr_ListOrganizations md)" "spares own (mdr_GetOrganization md g)" "spares own (mdr_ListUsers md)"
  "spares own (mdr_UserByUsername md n)" "spares own (mdr_SessionPrincipal md h now)" "spares own (mdr_ListEnrollments md)"
  "spares own (mdr_CreateSession md h i t)" "spares own (mdr_DeleteSession md h)"
  by (rule sparesI, (erule list_organizations get_organization list_users user_by_username session_principal
      list_enrollments create_session delete_session; assumption))+

lemma spares_if: "(b \<Longrightarrow> spares own m) \<Longrightarrow> (\<not> b \<Longrightarrow> spares own n) \<Longrightarrow> spares own (if b then m else n)"
  by simp

lemmas spares_rules = spares_then spares_else spares_base spares_reads spares_if

lemma Login_spares: "spares own (Login md sha256 kdf username password random now)"
  unfolding Login_def Let_def by (intro spares_rules)

lemma Authenticate_spares: "spares own (Authenticate md sha256 token now)"
  unfolding Authenticate_def by (intro spares_rules)

lemma Logout_spares: "spares own (Logout md sha256 token)"
  unfolding Logout_def by (intro spares_rules)

lemma Organizations_spares: "spares own (Organizations md ctx)"
  unfolding Organizations_def by (intro spares_rules)

lemma admin_only:
  assumes "usr_Role (prn_User p) \<noteq> RoleAdmin"
  shows "and_then (given (requireAdmin (Some p))) f w = (Inl ErrForbidden, w)"
  using assms by (simp add: and_then_def given_def requireAdmin_def)

lemma administration_spares:
  assumes "usr_Role (prn_User p) \<noteq> RoleAdmin"
  shows "spares own (StoreOrganization md (Some p) i input random)" "spares own (Users md (Some p))"
    "spares own (StoreUser md kdf (Some p) j input' random salt)"
  by (rule spares_refused [where e = ErrForbidden],
      simp only: StoreOrganization_def Users_def StoreUser_def admin_only [OF assms])+

lemma EnrollServer_spares:
  assumes "usr_Role (prn_User p) \<noteq> RoleAdmin"
  shows "spares (usr_OrganizationID (prn_User p)) (EnrollServer md sha256 (Some p) input random1 random2 newToken now)"
proof (cases "eni_OrganizationID input = ''''")
  case True
  with assms have own: "enrolling_organization p (eni_OrganizationID input) = Inr (usr_OrganizationID (prn_User p))"
    by (simp add: enrolling_organization_def)
  show ?thesis
    unfolding EnrollServer_def option.case own given_then Let_def
    by (intro spares_rules spares_create) simp
next
  case False
  with assms show ?thesis
    by (intro spares_refused [where e = ErrForbidden])
      (simp add: EnrollServer_def enrolling_organization_def and_then_def given_def)
qed

lemma Enrollments_spares: "spares own (Enrollments md ctx)"
  unfolding Enrollments_def by (intro spares_rules)

lemma WithdrawEnrollment_spares:
  assumes "usr_Role (prn_User p) \<noteq> RoleAdmin"
  shows "spares (usr_OrganizationID (prn_User p)) (WithdrawEnrollment md (Some p) i)"
  unfolding spares_def
proof (intro allI impI)
  fix w r w' assume w: "good w" and run: "WithdrawEnrollment md (Some p) i w = (r, w')"
  obtain r1 w1 where list: "mdr_ListEnrollments md w = (r1, w1)" by fastforce
  note w1 = list_enrollments [OF w list]
  show "good w' \<and> (\<forall>g. g \<noteq> usr_OrganizationID (prn_User p) \<longrightarrow> part w' g = part w g)"
  proof (cases "\<exists>l e. r1 = Inr l \<and> e \<in> set l \<and> CanAccess (Some p) (enr_OrganizationID e) \<and> enr_ID e = i")
    case True
    then obtain l e where e: "r1 = Inr l" "e \<in> set l" "CanAccess (Some p) (enr_OrganizationID e)" "enr_ID e = i"
      by blast
    with assms have "enr_OrganizationID e = usr_OrganizationID (prn_User p)"
      by (simp add: CanAccess_def SameOrganization_def)
    moreover from e run list have "mdr_RevokeEnrollment md (enr_ID e) w1 = (r, w')"
      by (auto simp: WithdrawEnrollment_def Enrollments_def and_then_def yield_def list_ex_iff split: if_splits)
    ultimately show ?thesis using revoke_enrollment [OF w list [unfolded e(1)] e(2)] by metis
  next
    case False
    with run list w1 show ?thesis
      by (auto simp: WithdrawEnrollment_def Enrollments_def and_then_def yield_def raise_def list_ex_iff
          split: if_splits sum.splits)
  qed
qed

end

end
