(* ===== verification/Tenant_Operations.thy ===== *)
theory Tenant_Operations
  imports Application_Protocol Controller_Laws Job_Requests
begin

text \<open>
  What an account without the administrator's role does through the operations of the control plane:
  everything another organisation has in the repository stays as it is, and every result is about the
  organisation of the account. One rule composes the operations (\<open>tenant\<close>), one lemma per operation
  applies it.
\<close>

section \<open>What other organisations have in the repository\<close>

text \<open>Their jobs, and their servers up to the state of the GPUs, which is what the platform computes.\<close>

definition foreign_job :: "string \<Rightarrow> Store \<Rightarrow> string \<Rightarrow> Job option" where
  "foreign_job own s i = (case map_of (st_jobs s) i of None \<Rightarrow> None
     | Some j \<Rightarrow> if job_OrganizationID j = own then None else Some j)"

definition foreign_server :: "string \<Rightarrow> Store \<Rightarrow> string \<Rightarrow> Server option" where
  "foreign_server own s i = (case map_of (st_servers s) i of None \<Rightarrow> None
     | Some v \<Rightarrow> if srv_OrganizationID v = own then None else Some (v\<lparr>srv_GPUs := []\<rparr>))"

definition foreign :: "string \<Rightarrow> Store \<Rightarrow> (string \<Rightarrow> Job option) \<times> (string \<Rightarrow> Server option)" where
  "foreign own s = (foreign_job own s, foreign_server own s)"

lemma foreign_eqI:
  assumes "\<And>i. map_of (st_jobs s') i \<noteq> map_of (st_jobs s) i \<Longrightarrow>
      (case map_of (st_jobs s) i of None \<Rightarrow> True | Some j \<Rightarrow> job_OrganizationID j = own) \<and>
      (case map_of (st_jobs s') i of None \<Rightarrow> True | Some j \<Rightarrow> job_OrganizationID j = own)"
    and "\<And>i. foreign_server own s' i = foreign_server own s i"
  shows "foreign own s' = foreign own s"
proof -
  have "foreign_job own s' i = foreign_job own s i" for i
    using assms(1) [of i] by (cases "map_of (st_jobs s') i = map_of (st_jobs s) i")
      (auto simp: foreign_job_def split: option.splits)
  with assms(2) show ?thesis by (simp add: foreign_def fun_eq_iff)
qed

lemma foreign_server_cong: "st_servers s' = st_servers s \<Longrightarrow> foreign_server own s' = foreign_server own s"
  by (simp add: foreign_server_def fun_eq_iff)

text \<open>Releasing a job recomputes GPU states and nothing else of a server.\<close>

lemma foreign_server_finish:
  assumes s: "inv s" and j0: "map_of (st_jobs s) (job_ID j) = Some j0" and T: "Terminal (job_Status j)"
  shows "foreign_server own (finish_job k j t s) = foreign_server own s"
proof (cases "job_Assignment j")
  case None
  then show ?thesis by (simp add: finish_job_def releaseLocked_def foreign_server_def fun_eq_iff)
next
  case (Some a)
  show ?thesis
  proof (cases "map_of (st_servers s) (asg_ServerID a)")
    case None
    with Some show ?thesis by (simp add: finish_job_def releaseLocked_def Let_def foreign_server_def fun_eq_iff)
  next
    case v: (Some v)
    have "srv_ID v = asg_ServerID a" using inv_lookup(1) [OF s v] by (simp add: wf_server_def)
    with Some v show ?thesis
      by (auto simp: finish_job_def releaseLocked_def Let_def foreign_server_def fun_eq_iff split: option.splits)
  qed
qed

lemma foreign_stop:
  assumes s: "inv s" and j: "map_of (st_jobs s) k = Some j" "job_OrganizationID j = own"
  shows "foreign own (snd (RequestStop k c t s)) = foreign own s"
proof (rule foreign_eqI)
  fix i assume changed: "map_of (st_jobs (snd (RequestStop k c t s))) i \<noteq> map_of (st_jobs s) i"
  then have i: "i = k" using RequestStop_other [OF s] by metis
  have "history (st_jobs s) (st_jobs (snd (RequestStop k c t s)))" using request_stop.grows [OF s] by simp
  then obtain j' where "map_of (st_jobs (snd (RequestStop k c t s))) k = Some j'" "job_OrganizationID j' = job_OrganizationID j"
    using j(1) unfolding history_iff by (fastforce simp: evolves_def same_request_def)
  with i j show "(case map_of (st_jobs s) i of None \<Rightarrow> True | Some j \<Rightarrow> job_OrganizationID j = own) \<and>
      (case map_of (st_jobs (snd (RequestStop k c t s))) i of None \<Rightarrow> True | Some j \<Rightarrow> job_OrganizationID j = own)"
    by simp
next
  fix i
  show "foreign_server own (snd (RequestStop k c t s)) i = foreign_server own s i"
    using s
  proof (cases rule: RequestStop_cases [where jid = k and c = c and t = t])
    case (cancelled j0 r c')
    let ?j = "transitionLocked (j0\<lparr>job_TerminationReason := stop_reason j0 t\<rparr>) JobCancelled r t"
    have id: "job_ID ?j = k" using inv_job_ID [OF s cancelled(1)] by simp
    have T: "Terminal (job_Status ?j)" using cancelled(2) by (simp del: Terminal.simps) simp
    have at: "map_of (st_jobs s) (job_ID ?j) = Some j0" "map_of (st_jobs (put_command c' s)) (job_ID ?j) = Some j0"
      using id cancelled(1) by simp_all
    have "foreign_server own (put_command c' s) = foreign_server own s" by (rule foreign_server_cong) simp
    with foreign_server_finish [OF s at(1) T] foreign_server_finish [OF inv_put_command [OF s, of c'] at(2) T] cancelled(3)
    show ?thesis by metis
  qed (simp_all add: foreign_server_def)
qed

section \<open>Operations of the control plane\<close>

text \<open>Whatever \<open>m\<close> does, it leaves the other organisations alone, and its results satisfy \<open>Q\<close>.\<close>

definition tenant :: "duration \<Rightarrow> string \<Rightarrow> 'a app \<Rightarrow> ('a \<Rightarrow> bool) \<Rightarrow> bool" where
  "tenant off own m Q \<longleftrightarrow> (\<forall>F. keeps off (\<lambda>s. foreign own s = F) m Q)"

lemma tenantI:
  assumes "advances off m" and "\<And>d r d'. reachable off d \<Longrightarrow> m d = (r, d') \<Longrightarrow>
    foreign own (dur_core d') = foreign own (dur_core d) \<and> (\<forall>v. r = Inr v \<longrightarrow> Q v)"
  shows "tenant off own m Q"
  unfolding tenant_def by (intro allI keepsI [OF assms(1)]) (use assms(2) in fastforce)

lemma tenantD:
  assumes "tenant off own m Q" and "reachable off d" and "m d = (r, d')"
  shows "foreign own (dur_core d') = foreign own (dur_core d)" "reachable off d'" "r = Inr v \<Longrightarrow> Q v"
  using keepsD [OF assms(1) [unfolded tenant_def, rule_format] assms(2) refl assms(3)] by auto

text \<open>Reads.\<close>

named_theorems reads_only \<open>operations that only read the repository\<close>

lemma reads_base [reads_only]:
  "snd (reply v d) = d" "snd (fail e d) = d" "snd (lift r d) = d" "snd (peek fn d) = d"
  by simp_all

lemma reads_andThen [reads_only]:
  assumes "\<And>d. snd (m d) = d" and "\<And>v d. snd (f v d) = d"
  shows "snd (andThen m f d) = d"
  using assms by (auto simp: andThen_def split: prod.splits sum.splits) (metis snd_conv)+

lemma reads_if [reads_only]: "snd (m d) = d \<Longrightarrow> snd (n d) = d \<Longrightarrow> snd ((if b then m else n) d) = d"
  by simp

lemma reads_option [reads_only]: "snd (m d) = d \<Longrightarrow> (\<And>v. snd (f v d) = d) \<Longrightarrow> snd ((case x of None \<Rightarrow> m | Some v \<Rightarrow> f v) d) = d"
  by (cases x) simp_all

lemma tenant_read:
  assumes "\<And>d. snd (m d) = d" and "\<And>d v. m d = (Inr v, d) \<Longrightarrow> Q v"
  shows "tenant off own m Q"
proof (rule tenantI)
  show "advances off m" using assms(1) by (rule advances_pure_op)
  fix d :: Durable and r d' assume "m d = (r, d')"
  moreover from this have "d' = d" using assms(1) by (metis snd_conv)
  ultimately show "foreign own (dur_core d') = foreign own (dur_core d) \<and> (\<forall>v. r = Inr v \<longrightarrow> Q v)"
    using assms(2) by auto
qed

lemma operations_read [reads_only]:
  "snd (GetVisibleJob ctx i d) = d"
  "snd (ListVisibleServers c ctx orgs now d) = d"
  "snd (GetVisibleServer c ctx orgs now i d) = d"
  "snd (ListVisibleJobs ctx d) = d"
  unfolding GetVisibleJob_def ListVisibleServers_def GetVisibleServer_def ListVisibleJobs_def
  by (intro reads_only)+

lemma resume_from_reads [reads_only]: "snd (resume_from c ctx i job d) = d"
  unfolding resume_from_def by (intro reads_only)

lemma prepareJob_reads [reads_only]: "snd (prepareJob image_ok c ctx r now d) = d"
  unfolding prepareJob_def Let_def by (intro reads_only)

lemma matchJobNow_reads [reads_only]: "snd (matchJobNow c ctx job orgs now d) = d"
  unfolding matchJobNow_def by (intro reads_only)

lemma more_reads [reads_only]:
  "snd (Queue c ctx now d) = d"
  "snd (Summary c ctx orgs now d) = d"
  "snd (ListGPUs c ctx orgs now d) = d"
  "snd (ListContainers c ctx orgs now origin d) = d"
  "snd (PreviewJob image_ok c ctx r orgs now d) = d"
  "snd (ArtifactDownload c ctx i d) = d"
  unfolding Queue_def Summary_def ListGPUs_def ListContainers_def PreviewJob_def ArtifactDownload_def Let_def
  by (intro reads_only)+

text \<open>The organisation of an account without the administrator's role is all it can access.\<close>

abbreviation home :: "Principal \<Rightarrow> string" where
  "home p \<equiv> usr_OrganizationID (prn_User p)"

definition member :: "Principal \<Rightarrow> bool" where
  "member p \<longleftrightarrow> usr_Role (prn_User p) \<noteq> RoleAdmin"

lemma member_access: "member p \<Longrightarrow> CanAccess (Some p) g \<Longrightarrow> g = home p"
  by (simp add: member_def CanAccess_def SameOrganization_def)

lemma present_organization [simp]: "srv_OrganizationID (presentServer c now v) = srv_OrganizationID v"
    "srv_OrganizationID (mark_inactive c enabled v) = srv_OrganizationID v"
  by (simp_all add: presentServer_def mark_inactive_def Let_def)

lemma visible_servers_own:
  assumes "member p" and "ListVisibleServers c (Some p) orgs now d = (Inr vs, d')" and "v \<in> set vs"
  shows "srv_OrganizationID v = home p"
  using assms by (auto simp: ListVisibleServers_def andThen_Inr member_access)

lemma visible_jobs_own:
  assumes "member p" and "ListVisibleJobs (Some p) d = (Inr js, d')" and "j \<in> set js"
  shows "job_OrganizationID j = home p"
  using assms by (auto simp: ListVisibleJobs_def andThen_Inr scopedJobs_def member_access)


lemma tenant_servers:
  assumes "member p"
  shows "tenant off (home p) (ListVisibleServers c (Some p) orgs now) (\<lambda>vs. \<forall>v \<in> set vs. srv_OrganizationID v = home p)"
    "tenant off (home p) (GetVisibleServer c (Some p) orgs now i) (\<lambda>v. srv_OrganizationID v = home p)"
    "tenant off (home p) (ListGPUs c (Some p) orgs now) (\<lambda>rs. \<forall>(v, g) \<in> set rs. srv_OrganizationID v = home p)"
    "tenant off (home p) (ListContainers c (Some p) orgs now origin) (\<lambda>rs. \<forall>(v, k) \<in> set rs. srv_OrganizationID v = home p)"
    "tenant off (home p) (Summary c (Some p) orgs now) (\<lambda>_. True)"
  using visible_servers_own [OF assms]
  by (intro tenant_read reads_only,
      auto simp: GetVisibleServer_def ListGPUs_def ListContainers_def andThen_Inr member_access [OF assms] split: if_splits)+

lemma tenant_jobs:
  assumes "member p"
  shows "tenant off (home p) (ListVisibleJobs (Some p)) (\<lambda>js. \<forall>j \<in> set js. job_OrganizationID j = home p)"
    "tenant off (home p) (GetVisibleJob (Some p) i) (\<lambda>j. job_OrganizationID j = home p)"
    "tenant off (home p) (PreviewJob image_ok c (Some p) r orgs now) (\<lambda>_. True)"
    "tenant off (home p) (ArtifactDownload c (Some p) i) (\<lambda>_. True)"
  using visible_jobs_own [OF assms]
  by (intro tenant_read reads_only, auto simp: GetVisibleJob_Inr member_access [OF assms])+

text \<open>The policy engine of the program reorders the queue it is given and records its decisions.\<close>

definition keeps_owners :: "Evaluator \<Rightarrow> bool" where
  "keeps_owners e \<longleftrightarrow> (\<forall>ctx js now js' g. evl_Order e ctx js now = Inr js' \<longrightarrow>
     (\<forall>j \<in> set js. job_OrganizationID j = g) \<longrightarrow> (\<forall>j \<in> set js'. job_OrganizationID j = g))"

lemma engine_keeps_owners: "keeps_owners (New_Engine facts)"
proof -
  have own: "job_OrganizationID j' = g"
    if "list_all2 (\<lambda>j j'. \<exists>f. facts ctx j = Inr f \<and> j' = j\<lparr>job_Policy := decide f j now\<rparr>) js es"
      and "\<forall>j \<in> set js. job_OrganizationID j = g" and "j' \<in> set es" for ctx now js es g j'
    using that by (induction rule: list_all2_induct) auto
  show ?thesis
    unfolding keeps_owners_def
  proof (intro allI impI ballI)
    fix ctx js now js' g j assume o: "evl_Order (New_Engine facts) ctx js now = Inr js'" "\<forall>j \<in> set js. job_OrganizationID j = g" "j \<in> set js'"
    from o(1) have "Order facts ctx js now = Inr js'" by (simp add: New_Engine_def)
    from Order_perm [OF this] obtain es where "mset js' = mset es"
      "list_all2 (\<lambda>j j'. \<exists>f. facts ctx j = Inr f \<and> j' = j\<lparr>job_Policy := decide f j now\<rparr>) js es" by blast
    with own [of ctx now js es g j] o show "job_OrganizationID j = g" by (metis mset_eq_setD)
  qed
qed

lemma tenant_queue:
  assumes "member p"
  shows "tenant off (home p) (Queue c (Some p) now)
    (\<lambda>js. keeps_owners (cp_policy c) \<longrightarrow> (\<forall>j \<in> set js. job_OrganizationID j = home p))"
proof (intro tenant_read reads_only impI)
  fix d js assume "Queue c (Some p) now d = (Inr js, d)" and e: "keeps_owners (cp_policy c)"
  then obtain jobs where "cp_order c (Some p) (scopedJobs (Some p) jobs) now = Inr js" by (auto simp: Queue_def andThen_Inr)
  moreover have "\<forall>j \<in> set (scopedJobs (Some p) jobs). job_OrganizationID j = home p"
    using member_access [OF assms] by (auto simp: scopedJobs_def)
  ultimately show "\<forall>j \<in> set js. job_OrganizationID j = home p" using e by (auto simp: keeps_owners_def)
qed

section \<open>Operations that change the repository\<close>

lemma RequestStop_owner:
  assumes "RequestStop i c t s = (Inr j, s')" and "map_of (st_jobs s) i = Some j0" and "inv s"
  shows "job_OrganizationID j = job_OrganizationID j0"
  using assms(1,2) inv_job_ID [OF assms(3,2)]
  by (auto simp: RequestStop_def Let_def finish_job_alt released_def split: if_splits option.splits simp del: Terminal.simps)

lemma transact_effect:
  assumes "transact save fn d = (r, d')" and "st_offlineAfter (snd (fn (dur_core d))) = st_offlineAfter (dur_core d)"
  shows "dur_core d' = dur_core d \<and> isl r \<or> fn (dur_core d) = (r, dur_core d') \<and> \<not> isl r"
  using assms(2) by (cases rule: transact_cases [where fn = fn and d = d and save = save]) (use assms(1) in auto)

lemma tenant_stop:
  assumes "member p"
  shows "tenant off (home p) (StopJob save (Some p) i random now) (\<lambda>j. job_OrganizationID j = home p)"
proof (rule tenantI [OF StopJob_advances])
  fix d r d' assume d: "reachable off d" and run: "StopJob save (Some p) i random now d = (r, d')"
  note s = reachable_inv [OF d]
  consider e where "r = Inl e" "d' = d"
    | j0 cid where "map_of (st_jobs (dur_core d)) i = Some j0" "job_OrganizationID j0 = home p"
      "transact save (RequestStop i (stop_request i cid now) now) d = (r, d')"
    using run member_access [OF assms]
    by (auto simp: StopJob_def GetVisibleJob_def GetJob_def andThen_def newID_def split: option.splits if_splits sum.splits)
  then show "foreign (home p) (dur_core d') = foreign (home p) (dur_core d) \<and> (\<forall>v. r = Inr v \<longrightarrow> job_OrganizationID v = home p)"
  proof cases
    case (2 j0 cid)
    from transact_effect [OF 2(3)] request_stop.timeout_kept [OF s]
    consider "dur_core d' = dur_core d" "isl r" | "RequestStop i (stop_request i cid now) now (dur_core d) = (r, dur_core d')"
      by blast
    then show ?thesis
      using foreign_stop [OF s 2(1,2)] RequestStop_owner [OF _ 2(1) s] 2(2) by cases (auto, metis snd_conv)
  qed simp
qed

lemma drained_foreign:
  assumes "SetServerDrained i b s = (Inr v, s')" and "map_of (st_servers s) i = Some v0" and "srv_OrganizationID v0 = own"
  shows "foreign own s' = foreign own s \<and> srv_OrganizationID v = own"
proof -
  have s': "s' = snd (SetServerDrained i b s)" by (simp add: assms(1))
  have "foreign own s' = foreign own s"
    unfolding s' using assms(2,3) by (intro foreign_eqI) (simp_all add: SetServerDrained_def Let_def foreign_server_def)
  moreover have "srv_OrganizationID v = own" using assms by (auto simp: SetServerDrained_def Let_def)
  ultimately show ?thesis by simp
qed

lemma tenant_drain:
  assumes "member p"
  shows "tenant off (home p) (DrainServer save c (Some p) orgs now i b) (\<lambda>v. srv_OrganizationID v = home p)"
proof (rule tenantI [OF DrainServer_advances])
  fix d r d' assume d: "reachable off d" and run: "DrainServer save c (Some p) orgs now i b d = (r, d')"
  obtain r1 where visible: "GetVisibleServer c (Some p) orgs now i d = (r1, d)"
    using operations_read(3) by (metis prod.collapse)
  show "foreign (home p) (dur_core d') = foreign (home p) (dur_core d) \<and> (\<forall>v. r = Inr v \<longrightarrow> srv_OrganizationID v = home p)"
  proof (cases r1)
    case (Inl e)
    with run visible show ?thesis by (auto simp: DrainServer_def andThen_def)
  next
    case (Inr v)
    with visible obtain v0 where v0: "map_of (st_servers (dur_core d)) i = Some v0" "srv_OrganizationID v0 = home p"
      by (auto simp: GetVisibleServer_def GetServer_def andThen_Inr member_access [OF assms] split: if_splits option.splits)
    obtain r2 d2 where call: "transact save (SetServerDrained i b) d = (r2, d2)" by fastforce
    with run visible Inr have res: "d' = d2" "\<And>v. r = Inr v \<Longrightarrow> \<exists>v2. r2 = Inr v2 \<and> v = presentServer c now v2"
      by (auto simp: DrainServer_def andThen_def split: sum.splits)
    from transact_effect [OF call] drain.timeout_kept
    consider e where "dur_core d2 = dur_core d" "r2 = Inl e"
      | v2 where "SetServerDrained i b (dur_core d) = (Inr v2, dur_core d2)" "r2 = Inr v2"
      by (cases r2) auto
    then show ?thesis
    proof cases
      case 1
      with res show ?thesis by auto
    next
      case 2
      from drained_foreign [OF 2(1) v0] 2(2) res show ?thesis by auto
    qed
  qed
qed

text \<open>A handler that reads and then makes one repository call changes nothing when it fails.\<close>

definition fails_clean :: "'a app \<Rightarrow> bool" where
  "fails_clean m \<longleftrightarrow> (\<forall>d e d'. m d = (Inl e, d') \<longrightarrow> dur_core d' = dur_core d)"

lemma fails_clean_read: "(\<And>d. snd (m d) = d) \<Longrightarrow> fails_clean m"
  unfolding fails_clean_def by (metis snd_conv)

lemma fails_clean_then:
  assumes "\<And>d. snd (m d) = d" and "\<And>v. fails_clean (f v)"
  shows "fails_clean (andThen m f)"
  unfolding fails_clean_def
proof (intro allI impI)
  fix d e d' assume run: "andThen m f d = (Inl e, d')"
  obtain r where m: "m d = (r, d)" using assms(1) by (metis prod.collapse)
  with run assms(2) show "dur_core d' = dur_core d" by (cases r) (auto simp: andThen_def fails_clean_def)
qed

lemma fails_clean_call:
  assumes "\<And>s. st_offlineAfter (snd (fn s)) = st_offlineAfter s"
  shows "fails_clean (andThen (transact save fn) (\<lambda>v. reply (g v)))"
  unfolding fails_clean_def
proof (intro allI impI)
  fix d e d' assume run: "andThen (transact save fn) (\<lambda>v. reply (g v)) d = (Inl e, d')"
  obtain r d1 where call: "transact save fn d = (r, d1)" by fastforce
  with run have "r = Inl e" "d' = d1" by (auto simp: andThen_def split: sum.splits)
  with transact_effect [OF call assms] show "dur_core d' = dur_core d" by simp
qed

lemma CreateJobFor_fails_clean: "fails_clean (CreateJobFor save image_ok c ctx r orgs random token now)"
  unfolding CreateJobFor_def Let_def
  by (intro fails_clean_then fails_clean_call reads_only) (simp add: CreateJob_def split: option.split)

lemma tenant_create:
  "tenant off (principal_org ctx) (CreateJobFor save image_ok c ctx r orgs random token now)
     (\<lambda>j. job_OrganizationID j = principal_org ctx)"
proof (rule tenantI [OF CreateJobFor_advances])
  fix d res d' assume d: "reachable off d" and run: "CreateJobFor save image_ok c ctx r orgs random token now d = (res, d')"
  show "foreign (principal_org ctx) (dur_core d') = foreign (principal_org ctx) (dur_core d) \<and>
      (\<forall>v. res = Inr v \<longrightarrow> job_OrganizationID v = principal_org ctx)"
  proof (cases res)
    case (Inl e)
    with run CreateJobFor_fails_clean show ?thesis by (fastforce simp: fails_clean_def)
  next
    case (Inr job)
    from run [unfolded Inr] obtain j0 i t k reason where p: "prepareJob image_ok c ctx r now d = (Inr j0, d)"
      and job: "job = j0\<lparr>job_ID := i, job_Training := t, job_TrainingToken := k, job_StatusReason := reason,
       job_Events := [\<lparr>ev_JobID = i, ev_Status = JobQueued, ev_Reason = reason, ev_At = job_CreatedAt j0\<rparr>]\<rparr>"
      and new: "map_of (st_jobs (dur_core d)) i = None" "dur_core d' = put_job job (dur_core d)"
      by (rule CreateJobFor_Inr)
    have "job_OrganizationID j0 = principal_org ctx" by (rule prepareJob_Inr [OF p]) (simp add: draft_job_def)
    with job have own: "job_OrganizationID job = principal_org ctx" "job_ID job = i" by simp_all
    have "foreign (principal_org ctx) (dur_core d') = foreign (principal_org ctx) (dur_core d)"
      by (rule foreign_eqI) (use new own in \<open>auto simp: foreign_server_def split: if_splits\<close>)
    with own Inr show ?thesis by simp
  qed
qed

lemma tenant_continue:
  "tenant off (principal_org ctx) (ContinueTraining save image_ok c ctx i neededAt ttl orgs random token now)
     (\<lambda>j. job_OrganizationID j = principal_org ctx)"
  unfolding tenant_def ContinueTraining_def
proof (intro allI keeps_andThen [where Q = "\<lambda>_. True"])
  fix F and source :: Job
  show "keeps off (\<lambda>s. foreign (principal_org ctx) s = F) (GetVisibleJob ctx i) (\<lambda>_. True)"
    unfolding GetVisibleJob_def by (intro keep_rules)
  have "keeps off (\<lambda>s. foreign (principal_org ctx) s = F) (fail ErrConflict) (\<lambda>j :: Job. job_OrganizationID j = principal_org ctx)"
    by (simp add: keeps_def)
  then show "keeps off (\<lambda>s. foreign (principal_org ctx) s = F)
      (if \<not> Resumable source \<or> cp_objects c = None then fail ErrConflict
       else CreateJobFor save image_ok c ctx (continued_request source neededAt ttl) orgs random token now)
      (\<lambda>j. job_OrganizationID j = principal_org ctx)"
    using tenant_create [unfolded tenant_def, rule_format] by (rule keeps_if)
qed (use ContinueTraining_advances [unfolded ContinueTraining_def] in simp)

end
