(* ===== verification/Http_Laws.thy ===== *)
theory Http_Laws
  imports Http_Routes Identity_Laws Tenant_Operations
begin

text \<open>
  What a signed-in account can reach through the HTTP API: the requests of an account that is not an
  administrator change nothing of another organisation and show nothing of it. The proof follows the
  layers: operations of the control plane (\<open>Tenant_Operations\<close>), operations of the identity service
  (\<open>Identity_Laws\<close>), handlers, mux and middleware, each with one rule for composition.
\<close>

section \<open>Handlers\<close>

definition pass :: "('a \<Rightarrow> bool) \<Rightarrow> 'e + 'a \<Rightarrow> bool" where
  "pass Q r \<longleftrightarrow> (\<forall>v. r = Inr v \<longrightarrow> Q v)"

definition shown :: "(ApiData \<Rightarrow> bool) \<Rightarrow> HttpResponse \<Rightarrow> bool" where
  "shown R r \<longleftrightarrow> (case rsp_Body r of DataResponse v \<Rightarrow> R v | _ \<Rightarrow> True)"

lemma shown_simps [simp]:
  "shown R (with_header h v r) = shown R r" "shown R (writeError st c m)" "shown R (respond (Inl e) st)"
  "shown R (respond (Inr a) st) = R a" "shown R (plain st (DataResponse a)) = R a" "shown R (plain st (TextResponse t))"
  by (auto simp: shown_def with_header_def writeError_def respond_def plain_def Let_def split: http_error.split go_error.split prod.split)

context tenant_store
begin

text \<open>A handler that leaves every organisation but \<open>own\<close> alone, in both stores.\<close>

definition confined :: "duration \<Rightarrow> string \<Rightarrow> ('w Site \<Rightarrow> 'r \<times> 'w Site) \<Rightarrow> ('r \<Rightarrow> bool) \<Rightarrow> bool" where
  "confined off own m Q \<longleftrightarrow> (\<forall>s r s'. reachable off (site_store s) \<longrightarrow> good (site_world s) \<longrightarrow> m s = (r, s') \<longrightarrow>
     Q r \<and> reachable off (site_store s') \<and> good (site_world s') \<and>
     foreign own (dur_core (site_store s')) = foreign own (dur_core (site_store s)) \<and>
     (\<forall>g. g \<noteq> own \<longrightarrow> part (site_world s') g = part (site_world s) g))"

lemma confinedI:
  assumes "\<And>s r s'. reachable off (site_store s) \<Longrightarrow> good (site_world s) \<Longrightarrow> m s = (r, s') \<Longrightarrow>
     Q r \<and> reachable off (site_store s') \<and> good (site_world s') \<and>
     foreign own (dur_core (site_store s')) = foreign own (dur_core (site_store s)) \<and>
     (\<forall>g. g \<noteq> own \<longrightarrow> part (site_world s') g = part (site_world s) g)"
  shows "confined off own m Q"
  unfolding confined_def using assms by blast

lemma confinedD:
  assumes "confined off own m Q" and "reachable off (site_store s)" and "good (site_world s)" and "m s = (r, s')"
  shows "Q r" "reachable off (site_store s')" "good (site_world s')"
    "foreign own (dur_core (site_store s')) = foreign own (dur_core (site_store s))"
    "g \<noteq> own \<Longrightarrow> part (site_world s') g = part (site_world s) g"
  using assms unfolding confined_def by blast+

lemma confined_store:
  assumes "tenant off own m Q"
  shows "confined off own (in_store m) (pass Q)"
proof (rule confinedI)
  fix s :: "'w Site" and r s'
  assume s: "reachable off (site_store s)" "good (site_world s)" "in_store m s = (r, s')"
  obtain r1 d where m: "m (site_store s) = (r1, d)" by fastforce
  with s(3) have r: "r = map_sum DomainError id r1" "s' = s\<lparr>site_store := d\<rparr>" by (simp_all add: in_store_def)
  have "pass Q r" using tenantD(3) [OF assms s(1) m] by (cases r1) (auto simp: pass_def r)
  with tenantD(1,2) [OF assms s(1) m] s(2) r(2)
  show "pass Q r \<and> reachable off (site_store s') \<and> good (site_world s') \<and>
     foreign own (dur_core (site_store s')) = foreign own (dur_core (site_store s)) \<and>
     (\<forall>g. g \<noteq> own \<longrightarrow> part (site_world s') g = part (site_world s) g)"
    by simp
qed

lemma confined_world:
  assumes "spares own m" and "\<And>w v w'. good w \<Longrightarrow> m w = (Inr v, w') \<Longrightarrow> Q v"
  shows "confined off own (in_world m) (pass Q)"
proof (rule confinedI)
  fix s :: "'w Site" and r s'
  assume s: "reachable off (site_store s)" "good (site_world s)" "in_world m s = (r, s')"
  obtain r1 w where m: "m (site_world s) = (r1, w)" by fastforce
  with s(3) have r: "r = map_sum DomainError id r1" "s' = s\<lparr>site_world := w\<rparr>" by (simp_all add: in_world_def)
  have "pass Q r" using assms(2) [OF s(2)] m by (cases r1) (auto simp: pass_def r)
  with assms(1) s(1,2) m r(2)
  show "pass Q r \<and> reachable off (site_store s') \<and> good (site_world s') \<and>
     foreign own (dur_core (site_store s')) = foreign own (dur_core (site_store s)) \<and>
     (\<forall>g. g \<noteq> own \<longrightarrow> part (site_world s') g = part (site_world s) g)"
    by (simp add: spares_def)
qed

lemma tenant_confined_then:
  assumes "confined off own m (pass Q)" and "\<And>v. Q v \<Longrightarrow> confined off own (f v) (pass R)"
  shows "confined off own (and_then m f) (pass R)"
proof (rule confinedI)
  fix s :: "'w Site" and r s'
  assume s: "reachable off (site_store s)" "good (site_world s)" "and_then m f s = (r, s')"
  obtain r1 s1 where m: "m s = (r1, s1)" by fastforce
  note one = confinedD [OF assms(1) s(1,2) m]
  show "pass R r \<and> reachable off (site_store s') \<and> good (site_world s') \<and>
     foreign own (dur_core (site_store s')) = foreign own (dur_core (site_store s)) \<and>
     (\<forall>g. g \<noteq> own \<longrightarrow> part (site_world s') g = part (site_world s) g)"
  proof (cases r1)
    case (Inl e)
    with m s(3) one show ?thesis by (auto simp: and_then_def pass_def)
  next
    case (Inr v)
    with one(1) have "Q v" by (simp add: pass_def)
    moreover from Inr m s(3) have "f v s1 = (r, s')" by (simp add: and_then_def)
    ultimately show ?thesis using confinedD [OF assms(2) one(2,3)] one(4,5) by metis
  qed
qed

lemma confined_parsed: "confined off own (parsed r) (pass (\<lambda>_. True))"
  by (simp add: confined_def parsed_def pass_def)

lemma confined_orgs:
  assumes "web_identity web = Some md" and "\<And>orgs. tenant off own (f orgs) Q"
  shows "confined off own (with_orgs web f) (pass Q)"
proof (rule confinedI)
  fix s :: "'w Site" and r s'
  assume s: "reachable off (site_store s)" "good (site_world s)" "with_orgs web f s = (r, s')"
  obtain orgs w where l: "mdr_ListOrganizations md (site_world s) = (orgs, w)" by fastforce
  note w = list_organizations [OF s(2) l]
  from s(3) l assms(1) have "in_store (f orgs) (s\<lparr>site_world := w\<rparr>) = (r, s')" by (simp add: with_orgs_def)
  with confinedD [OF confined_store [OF assms(2)], of "s\<lparr>site_world := w\<rparr>" orgs r s'] s(1) w
  show "pass Q r \<and> reachable off (site_store s') \<and> good (site_world s') \<and>
     foreign own (dur_core (site_store s')) = foreign own (dur_core (site_store s)) \<and>
     (\<forall>g. g \<noteq> own \<longrightarrow> part (site_world s') g = part (site_world s) g)"
    by simp
qed

lemma confined_answer:
  assumes "confined off own m (pass Q)" and "\<And>v. Q v \<Longrightarrow> R (view v)"
  shows "confined off own (answer_with view st m) (shown R)"
proof (rule confinedI)
  fix s :: "'w Site" and r s'
  assume s: "reachable off (site_store s)" "good (site_world s)" "answer_with view st m s = (r, s')"
  obtain r1 where m: "m s = (r1, s')" and r: "r = respond (map_sum id view r1) st"
    using s(3) by (auto simp: answer_with_def split: prod.splits)
  note one = confinedD [OF assms(1) s(1,2) m]
  from one(1) assms(2) have "shown R r" by (cases r1) (simp_all add: r pass_def)
  with one show "shown R r \<and> reachable off (site_store s') \<and> good (site_world s') \<and>
     foreign own (dur_core (site_store s')) = foreign own (dur_core (site_store s)) \<and>
     (\<forall>g. g \<noteq> own \<longrightarrow> part (site_world s') g = part (site_world s) g)"
    by simp
qed

lemma confined_now: "shown R r \<Longrightarrow> confined off own (answer_now r) (shown R)"
  by (simp add: confined_def answer_now_def)

lemma confined_no_store:
  assumes "confined off own m (shown R)"
  shows "confined off own (\<lambda>s. case m s of (r, s') \<Rightarrow> (no_store r, s')) (shown R)"
proof (rule confinedI)
  fix s :: "'w Site" and r s'
  assume s: "reachable off (site_store s)" "good (site_world s)" "(case m s of (r, s') \<Rightarrow> (no_store r, s')) = (r, s')"
  then obtain r1 where m: "m s = (r1, s')" and r: "r = no_store r1" by (cases "m s") auto
  note one = confinedD [OF assms s(1,2) m]
  from one(1) have "shown R r" by (simp add: r)
  with one show "shown R r \<and> reachable off (site_store s') \<and> good (site_world s') \<and>
     foreign own (dur_core (site_store s')) = foreign own (dur_core (site_store s)) \<and>
     (\<forall>g. g \<noteq> own \<longrightarrow> part (site_world s') g = part (site_world s) g)"
    by blast
qed

end

text \<open>The organisation a response is about, where it names one.\<close>

fun own_data :: "string \<Rightarrow> ApiData \<Rightarrow> bool" where
  "own_data g (ServerData v) = (srv_OrganizationID v = g)"
| "own_data g (ServersData vs) = list_all (\<lambda>v. srv_OrganizationID v = g) vs"
| "own_data g (GPUsData rs) = list_all (\<lambda>(v, u). srv_OrganizationID v = g) rs"
| "own_data g (ContainersData rs) = list_all (\<lambda>(v, k). srv_OrganizationID v = g) rs"
| "own_data g (JobData j) = (jv_OrganizationID j = g)"
| "own_data g (JobsData js) = list_all (\<lambda>j. jv_OrganizationID j = g) js"
| "own_data g (PrincipalData p) = (home p = g)"
| "own_data g (OrganizationsData os) = list_all (\<lambda>r. org_ID r = g) os"
| "own_data g (OrganizationData r) = (org_ID r = g)"
| "own_data g (UsersData us) = list_all (\<lambda>u. usr_OrganizationID u = g) us"
| "own_data g (UserData u) = (usr_OrganizationID u = g)"
| "own_data g (EnrolledData x) = (enr_OrganizationID (enx_Enrollment x) = g)"
| "own_data g (EnrollmentsData es) = list_all (\<lambda>e. enr_OrganizationID e = g) es"
| "own_data g _ = True"

definition shows_own :: "'w Web \<Rightarrow> Principal \<Rightarrow> ApiData \<Rightarrow> bool" where
  "shows_own web p v \<longleftrightarrow> (keeps_owners (cp_policy (web_controlPlane web)) \<longrightarrow> own_data (home p) v)"

lemma shows_ownI: "own_data (home p) v \<Longrightarrow> shows_own web p v"
  by (simp add: shows_own_def)

lemma publicJob_organization [simp]: "jv_OrganizationID (publicJob j) = job_OrganizationID j"
  by (simp add: publicJob_def)

lemma tenant_containers:
  assumes "member p"
  shows "tenant off (home p)
    (case parse_origin origin of
       Some sel \<Rightarrow> ListContainers c (Some p) orgs now sel
     | None \<Rightarrow> andThen (ListContainers c (Some p) orgs now None) (\<lambda>_. reply []))
    (\<lambda>rs. \<forall>(v, k) \<in> set rs. srv_OrganizationID v = home p)"
proof (cases "parse_origin origin")
  case None
  have "tenant off (home p) (andThen (ListContainers c (Some p) orgs now None) (\<lambda>_. reply []))
      (\<lambda>rs. \<forall>(v, k) \<in> set rs. srv_OrganizationID v = home p)"
    by (intro tenant_read reads_only) (auto simp: andThen_Inr)
  with None show ?thesis by simp
qed (use tenant_servers(4) [OF assms] in simp)

context tenant_store
begin

lemmas confined_read = confined_answer [OF confined_orgs]
lemmas confined_local = confined_answer [OF confined_store]

lemma confined_decoded: "confined off own (decoded strict req) (pass (\<lambda>_. True))"
  by (simp add: decoded_def confined_parsed)

lemmas confined_body = confined_answer [OF tenant_confined_then, OF confined_decoded]

lemma handle_confined:
  assumes id: "web_identity web = Some md" and m: "member p"
    and ep: "credential_of ep = AnySession" "ep \<noteq> EpRunScheduler"
  shows "confined off (home p) (handle web k (Some p) req vs ep) (shown (shows_own web p))"
proof -
  note read = confined_read [OF id] and orgs = confined_orgs [OF id]
  have org: "principal_org (Some p) = home p" by (simp add: principal_org_def)
  note tenant_create' = tenant_create [where ctx = "Some p", unfolded org]
    and tenant_continue' = tenant_continue [where ctx = "Some p", unfolded org]
  show ?thesis
  proof (cases ep)
    case EpSummary
    show ?thesis unfolding EpSummary handle.simps by (rule read [OF tenant_servers(5) [OF m]]) (simp add: shows_ownI)
  next
    case EpListServers
    show ?thesis unfolding EpListServers handle.simps
      by (rule read [OF tenant_servers(1) [OF m]]) (simp add: shows_ownI list_all_iff)
  next
    case EpGetServer
    show ?thesis unfolding EpGetServer handle.simps
      by (rule read [OF tenant_servers(2) [OF m]]) (simp add: shows_ownI)
  next
    case EpDrain
    show ?thesis unfolding EpDrain handle.simps
      by (rule confined_body [OF orgs [OF tenant_drain [OF m]]]) (simp add: shows_ownI)
  next
    case EpListGPUs
    show ?thesis unfolding EpListGPUs handle.simps
      by (rule read [OF tenant_servers(3) [OF m]]) (simp add: shows_ownI list_all_iff)
  next
    case EpListContainers
    show ?thesis unfolding EpListContainers handle.simps containers_of_def
      by (rule read [OF tenant_containers [OF m]]) (simp add: shows_ownI list_all_iff)
  next
    case EpPreviewJob
    show ?thesis unfolding EpPreviewJob handle.simps
      by (rule confined_body [OF orgs [OF tenant_jobs(3) [OF m]]]) (simp add: shows_ownI)
  next
    case EpCreateJob
    show ?thesis unfolding EpCreateJob handle.simps
      by (rule confined_body [OF orgs [OF tenant_create']]) (simp add: shows_ownI)
  next
    case EpListJobs
    show ?thesis unfolding EpListJobs handle.simps
      by (rule confined_local [OF tenant_jobs(1) [OF m]]) (simp add: shows_ownI publicJobs_def list_all_iff)
  next
    case EpGetJob
    show ?thesis unfolding EpGetJob handle.simps
      by (rule confined_local [OF tenant_jobs(2) [OF m]]) (simp add: shows_ownI)
  next
    case EpStopJob
    show ?thesis unfolding EpStopJob handle.simps
      by (rule confined_local [OF tenant_stop [OF m]]) (simp add: shows_ownI)
  next
    case EpQueue
    show ?thesis unfolding EpQueue handle.simps
      by (rule confined_local [OF tenant_queue [OF m]]) (simp add: shows_own_def publicJobs_def list_all_iff)
  next
    case EpContinue
    show ?thesis unfolding EpContinue handle.simps
      by (rule confined_body; (split prod.split)?; (intro allI impI)?; (rule orgs [OF tenant_continue'])?) (simp add: shows_ownI)
  next
    case EpArtifact
    show ?thesis unfolding EpArtifact handle.simps
      by (rule confined_no_store, rule confined_local [OF tenant_jobs(4) [OF m]]) (simp add: shows_ownI)
  next
    case EpJobOptions
    show ?thesis unfolding EpJobOptions handle.simps by (rule confined_now) (simp add: shows_ownI)
  qed (use ep in \<open>simp_all add: confined_now\<close>)
qed

lemma admin_refused:
  assumes "member p"
  shows "StoreOrganization md (Some p) i input random w = (Inl ErrForbidden, w)"
    "Users md (Some p) w = (Inl ErrForbidden, w)"
    "StoreUser md kdf (Some p) j input' random salt w = (Inl ErrForbidden, w)"
  unfolding StoreOrganization_def Users_def StoreUser_def by (rule admin_only [OF assms [unfolded member_def]])+

lemma EnrollServer_own:
  assumes "member p" and "EnrollServer md sha256 (Some p) input r1 r2 token now w = (Inr x, w')"
  shows "enr_OrganizationID (enx_Enrollment x) = home p"
  using assms
  by (auto simp: EnrollServer_def enrolling_organization_def member_def and_then_Inr given_def yield_def raise_def Let_def
      split: if_splits)

lemma handle_identity_confined:
  assumes id: "web_identity web = Some md" and m: "member p"
    and ep: "credential_of ep = AnySession" "ep \<noteq> EpRunScheduler"
  shows "confined off (home p) (handle_identity md web k (Some p) req vs ep) (shown (shows_own web p))"
proof -
  note role = m [unfolded member_def] and plain_handler = handle_confined [OF id m]
  show ?thesis
  proof (cases ep)
    case EpMe
    show ?thesis unfolding EpMe handle_identity.simps by (rule confined_now) (simp add: shows_ownI)
  next
    case EpLogout
    show ?thesis unfolding EpLogout handle_identity.simps
      by (rule confined_answer [OF confined_world [OF Logout_spares, where Q = "\<lambda>_. True"]]) (simp_all add: shows_ownI)
  next
    case EpOrganizations
    have "confined off (home p) (in_world (Organizations md (Some p))) (pass (\<lambda>os. \<forall>r \<in> set os. org_ID r = home p))"
      by (rule confined_world [OF Organizations_spares])
        (auto simp: Organizations_def and_then_Inr yield_def member_access [OF m])
    then show ?thesis unfolding EpOrganizations handle_identity.simps
      by (rule confined_answer) (simp add: shows_ownI list_all_iff)
  next
    case EpSaveOrganization
    show ?thesis unfolding EpSaveOrganization handle_identity.simps
      by (rule confined_body, rule confined_world [OF administration_spares(1) [OF role], where Q = "\<lambda>_. False"])
        (simp_all add: admin_refused [OF m])
  next
    case EpUsers
    show ?thesis unfolding EpUsers handle_identity.simps
      by (rule confined_answer, rule confined_world [OF administration_spares(2) [OF role], where Q = "\<lambda>_. False"])
        (simp_all add: admin_refused [OF m])
  next
    case EpSaveUser
    show ?thesis unfolding EpSaveUser handle_identity.simps
      by (rule confined_body, rule confined_world [OF administration_spares(3) [OF role], where Q = "\<lambda>_. False"])
        (simp_all add: admin_refused [OF m])
  next
    case EpEnroll
    show ?thesis unfolding EpEnroll handle_identity.simps
      by (rule confined_body, rule confined_world [OF EnrollServer_spares [OF role]], erule EnrollServer_own [OF m])
        (simp add: shows_ownI)
  next
    case EpEnrollments
    have "confined off (home p) (in_world (Enrollments md (Some p))) (pass (\<lambda>es. \<forall>e \<in> set es. enr_OrganizationID e = home p))"
      by (rule confined_world [OF Enrollments_spares])
        (auto simp: Enrollments_def and_then_Inr yield_def member_access [OF m])
    then show ?thesis unfolding EpEnrollments handle_identity.simps
      by (rule confined_answer) (simp add: shows_ownI list_all_iff)
  next
    case EpRevoke
    show ?thesis unfolding EpRevoke handle_identity.simps
      by (rule confined_answer [OF confined_world [OF WithdrawEnrollment_spares [OF role], where Q = "\<lambda>_. True"]])
        (simp_all add: shows_ownI)
  qed (use ep plain_handler [of ep] in simp_all)
qed

section \<open>The whole chain\<close>

lemma mux_confined:
  assumes id: "web_identity web = Some md" and m: "member p"
    and path: "\<not> outside_session (req_Path req)" "req_Path req \<noteq> ''/api/v1/scheduler/run-once''"
  shows "confined off (home p) (mux web k (Some p) req) (shown (shows_own web p))"
proof (cases "find_route (routes @ identity_routes) (req_Method req) (req_Path req)")
  case (Routed ep vs)
  have "mux web k (Some p) req = handle_identity md web k (Some p) req vs ep"
    by (rule ext) (simp add: mux_def id Routed)
  with routed_agrees [OF Routed] path handle_identity_confined [OF id m, of ep] show ?thesis
    by (auto simp: paths_agree_def)
qed (simp_all add: confined_def mux_def id)

lemma shown_headers: "shown R (add_headers hs r) = shown R r"
proof -
  have "rsp_Body (foldr (\<lambda>(h, v). with_header h v) hs r) = rsp_Body r" by (induction hs) (auto simp: with_header_def)
  then show ?thesis by (simp add: shown_def add_headers_def)
qed

lemma serve_confined:
  assumes id: "web_identity web = Some md" and s: "reachable off (site_store s)" "good (site_world s)"
    and path: "\<not> outside_session (req_Path req)"
    and session: "fst (Authenticate md (web_sha256 web) (bearerToken (req_Authorization req)) (cal_now k) (site_world s)) = Inr p"
    and role: "usr_Role (prn_User p) \<noteq> RoleAdmin" and run: "serve_http web k req s = (r, s')"
  shows "shown (shows_own web p) r \<and> foreign (home p) (dur_core (site_store s')) = foreign (home p) (dur_core (site_store s)) \<and>
    (\<forall>g. g \<noteq> home p \<longrightarrow> part (site_world s') g = part (site_world s) g)"
proof (cases "req_Method req = ''OPTIONS''")
  case True
  with run show ?thesis by (auto simp: serve_http_def Let_def shown_headers) (simp add: shown_def plain_def)
next
  case False
  have m: "member p" using role by (simp add: member_def)
  obtain w where auth: "Authenticate md (web_sha256 web) (bearerToken (req_Authorization req)) (cal_now k) (site_world s) = (Inr p, w)"
    using session by (metis prod.collapse)
  have w: "good w" "g \<noteq> home p \<Longrightarrow> part w g = part (site_world s) g" for g
    using Authenticate_spares [of "home p"] s(2) auth by (auto simp: spares_def)
  let ?s = "s\<lparr>site_world := w\<rparr>"
  obtain r1 where r1: "authorized web k req s = (r1, s')" and r: "shown (shows_own web p) r1 \<Longrightarrow> shown (shows_own web p) r"
    using run False by (auto simp: serve_http_def Let_def shown_headers split: prod.splits)
  have chain: "sessionAuth md web k req (\<lambda>ctx. mux web k ctx req) s = (r1, s')" using r1 by (simp add: authorized_def id)
  have world: "in_world (Authenticate md (web_sha256 web) (bearerToken (req_Authorization req)) (cal_now k)) s = (Inr p, ?s)"
    by (simp add: in_world_def auth)
  show ?thesis
  proof (cases "scoped_principal req p")
    case (Inl e)
    with chain path world have "r1 = respond (Inl (DomainError e)) 0" "s' = ?s" by (simp_all add: sessionAuth_def)
    with r w show ?thesis by simp
  next
    case (Inr p')
    then have p': "p' = p" "req_Path req \<noteq> ''/api/v1/scheduler/run-once''"
      using role by (auto simp: scoped_principal_def Let_def split: if_splits)
    with chain path world Inr obtain r2 where r2: "mux web k (Some p) req ?s = (r2, s')" "r1 = no_store r2"
      by (auto simp: sessionAuth_def split: prod.splits)
    note c = confinedD [OF mux_confined [OF id m path p'(2)] _ _ r2(1), of off]
    show ?thesis using c s w r r2(2) by auto
  qed
qed

end

section \<open>Isolation of the tenants\<close>

text \<open>
  C9. Tenants are isolated: whatever request a signed-in account without the administrator's role
  sends, with any faults of the database and of the state file, the jobs of the other organisations
  stay as they are, their servers keep their drain flags and everything else that is not a GPU state,
  and their accounts, enrolments and servers in the metadata store stay as they are.
\<close>

theorem tenants_are_isolated:
  assumes "web_identity web = Some (Postgres env)" and "reachable off (site_store s)" and "db_ok (site_world s)"
    and "\<not> outside_session (req_Path req)"
    and "fst (Authenticate (Postgres env) (web_sha256 web) (bearerToken (req_Authorization req)) (cal_now k) (site_world s)) = Inr p"
    and "usr_Role (prn_User p) \<noteq> RoleAdmin" and "serve_http web k req s = (r, s')"
  shows "foreign (home p) (dur_core (site_store s')) = foreign (home p) (dur_core (site_store s)) \<and>
    (\<forall>g. g \<noteq> home p \<longrightarrow> db_part (site_world s') g = db_part (site_world s) g)"
  using postgres.serve_confined [OF assms] by blast

text \<open>
  C10. Tenants see their own data only: with the policy engine of the program, every job, server, GPU,
  container, account, enrolment and organisation in the answer to such a request belongs to the
  organisation of the account.
\<close>

theorem tenants_see_own_data:
  assumes "web_identity web = Some (Postgres env)" and "reachable off (site_store s)" and "db_ok (site_world s)"
    and "\<not> outside_session (req_Path req)"
    and "fst (Authenticate (Postgres env) (web_sha256 web) (bearerToken (req_Authorization req)) (cal_now k) (site_world s)) = Inr p"
    and "usr_Role (prn_User p) \<noteq> RoleAdmin" and "cp_policy (web_controlPlane web) = New_Engine facts"
  shows "case rsp_Body (fst (serve_http web k req s)) of DataResponse v \<Rightarrow> own_data (home p) v | _ \<Rightarrow> True"
  using postgres.serve_confined [OF assms(1-6), of "fst (serve_http web k req s)" "snd (serve_http web k req s)"]
    engine_keeps_owners [of facts] assms(7)
  by (auto simp: shown_def shows_own_def split: ApiResponse.splits)

end
