(* ===== verification/Http_Access.thy ===== *)
theory Http_Access
  imports Http_Routes Identity_Laws
begin

text \<open>
  Who can do what through the HTTP API: every request that changes the repository carried a credential
  that was checked, every request that is answered with data carried the credential its path asks for,
  and password guessing is limited per peer address.
\<close>

section \<open>Changes need a credential\<close>

lemma HasPrefix_append: "HasPrefix s p \<longleftrightarrow> (\<exists>t. s = p @ t)"
  by (auto simp: HasPrefix_def) (metis append_take_drop_id)

text \<open>The identifier in the path of an agent's or a training job's request.\<close>

definition subject_in_path :: "string \<Rightarrow> Endpoint \<Rightarrow> string list \<Rightarrow> bool" where
  "subject_in_path path ep vs \<longleftrightarrow>
     (credential_of ep = ServerToken \<longrightarrow> HasPrefix path (''/api/v1/agents/'' @ path_value vs 0 @ ''/'')) \<and>
     (credential_of ep = JobToken \<longrightarrow> HasPrefix path (''/api/v1/training/'' @ path_value vs 0))"

lemma pattern_subject:
  "\<forall>(m, pattern, ep) \<in> set (routes @ identity_routes).
     \<forall>ss. match_segments (Split (CHR ''/'') pattern) ss = Some vs \<longrightarrow> subject_in_path (unsplit (CHR ''/'') ss) ep vs"
  unfolding routes_def identity_routes_def
  by (auto simp: match_segments_Cons HasPrefix_def subject_in_path_def path_value_def)

lemma routed_subject:
  assumes "find_route (routes @ identity_routes) verb path = Routed ep vs"
  shows "subject_in_path path ep vs"
proof -
  from find_route_Routed [OF assms] obtain m pattern where r: "(m, pattern, ep) \<in> set (routes @ identity_routes)"
    and "match_path pattern path = Some vs" by blast
  from match_path_eq [OF this(2)] obtain ss where ss: "path = unsplit (CHR ''/'') ss"
    "match_segments (Split (CHR ''/'') pattern) ss = Some vs" by blast
  from bspec [OF pattern_subject r] ss(2) show ?thesis by (simp add: ss(1))
qed

text \<open>What a request proves about its sender, by endpoint.\<close>

definition session_valid :: "'w MetadataRepository \<Rightarrow> 'w Web \<Rightarrow> Call \<Rightarrow> HttpRequest \<Rightarrow> 'w Site \<Rightarrow> bool" where
  "session_valid md web k req s \<longleftrightarrow> (\<exists>p. bearerToken (req_Authorization req) \<noteq> '''' \<and>
     fst (mdr_SessionPrincipal md (tokenHash (web_sha256 web) (bearerToken (req_Authorization req))) (cal_now k)
       (site_world s)) = Inr p)"

definition server_valid :: "'w Web \<Rightarrow> HttpRequest \<Rightarrow> 'w Site \<Rightarrow> bool" where
  "server_valid web req s \<longleftrightarrow> (\<exists>a v. map_of (st_servers (dur_core (site_store s))) a = Some v \<and>
     srv_TokenHash v = tokenHash (web_sha256 web) (bearerToken (req_Authorization req)) \<and>
     HasPrefix (req_Path req) (''/api/v1/agents/'' @ a @ ''/''))"

definition job_valid :: "'w Web \<Rightarrow> Call \<Rightarrow> HttpRequest \<Rightarrow> 'w Site \<Rightarrow> bool" where
  "job_valid web k req s \<longleftrightarrow> (\<exists>i j. map_of (st_jobs (dur_core (site_store s))) i = Some j \<and>
     session_open (web_controlPlane web) (bearerToken (req_Authorization req)) (cal_now k) j \<and>
     HasPrefix (req_Path req) (''/api/v1/training/'' @ i))"

definition enrollment_valid :: "'w MetadataRepository \<Rightarrow> 'w Web \<Rightarrow> Call \<Rightarrow> HttpRequest \<Rightarrow> 'w Site \<Rightarrow> bool" where
  "enrollment_valid md web k req s \<longleftrightarrow> (\<exists>machine owner.
     fst (mdr_BindEnrollment md (tokenHash (web_sha256 web) (req_EnrollmentToken req)) machine (cal_now k) (site_world s)) =
       Inr owner)"

lemma in_world_store [simp]: "site_store (snd (in_world m s)) = site_store s"
  by (simp add: in_world_def split: prod.split)

lemma answer_with_store [simp]: "site_store (snd (answer_with view st m s)) = site_store (snd (m s))"
  by (simp add: answer_with_def split: prod.split)

lemma shield_store: "site_store (snd (case m s of (r, s') \<Rightarrow> (f r, s'))) = site_store (snd (m s))"
  by (simp split: prod.split)

lemma and_then_parsed_store:
  "site_store (snd (and_then (parsed r) f s)) \<noteq> site_store s \<Longrightarrow>
     \<exists>v. r = Inr v \<and> site_store (snd (f v s)) \<noteq> site_store s"
  by (cases r) (auto simp: and_then_def parsed_def)

lemma agent_changes:
  assumes "site_store (snd (withAgentAuth web req a next s)) \<noteq> site_store s"
    and "HasPrefix (req_Path req) (''/api/v1/agents/'' @ a @ ''/'')"
  shows "server_valid web req s"
  using assms
  by (auto simp: withAgentAuth_def server_valid_def read_core_def AuthenticateAgent_def agent_token_hash_def
      split: sum.splits option.splits if_splits)

lemma register_changes:
  assumes "web_identity web = Some md" and "cp_hasMetadata (web_controlPlane web)"
    and "site_store (snd (register web k req r s)) \<noteq> site_store s"
  shows "enrollment_valid md web k req s"
proof (rule ccontr)
  assume "\<not> enrollment_valid md web k req s"
  then have refused: "\<exists>e. fst (mdr_BindEnrollment md (tokenHash (web_sha256 web) (req_EnrollmentToken req)) machine
      (cal_now k) (site_world s)) = Inl e" for machine
    unfolding enrollment_valid_def by (metis sum.exhaust)
  have "snd (RegisterAgent (cal_save k) (agent_token_hash web) (web_controlPlane web) (req_EnrollmentToken req) r
      (cal_random k 0) (cal_random k 1) (\<lambda>h m t. fst (mdr_BindEnrollment md h m t (site_world s))) (cal_now k) d) = d" for d
    using refused [of "reg_MachineID r"] assms(2)
    by (auto simp: RegisterAgent_def andThen_def agent_token_hash_def newID_def split: prod.splits sum.splits)
  with assms(1,3) show False by (auto simp: register_def Let_def in_store_def split: prod.splits) (metis snd_conv)
qed

lemma upload_changes:
  assumes "site_store (snd (upload web k req i kind s)) \<noteq> site_store s"
    and "HasPrefix (req_Path req) (''/api/v1/training/'' @ i)"
  shows "job_valid web k req s"
proof (rule ccontr)
  assume no: "\<not> job_valid web k req s"
  obtain r d where session: "TrainingSession (web_controlPlane web) i (bearerToken (req_Authorization req)) (cal_now k)
      (site_store s) = (r, d)" by fastforce
  then have d: "d = site_store s" using TrainingSession_pure by (metis snd_conv)
  have "isl r" using no assms(2) session d by (cases r) (auto simp: job_valid_def TrainingSession_Inr)
  with session d assms(1) show False by (cases r) (simp_all add: upload_def Let_def in_store_def)
qed

lemma login_store: "site_store (snd (login md web k req s)) = site_store s"
proof -
  have "site_store (snd (in_world m s')) = site_store s'" for m :: "'a \<Rightarrow> (go_error + 'b) \<times> 'a" and s'
    by simp
  show ?thesis
    by (auto simp: login_def Let_def answer_with_def in_world_def split: prod.splits sum.splits)
qed

lemma contract_store: "site_store (snd (in_store (GetTrainingContract c i token now) s)) = site_store s"
proof -
  have "snd (GetTrainingContract c i token now d) = d" for d
    using TrainingSession_pure [of c i token now d]
    by (auto simp: GetTrainingContract_def andThen_def Let_def split: prod.splits sum.splits option.splits)
  then show ?thesis by (auto simp: in_store_def split: prod.splits) (metis snd_conv)
qed

definition credential_shown :: "'w MetadataRepository \<Rightarrow> 'w Web \<Rightarrow> Call \<Rightarrow> HttpRequest \<Rightarrow> 'w Site \<Rightarrow> bool" where
  "credential_shown md web k req s \<longleftrightarrow> session_valid md web k req s \<or> server_valid web req s \<or>
     job_valid web k req s \<or> enrollment_valid md web k req s"

lemma exempt_changes:
  assumes id: "web_identity web = Some md" and hm: "cp_hasMetadata (web_controlPlane web)"
    and path: "outside_session (req_Path req)" and changed: "site_store (snd (mux web k ctx req s)) \<noteq> site_store s"
  shows "credential_shown md web k req s"
proof (cases "find_route (routes @ identity_routes) (req_Method req) (req_Path req)")
  case (Routed ep vs)
  have cred: "credential_of ep \<noteq> AnySession" using routed_agrees [OF Routed] path by (simp add: paths_agree_def)
  have subject: "subject_in_path (req_Path req) ep vs" by (rule routed_subject [OF Routed])
  have ch: "site_store (snd (handle_identity md web k ctx req vs ep s)) \<noteq> site_store s"
    using changed by (simp add: mux_def id Routed)
  note agent = agent_changes [of web req "path_value vs 0"]
  show ?thesis
  proof (cases "credential_of ep")
    case ServerToken
    with ch subject have "\<exists>next. site_store (snd (withAgentAuth web req (path_value vs 0) next s)) \<noteq> site_store s"
      by (cases ep) (auto intro: exI)
    with agent ServerToken subject show ?thesis by (auto simp: credential_shown_def subject_in_path_def)
  next
    case JobToken
    with ch have "site_store (snd (upload web k req (path_value vs 0) (path_value vs 1) s)) \<noteq> site_store s"
      by (cases ep) (auto simp: shield_store contract_store)
    from upload_changes [OF this] JobToken subject show ?thesis by (simp add: credential_shown_def subject_in_path_def)
  next
    case EnrollmentToken
    with ch have "site_store (snd (and_then (decoded in_register req) (register web k req) s)) \<noteq> site_store s"
      by (cases ep) simp_all
    from and_then_parsed_store [OF this [unfolded decoded_def]] register_changes [OF id hm] show ?thesis
      by (auto simp: credential_shown_def)
  next
    case Password
    with ch have False by (cases ep) (simp_all add: login_store)
    then show ?thesis ..
  next
    case NoCredential
    with ch have False by (cases ep) (simp_all add: answer_now_def)
    then show ?thesis ..
  qed (use cred in simp)
qed (use changed in \<open>simp_all add: mux_def id\<close>)

text \<open>
  C11. No change without a credential: a request that changes the repository carried the token of a
  live session, or the token of the server its path names, or the token of the running job its path
  names, or an enrolment token that binds.
\<close>

theorem changes_need_a_credential:
  assumes "web_identity web = Some md" and "cp_hasMetadata (web_controlPlane web)"
    and "site_store (snd (serve_http web k req s)) \<noteq> site_store s"
  shows "session_valid md web k req s \<or> server_valid web req s \<or> job_valid web k req s \<or>
    enrollment_valid md web k req s"
proof -
  have ch: "site_store (snd (sessionAuth md web k req (\<lambda>ctx. mux web k ctx req) s)) \<noteq> site_store s"
    using assms(1,3) by (auto simp: serve_http_def Let_def authorized_def split: if_splits prod.splits)
  have "credential_shown md web k req s"
  proof (cases "outside_session (req_Path req)")
    case True
    with ch exempt_changes [OF assms(1,2) True] show ?thesis by (simp add: sessionAuth_def)
  next
    case False
    let ?auth = "Authenticate md (web_sha256 web) (bearerToken (req_Authorization req)) (cal_now k)"
    have "\<exists>p. fst (?auth (site_world s)) = Inr p"
    proof (cases "fst (?auth (site_world s))")
      case (Inl e)
      with ch False show ?thesis by (auto simp: sessionAuth_def in_world_def split: prod.splits)
    qed simp
    then show ?thesis
      by (auto simp: credential_shown_def session_valid_def Authenticate_def raise_def split: if_splits)
  qed
  then show ?thesis by (simp add: credential_shown_def)
qed

section \<open>Answers need the credential of their path\<close>

text \<open>A response that answers with data, not with an error, a redirection or nothing.\<close>

definition answers :: "HttpResponse \<Rightarrow> bool" where
  "answers r \<longleftrightarrow> (\<exists>d. rsp_Body r = DataResponse d)"

lemma answers_simps [simp]:
  "answers (plain n (DataResponse d))" "\<not> answers (plain n NoContent)" "\<not> answers (plain n (TextResponse t))"
  "\<not> answers (writeError n code m)" "\<not> answers (respond (Inl e) n)" "answers (respond (Inr v) n)"
  "answers (with_header h x r) = answers r"
  by (auto simp: answers_def plain_def writeError_def respond_def with_header_def Let_def split: http_error.split prod.split go_error.split)

lemma answers_headers [simp]: "answers (add_headers hs r) = answers r"
  by (induction hs) (auto simp: add_headers_def split: prod.split)

lemma answers_with: "answers (fst (answer_with view n m s)) \<longleftrightarrow> (\<exists>v. fst (m s) = Inr v)"
  by (auto simp: answer_with_def split: prod.split sum.split) (metis Inl_Inr_False answers_simps(5,6) map_sum.simps sum.exhaust)+

lemma answers_shielded: "answers (fst (case m s of (r, s') \<Rightarrow> (no_store r, s'))) = answers (fst (m s))"
  by (simp split: prod.split)

lemma fst_in_store: "fst (in_store m s) = Inr v \<longleftrightarrow> fst (m (site_store s)) = Inr v"
  by (cases "fst (m (site_store s))") (auto simp: in_store_def split: prod.split)

lemma fst_in_world: "fst (in_world m s) = Inr v \<longleftrightarrow> fst (m (site_world s)) = Inr v"
  by (cases "fst (m (site_world s))") (auto simp: in_world_def split: prod.split)

lemma fst_then: "fst (and_then m f s) = Inr v \<longleftrightarrow> (\<exists>x. fst (m s) = Inr x \<and> fst (f x (snd (m s))) = Inr v)"
  by (auto simp: and_then_def split: prod.split sum.split)

text \<open>The password of a login: of the account with that name, which is enabled.\<close>

definition password_valid :: "'w MetadataRepository \<Rightarrow> 'w Web \<Rightarrow> HttpRequest \<Rightarrow> 'w Site \<Rightarrow> bool" where
  "password_valid md web req s \<longleftrightarrow> (\<exists>username password u.
     decodeJSON in_login (req_Body req) = Inr (username, password) \<and>
     fst (mdr_UserByUsername md (ToLower (TrimSpace username)) (site_world s)) = Inr u \<and>
     verifyPassword (web_kdf web) (usr_PasswordHash u) password \<and> usr_Enabled u)"

lemma login_answers: "answers (fst (login md web k req s)) \<Longrightarrow> password_valid md web req s"
proof -
  have found: "\<exists>u. fst (mdr_UserByUsername md (ToLower (TrimSpace n)) w) = Inr u \<and>
      verifyPassword kdf (usr_PasswordHash u) p \<and> usr_Enabled u"
    if "fst (Login md sha kdf n p random now w) = Inr v" for sha kdf n p random now w v
    using that by (auto simp: Login_def fst_then or_else_def raise_def yield_def zero_user_def split: if_splits prod.splits sum.splits)
  assume "answers (fst (login md web k req s))"
  then show ?thesis
    by (auto simp: login_def Let_def answers_shielded answers_with fst_in_world password_valid_def
        split: prod.splits if_splits sum.splits dest!: found)
qed

text \<open>What the handlers behind the exempt paths check, before they answer.\<close>

lemma agent_answers:
  assumes "answers (fst (withAgentAuth web req a next s))"
    and "HasPrefix (req_Path req) (''/api/v1/agents/'' @ a @ ''/'')"
  shows "server_valid web req s"
  using assms
  by (auto simp: withAgentAuth_def server_valid_def read_core_def AuthenticateAgent_def agent_token_hash_def
      split: sum.splits option.splits if_splits)

lemma registered_bound:
  assumes "cp_hasMetadata c" and "RegisterAgent save sha c token r random newToken bind now d = (Inr v, d')"
  shows "\<exists>owner. bind (sha token) (reg_MachineID r) now = Inr owner"
  using assms
  by (auto simp: RegisterAgent_def andThen_Inr lift_def reply_def fail_def split: if_splits)

lemma register_answers:
  assumes "web_identity web = Some md" and "cp_hasMetadata (web_controlPlane web)"
    and "fst (register web k req r s) = Inr v"
  shows "enrollment_valid md web k req s"
proof -
  let ?bind = "\<lambda>h m t. fst (mdr_BindEnrollment md h m t (site_world s))"
  have "fst (RegisterAgent (cal_save k) (agent_token_hash web) (web_controlPlane web) (req_EnrollmentToken req) r
      (cal_random k 0) (cal_random k 1) ?bind (cal_now k) (site_store s)) = Inr v"
    using assms(3) unfolding register_def Let_def fst_in_store assms(1) option.case by simp
  then obtain d where "RegisterAgent (cal_save k) (agent_token_hash web) (web_controlPlane web) (req_EnrollmentToken req) r
      (cal_random k 0) (cal_random k 1) ?bind (cal_now k) (site_store s) = (Inr v, d)"
    by (metis prod.collapse)
  with registered_bound [OF assms(2) this] show ?thesis by (auto simp: enrollment_valid_def agent_token_hash_def)
qed

lemma session_of_job:
  assumes "fst (TrainingSession (web_controlPlane web) i (bearerToken (req_Authorization req)) (cal_now k) (site_store s)) = Inr j"
    and "HasPrefix (req_Path req) (''/api/v1/training/'' @ i)"
  shows "job_valid web k req s"
proof -
  from assms(1) obtain d where "TrainingSession (web_controlPlane web) i (bearerToken (req_Authorization req)) (cal_now k)
      (site_store s) = (Inr j, d)" by (metis prod.collapse)
  with assms(2) show ?thesis by (auto simp: TrainingSession_Inr job_valid_def)
qed

lemma upload_answers:
  assumes "answers (fst (upload web k req i kind s))" and "HasPrefix (req_Path req) (''/api/v1/training/'' @ i)"
  shows "job_valid web k req s"
proof -
  have "\<exists>j. fst (in_store (TrainingSession (web_controlPlane web) i (bearerToken (req_Authorization req)) (cal_now k)) s) = Inr j"
    using assms(1) by (auto simp: upload_def Let_def split: prod.splits sum.splits)
  with session_of_job [OF _ assms(2)] show ?thesis by (auto simp: fst_in_store)
qed

lemma contract_answers:
  assumes "fst (in_store (GetTrainingContract (web_controlPlane web) i (bearerToken (req_Authorization req)) (cal_now k)) s) = Inr v"
    and "HasPrefix (req_Path req) (''/api/v1/training/'' @ i)"
  shows "job_valid web k req s"
proof -
  have "\<exists>j. fst (TrainingSession (web_controlPlane web) i (bearerToken (req_Authorization req)) (cal_now k) (site_store s)) = Inr j"
    using assms(1) by (auto simp: fst_in_store GetTrainingContract_def andThen_def split: prod.splits sum.splits)
  with session_of_job [OF _ assms(2)] show ?thesis by blast
qed

text \<open>The credential a path asks for.\<close>

definition path_credential :: "'w MetadataRepository \<Rightarrow> 'w Web \<Rightarrow> Call \<Rightarrow> HttpRequest \<Rightarrow> 'w Site \<Rightarrow> bool" where
  "path_credential md web k req s \<longleftrightarrow>
     (if req_Path req = ''/api/v1/auth/login'' then password_valid md web req s
      else if req_Path req = ''/api/v1/agents/register'' then enrollment_valid md web k req s
      else if HasPrefix (req_Path req) ''/api/v1/agents/'' then server_valid web req s
      else if HasPrefix (req_Path req) ''/api/v1/training/'' then job_valid web k req s
      else if HasPrefix (req_Path req) ''/api/v1/''
      then (\<exists>p. bearerToken (req_Authorization req) \<noteq> '''' \<and>
              fst (mdr_SessionPrincipal md (tokenHash (web_sha256 web) (bearerToken (req_Authorization req))) (cal_now k)
                (site_world s)) = Inr p \<and>
              (req_Path req = ''/api/v1/scheduler/run-once'' \<longrightarrow> usr_Role (prn_User p) = RoleAdmin))
      else req_Path req \<in> {''/healthz'', ''/readyz''})"

text \<open>Where the endpoints that check a credential of their own are.\<close>

definition placed :: "string \<Rightarrow> Endpoint \<Rightarrow> bool" where
  "placed path ep \<longleftrightarrow>
     (case credential_of ep of
        Password \<Rightarrow> path = ''/api/v1/auth/login''
      | EnrollmentToken \<Rightarrow> path = ''/api/v1/agents/register''
      | ServerToken \<Rightarrow> HasPrefix path ''/api/v1/agents/'' \<and> path \<noteq> ''/api/v1/agents/register''
      | JobToken \<Rightarrow> HasPrefix path ''/api/v1/training/''
      | NoCredential \<Rightarrow> path \<in> {''/healthz'', ''/readyz''}
      | AnySession \<Rightarrow> True)"

lemma pattern_placed:
  "\<forall>(m, pattern, ep) \<in> set (routes @ identity_routes).
     \<forall>ss. match_segments (Split (CHR ''/'') pattern) ss = Some vs \<longrightarrow> placed (unsplit (CHR ''/'') ss) ep"
  unfolding routes_def identity_routes_def
  by (auto simp: match_segments_Cons HasPrefix_def placed_def)

lemma routed_placed:
  assumes "find_route (routes @ identity_routes) verb path = Routed ep vs"
  shows "placed path ep"
proof -
  from find_route_Routed [OF assms] obtain m pattern where r: "(m, pattern, ep) \<in> set (routes @ identity_routes)"
    and "match_path pattern path = Some vs" by blast
  from match_path_eq [OF this(2)] obtain ss where ss: "path = unsplit (CHR ''/'') ss"
    "match_segments (Split (CHR ''/'') pattern) ss = Some vs" by blast
  from bspec [OF pattern_placed r] ss(2) show ?thesis by (simp add: ss(1))
qed

lemma exempt_answers:
  assumes id: "web_identity web = Some md" and hm: "cp_hasMetadata (web_controlPlane web)"
    and path: "outside_session (req_Path req)" and answer: "answers (fst (mux web k ctx req s))"
  shows "path_credential md web k req s"
proof (cases "find_route (routes @ identity_routes) (req_Method req) (req_Path req)")
  case (Routed ep vs)
  have cred: "credential_of ep \<noteq> AnySession" using routed_agrees [OF Routed] path by (simp add: paths_agree_def)
  note subject = routed_subject [OF Routed] and here = routed_placed [OF Routed]
  have an: "answers (fst (handle_identity md web k ctx req vs ep s))"
    using answer by (simp add: mux_def id Routed)
  have apart: "\<not> HasPrefix ''/api/v1/auth/login'' ''/api/v1/agents/''" "\<not> HasPrefix ''/api/v1/auth/login'' ''/api/v1/training/''"
    "\<not> HasPrefix ''/healthz'' ''/api/v1/''" "\<not> HasPrefix ''/readyz'' ''/api/v1/''"
    "HasPrefix ''/api/v1/agents/register'' ''/api/v1/agents/''" by code_simp+
  have nested: "HasPrefix p ''/api/v1/agents/'' \<Longrightarrow> HasPrefix p ''/api/v1/''"
    "HasPrefix p ''/api/v1/training/'' \<Longrightarrow> HasPrefix p ''/api/v1/'' \<and> \<not> HasPrefix p ''/api/v1/agents/''" for p
    by (auto simp: HasPrefix_append)
  show ?thesis
  proof (cases "credential_of ep")
    case ServerToken
    with an subject have "\<exists>next. answers (fst (withAgentAuth web req (path_value vs 0) next s))"
      by (cases ep) (auto intro: exI)
    with agent_answers [of web req "path_value vs 0"] ServerToken subject here apart show ?thesis
      by (auto simp: path_credential_def subject_in_path_def placed_def)
  next
    case JobToken
    with an subject have "job_valid web k req s"
      by (cases ep) (auto simp: answers_shielded answers_with subject_in_path_def dest: upload_answers contract_answers)
    with JobToken here apart nested(2) [of "req_Path req"] show ?thesis
      by (auto simp: path_credential_def placed_def)
  next
    case EnrollmentToken
    with an have "\<exists>r v. fst (register web k req r s) = Inr v"
      by (cases ep) (auto simp: answers_with fst_then decoded_def parsed_def)
    with register_answers [OF id hm] EnrollmentToken here show ?thesis by (auto simp: path_credential_def placed_def)
  next
    case Password
    with an have "password_valid md web req s" by (cases ep) (auto dest: login_answers)
    with Password here show ?thesis by (simp add: path_credential_def placed_def)
  next
    case NoCredential
    with here apart nested show ?thesis by (auto simp: path_credential_def placed_def)
  qed (use cred in simp)
qed (use answer in \<open>simp_all add: mux_def id\<close>)

text \<open>
  C36. No answer without the credential of its path. When the identity service is configured and a
  request is answered with data, not with an error, then it carried what its path asks for: at the
  login the password of an enabled account, at the registration an enrolment token that binds, under
  \<open>agents\<close> the token of the server the path names, under \<open>training\<close> the token of the running job the path
  names, and anywhere else under the API a live session, which at the scheduler is an administrator's.
  Only the two probes answer without any.
\<close>

theorem answers_need_their_credential:
  assumes "web_identity web = Some md" and "cp_hasMetadata (web_controlPlane web)"
    and "rsp_Body (fst (serve_http web k req s)) = DataResponse d"
  shows "path_credential md web k req s"
proof -
  have "answers (fst (serve_http web k req s))" using assms(3) by (auto simp: answers_def)
  then have an: "answers (fst (sessionAuth md web k req (\<lambda>ctx. mux web k ctx req) s))"
    using assms(1) by (auto simp: serve_http_def Let_def authorized_def split: if_splits prod.splits)
  show ?thesis
  proof (cases "outside_session (req_Path req)")
    case True
    with an exempt_answers [OF assms(1,2) True] show ?thesis by (simp add: sessionAuth_def)
  next
    case False
    let ?auth = "Authenticate md (web_sha256 web) (bearerToken (req_Authorization req)) (cal_now k)"
    obtain p where p: "fst (?auth (site_world s)) = Inr p" "\<not> isl (scoped_principal req p)"
      using an False by (cases "fst (?auth (site_world s))")
        (auto simp: sessionAuth_def in_world_def split: prod.splits sum.splits)
    from p(2) have "req_Path req = ''/api/v1/scheduler/run-once'' \<longrightarrow> usr_Role (prn_User p) = RoleAdmin"
      by (auto simp: scoped_principal_def Let_def split: if_splits)
    with p(1) False show ?thesis
      by (auto simp: path_credential_def outside_session_def Authenticate_def raise_def HasPrefix_append split: if_splits)
  qed
qed

section \<open>Logins are limited\<close>

text \<open>A run of login attempts, each a peer address and an instant: which are admitted, and the windows
  after it.\<close>

fun attempts :: "(string, LoginWindow) gomap \<Rightarrow> (string \<times> gotime) list \<Rightarrow> bool list" where
  "attempts ws [] = []"
| "attempts ws ((peer, now) # as) =
     fst (admit_login peer now ws) # attempts (snd (admit_login peer now ws)) as"

fun windows_after :: "(string, LoginWindow) gomap \<Rightarrow> (string \<times> gotime) list \<Rightarrow> (string, LoginWindow) gomap" where
  "windows_after ws [] = ws"
| "windows_after ws ((peer, now) # as) = windows_after (snd (admit_login peer now ws)) as"

definition windows_ok :: "(string, LoginWindow) gomap \<Rightarrow> bool" where
  "windows_ok ws \<longleftrightarrow> wf_map ws \<and> length ws \<le> 4096 \<and>
     (\<forall>(p, v) \<in> set ws. 1 \<le> lwn_count v \<and> lwn_count v \<le> 20 \<and> 0 < lwn_at v)"

lemma wf_live: "wf_map ws \<Longrightarrow> wf_map (live_windows now ws)"
  by (simp add: live_windows_def distinct_map_filter)

lemma live_lookup:
  assumes "wf_map ws"
  shows "map_of (live_windows now ws) p = (case map_of ws p of None \<Rightarrow> None
    | Some v \<Rightarrow> if Minute < Sub now (lwn_at v) then None else Some v)"
  using assms
proof (induction ws)
  case Nil
  show ?case by (simp add: live_windows_def)
next
  case (Cons x ws)
  then show ?case
    by (cases x) (auto simp: live_windows_def map_of_eq_None_iff image_iff split: option.split)
qed

lemma admit_ok:
  assumes ws: "windows_ok ws" and "0 < now"
  shows "windows_ok (snd (admit_login peer now ws))"
proof -
  let ?live = "live_windows now ws"
  have live: "set ?live \<subseteq> set ws" "length ?live \<le> length ws" by (auto simp: live_windows_def)
  have old: "1 \<le> lwn_count v \<and> lwn_count v \<le> 20 \<and> 0 < lwn_at v" if "(p, v) \<in> set ?live" for p v
    using ws live(1) that by (auto simp: windows_ok_def)
  let ?v0 = "case map_of ?live peer of None \<Rightarrow> \<lparr>lwn_at = 0, lwn_count = 0\<rparr> | Some v \<Rightarrow> v"
  have v0: "0 \<le> lwn_count ?v0 \<and> 0 \<le> lwn_at ?v0"
  proof (cases "map_of ?live peer")
    case (Some v)
    with old [OF map_of_SomeD [OF Some]] show ?thesis by simp
  qed simp
  have "wf_map ?live" "length ?live \<le> 4096" using ws wf_live live(2) by (auto simp: windows_ok_def)
  moreover have "length (put peer v ?live) \<le> 4096" if "length ?live < 4096" for v
    using length_put [of peer v ?live] that by simp
  ultimately show ?thesis
    using v0 old assms(2) unfolding admit_login_def windows_ok_def Let_def
    by (auto simp: IsZero_def dest!: set_putD)
qed

text \<open>How many more attempts of a peer can pass until a minute after \<open>a\<close>.\<close>

definition still_open :: "gotime \<Rightarrow> string \<Rightarrow> (string, LoginWindow) gomap \<Rightarrow> int" where
  "still_open a p ws = (case map_of ws p of None \<Rightarrow> 20
     | Some v \<Rightarrow> 20 - lwn_count v + (if lwn_at v < a then 20 else 0))"

lemma admit_uses:
  assumes ws: "windows_ok ws" and a: "0 < a" "a \<le> now" "now \<le> a + Minute"
  shows "still_open a p (snd (admit_login peer now ws)) \<le>
    still_open a p ws - (if peer = p \<and> fst (admit_login peer now ws) then 1 else 0)"
proof -
  have wf: "wf_map ws" and ok: "\<And>q v. map_of ws q = Some v \<Longrightarrow> 1 \<le> lwn_count v \<and> lwn_count v \<le> 20 \<and> 0 < lwn_at v"
    using ws by (auto simp: windows_ok_def dest: map_of_SomeD)
  have dropped: "lwn_at v < a" if "Minute < Sub now (lwn_at v)" for v
    using that a by (auto simp: Sub_def max_def min_def split: if_splits)
  have live: "still_open a p (live_windows now ws) \<le> still_open a p ws"
    using ok [of p] dropped by (auto simp: still_open_def live_lookup [OF wf] split: option.split)
  show ?thesis
  proof (cases "fst (admit_login peer now ws)")
    case False
    with live show ?thesis by (auto simp: admit_login_def Let_def)
  next
    case True
    define v0 where "v0 = (case map_of (live_windows now ws) peer of None \<Rightarrow> \<lparr>lwn_at = 0, lwn_count = 0\<rparr> | Some v \<Rightarrow> v)"
    define v where "v = (if IsZero (lwn_at v0) then v0\<lparr>lwn_at := now\<rparr> else v0)"
    have put: "snd (admit_login peer now ws) = put peer (v\<lparr>lwn_count := lwn_count v + 1\<rparr>) (live_windows now ws)"
      using True by (simp add: admit_login_def Let_def v_def v0_def)
    show ?thesis
    proof (cases "peer = p")
      case False
      with live put show ?thesis by (simp add: still_open_def)
    next
      case same: True
      have "still_open a p (snd (admit_login peer now ws)) = still_open a p (live_windows now ws) - 1"
      proof (cases "map_of (live_windows now ws) p")
        case None
        with same a put show ?thesis by (simp add: still_open_def v_def v0_def IsZero_def)
      next
        case (Some u)
        then have "map_of ws p = Some u" by (auto simp: live_lookup [OF wf] split: option.splits if_splits)
        with ok [of p u] Some same put show ?thesis by (simp add: still_open_def v_def v0_def IsZero_def)
      qed
      with live True same show ?thesis by simp
    qed
  qed
qed

lemma windows_after_ok: "windows_ok ws \<Longrightarrow> \<forall>(q, t) \<in> set as. 0 < t \<Longrightarrow> windows_ok (windows_after ws as)"
  by (induction ws as rule: windows_after.induct) (auto intro: admit_ok)

lemma windows_after_append: "windows_after ws (as @ bs) = windows_after (windows_after ws as) bs"
  by (induction ws as rule: windows_after.induct) auto

definition admitted :: "string \<Rightarrow> (string, LoginWindow) gomap \<Rightarrow> (string \<times> gotime) list \<Rightarrow> nat" where
  "admitted p ws as = length (filter (\<lambda>((q, t), b). q = p \<and> b) (zip as (attempts ws as)))"

lemma admitted_le:
  assumes "windows_ok ws" and "0 < a" and "\<forall>(q, t) \<in> set as. a \<le> t \<and> t \<le> a + Minute"
  shows "int (admitted p ws as) \<le> still_open a p ws"
  using assms(1,3)
proof (induction ws as rule: attempts.induct)
  case (1 ws)
  then show ?case by (auto simp: admitted_def still_open_def windows_ok_def dest!: map_of_SomeD split: option.split)
next
  case (2 ws peer now as)
  let ?ws = "snd (admit_login peer now ws)"
  have t: "a \<le> now" "now \<le> a + Minute" using "2.prems"(2) by auto
  have "int (admitted p ?ws as) \<le> still_open a p ?ws"
    using "2.IH" admit_ok [OF "2.prems"(1), of now peer] "2.prems"(2) t assms(2) by simp
  with admit_uses [OF "2.prems"(1) assms(2) t, of p peer] show ?case
    by (auto simp: admitted_def split: if_splits)
qed

text \<open>
  C37. Logins are limited: whatever peers did before and in whatever order they come, at most 39 login
  attempts of one peer address reach the password check within any minute (a window of 20 that ends
  in it and one that begins in it), and there are never more than 4096 windows.
\<close>

theorem logins_are_limited:
  assumes "\<forall>(q, t) \<in> set past. 0 < t" and "0 < a" and "\<forall>(q, t) \<in> set recent. a \<le> t \<and> t \<le> a + Minute"
  shows "admitted p (windows_after [] past) recent \<le> 39 \<and> length (windows_after [] (past @ recent)) \<le> 4096"
proof -
  have empty: "windows_ok []" by (simp add: windows_ok_def)
  note ok = windows_after_ok [OF empty assms(1)]
  have "still_open a p (windows_after [] past) \<le> 39"
    using ok by (auto simp: still_open_def windows_ok_def dest!: map_of_SomeD split: option.split)
  with admitted_le [OF ok assms(2,3), of p] have "admitted p (windows_after [] past) recent \<le> 39" by simp
  moreover have "windows_ok (windows_after [] (past @ recent))"
    by (rule windows_after_ok [OF empty]) (use assms in fastforce)
  ultimately show ?thesis by (simp add: windows_ok_def)
qed

end
