(* ===== verification/Http_Samples.thy ===== *)
theory Http_Samples
  imports Application_Samples Http_Laws Http_Access
begin

text \<open>
  A site for the witnesses: the control plane of \<open>Application_Samples\<close> behind the HTTP API, with a
  metadata store in which two organisations, three accounts and one enrolment were created.
\<close>

section \<open>Metadata\<close>

definition calm :: Driver where
  "calm = \<lparr>drv_fault = (\<lambda>step. None), drv_applied = False, drv_now = t0, drv_timestamp = (\<lambda>t. t),
     drv_before = (\<lambda>x y. x < y), drv_message = (\<lambda>c. c)\<rparr>"

definition digest :: "string \<Rightarrow> string" where
  "digest s = CHR ''#'' # s"

definition derive :: kdf where
  "derive password salt = Inr (take 32 (password @ replicate 32 (CHR ''.'')))"

definition org2 :: Organization where
  "org2 = org1\<lparr>org_ID := ''org2'', org_Code := ''p''\<rparr>"

text \<open>What is stored of the password every account has.\<close>

definition stored_password :: string where
  "stored_password = ''pbkdf2-sha256-600000$salt$61206c6f6e672070617373776f72642e2e2e2e2e2e2e2e2e2e2e2e2e2e2e2e2e''"

lemma stored_password: "hashPassword derive (Inr ''salt'') ''a long password'' = Inr stored_password"
  by code_simp

definition account :: "string \<Rightarrow> string \<Rightarrow> User" where
  "account i g = \<lparr>usr_ID = i, usr_Username = i, usr_PasswordHash = stored_password,
     usr_Role = RoleOrganizationUser, usr_OrganizationID = g, usr_Enabled = True\<rparr>"

definition enrollment1 :: Enrollment where
  "enrollment1 = \<lparr>enr_ID = ''enr1'', enr_OrganizationID = ''org1'', enr_ServerID = ''srv9'', enr_DisplayName = ''gpu-z'',
     enr_Labels = [], enr_TokenHash = tokenHash digest ''enrol-me'', enr_ExpiresAt = t0 + Hour, enr_MachineID = '''',
     enr_Revoked = False\<rparr>"

definition metadata_calls :: "md_call list" where
  "metadata_calls =
     [MdBootstrap org1 (account ''root'' ''org1''), MdSaveOrganization org2,
      MdSaveUser (account ''u1'' ''org1''), MdSaveUser (account ''u2'' ''org2''),
      MdCreateSession (tokenHash digest ''session1'') ''u1'' (t0 + 8 * Hour),
      MdCreateSession (tokenHash digest ''session2'') ''u2'' (t0 + 8 * Hour),
      MdCreateEnrollment enrollment1]"

fun metadata_run :: "Tables \<Rightarrow> md_call list \<Rightarrow> Tables \<times> (md_call \<times> bool) list" where
  "metadata_run t [] = (t, [])"
| "metadata_run t (c # cs) =
     (case exec_md calm c t of (r, t') \<Rightarrow> (case metadata_run t' cs of (t'', es) \<Rightarrow> (t'', (c, \<not> isl r) # es)))"

definition metadata :: "Tables \<times> (md_call \<times> bool) list" where
  "metadata = metadata_run empty_tables metadata_calls"

section \<open>The site\<close>

text \<open>A user of the first organisation has asked for a training window, before any server enrolled.\<close>

definition d_created :: Durable where
  "d_created = serve_all [(t0, ReqCreate (\<lambda>s. True) user1 train_request orgs1 (Inr ''b1'') (Inr ''secret''))]
     \<lparr>dur_core = New_Store (cp_offlineAfter app_cp), dur_file = NoFile\<rparr>"

definition web1 :: "Database Web" where
  "web1 = \<lparr>web_controlPlane = app_cp, web_identity = Some (Postgres (\<lambda>n. calm)), web_publicToken = None,
     web_corsOrigins = [], web_sha256 = digest, web_kdf = derive, web_imageOK = (\<lambda>s. True)\<rparr>"

definition call1 :: Call where
  "call1 = \<lparr>cal_save = no_error, cal_now = t0 + Minute, cal_random = (\<lambda>n. Inr ''r1''), cal_slotFree = True,
     cal_pass1 = pass_at t0 ''x1'', cal_pass2 = pass_at t0 ''x2'', cal_meanwhile = (\<lambda>d. d), cal_uploadCut = False,
     cal_uploadEnd = t0\<rparr>"

definition site1 :: "Database Site" where
  "site1 = \<lparr>site_store = d_created, site_world = \<lparr>db_tables = fst metadata, db_calls = 0\<rparr>, site_logins = []\<rparr>"

definition request :: "string \<Rightarrow> string \<Rightarrow> string \<Rightarrow> HttpRequest" where
  "request verb path token = \<lparr>req_Method = verb, req_Path = path, req_Query = [], req_Authorization = ''Bearer '' @ token,
     req_EnrollmentToken = '''', req_RequestID = ''q1'', req_Origin = '''', req_Peer = ''10.0.0.1'', req_ContentLength = 0,
     req_Body = BodyBytes ''''\<rparr>"

definition signed_in :: "string \<Rightarrow> go_error + Principal" where
  "signed_in token = fst (Authenticate (Postgres (\<lambda>n. calm)) digest token (t0 + Minute) (site_world site1))"

end
