(* ===== verification/Http_Witnesses.thy ===== *)
theory Http_Witnesses
  imports Http_Samples
begin

text \<open>
  The properties of the metadata store, the identity service and the HTTP API applied to the site of
  \<open>Http_Samples\<close>.
\<close>

section \<open>The site is reachable\<close>

lemma metadata_run_run:
  "md_run t es \<Longrightarrow> md_run (fst (metadata_run t cs)) (es @ snd (metadata_run t cs))"
proof (induction cs arbitrary: t es)
  case Nil
  then show ?case by simp
next
  case (Cons c cs)
  obtain r t' where x: "exec_md calm c t = (r, t')" by fastforce
  from Cons.IH [OF md_run.call [OF Cons.prems x]] x show ?case by (simp add: case_prod_beta)
qed

lemma metadata_legal: "md_run (fst metadata) (snd metadata)"
  using metadata_run_run [OF md_run.fresh, of metadata_calls] by (simp add: metadata_def)

lemma site1_good: "db_ok (site_world site1)"
  using md_run_ok [OF metadata_legal] by (simp add: db_ok_def site1_def)

lemma site1_reachable: "reachable (cp_offlineAfter app_cp) (site_store site1)"
proof -
  have "app_reachable app_cp d_created"
    unfolding d_created_def by (intro serve_all_reachable app_reachable.start) (simp add: Open_def)
  then show ?thesis by (simp add: site1_def app_reachable_reachable)
qed

lemma metadata_accepted: "list_all snd (snd metadata)"
  by code_simp

lemma signed_in_1: "signed_in ''session1'' = Inr \<lparr>prn_User = (account ''u1'' ''org1'')\<lparr>usr_PasswordHash := ''''\<rparr>,
    prn_Organization = org1\<lparr>org_UpdatedAt := t0\<rparr>, prn_ScopeOrganizationID = ''''\<rparr>"
  by code_simp

lemma signed_in_2: "signed_in ''session2'' = Inr \<lparr>prn_User = (account ''u2'' ''org2'')\<lparr>usr_PasswordHash := ''''\<rparr>,
    prn_Organization = org2\<lparr>org_UpdatedAt := t0\<rparr>, prn_ScopeOrganizationID = ''''\<rparr>"
  by code_simp

section \<open>What the requests did\<close>

text \<open>A member of the second organisation tries to stop the job of the first; a member of the first
  lists the organisations, and stops the job.\<close>

definition foreign_stop_run :: "HttpResponse \<times> Database Site" where
  "foreign_stop_run = serve_http web1 call1 (request ''POST'' ''/api/v1/jobs/job_b1/stop'' ''session2'') site1"

definition list_run :: "HttpResponse \<times> Database Site" where
  "list_run = serve_http web1 call1 (request ''GET'' ''/api/v1/organizations'' ''session1'') site1"

definition own_stop_run :: "HttpResponse \<times> Database Site" where
  "own_stop_run = serve_http web1 call1 (request ''POST'' ''/api/v1/jobs/job_b1/stop'' ''session1'') site1"

lemma foreign_stop_refused: "rsp_Status (fst foreign_stop_run) = 404"
  by code_simp

lemma list_run_own: "case rsp_Body (fst list_run) of DataResponse (OrganizationsData [g]) \<Rightarrow> org_ID g = ''org1'' | _ \<Rightarrow> False"
  by code_simp

lemma own_stop_done: "job_Status (job_at (site_store (snd own_stop_run)) ''job_b1'') = JobCancelled"
  by code_simp

lemma queued_before: "job_Status (job_at (site_store site1) ''job_b1'') = JobQueued"
  by code_simp

lemma requests_need_session:
  "\<not> outside_session ''/api/v1/jobs/job_b1/stop''" "\<not> outside_session ''/api/v1/organizations''"
  by code_simp+

lemma bearer_session: "bearerToken (req_Authorization (request verb path ''session1'')) = ''session1''"
    "bearerToken (req_Authorization (request verb path ''session2'')) = ''session2''"
  by (simp_all add: request_def) code_simp+

lemma web1_identity: "web_identity web1 = Some (Postgres (\<lambda>n. calm))"
  by (simp add: web1_def)

lemma authenticated: "fst (Authenticate (Postgres (\<lambda>n. calm)) (web_sha256 web1)
    (bearerToken (req_Authorization (request verb path ''session1''))) (cal_now call1) (site_world site1)) = signed_in ''session1''"
  "fst (Authenticate (Postgres (\<lambda>n. calm)) (web_sha256 web1)
    (bearerToken (req_Authorization (request verb path ''session2''))) (cal_now call1) (site_world site1)) = signed_in ''session2''"
  unfolding bearer_session by (simp_all add: signed_in_def web1_def call1_def)

lemma request_path: "req_Path (request verb path token) = path"
  by (simp add: request_def)

section \<open>Witnesses\<close>

lemma answers_need_their_credential_witness:
  "\<exists>p. bearerToken ''Bearer session1'' = ''session1'' \<and>
     fst (mdr_SessionPrincipal (Postgres (\<lambda>n. calm)) (tokenHash (web_sha256 web1) ''session1'') (cal_now call1)
       (site_world site1)) = Inr p"
proof -
  let ?req = "request ''GET'' ''/api/v1/organizations'' ''session1''"
  obtain d where d: "rsp_Body (fst (serve_http web1 call1 ?req site1)) = DataResponse d"
    using list_run_own unfolding list_run_def by (auto split: ApiResponse.splits)
  have hm: "cp_hasMetadata (web_controlPlane web1)" by code_simp
  have path: "\<not> HasPrefix ''/api/v1/organizations'' ''/api/v1/agents/''"
    "\<not> HasPrefix ''/api/v1/organizations'' ''/api/v1/training/''" "HasPrefix ''/api/v1/organizations'' ''/api/v1/''" by code_simp+
  have token: "bearerToken ''Bearer session1'' = ''session1''" by code_simp
  from answers_need_their_credential [OF web1_identity hm d] path token show ?thesis
    by (auto simp: path_credential_def request_path bearer_session)
qed

lemma tenants_are_isolated_witness:
  "foreign ''org2'' (dur_core (site_store (snd foreign_stop_run))) = foreign ''org2'' (dur_core (site_store site1)) \<and>
   foreign_job ''org2'' (dur_core (site_store site1)) ''job_b1'' \<noteq> None"
proof -
  let ?req = "request ''POST'' ''/api/v1/jobs/job_b1/stop'' ''session2''"
  let ?p = "projr (signed_in ''session2'')"
  have p: "home ?p = ''org2''" "usr_Role (prn_User ?p) \<noteq> RoleAdmin" by (simp_all add: signed_in_2 account_def)
  have auth: "fst (Authenticate (Postgres (\<lambda>n. calm)) (web_sha256 web1) (bearerToken (req_Authorization ?req)) (cal_now call1)
      (site_world site1)) = Inr ?p"
    unfolding authenticated by (simp add: signed_in_2)
  have path: "\<not> outside_session (req_Path ?req)" using requests_need_session by (simp add: request_path)
  have run: "serve_http web1 call1 ?req site1 = (fst foreign_stop_run, snd foreign_stop_run)"
    by (simp add: foreign_stop_run_def)
  note tenants_are_isolated [OF web1_identity site1_reachable site1_good path auth p(2) run]
  moreover have "foreign_job ''org2'' (dur_core (site_store site1)) ''job_b1'' \<noteq> None" by code_simp
  ultimately show ?thesis by (simp add: p(1))
qed

lemma tenants_see_own_data_witness:
  "case rsp_Body (fst list_run) of DataResponse v \<Rightarrow> own_data ''org1'' v | _ \<Rightarrow> True"
proof -
  let ?req = "request ''GET'' ''/api/v1/organizations'' ''session1''"
  let ?p = "projr (signed_in ''session1'')"
  have p: "home ?p = ''org1''" "usr_Role (prn_User ?p) \<noteq> RoleAdmin" by (simp_all add: signed_in_1 account_def)
  have auth: "fst (Authenticate (Postgres (\<lambda>n. calm)) (web_sha256 web1) (bearerToken (req_Authorization ?req)) (cal_now call1)
      (site_world site1)) = Inr ?p"
    unfolding authenticated by (simp add: signed_in_1)
  have policy: "cp_policy (web_controlPlane web1) = New_Engine (DevelopmentFacts_Facts
       \<lparr>dev_InSizingPlan = True, dev_QuotaGPUs = 4, dev_UsedGPUs = 0\<rparr>)"
    by (simp add: web1_def app_cp_def sample_options_def New_ControlPlane_def Let_def)
  have "\<not> outside_session (req_Path ?req)" using requests_need_session by (simp add: request_path)
  from tenants_see_own_data [OF web1_identity site1_reachable site1_good this auth p(2) policy] show ?thesis
    by (simp only: p(1) list_run_def)
qed

lemma changes_need_a_credential_witness:
  "session_valid (Postgres (\<lambda>n. calm)) web1 call1 (request ''POST'' ''/api/v1/jobs/job_b1/stop'' ''session1'') site1 \<or>
   server_valid web1 (request ''POST'' ''/api/v1/jobs/job_b1/stop'' ''session1'') site1 \<or>
   job_valid web1 call1 (request ''POST'' ''/api/v1/jobs/job_b1/stop'' ''session1'') site1 \<or>
   enrollment_valid (Postgres (\<lambda>n. calm)) web1 call1 (request ''POST'' ''/api/v1/jobs/job_b1/stop'' ''session1'') site1"
proof (rule changes_need_a_credential)
  show "site_store (snd (serve_http web1 call1 (request ''POST'' ''/api/v1/jobs/job_b1/stop'' ''session1'') site1)) \<noteq>
      site_store site1"
    using own_stop_done queued_before by (auto simp: own_stop_run_def)
qed (simp_all add: web1_def app_cp_def sample_options_def New_ControlPlane_def Let_def)

lemma logins_are_limited_witness:
  "admitted ''p'' (windows_after [] [(''p'', t0)]) (replicate 25 (''p'', t0 + Minute)) \<le> 39 \<and>
   admitted ''p'' (windows_after [] [(''p'', t0)]) (replicate 25 (''p'', t0 + Minute)) = 19"
proof -
  have "0 < t0" by code_simp
  then have "admitted ''p'' (windows_after [] [(''p'', t0)]) (replicate 25 (''p'', t0 + Minute)) \<le> 39"
    using logins_are_limited [of "[(''p'', t0)]" "t0 + Minute" "replicate 25 (''p'', t0 + Minute)" "''p''"]
    by (auto simp: set_replicate_conv_if)
  moreover have "admitted ''p'' (windows_after [] [(''p'', t0)]) (replicate 25 (''p'', t0 + Minute)) = 19" by code_simp
  ultimately show ?thesis by simp
qed

definition bind_run :: "nat \<Rightarrow> (go_error + ServerOwnership) \<times> Tables" where
  "bind_run n = BindEnrollment calm (tokenHash digest ''enrol-me'') ''machine-1'' t0
     (if n = 0 then fst metadata else snd (BindEnrollment calm (tokenHash digest ''enrol-me'') ''machine-1'' t0 (fst metadata)))"

lemma bind_ok: "\<not> isl (fst (bind_run 0)) \<and> \<not> isl (fst (bind_run 1))"
  by code_simp

lemma enrollment_binds_one_machine_witness: "projr (fst (bind_run 1)) = projr (fst (bind_run 0))"
proof -
  have "BindEnrollment calm (tokenHash digest ''enrol-me'') ''machine-1'' t0 (fst metadata) =
      (Inr (projr (fst (bind_run 0))), snd (bind_run 0))"
    using outcome_Inr [of "bind_run 0"] bind_ok by (simp add: bind_run_def)
  moreover have "BindEnrollment calm (tokenHash digest ''enrol-me'') ''machine-1'' t0 (snd (bind_run 0)) =
      (Inr (projr (fst (bind_run 1))), snd (bind_run 1))"
    using outcome_Inr [of "bind_run 1"] bind_ok by (simp add: bind_run_def)
  ultimately show ?thesis
    using enrollment_binds_one_machine [OF metadata_legal _ md_steps.here] by blast
qed

lemma session_is_authentic_witness:
  "org_Enabled (prn_Organization (projr (signed_in ''session1'')))"
proof -
  let ?r = "SessionPrincipal calm (tokenHash digest ''session1'') (t0 + Minute) (fst metadata)"
  have "\<not> isl (fst ?r)" by code_simp
  then have run: "?r = (Inr (projr (fst ?r)), snd ?r)" by (rule outcome_Inr)
  have "fst ?r = signed_in ''session1''" by code_simp
  with session_is_authentic [OF metadata_legal run] show ?thesis by auto
qed

lemma password_roundtrip_witness:
  "verifyPassword derive (usr_PasswordHash (account ''u1'' ''org1'')) ''a long password'' \<and>
   \<not> verifyPassword derive (usr_PasswordHash (account ''u1'' ''org1'')) ''another password''"
proof -
  have hash: "hashPassword derive (Inr ''salt'') ''a long password'' = Inr (usr_PasswordHash (account ''u1'' ''org1''))"
    by code_simp
  have derived: "derive ''a long password'' ''salt'' = Inr key \<Longrightarrow> length key = 32" for key
    by (auto simp: derive_def)
  have "derive ''another password'' ''salt'' \<noteq> derive ''a long password'' ''salt''" by (simp add: derive_def)
  with password_roundtrip [OF hash _ derived, of "''a long password''"] password_roundtrip [OF hash _ derived, of "''another password''"]
  show ?thesis by (auto simp: derive_def)
qed

section \<open>A login in flight outlives a revocation\<close>

text \<open>\<open>SaveUser\<close> revokes the sessions of the account, but a login that had read the account before and
  stores its session after it leaves a session that authenticates, although the password it was checked
  against is no longer the password of the account.\<close>

definition changed_account :: User where
  "changed_account = (account ''u1'' ''org1'')\<lparr>usr_PasswordHash := projr (hashPassword derive (Inr ''salt'') ''a new long password'')\<rparr>"

definition race :: "User \<times> Tables" where
  "race =
     (case UserByUsername calm ''u1'' (fst metadata) of
        (r, t) \<Rightarrow> (case SaveUser calm changed_account t of
          (_, t1) \<Rightarrow> (projr r, snd (CreateSession calm (tokenHash digest ''late'') (usr_ID (projr r)) (t0 + 8 * Hour) t1))))"

lemma login_outlives_revocation:
  "verifyPassword derive (usr_PasswordHash (fst race)) ''a long password'' \<and>
   (case SessionPrincipal calm (tokenHash digest ''late'') (t0 + Minute) (snd race) of
      (Inr p, t) \<Rightarrow> usr_ID (prn_User p) = ''u1'' \<and>
        (case map_of (tb_users t) ''u1'' of None \<Rightarrow> False
         | Some u \<Rightarrow> \<not> verifyPassword derive (usr_PasswordHash u) ''a long password'')
    | _ \<Rightarrow> False)"
  by code_simp

end
