(* ===== verification/Host_Readers.thy ===== *)
theory Host_Readers
  imports Agent_Inventory Policy_Engine Time_Format Go_Text
begin

text \<open>
  The readers behind the agent's interfaces: the GPU reader over NVML (\<open>internal/agent/gpu/nvml_linux.go\<close>),
  the cgroup resolver (\<open>cgroup_linux.go\<close>) and the facts about the host (\<open>hardware.go\<close> and
  \<open>discoverPlatform\<close> in \<open>preflight.go\<close>). The NVML library is an argument, the results of its calls by
  device; so are the files the readers open.
\<close>

section \<open>NVML\<close>

text \<open>What a call of NVML returns: a value, that the device does not support it, or another error.\<close>

datatype 'a nvml = Success 'a | NotSupported | NvmlError string

fun nvml_text :: "'a nvml \<Rightarrow> string" where
  "nvml_text (Success v) = ''SUCCESS''"
| "nvml_text NotSupported = ''Not Supported''"
| "nvml_text (NvmlError m) = m"

record Nvml =
  nv_Init :: "unit nvml"
  nv_Shutdown :: "unit nvml"
  nv_DeviceGetCount :: "int nvml"
  nv_GetHandle :: "nat \<Rightarrow> unit nvml"
  nv_GetUUID :: "nat \<Rightarrow> string nvml"
  nv_GetName :: "nat \<Rightarrow> string nvml"
  nv_GetMemoryInfo :: "nat \<Rightarrow> (64 word \<times> 64 word) nvml"
  nv_GetUtilizationRates :: "nat \<Rightarrow> int nvml"
  nv_GetMigMode :: "nat \<Rightarrow> int nvml"
  nv_GetTotalEccErrors :: "nat \<Rightarrow> 64 word nvml"
  nv_GetTemperature :: "nat \<Rightarrow> int nvml"
  nv_GetComputeProcesses :: "nat \<Rightarrow> (32 word \<times> 64 word) list nvml"
  nv_GetGraphicsProcesses :: "nat \<Rightarrow> (32 word \<times> 64 word) list nvml"
  nv_DriverVersion :: "string nvml"
  nv_CudaDriverVersion :: "int nvml"
  nv_ctxErr :: "nat \<Rightarrow> agent_error option"
  nv_comm :: "int \<Rightarrow> string option"

text \<open>A call whose failure ends the snapshot.\<close>

definition must :: "string \<Rightarrow> 'a nvml \<Rightarrow> (agent_error + 'a)" where
  "must what r = (case r of Success v \<Rightarrow> Inr v | _ \<Rightarrow> Inl (AgentError (what @ '': '' @ nvml_text r)))"

definition MiB :: "64 word \<Rightarrow> int" where
  "MiB bytes = uint (bytes div 1048576)"

text \<open>A device is healthy unless its utilisation cannot be read, it is partitioned, or it has uncorrectable
  memory errors or hides whether it has.\<close>

definition device_healthy :: "Nvml \<Rightarrow> nat \<Rightarrow> bool" where
  "device_healthy nv i \<longleftrightarrow>
     (case nv_GetUtilizationRates nv i of Success u \<Rightarrow> True | _ \<Rightarrow> False) \<and>
     (case nv_GetMigMode nv i of Success m \<Rightarrow> m = 0 | _ \<Rightarrow> True) \<and>
     (case nv_GetTotalEccErrors nv i of Success n \<Rightarrow> n = 0 | NotSupported \<Rightarrow> True | NvmlError e \<Rightarrow> False)"

definition device_gpu :: "Nvml \<Rightarrow> nat \<Rightarrow> string \<Rightarrow> string \<Rightarrow> 64 word \<times> 64 word \<Rightarrow> WireGPU" where
  "device_gpu nv i uuid model memory =
     \<lparr>wg_UUID = uuid, wg_Index = int i, wg_Model = model, wg_MemoryTotalMiB = MiB (fst memory),
      wg_MemoryUsedMiB = MiB (snd memory),
      wg_UtilizationPct = (case nv_GetUtilizationRates nv i of Success u \<Rightarrow> of_int u | _ \<Rightarrow> 0),
      wg_TemperatureC = (case nv_GetTemperature nv i of Success t \<Rightarrow> of_int t | _ \<Rightarrow> 0),
      wg_Healthy = device_healthy nv i, wg_State = ''FREE''\<rparr>"

definition processName :: "Nvml \<Rightarrow> int \<Rightarrow> string" where
  "processName nv pid = (case nv_comm nv pid of None \<Rightarrow> '''' | Some content \<Rightarrow> TrimSpace content)"

definition device_process :: "Nvml \<Rightarrow> string \<Rightarrow> 32 word \<times> 64 word \<Rightarrow> GPUProcess" where
  "device_process nv uuid p =
     \<lparr>proc_PID = uint (fst p), proc_GPUUUID = uuid,
      proc_UsedMemoryMiB = (if snd p \<noteq> - 1 then MiB (snd p) else 0), proc_ContainerID = '''',
      proc_ProcessName = processName nv (uint (fst p))\<rparr>"

definition process_key :: "string \<Rightarrow> int \<Rightarrow> string" where
  "process_key uuid pid = uuid @ CHR '':'' # show_digits pid"

text \<open>A process that computes and draws is listed once; \<open>seen\<close> is the set of keys so far.\<close>

fun add_processes ::
  "Nvml \<Rightarrow> string \<Rightarrow> (32 word \<times> 64 word) list \<Rightarrow> string list \<Rightarrow> GPUProcess list \<Rightarrow> string list \<times> GPUProcess list" where
  "add_processes nv uuid [] seen ps = (seen, ps)"
| "add_processes nv uuid (p # raw) seen ps =
     (let key = process_key uuid (uint (fst p)) in
      if List.member seen key then add_processes nv uuid raw seen ps
      else add_processes nv uuid raw (key # seen) (ps @ [device_process nv uuid p]))"

definition graphics :: "string \<Rightarrow> (32 word \<times> 64 word) list nvml \<Rightarrow> agent_error + (32 word \<times> 64 word) list" where
  "graphics what r = (case r of NotSupported \<Rightarrow> Inr [] | _ \<Rightarrow> must what r)"

text \<open>What is read of one device: its entry and its processes.\<close>

definition read_device :: "Nvml \<Rightarrow> nat \<Rightarrow> agent_error + WireGPU \<times> (32 word \<times> 64 word) list" where
  "read_device nv i =
     (let n = show_nat i in
      case nv_ctxErr nv i of Some e \<Rightarrow> Inl e | None \<Rightarrow>
      case must (''get GPU '' @ n @ '' handle'') (nv_GetHandle nv i) of Inl e \<Rightarrow> Inl e | Inr _ \<Rightarrow>
      case must (''get GPU '' @ n @ '' UUID'') (nv_GetUUID nv i) of Inl e \<Rightarrow> Inl e | Inr uuid \<Rightarrow>
      case must (''get GPU '' @ uuid @ '' model'') (nv_GetName nv i) of Inl e \<Rightarrow> Inl e | Inr model \<Rightarrow>
      case must (''get GPU '' @ uuid @ '' memory'') (nv_GetMemoryInfo nv i) of Inl e \<Rightarrow> Inl e | Inr memory \<Rightarrow>
      case must (''get GPU '' @ uuid @ '' compute processes'') (nv_GetComputeProcesses nv i) of Inl e \<Rightarrow> Inl e | Inr compute \<Rightarrow>
      case graphics (''get GPU '' @ uuid @ '' graphics processes'') (nv_GetGraphicsProcesses nv i) of Inl e \<Rightarrow> Inl e
      | Inr drawing \<Rightarrow> Inr (device_gpu nv i uuid model memory, compute @ drawing))"

fun read_devices ::
  "Nvml \<Rightarrow> nat list \<Rightarrow> string list \<Rightarrow> WireGPU list \<Rightarrow> GPUProcess list \<Rightarrow> agent_error + WireGPU list \<times> GPUProcess list" where
  "read_devices nv [] seen gpus ps = Inr (gpus, ps)"
| "read_devices nv (i # is) seen gpus ps =
     (case read_device nv i of Inl e \<Rightarrow> Inl e
      | Inr (g, raw) \<Rightarrow>
          (case add_processes nv (wg_UUID g) raw seen ps of
             (seen', ps') \<Rightarrow> read_devices nv is seen' (gpus @ [g]) ps'))"

definition nvml_Snapshot :: "Nvml \<Rightarrow> agent_error + WireGPU list \<times> GPUProcess list" where
  "nvml_Snapshot nv =
     (case must ''get GPU count'' (nv_DeviceGetCount nv) of Inl e \<Rightarrow> Inl e
      | Inr n \<Rightarrow> read_devices nv [0..<nat n] [] [] [])"

definition New_Reader :: "('w \<Rightarrow> Nvml) \<Rightarrow> 'w \<Rightarrow> agent_error + 'w gpu_reader" where
  "New_Reader nv w = map_sum id (\<lambda>_. \<lambda>w'. nvml_Snapshot (nv w')) (must ''initialize NVML'' (nv_Init (nv w)))"

definition Close_Reader :: "Nvml \<Rightarrow> bool \<Rightarrow> agent_error option \<times> bool" where
  "Close_Reader nv initialized =
     (if \<not> initialized then (None, False)
      else (case must ''shutdown NVML'' (nv_Shutdown nv) of Inl e \<Rightarrow> Some e | Inr _ \<Rightarrow> None, False))"

text \<open>The driver's version, and the CUDA version it supports, as major and minor.\<close>

definition DriverInfo :: "Nvml \<Rightarrow> bool \<Rightarrow> bool \<Rightarrow> string \<times> string" where
  "DriverInfo nv cancelled initialized =
     (if cancelled \<or> \<not> initialized then ('''', '''')
      else (case nv_DriverVersion nv of Success d \<Rightarrow> d | _ \<Rightarrow> '''',
            case nv_CudaDriverVersion nv of
              Success v \<Rightarrow> if 0 < v then show_int (v div 1000) @ ''.'' @ show_int (v mod 1000 div 10) else ''''
            | _ \<Rightarrow> ''''))"

section \<open>The cgroup of a process\<close>

text \<open>
  The pattern \<open>(?i)(?:docker[-/])?([a-f0-9]{12,64})(?:\.scope)?(?:$|/)\<close> at one position: the identifier it
  captures and what follows the match. A run of hexadecimal digits can only match as a whole, since
  neither a point, a slash nor the end of the text is such a digit. The dollar sign stands for the end
  of the text, not of a line.
\<close>

definition is_hex :: "char \<Rightarrow> bool" where
  "is_hex c \<longleftrightarrow> is_digit c \<or> lower_char c \<in> set ''abcdef''"

definition has_prefix_fold :: "string \<Rightarrow> string \<Rightarrow> bool" where
  "has_prefix_fold s p \<longleftrightarrow> map lower_char (take (length p) s) = p"

definition id_end :: "string \<Rightarrow> string option" where
  "id_end s = (if s = [] then Some [] else if hd s = CHR ''/'' then Some (tl s) else None)"

definition match_hex :: "string \<Rightarrow> (string \<times> string) option" where
  "match_hex s =
     (let run = takeWhile is_hex s; rest = dropWhile is_hex s in
      if length run < 12 \<or> 64 < length run then None
      else case (if has_prefix_fold rest ''.scope'' then id_end (drop 6 rest) else None) of
        Some r \<Rightarrow> Some (run, r)
      | None \<Rightarrow> map_option (Pair run) (id_end rest))"

definition match_container :: "string \<Rightarrow> (string \<times> string) option" where
  "match_container s =
     (case (if has_prefix_fold s ''docker-'' \<or> has_prefix_fold s ''docker/'' then match_hex (drop 7 s) else None) of
        Some m \<Rightarrow> Some m
      | None \<Rightarrow> match_hex s)"

lemma id_end_shorter: "id_end s = Some r \<Longrightarrow> length r \<le> length s"
  by (cases s) (auto simp: id_end_def split: if_splits)

lemma match_hex_shorter: "match_hex s = Some (i, r) \<Longrightarrow> length r < length s"
proof -
  assume m: "match_hex s = Some (i, r)"
  have split: "length (takeWhile is_hex s) + length (dropWhile is_hex s) = length s"
    by (metis length_append takeWhile_dropWhile_id)
  from m have "12 \<le> length (takeWhile is_hex s)" and "length r \<le> length (dropWhile is_hex s)"
    by (auto simp: match_hex_def Let_def dest!: id_end_shorter split: if_splits option.splits)
  with split show ?thesis by simp
qed

lemma match_container_shorter: "match_container s = Some (i, r) \<Longrightarrow> length r < length s"
  by (auto simp: match_container_def dest!: match_hex_shorter split: if_splits option.splits)

text \<open>\<open>FindAllSubmatch\<close>: the matches from left to right, none inside another.\<close>

function find_containers :: "string \<Rightarrow> string list" where
  "find_containers s =
     (case match_container s of
        Some (i, r) \<Rightarrow> i # find_containers r
      | None \<Rightarrow> if s = [] then [] else find_containers (tl s))"
  by auto
termination
  by (relation "measure length") (auto dest: match_container_shorter)

declare find_containers.simps [simp del]

definition cgroup_ContainerID :: "(int \<Rightarrow> agent_error + string) \<Rightarrow> int \<Rightarrow> agent_error + string" where
  "cgroup_ContainerID read pid =
     (case read pid of Inl e \<Rightarrow> Inl e
      | Inr content \<Rightarrow>
          (let ids = find_containers content in
           if ids = [] then Inl (AgentError (''PID '' @ show_int pid @ '' is not mapped to a Docker cgroup''))
           else Inr (last ids)))"

section \<open>The host\<close>

text \<open>What the runtime and the file system say: \<open>os_read\<close> is \<open>os.ReadFile\<close>, \<open>os_stat\<close> whether a path is
  there.\<close>

record OperatingSystem =
  os_hostname :: string
  os_GOOS :: string
  os_GOARCH :: string
  os_NumCPU :: int
  os_read :: "string \<Rightarrow> string option"
  os_stat :: "string \<Rightarrow> bool"

text \<open>\<open>strconv.ParseInt\<close> with its error ignored: the nearest bound for a number out of range.\<close>

definition parse_or_zero :: "string \<Rightarrow> int" where
  "parse_or_zero s =
     (case Atoi s of Some n \<Rightarrow> n
      | None \<Rightarrow>
          (let ds = (if take 1 s = ''-'' \<or> take 1 s = ''+'' then drop 1 s else s) in
           if ds = [] \<or> \<not> list_all is_digit ds then 0 else if take 1 s = ''-'' then min_int64 else max_int64))"

fun mem_total :: "string list \<Rightarrow> int option" where
  "mem_total [] = None"
| "mem_total (l # ls) =
     (case Fields_from [] l of
        k # v # _ \<Rightarrow> if k = ''MemTotal:'' then Some (go_div (parse_or_zero v) 1024) else mem_total ls
      | _ \<Rightarrow> mem_total ls)"

definition discoverHost :: "OperatingSystem \<Rightarrow> HostInfo" where
  "discoverHost os = \<lparr>host_Hostname = os_hostname os, host_OS = os_GOOS os, host_Architecture = os_GOARCH os,
     host_CPUCount = os_NumCPU os,
     host_MemoryTotalMiB = (case os_read os ''/proc/meminfo'' of None \<Rightarrow> 0
       | Some content \<Rightarrow> (case mem_total (Split (CHR 0x0A) content) of None \<Rightarrow> 0 | Some n \<Rightarrow> n))\<rparr>"

definition discoverPlatform :: "OperatingSystem \<Rightarrow> Capabilities" where
  "discoverPlatform os =
     (let machine = (case os_read os ''/etc/machine-id'' of None \<Rightarrow> False | Some s \<Rightarrow> TrimSpace s \<noteq> '''') in
      zero_capabilities\<lparr>cap_OS := os_GOOS os, cap_Architecture := os_GOARCH os,
        cap_MachineIDAvailable := machine, cap_AgentOperational := machine,
        cap_KernelVersion := (case os_read os ''/proc/sys/kernel/osrelease'' of None \<Rightarrow> '''' | Some s \<Rightarrow> TrimSpace s),
        cap_CgroupMode := (if os_stat os ''/sys/fs/cgroup/cgroup.controllers'' then ''v2''
                           else if os_stat os ''/sys/fs/cgroup'' then ''v1'' else ''UNKNOWN'')\<rparr>)"

section \<open>Properties\<close>

lemma process_key_inj:
  assumes "process_key u m = process_key v n" and "0 \<le> m" and "0 \<le> n"
  shows "u = v \<and> m = n"
proof -
  have d: "CHR '':'' \<notin> set (show_digits k)" if "0 \<le> k" for k
    using show_digits_read [OF that] by (auto simp: list_all_iff is_digit_def)
  have "takeWhile (\<lambda>c. c \<noteq> CHR '':'') (rev (w @ CHR '':'' # show_digits k)) = rev (show_digits k)" if "0 \<le> k" for w k
    using d [OF that] by (subst rev_append) (auto simp: takeWhile_append takeWhile_eq_all_conv)
  with assms have "show_digits m = show_digits n" by (metis process_key_def rev_rev_ident)
  with assms show_digits_inj show ?thesis by (auto simp: process_key_def)
qed

definition proc_key :: "GPUProcess \<Rightarrow> string" where
  "proc_key p = process_key (proc_GPUUUID p) (proc_PID p)"

definition listed_once :: "string list \<Rightarrow> GPUProcess list \<Rightarrow> bool" where
  "listed_once seen ps \<longleftrightarrow> set seen = set (map proc_key ps) \<and> distinct (map proc_key ps) \<and> list_all (\<lambda>p. 0 \<le> proc_PID p) ps"

lemma add_processes_listed:
  "add_processes nv uuid raw seen ps = (seen', ps') \<Longrightarrow> listed_once seen ps \<Longrightarrow>
     listed_once seen' ps' \<and> set ps \<subseteq> set ps' \<and> (\<forall>p \<in> set raw. process_key uuid (uint (fst p)) \<in> set (map proc_key ps'))"
proof (induction nv uuid raw seen ps rule: add_processes.induct)
  case (1 nv uuid seen ps)
  then show ?case by simp
next
  case (2 nv uuid p raw seen ps)
  let ?key = "process_key uuid (uint (fst p))"
  show ?case
  proof (cases "List.member seen ?key")
    case True
    with 2 have ih: "listed_once seen' ps' \<and> set ps \<subseteq> set ps' \<and>
        (\<forall>p \<in> set raw. process_key uuid (uint (fst p)) \<in> set (map proc_key ps'))" by (simp add: Let_def)
    moreover have "?key \<in> set (map proc_key ps)" using True 2(4) by (simp add: listed_once_def)
    ultimately show ?thesis by fastforce
  next
    case False
    have k: "proc_key (device_process nv uuid p) = ?key" by (simp add: proc_key_def device_process_def)
    have "listed_once (?key # seen) (ps @ [device_process nv uuid p])"
      using False 2(4) k by (auto simp: listed_once_def device_process_def)
    with 2 False have "listed_once seen' ps' \<and> set (ps @ [device_process nv uuid p]) \<subseteq> set ps' \<and>
        (\<forall>p \<in> set raw. process_key uuid (uint (fst p)) \<in> set (map proc_key ps'))" by (simp add: Let_def)
    with k show ?thesis by auto (metis image_eqI)
  qed
qed

definition running_on :: "Nvml \<Rightarrow> nat \<Rightarrow> (32 word \<times> 64 word) set" where
  "running_on nv i =
     (case nv_GetComputeProcesses nv i of Success l \<Rightarrow> set l | _ \<Rightarrow> {}) \<union>
     (case nv_GetGraphicsProcesses nv i of Success l \<Rightarrow> set l | _ \<Rightarrow> {})"

lemma must_Inr: "must what r = Inr v \<longleftrightarrow> r = Success v"
  by (cases r) (auto simp: must_def)

text \<open>What the entry of a device says, in terms of the answers of the driver.\<close>

definition device_entry :: "Nvml \<Rightarrow> nat \<Rightarrow> WireGPU \<Rightarrow> bool" where
  "device_entry nv i g \<longleftrightarrow> wg_Index g = int i \<and> nv_GetUUID nv i = Success (wg_UUID g) \<and>
     nv_GetName nv i = Success (wg_Model g) \<and>
     (\<exists>total used. nv_GetMemoryInfo nv i = Success (total, used) \<and>
        wg_MemoryTotalMiB g = uint total div 1048576 \<and> wg_MemoryUsedMiB g = uint used div 1048576) \<and>
     (\<forall>u. nv_GetUtilizationRates nv i = Success u \<longrightarrow> wg_UtilizationPct g = of_int u) \<and>
     (wg_Healthy g \<longleftrightarrow> (\<exists>u. nv_GetUtilizationRates nv i = Success u) \<and>
        (\<forall>m. nv_GetMigMode nv i = Success m \<longrightarrow> m = 0) \<and> nv_GetTotalEccErrors nv i \<in> {Success 0, NotSupported}) \<and>
     wg_State g = ''FREE''"

lemma device_gpu_entry:
  assumes "nv_GetUUID nv i = Success uuid" and "nv_GetName nv i = Success model" and "nv_GetMemoryInfo nv i = Success memory"
  shows "device_entry nv i (device_gpu nv i uuid model memory)"
proof -
  have "MiB w = uint w div 1048576" for w by (simp add: MiB_def uint_div)
  with assms show ?thesis
    by (cases memory) (auto simp: device_entry_def device_gpu_def device_healthy_def split: nvml.splits)
qed

lemma read_device_Inr:
  assumes "read_device nv i = Inr (g, raw)"
  shows "device_entry nv i g \<and> set raw = running_on nv i"
proof -
  from assms obtain uuid model memory where "g = device_gpu nv i uuid model memory" "nv_GetUUID nv i = Success uuid"
    "nv_GetName nv i = Success model" "nv_GetMemoryInfo nv i = Success memory" "set raw = running_on nv i"
    by (auto simp: read_device_def Let_def must_Inr graphics_def running_on_def
        split: option.splits sum.splits nvml.splits)
  with device_gpu_entry show ?thesis by blast
qed

lemma add_processes_from:
  "add_processes nv uuid raw seen ps = (seen', ps') \<Longrightarrow> set ps' \<subseteq> set ps \<union> device_process nv uuid ` set raw"
  by (induction nv uuid raw seen ps rule: add_processes.induct) (fastforce simp: Let_def split: if_splits)+

lemma read_devices_from:
  "read_devices nv is seen gpus ps = Inr (gpus', ps') \<Longrightarrow> p \<in> set ps' \<Longrightarrow>
     p \<in> set ps \<or> (\<exists>i \<in> set is. \<exists>u. \<exists>q \<in> running_on nv i. nv_GetUUID nv i = Success u \<and> p = device_process nv u q)"
proof (induction nv "is" seen gpus ps rule: read_devices.induct)
  case (2 nv i "is" seen gpus ps)
  from 2(2) obtain g raw where d: "read_device nv i = Inr (g, raw)" by (auto split: sum.splits)
  obtain seen1 ps1 where a: "add_processes nv (wg_UUID g) raw seen ps = (seen1, ps1)"
    by (cases "add_processes nv (wg_UUID g) raw seen ps")
  from read_device_Inr [OF d] have g: "nv_GetUUID nv i = Success (wg_UUID g)" "set raw = running_on nv i"
    by (simp_all add: device_entry_def)
  from 2(2) d a have "read_devices nv is seen1 (gpus @ [g]) ps1 = Inr (gpus', ps')" by simp
  from 2(1) [OF d refl a [symmetric] this 2(3)] add_processes_from [OF a] g show ?case by fastforce
qed simp

lemma read_devices_Inr:
  "read_devices nv is seen gpus ps = Inr (gpus', ps') \<Longrightarrow> listed_once seen ps \<Longrightarrow>
     \<exists>gs seen'. gpus' = gpus @ gs \<and> list_all2 (device_entry nv) is gs \<and> set ps \<subseteq> set ps' \<and> listed_once seen' ps' \<and>
       (\<forall>(i, g) \<in> set (zip is gs). \<forall>p \<in> running_on nv i. process_key (wg_UUID g) (uint (fst p)) \<in> set (map proc_key ps'))"
proof (induction nv "is" seen gpus ps rule: read_devices.induct)
  case (1 nv seen gpus ps)
  then show ?case by auto
next
  case (2 nv i "is" seen gpus ps)
  from 2(2) obtain g raw where d: "read_device nv i = Inr (g, raw)" by (auto split: sum.splits)
  obtain seen1 ps1 where a: "add_processes nv (wg_UUID g) raw seen ps = (seen1, ps1)"
    by (cases "add_processes nv (wg_UUID g) raw seen ps")
  note l = add_processes_listed [OF a 2(3)]
  from 2(2) d a have "read_devices nv is seen1 (gpus @ [g]) ps1 = Inr (gpus', ps')" by simp
  from 2(1) [OF d refl a [symmetric] this] l obtain gs seen' where
    ih: "gpus' = (gpus @ [g]) @ gs" "list_all2 (device_entry nv) is gs" "set ps1 \<subseteq> set ps'" "listed_once seen' ps'"
      "\<forall>(i, g) \<in> set (zip is gs). \<forall>p \<in> running_on nv i. process_key (wg_UUID g) (uint (fst p)) \<in> set (map proc_key ps')"
    by blast
  have "\<forall>p \<in> running_on nv i. process_key (wg_UUID g) (uint (fst p)) \<in> set (map proc_key ps')"
    using read_device_Inr [OF d] l ih(3) by fastforce
  with ih l read_device_Inr [OF d] show ?case
    by (intro exI [of _ "g # gs"] exI [of _ seen']) auto
qed

lemma nvml_Snapshot_Inr:
  assumes "nvml_Snapshot nv = Inr (gpus, ps)"
  obtains n seen where "nv_DeviceGetCount nv = Success n" and "length gpus = nat n" and "listed_once seen ps"
    and "list_all2 (device_entry nv) [0..<nat n] gpus"
    and "\<forall>(i, g) \<in> set (zip [0..<nat n] gpus). \<forall>p \<in> running_on nv i. process_key (wg_UUID g) (uint (fst p)) \<in> set (map proc_key ps)"
    and "\<forall>p \<in> set ps. \<exists>i < nat n. \<exists>u. \<exists>q \<in> running_on nv i. nv_GetUUID nv i = Success u \<and> p = device_process nv u q"
proof -
  obtain n where n: "nv_DeviceGetCount nv = Success n" and r: "read_devices nv [0..<nat n] [] [] [] = Inr (gpus, ps)"
    using assms by (auto simp: nvml_Snapshot_def must_Inr split: sum.splits)
  have "listed_once [] []" by (simp add: listed_once_def)
  from read_devices_Inr [OF r this] obtain seen where e: "list_all2 (device_entry nv) [0..<nat n] gpus"
    and l: "listed_once seen ps"
    and p: "\<forall>(i, g) \<in> set (zip [0..<nat n] gpus). \<forall>p \<in> running_on nv i. process_key (wg_UUID g) (uint (fst p)) \<in> set (map proc_key ps)"
    by auto
  from list_all2_lengthD [OF e] have "length gpus = nat n" by simp
  moreover have "\<forall>p \<in> set ps. \<exists>i < nat n. \<exists>u. \<exists>q \<in> running_on nv i. nv_GetUUID nv i = Success u \<and> p = device_process nv u q"
    using read_devices_from [OF r] by fastforce
  ultimately show thesis using n e l p that by blast
qed

lemma listed_once_distinct: "listed_once seen ps \<Longrightarrow> distinct (map (\<lambda>p. (proc_GPUUUID p, proc_PID p)) ps)"
  by (auto simp: listed_once_def distinct_map inj_on_def proc_key_def)

lemma listed_process:
  assumes "listed_once seen ps" and "process_key u (uint pid) \<in> set (map proc_key ps)"
  shows "\<exists>p \<in> set ps. proc_GPUUUID p = u \<and> proc_PID p = uint pid"
proof -
  from assms(2) obtain q where q: "q \<in> set ps" "proc_key q = process_key u (uint pid)" by auto
  with assms(1) have "0 \<le> proc_PID q" by (auto simp: listed_once_def list_all_iff)
  with process_key_inj [of "proc_GPUUUID q" "proc_PID q"] q show ?thesis by (auto simp: proc_key_def)
qed

text \<open>
  C19. The GPU reader reports what the driver says: a successful snapshot has one entry per device, in the
  order of the driver, with the device's UUID, model, memory in MiB and utilisation; a device is healthy
  exactly when its utilisation could be read, it is not partitioned, and its uncorrectable memory errors
  were read as none or are not supported; the processes reported are those the driver lists, for
  computing or for drawing, each for its device with its memory, and no process twice on one device.
\<close>

theorem nvml_snapshot_is_complete:
  assumes "nvml_Snapshot nv = Inr (gpus, ps)"
  shows "(\<exists>n. nv_DeviceGetCount nv = Success n \<and> int (length gpus) = max 0 n) \<and>
    (\<forall>i < length gpus. device_entry nv i (gpus ! i) \<and>
      (\<forall>(pid, used) \<in> running_on nv i. \<exists>p \<in> set ps. proc_GPUUUID p = wg_UUID (gpus ! i) \<and> proc_PID p = uint pid)) \<and>
    (\<forall>p \<in> set ps. \<exists>i < length gpus. \<exists>(pid, used) \<in> running_on nv i. proc_GPUUUID p = wg_UUID (gpus ! i) \<and>
       proc_PID p = uint pid \<and> proc_UsedMemoryMiB p = (if used = - 1 then 0 else uint used div 1048576)) \<and>
    distinct (map (\<lambda>p. (proc_GPUUUID p, proc_PID p)) ps)"
proof -
  from nvml_Snapshot_Inr [OF assms] obtain n seen where n: "nv_DeviceGetCount nv = Success n" and len: "length gpus = nat n"
    and l: "listed_once seen ps" and e: "list_all2 (device_entry nv) [0..<nat n] gpus"
    and p: "\<forall>(i, g) \<in> set (zip [0..<nat n] gpus). \<forall>p \<in> running_on nv i. process_key (wg_UUID g) (uint (fst p)) \<in> set (map proc_key ps)"
    and src: "\<forall>p \<in> set ps. \<exists>i < nat n. \<exists>u. \<exists>q \<in> running_on nv i. nv_GetUUID nv i = Success u \<and> p = device_process nv u q" .
  have entry: "device_entry nv i (gpus ! i)" if "i < length gpus" for i
    using e that by (auto simp: list_all2_conv_all_nth len)
  have "device_entry nv i (gpus ! i) \<and>
      (\<forall>(pid, used) \<in> running_on nv i. \<exists>p \<in> set ps. proc_GPUUUID p = wg_UUID (gpus ! i) \<and> proc_PID p = uint pid)"
    if i: "i < length gpus" for i
  proof -
    have "(i, gpus ! i) \<in> set (zip [0..<nat n] gpus)" using i len by (auto simp: in_set_zip intro!: exI [of _ i])
    with p listed_process [OF l] have "\<forall>(pid, used) \<in> running_on nv i.
        \<exists>p \<in> set ps. proc_GPUUUID p = wg_UUID (gpus ! i) \<and> proc_PID p = uint pid" by fastforce
    with entry [OF i] show ?thesis by blast
  qed
  moreover have "\<exists>i < length gpus. \<exists>(pid, used) \<in> running_on nv i. proc_GPUUUID p = wg_UUID (gpus ! i) \<and>
      proc_PID p = uint pid \<and> proc_UsedMemoryMiB p = (if used = - 1 then 0 else uint used div 1048576)"
    if "p \<in> set ps" for p
  proof -
    from src that obtain i u pid used where i: "i < length gpus" "(pid, used) \<in> running_on nv i"
      "nv_GetUUID nv i = Success u" "p = device_process nv u (pid, used)" unfolding len by fastforce
    with entry [OF i(1)] show ?thesis
      by (intro exI [of _ i] conjI bexI [of _ "(pid, used)"])
        (auto simp: device_entry_def device_process_def MiB_def uint_div)
  qed
  ultimately show ?thesis using n len listed_once_distinct [OF l] by auto
qed

text \<open>
  A process of a container is not found: the last line of a cgroup file ends with a newline, and the
  dollar sign of the pattern only matches at the end of the text. Below a further level the identifier
  is followed by a slash, and found.
\<close>

lemma cgroup_of_container_not_found:
  "find_containers (''0::/docker-0123456789ab.scope'' @ [CHR 0x0A]) = []"
  "find_containers (''0::/docker/0123456789ab'' @ [CHR 0x0A]) = []"
  "find_containers (''0::/docker/0123456789ab/init'' @ [CHR 0x0A]) = [''0123456789ab'']"
  by code_simp+

end
