(* ===== verification/Go_URL.thy ===== *)
theory Go_URL
  imports Go_Text Identity Training_Service
begin

text \<open>
  Go's \<open>net/url\<close> as far as the program uses it: \<open>url.Parse\<close>, the printing of a URL with a scheme, a host
  and a path, and \<open>url.ParseQuery\<close> of the queries the agent sends. Every caller discards the text of a
  parse error, so a failure is \<open>None\<close>. A path that is printed and parsed comes back
  (\<open>unescape_escape\<close>, \<open>parse_of_printed\<close>).
\<close>

section \<open>Escaping\<close>

datatype url_mode = InPath | InHost | InZone | InUser | InQuery | InFragment

definition unreserved :: "char \<Rightarrow> bool" where
  "unreserved c \<longleftrightarrow> (let n = of_char c :: nat in
     (48 \<le> n \<and> n \<le> 57) \<or> (65 \<le> n \<and> n \<le> 90) \<or> (97 \<le> n \<and> n \<le> 122)) \<or> List.member ''-_.~'' c"

text \<open>\<open>shouldEscape\<close>\<close>

definition should_escape :: "url_mode \<Rightarrow> char \<Rightarrow> bool" where
  "should_escape mode c \<longleftrightarrow> \<not> unreserved c \<and>
     \<not> ((mode = InHost \<or> mode = InZone) \<and> List.member (''!$&()*+,;=:[]<>'' @ [CHR 0x22, CHR 0x27]) c) \<and>
     (if List.member ''$&+,/:;=?@'' c
      then (case mode of InPath \<Rightarrow> c = CHR ''?'' | InUser \<Rightarrow> List.member ''@/?:'' c | InQuery \<Rightarrow> True
                       | InFragment \<Rightarrow> False | _ \<Rightarrow> True)
      else mode = InFragment \<longrightarrow> \<not> List.member ''!()*'' c)"

definition escape_byte :: "char \<Rightarrow> string" where
  "escape_byte c = (let n = of_char c :: nat in [CHR ''%'', hex_digit (n div 16), hex_digit (n mod 16)])"

definition escape :: "url_mode \<Rightarrow> string \<Rightarrow> string" where
  "escape mode s = concat (map (\<lambda>c. if \<not> should_escape mode c then [c]
     else if c = CHR '' '' \<and> mode = InQuery then ''+'' else escape_byte c) s)"

text \<open>A host only escapes bytes beyond ASCII (and the percent sign), a zone also what a host may not show.\<close>

definition escaped_ok :: "url_mode \<Rightarrow> nat \<Rightarrow> bool" where
  "escaped_ok mode n \<longleftrightarrow>
     (mode = InHost \<longrightarrow> 128 \<le> n \<or> n = 37) \<and>
     (mode = InZone \<longrightarrow> n = 37 \<or> n = 32 \<or> \<not> should_escape InHost (char_of n))"

fun unescape :: "url_mode \<Rightarrow> string \<Rightarrow> string option" where
  "unescape mode [] = Some []"
| "unescape mode (c # s) =
     (if c = CHR ''%''
      then (case s of a # b # r \<Rightarrow>
              (case (hex_value a, hex_value b) of
                 (Some h, Some l) \<Rightarrow>
                   if escaped_ok mode (16 * h + l) then map_option (Cons (char_of (16 * h + l))) (unescape mode r) else None
               | _ \<Rightarrow> None)
            | _ \<Rightarrow> None)
      else if c = CHR ''+'' \<and> mode = InQuery then map_option (Cons (CHR '' '')) (unescape mode s)
      else if (mode = InHost \<or> mode = InZone) \<and> (of_char c :: nat) < 128 \<and> should_escape mode c then None
      else map_option (Cons c) (unescape mode s))"

section \<open>Parsing\<close>

text \<open>\<open>url_User\<close> is whether there is user information; \<open>url_Opaque\<close> and the raw forms are not read.\<close>

record URL =
  url_Scheme :: string
  url_User :: bool
  url_Host :: string
  url_Path :: string
  url_RawQuery :: string
  url_Fragment :: string

definition empty_url :: URL where
  "empty_url = \<lparr>url_Scheme = '''', url_User = False, url_Host = '''', url_Path = '''', url_RawQuery = '''', url_Fragment = ''''\<rparr>"

definition is_letter :: "char \<Rightarrow> bool" where
  "is_letter c \<longleftrightarrow> (let n = of_char c :: nat in (65 \<le> n \<and> n \<le> 90) \<or> (97 \<le> n \<and> n \<le> 122))"

definition scheme_char :: "char \<Rightarrow> bool" where
  "scheme_char c \<longleftrightarrow> is_letter c \<or> is_digit c \<or> List.member ''+-.'' c"

text \<open>Without a colon behind a name, the whole text is the path.\<close>

definition getScheme :: "string \<Rightarrow> (string \<times> string) option" where
  "getScheme s =
     (let name = takeWhile scheme_char s; rest = drop (length name) s
      in if take 1 rest = '':''
         then (if name = [] then None else if is_letter (hd name) then Some (name, drop 1 rest) else Some ('''', s))
         else Some ('''', s))"

definition valid_port :: "string \<Rightarrow> bool" where
  "valid_port p \<longleftrightarrow> p = [] \<or> hd p = CHR '':'' \<and> list_all is_digit (tl p)"

text \<open>What precedes and what follows the last occurrence of a character.\<close>

definition cut_last :: "char \<Rightarrow> string \<Rightarrow> (string \<times> string) option" where
  "cut_last sep s = map_option (\<lambda>(a, b). (rev b, rev a)) (Cut sep (rev s))"

text \<open>The start of the zone of an IPv6 address: what precedes \<open>%25\<close>, and the rest from there.\<close>

fun cut_zone :: "string \<Rightarrow> (string \<times> string) option" where
  "cut_zone [] = None"
| "cut_zone (c # s) =
     (if HasPrefix (c # s) ''%25'' then Some ([], c # s)
      else map_option (\<lambda>(a, b). (c # a, b)) (cut_zone s))"

definition parseHost :: "string \<Rightarrow> string option" where
  "parseHost host =
     (if HasPrefix host ''[''
      then (case cut_last (CHR '']'') host of
              None \<Rightarrow> None
            | Some (addr, port) \<Rightarrow>
                if \<not> valid_port port then None
                else (case cut_zone addr of
                        None \<Rightarrow> unescape InHost host
                      | Some (a, z) \<Rightarrow>
                          (case (unescape InHost a, unescape InZone z, unescape InHost (CHR '']'' # port)) of
                             (Some a', Some z', Some p') \<Rightarrow> Some (a' @ z' @ p')
                           | _ \<Rightarrow> None)))
      else case cut_last (CHR '':'') host of
        Some (h, port) \<Rightarrow> if valid_port (CHR '':'' # port) then unescape InHost host else None
      | None \<Rightarrow> unescape InHost host)"

definition valid_userinfo :: "string \<Rightarrow> bool" where
  "valid_userinfo s \<longleftrightarrow> list_all (\<lambda>c. is_letter c \<or> is_digit c \<or> List.member (''-._:~!$&()*+,;=%@'' @ [CHR 0x27]) c) s"

definition user_parts :: "string \<Rightarrow> string list" where
  "user_parts info = (case Cut (CHR '':'') info of None \<Rightarrow> [info] | Some (u, p) \<Rightarrow> [u, p])"

definition parseAuthority :: "string \<Rightarrow> (bool \<times> string) option" where
  "parseAuthority s =
     (case cut_last (CHR ''@'') s of
        None \<Rightarrow> map_option (Pair False) (parseHost s)
      | Some (info, host) \<Rightarrow>
          (case parseHost host of None \<Rightarrow> None
           | Some h \<Rightarrow>
               if valid_userinfo info \<and> list_all (\<lambda>p. unescape InUser p \<noteq> None) (user_parts info)
               then Some (True, h) else None))"

definition is_control :: "char \<Rightarrow> bool" where
  "is_control c \<longleftrightarrow> (of_char c :: nat) < 32 \<or> (of_char c :: nat) = 127"

text \<open>Behind the scheme and before the query: an authority, if two slashes announce one, and the path.\<close>

definition parse_rest :: "URL \<Rightarrow> string \<Rightarrow> URL option" where
  "parse_rest u rest =
     (if \<not> HasPrefix rest ''/'' \<and> url_Scheme u \<noteq> '''' then Some u
      else if \<not> HasPrefix rest ''/'' \<and> List.member (hd (Split (CHR ''/'') rest)) (CHR '':'') then None
      else if HasPrefix rest ''//'' \<and> (url_Scheme u \<noteq> '''' \<or> \<not> HasPrefix rest ''///'')
      then (let authority = takeWhile (\<lambda>c. c \<noteq> CHR ''/'') (drop 2 rest);
                path = dropWhile (\<lambda>c. c \<noteq> CHR ''/'') (drop 2 rest)
            in case parseAuthority authority of None \<Rightarrow> None
               | Some (user, host) \<Rightarrow>
                   map_option (\<lambda>p. u\<lparr>url_User := user, url_Host := host, url_Path := p\<rparr>) (unescape InPath path))
      else map_option (\<lambda>p. u\<lparr>url_Path := p\<rparr>) (unescape InPath rest))"

definition parse_url :: "string \<Rightarrow> URL option" where
  "parse_url s =
     (if list_ex is_control s then None
      else if s = ''*'' then Some (empty_url\<lparr>url_Path := ''*''\<rparr>)
      else case getScheme s of None \<Rightarrow> None
      | Some (scheme, rest) \<Rightarrow>
          (let (path, query) = (case Cut (CHR ''?'') rest of None \<Rightarrow> (rest, '''') | Some (p, q) \<Rightarrow> (p, q))
           in parse_rest (empty_url\<lparr>url_Scheme := map lower_char scheme, url_RawQuery := query\<rparr>) path))"

text \<open>\<open>url.Parse\<close>\<close>

definition URL_Parse :: "string \<Rightarrow> URL option" where
  "URL_Parse s =
     (case Cut (CHR ''#'') s of
        None \<Rightarrow> parse_url s
      | Some (u, frag) \<Rightarrow>
          (case parse_url u of None \<Rightarrow> None
           | Some r \<Rightarrow> map_option (\<lambda>f. r\<lparr>url_Fragment := f\<rparr>) (unescape InFragment frag)))"

section \<open>Printing\<close>

text \<open>\<open>URL.String\<close> of a URL with a scheme, a host and a path that begins with a slash.\<close>

definition URL_String :: "string \<Rightarrow> string \<Rightarrow> string \<Rightarrow> string" where
  "URL_String scheme host path = scheme @ ''://'' @ escape InHost host @ escape InPath path"

section \<open>Queries\<close>

text \<open>\<open>url.ParseQuery\<close>, of which the handlers read the first value of a key; a pair that cannot be read
  is left out.\<close>

definition query_pair :: "string \<Rightarrow> (string \<times> string) option" where
  "query_pair p =
     (if p = '''' \<or> List.member p (CHR '';'') then None
      else (let (k, v) = (case Cut (CHR ''='') p of None \<Rightarrow> (p, '''') | Some kv \<Rightarrow> kv)
            in case (unescape InQuery k, unescape InQuery v) of (Some k', Some v') \<Rightarrow> Some (k', v') | _ \<Rightarrow> None))"

definition ParseQuery :: "string \<Rightarrow> labels" where
  "ParseQuery q = List.map_filter query_pair (Split (CHR ''&'') q)"

section \<open>Round trip\<close>

lemma of_char_split: "16 * ((of_char c :: nat) div 16) + (of_char c :: nat) mod 16 = of_char c"
  by simp

lemma hex_value_digit: "n < 16 \<Longrightarrow> hex_value (hex_digit n) = Some n"
  by (auto simp: hex_value_def hex_digit_def Let_def)

lemma escape_simps [simp]:
  "escape mode [] = []"
  "escape InPath (c # s) = (if should_escape InPath c then escape_byte c else [c]) @ escape InPath s"
  by (simp_all add: escape_def)

lemma of_char_less_256: "(of_char c :: nat) < 256"
  by (metis of_char_mod_256 mod_less_divisor zero_less_numeral)

lemma unescape_byte: "unescape InPath (escape_byte c @ r) = map_option (Cons c) (unescape InPath r)"
proof -
  have "(of_char c :: nat) div 16 < 16" "(of_char c :: nat) mod 16 < 16"
    using of_char_less_256 [of c] by (simp_all add: less_mult_imp_div_less)
  then show ?thesis
    by (simp add: escape_byte_def Let_def hex_value_digit escaped_ok_def)
qed

lemma percent_escaped: "should_escape InPath (CHR ''%'')"
  by code_simp

lemma unescape_escape: "unescape InPath (escape InPath s) = Some s"
proof (induction s)
  case Nil
  show ?case by simp
next
  case (Cons c s)
  show ?case
  proof (cases "should_escape InPath c")
    case True
    then show ?thesis by (simp add: unescape_byte Cons.IH)
  next
    case False
    then have "c \<noteq> CHR ''%''" using percent_escaped by metis
    with False show ?thesis by (simp add: Cons.IH)
  qed
qed

text \<open>What a printed path is made of.\<close>

definition printable :: "char \<Rightarrow> bool" where
  "printable c \<longleftrightarrow> \<not> is_control c \<and> c \<noteq> CHR ''#'' \<and> c \<noteq> CHR ''?''"

lemma of_char_eq_numeral: "(of_char c :: nat) = n \<Longrightarrow> c = char_of n"
  by (metis char_of_char)

lemma unreserved_printable: "unreserved c \<Longrightarrow> printable c"
  by (auto simp: unreserved_def printable_def is_control_def Let_def)

lemma shown_printable: "\<not> should_escape InPath c \<Longrightarrow> printable c"
  using unreserved_printable [of c]
  by (auto simp: should_escape_def printable_def is_control_def split: if_splits)

lemma hex_digit_printable: "n < 16 \<Longrightarrow> printable (hex_digit n)"
  by (auto simp: printable_def is_control_def hex_digit_def dest: arg_cong [of _ _ "of_char :: char \<Rightarrow> nat"])

lemma escape_byte_printable: "d \<in> set (escape_byte c) \<Longrightarrow> printable d"
proof -
  have n: "(of_char c :: nat) div 16 < 16" "(of_char c :: nat) mod 16 < 16"
    using of_char_less_256 [of c] by (simp_all add: less_mult_imp_div_less)
  have "printable (CHR ''%'')" by code_simp
  then show "d \<in> set (escape_byte c) \<Longrightarrow> printable d"
    using hex_digit_printable [OF n(1)] hex_digit_printable [OF n(2)]
    by (auto simp: escape_byte_def Let_def)
qed

lemma escape_printable: "d \<in> set (escape InPath s) \<Longrightarrow> printable d"
  by (induction s) (auto dest: escape_byte_printable intro: shown_printable split: if_splits)

lemma Cut_None: "c \<notin> set s \<Longrightarrow> Cut c s = None"
proof -
  assume "c \<notin> set s"
  then have "takeWhile (\<lambda>ca. ca \<noteq> c) s = s" by (auto simp: takeWhile_eq_all_conv)
  from arg_cong [OF this, of length] show "Cut c s = None" by (simp add: Cut_def Let_def)
qed

text \<open>A host of unreserved characters and the escaped path of any text come back.\<close>

lemma unreserved_host:
  assumes "list_all unreserved h"
  shows "escape InHost h = h" and "unescape InHost h = Some h" and "parseAuthority h = Some (False, h)"
proof -
  have sep: "\<not> unreserved c" if "List.member ''%[]:@/+'' c" for c
    using that by (auto simp: unreserved_def)
  have out: "c \<notin> set h" if "List.member ''%[]:@/+'' c" for c
    using sep [OF that] assms by (auto simp: list_all_iff)
  show e: "escape InHost h = h"
    using assms by (induction h) (auto simp: escape_def should_escape_def)
  have u: "unescape InHost s = Some s" if "list_all unreserved s" for s
    using that sep [of "CHR ''%''"] by (induction s) (auto simp: should_escape_def)
  then show "unescape InHost h = Some h" using assms .
  have "\<not> HasPrefix h ''[''" using out [of "CHR ''[''"] by (cases h) (auto simp: HasPrefix_def)
  then show "parseAuthority h = Some (False, h)"
    using out [of "CHR '':''"] out [of "CHR ''@''"] u [OF assms]
    by (simp add: parseAuthority_def parseHost_def cut_last_def Cut_None)
qed

lemma parse_of_printed:
  assumes h: "list_all unreserved host" and s: "scheme = ''s3''"
  shows "URL_Parse (URL_String scheme host (CHR ''/'' # path)) =
    Some (empty_url\<lparr>url_Scheme := scheme, url_Host := host, url_Path := CHR ''/'' # path\<rparr>)"
proof -
  let ?p = "escape InPath (CHR ''/'' # path)"
  let ?u = "scheme @ ''://'' @ host @ ?p"
  have slash: "\<not> should_escape InPath (CHR ''/'')" by code_simp
  have p: "?p = CHR ''/'' # escape InPath path" using slash by simp
  have pr: "printable c" if "c \<in> set ?u" for c
  proof -
    have "list_all printable ''s3://''" by code_simp
    then have "c \<in> set scheme \<union> set ''://'' \<Longrightarrow> printable c" by (auto simp: s list_all_iff)
    moreover have "c \<in> set host \<Longrightarrow> printable c"
      using h unreserved_printable by (simp add: list_all_iff)
    moreover note escape_printable [of c "CHR ''/'' # path"]
    moreover have "c \<in> set scheme \<union> set ''://'' \<or> c \<in> set host \<or> c \<in> set ?p"
      using that by (simp only: set_append Un_iff) blast
    ultimately show ?thesis by blast
  qed
  have sub: "set (''//'' @ host @ ?p) \<subseteq> set ?u" by (simp only: set_append) auto
  have no: "CHR ''#'' \<notin> set ?u" "CHR ''?'' \<notin> set (''//'' @ host @ ?p)" "\<not> list_ex is_control ?u"
    using pr [of "CHR ''#''"] pr [of "CHR ''?''"] sub pr unfolding printable_def list_ex_iff by blast+
  have host: "CHR ''/'' \<notin> set host" using h by (auto simp: list_all_iff unreserved_def)
  have auth: "takeWhile (\<lambda>c. c \<noteq> CHR ''/'') (host @ ?p) = host" "dropWhile (\<lambda>c. c \<noteq> CHR ''/'') (host @ ?p) = ?p"
    using host unfolding p by (auto simp: takeWhile_append dropWhile_append)
  have sch: "getScheme ?u = Some (scheme, ''//'' @ host @ ?p)"
    by (simp add: s getScheme_def scheme_char_def is_letter_def is_digit_def)
  have rest: "parse_rest (empty_url\<lparr>url_Scheme := scheme\<rparr>) (''//'' @ host @ ?p) =
      Some (empty_url\<lparr>url_Scheme := scheme, url_Host := host, url_Path := CHR ''/'' # path\<rparr>)"
    using unreserved_host(3) [OF h] unescape_escape [of "CHR ''/'' # path"] auth
    by (simp add: parse_rest_def HasPrefix_def s empty_url_def)
  have low: "lower_char (CHR ''s'') = CHR ''s''" "lower_char (CHR ''3'') = CHR ''3''" by code_simp+
  show ?thesis
    using no sch rest low
    by (simp add: URL_String_def unreserved_host(1) [OF h] URL_Parse_def parse_url_def Cut_None s empty_url_def
        del: escape_simps)
qed

end
