(* ===== verification/Object_Storage.thy ===== *)
theory Object_Storage
  imports Go_URL
begin

text \<open>
  \<open>internal/objectstore/s3/store.go\<close>: the object store of the training service over an S3 client. The
  client (package minio) is an argument: what it is constructed from, and what its four calls return.
  Objects are named by URIs that the store prints and reads back.
\<close>

section \<open>Opening\<close>

record S3Config =
  s3_Endpoint :: string
  s3_PublicEndpoint :: string
  s3_Region :: string
  s3_Bucket :: string
  s3_AccessKey :: string
  s3_SecretKey :: string
  s3_CreateBucket :: bool

record Minio =
  mio_PutObject :: "string \<Rightarrow> string \<Rightarrow> string \<Rightarrow> int \<Rightarrow> go_error + int"
  mio_PresignedGetObject :: "string \<Rightarrow> string \<Rightarrow> duration \<Rightarrow> go_error + string"
  mio_BucketExists :: "string \<Rightarrow> go_error + bool"
  mio_MakeBucket :: "string \<Rightarrow> string \<Rightarrow> go_error option"

record S3Store =
  sst_client :: Minio
  sst_signer :: Minio
  sst_bucket :: string

text \<open>A base URL: a web scheme, a host, and nothing else.\<close>

definition web_scheme :: "URL \<Rightarrow> bool" where
  "web_scheme u \<longleftrightarrow> url_Scheme u = ''http'' \<or> url_Scheme u = ''https''"

definition base_url :: "string \<Rightarrow> URL option" where
  "base_url s =
     (case URL_Parse s of None \<Rightarrow> None
      | Some u \<Rightarrow>
          if \<not> web_scheme u \<or> url_Host u = '''' \<or> (url_Path u \<noteq> '''' \<and> url_Path u \<noteq> ''/'') \<or> url_User u \<or>
             url_RawQuery u \<noteq> '''' \<or> url_Fragment u \<noteq> ''''
          then None else Some u)"

text \<open>\<open>minio_New host secure config\<close> is the constructor of the client.\<close>

definition clientFor :: "(string \<Rightarrow> bool \<Rightarrow> S3Config \<Rightarrow> go_error + Minio) \<Rightarrow> S3Config \<Rightarrow> string \<Rightarrow> go_error + Minio" where
  "clientFor minio_New c endpoint =
     (case base_url endpoint of None \<Rightarrow> Inl (ErrOther ''invalid S3 endpoint'')
      | Some u \<Rightarrow> minio_New (url_Host u) (url_Scheme u = ''https'') c)"

definition ensure_bucket :: "Minio \<Rightarrow> S3Config \<Rightarrow> go_error option" where
  "ensure_bucket client c =
     (if \<not> s3_CreateBucket c then None
      else case mio_BucketExists client (s3_Bucket c) of
        Inl e \<Rightarrow> Some (ErrOther ''cannot access artifact bucket'')
      | Inr True \<Rightarrow> None
      | Inr False \<Rightarrow>
          (case mio_MakeBucket client (s3_Bucket c) (s3_Region c) of
             None \<Rightarrow> None | Some e \<Rightarrow> Some (ErrOther ''cannot create artifact bucket'')))"

definition S3_New :: "(string \<Rightarrow> bool \<Rightarrow> S3Config \<Rightarrow> go_error + Minio) \<Rightarrow> S3Config \<Rightarrow> go_error + S3Store" where
  "S3_New minio_New c0 =
     (if s3_Bucket c0 = '''' \<or> s3_AccessKey c0 = '''' \<or> s3_SecretKey c0 = ''''
      then Inl (ErrOther ''object storage requires bucket and credentials'')
      else let c = (if s3_Region c0 = '''' then c0\<lparr>s3_Region := ''us-east-1''\<rparr> else c0) in
        case clientFor minio_New c (s3_Endpoint c) of Inl e \<Rightarrow> Inl e
        | Inr client \<Rightarrow>
            (case (if s3_PublicEndpoint c = '''' then Inr client else clientFor minio_New c (s3_PublicEndpoint c)) of
               Inl e \<Rightarrow> Inl e
             | Inr signer \<Rightarrow>
                 (case ensure_bucket client c of
                    Some e \<Rightarrow> Inl e
                  | None \<Rightarrow> Inr \<lparr>sst_client = client, sst_signer = signer, sst_bucket = s3_Bucket c\<rparr>)))"

section \<open>Objects\<close>

definition safeKey :: "string \<Rightarrow> bool" where
  "safeKey key \<longleftrightarrow> key \<noteq> '''' \<and> \<not> HasPrefix key ''/'' \<and> \<not> List.member key (CHR 0x5C) \<and>
     list_all (\<lambda>p. p \<noteq> '''' \<and> p \<noteq> ''.'' \<and> p \<noteq> ''..'') (Split (CHR ''/'') key)"

definition s3_Put :: "S3Store \<Rightarrow> string \<Rightarrow> string \<Rightarrow> int \<Rightarrow> go_error + string" where
  "s3_Put s key body bytes =
     (if \<not> safeKey key \<or> bytes \<le> 0 then Inl (ErrOther ''invalid object key or size'')
      else case mio_PutObject (sst_client s) (sst_bucket s) key body bytes of
        Inl e \<Rightarrow> Inl (ErrOther ''object upload failed'')
      | Inr stored \<Rightarrow>
          if stored \<noteq> bytes then Inl (ErrOther ''object upload failed'')
          else Inr (URL_String ''s3'' (sst_bucket s) (CHR ''/'' # key)))"

definition s3_DownloadURL :: "S3Store \<Rightarrow> string \<Rightarrow> duration \<Rightarrow> go_error + string" where
  "s3_DownloadURL s uri expires =
     (let invalid = Inl (ErrOther ''invalid artifact URI'') in
      case URL_Parse uri of None \<Rightarrow> invalid
      | Some u \<Rightarrow>
          (let key = TrimPrefix (url_Path u) ''/'' in
           if url_Scheme u \<noteq> ''s3'' \<or> url_Host u \<noteq> sst_bucket s \<or> url_User u \<or> url_RawQuery u \<noteq> '''' \<or>
              url_Fragment u \<noteq> '''' \<or> \<not> safeKey key
           then invalid
           else case mio_PresignedGetObject (sst_signer s) (sst_bucket s) key expires of
             Inl e \<Rightarrow> Inl (ErrOther ''cannot sign artifact download'')
           | Inr link \<Rightarrow> Inr link))"

text \<open>The store as the training service sees it.\<close>

definition s3_objects :: "S3Store \<Rightarrow> ObjectStore" where
  "s3_objects s = \<lparr>obj_Put = s3_Put s, obj_DownloadURL = s3_DownloadURL s\<rparr>"

section \<open>Properties\<close>

lemma s3_Put_Inr:
  "s3_Put s key body bytes = Inr uri \<Longrightarrow> safeKey key \<and> uri = URL_String ''s3'' (sst_bucket s) (CHR ''/'' # key)"
  by (auto simp: s3_Put_def split: if_splits sum.splits)

lemma download_of_put:
  assumes "list_all unreserved (sst_bucket s)" and "safeKey key"
  shows "s3_DownloadURL s (URL_String ''s3'' (sst_bucket s) (CHR ''/'' # key)) expires =
    (case mio_PresignedGetObject (sst_signer s) (sst_bucket s) key expires of
       Inl e \<Rightarrow> Inl (ErrOther ''cannot sign artifact download'') | Inr link \<Rightarrow> Inr link)"
  using parse_of_printed [OF assms(1) refl, of key] assms(2)
  by (simp add: s3_DownloadURL_def TrimPrefix_def HasPrefix_def empty_url_def)

lemma published_Some:
  "published up (Inr uri) ended now latest = Some u \<Longrightarrow> u = uri"
  by (auto simp: published_def split: sum.splits if_splits)

lemma published_is_put: "published up put_result ended now latest = Some u \<Longrightarrow> put_result = Inr u"
  by (auto simp: published_def split: sum.splits if_splits)

text \<open>
  C39. A published output can be downloaded: when an upload to the S3 store counts, the URI that is
  stored in the job is signed for exactly the object the upload wrote, under the key of the upload;
  whatever bytes the key has, the URI that is printed is read back. The bucket has a name of unreserved
  characters, as S3 asks.
\<close>

theorem published_output_is_downloadable:
  assumes "list_all unreserved (sst_bucket s)"
    and "published up (obj_Put (s3_objects s) (up_Key up) body bytes) ended now latest = Some uri"
  shows "safeKey (up_Key up) \<and>
    mio_PutObject (sst_client s) (sst_bucket s) (up_Key up) body bytes = Inr bytes \<and>
    obj_DownloadURL (s3_objects s) uri expires =
      (case mio_PresignedGetObject (sst_signer s) (sst_bucket s) (up_Key up) expires of
         Inl e \<Rightarrow> Inl (ErrOther ''cannot sign artifact download'') | Inr link \<Rightarrow> Inr link)"
proof -
  have put: "s3_Put s (up_Key up) body bytes = Inr uri"
    using published_is_put [OF assms(2)] by (simp add: s3_objects_def)
  from s3_Put_Inr [OF this] have key: "safeKey (up_Key up)"
    and uri: "uri = URL_String ''s3'' (sst_bucket s) (CHR ''/'' # up_Key up)" by auto
  from put key have "mio_PutObject (sst_client s) (sst_bucket s) (up_Key up) body bytes = Inr bytes"
    by (auto simp: s3_Put_def split: sum.splits if_splits)
  with key download_of_put [OF assms(1) key, of expires] show ?thesis
    by (simp add: uri s3_objects_def)
qed

text \<open>Keys of the training service are safe when the identifiers in them are.\<close>

definition plain_name :: "string \<Rightarrow> bool" where
  "plain_name s \<longleftrightarrow> s \<noteq> '''' \<and> s \<noteq> ''.'' \<and> s \<noteq> ''..'' \<and> list_all (\<lambda>c. c \<noteq> CHR ''/'' \<and> c \<noteq> CHR 0x5C) s"

end
