(* ===== verification/Configuration.thy ===== *)
theory Configuration
  imports Object_Storage
begin

text \<open>
  The configuration of the server (\<open>internal/config/config.go\<close>, \<open>training.go\<close>) and of the agent
  (\<open>internal/agent/config/config.go\<close>): the environment, completed from a file, parsed and checked. The
  environment of the process is a map; loading it takes the map and returns it completed. Errors are
  values that name the setting they are about.
\<close>

section \<open>The environment\<close>

datatype config_error =
    UnreadableFile string | NoSeparator | BadEntry | LongLine | ReadFailure string
  | Unparsed string string | NotPositive string | BadSetting string | BadConfig string

type_synonym env_vars = labels

text \<open>\<open>value, err := r; if err != nil { return err }\<close>\<close>

definition check :: "'e + 'a \<Rightarrow> ('a \<Rightarrow> 'e + 'b) \<Rightarrow> 'e + 'b" where
  "check r f = (case r of Inl e \<Rightarrow> Inl e | Inr v \<Rightarrow> f v)"

definition require :: "'e \<Rightarrow> bool \<Rightarrow> 'e + 'b \<Rightarrow> 'e + 'b" where
  "require e p r = (if p then r else Inl e)"

lemma check_Inr [simp]: "check r f = Inr w \<longleftrightarrow> (\<exists>v. r = Inr v \<and> f v = Inr w)"
  by (cases r) (auto simp: check_def)

lemma require_Inr [simp]: "require e p r = Inr w \<longleftrightarrow> p \<and> r = Inr w"
  by (auto simp: require_def)

text \<open>\<open>os.Setenv\<close> refuses an empty name, and a zero byte in the name or the value.\<close>

definition Setenv :: "string \<Rightarrow> string \<Rightarrow> env_vars \<Rightarrow> env_vars option" where
  "Setenv key v e =
     (if key = '''' \<or> List.member key (CHR ''='') \<or> List.member key (CHR 0x00) \<or> List.member v (CHR 0x00)
      then None else Some (put key v e))"

section \<open>The .env files\<close>

text \<open>What is found at the path: no file, one that cannot be opened, or its content, which a failing read
  may cut short.\<close>

datatype env_file = NoEnvFile | UnreadableEnvFile string | EnvFile string "string option"

definition env_quotes :: string where
  "env_quotes = [CHR 0x22, CHR 0x27]"

text \<open>One line: skipped when it is empty or a comment, otherwise a name and a value. A name that is already
  in the environment keeps its value.\<close>

definition env_line :: "string \<Rightarrow> env_vars \<Rightarrow> config_error + env_vars" where
  "env_line line e =
     (let l = TrimSpace line in
      if l = '''' \<or> HasPrefix l ''#'' then Inr e
      else case Cut (CHR ''='') l of
        None \<Rightarrow> Inl NoSeparator
      | Some (k, v) \<Rightarrow>
          (let key = TrimSpace k; vl = Trim env_quotes (TrimSpace v) in
           if map_of e key \<noteq> None then Inr e
           else case Setenv key vl e of None \<Rightarrow> Inl BadEntry | Some e' \<Rightarrow> Inr e'))"

text \<open>The environment as the lines leave it; an error stops the loop, and what was set before it stays.\<close>

fun env_lines :: "string list \<Rightarrow> env_vars \<Rightarrow> config_error option \<times> env_vars" where
  "env_lines [] e = (None, e)"
| "env_lines (l # ls) e =
     (case env_line l e of Inl err \<Rightarrow> (Some err, e) | Inr e' \<Rightarrow> env_lines ls e')"

definition loadDotEnv :: "env_file \<Rightarrow> env_vars \<Rightarrow> config_error option \<times> env_vars" where
  "loadDotEnv f e =
     (case f of
        NoEnvFile \<Rightarrow> (None, e)
      | UnreadableEnvFile m \<Rightarrow> (Some (UnreadableFile m), e)
      | EnvFile content broken \<Rightarrow>
          (let (ls, long) = scan_lines content in
           case env_lines ls e of
             (Some err, e') \<Rightarrow> (Some err, e')
           | (None, e') \<Rightarrow> (if long then Some LongLine else map_option ReadFailure broken, e')))"

section \<open>Settings of the server\<close>

definition env :: "env_vars \<Rightarrow> string \<Rightarrow> string \<Rightarrow> string" where
  "env e key fallback = (case map_of e key of Some v \<Rightarrow> v | None \<Rightarrow> fallback)"

definition envDuration :: "env_vars \<Rightarrow> string \<Rightarrow> duration \<Rightarrow> config_error + duration" where
  "envDuration e key fallback =
     (case map_of e key of
        None \<Rightarrow> Inr fallback
      | Some raw_value \<Rightarrow>
          if raw_value = '''' then Inr fallback
          else case ParseDuration raw_value of
            None \<Rightarrow> Inl (Unparsed key raw_value)
          | Some d \<Rightarrow> if d \<le> 0 then Inl (NotPositive key) else Inr d)"

definition BoolEnv :: "env_vars \<Rightarrow> string \<Rightarrow> bool \<Rightarrow> config_error + bool" where
  "BoolEnv e key fallback =
     (case map_of e key of
        None \<Rightarrow> Inr fallback
      | Some raw_value \<Rightarrow>
          if raw_value = '''' then Inr fallback
          else case ParseBool raw_value of None \<Rightarrow> Inl (Unparsed key raw_value) | Some b \<Rightarrow> Inr b)"

definition splitCSV :: "string \<Rightarrow> string list" where
  "splitCSV v = filter (\<lambda>item. item \<noteq> '''') (map TrimSpace (Split (CHR '','') v))"

text \<open>A number with a least value; \<open>strconv.ParseInt(s, 10, 64)\<close> is \<open>Atoi\<close> where \<open>int\<close> has 64 bits.\<close>

definition int_setting :: "env_vars \<Rightarrow> string \<Rightarrow> string \<Rightarrow> int \<Rightarrow> config_error + int" where
  "int_setting e key fallback least =
     (case Atoi (env e key fallback) of
        None \<Rightarrow> Inl (BadSetting key)
      | Some n \<Rightarrow> if n < least then Inl (BadSetting key) else Inr n)"

section \<open>Training\<close>

fun finite_value :: "go_float \<Rightarrow> rat" where
  "finite_value (Finite q) = q"
| "finite_value _ = 0"

definition warning_fraction :: "env_vars \<Rightarrow> config_error + rat" where
  "warning_fraction e =
     (case ParseFloat (env e ''AIWM_CHECKPOINT_WARNING_FRACTION'' ''0.1'') of
        None \<Rightarrow> Inl (BadSetting ''AIWM_CHECKPOINT_WARNING_FRACTION'')
      | Some f \<Rightarrow>
          if \<not> (float_less (Finite 0) f \<and> float_le f (Finite 1))
          then Inl (BadSetting ''AIWM_CHECKPOINT_WARNING_FRACTION'') else Inr (finite_value f))"

text \<open>With an object store, the address training containers call has to be a base URL, and there have to
  be credentials.\<close>

definition storage_checks :: "S3Config \<Rightarrow> string \<Rightarrow> config_error option" where
  "storage_checks c api =
     (if s3_Endpoint c = '''' then None
      else if base_url api = None then Some (BadConfig ''AIWM_TRAINING_API_URL'')
      else if s3_AccessKey c = '''' \<or> s3_SecretKey c = '''' then Some (BadConfig ''AIWM_S3_ACCESS_KEY'')
      else None)"

definition s3_settings :: "env_vars \<Rightarrow> bool \<Rightarrow> S3Config" where
  "s3_settings e create = \<lparr>s3_Endpoint = env e ''AIWM_S3_ENDPOINT'' '''',
     s3_PublicEndpoint = env e ''AIWM_S3_PUBLIC_ENDPOINT'' '''',
     s3_Region = env e ''AIWM_S3_REGION'' ''us-east-1'', s3_Bucket = env e ''AIWM_S3_BUCKET'' ''aiwm-artifacts'',
     s3_AccessKey = env e ''AIWM_S3_ACCESS_KEY'' '''', s3_SecretKey = env e ''AIWM_S3_SECRET_KEY'' '''',
     s3_CreateBucket = create\<rparr>"

definition loadTraining :: "env_vars \<Rightarrow> config_error + S3Config \<times> TrainingOptions" where
  "loadTraining e =
     (let d = DefaultTrainingOptions; api = env e ''AIWM_TRAINING_API_URL'' '''' in
      check (BoolEnv e ''AIWM_S3_CREATE_BUCKET'' False) (\<lambda>create.
      check (warning_fraction e) (\<lambda>fraction.
      check (envDuration e ''AIWM_CHECKPOINT_WARNING_MIN'' (trn_MinWarningLead d)) (\<lambda>least.
      check (envDuration e ''AIWM_CHECKPOINT_WARNING_MAX'' (trn_MaxWarningLead d)) (\<lambda>most.
      check (envDuration e ''AIWM_TRAINING_UPLOAD_TIMEOUT'' (trn_UploadTimeout d)) (\<lambda>timeout.
      require (BadConfig ''checkpoint warning maximum must be >= minimum'') (least \<le> most) (
      check (int_setting e ''AIWM_TRAINING_MAX_UPLOAD_BYTES'' ''5368709120'' 1) (\<lambda>bytes.
        let c = s3_settings e create in
        case storage_checks c api of
          Some err \<Rightarrow> Inl err
        | None \<Rightarrow> Inr (c, \<lparr>trn_APIURL = api, trn_WarningFraction = fraction, trn_MinWarningLead = least,
            trn_MaxWarningLead = most, trn_UploadTimeout = timeout, trn_MaxUploadBytes = bytes\<rparr>)))))))))"

section \<open>The server\<close>

record Config =
  cnf_ObjectStorage :: S3Config
  cnf_Training :: TrainingOptions
  cnf_DatabaseURL :: string
  cnf_BootstrapOrganizationCode :: string
  cnf_BootstrapOrganizationName :: string
  cnf_BootstrapUsername :: string
  cnf_BootstrapPassword :: string
  cnf_DevelopmentInSizingPlan :: bool
  cnf_DevelopmentQuotaGPUs :: int
  cnf_DevelopmentUsedGPUs :: int
  cnf_MaxGPUCount :: int
  cnf_MaxTTLSeconds :: int
  cnf_HTTPAddr :: string
  cnf_StateFile :: string
  cnf_PublicAPIToken :: string
  cnf_TLSCertFile :: string
  cnf_TLSKeyFile :: string
  cnf_EnrollmentToken :: string
  cnf_HeartbeatInterval :: duration
  cnf_OfflineAfter :: duration
  cnf_CommandLease :: duration
  cnf_SchedulerInterval :: duration
  cnf_ReconcileInterval :: duration
  cnf_SchedulerStrategy :: SchedulingStrategy
  cnf_CORSOrigins :: "string list"
  cnf_LogLevel :: string

text \<open>The texts are read first, then the settings that can fail, in the order of the code.\<close>

definition text_settings :: "env_vars \<Rightarrow> S3Config \<Rightarrow> TrainingOptions \<Rightarrow> Config" where
  "text_settings e storage training =
     \<lparr>cnf_ObjectStorage = storage, cnf_Training = training,
      cnf_DatabaseURL = env e ''AIWM_DATABASE_URL'' '''',
      cnf_BootstrapOrganizationCode = env e ''AIWM_BOOTSTRAP_ORGANIZATION_CODE'' '''',
      cnf_BootstrapOrganizationName = env e ''AIWM_BOOTSTRAP_ORGANIZATION_NAME'' '''',
      cnf_BootstrapUsername = env e ''AIWM_BOOTSTRAP_USERNAME'' '''',
      cnf_BootstrapPassword = env e ''AIWM_BOOTSTRAP_PASSWORD'' '''',
      cnf_DevelopmentInSizingPlan = False, cnf_DevelopmentQuotaGPUs = 0, cnf_DevelopmentUsedGPUs = 0,
      cnf_MaxGPUCount = 0, cnf_MaxTTLSeconds = 0,
      cnf_HTTPAddr = env e ''AIWM_HTTP_ADDR'' ''127.0.0.1:8080'',
      cnf_StateFile = env e ''AIWM_STATE_FILE'' ''.local/control-plane.gob'',
      cnf_PublicAPIToken = env e ''AIWM_API_TOKEN'' '''',
      cnf_TLSCertFile = env e ''AIWM_TLS_CERT_FILE'' '''', cnf_TLSKeyFile = env e ''AIWM_TLS_KEY_FILE'' '''',
      cnf_EnrollmentToken = env e ''AIWM_ENROLLMENT_TOKEN'' '''',
      cnf_HeartbeatInterval = 0, cnf_OfflineAfter = 0, cnf_CommandLease = 0, cnf_SchedulerInterval = 0,
      cnf_ReconcileInterval = 0,
      cnf_SchedulerStrategy = env e ''AIWM_SCHEDULER_STRATEGY'' StrategyBestFit,
      cnf_CORSOrigins = splitCSV (env e ''AIWM_CORS_ORIGINS'' ''http://localhost:5173,http://localhost:3000''),
      cnf_LogLevel = env e ''AIWM_LOG_LEVEL'' ''info''\<rparr>"

definition numeric_settings :: "env_vars \<Rightarrow> Config \<Rightarrow> config_error + Config" where
  "numeric_settings e c =
     check (BoolEnv e ''AIWM_DEV_IN_SIZING_PLAN'' False) (\<lambda>sizing.
     check (int_setting e ''AIWM_DEV_QUOTA_GPUS'' ''4'' 0) (\<lambda>quota.
     check (int_setting e ''AIWM_DEV_QUOTA_USED_GPUS'' ''0'' 0) (\<lambda>used.
     check (int_setting e ''AIWM_MAX_GPU_COUNT'' ''64'' 1) (\<lambda>gpus.
     check (int_setting e ''AIWM_MAX_TTL_SECONDS'' ''2592000'' 1) (\<lambda>ttl.
       Inr (c\<lparr>cnf_DevelopmentInSizingPlan := sizing, cnf_DevelopmentQuotaGPUs := quota,
              cnf_DevelopmentUsedGPUs := used, cnf_MaxGPUCount := gpus, cnf_MaxTTLSeconds := ttl\<rparr>))))))"

definition interval_settings :: "env_vars \<Rightarrow> Config \<Rightarrow> config_error + Config" where
  "interval_settings e c =
     check (envDuration e ''AIWM_AGENT_HEARTBEAT_INTERVAL'' (5 * Second)) (\<lambda>heartbeat.
     check (envDuration e ''AIWM_AGENT_OFFLINE_AFTER'' (20 * Second)) (\<lambda>offline.
     check (envDuration e ''AIWM_COMMAND_LEASE'' (15 * Second)) (\<lambda>lease.
     check (envDuration e ''AIWM_SCHEDULER_INTERVAL'' (2 * Second)) (\<lambda>scheduler.
     check (envDuration e ''AIWM_RECONCILE_INTERVAL'' (5 * Second)) (\<lambda>reconcile.
       Inr (c\<lparr>cnf_HeartbeatInterval := heartbeat, cnf_OfflineAfter := offline, cnf_CommandLease := lease,
              cnf_SchedulerInterval := scheduler, cnf_ReconcileInterval := reconcile\<rparr>))))))"

definition final_checks :: "Config \<Rightarrow> config_error + Config" where
  "final_checks c =
     require (BadConfig ''AIWM_AGENT_OFFLINE_AFTER must be greater than heartbeat interval'')
       (cnf_HeartbeatInterval c < cnf_OfflineAfter c) (
     require (BadConfig ''invalid AIWM_SCHEDULER_STRATEGY'') (ValidStrategy (cnf_SchedulerStrategy c)) (
     require (BadConfig ''both TLS certificate and key are required'')
       ((cnf_TLSCertFile c = '''') = (cnf_TLSKeyFile c = '''')) (
     require (BadConfig ''AIWM_DATABASE_URL is required'') (cnf_DatabaseURL c \<noteq> '''') (Inr c))))"

definition config_Load :: "env_file \<Rightarrow> env_vars \<Rightarrow> config_error + Config" where
  "config_Load f e0 =
     (case loadDotEnv f e0 of
        (Some err, e) \<Rightarrow> Inl err
      | (None, e) \<Rightarrow>
          check (loadTraining e) (\<lambda>(storage, training).
          check (numeric_settings e (text_settings e storage training)) (\<lambda>c1.
          check (interval_settings e c1) final_checks)))"

section \<open>The agent\<close>

text \<open>The agent trims every value and takes a blank one for none.\<close>

definition agent_env :: "env_vars \<Rightarrow> string \<Rightarrow> string \<Rightarrow> string" where
  "agent_env e key fallback = (let v = TrimSpace (label_get e key) in if v \<noteq> '''' then v else fallback)"

definition agent_duration :: "env_vars \<Rightarrow> string \<Rightarrow> duration \<Rightarrow> config_error + duration" where
  "agent_duration e key fallback =
     (let v = TrimSpace (label_get e key) in
      if v = '''' then Inr fallback
      else case ParseDuration v of None \<Rightarrow> Inl (Unparsed key v) | Some d \<Rightarrow> Inr d)"

definition agent_Bool :: "env_vars \<Rightarrow> string \<Rightarrow> bool \<Rightarrow> config_error + bool" where
  "agent_Bool e key fallback =
     (let v = TrimSpace (label_get e key) in
      if v = '''' then Inr fallback
      else case ParseBool v of None \<Rightarrow> Inl (Unparsed key v) | Some b \<Rightarrow> Inr b)"

definition add_label :: "labels \<Rightarrow> string \<Rightarrow> labels" where
  "add_label m item =
     (case Cut (CHR ''='') item of
        None \<Rightarrow> m
      | Some (k, v) \<Rightarrow> if TrimSpace k \<noteq> '''' then put (TrimSpace k) (TrimSpace v) m else m)"

definition parseLabels :: "string \<Rightarrow> labels" where
  "parseLabels v = foldl add_label [] (Split (CHR '','') v)"

definition defaultControlPlaneURL :: "string \<Rightarrow> string" where
  "defaultControlPlaneURL release =
     (let v = TrimSpace release in if v \<noteq> '''' then v else ''http://localhost:8080'')"

text \<open>\<open>/etc/machine-id\<close>, when it can be read.\<close>

definition readMachineID :: "string option \<Rightarrow> string" where
  "readMachineID content = (case content of None \<Rightarrow> '''' | Some s \<Rightarrow> TrimSpace s)"

record AgentConfig =
  acf_ControlPlaneURL :: string
  acf_EnrollmentToken :: string
  acf_MachineID :: string
  acf_Name :: string
  acf_Labels :: labels
  acf_StateFile :: string
  acf_HeartbeatEvery :: duration
  acf_InventoryEvery :: duration
  acf_CommandPollEvery :: duration
  acf_RequestTimeout :: duration
  acf_TLSCAFile :: string
  acf_TLSCertFile :: string
  acf_TLSKeyFile :: string
  acf_LogLevel :: string
  acf_DockerEndpoint :: string
  acf_UnknownMemoryMiB :: int
  acf_UnknownUtilizationPct :: go_float

text \<open>What the process finds on its host besides the environment.\<close>

record HostFacts =
  hst_Hostname :: string
  hst_MachineID :: "string option"
  hst_ReleaseURL :: string

definition machine_identity :: "HostFacts \<Rightarrow> env_vars \<Rightarrow> string" where
  "machine_identity h e =
     (let m = TrimSpace (label_get e ''AIWM_AGENT_MACHINE_ID'');
          m = (if m = '''' then readMachineID (hst_MachineID h) else m)
      in if m = '''' then hst_Hostname h else m)"

definition agent_texts :: "HostFacts \<Rightarrow> env_vars \<Rightarrow> AgentConfig" where
  "agent_texts h e =
     \<lparr>acf_ControlPlaneURL = agent_env e ''AIWM_CONTROL_PLANE_URL'' (defaultControlPlaneURL (hst_ReleaseURL h)),
      acf_EnrollmentToken = agent_env e ''AIWM_ENROLLMENT_TOKEN'' '''',
      acf_MachineID = machine_identity h e, acf_Name = agent_env e ''AIWM_AGENT_NAME'' (hst_Hostname h),
      acf_Labels = parseLabels (label_get e ''AIWM_AGENT_LABELS''),
      acf_StateFile = agent_env e ''AIWM_AGENT_STATE_FILE'' ''/var/lib/aiwm-agent/state.json'',
      acf_HeartbeatEvery = 0, acf_InventoryEvery = 0, acf_CommandPollEvery = 0, acf_RequestTimeout = 0,
      acf_TLSCAFile = label_get e ''AIWM_AGENT_TLS_CA_FILE'',
      acf_TLSCertFile = label_get e ''AIWM_AGENT_TLS_CERT_FILE'',
      acf_TLSKeyFile = label_get e ''AIWM_AGENT_TLS_KEY_FILE'',
      acf_LogLevel = agent_env e ''AIWM_LOG_LEVEL'' ''info'',
      acf_DockerEndpoint = agent_env e ''AIWM_DOCKER_ENDPOINT'' ''unix:///var/run/docker.sock'',
      acf_UnknownMemoryMiB = 0, acf_UnknownUtilizationPct = Finite 0\<rparr>"

definition agent_intervals :: "env_vars \<Rightarrow> AgentConfig \<Rightarrow> config_error + AgentConfig" where
  "agent_intervals e c =
     check (agent_duration e ''AIWM_AGENT_HEARTBEAT_INTERVAL'' (5 * Second)) (\<lambda>heartbeat.
     check (agent_duration e ''AIWM_AGENT_INVENTORY_INTERVAL'' (15 * Second)) (\<lambda>inventory.
     check (agent_duration e ''AIWM_AGENT_COMMAND_POLL_INTERVAL'' (2 * Second)) (\<lambda>poll.
     check (agent_duration e ''AIWM_AGENT_REQUEST_TIMEOUT'' (30 * Second)) (\<lambda>timeout.
       Inr (c\<lparr>acf_HeartbeatEvery := heartbeat, acf_InventoryEvery := inventory, acf_CommandPollEvery := poll,
              acf_RequestTimeout := timeout\<rparr>)))))"

text \<open>The URL of the control plane: a web scheme, a host, no user; a path is allowed.\<close>

definition agent_url_ok :: "string \<Rightarrow> bool" where
  "agent_url_ok s =
     (case URL_Parse s of None \<Rightarrow> False
      | Some u \<Rightarrow> \<not> (url_Host u = '''' \<or> \<not> web_scheme u \<or> url_User u))"

definition agent_checks :: "bool \<Rightarrow> AgentConfig \<Rightarrow> config_error + AgentConfig" where
  "agent_checks checkOnly c =
     require (BadConfig ''agent machine ID, name and enrollment token must not be empty'')
       (\<not> (acf_MachineID c = '''' \<or> acf_Name c = '''' \<or> \<not> checkOnly \<and> acf_EnrollmentToken c = '''')) (
     require (BadConfig ''agent intervals must be positive'')
       (\<not> (acf_HeartbeatEvery c \<le> 0 \<or> acf_InventoryEvery c \<le> 0 \<or> acf_CommandPollEvery c \<le> 0)) (
     require (BadSetting ''AIWM_CONTROL_PLANE_URL'') (agent_url_ok (acf_ControlPlaneURL c)) (
     require (BadSetting ''AIWM_DOCKER_ENDPOINT'')
       (HasPrefix (acf_DockerEndpoint c) ''unix://'' \<or> HasPrefix (acf_DockerEndpoint c) ''npipe://'') (Inr c))))"

text \<open>The thresholds above which a GPU no container explains counts as occupied.\<close>

definition agent_thresholds :: "env_vars \<Rightarrow> AgentConfig \<Rightarrow> config_error + AgentConfig" where
  "agent_thresholds e c =
     (case Atoi (agent_env e ''AIWM_UNKNOWN_MEMORY_MIB'' ''256'') of
        None \<Rightarrow> Inl (BadSetting ''AIWM_UNKNOWN_MEMORY_MIB'')
      | Some memory \<Rightarrow>
          require (BadSetting ''AIWM_UNKNOWN_MEMORY_MIB'') (\<not> memory \<le> 0) (
          case ParseFloat (agent_env e ''AIWM_UNKNOWN_UTILIZATION_PCT'' ''5'') of
            None \<Rightarrow> Inl (BadSetting ''AIWM_UNKNOWN_UTILIZATION_PCT'')
          | Some util \<Rightarrow>
              require (BadSetting ''AIWM_UNKNOWN_UTILIZATION_PCT'')
                (\<not> (float_le util (Finite 0) \<or> float_less (Finite 100) util))
                (Inr (c\<lparr>acf_UnknownMemoryMiB := memory, acf_UnknownUtilizationPct := util\<rparr>))))"

definition agent_load :: "bool \<Rightarrow> HostFacts \<Rightarrow> env_file \<Rightarrow> env_vars \<Rightarrow> config_error + AgentConfig" where
  "agent_load checkOnly h f e0 =
     (case loadDotEnv f e0 of
        (Some err, e) \<Rightarrow> Inl err
      | (None, e) \<Rightarrow>
          check (agent_intervals e (agent_texts h e)) (\<lambda>c1.
          check (agent_checks checkOnly c1) (\<lambda>c2.
          check (agent_thresholds e c2) (\<lambda>c3.
            require (BadConfig ''request timeout must be positive'') (\<not> acf_RequestTimeout c3 \<le> 0) (Inr c3)))))"

definition LoadAgent :: "HostFacts \<Rightarrow> env_file \<Rightarrow> env_vars \<Rightarrow> config_error + AgentConfig" where
  "LoadAgent = agent_load False"

definition LoadForCheck :: "HostFacts \<Rightarrow> env_file \<Rightarrow> env_vars \<Rightarrow> config_error + AgentConfig" where
  "LoadForCheck = agent_load True"

end
