(* ===== verification/Simulator.thy ===== *)
theory Simulator
  imports Configuration Agent_Inventory
begin

text \<open>
  \<open>internal/simulator\<close>: the Docker runtime of the simulated agent, which keeps its containers in a file of
  its own, and its configuration. The outcome of writing the file and the clock are arguments; the JSON
  of the containers decodes to the containers. The order of the map of containers stands for any order
  in which Go visits it.
\<close>

section \<open>Configuration\<close>

record SimConfig =
  smc_Agent :: AgentConfig
  smc_RuntimeStateFile :: string
  smc_ExternalGPUIndexes :: "int list"
  smc_RejectStarts :: int

fun gpu_indexes :: "string list \<Rightarrow> config_error + int list" where
  "gpu_indexes [] = Inr []"
| "gpu_indexes (part # parts) =
     (if TrimSpace part = '''' then gpu_indexes parts
      else case Atoi (TrimSpace part) of
        None \<Rightarrow> Inl (BadSetting ''AIWM_SIM_EXTERNAL_GPU_INDEXES'')
      | Some n \<Rightarrow>
          if n < 0 then Inl (BadSetting ''AIWM_SIM_EXTERNAL_GPU_INDEXES'')
          else check (gpu_indexes parts) (\<lambda>ns. Inr (n # ns)))"

definition reject_starts :: "env_vars \<Rightarrow> config_error + int" where
  "reject_starts e =
     (let v = label_get e ''AIWM_SIM_REJECT_STARTS'' in
      if v = '''' then Inr 0
      else case Atoi v of
        None \<Rightarrow> Inl (BadSetting ''AIWM_SIM_REJECT_STARTS'')
      | Some n \<Rightarrow> if n < 0 then Inl (BadSetting ''AIWM_SIM_REJECT_STARTS'') else Inr n)"

text \<open>The environment is the one the agent's configuration has completed.\<close>

definition LoadSimConfig :: "HostFacts \<Rightarrow> env_file \<Rightarrow> env_vars \<Rightarrow> config_error + SimConfig" where
  "LoadSimConfig h f e0 =
     check (LoadAgent h f e0) (\<lambda>a.
       let e = snd (loadDotEnv f e0); path = label_get e ''AIWM_SIM_RUNTIME_STATE_FILE'' in
       require (BadSetting ''MOCK_NVML_CONFIG'') (label_get e ''MOCK_NVML_CONFIG'' \<noteq> '''') (
       check (gpu_indexes (Split (CHR '','') (label_get e ''AIWM_SIM_EXTERNAL_GPU_INDEXES''))) (\<lambda>indexes.
       check (reject_starts e) (\<lambda>rejected.
         Inr \<lparr>smc_Agent = a,
              smc_RuntimeStateFile = (if path = '''' then acf_StateFile a @ ''.docker.json'' else path),
              smc_ExternalGPUIndexes = indexes, smc_RejectStarts = rejected\<rparr>))))"

section \<open>The runtime\<close>

text \<open>\<open>sim_event\<close> is whether the channel of events, which holds one, is full. The file is the last content
  that was written, if there is one.\<close>

record SimRuntime =
  sim_containers :: "(string, RuntimeContainer) gomap"
  sim_rejectStarts :: int
  sim_event :: bool
  sim_file :: "(string, RuntimeContainer) gomap option"

text \<open>The steps of \<open>saveLocked\<close>; the first that fails gives the error, and the file is replaced by the last.\<close>

datatype save_step = MakeStateDir | EncodeContainers | CreateTempFile | ChmodFile | WriteFile | SyncFile | CloseFile | RenameFile

definition sim_save :: "(save_step \<Rightarrow> agent_error option) \<Rightarrow> SimRuntime \<Rightarrow> agent_error option \<times> SimRuntime" where
  "sim_save io r =
     (case List.find (\<lambda>s. io s \<noteq> None)
             [MakeStateDir, EncodeContainers, CreateTempFile, ChmodFile, WriteFile, SyncFile, CloseFile, RenameFile] of
        Some s \<Rightarrow> (io s, r)
      | None \<Rightarrow> (None, r\<lparr>sim_file := Some (sim_containers r)\<rparr>))"

definition notify :: "SimRuntime \<Rightarrow> SimRuntime" where
  "notify r = r\<lparr>sim_event := True\<rparr>"

text \<open>What \<open>NewRuntime\<close> finds at its path; \<open>NullState\<close> is the JSON value \<open>null\<close>.\<close>

datatype runtime_file =
    NoState | UnreadableState agent_error | InvalidState agent_error | NullState
  | StoredState "(string, RuntimeContainer) gomap"

definition external_container :: "gotime \<Rightarrow> int \<Rightarrow> string \<Rightarrow> RuntimeContainer" where
  "external_container now index uuid =
     (let cid = ''external-'' @ show_int index in
      \<lparr>rtc_ID = cid, rtc_Name = ''existing-inference-'' @ cid, rtc_Image = ''external/workload:existing'',
       rtc_State = ''running'', rtc_Labels = [], rtc_GPUUUIDs = [uuid], rtc_GPUIndexes = [],
       rtc_UnboundedGPUAccess = False, rtc_InitPID = 10000 + index, rtc_StartedAt = Some now,
       rtc_FinishedAt = None, rtc_ExitCode = None\<rparr>)"

fun seed_external ::
  "(int \<Rightarrow> gotime) \<Rightarrow> WireGPU list \<Rightarrow> int list \<Rightarrow> (string, RuntimeContainer) gomap
     \<Rightarrow> agent_error + (string, RuntimeContainer) gomap" where
  "seed_external clock gpus [] m = Inr m"
| "seed_external clock gpus (i # is) m =
     (let uuid = (case List.find (\<lambda>g. wg_Index g = i) gpus of None \<Rightarrow> '''' | Some g \<Rightarrow> wg_UUID g) in
      if uuid = ''''
      then Inl (AgentError (''external GPU index '' @ show_int i @ '' is absent from NVML profile''))
      else let c = external_container (clock i) i uuid in seed_external clock gpus is (put (rtc_ID c) c m))"

definition NewRuntime ::
  "(save_step \<Rightarrow> agent_error option) \<Rightarrow> (int \<Rightarrow> gotime) \<Rightarrow> runtime_file \<Rightarrow> WireGPU list \<Rightarrow> int list \<Rightarrow> int
     \<Rightarrow> agent_error + SimRuntime" where
  "NewRuntime io clock file gpus external rejectStarts =
     (let r = \<lparr>sim_containers = [], sim_rejectStarts = rejectStarts, sim_event = False, sim_file = None\<rparr> in
      case file of
        StoredState m \<Rightarrow> Inr (r\<lparr>sim_containers := m, sim_file := Some m\<rparr>)
      | NullState \<Rightarrow> Inl (AgentError ''invalid Docker runtime state'')
      | InvalidState e \<Rightarrow> Inl e
      | UnreadableState e \<Rightarrow> Inl e
      | NoState \<Rightarrow>
          (case seed_external clock gpus external [] of
             Inl e \<Rightarrow> Inl e
           | Inr m \<Rightarrow>
               (case sim_save io (r\<lparr>sim_containers := m\<rparr>) of
                  (Some e, _) \<Rightarrow> Inl e | (None, r') \<Rightarrow> Inr r')))"

definition sim_ListContainers :: "SimRuntime \<Rightarrow> RuntimeContainer list" where
  "sim_ListContainers r = sort_by (\<lambda>a b. rtc_ID a < rtc_ID b) (map snd (sim_containers r))"

definition sim_ContainerID :: "SimRuntime \<Rightarrow> int \<Rightarrow> agent_error + string" where
  "sim_ContainerID r pid =
     (case List.find (\<lambda>(i, c). rtc_InitPID c = pid) (sim_containers r) of
        None \<Rightarrow> Inl (AgentError ''unknown PID'') | Some (i, c) \<Rightarrow> Inr i)"

definition sim_managed :: "string \<Rightarrow> RuntimeContainer \<Rightarrow> bool" where
  "sim_managed job c \<longleftrightarrow> label_get (rtc_Labels c) ManagedLabel = ''true'' \<and> label_get (rtc_Labels c) JobIDLabel = job"

text \<open>The name of the container of a job.\<close>

definition managed_name :: "string \<Rightarrow> string" where
  "managed_name job = ''managed-'' @ job"

definition managed_container :: "gotime \<Rightarrow> StartContainerPayload \<Rightarrow> RuntimeContainer" where
  "managed_container now p =
     \<lparr>rtc_ID = managed_name (stp_JobID p), rtc_Name = stp_Name p, rtc_Image = stp_Image p, rtc_State = ''running'',
      rtc_Labels = [(ManagedLabel, ''true''), (JobIDLabel, stp_JobID p)], rtc_GPUUUIDs = stp_GPUUUIDs p,
      rtc_GPUIndexes = [], rtc_UnboundedGPUAccess = False, rtc_InitPID = 0, rtc_StartedAt = Some now,
      rtc_FinishedAt = None, rtc_ExitCode = None\<rparr>"

definition sim_StartManagedContainer ::
  "(save_step \<Rightarrow> agent_error option) \<Rightarrow> gotime \<Rightarrow> StartContainerPayload \<Rightarrow> SimRuntime \<Rightarrow> (agent_error + string) \<times> SimRuntime" where
  "sim_StartManagedContainer io now p r =
     (case List.find (\<lambda>(i, c). sim_managed (stp_JobID p) c) (sim_containers r) of
        Some (i, c) \<Rightarrow> (Inr i, r)
      | None \<Rightarrow>
          if 0 < sim_rejectStarts r
          then (Inl (AgentError ''simulated Docker launch failure''), r\<lparr>sim_rejectStarts := sim_rejectStarts r - 1\<rparr>)
          else let cid = managed_name (stp_JobID p);
                   r1 = r\<lparr>sim_containers := put cid (managed_container now p) (sim_containers r)\<rparr> in
            case sim_save io r1 of
              (Some e, r2) \<Rightarrow> (Inl e, r2\<lparr>sim_containers := AList.delete cid (sim_containers r2)\<rparr>)
            | (None, r2) \<Rightarrow> (Inr cid, notify r2))"

text \<open>The loop over the containers: a foreign container named as the target is refused, a foreign one passed
  over, and the first of the job stopped.\<close>

fun sim_stop_target :: "StopContainerPayload \<Rightarrow> (string, RuntimeContainer) gomap \<Rightarrow> agent_error + (string \<times> RuntimeContainer) option" where
  "sim_stop_target p [] = Inr None"
| "sim_stop_target p ((i, c) # m) =
     (if spp_ContainerID p \<noteq> '''' \<and> spp_ContainerID p \<noteq> i then sim_stop_target p m
      else if \<not> sim_managed (spp_JobID p) c
      then (if spp_ContainerID p = i then Inl LegacyTarget else sim_stop_target p m)
      else Inr (Some (i, c)))"

definition stopped_container :: "gotime \<Rightarrow> RuntimeContainer \<Rightarrow> RuntimeContainer" where
  "stopped_container now c = c\<lparr>rtc_State := ''exited'', rtc_FinishedAt := Some now, rtc_ExitCode := Some 0\<rparr>"

definition sim_StopManagedJob ::
  "(save_step \<Rightarrow> agent_error option) \<Rightarrow> gotime \<Rightarrow> StopContainerPayload \<Rightarrow> SimRuntime \<Rightarrow> (agent_error + string) \<times> SimRuntime" where
  "sim_StopManagedJob io now p r =
     (case sim_stop_target p (sim_containers r) of
        Inl e \<Rightarrow> (Inl e, r)
      | Inr None \<Rightarrow> (Inr '''', r)
      | Inr (Some (i, c)) \<Rightarrow>
          (case sim_save io (r\<lparr>sim_containers := put i (stopped_container now c) (sim_containers r)\<rparr>) of
             (Some e, r2) \<Rightarrow> (Inl e, r2\<lparr>sim_containers := put i c (sim_containers r2)\<rparr>)
           | (None, r2) \<Rightarrow> (Inr i, notify r2)))"

definition sim_Compatibility :: RuntimeCompatibility where
  "sim_Compatibility = \<lparr>rtm_Version = ''simulated-docker/nvml-mock'', rtm_APIVersion = ''sim-v1'', rtm_OS = ''linux'',
     rtm_NVIDIARuntime = True\<rparr>"

section \<open>As a Docker runtime\<close>

text \<open>The world of the simulated agent: the runtime, its clock, and what its next save will meet.\<close>

record SimWorld =
  smw_runtime :: SimRuntime
  smw_now :: gotime
  smw_io :: "save_step \<Rightarrow> agent_error option"

definition sim_call ::
  "((save_step \<Rightarrow> agent_error option) \<Rightarrow> gotime \<Rightarrow> SimRuntime \<Rightarrow> (agent_error + 'a) \<times> SimRuntime) \<Rightarrow> (SimWorld, 'a) docker" where
  "sim_call f = ask (\<lambda>w. case f (smw_io w) (smw_now w) (smw_runtime w) of (r, rt) \<Rightarrow> (r, w\<lparr>smw_runtime := rt\<rparr>))"

definition simulated_runtime :: "SimWorld DockerRuntime" where
  "simulated_runtime =
     \<lparr>run_Version = sim_call (\<lambda>io now rt. (Inr ''simulated-docker/nvml-mock'', rt)),
      run_ListContainers = sim_call (\<lambda>io now rt. (Inr (sim_ListContainers rt), rt)),
      run_StartManagedContainer = (\<lambda>p. sim_call (\<lambda>io now. sim_StartManagedContainer io now p)),
      run_StopManagedJob = (\<lambda>p. sim_call (\<lambda>io now. sim_StopManagedJob io now p)),
      run_Compatibility = Some (sim_call (\<lambda>io now rt. (Inr sim_Compatibility, rt)))\<rparr>"

section \<open>Properties\<close>

text \<open>The names of managed containers tell their job.\<close>

definition sim_ok :: "SimRuntime \<Rightarrow> bool" where
  "sim_ok r \<longleftrightarrow> wf_map (sim_containers r) \<and>
     (\<forall>(i, c) \<in> set (sim_containers r). \<forall>job. i = managed_name job \<longrightarrow> sim_managed job c)"

lemma sim_save_same [simp]:
  "sim_save io r = (e, r') \<Longrightarrow> sim_containers r' = sim_containers r"
  "sim_save io r = (e, r') \<Longrightarrow> sim_rejectStarts r' = sim_rejectStarts r"
  by (auto simp: sim_save_def split: option.splits)

lemma sim_save_file: "sim_save io r = (None, r') \<Longrightarrow> sim_file r' = Some (sim_containers r)"
  by (cases "List.find (\<lambda>s. io s \<noteq> None) [MakeStateDir, EncodeContainers, CreateTempFile, ChmodFile, WriteFile, SyncFile, CloseFile, RenameFile]")
    (auto simp: sim_save_def dest!: find_SomeD simp del: find.simps)

lemma notify_same [simp]: "sim_containers (notify r) = sim_containers r" "sim_file (notify r) = sim_file r"
  by (simp_all add: notify_def)

lemma managed_name_inj [simp]: "managed_name a = managed_name b \<longleftrightarrow> a = b"
  by (simp add: managed_name_def)

lemma sim_managed_new: "sim_managed (stp_JobID p) (managed_container now p)"
  by (simp add: sim_managed_def managed_container_def label_get_def ManagedLabel_def JobIDLabel_def)

lemma delete_put_new: "k \<notin> set (gokeys m) \<Longrightarrow> AList.delete k (put k v m) = m"
  by (induction m) (auto simp: delete_simps)

lemma put_back: "map_of m k = Some v \<Longrightarrow> put k v m = m"
  by (induction m) auto

lemma find_managed_None:
  "List.find (\<lambda>(i, c). sim_managed job c) m = None \<longleftrightarrow> (\<forall>(i, c) \<in> set m. \<not> sim_managed job c)"
  by (auto simp: find_None_iff)

lemma find_managed_put:
  "\<forall>(i, c) \<in> set m. \<not> sim_managed job c \<Longrightarrow> sim_managed job c' \<Longrightarrow> k \<notin> set (gokeys m) \<Longrightarrow>
     List.find (\<lambda>(i, c). sim_managed job c) (put k c' m) = Some (k, c')"
  by (induction m) auto

lemma sim_stop_target_Some:
  "sim_stop_target p m = Inr (Some (i, c)) \<Longrightarrow> (i, c) \<in> set m \<and> sim_managed (spp_JobID p) c"
  by (induction p m rule: sim_stop_target.induct) (auto split: if_splits)

lemma sim_start_contract:
  assumes "sim_ok r" and "sim_StartManagedContainer io now p r = (x, r')"
  shows "sim_ok r' \<and> (\<forall>i c. map_of (sim_containers r) i = Some c \<longrightarrow> map_of (sim_containers r') i = Some c) \<and>
    (isl x \<longrightarrow> sim_containers r' = sim_containers r) \<and>
    (\<forall>i. x = Inr i \<longrightarrow> (\<exists>c. map_of (sim_containers r') i = Some c \<and> sim_managed (stp_JobID p) c) \<and>
       sim_StartManagedContainer io' now' p r' = (Inr i, r'))"
proof (cases "List.find (\<lambda>(i, c). sim_managed (stp_JobID p) c) (sim_containers r)")
  case (Some a)
  obtain i c where a: "a = (i, c)" by (cases a)
  from assms(1) find_SomeD [OF Some] a have "map_of (sim_containers r) i = Some c" "sim_managed (stp_JobID p) c"
    by (auto simp: sim_ok_def)
  with Some a assms show ?thesis by (auto simp: sim_StartManagedContainer_def)
next
  case None
  let ?m = "sim_containers r" and ?cid = "managed_name (stp_JobID p)" and ?new = "managed_container now p"
  have none: "\<forall>(i, c) \<in> set ?m. \<not> sim_managed (stp_JobID p) c" using None by (simp add: find_managed_None)
  have new: "?cid \<notin> set (gokeys ?m)" using none assms(1) by (fastforce simp: sim_ok_def)
  show ?thesis
  proof (cases "0 < sim_rejectStarts r")
    case True
    with assms(2) None have "x = Inl (AgentError ''simulated Docker launch failure'')"
      and "sim_containers r' = ?m" by (auto simp: sim_StartManagedContainer_def)
    with assms(1) show ?thesis by (simp add: sim_ok_def)
  next
    case False
    obtain e r2 where s: "sim_save io (r\<lparr>sim_containers := put ?cid ?new ?m\<rparr>) = (e, r2)"
      by (cases "sim_save io (r\<lparr>sim_containers := put ?cid ?new ?m\<rparr>)")
    then have c2: "sim_containers r2 = put ?cid ?new ?m" using sim_save_same(1) by fastforce
    have x: "(x, r') = (case e of Some err \<Rightarrow> (Inl err, r2\<lparr>sim_containers := ?m\<rparr>) | None \<Rightarrow> (Inr ?cid, notify r2))"
      using assms(2) None False s by (cases e) (auto simp: sim_StartManagedContainer_def Let_def c2 delete_put_new [OF new])
    have ok: "sim_ok (notify r2)"
      using assms(1) sim_managed_new by (auto simp: sim_ok_def c2 dest!: set_putD)
    have kept: "map_of (put ?cid ?new ?m) i = Some c" if "map_of ?m i = Some c" for i c
      using map_of_gokeys [OF that] that new by (cases "i = ?cid") auto
    have again: "sim_StartManagedContainer io' now' p (notify r2) = (Inr ?cid, notify r2)"
      using find_managed_put [OF none sim_managed_new new] by (simp add: sim_StartManagedContainer_def c2)
    show ?thesis
    proof (cases e)
      case None
      with x have x: "x = Inr ?cid" "r' = notify r2" by auto
      have "map_of (sim_containers (notify r2)) ?cid = Some ?new" by (simp add: c2)
      moreover have "map_of (sim_containers (notify r2)) i = Some c" if "map_of ?m i = Some c" for i c
        using kept [OF that] by (simp add: c2)
      moreover have "\<not> isl (Inr ?cid :: agent_error + string)" by simp
      ultimately show ?thesis unfolding x using ok again sim_managed_new by blast
    next
      case (Some err)
      with x have "x = Inl err" "sim_containers r' = ?m" by auto
      with assms(1) show ?thesis by (simp add: sim_ok_def)
    qed
  qed
qed

lemma sim_stop_contract:
  assumes "sim_ok r" and "sim_StopManagedJob io now q r = (x, r')"
  shows "sim_ok r' \<and> (\<forall>i c. map_of (sim_containers r) i = Some c \<and> \<not> sim_managed (spp_JobID q) c \<longrightarrow>
       map_of (sim_containers r') i = Some c) \<and>
    (isl x \<longrightarrow> sim_containers r' = sim_containers r) \<and>
    (\<forall>i. x = Inr i \<and> i \<noteq> '''' \<longrightarrow> (\<exists>c. map_of (sim_containers r') i = Some c \<and> rtc_State c = ''exited''))"
proof -
  let ?m = "sim_containers r"
  consider (none) "r' = r" "isl x \<or> x = Inr ''''" | (target) i c where "sim_stop_target q ?m = Inr (Some (i, c))"
    using assms(2) by (auto simp: sim_StopManagedJob_def split: sum.splits option.splits)
  then show ?thesis
  proof cases
    case none
    with assms(1) show ?thesis by auto
  next
    case (target i c)
    from sim_stop_target_Some [OF target] have t: "(i, c) \<in> set ?m" "sim_managed (spp_JobID q) c" by auto
    with assms(1) have found: "map_of ?m i = Some c" by (simp add: sim_ok_def)
    have only: "d = c" if "map_of ?m i = Some d" for d using that found by simp
    let ?m' = "put i (stopped_container now c) ?m"
    obtain e r2 where s: "sim_save io (r\<lparr>sim_containers := ?m'\<rparr>) = (e, r2)" by (cases "sim_save io (r\<lparr>sim_containers := ?m'\<rparr>)")
    then have c2: "sim_containers r2 = ?m'" using sim_save_same(1) by fastforce
    have x: "(x, r') = (case e of Some err \<Rightarrow> (Inl err, r2\<lparr>sim_containers := ?m\<rparr>) | None \<Rightarrow> (Inr i, notify r2))"
      using assms(2) target s by (cases e) (auto simp: sim_StopManagedJob_def c2 put_back [OF found])
    have "sim_managed job (stopped_container now c) = sim_managed job c" for job
      by (simp add: sim_managed_def stopped_container_def)
    with assms(1) t have "sim_ok (notify r2)" by (fastforce simp: sim_ok_def c2 dest!: set_putD)
    then have ok: "sim_ok r'" using x assms(1) by (auto simp: sim_ok_def split: option.splits)
    have others: "map_of (sim_containers r') j = Some d"
      if "map_of ?m j = Some d" "\<not> sim_managed (spp_JobID q) d" for j d
      using that x only t(2) by (cases "j = i") (auto simp: c2 split: option.splits)
    have stopped: "\<exists>d. map_of (sim_containers r') j = Some d \<and> rtc_State d = ''exited''" if "x = Inr j" for j
      using that x by (auto simp: c2 stopped_container_def split: option.splits)
    have "isl x \<longrightarrow> sim_containers r' = ?m" using x by (auto split: option.splits)
    with ok others stopped show ?thesis by blast
  qed
qed

text \<open>
  The simulated runtime keeps the contract of the Docker adapter: starting a job changes no container
  that is there, and once it has succeeded, starting the job again returns the same container and changes
  nothing; stopping one only changes a container that carries the labels of the job; and a start or stop
  that fails, because it is refused or the file cannot be written, leaves every container as it was.
\<close>

lemma simulator_keeps_the_contract:
  assumes "sim_ok r"
  shows "(case sim_StartManagedContainer io now p r of (x, r') \<Rightarrow>
      sim_ok r' \<and> (\<forall>i c. map_of (sim_containers r) i = Some c \<longrightarrow> map_of (sim_containers r') i = Some c) \<and>
      (isl x \<longrightarrow> sim_containers r' = sim_containers r) \<and>
      (\<forall>i. x = Inr i \<longrightarrow> (\<exists>c. map_of (sim_containers r') i = Some c \<and> sim_managed (stp_JobID p) c) \<and>
         sim_StartManagedContainer io' now' p r' = (Inr i, r'))) \<and>
    (case sim_StopManagedJob io now q r of (x, r') \<Rightarrow>
      sim_ok r' \<and> (\<forall>i c. map_of (sim_containers r) i = Some c \<and> \<not> sim_managed (spp_JobID q) c \<longrightarrow>
         map_of (sim_containers r') i = Some c) \<and>
      (isl x \<longrightarrow> sim_containers r' = sim_containers r) \<and>
      (\<forall>i. x = Inr i \<and> i \<noteq> '''' \<longrightarrow> (\<exists>c. map_of (sim_containers r') i = Some c \<and> rtc_State c = ''exited'')))"
proof -
  obtain x r' where start: "sim_StartManagedContainer io now p r = (x, r')" by (cases "sim_StartManagedContainer io now p r")
  obtain y r'' where stop: "sim_StopManagedJob io now q r = (y, r'')" by (cases "sim_StopManagedJob io now q r")
  from sim_start_contract [OF assms start] sim_stop_contract [OF assms stop] show ?thesis
    unfolding start stop prod.case by blast
qed

end
