(* ===== verification/Agent_Client.thy ===== *)
theory Agent_Client
  imports Object_Storage Agent_Runner Http_Server
begin

text \<open>
  \<open>internal/agent/controlplane/client.go\<close>: the HTTP client behind the agent's \<open>ControlPlaneClient\<close>. The
  transport is an argument: it takes a request to a response or fails. As at the server, what
  \<open>encoding/json\<close> makes of a value is the value; \<open>clt_jsonError\<close> is the decoder's error for a body that
  is not the JSON the caller expects, \<open>clt_length\<close> the length of an encoded body. The address a URL
  prints as parses back to the same path (\<open>Go_URL.unescape_escape\<close>), so the path the client sets is the
  path the server sees.
\<close>

section \<open>The client\<close>

record Client =
  clt_baseURL :: URL
  clt_length :: "ApiInput \<Rightarrow> int"
  clt_jsonError :: "ApiResponse \<Rightarrow> string"

type_synonym 'w transport = "HttpRequest \<Rightarrow> 'w \<Rightarrow> (agent_error + int \<times> ApiResponse) \<times> 'w"

text \<open>The files of the TLS configuration: \<open>tls_readCA\<close> reads the certificates of an authority,
  \<open>tls_validPEM\<close> is whether there is one among them, \<open>tls_loadPair\<close> loads the agent's own.\<close>

record TLSConfig =
  tls_CAFile :: string
  tls_CertFile :: string
  tls_KeyFile :: string

record TLSFiles =
  tls_readCA :: "string \<Rightarrow> agent_error + string"
  tls_validPEM :: "string \<Rightarrow> bool"
  tls_loadPair :: "string \<Rightarrow> string \<Rightarrow> agent_error option"

text \<open>Whether the configuration has roots of its own, and a client certificate.\<close>

definition loadTLSConfig :: "TLSFiles \<Rightarrow> TLSConfig \<Rightarrow> agent_error + bool \<times> bool" where
  "loadTLSConfig io t =
     (case (if tls_CAFile t = '''' then Inr False
            else case tls_readCA io (tls_CAFile t) of
              Inl e \<Rightarrow> Inl (Wrapped ''read agent CA file'' e)
            | Inr content \<Rightarrow>
                if tls_validPEM io content then Inr True
                else Inl (AgentError ''agent CA file contains no valid PEM certificate'')) of
        Inl e \<Rightarrow> Inl e
      | Inr roots \<Rightarrow>
          if (tls_CertFile t = '''') \<noteq> (tls_KeyFile t = '''')
          then Inl (AgentError ''both client certificate and key are required for mTLS'')
          else if tls_CertFile t = '''' then Inr (roots, False)
          else case tls_loadPair io (tls_CertFile t) (tls_KeyFile t) of
            Some e \<Rightarrow> Inl (Wrapped ''load agent client certificate'' e)
          | None \<Rightarrow> Inr (roots, True))"

definition New_Client ::
  "TLSFiles \<Rightarrow> (ApiInput \<Rightarrow> int) \<Rightarrow> (ApiResponse \<Rightarrow> string) \<Rightarrow> string \<Rightarrow> TLSConfig \<Rightarrow> agent_error + Client" where
  "New_Client io len jsonError url t =
     (let invalid = Inl (AgentError (''invalid Control Plane URL '' @ quoted url)) in
      case URL_Parse (TrimRightSlash url) of None \<Rightarrow> invalid
      | Some u \<Rightarrow>
          if \<not> web_scheme u \<or> url_Host u = '''' then invalid
          else case loadTLSConfig io t of Inl e \<Rightarrow> Inl e
          | Inr _ \<Rightarrow> Inr \<lparr>clt_baseURL = u, clt_length = len, clt_jsonError = jsonError\<rparr>)"

section \<open>One call\<close>

definition bearer :: "string \<Rightarrow> string" where
  "bearer token = ''Bearer '' @ token"

text \<open>The request \<open>call\<close> builds: the path behind the base path, up to the question mark; the two headers
  the server reads.\<close>

definition client_request ::
  "Client \<Rightarrow> string \<Rightarrow> string \<Rightarrow> ApiInput option \<Rightarrow> string \<Rightarrow> string \<Rightarrow> HttpRequest" where
  "client_request c verb path body authorization enrollment =
     (let (p, query) = (case Cut (CHR ''?'') path of
            None \<Rightarrow> (path, url_RawQuery (clt_baseURL c)) | Some (p, q) \<Rightarrow> (p, q))
      in \<lparr>req_Method = verb, req_Path = TrimRightSlash (url_Path (clt_baseURL c)) @ p,
          req_Query = ParseQuery query, req_Authorization = authorization, req_EnrollmentToken = enrollment,
          req_RequestID = '''', req_Origin = '''', req_Peer = '''',
          req_ContentLength = (case body of None \<Rightarrow> 0 | Some i \<Rightarrow> clt_length c i),
          req_Body = (case body of None \<Rightarrow> BodyBytes '''' | Some i \<Rightarrow> BodyJSON i)\<rparr>)"

text \<open>The envelope of a response: its data, of the type the caller expects, and its error. A response
  without a body leaves both empty.\<close>

definition unmarshal ::
  "Client \<Rightarrow> (ApiData \<Rightarrow> 'a option) \<Rightarrow> 'a \<Rightarrow> ApiResponse \<Rightarrow> string + 'a \<times> (string \<times> string) option" where
  "unmarshal c shape zero r =
     (case r of
        NoContent \<Rightarrow> Inr (zero, None)
      | TextResponse s \<Rightarrow> if s = '''' then Inr (zero, None) else Inl (clt_jsonError c r)
      | DataResponse v \<Rightarrow> (case shape v of Some x \<Rightarrow> Inr (x, None) | None \<Rightarrow> Inl (clt_jsonError c r))
      | ErrorResponse code message details \<Rightarrow> Inr (zero, Some (code, message)))"

definition read_response :: "Client \<Rightarrow> (ApiData \<Rightarrow> 'a option) \<Rightarrow> 'a \<Rightarrow> int \<times> ApiResponse \<Rightarrow> agent_error + 'a" where
  "read_response c shape zero response =
     (let (status, r) = response in
      case unmarshal c shape zero r of
        Inl m \<Rightarrow> Inl (Wrapped (''decode Control Plane response ('' @ show_int status @ '')'') (AgentError m))
      | Inr (v, err) \<Rightarrow>
          if status = 401 then Inl AgentUnauthorized
          else if status < 200 \<or> 300 \<le> status
          then Inl (AgentError (case err of
                 Some (code, message) \<Rightarrow> ''Control Plane '' @ code @ '': '' @ message
               | None \<Rightarrow> ''Control Plane returned HTTP '' @ show_int status))
          else Inr v)"

definition call ::
  "Client \<Rightarrow> 'w transport \<Rightarrow> (ApiData \<Rightarrow> 'a option) \<Rightarrow> 'a \<Rightarrow> HttpRequest \<Rightarrow> 'w \<Rightarrow> (agent_error + 'a) \<times> 'w" where
  "call c send shape zero req w =
     (case send req w of
        (Inl e, w') \<Rightarrow> (Inl e, w')
      | (Inr response, w') \<Rightarrow> (read_response c shape zero response, w'))"

section \<open>The operations\<close>

text \<open>What the agent sends as a registration, as the server decodes it, and what it takes from a command.\<close>

definition registration :: "AgentRegisterRequest \<Rightarrow> RegisterRequest" where
  "registration q = \<lparr>reg_ProtocolVersion = arq_ProtocolVersion q, reg_MachineID = arq_MachineID q,
     reg_Name = arq_Name q, reg_Address = '''', reg_AgentVersion = arq_AgentVersion q, reg_Labels = arq_Labels q,
     reg_CapabilityReport = arq_CapabilityReport q, reg_Capabilities = arq_Capabilities q\<rparr>"

fun command_type :: "CommandType \<Rightarrow> string" where
  "command_type CommandStartContainer = ''START_CONTAINER''"
| "command_type CommandStopContainer = ''STOP_CONTAINER''"

definition agent_command :: "WireCommand \<Rightarrow> AgentCommand" where
  "agent_command c = \<lparr>acm_ID = wcmd_ID c, acm_Type = command_type (wcmd_Type c), acm_Payload = wcmd_Payload c\<rparr>"

fun as_registered :: "ApiData \<Rightarrow> (string \<times> string) option" where
  "as_registered (RegisteredData r) = Some (rsp_AgentID r, rsp_AgentToken r)"
| "as_registered _ = None"

fun as_commands :: "ApiData \<Rightarrow> AgentCommand list option" where
  "as_commands (CommandsData cs) = Some (map agent_command cs)"
| "as_commands _ = None"

text \<open>\<open>json.RawMessage\<close> takes any value.\<close>

definition as_raw :: "ApiData \<Rightarrow> unit option" where
  "as_raw d = Some ()"

definition agent_path :: "string \<Rightarrow> string \<Rightarrow> string" where
  "agent_path agentID rest = ''/api/v1/agents/'' @ PathEscape agentID @ rest"

definition clt_Register ::
  "Client \<Rightarrow> 'w transport \<Rightarrow> AgentRegisterRequest \<Rightarrow> string \<Rightarrow> 'w \<Rightarrow> (agent_error + string \<times> string) \<times> 'w" where
  "clt_Register c send q enrollment =
     call c send as_registered ('''', '''')
       (client_request c ''POST'' ''/api/v1/agents/register'' (Some (InRegister (registration q))) '''' enrollment)"

definition clt_Heartbeat :: "Client \<Rightarrow> 'w transport \<Rightarrow> string \<Rightarrow> string \<Rightarrow> gotime \<Rightarrow> 'w \<Rightarrow> (agent_error + unit) \<times> 'w" where
  "clt_Heartbeat c send agentID token t =
     call c send as_raw ()
       (client_request c ''POST'' (agent_path agentID ''/heartbeat'') (Some InHeartbeat) (bearer token) '''')"

definition clt_ReportInventory ::
  "Client \<Rightarrow> 'w transport \<Rightarrow> string \<Rightarrow> string \<Rightarrow> WireReport \<Rightarrow> 'w \<Rightarrow> (agent_error + unit) \<times> 'w" where
  "clt_ReportInventory c send agentID token report =
     call c send as_raw ()
       (client_request c ''PUT'' (agent_path agentID ''/inventory'') (Some (InReport report)) (bearer token) '''')"

definition clt_PollCommands ::
  "Client \<Rightarrow> 'w transport \<Rightarrow> string \<Rightarrow> string \<Rightarrow> int \<Rightarrow> 'w \<Rightarrow> (agent_error + AgentCommand list) \<times> 'w" where
  "clt_PollCommands c send agentID token limit =
     call c send as_commands []
       (client_request c ''GET'' (agent_path agentID (''/commands?limit='' @ show_int limit)) None (bearer token) '''')"

definition clt_AckCommand ::
  "Client \<Rightarrow> 'w transport \<Rightarrow> string \<Rightarrow> string \<Rightarrow> string \<Rightarrow> CommandAckRequest \<Rightarrow> 'w \<Rightarrow> (agent_error + unit) \<times> 'w" where
  "clt_AckCommand c send agentID token commandID ack =
     call c send as_raw ()
       (client_request c ''POST'' (agent_path agentID (''/commands/'' @ PathEscape commandID @ ''/ack''))
          (Some (InAck ack)) (bearer token) '''')"

text \<open>The client as the runner of the agent takes it.\<close>

definition http_client :: "Client \<Rightarrow> 'w transport \<Rightarrow> 'w ControlPlaneClient" where
  "http_client c send =
     \<lparr>cli_Register = clt_Register c send, cli_Heartbeat = clt_Heartbeat c send,
      cli_ReportInventory = clt_ReportInventory c send, cli_PollCommands = clt_PollCommands c send,
      cli_AckCommand = clt_AckCommand c send\<rparr>"

section \<open>The server at the other end\<close>

text \<open>A transport that reaches the control plane: \<open>k\<close> is what the server takes from outside while it answers.\<close>

definition direct :: "'w Web \<Rightarrow> Call \<Rightarrow> 'w Site transport" where
  "direct web k req s = (case serve_http web k req s of (r, s') \<Rightarrow> (Inr (rsp_Status r, rsp_Body r), s'))"

end
