(* ===== verification/Agent_Main.thy ===== *)
theory Agent_Main
  imports Host_Readers Simulator Agent_Client Agent_Laws
begin

text \<open>
  \<open>cmd/aiwm-agent/main.go\<close> and \<open>cmd/aiwm-agent-sim/main.go\<close>: how the configuration becomes a running agent.
  What the process finds outside is a record of arguments. The theorem follows the settings into the runner
  that is started, and shows that starting and checking a host run nothing on it.
\<close>

section \<open>Putting the agent together\<close>

text \<open>\<open>dockerengine.New\<close>: the adapter only talks to a local socket.\<close>

definition New_Engine_API :: "(string \<Rightarrow> agent_error + 'w docker_api) \<Rightarrow> string \<Rightarrow> agent_error + 'w docker_api" where
  "New_Engine_API open_client endpoint =
     (if \<not> HasPrefix endpoint ''unix://'' \<and> \<not> HasPrefix endpoint ''npipe://''
      then Inl (AgentError ''Docker endpoint must be local'')
      else open_client endpoint)"

text \<open>The outside of the process. \<open>ahs_gpus\<close> and \<open>ahs_driver\<close> are the recovering reader over NVML as a function
  of the world, \<open>ahs_cgroup\<close> reads the cgroup file of a process.\<close>

record 'w AgentHost =
  ahs_facts :: HostFacts
  ahs_docker :: "string \<Rightarrow> agent_error + 'w docker_api"
  ahs_gpus :: "'w gpu_reader"
  ahs_driver :: "'w \<Rightarrow> string \<times> string"
  ahs_system :: "'w \<Rightarrow> OperatingSystem"
  ahs_cgroup :: "'w \<Rightarrow> int \<Rightarrow> agent_error + string"
  ahs_ctxErr :: "'w \<Rightarrow> agent_error option"
  ahs_now :: "'w \<Rightarrow> gotime"
  ahs_io :: "'w \<Rightarrow> (io_step \<Rightarrow> agent_error option) \<times> 'w"
  ahs_tls :: TLSFiles
  ahs_length :: "ApiInput \<Rightarrow> int"
  ahs_jsonError :: "ApiResponse \<Rightarrow> string"
  ahs_decodeError :: "Payload \<Rightarrow> string"
  ahs_transport :: "'w transport"

definition NewInventoryCollector ::
  "'w AgentHost \<Rightarrow> 'w DockerRuntime \<Rightarrow> ('w \<Rightarrow> int \<Rightarrow> agent_error + string) \<Rightarrow> InventoryPolicy list \<Rightarrow> 'w InventoryCollector" where
  "NewInventoryCollector h docker resolver policies =
     \<lparr>inv_platform = (\<lambda>w. discoverPlatform (ahs_system h w)), inv_machineID = '''', inv_docker = Some docker,
      inv_gpus = Some (ahs_gpus h), inv_driver = Some (ahs_driver h), inv_resolver = Some resolver, inv_now = ahs_now h,
      inv_host = (\<lambda>w. discoverHost (ahs_system h w)), inv_ctxErr = ahs_ctxErr h, inv_policy = collector_policy policies\<rparr>"

definition policy_of :: "AgentConfig \<Rightarrow> InventoryPolicy" where
  "policy_of c = \<lparr>pol_UnknownMemoryMiB = acf_UnknownMemoryMiB c, pol_UnknownUtilizationPct = acf_UnknownUtilizationPct c\<rparr>"

definition tls_of :: "AgentConfig \<Rightarrow> TLSConfig" where
  "tls_of c = \<lparr>tls_CAFile = acf_TLSCAFile c, tls_CertFile = acf_TLSCertFile c, tls_KeyFile = acf_TLSKeyFile c\<rparr>"

definition agentVersion :: string where "agentVersion = ''0.2.0''"

text \<open>The configuration of the runner; the simulator leaves the last two to \<open>NewRunner\<close>.\<close>

definition runner_config :: "string \<Rightarrow> int \<Rightarrow> int \<Rightarrow> AgentConfig \<Rightarrow> RunnerConfig" where
  "runner_config version limit kept c =
     \<lparr>cfg_MachineID = acf_MachineID c, cfg_Name = acf_Name c, cfg_AgentVersion = version, cfg_Labels = acf_Labels c,
      cfg_EnrollmentToken = acf_EnrollmentToken c, cfg_HeartbeatEvery = acf_HeartbeatEvery c,
      cfg_InventoryEvery = acf_InventoryEvery c, cfg_CommandPollEvery = acf_CommandPollEvery c,
      cfg_CommandLimit = limit, cfg_MaxCommandHistory = kept\<rparr>"

definition new_runner :: "'w AgentHost \<Rightarrow> RunnerConfig \<Rightarrow> Client \<Rightarrow> 'w InventoryCollector \<Rightarrow> 'w Runner" where
  "new_runner h config client collector =
     NewRunner config (http_client client (ahs_transport h)) collector (ahs_decodeError h) (ahs_io h) (ahs_now h)"

section \<open>The programs\<close>

datatype 'w agent_exit =
    VersionShown | AgentConfigFailed config_error | DockerFailed agent_error | Checked CompatibilityReport
  | ReaderFailed agent_error | RuntimeFailed agent_error | ClientFailed agent_error | AgentRunning "'w Runner"

text \<open>\<open>main\<close> with its two flags. A check ends with status 1 unless the host is ready.\<close>

definition agent_main ::
  "'w AgentHost \<Rightarrow> bool \<Rightarrow> bool \<Rightarrow> env_file \<Rightarrow> env_vars \<Rightarrow> 'w docker_state \<Rightarrow> 'w agent_exit \<times> 'w docker_state" where
  "agent_main h showVersion checkOnly f e st =
     (if showVersion then (VersionShown, st)
      else case (if checkOnly then LoadForCheck else LoadAgent) (ahs_facts h) f e of
        Inl err \<Rightarrow> (AgentConfigFailed err, st)
      | Inr c \<Rightarrow>
          (case New_Engine_API (ahs_docker h) (acf_DockerEndpoint c) of
             Inl err \<Rightarrow> (DockerFailed err, st)
           | Inr api \<Rightarrow>
               (let collector = NewInventoryCollector h (engine_runtime api)
                      (\<lambda>w. cgroup_ContainerID (ahs_cgroup h w)) [policy_of c];
                    (report, st') = Preflight collector (Some (acf_MachineID c)) st
                in if checkOnly then (Checked report, st')
                   else case New_Client (ahs_tls h) (ahs_length h) (ahs_jsonError h) (acf_ControlPlaneURL c) (tls_of c) of
                     Inl err \<Rightarrow> (ClientFailed err, st')
                   | Inr client \<Rightarrow>
                       (AgentRunning (new_runner h (runner_config agentVersion 10 1000 c) client collector), st'))))"

text \<open>The simulated agent: NVML is read once for the GPUs of the runtime, the host is the simulated world,
  and the runtime itself resolves processes.\<close>

definition agent_sim_main ::
  "SimWorld AgentHost \<Rightarrow> runtime_file \<Rightarrow> (int \<Rightarrow> gotime) \<Rightarrow> env_file \<Rightarrow> env_vars \<Rightarrow> SimWorld docker_state
     \<Rightarrow> SimWorld agent_exit \<times> SimWorld docker_state" where
  "agent_sim_main h file clock f e st =
     (let w = dk_world st in
      case LoadSimConfig (ahs_facts h) f e of
        Inl err \<Rightarrow> (AgentConfigFailed err, st)
      | Inr c \<Rightarrow>
          (case ahs_gpus h w of
             Inl err \<Rightarrow> (ReaderFailed err, st)
           | Inr (gpus, ps) \<Rightarrow>
               (case NewRuntime (smw_io w) clock file gpus (smc_ExternalGPUIndexes c) (smc_RejectStarts c) of
                  Inl err \<Rightarrow> (RuntimeFailed err, st)
                | Inr rt \<Rightarrow>
                    (let collector = NewInventoryCollector h simulated_runtime (\<lambda>w. sim_ContainerID (smw_runtime w))
                           [policy_of (smc_Agent c)];
                         st' = st\<lparr>dk_world := w\<lparr>smw_runtime := rt\<rparr>\<rparr>
                     in case New_Client (ahs_tls h) (ahs_length h) (ahs_jsonError h)
                               (acf_ControlPlaneURL (smc_Agent c)) (tls_of (smc_Agent c)) of
                          Inl err \<Rightarrow> (ClientFailed err, st')
                        | Inr client \<Rightarrow>
                            (AgentRunning (new_runner h (runner_config ''nvml-mock/sim-0.3'' 0 0 (smc_Agent c)) client collector),
                             st')))))"

section \<open>What a started agent has\<close>

lemma Preflight_silent:
  "docker_runtime rt \<Longrightarrow> inv_docker c = Some rt \<Longrightarrow> Preflight c m st = (report, st') \<Longrightarrow> dk_calls st' = dk_calls st"
  using docker_runtime.collect_silent by (fastforce simp: Preflight_def Let_def split: prod.splits)

text \<open>A \<open>.env\<close> file only adds to the environment: no variable that was there is changed.\<close>

lemma env_line_keeps: "env_line l e = Inr e' \<Longrightarrow> map_of e k = Some v \<Longrightarrow> map_of e' k = Some v"
  by (auto simp: env_line_def Setenv_def Let_def split: if_splits option.splits)

lemma env_lines_keep: "env_lines ls e = (x, e') \<Longrightarrow> map_of e k = Some v \<Longrightarrow> map_of e' k = Some v"
  by (induction ls e rule: env_lines.induct) (auto simp: env_line_keeps split: sum.splits)

lemma env_file_keeps: "loadDotEnv f e = (x, e') \<Longrightarrow> map_of e k = Some v \<Longrightarrow> map_of e' k = Some v"
  using env_lines_keep by (fastforce simp: loadDotEnv_def split: env_file.splits prod.splits option.splits)

text \<open>What an accepted configuration of the agent satisfies.\<close>

definition agent_config_ok :: "bool \<Rightarrow> AgentConfig \<Rightarrow> bool" where
  "agent_config_ok checkOnly c \<longleftrightarrow>
     acf_MachineID c \<noteq> '''' \<and> acf_Name c \<noteq> '''' \<and> (checkOnly \<or> acf_EnrollmentToken c \<noteq> '''') \<and>
     0 < acf_HeartbeatEvery c \<and> 0 < acf_InventoryEvery c \<and> 0 < acf_CommandPollEvery c \<and> 0 < acf_RequestTimeout c \<and>
     agent_url_ok (acf_ControlPlaneURL c) \<and>
     (HasPrefix (acf_DockerEndpoint c) ''unix://'' \<or> HasPrefix (acf_DockerEndpoint c) ''npipe://'') \<and>
     0 < acf_UnknownMemoryMiB c \<and>
     (acf_UnknownUtilizationPct c = NaN \<or> (\<exists>q. acf_UnknownUtilizationPct c = Finite q \<and> 0 < q \<and> q \<le> 100))"

lemma percentage:
  "\<not> (float_le x (Finite 0) \<or> float_less (Finite 100) x) \<Longrightarrow> x = NaN \<or> (\<exists>q. x = Finite q \<and> 0 < q \<and> q \<le> 100)"
proof (cases x)
  case (Infinite b)
  then show "\<not> (float_le x (Finite 0) \<or> float_less (Finite 100) x) \<Longrightarrow> ?thesis" by (cases b) auto
qed auto

lemma agent_thresholds_ok:
  assumes "agent_thresholds e c = Inr c'"
  shows "\<exists>m u. c' = c\<lparr>acf_UnknownMemoryMiB := m, acf_UnknownUtilizationPct := u\<rparr> \<and> 0 < m \<and>
     (u = NaN \<or> (\<exists>q. u = Finite q \<and> 0 < q \<and> q \<le> 100))"
proof -
  from assms obtain m u where "Atoi (agent_env e ''AIWM_UNKNOWN_MEMORY_MIB'' ''256'') = Some m"
    and "ParseFloat (agent_env e ''AIWM_UNKNOWN_UTILIZATION_PCT'' ''5'') = Some u"
    by (auto simp: agent_thresholds_def require_def split: option.splits if_splits)
  with assms have "c' = c\<lparr>acf_UnknownMemoryMiB := m, acf_UnknownUtilizationPct := u\<rparr>" "0 < m"
    "\<not> (float_le u (Finite 0) \<or> float_less (Finite 100) u)"
    by (auto simp: agent_thresholds_def require_def split: if_splits)
  with percentage [OF this(3)] show ?thesis by blast
qed

lemma agent_checks_ok:
  "agent_checks checkOnly c = Inr c' \<Longrightarrow> c' = c \<and> acf_MachineID c \<noteq> '''' \<and> acf_Name c \<noteq> '''' \<and>
     (checkOnly \<or> acf_EnrollmentToken c \<noteq> '''') \<and>
     0 < acf_HeartbeatEvery c \<and> 0 < acf_InventoryEvery c \<and> 0 < acf_CommandPollEvery c \<and>
     agent_url_ok (acf_ControlPlaneURL c) \<and>
     (HasPrefix (acf_DockerEndpoint c) ''unix://'' \<or> HasPrefix (acf_DockerEndpoint c) ''npipe://'')"
  by (auto simp: agent_checks_def require_def split: if_splits)

lemma agent_load_ok:
  assumes "agent_load checkOnly h f e = Inr c"
  shows "agent_config_ok checkOnly c"
proof -
  from assms obtain e' c1 c2 where "agent_checks checkOnly c1 = Inr c2" and t: "agent_thresholds e' c2 = Inr c"
    and r: "\<not> acf_RequestTimeout c \<le> 0"
    by (auto simp: agent_load_def check_def require_def split: prod.splits option.splits sum.splits if_splits)
  with agent_checks_ok [OF this(1)] agent_thresholds_ok [OF t] show ?thesis by (auto simp: agent_config_ok_def)
qed

text \<open>Where the settings of an accepted configuration come from.\<close>

lemma agent_intervals_from:
  assumes "agent_intervals e c = Inr c'"
  shows "\<exists>hb inv poll t. c' = c\<lparr>acf_HeartbeatEvery := hb, acf_InventoryEvery := inv, acf_CommandPollEvery := poll, acf_RequestTimeout := t\<rparr> \<and>
    agent_duration e ''AIWM_AGENT_HEARTBEAT_INTERVAL'' (5 * Second) = Inr hb \<and>
    agent_duration e ''AIWM_AGENT_INVENTORY_INTERVAL'' (15 * Second) = Inr inv \<and>
    agent_duration e ''AIWM_AGENT_COMMAND_POLL_INTERVAL'' (2 * Second) = Inr poll"
  using assms by (auto simp: agent_intervals_def check_def split: sum.splits)

lemma agent_thresholds_from:
  assumes "agent_thresholds e c = Inr c'"
  shows "\<exists>m u. c' = c\<lparr>acf_UnknownMemoryMiB := m, acf_UnknownUtilizationPct := u\<rparr> \<and>
    Atoi (agent_env e ''AIWM_UNKNOWN_MEMORY_MIB'' ''256'') = Some m \<and>
    ParseFloat (agent_env e ''AIWM_UNKNOWN_UTILIZATION_PCT'' ''5'') = Some u"
  using assms by (auto simp: agent_thresholds_def require_def split: option.splits if_splits)

lemma machine_identity_first:
  "machine_identity h e = (case filter (\<lambda>m. m \<noteq> '''') [TrimSpace (label_get e ''AIWM_AGENT_MACHINE_ID''),
       readMachineID (hst_MachineID h), hst_Hostname h] of [] \<Rightarrow> '''' | m # _ \<Rightarrow> m)"
  by (simp add: machine_identity_def Let_def)

lemma agent_load_from:
  assumes "LoadAgent h f e0 = Inr c"
  shows "fst (loadDotEnv f e0) = None"
    and "acf_MachineID c = machine_identity h (snd (loadDotEnv f e0))"
    and "acf_Name c = agent_env (snd (loadDotEnv f e0)) ''AIWM_AGENT_NAME'' (hst_Hostname h)"
    and "acf_Labels c = parseLabels (label_get (snd (loadDotEnv f e0)) ''AIWM_AGENT_LABELS'')"
    and "acf_EnrollmentToken c = agent_env (snd (loadDotEnv f e0)) ''AIWM_ENROLLMENT_TOKEN'' ''''"
    and "acf_ControlPlaneURL c = agent_env (snd (loadDotEnv f e0)) ''AIWM_CONTROL_PLANE_URL'' (defaultControlPlaneURL (hst_ReleaseURL h))"
    and "acf_DockerEndpoint c = agent_env (snd (loadDotEnv f e0)) ''AIWM_DOCKER_ENDPOINT'' ''unix:///var/run/docker.sock''"
    and "agent_duration (snd (loadDotEnv f e0)) ''AIWM_AGENT_HEARTBEAT_INTERVAL'' (5 * Second) = Inr (acf_HeartbeatEvery c)"
    and "agent_duration (snd (loadDotEnv f e0)) ''AIWM_AGENT_INVENTORY_INTERVAL'' (15 * Second) = Inr (acf_InventoryEvery c)"
    and "agent_duration (snd (loadDotEnv f e0)) ''AIWM_AGENT_COMMAND_POLL_INTERVAL'' (2 * Second) = Inr (acf_CommandPollEvery c)"
    and "Atoi (agent_env (snd (loadDotEnv f e0)) ''AIWM_UNKNOWN_MEMORY_MIB'' ''256'') = Some (acf_UnknownMemoryMiB c)"
    and "ParseFloat (agent_env (snd (loadDotEnv f e0)) ''AIWM_UNKNOWN_UTILIZATION_PCT'' ''5'') = Some (acf_UnknownUtilizationPct c)"
    and "tls_of c = \<lparr>tls_CAFile = label_get (snd (loadDotEnv f e0)) ''AIWM_AGENT_TLS_CA_FILE'',
      tls_CertFile = label_get (snd (loadDotEnv f e0)) ''AIWM_AGENT_TLS_CERT_FILE'',
      tls_KeyFile = label_get (snd (loadDotEnv f e0)) ''AIWM_AGENT_TLS_KEY_FILE''\<rparr>"
proof -
  obtain err e where env: "loadDotEnv f e0 = (err, e)" by fastforce
  from assms env obtain c1 c2 where "err = None" and i: "agent_intervals e (agent_texts h e) = Inr c1"
    and "agent_checks False c1 = Inr c2" and t: "agent_thresholds e c2 = Inr c"
    by (auto simp: LoadAgent_def agent_load_def check_def require_def split: option.splits sum.splits if_splits)
  moreover from agent_checks_ok [OF this(3)] have "c2 = c1" by simp
  moreover from agent_intervals_from [OF i] obtain hb inv poll tm where "c1 = (agent_texts h e)\<lparr>acf_HeartbeatEvery := hb,
      acf_InventoryEvery := inv, acf_CommandPollEvery := poll, acf_RequestTimeout := tm\<rparr>"
    "agent_duration e ''AIWM_AGENT_HEARTBEAT_INTERVAL'' (5 * Second) = Inr hb"
    "agent_duration e ''AIWM_AGENT_INVENTORY_INTERVAL'' (15 * Second) = Inr inv"
    "agent_duration e ''AIWM_AGENT_COMMAND_POLL_INTERVAL'' (2 * Second) = Inr poll" by blast
  moreover from agent_thresholds_from [OF t] obtain m u where "c = c2\<lparr>acf_UnknownMemoryMiB := m, acf_UnknownUtilizationPct := u\<rparr>"
    "Atoi (agent_env e ''AIWM_UNKNOWN_MEMORY_MIB'' ''256'') = Some m"
    "ParseFloat (agent_env e ''AIWM_UNKNOWN_UTILIZATION_PCT'' ''5'') = Some u" by blast
  ultimately show "fst (loadDotEnv f e0) = None" "acf_MachineID c = machine_identity h (snd (loadDotEnv f e0))"
    "acf_Name c = agent_env (snd (loadDotEnv f e0)) ''AIWM_AGENT_NAME'' (hst_Hostname h)"
    "acf_Labels c = parseLabels (label_get (snd (loadDotEnv f e0)) ''AIWM_AGENT_LABELS'')"
    "acf_EnrollmentToken c = agent_env (snd (loadDotEnv f e0)) ''AIWM_ENROLLMENT_TOKEN'' ''''"
    "acf_ControlPlaneURL c = agent_env (snd (loadDotEnv f e0)) ''AIWM_CONTROL_PLANE_URL'' (defaultControlPlaneURL (hst_ReleaseURL h))"
    "acf_DockerEndpoint c = agent_env (snd (loadDotEnv f e0)) ''AIWM_DOCKER_ENDPOINT'' ''unix:///var/run/docker.sock''"
    "agent_duration (snd (loadDotEnv f e0)) ''AIWM_AGENT_HEARTBEAT_INTERVAL'' (5 * Second) = Inr (acf_HeartbeatEvery c)"
    "agent_duration (snd (loadDotEnv f e0)) ''AIWM_AGENT_INVENTORY_INTERVAL'' (15 * Second) = Inr (acf_InventoryEvery c)"
    "agent_duration (snd (loadDotEnv f e0)) ''AIWM_AGENT_COMMAND_POLL_INTERVAL'' (2 * Second) = Inr (acf_CommandPollEvery c)"
    "Atoi (agent_env (snd (loadDotEnv f e0)) ''AIWM_UNKNOWN_MEMORY_MIB'' ''256'') = Some (acf_UnknownMemoryMiB c)"
    "ParseFloat (agent_env (snd (loadDotEnv f e0)) ''AIWM_UNKNOWN_UTILIZATION_PCT'' ''5'') = Some (acf_UnknownUtilizationPct c)"
    "tls_of c = \<lparr>tls_CAFile = label_get (snd (loadDotEnv f e0)) ''AIWM_AGENT_TLS_CA_FILE'',
      tls_CertFile = label_get (snd (loadDotEnv f e0)) ''AIWM_AGENT_TLS_CERT_FILE'',
      tls_KeyFile = label_get (snd (loadDotEnv f e0)) ''AIWM_AGENT_TLS_KEY_FILE''\<rparr>"
    by (simp_all add: env agent_texts_def tls_of_def)
qed

text \<open>What a runner has, in terms of the variables of its environment.\<close>

definition runner_configured :: "'w AgentHost \<Rightarrow> env_vars \<Rightarrow> 'w Runner \<Rightarrow> bool" where
  "runner_configured h e r \<longleftrightarrow>
     cfg_MachineID (run_config r) = (case filter (\<lambda>m. m \<noteq> '''') [TrimSpace (label_get e ''AIWM_AGENT_MACHINE_ID''),
       readMachineID (hst_MachineID (ahs_facts h)), hst_Hostname (ahs_facts h)] of [] \<Rightarrow> '''' | m # _ \<Rightarrow> m) \<and>
     cfg_MachineID (run_config r) \<noteq> '''' \<and>
     cfg_Name (run_config r) = agent_env e ''AIWM_AGENT_NAME'' (hst_Hostname (ahs_facts h)) \<and> cfg_Name (run_config r) \<noteq> '''' \<and>
     cfg_AgentVersion (run_config r) = ''0.2.0'' \<and>
     cfg_Labels (run_config r) = parseLabels (label_get e ''AIWM_AGENT_LABELS'') \<and>
     cfg_EnrollmentToken (run_config r) = agent_env e ''AIWM_ENROLLMENT_TOKEN'' '''' \<and> cfg_EnrollmentToken (run_config r) \<noteq> '''' \<and>
     agent_duration e ''AIWM_AGENT_HEARTBEAT_INTERVAL'' (5 * Second) = Inr (cfg_HeartbeatEvery (run_config r)) \<and>
     agent_duration e ''AIWM_AGENT_INVENTORY_INTERVAL'' (15 * Second) = Inr (cfg_InventoryEvery (run_config r)) \<and>
     agent_duration e ''AIWM_AGENT_COMMAND_POLL_INTERVAL'' (2 * Second) = Inr (cfg_CommandPollEvery (run_config r)) \<and>
     0 < cfg_HeartbeatEvery (run_config r) \<and> 0 < cfg_InventoryEvery (run_config r) \<and> 0 < cfg_CommandPollEvery (run_config r) \<and>
     cfg_CommandLimit (run_config r) = 10 \<and> cfg_MaxCommandHistory (run_config r) = 1000"

definition inventory_configured :: "'w AgentHost \<Rightarrow> env_vars \<Rightarrow> 'w Runner \<Rightarrow> bool" where
  "inventory_configured h e r \<longleftrightarrow>
     (let inv = run_inventory r; policy = inv_policy inv; endpoint = agent_env e ''AIWM_DOCKER_ENDPOINT'' ''unix:///var/run/docker.sock'' in
      inv_machineID inv = cfg_MachineID (run_config r) \<and>
      Atoi (agent_env e ''AIWM_UNKNOWN_MEMORY_MIB'' ''256'') = Some (pol_UnknownMemoryMiB policy) \<and> 0 < pol_UnknownMemoryMiB policy \<and>
      ParseFloat (agent_env e ''AIWM_UNKNOWN_UTILIZATION_PCT'' ''5'') = Some (pol_UnknownUtilizationPct policy) \<and>
      (pol_UnknownUtilizationPct policy = NaN \<or> (\<exists>q. pol_UnknownUtilizationPct policy = Finite q \<and> 0 < q \<and> q \<le> 100)) \<and>
      (HasPrefix endpoint ''unix://'' \<or> HasPrefix endpoint ''npipe://'') \<and>
      (\<exists>api. ahs_docker h endpoint = Inr api \<and> inv_docker inv = Some (engine_runtime api)) \<and>
      inv_gpus inv = Some (ahs_gpus h) \<and>
      ex_inventory (run_executor r) = inv \<and> ex_docker (run_executor r) = inv_docker inv)"

definition client_configured :: "'w AgentHost \<Rightarrow> env_vars \<Rightarrow> 'w Runner \<Rightarrow> bool" where
  "client_configured h e r \<longleftrightarrow>
     (let url = agent_env e ''AIWM_CONTROL_PLANE_URL'' (defaultControlPlaneURL (hst_ReleaseURL (ahs_facts h))) in
      agent_url_ok url \<and>
      (\<exists>client. run_client r = http_client client (ahs_transport h) \<and>
         New_Client (ahs_tls h) (ahs_length h) (ahs_jsonError h) url
           \<lparr>tls_CAFile = label_get e ''AIWM_AGENT_TLS_CA_FILE'', tls_CertFile = label_get e ''AIWM_AGENT_TLS_CERT_FILE'',
            tls_KeyFile = label_get e ''AIWM_AGENT_TLS_KEY_FILE''\<rparr> = Inr client))"

text \<open>How the runner starts on a fresh host.\<close>

lemma boots_fresh:
  assumes "cfg_MachineID (run_config r) \<noteq> ''''" and "ag_file a = NoFile" and "run_io r (ag_world a) = (\<lambda>s. None, w)"
  shows "\<exists>a'. boot r a = (Inr (), a') \<and> ag_docker a' = (ag_docker a)\<lparr>dk_world := w\<rparr> \<and>
    ag_file a' = GoodFile (empty_state\<lparr>pst_MachineID := cfg_MachineID (run_config r)\<rparr>)"
  using assms by (simp add: boot_def Load_def boot_checks_def empty_state_def Save_def emit_def set_world_def Let_def)

lemma new_runner_configured:
  assumes c: "LoadAgent (ahs_facts h) f e0 = Inr c" and api: "New_Engine_API (ahs_docker h) (acf_DockerEndpoint c) = Inr api"
    and client: "New_Client (ahs_tls h) (ahs_length h) (ahs_jsonError h) (acf_ControlPlaneURL c) (tls_of c) = Inr client"
    and r: "r = new_runner h (runner_config agentVersion 10 1000 c) client
      (NewInventoryCollector h (engine_runtime api) resolver [policy_of c])"
  shows "runner_configured h (snd (loadDotEnv f e0)) r \<and> inventory_configured h (snd (loadDotEnv f e0)) r \<and>
    client_configured h (snd (loadDotEnv f e0)) r"
proof -
  note from_env = agent_load_from [OF c]
  have ok: "agent_config_ok False c" using c agent_load_ok by (simp add: LoadAgent_def)
  have parts: "run_config r = runner_config agentVersion 10 1000 c" "run_client r = http_client client (ahs_transport h)"
    "run_inventory r = (NewInventoryCollector h (engine_runtime api) resolver [policy_of c])\<lparr>inv_machineID := acf_MachineID c\<rparr>"
    "ex_inventory (run_executor r) = run_inventory r" "ex_docker (run_executor r) = inv_docker (run_inventory r)"
    by (simp_all add: r new_runner_def NewRunner_def runner_config_def Let_def)
  have "runner_configured h (snd (loadDotEnv f e0)) r"
    using ok unfolding runner_configured_def parts machine_identity_first [symmetric]
    by (simp add: runner_config_def agentVersion_def agent_config_ok_def from_env(2-5) from_env(8-10) [simplified])
  moreover have "inventory_configured h (snd (loadDotEnv f e0)) r"
  proof -
    have "ahs_docker h (acf_DockerEndpoint c) = Inr api" using api by (simp add: New_Engine_API_def split: if_splits)
    with ok show ?thesis unfolding inventory_configured_def Let_def parts from_env(7) [symmetric]
      by (simp add: NewInventoryCollector_def collector_policy_def policy_of_def runner_config_def agent_config_ok_def from_env)
  qed
  moreover have "client_configured h (snd (loadDotEnv f e0)) r"
    using ok client unfolding client_configured_def Let_def parts from_env(6,13) [symmetric]
    by (auto simp: agent_config_ok_def)
  ultimately show ?thesis by blast
qed

text \<open>
  C20. The agent runs as it was configured. When it starts, the environment completed by its \<open>.env\<close> file,
  which changes no variable that was set, holds every setting of the runner: the machine (the variable,
  else the identity of the host, else its name), name, labels and enrolment token; the three intervals,
  each of its own variable and positive; ten commands a poll and a thousand results kept. Inventory and
  executor are those of that machine over the configured local Docker endpoint, with the configured
  thresholds, positive and the share of utilisation at most 100, or not a number; the client is that of
  the configured address of the control plane, which has a web scheme and a host. Neither starting nor
  checking a host changes a container. On a fresh host whose state file can be written the runner then
  boots under the identity of the machine.
\<close>

theorem agent_runs_as_configured:
  assumes "agent_main h False checkOnly f e st = (result, st')"
  shows "dk_calls st' = dk_calls st \<and>
    (\<forall>r. result = AgentRunning r \<longrightarrow> \<not> checkOnly \<and> fst (loadDotEnv f e) = None \<and>
      (\<forall>k v. map_of e k = Some v \<longrightarrow> map_of (snd (loadDotEnv f e)) k = Some v) \<and>
      runner_configured h (snd (loadDotEnv f e)) r \<and> inventory_configured h (snd (loadDotEnv f e)) r \<and>
      client_configured h (snd (loadDotEnv f e)) r \<and>
      (\<forall>a w. ag_file a = NoFile \<and> run_io r (ag_world a) = (\<lambda>s. None, w) \<longrightarrow>
         (\<exists>a'. boot r a = (Inr (), a') \<and> ag_docker a' = (ag_docker a)\<lparr>dk_world := w\<rparr> \<and>
               ag_file a' = GoodFile (empty_state\<lparr>pst_MachineID := cfg_MachineID (run_config r)\<rparr>))))"
proof (cases "(if checkOnly then LoadForCheck else LoadAgent) (ahs_facts h) f e")
  case (Inl err)
  with assms show ?thesis by (auto simp: agent_main_def)
next
  case (Inr c)
  note loaded = this
  show ?thesis
  proof (cases "New_Engine_API (ahs_docker h) (acf_DockerEndpoint c)")
    case (Inl err)
    with assms loaded show ?thesis by (auto simp: agent_main_def)
  next
    case (Inr api)
    define collector where "collector = NewInventoryCollector h (engine_runtime api)
      (\<lambda>w. cgroup_ContainerID (ahs_cgroup h w)) [policy_of c]"
    obtain report st1 where p: "Preflight collector (Some (acf_MachineID c)) st = (report, st1)"
      by (cases "Preflight collector (Some (acf_MachineID c)) st")
    have "inv_docker collector = Some (engine_runtime api)" by (simp add: collector_def NewInventoryCollector_def)
    from Preflight_silent [OF engine.docker_runtime_axioms this p] have calls: "dk_calls st1 = dk_calls st" .
    have main: "(result, st') = (if checkOnly then (Checked report, st1)
        else case New_Client (ahs_tls h) (ahs_length h) (ahs_jsonError h) (acf_ControlPlaneURL c) (tls_of c) of
          Inl err \<Rightarrow> (ClientFailed err, st1)
        | Inr client \<Rightarrow> (AgentRunning (new_runner h (runner_config agentVersion 10 1000 c) client collector), st1))"
      using assms [symmetric] loaded Inr p unfolding collector_def by (simp add: agent_main_def split del: if_split)
    then have same: "st' = st1" by (auto split: if_splits sum.splits)
    have started: "\<not> checkOnly \<and> fst (loadDotEnv f e) = None \<and> runner_configured h (snd (loadDotEnv f e)) r \<and>
        inventory_configured h (snd (loadDotEnv f e)) r \<and> client_configured h (snd (loadDotEnv f e)) r"
      if "result = AgentRunning r" for r
    proof -
      from main that obtain client where client: "\<not> checkOnly"
        "New_Client (ahs_tls h) (ahs_length h) (ahs_jsonError h) (acf_ControlPlaneURL c) (tls_of c) = Inr client"
        "r = new_runner h (runner_config agentVersion 10 1000 c) client collector" by (auto split: if_splits sum.splits)
      with loaded have c: "LoadAgent (ahs_facts h) f e = Inr c" by simp
      from new_runner_configured [OF c Inr client(2) client(3) [unfolded collector_def]] agent_load_from(1) [OF c] client(1)
      show ?thesis by blast
    qed
    have kept: "map_of e k = Some v \<longrightarrow> map_of (snd (loadDotEnv f e)) k = Some v" for k v
      using env_file_keeps by (metis prod.collapse)
    have boots: "\<exists>a'. boot r a = (Inr (), a') \<and> ag_docker a' = (ag_docker a)\<lparr>dk_world := w\<rparr> \<and>
        ag_file a' = GoodFile (empty_state\<lparr>pst_MachineID := cfg_MachineID (run_config r)\<rparr>)"
      if "result = AgentRunning r" "ag_file a = NoFile \<and> run_io r (ag_world a) = (\<lambda>s. None, w)" for r a w
    proof -
      have "cfg_MachineID (run_config r) \<noteq> ''''" using started [OF that(1)] unfolding runner_configured_def by blast
      with that(2) show ?thesis by (intro boots_fresh) simp_all
    qed
    show ?thesis using started kept boots calls same by blast
  qed
qed

end
