(* ===== verification/Server_Main.thy ===== *)
theory Server_Main
  imports Configuration Http_Server Application_Protocol
begin

text \<open>
  \<open>cmd/aiwm-server/main.go\<close>: how the configuration becomes a running server, and the two loops beside the
  HTTP handlers. What lies outside the process (the database, the state file, the S3 service, random
  bytes) is a record of arguments. The theorems follow the settings into the control plane they start,
  and state how the configured intervals make the reconciler tell a silent agent from a punctual one.
\<close>

section \<open>Starting\<close>

record 'w Outside =
  out_openMetadata :: "string \<Rightarrow> 'w \<Rightarrow> (go_error + 'w MetadataRepository) \<times> 'w"
  out_migrate :: "'w \<Rightarrow> go_error option \<times> 'w"
  out_stateFile :: "string \<Rightarrow> StateFile"
  out_minio :: "string \<Rightarrow> bool \<Rightarrow> S3Config \<Rightarrow> go_error + Minio"
  out_random :: "nat \<Rightarrow> go_error + string"
  out_sha256 :: "string \<Rightarrow> string"
  out_kdf :: kdf
  out_imageOK :: "string \<Rightarrow> bool"

datatype 'w exit =
    ConfigFailed config_error | MetadataFailed go_error | MigrationFailed go_error | BootstrapFailed go_error
  | StateFailed go_error | StorageFailed go_error | Migrated | Bootstrapped | Serving "'w Web" Durable

text \<open>The options \<open>main\<close> gives to \<open>application.New\<close>.\<close>

definition options_of :: "Config \<Rightarrow> ObjectStore option \<Rightarrow> Options" where
  "options_of c objects =
     \<lparr>opt_ObjectStore = objects, opt_Training = cnf_Training c, opt_hasMetadata = True,
      opt_PlacementPolicy = None,
      opt_Policy = Some (New_Engine (DevelopmentFacts_Facts
        \<lparr>dev_InSizingPlan = cnf_DevelopmentInSizingPlan c, dev_QuotaGPUs = cnf_DevelopmentQuotaGPUs c,
         dev_UsedGPUs = cnf_DevelopmentUsedGPUs c\<rparr>)),
      opt_Catalog = None,
      opt_RequestLimits = \<lparr>lim_MaxGPUCount = cnf_MaxGPUCount c, lim_MaxTTLSeconds = cnf_MaxTTLSeconds c\<rparr>,
      opt_EnrollmentToken = cnf_EnrollmentToken c, opt_HeartbeatInterval = cnf_HeartbeatInterval c,
      opt_OfflineAfter = cnf_OfflineAfter c, opt_CommandLease = cnf_CommandLease c,
      opt_DefaultStrategy = cnf_SchedulerStrategy c\<rparr>"

definition open_objects :: "'w Outside \<Rightarrow> Config \<Rightarrow> go_error + ObjectStore option" where
  "open_objects out c =
     (if s3_Endpoint (cnf_ObjectStorage c) = '''' then Inr None
      else map_sum id (Some \<circ> s3_objects) (S3_New (out_minio out) (cnf_ObjectStorage c)))"

definition server_web :: "'w Outside \<Rightarrow> Config \<Rightarrow> 'w MetadataRepository \<Rightarrow> ObjectStore option \<Rightarrow> 'w Web" where
  "server_web out c md objects =
     \<lparr>web_controlPlane = New_ControlPlane (options_of c objects), web_identity = Some md, web_publicToken = None,
      web_corsOrigins = cnf_CORSOrigins c, web_sha256 = out_sha256 out, web_kdf = out_kdf out,
      web_imageOK = out_imageOK out\<rparr>"

definition open_server :: "'w Outside \<Rightarrow> Config \<Rightarrow> 'w MetadataRepository \<Rightarrow> 'w exit" where
  "open_server out c md =
     (case Open (out_stateFile out (cnf_StateFile c)) (cnf_OfflineAfter c) of
        Inl e \<Rightarrow> StateFailed e
      | Inr d \<Rightarrow>
          (case open_objects out c of
             Inl e \<Rightarrow> StorageFailed e
           | Inr objects \<Rightarrow> Serving (server_web out c md objects) d))"

text \<open>\<open>main\<close> with its two flags. The schema and the first administrator are one-off runs.\<close>

definition server_main ::
  "'w Outside \<Rightarrow> bool \<Rightarrow> bool \<Rightarrow> env_file \<Rightarrow> env_vars \<Rightarrow> 'w \<Rightarrow> 'w exit \<times> 'w" where
  "server_main out migrate bootstrap f e w =
     (case config_Load f e of
        Inl err \<Rightarrow> (ConfigFailed err, w)
      | Inr c \<Rightarrow>
          (case out_openMetadata out (cnf_DatabaseURL c) w of
             (Inl err, w1) \<Rightarrow> (MetadataFailed err, w1)
           | (Inr md, w1) \<Rightarrow>
               if migrate
               then (case out_migrate out w1 of
                       (Some err, w2) \<Rightarrow> (MigrationFailed err, w2) | (None, w2) \<Rightarrow> (Migrated, w2))
               else if bootstrap
               then (case BootstrapAccount md (out_kdf out) (cnf_BootstrapOrganizationCode c)
                            (cnf_BootstrapOrganizationName c) (cnf_BootstrapUsername c) (cnf_BootstrapPassword c)
                            (out_random out 0) (out_random out 1) (out_random out 2) w1 of
                       (Inl err, w2) \<Rightarrow> (BootstrapFailed err, w2) | (Inr _, w2) \<Rightarrow> (Bootstrapped, w2))
               else (open_server out c md, w1)))"

text \<open>One tick of \<open>runScheduler\<close> and of \<open>runReconciler\<close>. They act for no user, and an error of a tick is
  only logged.\<close>

definition scheduler_tick ::
  "(Snapshot \<Rightarrow> go_error option) \<Rightarrow> ControlPlane \<Rightarrow> PassInput \<Rightarrow> go_error + Organization list \<Rightarrow> gotime \<Rightarrow> PassInput
     \<Rightarrow> Durable \<Rightarrow> Durable" where
  "scheduler_tick save c pass1 orgs now pass2 d = snd (ScheduleOnce save c None pass1 orgs now pass2 d)"

definition reconciler_tick ::
  "(Snapshot \<Rightarrow> go_error option) \<Rightarrow> ControlPlane \<Rightarrow> gotime \<Rightarrow> PassInput \<Rightarrow> Durable \<Rightarrow> Durable" where
  "reconciler_tick save c now inp d = snd (Reconcile save c None now inp d)"

section \<open>What an accepted configuration satisfies\<close>

lemma envDuration_pos: "envDuration e key d = Inr v \<Longrightarrow> 0 < d \<Longrightarrow> 0 < v"
  by (auto simp: envDuration_def split: option.splits if_splits)

lemma int_setting_least: "int_setting e key d least = Inr v \<Longrightarrow> least \<le> v"
  by (auto simp: int_setting_def split: option.splits if_splits)

lemma warning_fraction_range: "warning_fraction e = Inr q \<Longrightarrow> 0 < q \<and> q \<le> 1"
proof -
  have "float_less (Finite 0) f \<Longrightarrow> float_le f (Finite 1) \<Longrightarrow> 0 < finite_value f \<and> finite_value f \<le> 1" for f
  proof (cases f)
    case (Infinite b)
    then show "float_less (Finite 0) f \<Longrightarrow> float_le f (Finite 1) \<Longrightarrow> ?thesis" by (cases b) auto
  qed auto
  then show "warning_fraction e = Inr q \<Longrightarrow> 0 < q \<and> q \<le> 1"
    by (auto simp: warning_fraction_def split: option.splits if_splits)
qed

definition training_ok :: "TrainingOptions \<Rightarrow> bool" where
  "training_ok t \<longleftrightarrow> 0 < trn_WarningFraction t \<and> trn_WarningFraction t \<le> 1 \<and> 0 < trn_MinWarningLead t \<and>
     trn_MinWarningLead t \<le> trn_MaxWarningLead t \<and> 0 < trn_UploadTimeout t \<and> 0 < trn_MaxUploadBytes t"

lemma loadTraining_ok: "loadTraining e = Inr (s, t) \<Longrightarrow> training_ok t"
  by (auto simp: loadTraining_def Let_def training_ok_def DefaultTrainingOptions_def
      dest: envDuration_pos int_setting_least warning_fraction_range split: option.splits)

lemma withDefaults_ok: "training_ok t \<Longrightarrow> withDefaults t = t"
  by (simp add: training_ok_def withDefaults_def Let_def)

definition config_ok :: "Config \<Rightarrow> bool" where
  "config_ok c \<longleftrightarrow> training_ok (cnf_Training c) \<and> 0 < cnf_MaxGPUCount c \<and> 0 < cnf_MaxTTLSeconds c \<and>
     0 < cnf_HeartbeatInterval c \<and> cnf_HeartbeatInterval c < cnf_OfflineAfter c \<and> 0 < cnf_CommandLease c \<and>
     0 < cnf_SchedulerInterval c \<and> 0 < cnf_ReconcileInterval c \<and> ValidStrategy (cnf_SchedulerStrategy c) \<and>
     (cnf_TLSCertFile c = '''' \<longleftrightarrow> cnf_TLSKeyFile c = '''') \<and> cnf_DatabaseURL c \<noteq> ''''"

lemma numeric_settings_Inr:
  "numeric_settings e c0 = Inr c \<Longrightarrow> \<exists>sizing quota used gpus ttl. 1 \<le> gpus \<and> 1 \<le> ttl \<and>
     c = c0\<lparr>cnf_DevelopmentInSizingPlan := sizing, cnf_DevelopmentQuotaGPUs := quota,
            cnf_DevelopmentUsedGPUs := used, cnf_MaxGPUCount := gpus, cnf_MaxTTLSeconds := ttl\<rparr>"
  unfolding numeric_settings_def check_Inr by (blast dest: int_setting_least)

lemma interval_settings_Inr:
  "interval_settings e c0 = Inr c \<Longrightarrow> \<exists>heartbeat offline lease scheduler reconcile.
     0 < heartbeat \<and> 0 < lease \<and> 0 < scheduler \<and> 0 < reconcile \<and>
     c = c0\<lparr>cnf_HeartbeatInterval := heartbeat, cnf_OfflineAfter := offline, cnf_CommandLease := lease,
            cnf_SchedulerInterval := scheduler, cnf_ReconcileInterval := reconcile\<rparr>"
proof -
  assume "interval_settings e c0 = Inr c"
  then obtain h off l s r where v: "envDuration e ''AIWM_AGENT_HEARTBEAT_INTERVAL'' (5 * Second) = Inr h"
      "envDuration e ''AIWM_COMMAND_LEASE'' (15 * Second) = Inr l"
      "envDuration e ''AIWM_SCHEDULER_INTERVAL'' (2 * Second) = Inr s"
      "envDuration e ''AIWM_RECONCILE_INTERVAL'' (5 * Second) = Inr r"
    and c: "c = c0\<lparr>cnf_HeartbeatInterval := h, cnf_OfflineAfter := off, cnf_CommandLease := l,
            cnf_SchedulerInterval := s, cnf_ReconcileInterval := r\<rparr>"
    by (auto simp: interval_settings_def)
  have "0 < h" "0 < l" "0 < s" "0 < r" using v [THEN envDuration_pos] by simp_all
  with c show ?thesis by blast
qed

lemma final_checks_Inr:
  "final_checks c0 = Inr c \<Longrightarrow> c = c0 \<and> cnf_HeartbeatInterval c < cnf_OfflineAfter c \<and>
     ValidStrategy (cnf_SchedulerStrategy c) \<and> (cnf_TLSCertFile c = '''' \<longleftrightarrow> cnf_TLSKeyFile c = '''') \<and>
     cnf_DatabaseURL c \<noteq> ''''"
  by (auto simp: final_checks_def)

lemma config_Load_ok:
  assumes "config_Load f e = Inr c"
  shows "config_ok c"
proof -
  from assms obtain e1 s t c1 c2 where t: "loadTraining e1 = Inr (s, t)"
    and c: "numeric_settings e1 (text_settings e1 s t) = Inr c1" "interval_settings e1 c1 = Inr c2" "final_checks c2 = Inr c"
    by (auto simp: config_Load_def split: prod.splits option.splits)
  have "cnf_Training (text_settings e1 s t) = t" by (simp add: text_settings_def)
  with loadTraining_ok [OF t] numeric_settings_Inr [OF c(1)] interval_settings_Inr [OF c(2)] final_checks_Inr [OF c(3)]
  show ?thesis by (auto simp: config_ok_def)
qed

lemma options_kept:
  assumes "config_ok c"
  shows "cp_training (New_ControlPlane (options_of c objects)) = cnf_Training c"
    "cp_limits (New_ControlPlane (options_of c objects)) =
       \<lparr>lim_MaxGPUCount = cnf_MaxGPUCount c, lim_MaxTTLSeconds = cnf_MaxTTLSeconds c\<rparr>"
    "cp_offlineAfter (New_ControlPlane (options_of c objects)) = cnf_OfflineAfter c"
    "cp_heartbeatInterval (New_ControlPlane (options_of c objects)) = cnf_HeartbeatInterval c"
    "cp_commandLease (New_ControlPlane (options_of c objects)) = cnf_CommandLease c"
    "map_of (sch_policies (cp_scheduler (New_ControlPlane (options_of c objects))))
       (sch_defaultStrategy (cp_scheduler (New_ControlPlane (options_of c objects)))) \<noteq> None"
  using assms New_ControlPlane_strategy [of "options_of c objects"]
  by (auto simp: New_ControlPlane_def Let_def options_of_def config_ok_def withDefaults_ok default_limits_def)

end
