(* ===== verification/Server_Laws.thy ===== *)
theory Server_Laws
  imports Server_Main
begin

text \<open>
  What the intervals of an accepted configuration mean at run time: a tick of the reconciler leaves a
  server whose agent keeps its heartbeat interval as it was, and marks a silent one offline. The proof
  follows the presence of the servers, their status and last heartbeat, through the calls of the
  execution controller, none of which changes it.
\<close>

section \<open>Presence\<close>

definition contact :: "Server \<Rightarrow> ServerStatus \<times> gotime" where
  "contact v = (srv_Status v, srv_LastHeartbeatAt v)"

definition presence :: "Store \<Rightarrow> string \<Rightarrow> (ServerStatus \<times> gotime) option" where
  "presence s i = map_option contact (map_of (st_servers s) i)"

lemma presence_cong: "st_servers s' = st_servers s \<Longrightarrow> presence s' = presence s"
  by (simp add: presence_def fun_eq_iff)

lemma releaseLocked_presence:
  assumes "inv s"
  shows "presence (snd (releaseLocked job now s)) = presence s"
proof (cases "job_Assignment job")
  case None
  then show ?thesis by (simp add: releaseLocked_def)
next
  case (Some a)
  show ?thesis
  proof (cases "map_of (st_servers s) (asg_ServerID a)")
    case None
    with Some show ?thesis by (simp add: releaseLocked_def Let_def presence_def fun_eq_iff)
  next
    case v: (Some v)
    with inv_lookup(1) [OF assms v] Some show ?thesis
      by (auto simp: releaseLocked_def Let_def wf_server_def contact_def presence_def fun_eq_iff v)
  qed
qed

lemma finish_job_presence: "inv s \<Longrightarrow> presence (finish_job k job now s) = presence s"
  using releaseLocked_presence [of s job now]
  by (auto simp: finish_job_def presence_def fun_eq_iff split: prod.split)

lemma RequestStop_presence:
  assumes "inv s"
  shows "presence (snd (RequestStop i c t s)) = presence s"
proof -
  note fin = finish_job_presence [OF assms] finish_job_presence [OF inv_put_command [OF assms]]
  have "presence (put_command c' s) = presence s" for c' by (rule presence_cong) simp
  with fin show ?thesis
    by (cases rule: RequestStop_cases [OF assms, of i c t]) (auto simp: presence_def fun_eq_iff)
qed

lemma SetJobStatus_presence: "inv s \<Longrightarrow> presence (snd (SetJobStatus i st r t s)) = presence s"
  using SetJobStatus_cases [of s i st r t] finish_job_presence [of s]
  by (auto simp: Let_def presence_def fun_eq_iff split: if_splits)

lemma UpdateTraining_presence: "presence (snd (UpdateTraining i w t now s)) = presence s"
  by (auto simp: UpdateTraining_def Let_def presence_def fun_eq_iff split: option.split)

lemma CommitAssignment_presence:
  assumes "inv s"
  shows "presence (snd (CommitAssignment i p c t s)) = presence s"
proof (cases rule: CommitAssignment_cases [of i p c t s])
  case (refused e)
  then show ?thesis by simp
next
  case (committed job server)
  from inv_lookup(1) [OF assms committed(2)] have "srv_ID server = plc_ServerID p"
    by (simp add: wf_server_def)
  with committed show ?thesis
    by (auto simp: contact_def reserved_server_def presence_def fun_eq_iff)
qed

section \<open>The controller does not touch it\<close>

named_theorems quiet_intros \<open>operations of the application that leave every server's presence alone\<close>

definition quiet :: "duration \<Rightarrow> 'a app \<Rightarrow> bool" where
  "quiet off m \<longleftrightarrow> advances off m \<and>
     (\<forall>d. reachable off d \<longrightarrow> presence (dur_core (snd (m d))) = presence (dur_core d))"

lemma quietD:
  "quiet off m \<Longrightarrow> reachable off d \<Longrightarrow> m d = (r, d') \<Longrightarrow>
     reachable off d' \<and> presence (dur_core d') = presence (dur_core d)"
  using advancesD [of off m d r d'] by (fastforce simp: quiet_def)

lemma quiet_pure [quiet_intros]:
  "quiet off (reply v)" "quiet off (fail e)" "quiet off (lift r)" "quiet off (peek fn)"
  by (simp_all add: quiet_def)

lemma quiet_andThen [quiet_intros]:
  assumes "quiet off m" and "\<And>v. quiet off (f v)"
  shows "quiet off (andThen m f)"
proof -
  have "presence (dur_core (snd (andThen m f d))) = presence (dur_core d)" if "reachable off d" for d
  proof (cases "m d")
    case (Pair r d1)
    note d1 = quietD [OF assms(1) that Pair]
    show ?thesis
    proof (cases r)
      case (Inr v)
      with Pair d1 quietD [OF assms(2), of d1] show ?thesis by (simp add: andThen_def) (metis prod.collapse)
    qed (simp add: andThen_def Pair d1)
  qed
  moreover have "advances off (andThen m f)"
    using assms by (intro advances_andThen) (simp_all add: quiet_def)
  ultimately show ?thesis by (simp add: quiet_def)
qed

lemma quiet_on_conflict [quiet_intros]:
  assumes "quiet off m" and "quiet off h"
  shows "quiet off (on_conflict m h)"
proof -
  have "presence (dur_core (snd (on_conflict m h d))) = presence (dur_core d)" if "reachable off d" for d
  proof (cases "m d")
    case (Pair r d1)
    note d1 = quietD [OF assms(1) that Pair]
    with Pair quietD [OF assms(2), of d1] show ?thesis
      by (auto simp: on_conflict_def split: sum.split) (metis prod.collapse)+
  qed
  then show ?thesis using assms advances_on_conflict by (auto simp: quiet_def)
qed

lemma quiet_if [quiet_intros]: "quiet off m \<Longrightarrow> quiet off n \<Longrightarrow> quiet off (if b then m else n)"
  by simp

lemma quiet_transact:
  assumes "advances off (transact save f)" and "\<And>s. inv s \<Longrightarrow> presence (snd (f s)) = presence s"
  shows "quiet off (transact save f)"
proof -
  have "presence (dur_core (snd (transact save f d))) = presence (dur_core d)" if "reachable off d" for d
    using assms(2) [OF reachable_inv [OF that]]
    by (auto simp: transact_def Let_def presence_def fun_eq_iff Restore_def Export_def split: prod.splits sum.splits option.splits)
  then show ?thesis using assms(1) by (simp add: quiet_def)
qed

lemma quiet_calls [quiet_intros]:
  "quiet off (transact save (SetJobStatus i st r t))"
  "quiet off (transact save (CommitAssignment i p c t))"
  "quiet off (transact save (RequestStop i c t))"
  "quiet off (transact save (UpdateTraining i w tr t))"
  using SetJobStatus_presence CommitAssignment_presence RequestStop_presence UpdateTraining_presence
  by (intro quiet_transact app_steps; blast)+

lemma quiet_option [quiet_intros]:
  "quiet off m \<Longrightarrow> (\<And>x. quiet off (f x)) \<Longrightarrow> quiet off (case o' of None \<Rightarrow> m | Some x \<Rightarrow> f x)"
  by (cases o') simp_all

lemma quiet_let [quiet_intros]: "(\<And>x. quiet off (f x)) \<Longrightarrow> quiet off (Let v f)"
  by (simp add: Let_def)

lemma process_job_quiet [quiet_intros]: "quiet off (process_job save c ctx enabled job random now)"
  unfolding process_job_def control_job_def end_expired_def start_if_due_def activate_def
    recoverTrainingUpload_def requestCheckpoint_def StopJob_def GetVisibleJob_def
  by (intro quiet_intros)

lemma process_all_quiet [quiet_intros]: "quiet off (process_all save c ctx enabled inp jobs)"
proof (induction jobs)
  case Nil
  show ?case unfolding process_all.simps by (intro quiet_intros)
next
  case (Cons job jobs)
  then show ?case unfolding process_all.simps by (intro quiet_intros)
qed

lemma processReservations_quiet: "quiet off (processReservations save c ctx inp)"
  unfolding processReservations_def by (intro quiet_intros)

section \<open>The reconciler\<close>

lemma MarkStale_presence:
  "presence (snd (MarkStaleServers t s)) i =
     map_option (\<lambda>(st, beat). (if beat < t \<and> st \<noteq> ServerOffline then ServerOffline else st, beat)) (presence s i)"
  by (cases "map_of (st_servers s) i") (auto simp: MarkStaleServers_def presence_def contact_def is_stale_def)

text \<open>What a tick leaves of the presence: all of it, if the snapshot cannot be saved; otherwise a server
  is offline if it was, or if its last heartbeat is older than the timeout.\<close>

lemma Reconcile_presence:
  assumes "reachable off d" and "Reconcile save c ctx now inp d = (r, d')"
  shows "presence (dur_core d') = presence (dur_core d) \<and> isl r \<or>
    presence (dur_core d') = presence (snd (MarkStaleServers (now - cp_offlineAfter c) (dur_core d)))"
proof -
  let ?mark = "MarkStaleServers (now - cp_offlineAfter c)"
  have adv: "advances off (transact save ?mark)" by (rule app_steps)
  have off: "st_offlineAfter (snd (?mark (dur_core d))) = st_offlineAfter (dur_core d)"
    by (simp add: MarkStaleServers_def)
  obtain x d1 where t: "transact save ?mark d = (x, d1)" by (cases "transact save ?mark d")
  from off show ?thesis
  proof (cases rule: transact_cases [where fn = ?mark and d = d and save = save])
    case (rolled_back e)
    with assms(2) show ?thesis by (auto simp: Reconcile_def andThen_def)
  next
    case (committed v core)
    with t have x: "x = Inr v" "dur_core d1 = core" by auto
    from advancesD [OF adv assms(1) t] have d1: "reachable off d1" by simp
    obtain y d2 where p: "processReservations save c ctx inp d1 = (y, d2)"
      by (cases "processReservations save c ctx inp d1")
    from quietD [OF processReservations_quiet d1 p] have q: "presence (dur_core d2) = presence core" by (simp add: x)
    have "d' = d2"
      using assms(2) p by (auto simp: Reconcile_def andThen_def t x split: sum.splits)
    with q committed(1) show ?thesis by simp
  qed
qed

section \<open>From the settings to the running server\<close>

lemma serving_config:
  assumes "server_main out migrate bootstrap f e w = (Serving web d, w')"
  shows "\<exists>c md objects. config_Load f e = Inr c \<and> config_ok c \<and> \<not> migrate \<and> \<not> bootstrap \<and>
    web = server_web out c md objects \<and> open_objects out c = Inr objects \<and>
    Open (out_stateFile out (cnf_StateFile c)) (cnf_OfflineAfter c) = Inr d"
proof -
  obtain c where c: "config_Load f e = Inr c" using assms by (cases "config_Load f e") (auto simp: server_main_def)
  then obtain md where "\<not> migrate" "\<not> bootstrap" "open_server out c md = Serving web d"
    using assms by (auto simp: server_main_def split: prod.splits sum.splits option.splits if_splits)
  with c config_Load_ok [OF c] show ?thesis
    by (fastforce simp: open_server_def split: sum.splits)
qed

text \<open>
  A server only starts with settings that make sense, and runs with exactly those: the timeout after
  which an agent is offline exceeds the heartbeat interval, every interval and limit is positive, the
  strategy is one the scheduler has a policy for, the TLS files come in pairs, and no default of the
  composition replaces a configured value.
\<close>

lemma server_runs_as_configured:
  assumes "server_main out migrate bootstrap f e w = (Serving web d, w')"
  shows "\<exists>c. config_Load f e = Inr c \<and> config_ok c \<and>
    cp_training (web_controlPlane web) = cnf_Training c \<and>
    cp_limits (web_controlPlane web) = \<lparr>lim_MaxGPUCount = cnf_MaxGPUCount c, lim_MaxTTLSeconds = cnf_MaxTTLSeconds c\<rparr> \<and>
    cp_heartbeatInterval (web_controlPlane web) = cnf_HeartbeatInterval c \<and>
    cp_offlineAfter (web_controlPlane web) = cnf_OfflineAfter c \<and>
    cp_commandLease (web_controlPlane web) = cnf_CommandLease c \<and>
    st_offlineAfter (dur_core d) = cnf_OfflineAfter c \<and>
    (cp_objects (web_controlPlane web) = None \<longleftrightarrow> s3_Endpoint (cnf_ObjectStorage c) = '''') \<and>
    map_of (sch_policies (cp_scheduler (web_controlPlane web)))
      (sch_defaultStrategy (cp_scheduler (web_controlPlane web))) \<noteq> None"
proof -
  from serving_config [OF assms] obtain c md objects where c: "config_Load f e = Inr c" "config_ok c"
    and web: "web_controlPlane web = New_ControlPlane (options_of c objects)"
    and obj: "open_objects out c = Inr objects"
    and d: "Open (out_stateFile out (cnf_StateFile c)) (cnf_OfflineAfter c) = Inr d"
    by (auto simp: server_web_def)
  have "st_offlineAfter (dur_core d) = cnf_OfflineAfter c"
    using d by (auto simp: Open_def New_Store_def Restore_def split: StateFile.splits if_splits)
  moreover have "cp_objects (web_controlPlane web) = None \<longleftrightarrow> s3_Endpoint (cnf_ObjectStorage c) = ''''"
    using obj by (cases "S3_New (out_minio out) (cnf_ObjectStorage c)")
      (auto simp: web New_ControlPlane_def Let_def options_of_def open_objects_def split: if_splits)
  ultimately show ?thesis using c options_kept [OF c(2), of objects] by (auto simp: web)
qed

text \<open>
  C13. A punctual agent is never declared offline, a silent one always is: with the settings the server
  started from, a pass of the reconciler leaves the status and the last heartbeat of every server that
  was heard of within the configured heartbeat interval as they are, whatever the pass does to jobs; and
  when it succeeds, every server not heard of for longer than the configured timeout is offline.
\<close>

theorem reconciler_tells_silent_from_punctual:
  assumes "server_main out migrate bootstrap f e w = (Serving web d0, w')" and "config_Load f e = Inr c"
    and "reachable off d" and "Reconcile save (web_controlPlane web) None now inp d = (r, d')"
    and "map_of (st_servers (dur_core d)) i = Some v"
  shows "\<exists>v'. map_of (st_servers (dur_core d')) i = Some v' \<and>
    srv_LastHeartbeatAt v' = srv_LastHeartbeatAt v \<and>
    (now - srv_LastHeartbeatAt v \<le> cnf_HeartbeatInterval c \<longrightarrow> srv_Status v' = srv_Status v) \<and>
    (cnf_OfflineAfter c < now - srv_LastHeartbeatAt v \<and> \<not> isl r \<longrightarrow> srv_Status v' = ServerOffline)"
proof -
  let ?cp = "web_controlPlane web"
  from serving_config [OF assms(1)] assms(2) have ok: "config_ok c" and off: "cp_offlineAfter ?cp = cnf_OfflineAfter c"
    by (auto simp: server_web_def options_kept)
  have p: "presence (dur_core d) i = Some (srv_Status v, srv_LastHeartbeatAt v)"
    by (simp add: presence_def contact_def assms(5))
  have less: "cnf_HeartbeatInterval c < cnf_OfflineAfter c" using ok by (simp add: config_ok_def)
  have found: "\<exists>v'. map_of (st_servers s) i = Some v' \<and> srv_Status v' = st \<and> srv_LastHeartbeatAt v' = beat"
    if "presence s i = Some (st, beat)" for s st beat
    using that by (auto simp: presence_def contact_def)
  from Reconcile_presence [OF assms(3,4)] show ?thesis
  proof
    assume "presence (dur_core d') = presence (dur_core d) \<and> isl r"
    with p found [of "dur_core d'"] show ?thesis by auto
  next
    assume m: "presence (dur_core d') = presence (snd (MarkStaleServers (now - cp_offlineAfter ?cp) (dur_core d)))"
    then show ?thesis
      using found [of "dur_core d'"] less
      by (auto simp: MarkStale_presence p off)
  qed
qed

end
