(* ===== verification/Agent_Transport.thy ===== *)
theory Agent_Transport
  imports Agent_Client Http_Routes Time_Format
begin

text \<open>
  The two ends of the agent protocol together: a call of the agent's HTTP client, sent to the HTTP server,
  is the call of the repository the agent meant, for the server it names and under the token it holds,
  and the client reads the outcome the repository gave. Identifiers are of characters that a path shows
  as they are, which those the server issues are; \<open>doubly_escaped\<close> shows what happens to others.
\<close>

section \<open>Addresses\<close>

definition plain_id :: "string \<Rightarrow> bool" where
  "plain_id s \<longleftrightarrow> s \<noteq> '''' \<and> list_all path_safe s"

definition plain_token :: "string \<Rightarrow> bool" where
  "plain_token s \<longleftrightarrow> s \<noteq> '''' \<and> list_all (\<lambda>c. \<not> is_space c) s"

lemma PathEscape_plain: "list_all path_safe s \<Longrightarrow> PathEscape s = s"
  by (induction s) (auto simp: PathEscape_def escape_char_def)

lemma path_safe_out: "\<not> path_safe (CHR ''/'')" "\<not> path_safe (CHR ''?'')"
  by code_simp+

lemma plain_id_out: "plain_id s \<Longrightarrow> CHR ''/'' \<notin> set s \<and> CHR ''?'' \<notin> set s"
  using path_safe_out by (auto simp: plain_id_def list_all_iff)

lemma Split_segment: "sep \<notin> set p \<Longrightarrow> Split sep (p @ sep # r) = p # Split sep r"
  by (induction p) auto

lemma Split_last: "sep \<notin> set p \<Longrightarrow> Split sep p = [p]"
  by (induction p) auto

lemma Fields_token: "list_all (\<lambda>c. \<not> is_space c) s \<Longrightarrow> Fields_from acc s = (if acc = [] \<and> s = [] then [] else [rev acc @ s])"
  by (induction s arbitrary: acc) auto

lemma bearerToken_bearer: "plain_token t \<Longrightarrow> bearerToken (bearer t) = t"
proof -
  assume t: "plain_token t"
  have "Fields_from [] (bearer t) = [''Bearer'', t]"
    using t Fields_token [of t "[]"] by (simp add: bearer_def is_space_def plain_token_def)
  then show ?thesis by (simp add: bearerToken_def)
qed

lemma Cut_append: "sep \<notin> set p \<Longrightarrow> Cut sep (p @ sep # r) = Some (p, r)"
proof -
  assume "sep \<notin> set p"
  then have "takeWhile (\<lambda>c. c \<noteq> sep) (p @ sep # r) = p" by (induction p) auto
  then show ?thesis by (simp add: Cut_def Let_def)
qed

lemma is_digit_plain: "is_digit c \<Longrightarrow> unreserved c"
  by (auto simp: is_digit_def unreserved_def Let_def)

lemma unescape_plain: "list_all unreserved s \<Longrightarrow> unescape InQuery s = Some s"
proof (induction s)
  case (Cons c s)
  have "\<not> unreserved (CHR ''%'')" "\<not> unreserved (CHR ''+'')" by code_simp+
  with Cons show ?case by auto
qed simp

lemma ParseQuery_limit:
  assumes "0 \<le> n"
  shows "label_get (ParseQuery (''limit='' @ show_int n)) ''limit'' = show_int n"
proof -
  let ?s = "show_digits n"
  have s: "list_all is_digit ?s" using show_digits_read [OF assms] by simp
  then have u: "list_all unreserved ?s" using is_digit_plain by (auto simp: list_all_iff)
  have "list_all unreserved ''limit''" by code_simp
  then have k: "unescape InQuery ''limit'' = Some ''limit''" by (rule unescape_plain)
  have out: "CHR ''&'' \<notin> set ?s" "CHR '';'' \<notin> set ?s"
    using s by (auto simp: list_all_iff is_digit_def)
  have "Split (CHR ''&'') (''limit='' @ ?s) = [''limit='' @ ?s]" using out by (intro Split_last) auto
  moreover have "Cut (CHR ''='') (''limit='' @ ?s) = Some (''limit'', ?s)"
    using Cut_append [of "CHR ''=''" "''limit''" ?s] by simp
  ultimately show ?thesis
    using assms out k unescape_plain [OF u]
    by (simp add: ParseQuery_def query_pair_def List.map_filter_def label_get_def show_int_def)
qed

section \<open>Routes of the agent\<close>

lemma find_route_append:
  "find_route rs verb p = Routed ep vs \<Longrightarrow> find_route (rs @ rs') verb p = Routed ep vs"
  by (induction rs verb p rule: find_route.induct) (auto split: option.splits if_splits route_result.splits)

lemma segment_routes:
  assumes "i \<noteq> ''''" and "j \<noteq> ''''"
  shows "Split (CHR ''/'') p = ['''', ''api'', ''v1'', ''agents'', i, ''heartbeat''] \<Longrightarrow>
      find_route routes ''POST'' p = Routed EpHeartbeat [i]"
    "Split (CHR ''/'') p = ['''', ''api'', ''v1'', ''agents'', i, ''inventory''] \<Longrightarrow>
      find_route routes ''PUT'' p = Routed EpInventory [i]"
    "Split (CHR ''/'') p = ['''', ''api'', ''v1'', ''agents'', i, ''commands''] \<Longrightarrow>
      find_route routes ''GET'' p = Routed EpPoll [i]"
    "Split (CHR ''/'') p = ['''', ''api'', ''v1'', ''agents'', i, ''commands'', j, ''ack''] \<Longrightarrow>
      find_route routes ''POST'' p = Routed EpAck [i, j]"
  using assms by (simp_all add: routes_def match_path_def HasPrefix_def method_ok_def)

lemma agent_segments:
  assumes "plain_id i"
  shows "Split (CHR ''/'') (''/api/v1/agents/'' @ i @ CHR ''/'' # r) = ['''', ''api'', ''v1'', ''agents'', i] @ Split (CHR ''/'') r"
  using Split_segment [of "CHR ''/''" i r] plain_id_out [OF assms] by simp

lemma agent_routes:
  assumes "plain_id i" and "plain_id j"
  shows "find_route routes ''POST'' (''/api/v1/agents/'' @ i @ ''/heartbeat'') = Routed EpHeartbeat [i]"
    "find_route routes ''PUT'' (''/api/v1/agents/'' @ i @ ''/inventory'') = Routed EpInventory [i]"
    "find_route routes ''GET'' (''/api/v1/agents/'' @ i @ ''/commands'') = Routed EpPoll [i]"
    "find_route routes ''POST'' (''/api/v1/agents/'' @ i @ ''/commands/'' @ j @ ''/ack'') = Routed EpAck [i, j]"
proof -
  have ij: "i \<noteq> ''''" "j \<noteq> ''''" using assms by (auto simp: plain_id_def)
  note r = segment_routes [OF ij]
  note seg = agent_segments [OF assms(1), of "''heartbeat''"] agent_segments [OF assms(1), of "''inventory''"]
    agent_segments [OF assms(1), of "''commands''"] agent_segments [OF assms(1), of "''commands/'' @ j @ ''/ack''"]
    Split_segment [of "CHR ''/''" j "''ack''"] plain_id_out [OF assms(2)]
  show "find_route routes ''POST'' (''/api/v1/agents/'' @ i @ ''/heartbeat'') = Routed EpHeartbeat [i]"
    using seg by (intro r(1)) simp
  show "find_route routes ''PUT'' (''/api/v1/agents/'' @ i @ ''/inventory'') = Routed EpInventory [i]"
    using seg by (intro r(2)) simp
  show "find_route routes ''GET'' (''/api/v1/agents/'' @ i @ ''/commands'') = Routed EpPoll [i]"
    using seg by (intro r(3)) simp
  show "find_route routes ''POST'' (''/api/v1/agents/'' @ i @ ''/commands/'' @ j @ ''/ack'') = Routed EpAck [i, j]"
    using seg by (intro r(4)) simp
qed

section \<open>What the server makes of a request of an agent\<close>

lemma add_headers_same [simp]:
  "rsp_Status (add_headers hs r) = rsp_Status r" "rsp_Body (add_headers hs r) = rsp_Body r"
  by (induction hs) (auto simp: add_headers_def with_header_def)

lemma agent_request_served:
  assumes "find_route routes (req_Method req) (req_Path req) = Routed ep vs" and "req_Method req \<noteq> ''OPTIONS''"
    and "req_Path req = ''/api/v1/agents/'' @ rest" and "credential_of ep \<in> {ServerToken, EnrollmentToken}"
    and "handle web k None req vs ep s = (r, s')"
  shows "direct web k req s = (Inr (rsp_Status r, rsp_Body r), s')"
proof -
  have "HasPrefix (req_Path req) ''/api/v1/agents/''" by (simp add: assms(3) HasPrefix_def)
  then have out: "outside_session (req_Path req)" by (simp add: outside_session_def)
  have "handle_identity md web k ctx req vs ep = handle web k ctx req vs ep" for md ctx
    using assms(4) by (cases ep) auto
  then have "mux web k None req s = (r, s')"
    using assms(1,5) find_route_append [OF assms(1)] by (simp add: mux_def split: option.split)
  then have "authorized web k req s = (r, s')"
    using out \<open>HasPrefix (req_Path req) ''/api/v1/agents/''\<close>
    by (auto simp: authorized_def sessionAuth_def publicAuth_def split: option.split)
  then show ?thesis using assms(2) by (simp add: direct_def serve_http_def Let_def)
qed

section \<open>End to end\<close>

text \<open>What the agent learns of an error of the control plane.\<close>

definition client_error :: "go_error \<Rightarrow> agent_error" where
  "client_error e =
     (let (status, code) = error_status e in
      if status = 401 then AgentUnauthorized
      else AgentError (''Control Plane '' @ code @ '': '' @ (if status = 500 then ''internal server error'' else go_error_text e)))"

text \<open>The call an agent means: with the token of the server it names, one transaction of the repository.\<close>

definition as_agent ::
  "'w Web \<Rightarrow> Call \<Rightarrow> string \<Rightarrow> string \<Rightarrow> (Store \<Rightarrow> 'a outcome) \<Rightarrow> ('a \<Rightarrow> 'b) \<Rightarrow> 'w Site \<Rightarrow> (agent_error + 'b) \<times> 'w Site" where
  "as_agent web k agentID token m view s =
     (case read_core (AuthenticateAgent (agent_token_hash web) agentID token) (site_store s) of
        Inl e \<Rightarrow> (Inl AgentUnauthorized, s)
      | Inr _ \<Rightarrow> (case transact (cal_save k) m (site_store s) of
          (r, d) \<Rightarrow> (map_sum client_error view r, s\<lparr>site_store := d\<rparr>)))"

lemma read_error: "read_response c shape zero (rsp_Status (respond (Inl (DomainError e)) n), rsp_Body (respond (Inl (DomainError e)) n)) = Inl (client_error e)"
  by (cases e) (simp_all add: respond_def read_response_def unmarshal_def client_error_def writeError_def plain_def Let_def)

lemma read_success:
  "shape v = Some x \<Longrightarrow> n \<in> {200, 201} \<Longrightarrow>
     read_response c shape zero (rsp_Status (respond (Inr v) n), rsp_Body (respond (Inr v) n)) = Inr x"
  by (auto simp: respond_def read_response_def unmarshal_def plain_def)

lemma agent_answer:
  assumes "bearerToken (req_Authorization req) = token" and "\<And>v. shape (view v) = Some (g v)"
    and "withAgentAuth web req i (answer_with view 200 (in_store (transact (cal_save k) m))) s = (r, s')"
  shows "(read_response c shape zero (rsp_Status r, rsp_Body r), s') = as_agent web k i token m g s"
proof (cases "read_core (AuthenticateAgent (agent_token_hash web) i token) (site_store s)")
  case (Inl e)
  have "client_error ErrUnauthorized = AgentUnauthorized" by (simp add: client_error_def)
  with assms Inl read_error [of c shape zero ErrUnauthorized 0] show ?thesis
    by (auto simp: withAgentAuth_def as_agent_def)
next
  case (Inr u)
  obtain x d where t: "transact (cal_save k) m (site_store s) = (x, d)" by (cases "transact (cal_save k) m (site_store s)")
  with Inr assms read_error [of c shape zero] read_success [of shape "view _" "g _" 200 c zero] show ?thesis
    by (cases x) (auto simp: withAgentAuth_def as_agent_def answer_with_def in_store_def)
qed

lemma parsed_body: "and_then (parsed (Inr v)) f = f v"
  by (rule ext) (simp add: and_then_def parsed_def)

lemma agent_call:
  assumes "find_route routes (req_Method req) (req_Path req) = Routed ep vs" and "req_Method req \<noteq> ''OPTIONS''"
    and "req_Path req = ''/api/v1/agents/'' @ rest" and "credential_of ep = ServerToken"
    and "handle web k None req vs ep = withAgentAuth web req i (answer_with view 200 (in_store (transact (cal_save k) m)))"
    and "bearerToken (req_Authorization req) = token" and "\<And>v. shape (view v) = Some (g v)"
  shows "call c (direct web k) shape zero req s = as_agent web k i token m g s"
proof -
  obtain r s' where h: "handle web k None req vs ep s = (r, s')" by (cases "handle web k None req vs ep s")
  have "direct web k req s = (Inr (rsp_Status r, rsp_Body r), s')"
    by (rule agent_request_served [OF assms(1-3) _ h]) (simp add: assms(4))
  moreover have "(read_response c shape zero (rsp_Status r, rsp_Body r), s') = as_agent web k i token m g s"
    by (rule agent_answer [where view = view and g = g and shape = shape, OF assms(6) assms(7)]) (use h assms(5) in simp)
  ultimately show ?thesis by (simp add: call_def)
qed

text \<open>The registration an agent means: the registration of the control plane with the enrolment token,
  which binds the machine in the metadata store and adds the server to the repository.\<close>

definition as_registration ::
  "'w Web \<Rightarrow> Call \<Rightarrow> string \<Rightarrow> RegisterRequest \<Rightarrow> 'w Site \<Rightarrow> (agent_error + string \<times> string) \<times> 'w Site" where
  "as_registration web k enrollment q s =
     (case RegisterAgent (cal_save k) (agent_token_hash web) (web_controlPlane web) enrollment q (cal_random k 0) (cal_random k 1)
             (\<lambda>h m t. case web_identity web of None \<Rightarrow> Inl ErrUnauthorized
                | Some md \<Rightarrow> fst (mdr_BindEnrollment md h m t (site_world s))) (cal_now k) (site_store s) of
        (r, d) \<Rightarrow>
          (map_sum client_error (\<lambda>x. (rsp_AgentID x, rsp_AgentToken x)) r,
           s\<lparr>site_store := d,
             site_world := (case web_identity web of
                 Some md \<Rightarrow>
                   if binds_enrollment (web_controlPlane web) q (cal_random k 0) (cal_random k 1)
                   then snd (mdr_BindEnrollment md (agent_token_hash web enrollment) (reg_MachineID q) (cal_now k) (site_world s))
                   else site_world s
               | None \<Rightarrow> site_world s)\<rparr>))"

lemma registration_answer:
  assumes "answer_with RegisteredData 201 (register web k req q) s = (r, s')" and "req_EnrollmentToken req = enrollment"
  shows "(read_response c as_registered zero (rsp_Status r, rsp_Body r), s') = as_registration web k enrollment q s"
proof -
  obtain x d where run: "RegisterAgent (cal_save k) (agent_token_hash web) (web_controlPlane web) enrollment q (cal_random k 0)
      (cal_random k 1) (\<lambda>h m t. case web_identity web of None \<Rightarrow> Inl ErrUnauthorized
                | Some md \<Rightarrow> fst (mdr_BindEnrollment md h m t (site_world s))) (cal_now k) (site_store s) = (x, d)" by fastforce
  with assms read_error [of c as_registered zero] read_success [of as_registered "RegisteredData _" _ 201 c zero] show ?thesis
    by (cases x; cases "web_identity web")
      (auto simp: answer_with_def register_def as_registration_def in_store_def Let_def)
qed

lemma registration_call:
  assumes "TrimRightSlash (url_Path (clt_baseURL c)) = ''''"
  shows "cli_Register (http_client c (direct web k)) q enrollment s = as_registration web k enrollment (registration q) s"
proof -
  let ?req = "client_request c ''POST'' ''/api/v1/agents/register'' (Some (InRegister (registration q))) '''' enrollment"
  have path: "req_Path ?req = ''/api/v1/agents/'' @ ''register''" "req_Method ?req = ''POST''"
    "req_EnrollmentToken ?req = enrollment" "req_Body ?req = BodyJSON (InRegister (registration q))"
    using assms Cut_None [of "CHR ''?''" "''/api/v1/agents/register''"] by (simp_all add: client_request_def Let_def)
  have route: "find_route routes (req_Method ?req) (req_Path ?req) = Routed EpRegister []"
    unfolding path by code_simp
  obtain r s' where h: "answer_with RegisteredData 201 (register web k ?req (registration q)) s = (r, s')" by fastforce
  have handled: "handle web k None ?req [] EpRegister s = (r, s')"
    using h path(4) by (simp add: decoded_def decodeJSON_def parsed_body)
  have "direct web k ?req s = (Inr (rsp_Status r, rsp_Body r), s')"
    by (rule agent_request_served [OF route _ path(1) _ handled]) (simp_all add: path(2))
  with registration_answer [OF h path(3)] show ?thesis
    by (simp add: http_client_def clt_Register_def call_def)
qed

lemma agent_calls:
  assumes "TrimRightSlash (url_Path (clt_baseURL c)) = ''''" and "plain_id i" and "plain_id j" and "plain_token token"
    and "0 \<le> n" and "n \<le> max_int64"
  shows "cli_Heartbeat (http_client c (direct web k)) i token sent s =
      as_agent web k i token (Heartbeat i (cal_now k)) (\<lambda>_. ()) s"
    and "cli_ReportInventory (http_client c (direct web k)) i token report s =
      as_agent web k i token (ReportInventory i report (cal_now k)) (\<lambda>_. ()) s"
    and "cli_PollCommands (http_client c (direct web k)) i token n s =
      as_agent web k i token (PollCommands (cp_commandLease (web_controlPlane web)) i n (cal_now k)) (map agent_command) s"
    and "cli_AckCommand (http_client c (direct web k)) i token j ack s =
      as_agent web k i token (AckCommand i j ack (cal_now k)) (\<lambda>_. ()) s"
proof -
  have esc: "PathEscape i = i" "PathEscape j = j" using assms(2,3) by (simp_all add: PathEscape_plain plain_id_def)
  have out: "CHR ''?'' \<notin> set i" "CHR ''?'' \<notin> set j" using assms(2,3) plain_id_out by auto
  have cut: "Cut (CHR ''?'') (''/api/v1/agents/'' @ i @ ''/heartbeat'') = None"
    "Cut (CHR ''?'') (''/api/v1/agents/'' @ i @ ''/inventory'') = None"
    "Cut (CHR ''?'') (''/api/v1/agents/'' @ i @ ''/commands/'' @ j @ ''/ack'') = None"
    using out by (auto intro!: Cut_None)
  have poll: "Cut (CHR ''?'') (''/api/v1/agents/'' @ i @ ''/commands?limit='' @ show_int n) =
      Some (''/api/v1/agents/'' @ i @ ''/commands'', ''limit='' @ show_int n)"
    using out Cut_append [of "CHR ''?''" "''/api/v1/agents/'' @ i @ ''/commands''" "''limit='' @ show_int n"] by simp
  note tok = bearerToken_bearer [OF assms(4)]
  note route = agent_routes [OF assms(2,3)]
  note unf = client_request_def agent_path_def esc assms(1)
  show "cli_Heartbeat (http_client c (direct web k)) i token sent s =
      as_agent web k i token (Heartbeat i (cal_now k)) (\<lambda>_. ()) s"
    unfolding http_client_def ControlPlaneClient.simps clt_Heartbeat_def
    by (rule agent_call [where ep = EpHeartbeat and vs = "[i]" and view = ServerData and rest = "i @ ''/heartbeat''"])
      (use route(1) cut(1) tok in \<open>simp_all add: unf as_raw_def decoded_def decodeJSON_def parsed_body path_value_def\<close>)
  show "cli_ReportInventory (http_client c (direct web k)) i token report s =
      as_agent web k i token (ReportInventory i report (cal_now k)) (\<lambda>_. ()) s"
    unfolding http_client_def ControlPlaneClient.simps clt_ReportInventory_def
    by (rule agent_call [where ep = EpInventory and vs = "[i]" and view = ServerData and rest = "i @ ''/inventory''"])
      (use route(2) cut(2) tok in \<open>simp_all add: unf as_raw_def decoded_def decodeJSON_def parsed_body path_value_def\<close>)
  show "cli_PollCommands (http_client c (direct web k)) i token n s =
      as_agent web k i token (PollCommands (cp_commandLease (web_controlPlane web)) i n (cal_now k)) (map agent_command) s"
    unfolding http_client_def ControlPlaneClient.simps clt_PollCommands_def
    by (rule agent_call [where ep = EpPoll and vs = "[i]" and view = CommandsData and rest = "i @ ''/commands''"])
      (use route(3) poll tok ParseQuery_limit [OF assms(5)] Atoi_show_int [OF assms(5,6)] in
       \<open>simp_all add: unf path_value_def\<close>)
  show "cli_AckCommand (http_client c (direct web k)) i token j ack s =
      as_agent web k i token (AckCommand i j ack (cal_now k)) (\<lambda>_. ()) s"
    unfolding http_client_def ControlPlaneClient.simps clt_AckCommand_def
    by (rule agent_call [where ep = EpAck and vs = "[i, j]" and view = CommandData and rest = "i @ ''/commands/'' @ j @ ''/ack''"])
      (use route(4) cut(3) tok in \<open>simp_all add: unf as_raw_def decoded_def decodeJSON_def parsed_body path_value_def\<close>)
qed

text \<open>
  C12. What an agent asks through its HTTP client is what the control plane does. For a base URL without
  a path of its own: a registration is the registration of the control plane with the enrolment token,
  and the client returns the identifier and the token it issued. When moreover the identifiers are plain
  (characters a path shows as they are; those the server issues are, by \<open>issued_plain\<close>), the token is not
  empty and has no blanks, and the limit is an \<open>int\<close> that is not negative, heartbeats, reports, polls and
  acknowledgements are exactly the repository's transactions for the server the agent names, in the
  receiver's clock; with a token that is not that server's they change nothing and the client reports the
  rejected authentication by which the agent knows to register again; and the commands the agent decodes
  are the ones the repository leased.
\<close>

theorem agent_calls_reach_repository:
  assumes "TrimRightSlash (url_Path (clt_baseURL c)) = ''''" and "plain_id i" and "plain_id j" and "plain_token token"
    and "0 \<le> n" and "n \<le> max_int64"
  shows "cli_Register (http_client c (direct web k)) q enrollment s =
      as_registration web k enrollment (registration q) s \<and>
    cli_Heartbeat (http_client c (direct web k)) i token sent s =
      as_agent web k i token (Heartbeat i (cal_now k)) (\<lambda>_. ()) s \<and>
    cli_ReportInventory (http_client c (direct web k)) i token report s =
      as_agent web k i token (ReportInventory i report (cal_now k)) (\<lambda>_. ()) s \<and>
    cli_PollCommands (http_client c (direct web k)) i token n s =
      as_agent web k i token (PollCommands (cp_commandLease (web_controlPlane web)) i n (cal_now k)) (map agent_command) s \<and>
    cli_AckCommand (http_client c (direct web k)) i token j ack s =
      as_agent web k i token (AckCommand i j ack (cal_now k)) (\<lambda>_. ()) s"
  by (intro conjI registration_call [OF assms(1)] agent_calls [OF assms])

text \<open>The identifiers the server issues are plain.\<close>

lemma hex_encode_safe: "list_all path_safe (hex_encode b)"
proof (induction b)
  case (Cons c b)
  have "path_safe (hex_char n)" if "n < 16" for n
    using that by (auto simp: path_safe_def hex_char_def Let_def)
  with Cons show ?case
    using of_char_less_256 [of c] by (simp add: Let_def less_mult_imp_div_less)
qed simp

lemma issued_plain: "newID kind (Inr (hex_encode b)) = Inr i \<Longrightarrow> list_all path_safe kind \<Longrightarrow> plain_id i"
  using hex_encode_safe [of b] by (auto simp: newID_Inr plain_id_def path_safe_def Let_def)

text \<open>The client puts the escaped identifier where the URL wants the plain path, and the URL escapes it
  again: the server takes one escaping off, so it sees a name that is not the agent's.\<close>

lemma doubly_escaped:
  "find_route routes ''POST'' (''/api/v1/agents/'' @ PathEscape ''gpu host'' @ ''/heartbeat'') =
     Routed EpHeartbeat [''gpu%20host'']"
  by code_simp

end
