(* ===== verification/Scheduler_Bench.thy ===== *)
theory Scheduler_Bench
  imports Scheduler Memory_Store
begin

text \<open>
  \<open>cmd/aiwm-scheduler-bench/main.go\<close>: five requests placed one after the other on five fixture servers, under
  each strategy. The fields of a job the fixture leaves out are those of a job given as argument.
\<close>

record bench_result =
  br_Strategy :: SchedulingStrategy
  br_ScheduledJobs :: int
  br_QueuedJobs :: int
  br_AllocatableGPUs :: int
  br_AllocatedGPUs :: int
  br_UtilizationPct :: rat
  br_CompletelyFreeServers :: int
  br_FragmentedServers :: int

text \<open>1 January 2026, 00:00 UTC.\<close>

definition bench_now :: gotime where "bench_now = 63902822400 * Second"

definition fixture_gpu :: "nat \<Rightarrow> nat \<Rightarrow> nat \<Rightarrow> GPU" where
  "fixture_gpu serverIndex freeCount gpuIndex =
     \<lparr>gpu_UUID = ''GPU-'' @ show_nat serverIndex @ ''-'' @ show_nat gpuIndex, gpu_Index = 0, gpu_Model = ''A100'',
      gpu_MemoryTotalMiB = 81920, gpu_MemoryUsedMiB = 0, gpu_UtilizationPct = 0, gpu_TemperatureC = 0, gpu_Healthy = True,
      gpu_State = (if gpuIndex < freeCount then GPUFree else GPUOccupiedLegacy), gpu_AssignedJobID = '''',
      gpu_ObservedConsumers = [], gpu_StateReason = ''''\<rparr>"

definition fixtureServers :: "gotime \<Rightarrow> Server list" where
  "fixtureServers now =
     map (\<lambda>(serverIndex, freeCount). zero_server
       \<lparr>srv_OrganizationID := ''benchmark-org'', srv_ID := ''server-'' @ show_nat serverIndex,
        srv_Name := ''server-'' @ show_nat serverIndex, srv_Status := ServerOnline, srv_LastHeartbeatAt := now,
        srv_InventoryReceivedAt := now, srv_GPUs := map (fixture_gpu serverIndex freeCount) [0..<4]\<rparr>)
       (enumerate 0 [3, 4, 2, 1, 4])"

definition bench_allocate :: "Placement \<Rightarrow> Server list \<Rightarrow> Server list" where
  "bench_allocate p = map (\<lambda>s.
     if srv_ID s \<noteq> plc_ServerID p then s
     else s\<lparr>srv_GPUs := map (\<lambda>g. if List.member (plc_GPUUUIDs p) (gpu_UUID g) then g\<lparr>gpu_State := GPUAllocated\<rparr> else g) (srv_GPUs s)\<rparr>)"

definition bench_job :: "Job \<Rightarrow> SchedulingStrategy \<Rightarrow> nat \<Rightarrow> int \<Rightarrow> Job" where
  "bench_job blank strategy index gpus = blank
     \<lparr>job_OrganizationID := ''benchmark-org'', job_ID := ''job-0'' @ show_nat index, job_Strategy := strategy,
      job_Resources := \<lparr>rq_PerformanceProfile = '''', rq_FP8Required = False, rq_ResolvedModels = [],
        rq_GPUCount = gpus, rq_GPUModel = ''A100'', rq_MinVRAMMiB = 0, rq_CPUMilli = 0, rq_MemoryMiB = 0,
        rq_AllowSharedGPU = False\<rparr>\<rparr>"

definition bench_place ::
  "Job \<Rightarrow> SchedulingStrategy \<Rightarrow> gotime \<Rightarrow> nat \<times> int \<Rightarrow> Server list \<times> bench_result \<Rightarrow> Server list \<times> bench_result" where
  "bench_place blank strategy now = (\<lambda>(index, gpus) (servers, m).
     case Plan (NewScheduler strategy Minute) (bench_job blank strategy index gpus) servers now of
       Inl e \<Rightarrow> (servers, m\<lparr>br_QueuedJobs := br_QueuedJobs m + 1\<rparr>)
     | Inr p \<Rightarrow> (bench_allocate p servers,
         m\<lparr>br_ScheduledJobs := br_ScheduledJobs m + 1, br_AllocatedGPUs := br_AllocatedGPUs m + int (length (plc_GPUUUIDs p))\<rparr>))"

definition free_gpus :: "Server \<Rightarrow> nat" where
  "free_gpus s = length (filter (\<lambda>g. gpu_State g = GPUFree) (srv_GPUs s))"

definition simulate :: "Job \<Rightarrow> SchedulingStrategy \<Rightarrow> bench_result" where
  "simulate blank strategy =
     (let servers = fixtureServers bench_now;
          m0 = \<lparr>br_Strategy = strategy, br_ScheduledJobs = 0, br_QueuedJobs = 0,
                br_AllocatableGPUs = int (sum_list (map free_gpus servers)), br_AllocatedGPUs = 0, br_UtilizationPct = 0,
                br_CompletelyFreeServers = 0, br_FragmentedServers = 0\<rparr>;
          (servers', m) = fold (bench_place blank strategy bench_now) (enumerate 0 [1, 3, 4, 4, 2]) (servers, m0)
      in m\<lparr>br_UtilizationPct := (if 0 < br_AllocatableGPUs m
                then 100 * of_int (br_AllocatedGPUs m) / of_int (br_AllocatableGPUs m) else br_UtilizationPct m),
           br_CompletelyFreeServers := int (length (filter (\<lambda>s. free_gpus s = length (srv_GPUs s)) servers')),
           br_FragmentedServers :=
             int (length (filter (\<lambda>s. 0 < free_gpus s \<and> free_gpus s < length (srv_GPUs s)) servers'))\<rparr>)"

definition bench_main :: "Job \<Rightarrow> bench_result list" where
  "bench_main blank = map (simulate blank) [StrategyFirstFit, StrategyBestFit, StrategyBinPack, StrategyFragmentation]"

text \<open>
  The fixture servers report no capabilities, and a server without capabilities cannot run a managed
  container, so no strategy places any of the requests.
\<close>

lemma unready_refused:
  assumes "\<forall>s \<in> set servers. srv_Capabilities s = None"
  shows "isl (Plan sch job servers now)"
proof -
  have "snd (foldl (scan_server job now d) (f, []) servers) = []" for f d
    using assms
  proof (induction servers arbitrary: f)
    case (Cons s servers)
    then show ?case by (cases "scan_server job now d (f, []) s") (auto simp: scan_server_def Let_def split: if_splits)
  qed simp
  then have "fst (filter_servers job servers now d) = []" for d
    by (simp add: filter_servers_def split: prod.split) (metis snd_conv)
  then show ?thesis by (auto simp: Plan_def Let_def split: option.split prod.split) (metis fst_conv)
qed

lemma benchmark_places_nothing:
  "simulate blank strategy = \<lparr>br_Strategy = strategy, br_ScheduledJobs = 0, br_QueuedJobs = 5, br_AllocatableGPUs = 14,
     br_AllocatedGPUs = 0, br_UtilizationPct = 0, br_CompletelyFreeServers = 2, br_FragmentedServers = 3\<rparr>"
proof -
  let ?servers = "fixtureServers bench_now"
  have refused: "bench_place blank strategy now ic (?servers, m) = (?servers, m\<lparr>br_QueuedJobs := br_QueuedJobs m + 1\<rparr>)"
    for ic m now
  proof -
    have "\<forall>s \<in> set ?servers. srv_Capabilities s = None" by (auto simp: fixtureServers_def zero_server_def)
    then obtain err where "Plan (NewScheduler strategy Minute) (bench_job blank strategy (fst ic) (snd ic)) ?servers now = Inl err"
      using unready_refused by (meson isl_def)
    then show ?thesis by (simp add: bench_place_def case_prod_beta)
  qed
  have gpus: "map free_gpus ?servers = [3, 4, 2, 1, 4]" "map (length \<circ> srv_GPUs) ?servers = [4, 4, 4, 4, 4]"
    by (simp_all add: fixtureServers_def free_gpus_def fixture_gpu_def upt_rec numeral_eq_Suc)
  have "length (filter (\<lambda>s. free_gpus s = length (srv_GPUs s)) ?servers) = 2"
    "length (filter (\<lambda>s. 0 < free_gpus s \<and> free_gpus s < length (srv_GPUs s)) ?servers) = 3"
    by (simp_all add: fixtureServers_def free_gpus_def fixture_gpu_def upt_rec numeral_eq_Suc)
  with gpus show ?thesis by (simp add: simulate_def refused Let_def)
qed

end
