(* ===== verification/Edge_Witnesses.thy ===== *)
theory Edge_Witnesses
  imports Http_Samples Agent_Samples Agent_Main Server_Laws Agent_Transport Scheduler_Bench
begin

text \<open>
  The properties of the programs' edges applied to concrete values: a driver with one device, a server and
  an agent started from a small environment, a call of the agent that reaches the server, an output that is
  published to an S3 store.
\<close>

section \<open>The GPU reader\<close>

definition one_gpu :: Nvml where
  "one_gpu = \<lparr>nv_Init = Success (), nv_Shutdown = Success (), nv_DeviceGetCount = Success 1,
     nv_GetHandle = (\<lambda>i. Success ()), nv_GetUUID = (\<lambda>i. Success ''GPU-a''), nv_GetName = (\<lambda>i. Success ''A100''),
     nv_GetMemoryInfo = (\<lambda>i. Success (85899345920, 1048576)), nv_GetUtilizationRates = (\<lambda>i. Success 7),
     nv_GetMigMode = (\<lambda>i. NotSupported), nv_GetTotalEccErrors = (\<lambda>i. Success 0), nv_GetTemperature = (\<lambda>i. Success 41),
     nv_GetComputeProcesses = (\<lambda>i. Success [(4711, 1048576)]), nv_GetGraphicsProcesses = (\<lambda>i. Success [(4711, 1048576)]),
     nv_DriverVersion = Success ''560'', nv_CudaDriverVersion = Success 12040, nv_ctxErr = (\<lambda>i. None),
     nv_comm = (\<lambda>pid. Some ''python'')\<rparr>"

lemma one_gpu_read: "nvml_Snapshot one_gpu = Inr ([device_gpu one_gpu 0 ''GPU-a'' ''A100'' (85899345920, 1048576)],
    [device_process one_gpu ''GPU-a'' (4711, 1048576)])"
  by (simp add: nvml_Snapshot_def one_gpu_def must_def read_device_def graphics_def device_gpu_def)

lemma nvml_snapshot_is_complete_witness:
  "nvml_Snapshot one_gpu = Inr ([device_gpu one_gpu 0 ''GPU-a'' ''A100'' (85899345920, 1048576)],
     [device_process one_gpu ''GPU-a'' (4711, 1048576)]) \<and>
   (4711, 1048576) \<in> running_on one_gpu 0 \<and> device_entry one_gpu 0 (device_gpu one_gpu 0 ''GPU-a'' ''A100'' (85899345920, 1048576))"
  using nvml_snapshot_is_complete [OF one_gpu_read] one_gpu_read by (simp add: running_on_def one_gpu_def)

section \<open>The server\<close>

definition server_environment :: env_vars where
  "server_environment = [(''AIWM_DATABASE_URL'', ''postgres://db''), (''AIWM_AGENT_OFFLINE_AFTER'', ''1m'')]"

definition server_outside :: "Database Outside" where
  "server_outside = \<lparr>out_openMetadata = (\<lambda>url w. (Inr (Postgres (\<lambda>n. calm)), w)), out_migrate = (\<lambda>w. (None, w)),
     out_stateFile = (\<lambda>path. StateFile.NoFile), out_minio = (\<lambda>h s c. Inl (ErrOther ''no S3'')), out_random = (\<lambda>n. Inr ''r''),
     out_sha256 = digest, out_kdf = derive, out_imageOK = (\<lambda>s. True)\<rparr>"

definition server_storage :: "S3Config \<times> TrainingOptions" where
  "server_storage = projr (loadTraining server_environment)"

definition server_config :: Config where
  "server_config = (text_settings server_environment (fst server_storage) (snd server_storage))
     \<lparr>cnf_DevelopmentInSizingPlan := False, cnf_DevelopmentQuotaGPUs := 4, cnf_DevelopmentUsedGPUs := 0,
      cnf_MaxGPUCount := 64, cnf_MaxTTLSeconds := 2592000, cnf_HeartbeatInterval := 5 * Second, cnf_OfflineAfter := Minute,
      cnf_CommandLease := 15 * Second, cnf_SchedulerInterval := 2 * Second, cnf_ReconcileInterval := 5 * Second\<rparr>"

lemma server_storage_facts:
  "\<not> isl (loadTraining server_environment)" "s3_Endpoint (fst server_storage) = ''''"
  by code_simp+

lemma server_numbers:
  "numeric_settings server_environment c = Inr (c\<lparr>cnf_DevelopmentInSizingPlan := False, cnf_DevelopmentQuotaGPUs := 4,
     cnf_DevelopmentUsedGPUs := 0, cnf_MaxGPUCount := 64, cnf_MaxTTLSeconds := 2592000\<rparr>)"
  by code_simp

lemma server_intervals:
  "interval_settings server_environment c = Inr (c\<lparr>cnf_HeartbeatInterval := 5 * Second, cnf_OfflineAfter := Minute,
     cnf_CommandLease := 15 * Second, cnf_SchedulerInterval := 2 * Second, cnf_ReconcileInterval := 5 * Second\<rparr>)"
  by code_simp

lemma server_texts:
  "env server_environment ''AIWM_DATABASE_URL'' '''' = ''postgres://db''"
  "env server_environment ''AIWM_SCHEDULER_STRATEGY'' StrategyBestFit = StrategyBestFit"
  "env server_environment ''AIWM_TLS_CERT_FILE'' '''' = ''''" "env server_environment ''AIWM_TLS_KEY_FILE'' '''' = ''''"
  by (simp_all add: env_def server_environment_def)

lemma server_config_facts:
  "cnf_HeartbeatInterval server_config = 5 * Second" "cnf_OfflineAfter server_config = Minute"
  "s3_Endpoint (cnf_ObjectStorage server_config) = ''''"
  by (simp_all add: server_config_def text_settings_def server_storage_facts)

lemma server_config_checked: "final_checks server_config = Inr server_config"
  by (simp add: final_checks_def require_def server_config_def text_settings_def server_texts ValidStrategy_def)

lemma server_config_loaded: "config_Load NoEnvFile server_environment = Inr server_config"
proof -
  have "loadTraining server_environment = Inr server_storage"
    using server_storage_facts(1) by (simp add: server_storage_def)
  then show ?thesis
    using server_config_checked
    by (simp add: config_Load_def loadDotEnv_def check_def server_numbers server_intervals server_config_def
        case_prod_beta)
qed

definition started_web :: "Database Web" where
  "started_web = server_web server_outside server_config (Postgres (\<lambda>n. calm)) None"

definition started_store :: Durable where
  "started_store = \<lparr>dur_core = New_Store Minute, dur_file = StateFile.NoFile\<rparr>"

lemma server_started:
  "server_main server_outside False False NoEnvFile server_environment w = (Serving started_web started_store, w)"
  by (simp add: server_main_def server_config_loaded open_server_def open_objects_def server_config_facts Open_def
      started_web_def started_store_def server_outside_def)

text \<open>Three seconds after its heartbeat the server of the sample run is still online, whatever the pass does.\<close>

definition early_pass :: "(go_error + int) \<times> Durable" where
  "early_pass = Reconcile no_error (web_controlPlane started_web) None (t0 + 3 * Second) (pass_at (t0 + 3 * Second) ''x'') d_setup"

definition setup_server :: "Durable \<Rightarrow> bool" where
  "setup_server d \<longleftrightarrow> has_server d \<and> srv_LastHeartbeatAt (server_at d) = t0 \<and> srv_Status (server_at d) = ServerOnline"

lemma setup_server: "setup_server d_setup"
  by code_simp

lemmas setup_server' = setup_server [unfolded setup_server_def]

lemma reconciler_tells_silent_from_punctual_witness:
  "\<exists>v. map_of (st_servers (dur_core (snd early_pass))) ''srv1'' = Some v \<and> srv_LastHeartbeatAt v = t0 \<and>
     srv_Status v = ServerOnline"
proof -
  have run: "Reconcile no_error (web_controlPlane started_web) None (t0 + 3 * Second) (pass_at (t0 + 3 * Second) ''x'') d_setup =
      (fst early_pass, snd early_pass)"
    by (simp add: early_pass_def)
  have server: "map_of (st_servers (dur_core d_setup)) ''srv1'' = Some (server_at d_setup)"
    using setup_server' by (auto simp: has_server_def server_at_def)
  from reconciler_tells_silent_from_punctual [OF server_started server_config_loaded setup_reachable run server] setup_server'
  show ?thesis by (auto simp: server_config_facts)
qed

section \<open>A call of the agent\<close>

definition sample_client_side :: Client where
  "sample_client_side = \<lparr>clt_baseURL = empty_url\<lparr>url_Scheme := ''http'', url_Host := ''cp:8080''\<rparr>,
     clt_length = (\<lambda>i. 1), clt_jsonError = (\<lambda>r. ''json'')\<rparr>"

lemma agent_calls_reach_repository_witness:
  "cli_Heartbeat (http_client sample_client_side (direct web1 call1)) ''srv_1'' ''token'' t0 site1 =
     as_agent web1 call1 ''srv_1'' ''token'' (Heartbeat ''srv_1'' (cal_now call1)) (\<lambda>_. ()) site1"
proof -
  have "TrimRightSlash (url_Path (clt_baseURL sample_client_side)) = ''''" "plain_id ''srv_1''" "plain_token ''token''"
    "(0::int) \<le> 10" "(10::int) \<le> max_int64"
    by code_simp+
  from agent_calls_reach_repository [OF this(1,2,2,3,4,5)] show ?thesis by blast
qed

section \<open>The agent\<close>

definition agent_environment :: env_vars where
  "agent_environment = [(''AIWM_ENROLLMENT_TOKEN'', ''enrol-me''), (''AIWM_AGENT_MACHINE_ID'', ''m1''),
     (''AIWM_CONTROL_PLANE_URL'', ''http://cp:8080'')]"

definition agent_host :: "host AgentHost" where
  "agent_host = \<lparr>ahs_facts = \<lparr>hst_Hostname = ''h1'', hst_MachineID = None, hst_ReleaseURL = ''''\<rparr>,
     ahs_docker = (\<lambda>endpoint. Inr sample_api), ahs_gpus = (\<lambda>h. nvml_Snapshot one_gpu), ahs_driver = (\<lambda>h. (''560'', ''12.4'')),
     ahs_system = (\<lambda>h. \<lparr>os_hostname = ''h1'', os_GOOS = ''linux'', os_GOARCH = ''amd64'', os_NumCPU = 8,
       os_read = (\<lambda>p. None), os_stat = (\<lambda>p. False)\<rparr>),
     ahs_cgroup = (\<lambda>h pid. Inl (AgentError ''no such process'')), ahs_ctxErr = (\<lambda>h. None), ahs_now = (\<lambda>h. 9),
     ahs_io = (\<lambda>h. (\<lambda>s. None, h)),
     ahs_tls = \<lparr>tls_readCA = (\<lambda>p. Inr ''''), tls_validPEM = (\<lambda>c. True), tls_loadPair = (\<lambda>c k. None)\<rparr>,
     ahs_length = (\<lambda>i. 1), ahs_jsonError = (\<lambda>r. ''json''), ahs_decodeError = (\<lambda>p. ''json''),
     ahs_transport = (\<lambda>q h. (Inl (AgentError ''unreachable''), h))\<rparr>"

definition agent_run :: "host agent_exit \<times> host docker_state" where
  "agent_run = agent_main agent_host False False NoEnvFile agent_environment sample_host"

definition runs :: "'w agent_exit \<Rightarrow> bool" where
  "runs x \<longleftrightarrow> (case x of AgentRunning r \<Rightarrow> True | _ \<Rightarrow> False)"

lemma agent_run_runs: "runs (fst agent_run)"
  by code_simp

lemma agent_runs_as_configured_witness:
  "\<exists>r. fst agent_run = AgentRunning r \<and> cfg_MachineID (run_config r) = ''m1'' \<and> cfg_Name (run_config r) = ''h1'' \<and>
     cfg_HeartbeatEvery (run_config r) = 5 * Second \<and> cfg_InventoryEvery (run_config r) = 15 * Second \<and>
     cfg_CommandLimit (run_config r) = 10 \<and> dk_calls (snd agent_run) = dk_calls sample_host"
proof -
  have "agent_main agent_host False False NoEnvFile agent_environment sample_host = (fst agent_run, snd agent_run)"
    by (simp add: agent_run_def)
  note claim = agent_runs_as_configured [OF this]
  obtain r where r: "fst agent_run = AgentRunning r"
    using agent_run_runs by (auto simp: runs_def split: agent_exit.splits)
  with claim have run: "runner_configured agent_host (snd (loadDotEnv NoEnvFile agent_environment)) r" by blast
  have env: "snd (loadDotEnv NoEnvFile agent_environment) = agent_environment"
    "TrimSpace (label_get agent_environment ''AIWM_AGENT_MACHINE_ID'') = ''m1''"
    "agent_env agent_environment ''AIWM_AGENT_NAME'' (hst_Hostname (ahs_facts agent_host)) = ''h1''"
    "agent_duration agent_environment ''AIWM_AGENT_HEARTBEAT_INTERVAL'' (5 * Second) = Inr (5 * Second)"
    "agent_duration agent_environment ''AIWM_AGENT_INVENTORY_INTERVAL'' (15 * Second) = Inr (15 * Second)"
    by code_simp+
  from run have "cfg_MachineID (run_config r) = ''m1''" "cfg_Name (run_config r) = ''h1''"
    "cfg_HeartbeatEvery (run_config r) = 5 * Second" "cfg_InventoryEvery (run_config r) = 15 * Second"
    "cfg_CommandLimit (run_config r) = 10"
    unfolding runner_configured_def env by simp_all
  with r claim show ?thesis by blast
qed

text \<open>A threshold that is not a number is accepted, and then no utilisation makes a GPU count as occupied.\<close>

definition nan_agent :: AgentConfig where
  "nan_agent = projr (LoadAgent (ahs_facts agent_host) NoEnvFile ((''AIWM_UNKNOWN_UTILIZATION_PCT'', ''NaN'') # agent_environment))"

lemma nan_threshold_accepted:
  "\<not> isl (LoadAgent (ahs_facts agent_host) NoEnvFile ((''AIWM_UNKNOWN_UTILIZATION_PCT'', ''NaN'') # agent_environment))"
  "acf_UnknownUtilizationPct nan_agent = NaN"
  by code_simp+

lemma nan_threshold_never_fires:
  "wg_MemoryUsedMiB g < acf_UnknownMemoryMiB nan_agent \<Longrightarrow> observed_gpu (policy_of nan_agent) cs g = g"
  by (simp add: observed_gpu_def policy_of_def nan_threshold_accepted)

section \<open>A published output\<close>

definition bucket :: Minio where
  "bucket = \<lparr>mio_PutObject = (\<lambda>b k body n. Inr n), mio_PresignedGetObject = (\<lambda>b k t. Inr (''https://s3/'' @ b @ k)),
     mio_BucketExists = (\<lambda>b. Inr True), mio_MakeBucket = (\<lambda>b r. None)\<rparr>"

definition artifact_store :: S3Store where
  "artifact_store = \<lparr>sst_client = bucket, sst_signer = bucket, sst_bucket = ''artifacts''\<rparr>"

definition upload1 :: Upload where
  "upload1 = \<lparr>up_Job = job_of ''j1'' '''' 0, up_ID = ''u1'', up_State = no_training, up_Deadline = t0 + Hour,
     up_Key = ''org1/j1/check point.bin''\<rparr>"

definition output_uri :: string where
  "output_uri = ''s3://artifacts/org1/j1/check%20point.bin''"

lemma output_published:
  "published upload1 (obj_Put (s3_objects artifact_store) (up_Key upload1) ''body'' 4) False t0 (Inr (job_of ''j1'' ''2026-05-01T09:00:00Z'' 3600)) =
     Some output_uri"
  by code_simp

lemma published_output_is_downloadable_witness:
  "safeKey (up_Key upload1) \<and>
   obj_DownloadURL (s3_objects artifact_store) output_uri Minute = Inr ''https://s3/artifactsorg1/j1/check point.bin''"
proof -
  have "list_all unreserved (sst_bucket artifact_store)" by code_simp
  from published_output_is_downloadable [OF this output_published, of Minute] show ?thesis
    by (simp add: artifact_store_def bucket_def upload1_def)
qed

end
