(* ===== verification/Spec2Isabelle.thy ===== *)
theory Spec2Isabelle
  imports Witnesses Application_Witnesses Agent_Witnesses Http_Witnesses Edge_Witnesses
begin

text \<open>
  The AIWM Docker GPU control plane, modelled in Isabelle/HOL.

  The program (\<open>src/AIWM-Docker-GPU-Scheduler-with-Agent/aiwm-docker-control-plane\<close>; the paths below
  are relative to that directory) lends the GPUs of a fleet of Docker hosts to jobs. Users ask for
  GPUs in a time window; a planner books GPUs on a calendar; a controller starts each job when its
  window opens and ends it when the window is over; an agent on every host polls for commands, runs
  containers and reports what it sees. GPUs used by containers the platform did not start must never
  be touched, and two jobs must never hold one GPU at the same time.

  \<^bold>\<open>Parts and theories.\<close> From the data to the handlers:

  \<^item> \<open>Prelude\<close>: errors (\<open>internal/domain/errors.go\<close>), Go maps, strings, sorting, integer formatting,
    the locales \<open>strict_weak_order\<close> and \<open>keyed_order\<close> of the comparisons given to \<open>sort.Slice\<close>.
  \<^item> \<open>GoTime\<close>, \<open>Time_Format\<close>: instants, durations, saturating subtraction, RFC 3339 read and printed.
  \<^item> \<open>Platform\<close>: \<open>internal/platform/capabilities.go\<close>. \<open>Messages\<close>: the texts stored in jobs.
  \<^item> \<open>Domain_Model\<close>: \<open>internal/domain\<close>; the structs are records, the string enumerations datatypes.
  \<^item> \<open>Calendar\<close>: \<open>internal/domain/reservation.go\<close>, the inventory as a job's window will find it.
  \<^item> \<open>Accounting\<close>, \<open>Memory_Store\<close>: \<open>internal/store/memory\<close>, the repository. Its state \<open>Store\<close> holds
    the maps of servers, jobs and commands; one function per exported method.
  \<^item> \<open>Durable_Store\<close>: \<open>internal/store/durable\<close>. \<open>transact\<close> runs a repository call, saves a snapshot
    and rolls back on failure; \<open>exec\<close> is one call of the interface \<open>internal/ports/repository.go\<close>;
    \<open>step\<close> is a call, a reopening of the file, or the loss of the process.
  \<^item> \<open>Necessity_Profiles\<close>, \<open>Policy_Engine\<close>: \<open>internal/policy\<close>, lanes, aging and the queue order.
  \<^item> \<open>Scheduler\<close>: \<open>internal/application/scheduler.go\<close>, filter, score and selection for one job.
    \<open>Catalog\<close>: \<open>internal/capability/catalog.go\<close>. \<open>Application\<close>: what \<open>New\<close> composes.
  \<^item> \<open>Planning\<close>: \<open>internal/application/planning.go\<close> and \<open>tenancy.go\<close>, the planner, which runs inside
    the transaction \<open>ReplanReservations\<close> of the repository.
  \<^item> \<open>Agent_Protocol\<close>: \<open>internal/agentprotocol/v1\<close> and \<open>internal/application/agent_protocol.go\<close>.
  \<^item> \<open>Application_Run\<close>: the shape of a handler, a chain of transactions that stops at an error.
  \<^item> \<open>Training_Service\<close>: \<open>internal/application/training.go\<close>. \<open>Job_Requests\<close>: validation and
    creation of jobs (\<open>validation.go\<close>, \<open>allocation.go\<close>, \<open>controlplane.go\<close>). \<open>Control_Plane\<close>: the
    remaining operations of \<open>controlplane.go\<close> and the execution controller of \<open>planning.go\<close>.
  \<^item> \<open>Metadata_Store\<close>: \<open>internal/store/postgres\<close> with its schema; each SQL statement is a function of
    the tables. \<open>Metadata_Port\<close>: \<open>internal/ports/metadata.go\<close>, the locale \<open>tenant_store\<close> and its
    interpretation by the adapter. \<open>Identity\<close>: \<open>internal/application/identity.go\<close>.
  \<^item> \<open>Http_Views\<close>, \<open>Http_Server\<close>: \<open>internal/httpapi\<close>; \<open>serve_http\<close> takes a request and the state of the
    site through the middleware, the mux and the handlers to a response.
  \<^item> \<open>Docker_Engine\<close>: \<open>internal/agent/dockerengine\<close>. \<open>Agent_Inventory\<close>: \<open>inventory.go\<close>, \<open>preflight.go\<close>
    and \<open>gpu/recovering.go\<close> of \<open>internal/agent\<close>. \<open>Agent_Runner\<close>: \<open>executor.go\<close>, \<open>runner.go\<close> and
    \<open>state/file.go\<close>; \<open>Agent_Journal\<close> lets its ticks, halts and crashes happen in any order.
  \<^item> \<open>Host_Readers\<close>: \<open>gpu/nvml_linux.go\<close>, \<open>cgroup_linux.go\<close>, \<open>hardware.go\<close>. \<open>Agent_Client\<close>:
    \<open>internal/agent/controlplane\<close>, the HTTP client of the agent.
  \<^item> \<open>Go_Text\<close>, \<open>Go_URL\<close>: the parsers of Go's standard library that settings and addresses go through.
    \<open>Configuration\<close>: \<open>internal/config\<close> and \<open>internal/agent/config\<close>. \<open>Object_Storage\<close>:
    \<open>internal/objectstore/s3\<close>.
  \<^item> \<open>Server_Main\<close>, \<open>Agent_Main\<close>: the programs \<open>cmd/aiwm-server\<close>, \<open>cmd/aiwm-agent\<close> and
    \<open>cmd/aiwm-agent-sim\<close>. \<open>Simulator\<close>: \<open>internal/simulator\<close>. \<open>Scheduler_Bench\<close>:
    \<open>cmd/aiwm-scheduler-bench\<close>.

  \<^bold>\<open>What the lemmas show.\<close>

  \<^item> \<open>Store_Invariants\<close>, \<open>Job_History\<close>: the invariant \<open>inv\<close> of the repository and the relation
    \<open>evolves\<close> of a job to its later self. \<open>Repository_Contract\<close>, \<open>Lifecycle_Contract\<close> and
    \<open>Assignment_Contract\<close> interpret the locale \<open>repository_operation\<close> (keeps the invariant, lets
    every job evolve, keeps every error free of effects) for each method of the repository.
  \<^item> \<open>Store_Safety\<close>: over every run of calls, failed saves and restarts, no GPU is given to two jobs,
    bookings do not overlap, held GPUs are not schedulable, terminal jobs are final, history is
    append-only, a failed call leaves no trace and a restart loses nothing but liveness.
  \<^item> \<open>Repository_Laws\<close>: each operation on its branches. \<open>Planning\<close>: the planner's plan is always
    accepted by the transaction that runs it. \<open>Scheduler\<close>: the selection is sound, complete, optimal
    and independent of the order of the inventory.
  \<^item> \<open>Application_Protocol\<close>: each handler meets the contract \<open>application_operation\<close>, so a run of
    requests refines a run of the repository and inherits its safety.
  \<^item> \<open>Controller_Laws\<close>: one pass of the controller starts only what is due and ends what is over.
    \<open>Request_Laws\<close>: what a created job satisfies. \<open>Lease_Laws\<close>: over any run of the repository a job with
    the same revision has the same training state. \<open>Training_Service\<close>: so uploads never lose the last
    published output, and sessions end with the window.
  \<^item> \<open>Metadata_Laws\<close>: over every run of the metadata store an enrolment token binds one machine, and a
    session that authenticates was neither revoked nor expired. \<open>Identity_Laws\<close>: passwords are checked
    against the derived key. \<open>Tenant_Operations\<close>, \<open>Http_Laws\<close>: an account that is no administrator
    changes and sees nothing of another organisation. \<open>Http_Routes\<close>, \<open>Http_Access\<close>: every change and every
    answer with data needs the credential of its path, and logins are limited.
  \<^item> \<open>Agent_Laws\<close>, \<open>Executor_Laws\<close>: the locale \<open>docker_runtime\<close>, what a runtime promises about the
    containers it touches, interpreted by the Docker adapter, and what a command may do to the host: the
    log of calls names each container a start creates by the identifier the engine answered with.
    \<open>Inventory_Laws\<close>: a GPU that passes the agent's check is in no one else's hands. \<open>Agent_Life\<close>: over
    every life of an agent an acknowledged command is never run again, and inventory numbers increase.
  \<^item> \<open>Agent_Transport\<close>: client and server of the agent protocol together are the repository.
    \<open>Server_Laws\<close>, \<open>Agent_Main\<close>: a program runs with exactly the settings of its environment; the
    reconciler tells silent agents from punctual ones. \<open>Host_Readers\<close>: the GPU reader loses no device and no process.
    \<open>Simulator\<close>: the simulated runtime keeps the promises of the Docker adapter.
  \<^item> \<open>Samples\<close>, \<open>Application_Samples\<close>, \<open>Http_Samples\<close>, \<open>Agent_Samples\<close>: concrete runs; \<open>Witnesses\<close>,
    \<open>Application_Witnesses\<close>, \<open>Http_Witnesses\<close>, \<open>Agent_Witnesses\<close>, \<open>Edge_Witnesses\<close>: every property with
    hypotheses applied to them.

  \<^bold>\<open>Conventions.\<close>

  \<^item> A Go map is an association list with distinct keys (\<open>gomap\<close>). Its order stands for the
    unspecified iteration order of Go: no property depends on it unless it says so.
    A lookup that Go answers with the zero value is \<open>get_or_zero\<close> or an explicit default.
  \<^item> Integers are \<open>int\<close> where the code bounds them before it computes, \<open>64 word\<close> where it counts
    (revisions, sequences). An instant is the number of nanoseconds since the zero time of Go;
    durations saturate as \<open>Time.Sub\<close> does. Scores, \<open>float64\<close> in the code, are exact rationals.
  \<^item> Pointers are options, and a copy (\<open>clone\<close>, \<open>Clone\<close>) is the identity on values; the code copies
    at the boundary of the store, so no caller shares memory with it.
  \<^item> \<open>TrimSpace\<close>, \<open>EqualFold\<close> and \<open>ToUpper\<close> act on ASCII. \<open>sort.Slice\<close> is insertion sort; where the
    comparison is not total on the data, the result is one of those Go allows.
  \<^item> A command's payload is the decoded struct, since the code that reads it only decodes what the
    code that wrote it encoded; the wire types share the records of the domain where the fields agree.
  \<^item> An error is \<open>Inl\<close> of a \<open>go_error\<close>: the sentinel errors are constructors, wrapped errors carry
    their text. A method of the store returns its result and the new store.
  \<^item> Parameters: the write of the snapshot file (\<open>save\<close>), random identifiers, the clock, the hash of
    tokens, the object store, the parser of image references, the answers of the metadata store.
    The clock is read once per handler, and once per job in a pass of the controller.
  \<^item> Every method of the durable store holds its lock, so calls are atomic steps; the two transactions
    of an upload are separate, with any steps in between. One pass of the controller is modelled
    without other requests between its jobs.
  \<^item> Outside the process there is an open world of any type. The Docker API, NVML, the transport and the
    database are functions of it, the calls that change a host are logged (\<open>dk_calls\<close>), and files are
    what was last written, a write being able to fail at each of its steps.
  \<^item> The database may fail at any statement and may lose the answer to a commit (\<open>Driver\<close>). Requests of
    the HTTP API run one at a time, except that others may run during an upload. The ticks of an agent
    are atomic, but it may crash between any two of their events; bodies in JSON are the values they decode
    to, and paths are clean, so the mux does not redirect.
  \<^item> Predicates that only serve a statement (such as \<open>request_ok\<close>, \<open>device_entry\<close>, \<open>made_for\<close>) spell it out
    over fields, settings and answers, apart from the functions of the program they are about.
  \<^item> The life of an agent is bounded where the code is: that an acknowledged command never runs again
    asks that fewer commands were executed than the history keeps, and that inventory numbers, of 64
    bits, increase asks for a life of fewer than \<open>2 ^ 64\<close> events. Likewise revisions, of 64 bits, tell the
    states of a job apart for as many steps of the repository.
  \<^item> \<open>ParseFloat\<close> also yields NaN and the infinities (\<open>go_float\<close>), whose comparisons are those of Go.
  \<^item> Every recursion ends: it is structural, or ends by a measure (the digits of a number, the length of
    the text for the parsers of durations and cgroups, the size of the history for its pruning). No fuel
    is used. The endless loops of the programs are their ticks.

  \<^bold>\<open>Not modelled.\<close> Logging, signals and the graceful shutdown, the access log, the recovery of panics and
  the timeouts of the HTTP server: they do not change the state. The libraries the repository calls (Docker
  SDK, minio, NVML, pgx, gob, image references) are parameters. The event stream of Docker only chooses
  when an inventory runs. The readers for other systems than Linux only return an error. The file lock of
  the durable store, and the opening and migration of the database, are input and output.
\<close>

end
